(* ===== verification/Go_Prelude.thy ===== *)
theory Go_Prelude
  imports Complex_Main "HOL-Library.Word" "HOL-Library.Finite_Map" "HOL-Library.List_Lexorder"
begin

text \<open>
  The prelude of the development: the Go types the node uses (byte slices, \<open>int64\<close>,
  \<open>uint64\<close>), Go's truncating division, big-endian encodings (\<open>encoding/binary\<close>),
  errors as values, the two result disciplines (pure reads and state-changing operations) and the
  generic lemmas on them that the component theories share.

  Conventions:
  \<^item> \<open>int64\<close> and \<open>uint64\<close> are both \<open>64 word\<close>; signed readings go through \<open>sint\<close>,
    unsigned ones through \<open>unat\<close>; \<open>+\<close>, \<open>-\<close>, \<open>*\<close> wrap as in Go.
  \<^item> An operation that only reads its state has type \<open>state \<Rightarrow> 'a result\<close>; one that may write it
    has type \<open>state \<Rightarrow> 'a result \<times> state\<close>. The state is returned on the error path too: a Go
    handler that fails half way has already written what it wrote.
\<close>

section \<open>Types\<close>

type_synonym byte = "8 word"
type_synonym bytes = "byte list"
type_synonym int64 = "64 word"
type_synonym uint64 = "64 word"
type_synonym int32 = "32 word"
type_synonym u256 = "256 word"

named_theorems monad_simps \<open>unfolding rules of the two result disciplines\<close>
named_theorems int64_simps \<open>signed readings of 64-bit arithmetic\<close>
named_theorems key_simps \<open>definitions of database keys\<close>

section \<open>Errors and results\<close>

text \<open>
  Sentinel errors keep their names. \<open>Err m\<close> is \<open>errors.New m\<close> (or \<open>fmt.Errorf\<close> with the
  format string \<open>m\<close> and no wrapped error), \<open>Wrap m e\<close> is \<open>fmt.Errorf\<close> with a \<open>%w\<close> operand.
  \<open>Panic m\<close> stands for a Go run-time panic, which no \<open>err != nil\<close> test of the source catches.
  \<open>OutOfFuel\<close> is the model's own: the interpreter was given fewer steps than it needs.
\<close>

datatype error =
    ErrNotFound
  | ErrMarshal
  | ErrUnmarshal
  | ErrInsufficientBalance
  | ErrUnlinked
  | ErrNoCommonAncestor
  | ErrTxTrieRootMismatch
  | Err string
  | Wrap string error
  | Panic string
  | OutOfFuel

fun is_panic :: "error \<Rightarrow> bool" where
  "is_panic (Panic _) = True"
| "is_panic (Wrap _ e) = is_panic e"
| "is_panic _ = False"

type_synonym 'a result = "error + 'a"

definition bindE :: "'a result \<Rightarrow> ('a \<Rightarrow> 'b result) \<Rightarrow> 'b result" where
  "bindE r f = (case r of Inl e \<Rightarrow> Inl e | Inr x \<Rightarrow> f x)"

lemma bindE_simps [simp]:
  "bindE (Inl e) f = Inl e"
  "bindE (Inr x) f = f x"
  by (simp_all add: bindE_def)

lemma bindE_eq_Inr: "bindE r f = Inr y \<longleftrightarrow> (\<exists>x. r = Inr x \<and> f x = Inr y)"
  by (cases r) auto

lemma bindE_eq_Inl: "bindE r f = Inl e \<longleftrightarrow> r = Inl e \<or> (\<exists>x. r = Inr x \<and> f x = Inl e)"
  by (cases r) auto

text \<open>\<open>check b e\<close> is \<open>if b { return e }\<close>; \<open>wrapE\<close> rewraps an error as \<open>fmt.Errorf\<close> does.\<close>

definition check :: "bool \<Rightarrow> error \<Rightarrow> unit result" where
  "check b e = (if b then Inl e else Inr ())"

lemma check_simps [simp]:
  "check True e = Inl e"
  "check False e = Inr ()"
  "check b e = Inr u \<longleftrightarrow> \<not> b"
  "check b e = Inl e' \<longleftrightarrow> b \<and> e' = e"
  by (auto simp: check_def)

lemma bindE_check [simp]: "bindE (check b e) f = (if b then Inl e else f ())"
  by (simp add: check_def)

definition wrapE :: "string \<Rightarrow> 'a result \<Rightarrow> 'a result" where
  "wrapE m r = (case r of Inl e \<Rightarrow> Inl (Wrap m e) | Inr x \<Rightarrow> Inr x)"

lemma wrapE_simps [simp]:
  "wrapE m (Inl e) = Inl (Wrap m e)"
  "wrapE m (Inr x) = Inr x"
  "wrapE m r = Inr x \<longleftrightarrow> r = Inr x"
  by (cases r; simp add: wrapE_def)+

text \<open>State-changing operations.\<close>

type_synonym ('s, 'a) op = "'s \<Rightarrow> 'a result \<times> 's"

definition returnM :: "'a \<Rightarrow> ('s, 'a) op" where
  "returnM x = (\<lambda>s. (Inr x, s))"

definition throwM :: "error \<Rightarrow> ('s, 'a) op" where
  "throwM e = (\<lambda>s. (Inl e, s))"

definition bindM :: "('s, 'a) op \<Rightarrow> ('a \<Rightarrow> ('s, 'b) op) \<Rightarrow> ('s, 'b) op" where
  "bindM m f = (\<lambda>s. case m s of (Inl e, s') \<Rightarrow> (Inl e, s') | (Inr x, s') \<Rightarrow> f x s')"

definition readM :: "('s \<Rightarrow> 'a result) \<Rightarrow> ('s, 'a) op" where
  "readM r = (\<lambda>s. (r s, s))"

definition liftM :: "'a result \<Rightarrow> ('s, 'a) op" where
  "liftM r = (\<lambda>s. (r, s))"

definition wrapM :: "string \<Rightarrow> ('s, 'a) op \<Rightarrow> ('s, 'a) op" where
  "wrapM msg m = (\<lambda>s. case m s of (r, s') \<Rightarrow> (wrapE msg r, s'))"

text \<open>\<open>tryR\<close> is a read whose error the caller inspects itself (\<open>if errors.Is(err, ...)\<close>).\<close>

definition tryR :: "('s \<Rightarrow> 'a result) \<Rightarrow> ('s, 'a result) op" where
  "tryR r = (\<lambda>s. (Inr (r s), s))"

fun forM :: "'a list \<Rightarrow> ('a \<Rightarrow> ('s, unit) op) \<Rightarrow> ('s, unit) op" where
  "forM [] f = returnM ()"
| "forM (x # xs) f = bindM (f x) (\<lambda>_. forM xs f)"

lemma returnM_apply [simp, monad_simps]: "returnM x s = (Inr x, s)"
  by (simp add: returnM_def)

lemma throwM_apply [simp, monad_simps]: "throwM e s = (Inl e, s)"
  by (simp add: throwM_def)

lemma readM_apply [simp, monad_simps]: "readM r s = (r s, s)"
  by (simp add: readM_def)

lemma tryR_apply [simp, monad_simps]: "tryR r s = (Inr (r s), s)"
  by (simp add: tryR_def)

lemma liftM_apply [simp, monad_simps]: "liftM r s = (r, s)"
  by (simp add: liftM_def)

lemma bindM_apply [monad_simps]:
  "bindM m f s = (case m s of (Inl e, s') \<Rightarrow> (Inl e, s') | (Inr x, s') \<Rightarrow> f x s')"
  by (simp add: bindM_def)

lemma wrapM_apply [monad_simps]: "wrapM msg m s = (case m s of (r, s') \<Rightarrow> (wrapE msg r, s'))"
  by (simp add: wrapM_def)

lemma bindM_Inr: "m s = (Inr x, s') \<Longrightarrow> bindM m f s = f x s'"
  by (simp add: bindM_def)

lemma bindM_Inl: "m s = (Inl e, s') \<Longrightarrow> bindM m f s = (Inl e, s')"
  by (simp add: bindM_def)

lemma bindM_readM [simp]:
  "bindM (readM r) f s = (case r s of Inl e \<Rightarrow> (Inl e, s) | Inr x \<Rightarrow> f x s)"
  by (simp add: bindM_def split: sum.splits)

lemma bindM_tryR [simp]: "bindM (tryR r) f s = f (r s) s"
  by (simp add: bindM_def)

lemma bindM_liftM [simp]:
  "bindM (liftM r) f s = (case r of Inl e \<Rightarrow> (Inl e, s) | Inr x \<Rightarrow> f x s)"
  by (simp add: bindM_def split: sum.splits)

lemma bindM_returnM [simp]: "bindM (returnM x) f s = f x s"
  by (simp add: bindM_def)

lemma bindM_throwM [simp]: "bindM (throwM e) f s = (Inl e, s)"
  by (simp add: bindM_def)

lemma bindM_success:
  assumes "bindM m f s = (Inr y, s'')"
  obtains x s' where "m s = (Inr x, s')" "f x s' = (Inr y, s'')"
  using assms by (auto simp: bindM_def split: prod.splits sum.splits)

lemma bindM_assoc: "bindM (bindM m f) g = bindM m (\<lambda>x. bindM (f x) g)"
  by (auto simp: bindM_def fun_eq_iff split: prod.splits sum.splits)

text \<open>A property of the state that every step of a composite operation keeps is kept by it.\<close>

definition keeps :: "('s \<Rightarrow> bool) \<Rightarrow> ('s, 'a) op \<Rightarrow> bool" where
  "keeps P m \<longleftrightarrow> (\<forall>s. P s \<longrightarrow> P (snd (m s)))"

named_theorems keeps_intros \<open>preservation rules for state-changing operations\<close>

lemma keepsD: "keeps P m \<Longrightarrow> P s \<Longrightarrow> P (snd (m s))"
  by (simp add: keeps_def)

lemma keeps_returnM [keeps_intros, intro]: "keeps P (returnM x)"
  by (simp add: keeps_def)

lemma keeps_throwM [keeps_intros, intro]: "keeps P (throwM e)"
  by (simp add: keeps_def)

lemma keeps_readM [keeps_intros, intro]: "keeps P (readM r)"
  by (simp add: keeps_def)

lemma keeps_tryR [keeps_intros, intro]: "keeps P (tryR r)"
  by (simp add: keeps_def)

lemma keeps_liftM [keeps_intros, intro]: "keeps P (liftM r)"
  by (simp add: keeps_def)

lemma keeps_bindM [keeps_intros, intro]:
  assumes "keeps P m" "\<And>x. keeps P (f x)"
  shows "keeps P (bindM m f)"
  unfolding keeps_def
proof (intro allI impI)
  fix s assume "P s"
  obtain r s' where ms: "m s = (r, s')" by force
  with assms(1) \<open>P s\<close> have "P s'" by (auto simp: keeps_def dest: spec [of _ s])
  with ms assms(2) show "P (snd (bindM m f s))"
    by (cases r) (auto simp: bindM_def keeps_def)
qed

lemma keeps_wrapM [keeps_intros, intro]: "keeps P m \<Longrightarrow> keeps P (wrapM msg m)"
  by (auto simp: keeps_def wrapM_def split_beta)

lemma keeps_forM [keeps_intros, intro]: "(\<And>x. x \<in> set xs \<Longrightarrow> keeps P (f x)) \<Longrightarrow> keeps P (forM xs f)"
  by (induction xs) (auto intro!: keeps_bindM)

lemma keeps_if [keeps_intros, intro]: "(b \<Longrightarrow> keeps P m) \<Longrightarrow> (\<not> b \<Longrightarrow> keeps P n) \<Longrightarrow> keeps P (if b then m else n)"
  by simp

lemma keeps_case_sum [keeps_intros]:
  "(\<And>e. r = Inl e \<Longrightarrow> keeps P (f e)) \<Longrightarrow> (\<And>x. r = Inr x \<Longrightarrow> keeps P (g x)) \<Longrightarrow>
   keeps P (case r of Inl e \<Rightarrow> f e | Inr x \<Rightarrow> g x)"
  by (cases r) auto

lemma keeps_case_option [keeps_intros]:
  "(r = None \<Longrightarrow> keeps P f) \<Longrightarrow> (\<And>x. r = Some x \<Longrightarrow> keeps P (g x)) \<Longrightarrow>
   keeps P (case r of None \<Rightarrow> f | Some x \<Rightarrow> g x)"
  by (cases r) auto

lemma keeps_case_prod [keeps_intros]:
  "(\<And>x y. r = (x, y) \<Longrightarrow> keeps P (f x y)) \<Longrightarrow> keeps P (case r of (x, y) \<Rightarrow> f x y)"
  by (cases r) auto

text \<open>
  \<open>runs P m\<close>: started in a state with \<open>P\<close>, the operation succeeds and keeps \<open>P\<close>. With \<open>P\<close> saying
  what may have changed since some point, this is success and frame in one judgement.
\<close>

definition runs :: "('s \<Rightarrow> bool) \<Rightarrow> ('s, 'a) op \<Rightarrow> bool" where
  "runs P m \<longleftrightarrow> (\<forall>s. P s \<longrightarrow> (\<exists>x s'. m s = (Inr x, s') \<and> P s'))"

named_theorems runs_intros \<open>success rules for state-changing operations\<close>

lemma runsD: "runs P m \<Longrightarrow> P s \<Longrightarrow> \<exists>x s'. m s = (Inr x, s') \<and> P s'"
  by (simp add: runs_def)

lemma runs_returnM [runs_intros]: "runs P (returnM x)"
  by (simp add: runs_def)

lemma runs_tryR [runs_intros]: "runs P (tryR r)"
  by (simp add: runs_def)

lemma runs_readM: "(\<And>s. P s \<Longrightarrow> \<exists>x. r s = Inr x) \<Longrightarrow> runs P (readM r)"
  by (simp add: runs_def)

lemma runs_bindM [runs_intros]: "runs P m \<Longrightarrow> (\<And>x. runs P (f x)) \<Longrightarrow> runs P (bindM m f)"
  unfolding runs_def by (metis bindM_Inr)

lemma runs_if [runs_intros]: "(b \<Longrightarrow> runs P m) \<Longrightarrow> (\<not> b \<Longrightarrow> runs P n) \<Longrightarrow> runs P (if b then m else n)"
  by simp

lemma runs_case_sum [runs_intros]:
  "(\<And>e. r = Inl e \<Longrightarrow> runs P (f e)) \<Longrightarrow> (\<And>x. r = Inr x \<Longrightarrow> runs P (g x)) \<Longrightarrow>
   runs P (case r of Inl e \<Rightarrow> f e | Inr x \<Rightarrow> g x)"
  by (cases r) auto

section \<open>Signed 64-bit arithmetic\<close>

definition in_int64 :: "int \<Rightarrow> bool" where
  "in_int64 x \<longleftrightarrow> - (2 ^ 63) \<le> x \<and> x < 2 ^ 63"

lemma sint64_range: "in_int64 (sint (x :: int64))"
  using sint_ge [of x] sint_lt [of x] by (simp add: in_int64_def)

lemma sint64_lower: "- 9223372036854775808 \<le> sint (x :: int64)"
  and sint64_upper: "sint (x :: int64) \<le> 9223372036854775807"
  using sint64_range [of x] by (simp_all add: in_int64_def)

lemma sint_word_of_int: "in_int64 x \<Longrightarrow> sint (word_of_int x :: int64) = x"
  by (simp add: in_int64_def signed_of_int signed_take_bit_int_eq_self)

lemma sint64_add [int64_simps]:
  "in_int64 (sint (a :: int64) + sint b) \<Longrightarrow> sint (a + b) = sint a + sint b"
proof -
  assume "in_int64 (sint a + sint b)"
  then have "sint (word_of_int (sint a + sint b) :: int64) = sint a + sint b" by (rule sint_word_of_int)
  then show ?thesis by simp
qed

lemma sint64_sub [int64_simps]:
  "in_int64 (sint (a :: int64) - sint b) \<Longrightarrow> sint (a - b) = sint a - sint b"
proof -
  assume "in_int64 (sint a - sint b)"
  then have "sint (word_of_int (sint a - sint b) :: int64) = sint a - sint b" by (rule sint_word_of_int)
  then show ?thesis by simp
qed

lemma sint64_mult [int64_simps]:
  "in_int64 (sint (a :: int64) * sint b) \<Longrightarrow> sint (a * b) = sint a * sint b"
proof -
  assume "in_int64 (sint a * sint b)"
  then have "sint (word_of_int (sint a * sint b) :: int64) = sint a * sint b" by (rule sint_word_of_int)
  then show ?thesis by simp
qed

lemma sint64_minus [int64_simps]:
  "in_int64 (- sint (a :: int64)) \<Longrightarrow> sint (- a) = - sint a"
proof -
  assume "in_int64 (- sint a)"
  then have "sint (word_of_int (- sint a) :: int64) = - sint a" by (rule sint_word_of_int)
  then show ?thesis by simp
qed

text \<open>Go's integer division truncates towards zero.\<close>

definition tquot :: "int \<Rightarrow> int \<Rightarrow> int" where
  "tquot a b = sgn a * sgn b * (\<bar>a\<bar> div \<bar>b\<bar>)"

definition quot64 :: "int64 \<Rightarrow> int64 \<Rightarrow> int64" where
  "quot64 a b = word_of_int (tquot (sint a) (sint b))"

lemma tquot_nonneg: "0 \<le> a \<Longrightarrow> 0 < b \<Longrightarrow> tquot a b = a div b"
  by (cases "a = 0") (simp_all add: tquot_def)

lemma tquot_minus [simp]: "tquot (- a) b = - tquot a b"
  by (simp add: tquot_def)

lemma abs_tquot_le: "0 < b \<Longrightarrow> \<bar>tquot a b\<bar> \<le> \<bar>a\<bar>"
  by (cases "a = 0") (auto simp: tquot_def abs_mult abs_sgn_eq pos_imp_zdiv_nonneg_iff intro: int_div_le_self)

lemma sint_quot64 [int64_simps]:
  assumes "0 < sint b" shows "sint (quot64 a b) = tquot (sint a) (sint b)"
proof (cases "sint a = - (2 ^ 63) \<and> sint b = 1")
  case True
  then show ?thesis
    by (simp add: quot64_def tquot_def sgn_if sint_word_of_int in_int64_def)
next
  case False
  have "in_int64 (tquot (sint a) (sint b))"
  proof (cases "0 \<le> sint a")
    case True
    then have "0 \<le> tquot (sint a) (sint b)" "tquot (sint a) (sint b) \<le> sint a"
      using assms by (cases "sint a = 0"; simp add: tquot_nonneg pos_imp_zdiv_nonneg_iff int_div_le_self)+
    then show ?thesis using sint64_range [of a] by (auto simp: in_int64_def)
  next
    case neg: False
    have "\<bar>tquot (sint a) (sint b)\<bar> \<le> \<bar>sint a\<bar>"
      by (rule abs_tquot_le [OF assms])
    moreover have "tquot (sint a) (sint b) \<le> 0"
      using neg assms by (simp add: tquot_def sgn_if pos_imp_zdiv_nonneg_iff)
    ultimately show ?thesis using sint64_range [of a] neg by (auto simp: in_int64_def)
  qed
  then show ?thesis by (simp add: quot64_def sint_word_of_int)
qed

text \<open>Division by a value that may be zero panics.\<close>

definition quotE :: "int64 \<Rightarrow> int64 \<Rightarrow> int64 result" where
  "quotE a b = (if b = 0 then Inl (Panic ''integer divide by zero'') else Inr (quot64 a b))"

definition slt :: "int64 \<Rightarrow> int64 \<Rightarrow> bool" where
  "slt a b \<longleftrightarrow> sint a < sint b"

definition sle :: "int64 \<Rightarrow> int64 \<Rightarrow> bool" where
  "sle a b \<longleftrightarrow> sint a \<le> sint b"

lemmas scmp_defs = slt_def sle_def

section \<open>Big-endian encodings\<close>

text \<open>
  \<open>nat_to_be k n\<close> is the \<open>k\<close>-byte big-endian form of \<open>n\<close>; \<open>be_to_nat\<close> reads a byte slice as an
  unsigned big-endian number (\<open>binary.BigEndian.Uint64\<close>, \<open>big.Int.SetBytes\<close>).
\<close>

fun nat_to_be :: "nat \<Rightarrow> nat \<Rightarrow> bytes" where
  "nat_to_be 0 n = []"
| "nat_to_be (Suc k) n = nat_to_be k (n div 256) @ [word_of_nat (n mod 256)]"

definition be_to_nat :: "bytes \<Rightarrow> nat" where
  "be_to_nat bs = foldl (\<lambda>a b. a * 256 + unat b) 0 bs"

lemma length_nat_to_be [simp]: "length (nat_to_be k n) = k"
  by (induction k arbitrary: n) auto

lemma be_to_nat_Nil [simp]: "be_to_nat [] = 0"
  by (simp add: be_to_nat_def)

lemma be_to_nat_snoc [simp]: "be_to_nat (bs @ [b]) = be_to_nat bs * 256 + unat b"
  by (simp add: be_to_nat_def)

lemma unat_byte_lt: "unat (b :: byte) < 256"
  using unsigned_less [of b, where 'a = nat] by simp

lemma be_to_nat_nat_to_be [simp]: "be_to_nat (nat_to_be k n) = n mod 256 ^ k"
proof (induction k arbitrary: n)
  case 0
  then show ?case by simp
next
  case (Suc k)
  have "n mod (256 * 256 ^ k) = 256 * (n div 256 mod 256 ^ k) + n mod 256"
    by (rule mod_mult2_eq)
  then show ?case by (simp add: Suc unat_of_nat take_bit_eq_mod algebra_simps)
qed

lemma be_to_nat_bound: "be_to_nat bs < 256 ^ length bs"
proof (induction bs rule: rev_induct)
  case Nil
  then show ?case by simp
next
  case (snoc b bs)
  then show ?case using unat_byte_lt [of b] by simp
qed

definition PutUint64 :: "uint64 \<Rightarrow> bytes" where
  "PutUint64 w = nat_to_be 8 (unat w)"

definition Uint64 :: "bytes \<Rightarrow> uint64" where
  "Uint64 bs = word_of_nat (be_to_nat bs)"

lemma length_PutUint64 [simp]: "length (PutUint64 w) = 8"
  by (simp add: PutUint64_def)

lemma Uint64_PutUint64 [simp]: "Uint64 (PutUint64 w) = w"
proof -
  have "unat w mod 256 ^ 8 = unat w"
    using unsigned_less [of w, where 'a = nat] by simp
  then show ?thesis by (simp add: PutUint64_def Uint64_def del: be_to_nat_nat_to_be add: be_to_nat_nat_to_be [where k = 8])
qed

lemma PutUint64_inject [simp]: "PutUint64 v = PutUint64 w \<longleftrightarrow> v = w"
  by (metis Uint64_PutUint64)

section \<open>Positional notation and big integers\<close>

text \<open>
  Numbers written most significant digit first, without leading zeros. The locale relates a digit
  generator to the evaluation of a digit string; bytes (\<open>big.Int\<close>) and base 58 are its instances.
\<close>

locale positional =
  fixes B :: nat and val :: "'a \<Rightarrow> nat" and sym :: "nat \<Rightarrow> 'a" and ok :: "'a \<Rightarrow> bool"
    and digits :: "nat \<Rightarrow> 'a list" and num :: "'a list \<Rightarrow> nat"
  assumes base: "1 < B"
    and val_sym: "n < B \<Longrightarrow> val (sym n) = n \<and> ok (sym n)"
    and sym_val: "ok x \<Longrightarrow> val x < B \<and> sym (val x) = x"
    and digits_step: "digits n = (if n = 0 then [] else digits (n div B) @ [sym (n mod B)])"
    and num_Nil: "num [] = 0"
    and num_snoc: "ok x \<Longrightarrow> num (xs @ [x]) = num xs * B + val x"
begin

lemma digits_0: "digits 0 = []"
  by (subst digits_step) simp

lemma digits_ok: "x \<in> set (digits n) \<Longrightarrow> ok x"
proof (induction n rule: less_induct)
  case (less n)
  show ?case
  proof (cases "n = 0")
    case True
    with less show ?thesis by (simp add: digits_0)
  next
    case False
    have "n div B < n" "n mod B < B" using False base by simp_all
    with less False val_sym [of "n mod B"] show ?thesis by (subst (asm) (2) digits_step) auto
  qed
qed

lemma num_digits: "num (digits n) = n"
proof (induction n rule: less_induct)
  case (less n)
  show ?case
  proof (cases "n = 0")
    case True
    then show ?thesis by (simp add: digits_0 num_Nil)
  next
    case False
    have "n div B < n" "n mod B < B" using False base by simp_all
    with less False val_sym [of "n mod B"] show ?thesis by (subst digits_step) (simp add: num_snoc)
  qed
qed

lemma digits_num: "\<forall>x \<in> set xs. ok x \<Longrightarrow> digits (num xs) = dropWhile (\<lambda>x. val x = 0) xs"
proof (induction xs rule: rev_induct)
  case Nil
  then show ?case by (simp add: num_Nil digits_0)
next
  case (snoc x xs)
  then have IH: "digits (num xs) = dropWhile (\<lambda>x. val x = 0) xs" and x: "val x < B" "sym (val x) = x"
    and n: "num (xs @ [x]) = num xs * B + val x"
    using sym_val [of x] by (simp_all add: num_snoc)
  have all0: "num xs = 0" if "\<forall>y \<in> set xs. val y = 0"
  proof -
    have "dropWhile (\<lambda>x. val x = 0) xs = []" using that by simp
    with IH have "num (digits (num xs)) = 0" by (simp add: num_Nil)
    then show ?thesis by (simp add: num_digits)
  qed
  have nz: "num xs \<noteq> 0" if "y \<in> set xs" "val y \<noteq> 0" for y
  proof
    assume "num xs = 0"
    with IH have "dropWhile (\<lambda>x. val x = 0) xs = []" by (simp add: digits_0)
    with that show False by (simp add: dropWhile_eq_Nil_conv)
  qed
  show ?case
  proof (cases "\<forall>y \<in> set xs. val y = 0")
    case True
    with all0 n x show ?thesis
      by (subst digits_step) (auto simp: digits_0 dropWhile_append)
  next
    case False
    then obtain y where y: "y \<in> set xs" "val y \<noteq> 0" by blast
    with nz n x IH base show ?thesis
      by (subst digits_step) (auto simp: dropWhile_append1 [OF y(1)])
  qed
qed

lemma digits_canonical: "dropWhile (\<lambda>x. val x = 0) (digits n) = digits n"
  using digits_num [of "digits n"] digits_ok by (simp add: num_digits)

end

text \<open>
  \<open>big.Int.Bytes\<close> is the minimal big-endian form of the absolute value; \<open>SetBytes\<close> reads it back as
  a nonnegative number. \<open>big.Int.Div\<close> is Euclidean division.
\<close>

fun nat_bytes :: "nat \<Rightarrow> bytes" where
  "nat_bytes n = (if n = 0 then [] else nat_bytes (n div 256) @ [word_of_nat (n mod 256)])"

declare nat_bytes.simps [simp del]

interpretation bigbytes: positional 256 "unat :: byte \<Rightarrow> nat" word_of_nat "\<lambda>_. True" nat_bytes be_to_nat
proof
  fix n x
  show "(n::nat) < 256 \<Longrightarrow> unat (word_of_nat n :: byte) = n \<and> True"
    by (simp add: unat_of_nat take_bit_eq_mod)
  show "True \<Longrightarrow> unat (x::byte) < 256 \<and> word_of_nat (unat x) = x"
    by (simp add: unat_byte_lt)
  show "nat_bytes n = (if n = 0 then [] else nat_bytes (n div 256) @ [word_of_nat (n mod 256)])"
    by (subst nat_bytes.simps) simp
qed simp_all

lemma be_to_nat_nat_bytes [simp]: "be_to_nat (nat_bytes n) = n"
  by (rule bigbytes.num_digits)

definition big_Bytes :: "int \<Rightarrow> bytes" where
  "big_Bytes v = nat_bytes (nat \<bar>v\<bar>)"

definition big_SetBytes :: "bytes \<Rightarrow> int" where
  "big_SetBytes b = int (be_to_nat b)"

lemma big_SetBytes_Bytes [simp]: "big_SetBytes (big_Bytes v) = \<bar>v\<bar>"
  by (simp add: big_SetBytes_def big_Bytes_def)

definition big_Div :: "int \<Rightarrow> int \<Rightarrow> int" where
  "big_Div a b = sgn b * (a div \<bar>b\<bar>)"

section \<open>Literals\<close>

text \<open>ASCII literals of the source as byte slices.\<close>

definition ascii :: "string \<Rightarrow> bytes" where
  "ascii s = map (\<lambda>c. of_char c) s"

lemma ascii_simps:
  "ascii [] = []"
  "ascii (c # cs) = of_char c # ascii cs"
  by (simp_all add: ascii_def)

lemma of_char_byte_eq: "(of_char c :: byte) = of_char d \<longleftrightarrow> c = d"
proof
  assume "(of_char c :: byte) = of_char d"
  then have "(word_of_nat (of_char c) :: byte) = word_of_nat (of_char d)"
    by (simp add: of_nat_of_char)
  moreover have "(of_char x :: nat) < 2 ^ LENGTH(8)" for x
    using nat_of_char_less_256 [of x] by simp
  ultimately have "(of_char c :: nat) = of_char d"
    by (metis of_nat_inverse)
  then show "c = d" by simp
qed simp

lemma ascii_eq_iff [simp]: "ascii s = ascii t \<longleftrightarrow> s = t"
  by (auto simp: ascii_def inj_on_def of_char_byte_eq dest!: map_injective [rotated] intro!: injI)

section \<open>Lists\<close>

lemma sum_list_le_add_int: "(\<And>x. x \<in> set xs \<Longrightarrow> 0 \<le> f x) \<Longrightarrow> 0 \<le> sum_list (map f xs)" for f :: "'a \<Rightarrow> int"
  by (induction xs) auto

lemma filter_eq_self: "(\<And>x. x \<in> set xs \<Longrightarrow> P x) \<Longrightarrow> filter P xs = xs"
  by (simp add: filter_id_conv)

end
