(* ===== verification/Proto_Messages.thy ===== *)
theory Proto_Messages
  imports Go_Prelude
begin

text \<open>
  The protocol messages of \<open>internal/proto/core\<close> that the node's own code reads or writes, as records
  (field names carry a message prefix: \<open>ac_\<close> Account, \<open>ar_\<close> AccountResource, \<open>w_\<close> Witness, and so
  on). Message fields that no hand-written code of the repository touches are carried, unread, in
  one opaque \<open>_rest\<close> field per message, so that a read-modify-write of a record keeps them as the
  source does. A pointer to a sub-message that may be nil is an \<open>option\<close>; the generated nil-safe
  getters are the \<open>Get...\<close> functions below.

  The protobuf runtime (\<open>google.golang.org/protobuf\<close>) is not part of the repository. It is the
  parameter \<open>codec\<close>: one marshal / unmarshal pair per stored message and one \<open>UnmarshalTo\<close> per
  contract type. What the stores rely on is \<open>codec_ok\<close>: marshalling a message succeeds and
  unmarshalling the bytes gives the message back.
\<close>

section \<open>Enumerations\<close>

text \<open>proto3 enums are open: a value outside the declared set is kept as its number.\<close>

datatype ResourceCode = BANDWIDTH | ENERGY | TRON_POWER | ResourceCode_Other int32

datatype AccountType = Normal | AssetIssue | Contract | AccountType_Other int32

datatype ContractType =
    TransferContract
  | CreateSmartContract
  | TriggerSmartContract
  | FreezeBalanceContract
  | UnfreezeBalanceContract
  | FreezeBalanceV2Contract
  | UnfreezeBalanceV2Contract
  | WithdrawExpireUnfreezeContract
  | DelegateResourceContract
  | UnDelegateResourceContract
  | VoteWitnessContract
  | WithdrawBalanceContract
  | ContractType_Other int32

section \<open>Account state\<close>

record Frozen =
  fz_FrozenBalance :: int64
  fz_ExpireTime :: int64

record FreezeV2 =
  f2_Type :: ResourceCode
  f2_Amount :: int64

record UnFreezeV2 =
  u2_Type :: ResourceCode
  u2_UnfreezeAmount :: int64
  u2_UnfreezeExpireTime :: int64

record Vote =
  v_VoteAddress :: bytes
  v_VoteCount :: int64

record Key =
  k_Address :: bytes
  k_Weight :: int64

record Permission =
  pm_Type :: int32
  pm_Id :: int32
  pm_PermissionName :: bytes
  pm_Threshold :: int64
  pm_ParentId :: int32
  pm_Operations :: bytes
  pm_Keys :: "Key list"

record AccountResource =
  ar_EnergyUsage :: int64
  ar_FrozenBalanceForEnergy :: "Frozen option"
  ar_LatestConsumeTimeForEnergy :: int64
  ar_AcquiredDelegatedFrozenBalanceForEnergy :: int64
  ar_DelegatedFrozenBalanceForEnergy :: int64
  ar_EnergyWindowSize :: int64
  ar_DelegatedFrozenV2BalanceForEnergy :: int64
  ar_AcquiredDelegatedFrozenV2BalanceForEnergy :: int64
  ar_EnergyWindowOptimized :: bool
  ar_rest :: bytes

record Account =
  ac_Type :: AccountType
  ac_Address :: bytes
  ac_Balance :: int64
  ac_Votes :: "Vote list"
  ac_Frozen :: "Frozen list"
  ac_AcquiredDelegatedFrozenBalanceForBandwidth :: int64
  ac_DelegatedFrozenBalanceForBandwidth :: int64
  ac_Allowance :: int64
  ac_LatestWithdrawTime :: int64
  ac_AccountResource :: "AccountResource option"
  ac_OwnerPermission :: "Permission option"
  ac_WitnessPermission :: "Permission option"
  ac_ActivePermission :: "Permission list"
  ac_FrozenV2 :: "FreezeV2 list"
  ac_UnfrozenV2 :: "UnFreezeV2 list"
  ac_DelegatedFrozenV2BalanceForBandwidth :: int64
  ac_AcquiredDelegatedFrozenV2BalanceForBandwidth :: int64
  ac_rest :: bytes

record Witness =
  w_Address :: bytes
  w_VoteCount :: int64
  w_Url :: bytes
  w_rest :: bytes

record Votes =
  vs_Address :: bytes
  vs_OldVotes :: "Vote list"
  vs_NewVotes :: "Vote list"

record DelegatedResource =
  dr_From :: bytes
  dr_To :: bytes
  dr_FrozenBalanceForBandwidth :: int64
  dr_FrozenBalanceForEnergy :: int64
  dr_ExpireTimeForBandwidth :: int64
  dr_ExpireTimeForEnergy :: int64

record DelegatedResourceAccountIndex =
  di_Account :: bytes
  di_FromAccounts :: "bytes list"
  di_ToAccounts :: "bytes list"
  di_Timestamp :: int64

text \<open>Zero values: \<open>&core.T{...}\<close> literals set some fields and leave the others at these.\<close>

definition zero_AccountResource :: AccountResource where
  "zero_AccountResource = \<lparr>ar_EnergyUsage = 0, ar_FrozenBalanceForEnergy = None,
     ar_LatestConsumeTimeForEnergy = 0, ar_AcquiredDelegatedFrozenBalanceForEnergy = 0,
     ar_DelegatedFrozenBalanceForEnergy = 0, ar_EnergyWindowSize = 0,
     ar_DelegatedFrozenV2BalanceForEnergy = 0, ar_AcquiredDelegatedFrozenV2BalanceForEnergy = 0,
     ar_EnergyWindowOptimized = False, ar_rest = []\<rparr>"

definition zero_Account :: Account where
  "zero_Account = \<lparr>ac_Type = Normal, ac_Address = [], ac_Balance = 0, ac_Votes = [],
     ac_Frozen = [], ac_AcquiredDelegatedFrozenBalanceForBandwidth = 0,
     ac_DelegatedFrozenBalanceForBandwidth = 0, ac_Allowance = 0, ac_LatestWithdrawTime = 0,
     ac_AccountResource = None, ac_OwnerPermission = None, ac_WitnessPermission = None,
     ac_ActivePermission = [], ac_FrozenV2 = [], ac_UnfrozenV2 = [],
     ac_DelegatedFrozenV2BalanceForBandwidth = 0,
     ac_AcquiredDelegatedFrozenV2BalanceForBandwidth = 0, ac_rest = []\<rparr>"

definition zero_Witness :: Witness where
  "zero_Witness = \<lparr>w_Address = [], w_VoteCount = 0, w_Url = [], w_rest = []\<rparr>"

definition zero_DelegatedResource :: DelegatedResource where
  "zero_DelegatedResource = \<lparr>dr_From = [], dr_To = [], dr_FrozenBalanceForBandwidth = 0,
     dr_FrozenBalanceForEnergy = 0, dr_ExpireTimeForBandwidth = 0, dr_ExpireTimeForEnergy = 0\<rparr>"

definition zero_DelegatedResourceAccountIndex :: DelegatedResourceAccountIndex where
  "zero_DelegatedResourceAccountIndex =
     \<lparr>di_Account = [], di_FromAccounts = [], di_ToAccounts = [], di_Timestamp = 0\<rparr>"

text \<open>The nil-safe generated getters on sub-messages.\<close>

definition GetAccountResource :: "Account \<Rightarrow> AccountResource" where
  "GetAccountResource a =
     (case ac_AccountResource a of None \<Rightarrow> zero_AccountResource | Some r \<Rightarrow> r)"

definition GetFrozenBalance :: "Frozen option \<Rightarrow> int64" where
  "GetFrozenBalance f = (case f of None \<Rightarrow> 0 | Some z \<Rightarrow> fz_FrozenBalance z)"

definition GetExpireTime :: "Frozen option \<Rightarrow> int64" where
  "GetExpireTime f = (case f of None \<Rightarrow> 0 | Some z \<Rightarrow> fz_ExpireTime z)"

lemma Get_simps [simp]:
  "GetFrozenBalance None = 0"
  "GetFrozenBalance (Some z) = fz_FrozenBalance z"
  "GetExpireTime None = 0"
  "GetExpireTime (Some z) = fz_ExpireTime z"
  by (simp_all add: GetFrozenBalance_def GetExpireTime_def)

section \<open>Transactions and blocks\<close>

record Any =
  any_TypeUrl :: bytes
  any_Value :: bytes

record Transaction_Contract =
  tc_Type :: ContractType
  tc_Parameter :: "Any option"
  tc_rest :: bytes

record TransactionRaw =
  tr_Contract :: "Transaction_Contract list"
  tr_FeeLimit :: int64
  tr_rest :: bytes

record Transaction =
  tx_RawData :: "TransactionRaw option"
  tx_Signature :: "bytes list"
  tx_rest :: bytes

record BlockHeaderRaw =
  bh_Timestamp :: int64
  bh_TxTrieRoot :: bytes
  bh_ParentHash :: bytes
  bh_Number :: int64
  bh_WitnessId :: int64
  bh_WitnessAddress :: bytes
  bh_Version :: int32
  bh_AccountStateRoot :: bytes

record BlockHeader =
  hd_RawData :: "BlockHeaderRaw option"
  hd_WitnessSignature :: bytes

record Block =
  b_Transactions :: "Transaction list"
  b_BlockHeader :: "BlockHeader option"

definition zero_TransactionRaw :: TransactionRaw where
  "zero_TransactionRaw = \<lparr>tr_Contract = [], tr_FeeLimit = 0, tr_rest = []\<rparr>"

definition zero_BlockHeaderRaw :: BlockHeaderRaw where
  "zero_BlockHeaderRaw = \<lparr>bh_Timestamp = 0, bh_TxTrieRoot = [], bh_ParentHash = [], bh_Number = 0,
     bh_WitnessId = 0, bh_WitnessAddress = [], bh_Version = 0, bh_AccountStateRoot = []\<rparr>"

text \<open>
  \<open>tx.GetRawData()\<close> and \<open>b.GetBlockHeader().GetRawData()\<close>. A nil message answers every getter with
  the zero value and marshals to the empty byte string, as the zero message does.
\<close>

definition GetTxRawData :: "Transaction \<Rightarrow> TransactionRaw" where
  "GetTxRawData t = (case tx_RawData t of None \<Rightarrow> zero_TransactionRaw | Some r \<Rightarrow> r)"

definition GetBlockRawData :: "Block \<Rightarrow> BlockHeaderRaw" where
  "GetBlockRawData b =
     (case b_BlockHeader b of
        None \<Rightarrow> zero_BlockHeaderRaw
      | Some h \<Rightarrow> (case hd_RawData h of None \<Rightarrow> zero_BlockHeaderRaw | Some r \<Rightarrow> r))"

section \<open>Contract parameters\<close>

record TransferC =
  tf_OwnerAddress :: bytes
  tf_ToAddress :: bytes
  tf_Amount :: int64

record FreezeBalanceC =
  fb_OwnerAddress :: bytes
  fb_FrozenBalance :: int64
  fb_FrozenDuration :: int64
  fb_Resource :: ResourceCode
  fb_ReceiverAddress :: bytes

record UnfreezeBalanceC =
  ub_OwnerAddress :: bytes
  ub_Resource :: ResourceCode
  ub_ReceiverAddress :: bytes

record FreezeBalanceV2C =
  fb2_OwnerAddress :: bytes
  fb2_FrozenBalance :: int64
  fb2_Resource :: ResourceCode

record UnfreezeBalanceV2C =
  ub2_OwnerAddress :: bytes
  ub2_UnfreezeBalance :: int64
  ub2_Resource :: ResourceCode

record OwnerC =
  ow_OwnerAddress :: bytes

record DelegateResourceC =
  dl_OwnerAddress :: bytes
  dl_Resource :: ResourceCode
  dl_Balance :: int64
  dl_ReceiverAddress :: bytes
  dl_Lock :: bool

record UnDelegateResourceC =
  ud_OwnerAddress :: bytes
  ud_Resource :: ResourceCode
  ud_Balance :: int64
  ud_ReceiverAddress :: bytes

record VoteWitnessC =
  vw_OwnerAddress :: bytes
  vw_Votes :: "Vote list"

record SmartContract =
  sm_Bytecode :: bytes
  sm_CallValue :: int64
  sm_ConsumeUserResourcePercent :: int64
  sm_OriginEnergyLimit :: int64

record CreateSmartC =
  cs_OwnerAddress :: bytes
  cs_NewContract :: "SmartContract option"

record TriggerSmartC =
  ts_OwnerAddress :: bytes
  ts_ContractAddress :: bytes
  ts_CallValue :: int64
  ts_Data :: bytes

section \<open>The protobuf runtime as a parameter\<close>

record codec =
  marshal_Account :: "Account \<Rightarrow> bytes option"
  unmarshal_Account :: "bytes \<Rightarrow> Account option"
  marshal_Witness :: "Witness \<Rightarrow> bytes option"
  unmarshal_Witness :: "bytes \<Rightarrow> Witness option"
  marshal_Votes :: "Votes \<Rightarrow> bytes option"
  unmarshal_Votes :: "bytes \<Rightarrow> Votes option"
  marshal_DelegatedResource :: "DelegatedResource \<Rightarrow> bytes option"
  unmarshal_DelegatedResource :: "bytes \<Rightarrow> DelegatedResource option"
  marshal_Index :: "DelegatedResourceAccountIndex \<Rightarrow> bytes option"
  unmarshal_Index :: "bytes \<Rightarrow> DelegatedResourceAccountIndex option"
  marshal_Block :: "Block \<Rightarrow> bytes option"
  unmarshal_Block :: "bytes \<Rightarrow> Block option"
  marshal_Transaction :: "Transaction \<Rightarrow> bytes option"
  marshal_TransactionRaw :: "TransactionRaw \<Rightarrow> bytes option"
  marshal_BlockHeaderRaw :: "BlockHeaderRaw \<Rightarrow> bytes option"
  to_Transfer :: "Any option \<Rightarrow> TransferC option"
  to_FreezeBalance :: "Any option \<Rightarrow> FreezeBalanceC option"
  to_UnfreezeBalance :: "Any option \<Rightarrow> UnfreezeBalanceC option"
  to_FreezeBalanceV2 :: "Any option \<Rightarrow> FreezeBalanceV2C option"
  to_UnfreezeBalanceV2 :: "Any option \<Rightarrow> UnfreezeBalanceV2C option"
  to_WithdrawExpireUnfreeze :: "Any option \<Rightarrow> OwnerC option"
  to_DelegateResource :: "Any option \<Rightarrow> DelegateResourceC option"
  to_UnDelegateResource :: "Any option \<Rightarrow> UnDelegateResourceC option"
  to_VoteWitness :: "Any option \<Rightarrow> VoteWitnessC option"
  to_WithdrawBalance :: "Any option \<Rightarrow> OwnerC option"
  to_CreateSmart :: "Any option \<Rightarrow> CreateSmartC option"
  to_TriggerSmart :: "Any option \<Rightarrow> TriggerSmartC option"
  new_Any_Transfer :: "TransferC \<Rightarrow> Any option"

definition roundtrip :: "('a \<Rightarrow> bytes option) \<Rightarrow> (bytes \<Rightarrow> 'a option) \<Rightarrow> bool" where
  "roundtrip m u \<longleftrightarrow> (\<forall>x. \<exists>b. m x = Some b \<and> u b = Some x)"

definition codec_ok :: "codec \<Rightarrow> bool" where
  "codec_ok cd \<longleftrightarrow>
     roundtrip (marshal_Account cd) (unmarshal_Account cd) \<and>
     roundtrip (marshal_Witness cd) (unmarshal_Witness cd) \<and>
     roundtrip (marshal_Votes cd) (unmarshal_Votes cd) \<and>
     roundtrip (marshal_DelegatedResource cd) (unmarshal_DelegatedResource cd) \<and>
     roundtrip (marshal_Index cd) (unmarshal_Index cd) \<and>
     roundtrip (marshal_Block cd) (unmarshal_Block cd)"

text \<open>Error values of the two directions.\<close>

definition marshalE :: "bytes option \<Rightarrow> bytes result" where
  "marshalE m = (case m of None \<Rightarrow> Inl ErrMarshal | Some b \<Rightarrow> Inr b)"

definition unmarshalE :: "'a option \<Rightarrow> 'a result" where
  "unmarshalE m = (case m of None \<Rightarrow> Inl ErrUnmarshal | Some x \<Rightarrow> Inr x)"

lemma marshalE_simps [simp]:
  "marshalE None = Inl ErrMarshal" "marshalE (Some b) = Inr b"
  "unmarshalE None = Inl ErrUnmarshal" "unmarshalE (Some x) = Inr x"
  "marshalE m = Inr b \<longleftrightarrow> m = Some b" "unmarshalE u = Inr x \<longleftrightarrow> u = Some x"
  by (auto simp: marshalE_def unmarshalE_def split: option.splits)

lemma roundtripE:
  assumes "roundtrip m u" obtains b where "m x = Some b" "u b = Some x"
  using assms by (auto simp: roundtrip_def)

end
