(* ===== verification/Merkle_Block.thy ===== *)
theory Merkle_Block
  imports Proto_Messages
begin

text \<open>
  \<open>internal/crypto\<close> (SHA-256 of the standard library written out; Keccak-256 comes from a
  third-party package and is a parameter where it is used), \<open>internal/merkle\<close> (the transaction Merkle
  root) and \<open>internal/block\<close> (Merkle leaves, block ids). The Merkle loop is shown equal to the
  recursive tree that splits at the largest power of two, and to bind the leaves up to a SHA-256
  collision; block ids carry the block number in their first eight bytes.
\<close>

unbundle bit_operations_syntax

section \<open>SHA-256\<close>

definition sha_K :: "32 word list" where
  "sha_K = [1116352408, 1899447441, 3049323471, 3921009573, 961987163, 1508970993, 2453635748, 2870763221,
     3624381080, 310598401, 607225278, 1426881987, 1925078388, 2162078206, 2614888103, 3248222580,
     3835390401, 4022224774, 264347078, 604807628, 770255983, 1249150122, 1555081692, 1996064986,
     2554220882, 2821834349, 2952996808, 3210313671, 3336571891, 3584528711, 113926993, 338241895,
     666307205, 773529912, 1294757372, 1396182291, 1695183700, 1986661051, 2177026350, 2456956037,
     2730485921, 2820302411, 3259730800, 3345764771, 3516065817, 3600352804, 4094571909, 275423344,
     430227734, 506948616, 659060556, 883997877, 958139571, 1322822218, 1537002063, 1747873779,
     1955562222, 2024104815, 2227730452, 2361852424, 2428436474, 2756734187, 3204031479, 3329325298]"

definition sha_H0 :: "32 word list" where
  "sha_H0 = [1779033703, 3144134277, 1013904242, 2773480762, 1359893119, 2600822924, 528734635, 1541459225]"

definition sha_pad :: "bytes \<Rightarrow> bytes" where
  "sha_pad m = m @ [0x80] @ replicate ((119 - length m mod 64) mod 64) 0 @ nat_to_be 8 (8 * length m)"

fun word32s :: "bytes \<Rightarrow> 32 word list" where
  "word32s (a # b # c # d # rest) = word_of_nat (be_to_nat [a, b, c, d]) # word32s rest"
| "word32s _ = []"

text \<open>The message schedule is built in reverse, newest word first.\<close>

definition sha_next :: "32 word list \<Rightarrow> 32 word" where
  "sha_next r =
     (let a = r ! 1; b = r ! 14 in
      (word_rotr 17 a XOR word_rotr 19 a XOR drop_bit 10 a) + r ! 6 +
      (word_rotr 7 b XOR word_rotr 18 b XOR drop_bit 3 b) + r ! 15)"

fun sha_schedule :: "nat \<Rightarrow> 32 word list \<Rightarrow> 32 word list" where
  "sha_schedule 0 r = r"
| "sha_schedule (Suc n) r = sha_schedule n (sha_next r # r)"

type_synonym sha_state =
  "32 word \<times> 32 word \<times> 32 word \<times> 32 word \<times> 32 word \<times> 32 word \<times> 32 word \<times> 32 word"

fun sha_round :: "32 word \<times> 32 word \<Rightarrow> sha_state \<Rightarrow> sha_state" where
  "sha_round (k, w) (a, b, c, d, e, f, g, h) =
     (let t1 = h + (word_rotr 6 e XOR word_rotr 11 e XOR word_rotr 25 e) +
               ((e AND f) XOR ((NOT e) AND g)) + k + w;
          t2 = (word_rotr 2 a XOR word_rotr 13 a XOR word_rotr 22 a) +
               ((a AND b) XOR (a AND c) XOR (b AND c))
      in (t1 + t2, a, b, c, d + t1, e, f, g))"

fun sha_add :: "sha_state \<Rightarrow> sha_state \<Rightarrow> sha_state" where
  "sha_add (a, b, c, d, e, f, g, h) (a', b', c', d', e', f', g', h') =
     (a + a', b + b', c + c', d + d', e + e', f + f', g + g', h + h')"

definition sha_block :: "sha_state \<Rightarrow> 32 word list \<Rightarrow> sha_state" where
  "sha_block s ws = sha_add s (fold sha_round (zip sha_K (rev (sha_schedule 48 (rev ws)))) s)"

fun sha_blocks :: "nat \<Rightarrow> sha_state \<Rightarrow> 32 word list \<Rightarrow> sha_state" where
  "sha_blocks 0 s ws = s"
| "sha_blocks (Suc n) s ws = sha_blocks n (sha_block s (take 16 ws)) (drop 16 ws)"

definition sha_init :: sha_state where
  "sha_init = (sha_H0 ! 0, sha_H0 ! 1, sha_H0 ! 2, sha_H0 ! 3, sha_H0 ! 4, sha_H0 ! 5, sha_H0 ! 6, sha_H0 ! 7)"

fun sha_out :: "sha_state \<Rightarrow> bytes" where
  "sha_out (a, b, c, d, e, f, g, h) = concat (map (\<lambda>x. nat_to_be 4 (unat x)) [a, b, c, d, e, f, g, h])"

text \<open>\<open>crypto.Sha256\<close> hashes the concatenation of its arguments.\<close>

definition Sha256 :: "bytes list \<Rightarrow> bytes" where
  "Sha256 data =
     (let p = sha_pad (concat data) in sha_out (sha_blocks (length p div 64) sha_init (word32s p)))"

lemma length_Sha256 [simp]: "length (Sha256 data) = 32"
proof -
  have "length (sha_out s) = 32" for s by (cases s rule: sha_out.cases) simp
  then show ?thesis by (simp add: Sha256_def Let_def)
qed

section \<open>Merkle root\<close>

text \<open>One pass of the inner loop: pairs are hashed, a trailing odd node is promoted.\<close>

fun nextLevel :: "bytes list \<Rightarrow> bytes list" where
  "nextLevel (l # r # rest) = Sha256 [l, r] # nextLevel rest"
| "nextLevel [l] = [l]"
| "nextLevel [] = []"

lemma length_nextLevel: "length (nextLevel xs) = (length xs + 1) div 2"
  by (induction xs rule: nextLevel.induct) auto

function rootLoop :: "bytes list \<Rightarrow> bytes list" where
  "rootLoop level = (if length level > 1 then rootLoop (nextLevel level) else level)"
  by auto
termination by (relation "measure length") (auto simp: length_nextLevel)

declare rootLoop.simps [simp del]

text \<open>\<open>Root\<close>: the nil slice for no leaves is the empty byte list.\<close>

definition Root :: "bytes list \<Rightarrow> bytes" where
  "Root leaves = (if length leaves = 0 then [] else rootLoop leaves ! 0)"

lemma rootLoop_length: "xs \<noteq> [] \<Longrightarrow> length (rootLoop xs) = 1"
proof (induction xs rule: rootLoop.induct)
  case (1 level)
  show ?case
  proof (cases "length level > 1")
    case True
    then have "nextLevel level \<noteq> []" using length_nextLevel [of level] by (cases "nextLevel level") auto
    with 1 True show ?thesis by (simp add: rootLoop.simps [of level])
  next
    case False
    with 1 show ?thesis by (cases level) (auto simp: rootLoop.simps)
  qed
qed

lemma Root_step: "length xs > 1 \<Longrightarrow> Root xs = Root (nextLevel xs)"
  using length_nextLevel [of xs] by (auto simp: Root_def rootLoop.simps [of xs])

lemma Root_single [simp]: "Root [x] = x"
  by (simp add: Root_def rootLoop.simps)

subsection \<open>Reference definition\<close>

text \<open>\<open>splitPoint n\<close> is the largest power of two below \<open>n\<close>.\<close>

fun splitPoint :: "nat \<Rightarrow> nat" where
  "splitPoint n = (if n \<le> 2 then 1 else 2 * splitPoint ((n + 1) div 2))"

declare splitPoint.simps [simp del]

lemma splitPoint_bounds: "2 \<le> n \<Longrightarrow> splitPoint n < n \<and> n \<le> 2 * splitPoint n"
proof (induction n rule: splitPoint.induct)
  case (1 n)
  show ?case
  proof (cases "n \<le> 2")
    case True
    with 1 show ?thesis by (simp add: splitPoint.simps)
  next
    case False
    then have "splitPoint ((n + 1) div 2) < (n + 1) div 2" "(n + 1) div 2 \<le> 2 * splitPoint ((n + 1) div 2)"
      using 1 by auto
    with False show ?thesis by (subst (1 2) splitPoint.simps) auto
  qed
qed

lemma splitPoint_power: "\<exists>j. splitPoint n = 2 ^ j"
proof (induction n rule: splitPoint.induct)
  case (1 n)
  show ?case
  proof (cases "n \<le> 2")
    case True
    then show ?thesis by (intro exI [of _ 0]) (simp add: splitPoint.simps)
  next
    case False
    then obtain j where "splitPoint ((n + 1) div 2) = 2 ^ j" using 1 by auto
    with False show ?thesis by (intro exI [of _ "Suc j"]) (simp add: splitPoint.simps [of n])
  qed
qed

function merkleTree :: "bytes list \<Rightarrow> bytes" where
  "merkleTree xs =
     (case xs of [] \<Rightarrow> [] | [x] \<Rightarrow> x
      | _ \<Rightarrow> let k = splitPoint (length xs) in Sha256 [merkleTree (take k xs), merkleTree (drop k xs)])"
  by auto
termination
proof (relation "measure length", goal_cases)
  case 1
  then show ?case by simp
next
  case (2 xs y ys z zs k)
  then show ?case using splitPoint_bounds [of "length xs"] by simp
next
  case (3 xs y ys z zs k)
  then show ?case using splitPoint_bounds [of "length xs"] by simp
qed

declare merkleTree.simps [simp del]

lemma merkleTree_single [simp]: "merkleTree [x] = x"
  by (simp add: merkleTree.simps)

lemma merkleTree_split:
  assumes "2 \<le> length xs"
  shows "merkleTree xs = Sha256 [merkleTree (take (splitPoint (length xs)) xs),
    merkleTree (drop (splitPoint (length xs)) xs)]"
  using assms by (subst merkleTree.simps) (auto simp: Let_def split: list.splits)

lemma nextLevel_append: "even (length xs) \<Longrightarrow> nextLevel (xs @ ys) = nextLevel xs @ nextLevel ys"
  by (induction xs rule: nextLevel.induct) auto

text \<open>Hashing one level does not change the tree.\<close>

lemma merkleTree_nextLevel: "merkleTree (nextLevel xs) = merkleTree xs"
proof (induction "length xs" arbitrary: xs rule: less_induct)
  case less
  consider "length xs \<le> 1" | "length xs = 2" | "2 < length xs" by linarith
  then show ?case
  proof cases
    case 1
    then show ?thesis by (cases xs) auto
  next
    case 2
    then obtain x y where "xs = [x, y]" by (auto simp: length_Suc_conv numeral_2_eq_2)
    then show ?thesis by (simp add: merkleTree_split splitPoint.simps)
  next
    case 3
    define n k where "n = length xs" and "k = splitPoint n"
    have k: "k = 2 * splitPoint ((n + 1) div 2)" "k < n" "0 < k"
      using 3 splitPoint_bounds [of n] by (simp_all add: n_def k_def splitPoint.simps [of "length xs"])
    have split: "nextLevel xs = nextLevel (take k xs) @ nextLevel (drop k xs)"
      using nextLevel_append [of "take k xs" "drop k xs"] k by (simp add: n_def)
    have len: "length (nextLevel xs) = (n + 1) div 2" by (simp add: length_nextLevel n_def)
    have half: "length (nextLevel (take k xs)) = splitPoint ((n + 1) div 2)"
      using k by (simp add: length_nextLevel n_def)
    have "merkleTree (nextLevel xs) =
        Sha256 [merkleTree (nextLevel (take k xs)), merkleTree (nextLevel (drop k xs))]"
      using 3 merkleTree_split [of "nextLevel xs"] by (simp add: len n_def [symmetric]) (simp add: split half)
    also have "\<dots> = Sha256 [merkleTree (take k xs), merkleTree (drop k xs)]"
      using less [of "take k xs"] less [of "drop k xs"] k by (simp add: n_def)
    also have "\<dots> = merkleTree xs"
      using 3 merkleTree_split [of xs] by (simp add: n_def k_def)
    finally show ?thesis .
  qed
qed

text \<open>
  C30: The iterative Merkle root equals the recursive tree that splits the leaves at the largest
  power of two below their number and hashes the two halves.
\<close>

theorem Root_eq_merkleTree: "Root xs = merkleTree xs"
proof (induction xs rule: rootLoop.induct)
  case (1 xs)
  show ?case
  proof (cases "length xs > 1")
    case True
    with 1 show ?thesis by (simp add: Root_step merkleTree_nextLevel)
  next
    case False
    then show ?thesis by (cases xs) (auto simp: Root_def merkleTree.simps rootLoop.simps)
  qed
qed

subsection \<open>The root binds the leaves\<close>

definition sha_collision :: "bytes \<Rightarrow> bytes \<Rightarrow> bool" where
  "sha_collision a b \<longleftrightarrow> a \<noteq> b \<and> Sha256 [a] = Sha256 [b]"

lemma Sha256_pair: "Sha256 [a, b] = Sha256 [a @ b]"
  by (simp add: Sha256_def)

lemma nextLevel_32: "\<forall>x \<in> set xs. length x = 32 \<Longrightarrow> \<forall>x \<in> set (nextLevel xs). length x = 32"
  by (induction xs rule: nextLevel.induct) auto

text \<open>The first pair of siblings in which two levels of equal length differ.\<close>

fun diffPair :: "bytes list \<Rightarrow> bytes list \<Rightarrow> (bytes \<times> bytes) option" where
  "diffPair (l # r # rest) (l' # r' # rest') =
     (if l = l' \<and> r = r' then diffPair rest rest' else Some (l @ r, l' @ r'))"
| "diffPair _ _ = None"

text \<open>Climb until the next levels agree; the differing siblings below are a collision.\<close>

function findCollision :: "bytes list \<Rightarrow> bytes list \<Rightarrow> (bytes \<times> bytes) option" where
  "findCollision xs ys =
     (if length xs \<le> 1 then None
      else if nextLevel xs = nextLevel ys then diffPair xs ys
      else findCollision (nextLevel xs) (nextLevel ys))"
  by auto
termination by (relation "measure (length \<circ> fst)") (auto simp: length_nextLevel)

declare findCollision.simps [simp del]

lemma diffPair_collision:
  assumes "length xs = length ys" "\<forall>x \<in> set xs. length x = 32" "\<forall>y \<in> set ys. length y = 32"
    and "nextLevel xs = nextLevel ys" "xs \<noteq> ys"
  shows "\<exists>a b. diffPair xs ys = Some (a, b) \<and> sha_collision a b"
  using assms
proof (induction xs ys rule: diffPair.induct)
  case (1 l r rest l' r' rest')
  show ?case
  proof (cases "l = l' \<and> r = r'")
    case True
    with 1 show ?thesis by simp
  next
    case False
    with 1 have "l @ r \<noteq> l' @ r'" by simp
    moreover have "Sha256 [l @ r] = Sha256 [l' @ r']"
      using "1.prems"(4) by (simp add: Sha256_pair)
    ultimately show ?thesis using False by (auto simp: sha_collision_def)
  qed
qed (auto simp: length_Suc_conv Suc_length_conv)

text \<open>
  C33: The Merkle root binds its leaves: for equally many 32-byte leaves, two roots agree exactly
  when the leaves do or when climbing the two trees exhibits a SHA-256 collision.
\<close>

theorem Root_binds_leaves:
  assumes "length xs = length ys" "\<forall>x \<in> set xs. length x = 32" "\<forall>y \<in> set ys. length y = 32"
  shows "Root xs = Root ys \<longleftrightarrow>
    xs = ys \<or> (\<exists>a b. findCollision xs ys = Some (a, b) \<and> sha_collision a b)"
  using assms
proof (induction xs ys rule: findCollision.induct)
  case (1 xs ys)
  show ?case
  proof (cases "length xs \<le> 1")
    case True
    with 1 show ?thesis by (cases xs; cases ys) (auto simp: findCollision.simps)
  next
    case big: False
    then have roots: "Root xs = Root (nextLevel xs)" "Root ys = Root (nextLevel ys)"
      using "1.prems"(1) by (auto intro: Root_step)
    show ?thesis
    proof (cases "nextLevel xs = nextLevel ys")
      case True
      then have "findCollision xs ys = diffPair xs ys" using big by (simp add: findCollision.simps)
      then show ?thesis using True roots diffPair_collision [OF "1.prems" True] by auto
    next
      case False
      then have fc: "findCollision xs ys = findCollision (nextLevel xs) (nextLevel ys)"
        using big by (simp add: findCollision.simps [of xs])
      have ne: "xs \<noteq> ys" using False by auto
      have "Root (nextLevel xs) = Root (nextLevel ys) \<longleftrightarrow> nextLevel xs = nextLevel ys \<or>
          (\<exists>a b. findCollision (nextLevel xs) (nextLevel ys) = Some (a, b) \<and> sha_collision a b)"
        by (rule "1.IH" [OF big False]) (use 1 in \<open>simp_all add: length_nextLevel nextLevel_32\<close>)
      then show ?thesis using False ne roots fc by simp
    qed
  qed
qed

theorem Root_binds_leaves_witness:
  "Root [replicate 32 1, replicate 32 2, replicate 32 3] = Root [replicate 32 1, replicate 32 2, replicate 32 4]
   \<longleftrightarrow> (\<exists>a b. findCollision [replicate 32 1, replicate 32 2, replicate 32 3]
          [replicate 32 1, replicate 32 2, replicate 32 4] = Some (a, b) \<and> sha_collision a b)"
  using Root_binds_leaves [of "[replicate 32 1, replicate 32 2, replicate 32 3]"
      "[replicate 32 1, replicate 32 2, replicate 32 4]"]
  by (simp add: numeral_eq_Suc)

section \<open>Blocks\<close>

definition HashLen :: nat where "HashLen = 32"

definition ZeroHash :: bytes where "ZeroHash = replicate HashLen 0"

definition TxMerkleHash :: "codec \<Rightarrow> Transaction \<Rightarrow> bytes result" where
  "TxMerkleHash cd tx = bindE (marshalE (marshal_Transaction cd tx)) (\<lambda>b. Inr (Sha256 [b]))"

fun mapE :: "('a \<Rightarrow> 'b result) \<Rightarrow> 'a list \<Rightarrow> 'b list result" where
  "mapE f [] = Inr []"
| "mapE f (x # xs) = bindE (f x) (\<lambda>y. bindE (mapE f xs) (\<lambda>ys. Inr (y # ys)))"

definition CalcTxTrieRoot :: "codec \<Rightarrow> Transaction list \<Rightarrow> bytes result" where
  "CalcTxTrieRoot cd txs =
     (if length txs = 0 then Inr ZeroHash
      else bindE (mapE (TxMerkleHash cd) txs) (\<lambda>leaves. Inr (Root leaves)))"

definition HeaderRawHash :: "codec \<Rightarrow> BlockHeaderRaw \<Rightarrow> bytes result" where
  "HeaderRawHash cd raw = bindE (marshalE (marshal_BlockHeaderRaw cd raw)) (\<lambda>b. Inr (Sha256 [b]))"

definition IDFromHeaderRaw :: "codec \<Rightarrow> BlockHeaderRaw \<Rightarrow> bytes result" where
  "IDFromHeaderRaw cd raw =
     bindE (HeaderRawHash cd raw) (\<lambda>h. Inr (PutUint64 (bh_Number raw) @ drop 8 h))"

definition ID :: "codec \<Rightarrow> Block \<Rightarrow> bytes result" where
  "ID cd b = IDFromHeaderRaw cd (GetBlockRawData b)"

definition Number :: "Block \<Rightarrow> int64" where
  "Number b = bh_Number (GetBlockRawData b)"

definition ParentHash :: "Block \<Rightarrow> bytes" where
  "ParentHash b = bh_ParentHash (GetBlockRawData b)"

definition NumberFromID :: "bytes \<Rightarrow> int64" where
  "NumberFromID i = (if length i < 8 then 0 else Uint64 (take 8 i))"

lemma ID_shape:
  assumes "ID cd b = Inr i"
  shows "length i = 32" "take 8 i = PutUint64 (Number b)"
  using assms by (auto simp: ID_def IDFromHeaderRaw_def HeaderRawHash_def Number_def bindE_eq_Inr)

lemma ID_Number_neq: "ID cd b = Inr i \<Longrightarrow> ID cd c = Inr j \<Longrightarrow> Number b \<noteq> Number c \<Longrightarrow> i \<noteq> j"
  using ID_shape(2) [of cd b i] ID_shape(2) [of cd c j] by auto

text \<open>
  Computing a block id fails only when the header does not marshal; otherwise the id is 32 bytes
  long and the block number can be read back from it.
\<close>

theorem NumberFromID_ID:
  "case ID cd b of Inl e \<Rightarrow> e = ErrMarshal | Inr i \<Rightarrow> length i = HashLen \<and> NumberFromID i = Number b"
proof (cases "ID cd b")
  case (Inl e)
  then show ?thesis
    by (auto simp: ID_def IDFromHeaderRaw_def HeaderRawHash_def marshalE_def bindE_eq_Inl split: option.splits)
next
  case (Inr i)
  then show ?thesis using ID_shape [of cd b i] by (simp add: NumberFromID_def HashLen_def)
qed

end
