(* ===== verification/Address_Base58.thy ===== *)
theory Address_Base58
  imports Merkle_Block
begin

text \<open>
  \<open>internal/address\<close>: canonical 21-byte addresses and their Base58Check text. A Go string is a list
  of characters, an address a byte list of length 21. Keccak-256 is a parameter of
  \<open>FromPublicKey\<close>. Base 58 is an instance of the prelude's positional notation, which gives both
  directions of the round trip between byte strings and text.
\<close>

section \<open>Base 58\<close>

definition b58Alphabet :: string where
  "b58Alphabet = ''123456789ABCDEFGHJKLMNPQRSTUVWXYZabcdefghijkmnopqrstuvwxyz''"

text \<open>\<open>strings.IndexRune\<close> on the alphabet: the position of a character, if any.\<close>

fun indexRune :: "string \<Rightarrow> char \<Rightarrow> nat option" where
  "indexRune [] r = None"
| "indexRune (c # cs) r = (if c = r then Some 0 else map_option Suc (indexRune cs r))"

fun b58digits :: "nat \<Rightarrow> string" where
  "b58digits n = (if n = 0 then [] else (b58Alphabet ! (n mod 58)) # b58digits (n div 58))"

declare b58digits.simps [simp del]

definition leading :: "'a \<Rightarrow> 'a list \<Rightarrow> nat" where
  "leading z xs = length (takeWhile (\<lambda>x. x = z) xs)"

definition b58Encode :: "bytes \<Rightarrow> string" where
  "b58Encode input =
     rev (b58digits (be_to_nat input) @ replicate (leading 0 input) (b58Alphabet ! 0))"

fun b58value :: "nat \<Rightarrow> string \<Rightarrow> nat result" where
  "b58value num [] = Inr num"
| "b58value num (r # rs) =
     (case indexRune b58Alphabet r of
        None \<Rightarrow> Inl (Err ''address: invalid base58 character'')
      | Some idx \<Rightarrow> b58value (num * 58 + idx) rs)"

definition b58Decode :: "string \<Rightarrow> bytes result" where
  "b58Decode s =
     bindE (b58value 0 s) (\<lambda>num. Inr (replicate (leading (b58Alphabet ! 0) s) 0 @ nat_bytes num))"

definition checksum :: "bytes \<Rightarrow> bytes" where
  "checksum payload = take 4 (Sha256 [Sha256 [payload]])"

definition b58CheckEncode :: "bytes \<Rightarrow> string" where
  "b58CheckEncode payload = b58Encode (payload @ checksum payload)"

definition b58CheckDecode :: "string \<Rightarrow> bytes result" where
  "b58CheckDecode s =
     bindE (b58Decode s) (\<lambda>dec.
     bindE (check (length dec < 4) (Err ''address: base58 payload too short'')) (\<lambda>_.
       let payload = take (length dec - 4) dec; sum = drop (length dec - 4) dec in
       bindE (check (checksum payload \<noteq> sum) (Err ''address: bad base58check checksum'')) (\<lambda>_.
         Inr payload)))"

section \<open>Addresses\<close>

definition Prefix :: byte where "Prefix = 0x41"
definition Length :: nat where "Length = 21"
definition HashLength :: nat where "HashLength = 20"

definition FromBytes :: "bytes \<Rightarrow> bytes result" where
  "FromBytes b =
     (if length b \<noteq> Length then Inl (Err ''address: want 21 bytes'')
      else if b ! 0 \<noteq> Prefix then Inl (Err ''address: want prefix 0x41'')
      else Inr b)"

definition FromHash :: "bytes \<Rightarrow> bytes result" where
  "FromHash h = (if length h \<noteq> HashLength then Inl (Err ''address: want 20-byte hash'') else Inr (Prefix # h))"

definition FromPublicKey :: "(bytes \<Rightarrow> bytes) \<Rightarrow> bytes \<Rightarrow> bytes result" where
  "FromPublicKey keccak256 pub =
     bindE (if length pub = 65 then
              (if pub ! 0 \<noteq> 0x04 then Inl (Err ''address: 65-byte pubkey must start with 0x04 (uncompressed)'')
               else Inr (drop 1 pub))
            else if length pub = 64 then Inr pub
            else Inl (Err ''address: want 64- or 65-byte pubkey''))
       (\<lambda>p. let h = keccak256 p in FromHash (drop (length h - HashLength) h))"

definition FromBase58 :: "string \<Rightarrow> bytes result" where
  "FromBase58 s = bindE (b58CheckDecode s) FromBytes"

definition Address_Hash :: "bytes \<Rightarrow> bytes" where
  "Address_Hash a = drop 1 a"

definition Address_Base58 :: "bytes \<Rightarrow> string" where
  "Address_Base58 a = b58CheckEncode a"

section \<open>Base 58 is positional\<close>

definition b58ok :: "char \<Rightarrow> bool" where
  "b58ok c \<longleftrightarrow> indexRune b58Alphabet c \<noteq> None"

definition b58val :: "char \<Rightarrow> nat" where
  "b58val c = the (indexRune b58Alphabet c)"

definition b58num :: "string \<Rightarrow> nat" where
  "b58num s = foldl (\<lambda>a c. a * 58 + b58val c) 0 s"

lemma indexRune_nth: "distinct cs \<Longrightarrow> n < length cs \<Longrightarrow> indexRune cs (cs ! n) = Some n"
proof (induction cs arbitrary: n)
  case (Cons c cs)
  then show ?case by (cases n) auto
qed simp

lemma indexRune_Some: "indexRune cs r = Some n \<Longrightarrow> n < length cs \<and> cs ! n = r"
  by (induction cs arbitrary: n) (auto split: if_splits)

lemma b58Alphabet_props: "distinct b58Alphabet" "length b58Alphabet = 58" "b58Alphabet ! 0 = CHR ''1''"
  by (simp_all add: b58Alphabet_def)

interpretation b58: positional 58 b58val "\<lambda>n. b58Alphabet ! n" b58ok "\<lambda>n. rev (b58digits n)" b58num
proof
  fix n x xs
  show "(n::nat) < 58 \<Longrightarrow> b58val (b58Alphabet ! n) = n \<and> b58ok (b58Alphabet ! n)"
    by (simp add: b58val_def b58ok_def indexRune_nth b58Alphabet_props)
  show "b58ok x \<Longrightarrow> b58val x < 58 \<and> b58Alphabet ! b58val x = x"
    using indexRune_Some [of b58Alphabet x] by (auto simp: b58val_def b58ok_def b58Alphabet_props)
  show "rev (b58digits n) = (if n = 0 then [] else rev (b58digits (n div 58)) @ [b58Alphabet ! (n mod 58)])"
    by (subst b58digits.simps) simp
qed (simp_all add: b58num_def)

lemma b58val_zero: "b58ok c \<Longrightarrow> b58val c = 0 \<longleftrightarrow> c = CHR ''1''"
  using b58.sym_val [of c] b58.val_sym [of 0] b58Alphabet_props(3) by auto

lemma b58value_ok: "\<forall>c \<in> set s. b58ok c \<Longrightarrow> b58value n s = Inr (foldl (\<lambda>a c. a * 58 + b58val c) n s)"
  by (induction s arbitrary: n) (auto simp: b58ok_def b58val_def)

lemma b58value_fails: "b58value n s = Inr v \<Longrightarrow> \<forall>c \<in> set s. b58ok c"
  by (induction s arbitrary: n) (auto simp: b58ok_def split: option.splits)

lemma b58Decode_ok:
  "\<forall>c \<in> set s. b58ok c \<Longrightarrow>
   b58Decode s = Inr (replicate (leading (CHR ''1'') s) 0 @ nat_bytes (b58num s))"
  by (simp add: b58Decode_def b58value_ok b58num_def b58Alphabet_props)

lemma leading_replicate: "leading z (replicate n z @ xs) = n + leading z xs"
  by (induction n) (simp_all add: leading_def)

lemma leading_stripped: "dropWhile (\<lambda>x. x = z) xs = xs \<Longrightarrow> leading z xs = 0"
proof -
  assume "dropWhile (\<lambda>x. x = z) xs = xs"
  then have "length (takeWhile (\<lambda>x. x = z) xs) + length xs = length xs"
    by (metis length_append takeWhile_dropWhile_id)
  then show ?thesis by (simp add: leading_def)
qed

lemma leading_split: "replicate (leading z xs) z @ dropWhile (\<lambda>x. x = z) xs = xs"
proof -
  have "takeWhile (\<lambda>x. x = z) xs = replicate (leading z xs) z"
    unfolding leading_def by (rule replicate_eqI) (auto dest: set_takeWhileD)
  then show ?thesis by (metis takeWhile_dropWhile_id)
qed

lemma dropWhile_ones:
  "\<forall>c \<in> set s. b58ok c \<Longrightarrow> dropWhile (\<lambda>c. b58val c = 0) s = dropWhile (\<lambda>c. c = CHR ''1'') s"
  by (rule dropWhile_cong) (auto simp: b58val_zero)

lemma b58num_pad: "b58num (replicate n (CHR ''1'') @ s) = b58num s"
proof (induction n)
  case (Suc n)
  have "b58val (CHR ''1'') = 0" using b58.val_sym [of 0] by (simp add: b58Alphabet_props)
  with Suc show ?case by (simp add: b58num_def)
qed simp

text \<open>
  Base 58 decoding inverts encoding on every byte string, leading zero bytes included.
\<close>

lemma b58Decode_roundtrip: "b58Decode (b58Encode x) = Inr x"
proof -
  let ?d = "rev (b58digits (be_to_nat x))"
  have enc: "b58Encode x = replicate (leading 0 x) (CHR ''1'') @ ?d"
    by (simp add: b58Encode_def b58Alphabet_props)
  have ok: "\<forall>c \<in> set (b58Encode x). b58ok c"
    using b58.digits_ok b58.val_sym [of 0] by (auto simp: enc b58Alphabet_props)
  have "dropWhile (\<lambda>c. c = CHR ''1'') ?d = ?d"
    using b58.digits_canonical [of "be_to_nat x"] dropWhile_ones [of ?d] ok enc by auto
  then have lead: "leading (CHR ''1'') (b58Encode x) = leading 0 x"
    by (simp add: enc leading_replicate leading_stripped)
  have "b58num (b58Encode x) = be_to_nat x"
    by (simp add: enc b58num_pad b58.num_digits)
  moreover have "nat_bytes (be_to_nat x) = dropWhile (\<lambda>b. b = 0) x"
    using bigbytes.digits_num [of x] by (simp add: unat_eq_0)
  ultimately show ?thesis
    by (simp add: b58Decode_ok [OF ok] lead leading_split)
qed

text \<open>
  Base 58 encoding inverts decoding on every text the decoder accepts, so every byte string has
  exactly one base 58 text.
\<close>

theorem b58Encode_Decode:
  assumes "b58Decode s = Inr b" shows "b58Encode b = s"
proof -
  have ok: "\<forall>c \<in> set s. b58ok c"
    using assms b58value_fails by (auto simp: b58Decode_def bindE_eq_Inr)
  let ?z = "leading (CHR ''1'') s"
  have b: "b = replicate ?z 0 @ nat_bytes (b58num s)"
    using assms by (simp add: b58Decode_ok [OF ok])
  have "leading 0 (nat_bytes (b58num s)) = 0"
    using bigbytes.digits_canonical [of "b58num s"] by (simp add: leading_stripped unat_eq_0)
  then have lead: "leading 0 b = ?z" by (simp add: b leading_replicate)
  have "be_to_nat (replicate n 0 @ y) = be_to_nat y" for n y
    by (induction n) (simp_all add: be_to_nat_def)
  then have num: "be_to_nat b = b58num s" by (simp add: b)
  have "rev (b58digits (b58num s)) = dropWhile (\<lambda>c. c = CHR ''1'') s"
    using b58.digits_num [OF ok] dropWhile_ones [OF ok] by simp
  then show ?thesis
    by (simp add: b58Encode_def lead num b58Alphabet_props leading_split)
qed

theorem b58Encode_Decode_witness: "b58Encode [0, 1] = ''12''"
  by (rule b58Encode_Decode) (simp add: b58Decode_def b58Alphabet_def leading_def nat_bytes.simps)

lemma checksum_length [simp]: "length (checksum p) = 4"
  by (simp add: checksum_def)

lemma b58CheckDecode_Encode: "b58CheckDecode (b58CheckEncode p) = Inr p"
  by (simp add: b58CheckDecode_def b58CheckEncode_def b58Decode_roundtrip Let_def)

text \<open>
  C35: The Base58Check text of an address parses back to the address: for every canonical 21-byte
  address the decoder recovers the payload, accepts its checksum and accepts the prefix.
\<close>

theorem FromBase58_Base58: "FromBytes b = Inr a \<Longrightarrow> FromBase58 (Address_Base58 a) = Inr a"
  by (auto simp: FromBase58_def Address_Base58_def b58CheckDecode_Encode FromBytes_def split: if_splits)

theorem FromBase58_Base58_witness: "FromBase58 (Address_Base58 (0x41 # replicate 20 7)) = Inr (0x41 # replicate 20 7)"
  using FromBase58_Base58 [of "0x41 # replicate 20 7" "0x41 # replicate 20 7"]
  by (simp add: FromBytes_def Length_def Prefix_def)

end
