(* ===== verification/Proto_Ref.thy ===== *)
theory Proto_Ref
  imports Proto_Messages
begin

text \<open>
  A concrete codec, used where a property that assumes \<open>codec_ok\<close> is shown to be satisfiable. It is a
  plain tagged serialisation, written with combinators that each carry a round-trip law; the
  stores of the model never depend on it. The locale \<open>proto_codec\<close> is the contract the stores use.
\<close>

section \<open>The contract\<close>

locale proto_codec =
  fixes cd :: codec
  assumes codec: "codec_ok cd"
begin

lemma Account_rt: "\<exists>b. marshal_Account cd a = Some b \<and> unmarshal_Account cd b = Some a"
  using codec by (auto simp: codec_ok_def roundtrip_def)

lemma Witness_rt: "\<exists>b. marshal_Witness cd a = Some b \<and> unmarshal_Witness cd b = Some a"
  using codec by (auto simp: codec_ok_def roundtrip_def)

lemma Votes_rt: "\<exists>b. marshal_Votes cd a = Some b \<and> unmarshal_Votes cd b = Some a"
  using codec by (auto simp: codec_ok_def roundtrip_def)

lemma DelegatedResource_rt:
  "\<exists>b. marshal_DelegatedResource cd a = Some b \<and> unmarshal_DelegatedResource cd b = Some a"
  using codec by (auto simp: codec_ok_def roundtrip_def)

lemma Index_rt: "\<exists>b. marshal_Index cd a = Some b \<and> unmarshal_Index cd b = Some a"
  using codec by (auto simp: codec_ok_def roundtrip_def)

lemma Block_rt: "\<exists>b. marshal_Block cd a = Some b \<and> unmarshal_Block cd b = Some a"
  using codec by (auto simp: codec_ok_def roundtrip_def)

end

section \<open>Serialisation combinators\<close>

type_synonym 'a fmt = "('a \<Rightarrow> bytes) \<times> (bytes \<Rightarrow> ('a \<times> bytes) option)"

definition fmt_ok :: "'a fmt \<Rightarrow> bool" where
  "fmt_ok f \<longleftrightarrow> (\<forall>x r. snd f (fst f x @ r) = Some (x, r))"

named_theorems fmt_intros

lemma fmt_okD: "fmt_ok f \<Longrightarrow> snd f (fst f x @ r) = Some (x, r)"
  by (simp add: fmt_ok_def)

definition fmt_byte :: "byte fmt" where
  "fmt_byte = ((\<lambda>b. [b]), (\<lambda>bs. case bs of [] \<Rightarrow> None | b # r \<Rightarrow> Some (b, r)))"

fun enc_nat :: "nat \<Rightarrow> bytes" where
  "enc_nat 0 = [0]"
| "enc_nat (Suc n) = 1 # enc_nat n"

fun dec_nat :: "bytes \<Rightarrow> (nat \<times> bytes) option" where
  "dec_nat [] = None"
| "dec_nat (b # r) = (if b = 0 then Some (0, r) else map_option (apfst Suc) (dec_nat r))"

definition fmt_w64 :: "64 word fmt" where
  "fmt_w64 = (PutUint64, (\<lambda>bs. Some (Uint64 (take 8 bs), drop 8 bs)))"

definition fmt_pair :: "'a fmt \<Rightarrow> 'b fmt \<Rightarrow> ('a \<times> 'b) fmt" where
  "fmt_pair f g = ((\<lambda>(x, y). fst f x @ fst g y),
     (\<lambda>bs. case snd f bs of None \<Rightarrow> None | Some (x, r) \<Rightarrow> map_option (apfst (Pair x)) (snd g r)))"

definition fmt_iso :: "('b \<Rightarrow> 'a) \<Rightarrow> ('a \<Rightarrow> 'b) \<Rightarrow> 'a fmt \<Rightarrow> 'b fmt" where
  "fmt_iso to from f = ((\<lambda>x. fst f (to x)), (\<lambda>bs. map_option (apfst from) (snd f bs)))"

primrec dec_n :: "'a fmt \<Rightarrow> nat \<Rightarrow> bytes \<Rightarrow> ('a list \<times> bytes) option" where
  "dec_n f 0 bs = Some ([], bs)"
| "dec_n f (Suc n) bs =
     (case snd f bs of None \<Rightarrow> None | Some (x, r) \<Rightarrow> map_option (apfst (Cons x)) (dec_n f n r))"

definition fmt_list :: "'a fmt \<Rightarrow> 'a list fmt" where
  "fmt_list f = ((\<lambda>xs. enc_nat (length xs) @ concat (map (fst f) xs)),
     (\<lambda>bs. case dec_nat bs of None \<Rightarrow> None | Some (n, r) \<Rightarrow> dec_n f n r))"

definition fmt_option :: "'a fmt \<Rightarrow> 'a option fmt" where
  "fmt_option f = fmt_iso (\<lambda>x. case x of None \<Rightarrow> [] | Some y \<Rightarrow> [y])
     (\<lambda>l. case l of [] \<Rightarrow> None | y # _ \<Rightarrow> Some y) (fmt_list f)"

abbreviation fmt_bytes :: "bytes fmt" where
  "fmt_bytes \<equiv> fmt_list fmt_byte"

lemma fmt_byte_ok [fmt_intros]: "fmt_ok fmt_byte"
  by (simp add: fmt_ok_def fmt_byte_def)

lemma dec_enc_nat: "dec_nat (enc_nat n @ r) = Some (n, r)"
  by (induction n) auto

lemma fmt_w64_ok [fmt_intros]: "fmt_ok fmt_w64"
  by (simp add: fmt_ok_def fmt_w64_def)

lemma fmt_pair_ok [fmt_intros]: "fmt_ok f \<Longrightarrow> fmt_ok g \<Longrightarrow> fmt_ok (fmt_pair f g)"
  by (auto simp: fmt_ok_def fmt_pair_def)

lemma fmt_iso_ok: "fmt_ok f \<Longrightarrow> (\<And>x. from (to x) = x) \<Longrightarrow> fmt_ok (fmt_iso to from f)"
  by (simp add: fmt_ok_def fmt_iso_def)

lemma dec_n_concat: "fmt_ok f \<Longrightarrow> dec_n f (length xs) (concat (map (fst f) xs) @ r) = Some (xs, r)"
  by (induction xs) (auto simp: fmt_okD)

lemma fmt_list_ok [fmt_intros]: "fmt_ok f \<Longrightarrow> fmt_ok (fmt_list f)"
  unfolding fmt_ok_def [of "fmt_list f"] by (simp add: fmt_list_def dec_enc_nat dec_n_concat)

lemma fmt_option_ok [fmt_intros]: "fmt_ok f \<Longrightarrow> fmt_ok (fmt_option f)"
  unfolding fmt_option_def by (intro fmt_iso_ok fmt_list_ok) (auto split: option.splits)

section \<open>Message formats\<close>

definition fmt_int32 :: "int32 fmt" where
  "fmt_int32 = fmt_iso ucast ucast fmt_w64"

definition fmt_bool :: "bool fmt" where
  "fmt_bool = fmt_iso (\<lambda>b. if b then 1 else 0) (\<lambda>y. y = 1) fmt_byte"

definition fmt_Resource :: "ResourceCode fmt" where
  "fmt_Resource = fmt_iso
     (\<lambda>r. case r of BANDWIDTH \<Rightarrow> (0, 0) | ENERGY \<Rightarrow> (1, 0) | TRON_POWER \<Rightarrow> (2, 0)
                  | ResourceCode_Other n \<Rightarrow> (3, n))
     (\<lambda>(t, n). if t = 0 then BANDWIDTH else if t = 1 then ENERGY else if t = 2 then TRON_POWER
               else ResourceCode_Other n)
     (fmt_pair fmt_byte fmt_int32)"

definition fmt_AccountType :: "AccountType fmt" where
  "fmt_AccountType = fmt_iso
     (\<lambda>r. case r of Normal \<Rightarrow> (0, 0) | AssetIssue \<Rightarrow> (1, 0) | Contract \<Rightarrow> (2, 0)
                  | AccountType_Other n \<Rightarrow> (3, n))
     (\<lambda>(t, n). if t = 0 then Normal else if t = 1 then AssetIssue else if t = 2 then Contract
               else AccountType_Other n)
     (fmt_pair fmt_byte fmt_int32)"

definition fmt_ContractType :: "ContractType fmt" where
  "fmt_ContractType = fmt_iso
     (\<lambda>r. case r of TransferContract \<Rightarrow> (0, 0) | CreateSmartContract \<Rightarrow> (1, 0)
        | TriggerSmartContract \<Rightarrow> (2, 0) | FreezeBalanceContract \<Rightarrow> (3, 0)
        | UnfreezeBalanceContract \<Rightarrow> (4, 0) | FreezeBalanceV2Contract \<Rightarrow> (5, 0)
        | UnfreezeBalanceV2Contract \<Rightarrow> (6, 0) | WithdrawExpireUnfreezeContract \<Rightarrow> (7, 0)
        | DelegateResourceContract \<Rightarrow> (8, 0) | UnDelegateResourceContract \<Rightarrow> (9, 0)
        | VoteWitnessContract \<Rightarrow> (10, 0) | WithdrawBalanceContract \<Rightarrow> (11, 0)
        | ContractType_Other n \<Rightarrow> (12, n))
     (\<lambda>(t, n). if t = 0 then TransferContract else if t = 1 then CreateSmartContract
        else if t = 2 then TriggerSmartContract else if t = 3 then FreezeBalanceContract
        else if t = 4 then UnfreezeBalanceContract else if t = 5 then FreezeBalanceV2Contract
        else if t = 6 then UnfreezeBalanceV2Contract
        else if t = 7 then WithdrawExpireUnfreezeContract
        else if t = 8 then DelegateResourceContract else if t = 9 then UnDelegateResourceContract
        else if t = 10 then VoteWitnessContract else if t = 11 then WithdrawBalanceContract
        else ContractType_Other n)
     (fmt_pair fmt_byte fmt_int32)"

lemma fmt_int32_ok [fmt_intros]: "fmt_ok fmt_int32"
proof -
  have "(ucast (ucast x :: 64 word) :: int32) = x" for x
    by transfer simp
  then show ?thesis unfolding fmt_int32_def by (intro fmt_iso_ok fmt_intros)
qed

lemma fmt_bool_ok [fmt_intros]: "fmt_ok fmt_bool"
  unfolding fmt_bool_def by (intro fmt_iso_ok fmt_intros) simp

lemma fmt_Resource_ok [fmt_intros]: "fmt_ok fmt_Resource"
  unfolding fmt_Resource_def by (intro fmt_iso_ok fmt_intros) (simp split: ResourceCode.splits)

lemma fmt_AccountType_ok [fmt_intros]: "fmt_ok fmt_AccountType"
  unfolding fmt_AccountType_def by (intro fmt_iso_ok fmt_intros) (simp split: AccountType.splits)

lemma fmt_ContractType_ok [fmt_intros]: "fmt_ok fmt_ContractType"
  unfolding fmt_ContractType_def by (intro fmt_iso_ok fmt_intros) (simp split: ContractType.splits)

definition fmt_Frozen :: "Frozen fmt" where
  "fmt_Frozen = fmt_iso (\<lambda>x. (fz_FrozenBalance x, fz_ExpireTime x))
     (\<lambda>(a, b). \<lparr>fz_FrozenBalance = a, fz_ExpireTime = b\<rparr>) (fmt_pair fmt_w64 fmt_w64)"

definition fmt_FreezeV2 :: "FreezeV2 fmt" where
  "fmt_FreezeV2 = fmt_iso (\<lambda>x. (f2_Type x, f2_Amount x))
     (\<lambda>(a, b). \<lparr>f2_Type = a, f2_Amount = b\<rparr>) (fmt_pair fmt_Resource fmt_w64)"

definition fmt_UnFreezeV2 :: "UnFreezeV2 fmt" where
  "fmt_UnFreezeV2 = fmt_iso (\<lambda>x. (u2_Type x, u2_UnfreezeAmount x, u2_UnfreezeExpireTime x))
     (\<lambda>(a, b, c). \<lparr>u2_Type = a, u2_UnfreezeAmount = b, u2_UnfreezeExpireTime = c\<rparr>)
     (fmt_pair fmt_Resource (fmt_pair fmt_w64 fmt_w64))"

definition fmt_Vote :: "Vote fmt" where
  "fmt_Vote = fmt_iso (\<lambda>x. (v_VoteAddress x, v_VoteCount x))
     (\<lambda>(a, b). \<lparr>v_VoteAddress = a, v_VoteCount = b\<rparr>) (fmt_pair fmt_bytes fmt_w64)"

definition fmt_Key :: "Key fmt" where
  "fmt_Key = fmt_iso (\<lambda>x. (k_Address x, k_Weight x))
     (\<lambda>(a, b). \<lparr>k_Address = a, k_Weight = b\<rparr>) (fmt_pair fmt_bytes fmt_w64)"

definition fmt_Permission :: "Permission fmt" where
  "fmt_Permission = fmt_iso
     (\<lambda>x. (pm_Type x, pm_Id x, pm_PermissionName x, pm_Threshold x, pm_ParentId x,
           pm_Operations x, pm_Keys x))
     (\<lambda>(a, b, c, d, e, f, g). \<lparr>pm_Type = a, pm_Id = b, pm_PermissionName = c, pm_Threshold = d,
           pm_ParentId = e, pm_Operations = f, pm_Keys = g\<rparr>)
     (fmt_pair fmt_int32 (fmt_pair fmt_int32 (fmt_pair fmt_bytes (fmt_pair fmt_w64
       (fmt_pair fmt_int32 (fmt_pair fmt_bytes (fmt_list fmt_Key)))))))"

definition fmt_AccountResource :: "AccountResource fmt" where
  "fmt_AccountResource = fmt_iso
     (\<lambda>x. (ar_EnergyUsage x, ar_FrozenBalanceForEnergy x, ar_LatestConsumeTimeForEnergy x,
           ar_AcquiredDelegatedFrozenBalanceForEnergy x, ar_DelegatedFrozenBalanceForEnergy x,
           ar_EnergyWindowSize x, ar_DelegatedFrozenV2BalanceForEnergy x,
           ar_AcquiredDelegatedFrozenV2BalanceForEnergy x, ar_EnergyWindowOptimized x, ar_rest x))
     (\<lambda>(a, b, c, d, e, f, g, h, i, j). \<lparr>ar_EnergyUsage = a, ar_FrozenBalanceForEnergy = b,
           ar_LatestConsumeTimeForEnergy = c, ar_AcquiredDelegatedFrozenBalanceForEnergy = d,
           ar_DelegatedFrozenBalanceForEnergy = e, ar_EnergyWindowSize = f,
           ar_DelegatedFrozenV2BalanceForEnergy = g,
           ar_AcquiredDelegatedFrozenV2BalanceForEnergy = h, ar_EnergyWindowOptimized = i,
           ar_rest = j\<rparr>)
     (fmt_pair fmt_w64 (fmt_pair (fmt_option fmt_Frozen) (fmt_pair fmt_w64 (fmt_pair fmt_w64
       (fmt_pair fmt_w64 (fmt_pair fmt_w64 (fmt_pair fmt_w64 (fmt_pair fmt_w64
       (fmt_pair fmt_bool fmt_bytes)))))))))"

definition fmt_Account :: "Account fmt" where
  "fmt_Account = fmt_iso
     (\<lambda>x. ((ac_Type x, ac_Address x, ac_Balance x, ac_Votes x, ac_Frozen x,
            ac_AcquiredDelegatedFrozenBalanceForBandwidth x,
            ac_DelegatedFrozenBalanceForBandwidth x, ac_Allowance x, ac_LatestWithdrawTime x),
           ac_AccountResource x, ac_OwnerPermission x, ac_WitnessPermission x,
           ac_ActivePermission x, ac_FrozenV2 x, ac_UnfrozenV2 x,
           ac_DelegatedFrozenV2BalanceForBandwidth x,
           ac_AcquiredDelegatedFrozenV2BalanceForBandwidth x, ac_rest x))
     (\<lambda>((a, b, c, d, e, f, g, h, i), j, k, l, m, n, p, q, r, s).
        \<lparr>ac_Type = a, ac_Address = b, ac_Balance = c, ac_Votes = d, ac_Frozen = e,
            ac_AcquiredDelegatedFrozenBalanceForBandwidth = f,
            ac_DelegatedFrozenBalanceForBandwidth = g, ac_Allowance = h,
            ac_LatestWithdrawTime = i, ac_AccountResource = j, ac_OwnerPermission = k,
            ac_WitnessPermission = l, ac_ActivePermission = m, ac_FrozenV2 = n,
            ac_UnfrozenV2 = p, ac_DelegatedFrozenV2BalanceForBandwidth = q,
            ac_AcquiredDelegatedFrozenV2BalanceForBandwidth = r, ac_rest = s\<rparr>)
     (fmt_pair
       (fmt_pair fmt_AccountType (fmt_pair fmt_bytes (fmt_pair fmt_w64
         (fmt_pair (fmt_list fmt_Vote) (fmt_pair (fmt_list fmt_Frozen) (fmt_pair fmt_w64
         (fmt_pair fmt_w64 (fmt_pair fmt_w64 fmt_w64))))))))
       (fmt_pair (fmt_option fmt_AccountResource) (fmt_pair (fmt_option fmt_Permission)
         (fmt_pair (fmt_option fmt_Permission) (fmt_pair (fmt_list fmt_Permission)
         (fmt_pair (fmt_list fmt_FreezeV2) (fmt_pair (fmt_list fmt_UnFreezeV2)
         (fmt_pair fmt_w64 (fmt_pair fmt_w64 fmt_bytes)))))))))"

definition fmt_Witness :: "Witness fmt" where
  "fmt_Witness = fmt_iso (\<lambda>x. (w_Address x, w_VoteCount x, w_Url x, w_rest x))
     (\<lambda>(a, b, c, d). \<lparr>w_Address = a, w_VoteCount = b, w_Url = c, w_rest = d\<rparr>)
     (fmt_pair fmt_bytes (fmt_pair fmt_w64 (fmt_pair fmt_bytes fmt_bytes)))"

definition fmt_Votes :: "Votes fmt" where
  "fmt_Votes = fmt_iso (\<lambda>x. (vs_Address x, vs_OldVotes x, vs_NewVotes x))
     (\<lambda>(a, b, c). \<lparr>vs_Address = a, vs_OldVotes = b, vs_NewVotes = c\<rparr>)
     (fmt_pair fmt_bytes (fmt_pair (fmt_list fmt_Vote) (fmt_list fmt_Vote)))"

definition fmt_DelegatedResource :: "DelegatedResource fmt" where
  "fmt_DelegatedResource = fmt_iso
     (\<lambda>x. (dr_From x, dr_To x, dr_FrozenBalanceForBandwidth x, dr_FrozenBalanceForEnergy x,
           dr_ExpireTimeForBandwidth x, dr_ExpireTimeForEnergy x))
     (\<lambda>(a, b, c, d, e, f). \<lparr>dr_From = a, dr_To = b, dr_FrozenBalanceForBandwidth = c,
           dr_FrozenBalanceForEnergy = d, dr_ExpireTimeForBandwidth = e,
           dr_ExpireTimeForEnergy = f\<rparr>)
     (fmt_pair fmt_bytes (fmt_pair fmt_bytes (fmt_pair fmt_w64 (fmt_pair fmt_w64
       (fmt_pair fmt_w64 fmt_w64)))))"

definition fmt_Index :: "DelegatedResourceAccountIndex fmt" where
  "fmt_Index = fmt_iso
     (\<lambda>x. (di_Account x, di_FromAccounts x, di_ToAccounts x, di_Timestamp x))
     (\<lambda>(a, b, c, d). \<lparr>di_Account = a, di_FromAccounts = b, di_ToAccounts = c, di_Timestamp = d\<rparr>)
     (fmt_pair fmt_bytes (fmt_pair (fmt_list fmt_bytes) (fmt_pair (fmt_list fmt_bytes) fmt_w64)))"

lemma fmt_messages_ok [fmt_intros]:
  "fmt_ok fmt_Frozen" "fmt_ok fmt_FreezeV2" "fmt_ok fmt_UnFreezeV2" "fmt_ok fmt_Vote" "fmt_ok fmt_Key"
  by (simp add: fmt_Frozen_def fmt_FreezeV2_def fmt_UnFreezeV2_def fmt_Vote_def fmt_Key_def,
      intro fmt_iso_ok fmt_intros, simp)+

lemma fmt_Permission_ok [fmt_intros]: "fmt_ok fmt_Permission"
  unfolding fmt_Permission_def by (intro fmt_iso_ok fmt_intros) simp

lemma fmt_AccountResource_ok [fmt_intros]: "fmt_ok fmt_AccountResource"
  unfolding fmt_AccountResource_def by (intro fmt_iso_ok fmt_intros) simp

lemma fmt_Account_ok [fmt_intros]: "fmt_ok fmt_Account"
  unfolding fmt_Account_def by (intro fmt_iso_ok fmt_intros) simp

lemma fmt_Witness_ok [fmt_intros]: "fmt_ok fmt_Witness"
  unfolding fmt_Witness_def by (intro fmt_iso_ok fmt_intros) simp

lemma fmt_Votes_ok [fmt_intros]: "fmt_ok fmt_Votes"
  unfolding fmt_Votes_def by (intro fmt_iso_ok fmt_intros) simp

lemma fmt_DelegatedResource_ok [fmt_intros]: "fmt_ok fmt_DelegatedResource"
  unfolding fmt_DelegatedResource_def by (intro fmt_iso_ok fmt_intros) simp

lemma fmt_Index_ok [fmt_intros]: "fmt_ok fmt_Index"
  unfolding fmt_Index_def by (intro fmt_iso_ok fmt_intros) simp

definition fmt_Any :: "Any fmt" where
  "fmt_Any = fmt_iso (\<lambda>x. (any_TypeUrl x, any_Value x))
     (\<lambda>(a, b). \<lparr>any_TypeUrl = a, any_Value = b\<rparr>) (fmt_pair fmt_bytes fmt_bytes)"

definition fmt_TxContract :: "Transaction_Contract fmt" where
  "fmt_TxContract = fmt_iso (\<lambda>x. (tc_Type x, tc_Parameter x, tc_rest x))
     (\<lambda>(a, b, c). \<lparr>tc_Type = a, tc_Parameter = b, tc_rest = c\<rparr>)
     (fmt_pair fmt_ContractType (fmt_pair (fmt_option fmt_Any) fmt_bytes))"

definition fmt_TransactionRaw :: "TransactionRaw fmt" where
  "fmt_TransactionRaw = fmt_iso (\<lambda>x. (tr_Contract x, tr_FeeLimit x, tr_rest x))
     (\<lambda>(a, b, c). \<lparr>tr_Contract = a, tr_FeeLimit = b, tr_rest = c\<rparr>)
     (fmt_pair (fmt_list fmt_TxContract) (fmt_pair fmt_w64 fmt_bytes))"

definition fmt_Transaction :: "Transaction fmt" where
  "fmt_Transaction = fmt_iso (\<lambda>x. (tx_RawData x, tx_Signature x, tx_rest x))
     (\<lambda>(a, b, c). \<lparr>tx_RawData = a, tx_Signature = b, tx_rest = c\<rparr>)
     (fmt_pair (fmt_option fmt_TransactionRaw) (fmt_pair (fmt_list fmt_bytes) fmt_bytes))"

definition fmt_BlockHeaderRaw :: "BlockHeaderRaw fmt" where
  "fmt_BlockHeaderRaw = fmt_iso
     (\<lambda>x. (bh_Timestamp x, bh_TxTrieRoot x, bh_ParentHash x, bh_Number x, bh_WitnessId x,
           bh_WitnessAddress x, bh_Version x, bh_AccountStateRoot x))
     (\<lambda>(a, b, c, d, e, f, g, h). \<lparr>bh_Timestamp = a, bh_TxTrieRoot = b, bh_ParentHash = c,
           bh_Number = d, bh_WitnessId = e, bh_WitnessAddress = f, bh_Version = g,
           bh_AccountStateRoot = h\<rparr>)
     (fmt_pair fmt_w64 (fmt_pair fmt_bytes (fmt_pair fmt_bytes (fmt_pair fmt_w64 (fmt_pair fmt_w64
       (fmt_pair fmt_bytes (fmt_pair fmt_int32 fmt_bytes)))))))"

definition fmt_BlockHeader :: "BlockHeader fmt" where
  "fmt_BlockHeader = fmt_iso (\<lambda>x. (hd_RawData x, hd_WitnessSignature x))
     (\<lambda>(a, b). \<lparr>hd_RawData = a, hd_WitnessSignature = b\<rparr>)
     (fmt_pair (fmt_option fmt_BlockHeaderRaw) fmt_bytes)"

definition fmt_Block :: "Block fmt" where
  "fmt_Block = fmt_iso (\<lambda>x. (b_Transactions x, b_BlockHeader x))
     (\<lambda>(a, b). \<lparr>b_Transactions = a, b_BlockHeader = b\<rparr>)
     (fmt_pair (fmt_list fmt_Transaction) (fmt_option fmt_BlockHeader))"

lemma fmt_Any_ok [fmt_intros]: "fmt_ok fmt_Any"
  unfolding fmt_Any_def by (intro fmt_iso_ok fmt_intros) simp

lemma fmt_TxContract_ok [fmt_intros]: "fmt_ok fmt_TxContract"
  unfolding fmt_TxContract_def by (intro fmt_iso_ok fmt_intros) simp

lemma fmt_TransactionRaw_ok [fmt_intros]: "fmt_ok fmt_TransactionRaw"
  unfolding fmt_TransactionRaw_def by (intro fmt_iso_ok fmt_intros) simp

lemma fmt_Transaction_ok [fmt_intros]: "fmt_ok fmt_Transaction"
  unfolding fmt_Transaction_def by (intro fmt_iso_ok fmt_intros) simp

lemma fmt_BlockHeaderRaw_ok [fmt_intros]: "fmt_ok fmt_BlockHeaderRaw"
  unfolding fmt_BlockHeaderRaw_def by (intro fmt_iso_ok fmt_intros) simp

lemma fmt_BlockHeader_ok [fmt_intros]: "fmt_ok fmt_BlockHeader"
  unfolding fmt_BlockHeader_def by (intro fmt_iso_ok fmt_intros) simp

lemma fmt_Block_ok [fmt_intros]: "fmt_ok fmt_Block"
  unfolding fmt_Block_def by (intro fmt_iso_ok fmt_intros) simp

section \<open>Contract parameters\<close>

text \<open>
  A packed parameter of the reference codec is a type tag and the serialised contract; \<open>pack\<close>
  builds one and \<open>unpack\<close> reads it back.
\<close>

definition pack :: "byte \<Rightarrow> 'a fmt \<Rightarrow> 'a \<Rightarrow> Any" where
  "pack t f x = \<lparr>any_TypeUrl = [t], any_Value = fst f x\<rparr>"

definition unpack :: "byte \<Rightarrow> 'a fmt \<Rightarrow> Any option \<Rightarrow> 'a option" where
  "unpack t f a = (case a of None \<Rightarrow> None
     | Some y \<Rightarrow> if any_TypeUrl y \<noteq> [t] then None
              else (case snd f (any_Value y) of Some (x, []) \<Rightarrow> Some x | _ \<Rightarrow> None))"

lemma unpack_pack: "fmt_ok f \<Longrightarrow> unpack t f (Some (pack t f x)) = Some x"
  using fmt_okD [of f x "[]"] by (simp add: pack_def unpack_def)

definition fmt_Transfer :: "TransferC fmt" where
  "fmt_Transfer = fmt_iso (\<lambda>x. (tf_OwnerAddress x, tf_ToAddress x, tf_Amount x))
     (\<lambda>(a, b, c). \<lparr>tf_OwnerAddress = a, tf_ToAddress = b, tf_Amount = c\<rparr>)
     (fmt_pair fmt_bytes (fmt_pair fmt_bytes fmt_w64))"

definition fmt_FreezeBalance :: "FreezeBalanceC fmt" where
  "fmt_FreezeBalance = fmt_iso
     (\<lambda>x. (fb_OwnerAddress x, fb_FrozenBalance x, fb_FrozenDuration x, fb_Resource x,
           fb_ReceiverAddress x))
     (\<lambda>(a, b, c, d, e). \<lparr>fb_OwnerAddress = a, fb_FrozenBalance = b, fb_FrozenDuration = c,
           fb_Resource = d, fb_ReceiverAddress = e\<rparr>)
     (fmt_pair fmt_bytes (fmt_pair fmt_w64 (fmt_pair fmt_w64 (fmt_pair fmt_Resource fmt_bytes))))"

definition fmt_UnfreezeBalance :: "UnfreezeBalanceC fmt" where
  "fmt_UnfreezeBalance = fmt_iso (\<lambda>x. (ub_OwnerAddress x, ub_Resource x, ub_ReceiverAddress x))
     (\<lambda>(a, b, c). \<lparr>ub_OwnerAddress = a, ub_Resource = b, ub_ReceiverAddress = c\<rparr>)
     (fmt_pair fmt_bytes (fmt_pair fmt_Resource fmt_bytes))"

definition fmt_FreezeBalanceV2 :: "FreezeBalanceV2C fmt" where
  "fmt_FreezeBalanceV2 = fmt_iso (\<lambda>x. (fb2_OwnerAddress x, fb2_FrozenBalance x, fb2_Resource x))
     (\<lambda>(a, b, c). \<lparr>fb2_OwnerAddress = a, fb2_FrozenBalance = b, fb2_Resource = c\<rparr>)
     (fmt_pair fmt_bytes (fmt_pair fmt_w64 fmt_Resource))"

definition fmt_UnfreezeBalanceV2 :: "UnfreezeBalanceV2C fmt" where
  "fmt_UnfreezeBalanceV2 = fmt_iso
     (\<lambda>x. (ub2_OwnerAddress x, ub2_UnfreezeBalance x, ub2_Resource x))
     (\<lambda>(a, b, c). \<lparr>ub2_OwnerAddress = a, ub2_UnfreezeBalance = b, ub2_Resource = c\<rparr>)
     (fmt_pair fmt_bytes (fmt_pair fmt_w64 fmt_Resource))"

definition fmt_Owner :: "OwnerC fmt" where
  "fmt_Owner = fmt_iso ow_OwnerAddress (\<lambda>a. \<lparr>ow_OwnerAddress = a\<rparr>) fmt_bytes"

definition fmt_Delegate :: "DelegateResourceC fmt" where
  "fmt_Delegate = fmt_iso
     (\<lambda>x. (dl_OwnerAddress x, dl_Resource x, dl_Balance x, dl_ReceiverAddress x, dl_Lock x))
     (\<lambda>(a, b, c, d, e). \<lparr>dl_OwnerAddress = a, dl_Resource = b, dl_Balance = c,
           dl_ReceiverAddress = d, dl_Lock = e\<rparr>)
     (fmt_pair fmt_bytes (fmt_pair fmt_Resource (fmt_pair fmt_w64 (fmt_pair fmt_bytes fmt_bool))))"

definition fmt_UnDelegate :: "UnDelegateResourceC fmt" where
  "fmt_UnDelegate = fmt_iso
     (\<lambda>x. (ud_OwnerAddress x, ud_Resource x, ud_Balance x, ud_ReceiverAddress x))
     (\<lambda>(a, b, c, d). \<lparr>ud_OwnerAddress = a, ud_Resource = b, ud_Balance = c,
           ud_ReceiverAddress = d\<rparr>)
     (fmt_pair fmt_bytes (fmt_pair fmt_Resource (fmt_pair fmt_w64 fmt_bytes)))"

definition fmt_VoteWitness :: "VoteWitnessC fmt" where
  "fmt_VoteWitness = fmt_iso (\<lambda>x. (vw_OwnerAddress x, vw_Votes x))
     (\<lambda>(a, b). \<lparr>vw_OwnerAddress = a, vw_Votes = b\<rparr>) (fmt_pair fmt_bytes (fmt_list fmt_Vote))"

definition fmt_SmartContract :: "SmartContract fmt" where
  "fmt_SmartContract = fmt_iso
     (\<lambda>x. (sm_Bytecode x, sm_CallValue x, sm_ConsumeUserResourcePercent x,
           sm_OriginEnergyLimit x))
     (\<lambda>(a, b, c, d). \<lparr>sm_Bytecode = a, sm_CallValue = b, sm_ConsumeUserResourcePercent = c,
           sm_OriginEnergyLimit = d\<rparr>)
     (fmt_pair fmt_bytes (fmt_pair fmt_w64 (fmt_pair fmt_w64 fmt_w64)))"

definition fmt_CreateSmart :: "CreateSmartC fmt" where
  "fmt_CreateSmart = fmt_iso (\<lambda>x. (cs_OwnerAddress x, cs_NewContract x))
     (\<lambda>(a, b). \<lparr>cs_OwnerAddress = a, cs_NewContract = b\<rparr>)
     (fmt_pair fmt_bytes (fmt_option fmt_SmartContract))"

definition fmt_TriggerSmart :: "TriggerSmartC fmt" where
  "fmt_TriggerSmart = fmt_iso
     (\<lambda>x. (ts_OwnerAddress x, ts_ContractAddress x, ts_CallValue x, ts_Data x))
     (\<lambda>(a, b, c, d). \<lparr>ts_OwnerAddress = a, ts_ContractAddress = b, ts_CallValue = c,
           ts_Data = d\<rparr>)
     (fmt_pair fmt_bytes (fmt_pair fmt_bytes (fmt_pair fmt_w64 fmt_bytes)))"

lemma fmt_contracts_ok [fmt_intros]:
  "fmt_ok fmt_Transfer" "fmt_ok fmt_FreezeBalance" "fmt_ok fmt_UnfreezeBalance"
  "fmt_ok fmt_FreezeBalanceV2" "fmt_ok fmt_UnfreezeBalanceV2" "fmt_ok fmt_Owner"
  "fmt_ok fmt_Delegate" "fmt_ok fmt_UnDelegate" "fmt_ok fmt_VoteWitness"
  "fmt_ok fmt_SmartContract" "fmt_ok fmt_TriggerSmart"
  by (simp add: fmt_Transfer_def fmt_FreezeBalance_def fmt_UnfreezeBalance_def
        fmt_FreezeBalanceV2_def fmt_UnfreezeBalanceV2_def fmt_Owner_def fmt_Delegate_def
        fmt_UnDelegate_def fmt_VoteWitness_def fmt_SmartContract_def fmt_TriggerSmart_def,
      intro fmt_iso_ok fmt_intros, simp)+

lemma fmt_CreateSmart_ok [fmt_intros]: "fmt_ok fmt_CreateSmart"
  unfolding fmt_CreateSmart_def by (intro fmt_iso_ok fmt_intros) simp

section \<open>The reference codec\<close>

definition decode :: "'a fmt \<Rightarrow> bytes \<Rightarrow> 'a option" where
  "decode f b = (case snd f b of Some (x, []) \<Rightarrow> Some x | _ \<Rightarrow> None)"

lemma decode_encode [simp]: "fmt_ok f \<Longrightarrow> decode f (fst f x) = Some x"
  using fmt_okD [of f x "[]"] by (simp add: decode_def)

lemma roundtrip_fmt: "fmt_ok f \<Longrightarrow> roundtrip (\<lambda>x. Some (fst f x)) (decode f)"
  by (simp add: roundtrip_def)

definition ref_codec :: codec where
  "ref_codec = \<lparr>
     marshal_Account = (\<lambda>x. Some (fst fmt_Account x)), unmarshal_Account = decode fmt_Account,
     marshal_Witness = (\<lambda>x. Some (fst fmt_Witness x)), unmarshal_Witness = decode fmt_Witness,
     marshal_Votes = (\<lambda>x. Some (fst fmt_Votes x)), unmarshal_Votes = decode fmt_Votes,
     marshal_DelegatedResource = (\<lambda>x. Some (fst fmt_DelegatedResource x)),
     unmarshal_DelegatedResource = decode fmt_DelegatedResource,
     marshal_Index = (\<lambda>x. Some (fst fmt_Index x)), unmarshal_Index = decode fmt_Index,
     marshal_Block = (\<lambda>x. Some (fst fmt_Block x)), unmarshal_Block = decode fmt_Block,
     marshal_Transaction = (\<lambda>x. Some (fst fmt_Transaction x)),
     marshal_TransactionRaw = (\<lambda>x. Some (fst fmt_TransactionRaw x)),
     marshal_BlockHeaderRaw = (\<lambda>x. Some (fst fmt_BlockHeaderRaw x)),
     to_Transfer = unpack 1 fmt_Transfer,
     to_FreezeBalance = unpack 2 fmt_FreezeBalance,
     to_UnfreezeBalance = unpack 3 fmt_UnfreezeBalance,
     to_FreezeBalanceV2 = unpack 4 fmt_FreezeBalanceV2,
     to_UnfreezeBalanceV2 = unpack 5 fmt_UnfreezeBalanceV2,
     to_WithdrawExpireUnfreeze = unpack 6 fmt_Owner,
     to_DelegateResource = unpack 7 fmt_Delegate,
     to_UnDelegateResource = unpack 8 fmt_UnDelegate,
     to_VoteWitness = unpack 9 fmt_VoteWitness,
     to_WithdrawBalance = unpack 10 fmt_Owner,
     to_CreateSmart = unpack 11 fmt_CreateSmart,
     to_TriggerSmart = unpack 12 fmt_TriggerSmart,
     new_Any_Transfer = (\<lambda>c. Some (pack 1 fmt_Transfer c))\<rparr>"

lemma ref_codec_stores [simp]:
  "marshal_Account ref_codec = (\<lambda>x. Some (fst fmt_Account x))"
  "unmarshal_Account ref_codec (fst fmt_Account a) = Some a"
  "marshal_Witness ref_codec = (\<lambda>x. Some (fst fmt_Witness x))"
  "unmarshal_Witness ref_codec (fst fmt_Witness w) = Some w"
  "marshal_Votes ref_codec = (\<lambda>x. Some (fst fmt_Votes x))"
  "unmarshal_Votes ref_codec (fst fmt_Votes v) = Some v"
  "marshal_DelegatedResource ref_codec = (\<lambda>x. Some (fst fmt_DelegatedResource x))"
  "unmarshal_DelegatedResource ref_codec (fst fmt_DelegatedResource d) = Some d"
  "marshal_Index ref_codec = (\<lambda>x. Some (fst fmt_Index x))"
  "unmarshal_Index ref_codec (fst fmt_Index i) = Some i"
  "marshal_Block ref_codec = (\<lambda>x. Some (fst fmt_Block x))"
  "unmarshal_Block ref_codec (fst fmt_Block b) = Some b"
  by (simp_all add: ref_codec_def fmt_Account_ok fmt_Witness_ok fmt_Votes_ok
        fmt_DelegatedResource_ok fmt_Index_ok fmt_Block_ok)

lemma ref_codec_params [simp]:
  "to_Transfer ref_codec (Some (pack 1 fmt_Transfer c1)) = Some c1"
  "to_FreezeBalance ref_codec (Some (pack 2 fmt_FreezeBalance c2)) = Some c2"
  "to_UnfreezeBalance ref_codec (Some (pack 3 fmt_UnfreezeBalance c3)) = Some c3"
  "to_FreezeBalanceV2 ref_codec (Some (pack 4 fmt_FreezeBalanceV2 c4)) = Some c4"
  "to_UnfreezeBalanceV2 ref_codec (Some (pack 5 fmt_UnfreezeBalanceV2 c5)) = Some c5"
  "to_WithdrawExpireUnfreeze ref_codec (Some (pack 6 fmt_Owner c6)) = Some c6"
  "to_DelegateResource ref_codec (Some (pack 7 fmt_Delegate c7)) = Some c7"
  "to_UnDelegateResource ref_codec (Some (pack 8 fmt_UnDelegate c8)) = Some c8"
  "to_VoteWitness ref_codec (Some (pack 9 fmt_VoteWitness c9)) = Some c9"
  "to_WithdrawBalance ref_codec (Some (pack 10 fmt_Owner c10)) = Some c10"
  "to_CreateSmart ref_codec (Some (pack 11 fmt_CreateSmart c11)) = Some c11"
  "to_TriggerSmart ref_codec (Some (pack 12 fmt_TriggerSmart c12)) = Some c12"
  by (simp_all add: ref_codec_def unpack_pack fmt_contracts_ok fmt_CreateSmart_ok)

lemma ref_codec_ok: "codec_ok ref_codec"
  by (simp add: codec_ok_def roundtrip_def)

interpretation ref_rt: proto_codec ref_codec
  by unfold_locales (rule ref_codec_ok)

end
