(* ===== verification/Khaos.thy ===== *)
theory Khaos
  imports Merkle_Block Proto_Ref
begin

text \<open>
  \<open>internal/khaos\<close>: the in-memory fork tree. Nodes are never mutated after their creation, so a node
  is a value that contains its parent; \<open>kb_ptr\<close> is its allocation number and models Go's pointer
  identity, which \<open>GetBranch\<close> compares. \<open>key\<close> is the injective hex form of an id, so the map is
  indexed by the id itself.

  Proved: the head is always a stored node with the greatest number, a push advances it exactly on a
  strictly greater number, rejecting a fresh tip restores the previous tree, and on a numbered tree
  with one root \<open>GetBranch\<close> returns the two divergent branches above the lowest common ancestor.
\<close>

datatype KBlock =
  KBlock (kb_ptr: nat) (kb_Block: Block) (kb_ID: bytes) (kb_ParentID: bytes) (kb_Num: int64)
    (kb_Parent: "KBlock option")

record KhaosDB =
  kh_blocks :: "(bytes, KBlock) fmap"
  kh_head :: "KBlock option"
  kh_maxSize :: int64
  kh_next :: nat

definition Khaos_New :: "int64 \<Rightarrow> KhaosDB" where
  "Khaos_New maxSize = \<lparr>kh_blocks = fmempty, kh_head = None, kh_maxSize = maxSize, kh_next = 0\<rparr>"

definition Khaos_Get :: "KhaosDB \<Rightarrow> bytes \<Rightarrow> KBlock option" where
  "Khaos_Get k i = fmlookup (kh_blocks k) i"

definition Khaos_Contains :: "KhaosDB \<Rightarrow> bytes \<Rightarrow> bool" where
  "Khaos_Contains k i = (case fmlookup (kh_blocks k) i of None \<Rightarrow> False | Some _ \<Rightarrow> True)"

definition Khaos_Size :: "KhaosDB \<Rightarrow> nat" where
  "Khaos_Size k = fcard (fmdom (kh_blocks k))"

definition Khaos_Start :: "codec \<Rightarrow> Block \<Rightarrow> (KhaosDB, unit) op" where
  "Khaos_Start cd rt = (\<lambda>k.
     case ID cd rt of
       Inl e \<Rightarrow> (Inl e, k)
     | Inr i \<Rightarrow>
         let node = KBlock (kh_next k) rt i (ParentHash rt) (Number rt) None in
         (Inr (), k\<lparr>kh_blocks := fmupd i node (kh_blocks k), kh_head := Some node, kh_next := kh_next k + 1\<rparr>))"

definition prune :: "KhaosDB \<Rightarrow> KhaosDB" where
  "prune k =
     (case kh_head k of
        None \<Rightarrow> k
      | Some h \<Rightarrow>
          if sle (kh_maxSize k) 0 then k
          else
            let floor = kb_Num h - kh_maxSize k in
            k\<lparr>kh_blocks := fmfilter (\<lambda>i. case fmlookup (kh_blocks k) i of
                 Some n \<Rightarrow> \<not> slt (kb_Num n) floor | None \<Rightarrow> True) (kh_blocks k)\<rparr>)"

definition Khaos_Push :: "codec \<Rightarrow> Block \<Rightarrow> (KhaosDB, KBlock) op" where
  "Khaos_Push cd b = (\<lambda>k.
     case ID cd b of
       Inl e \<Rightarrow> (Inl e, k)
     | Inr i \<Rightarrow>
         (case fmlookup (kh_blocks k) i of
            Some existing \<Rightarrow> (Inr existing, k)
          | None \<Rightarrow>
              (case fmlookup (kh_blocks k) (ParentHash b) of
                 None \<Rightarrow> (Inl ErrUnlinked, k)
               | Some parent \<Rightarrow>
                   let node = KBlock (kh_next k) b i (ParentHash b) (Number b) (Some parent);
                       k1 = k\<lparr>kh_blocks := fmupd i node (kh_blocks k), kh_next := kh_next k + 1\<rparr>
                   in
                   if (case kh_head k of None \<Rightarrow> True | Some h \<Rightarrow> slt (kb_Num h) (kb_Num node))
                   then (Inr node, prune (k1\<lparr>kh_head := Some node\<rparr>))
                   else (Inr node, k1))))"

definition RejectTip :: "bytes \<Rightarrow> KBlock option \<Rightarrow> KhaosDB \<Rightarrow> bool \<times> KhaosDB" where
  "RejectTip i previous k =
     (case kh_head k of
        None \<Rightarrow> (False, k)
      | Some h \<Rightarrow>
          if kb_ID h \<noteq> i then (False, k)
          else if (case previous of None \<Rightarrow> False | Some p \<Rightarrow> Khaos_Get k (kb_ID p) = None) then (False, k)
          else (True, k\<lparr>kh_blocks := fmdrop i (kh_blocks k), kh_head := previous\<rparr>))"

section \<open>Branches\<close>

text \<open>
  The first two loops of \<open>GetBranch\<close>: climb from a node to the first ancestor whose number does not
  exceed a limit, collecting the nodes left behind; \<open>None\<close> when the chain ends.
\<close>

fun climb :: "int64 \<Rightarrow> KBlock \<Rightarrow> (KBlock list \<times> KBlock) option" where
  "climb bnd (KBlock p b i pid n par) =
     (if slt bnd n then
        (case par of
           None \<Rightarrow> None
         | Some q \<Rightarrow> (case climb bnd q of None \<Rightarrow> None
                      | Some (br, stop) \<Rightarrow> Some (KBlock p b i pid n par # br, stop)))
      else Some ([], KBlock p b i pid n par))"

text \<open>The third loop: step both nodes up until the pointers agree.\<close>

fun meet :: "KBlock \<Rightarrow> KBlock \<Rightarrow> (KBlock list \<times> KBlock list) option" where
  "meet (KBlock p1 b1 i1 pid1 n1 par1) n2 =
     (if p1 = kb_ptr n2 then Some ([], [])
      else
        (case (par1, kb_Parent n2) of
           (Some q1, Some q2) \<Rightarrow>
             (case meet q1 q2 of None \<Rightarrow> None
              | Some (br1, br2) \<Rightarrow> Some (KBlock p1 b1 i1 pid1 n1 par1 # br1, n2 # br2))
         | _ \<Rightarrow> None))"

definition GetBranch :: "KhaosDB \<Rightarrow> bytes \<Rightarrow> bytes \<Rightarrow> (KBlock list \<times> KBlock list) result" where
  "GetBranch k id1 id2 =
     (case (Khaos_Get k id1, Khaos_Get k id2) of
        (Some n1, Some n2) \<Rightarrow>
          (case climb (kb_Num n2) n1 of
             None \<Rightarrow> Inl ErrNoCommonAncestor
           | Some (br1, m1) \<Rightarrow>
               (case climb (kb_Num m1) n2 of
                  None \<Rightarrow> Inl ErrNoCommonAncestor
                | Some (br2, m2) \<Rightarrow>
                    (case meet m1 m2 of
                       None \<Rightarrow> Inl ErrNoCommonAncestor
                     | Some (r1, r2) \<Rightarrow> Inr (br1 @ r1, br2 @ r2))))
      | _ \<Rightarrow> Inl ErrNoCommonAncestor)"

section \<open>Ancestor chains\<close>

fun chain :: "KBlock \<Rightarrow> KBlock list" where
  "chain (KBlock p b i pid n par) =
     KBlock p b i pid n par # (case par of None \<Rightarrow> [] | Some q \<Rightarrow> chain q)"

lemma chain_unfold: "chain n = n # (case kb_Parent n of None \<Rightarrow> [] | Some q \<Rightarrow> chain q)"
  by (cases n) simp

lemma chain_neq_Nil [simp]: "chain n \<noteq> []"
  by (simp add: chain_unfold)

lemma chain_self [simp]: "n \<in> set (chain n)"
  by (subst chain_unfold) simp

lemma hd_chain [simp]: "hd (chain n) = n"
  by (simp add: chain_unfold)

text \<open>
  \<open>numbered\<close>: along the chain every block is one above its parent. \<open>ptr_ok\<close>: equal pointers are equal
  nodes.
\<close>

fun numbered :: "KBlock \<Rightarrow> bool" where
  "numbered (KBlock p b i pid n par) \<longleftrightarrow>
     (case par of None \<Rightarrow> True | Some q \<Rightarrow> sint n = sint (kb_Num q) + 1 \<and> numbered q)"

definition ptr_ok :: "KBlock set \<Rightarrow> bool" where
  "ptr_ok S \<longleftrightarrow> (\<forall>a \<in> S. \<forall>b \<in> S. kb_ptr a = kb_ptr b \<longrightarrow> a = b)"

lemma ptr_ok_mono: "ptr_ok T \<Longrightarrow> S \<subseteq> T \<Longrightarrow> ptr_ok S"
  unfolding ptr_ok_def by blast

definition lineage :: "KhaosDB \<Rightarrow> KBlock set" where
  "lineage k = (\<Union>n \<in> fmran' (kh_blocks k). set (chain n))"

lemma numbered_unfold:
  "numbered n \<longleftrightarrow> (case kb_Parent n of None \<Rightarrow> True | Some q \<Rightarrow> sint (kb_Num n) = sint (kb_Num q) + 1 \<and> numbered q)"
  by (cases n) (simp split: option.splits)

lemma numbered_ancestor: "numbered n \<Longrightarrow> m \<in> set (chain n) \<Longrightarrow> numbered m \<and> set (chain m) \<subseteq> set (chain n)"
  by (induction n rule: chain.induct) (auto split: option.splits)

lemma length_chain_numbered:
  "numbered n \<Longrightarrow> int (length (chain n)) = sint (kb_Num n) - sint (kb_Num (last (chain n))) + 1"
  by (induction n rule: chain.induct) (auto simp: split: option.splits)

lemma chain_num_ge: "numbered n \<Longrightarrow> m \<in> set (chain n) \<Longrightarrow> sint (kb_Num m) \<le> sint (kb_Num n)"
  by (induction n rule: chain.induct) (fastforce split: option.splits)

lemma climb_spec:
  assumes "numbered n" "sint (kb_Num (last (chain n))) \<le> sint bnd"
  shows "\<exists>br stop. climb bnd n = Some (br, stop) \<and> chain n = br @ chain stop \<and>
    sint (kb_Num stop) = min (sint (kb_Num n)) (sint bnd) \<and> (\<forall>m \<in> set br. sint bnd < sint (kb_Num m))"
  using assms
proof (induction bnd n rule: climb.induct)
  case (1 bnd p b i pid n par)
  show ?case
  proof (cases "slt bnd n")
    case True
    with 1(3) obtain q where q: "par = Some q"
      by (cases par) (auto simp: slt_def)
    from 1(2) q have num: "sint n = sint (kb_Num q) + 1" "numbered q" by simp_all
    have "sint (kb_Num (last (chain q))) \<le> sint bnd" using 1(3) q by simp
    with 1(1) [OF True q num(2)] obtain br stop where
      "climb bnd q = Some (br, stop)" "chain q = br @ chain stop"
      "sint (kb_Num stop) = min (sint (kb_Num q)) (sint bnd)" "\<forall>m \<in> set br. sint bnd < sint (kb_Num m)"
      by blast
    with True q num show ?thesis by (auto simp: slt_def)
  next
    case False
    then show ?thesis by (auto simp: slt_def)
  qed
qed

lemma meet_spec:
  assumes "numbered n1" "numbered n2" "kb_Num n1 = kb_Num n2" "last (chain n1) = last (chain n2)"
    and "ptr_ok (set (chain n1) \<union> set (chain n2))"
  shows "\<exists>br1 br2 c. meet n1 n2 = Some (br1, br2) \<and> chain n1 = br1 @ chain c \<and> chain n2 = br2 @ chain c \<and>
    length br1 = length br2 \<and> set br1 \<inter> set br2 = {}"
  using assms
proof (induction n1 n2 rule: meet.induct)
  case (1 p1 b1 i1 pid1 n1 par1 n2)
  let ?n1 = "KBlock p1 b1 i1 pid1 n1 par1"
  show ?case
  proof (cases "p1 = kb_ptr n2")
    case True
    have "?n1 \<in> set (chain ?n1)" by (rule chain_self)
    with True 1(6) chain_self [of n2] have "?n1 = n2" unfolding ptr_ok_def by force
    moreover have "meet ?n1 n2 = Some ([], [])" using True by simp
    ultimately have "meet ?n1 n2 = Some ([], [])" "chain ?n1 = chain n2" by simp_all
    then show ?thesis by (intro exI [of _ "[]"] exI [of _ n2]) simp
  next
    case False
    have "int (length (chain ?n1)) = int (length (chain n2))"
      by (simp only: length_chain_numbered [OF 1(2)] length_chain_numbered [OF 1(3)] 1(4,5))
    then have len: "length (chain ?n1) = length (chain n2)" by (simp only: of_nat_eq_iff)
    have "par1 \<noteq> None"
    proof
      assume "par1 = None"
      with len have "kb_Parent n2 = None" by (auto simp: chain_unfold [of n2] split: option.splits)
      with \<open>par1 = None\<close> 1(5) have "?n1 = n2" by (simp add: chain_unfold [of n2])
      with False show False by auto
    qed
    then obtain q1 where q1: "par1 = Some q1" by blast
    with len obtain q2 where q2: "kb_Parent n2 = Some q2" by (auto simp: chain_unfold [of n2] split: option.splits)
    note num2 = numbered_unfold [of n2, unfolded q2, simplified]
    have kn: "kb_Num q1 = kb_Num q2"
    proof -
      have "sint (kb_Num q1) = sint (kb_Num q2)" using 1(2,3,4) q1 num2 by simp
      then show ?thesis by (simp add: signed_word_eqI)
    qed
    have sub: "set (chain q1) \<union> set (chain q2) \<subseteq> set (chain ?n1) \<union> set (chain n2)"
      using q1 q2 by (auto simp: chain_unfold [of n2])
    have ch: "chain ?n1 = ?n1 # chain q1" "chain n2 = n2 # chain q2"
      using q1 q2 by (simp_all add: chain_unfold [of n2])
    have "\<exists>br1 br2 c. meet q1 q2 = Some (br1, br2) \<and> chain q1 = br1 @ chain c \<and> chain q2 = br2 @ chain c \<and>
      length br1 = length br2 \<and> set br1 \<inter> set br2 = {}"
    proof (rule 1(1) [OF False _ q1 q2])
      show "last (chain q1) = last (chain q2)" using 1(5) ch by simp
      show "ptr_ok (set (chain q1) \<union> set (chain q2))" using ptr_ok_mono [OF 1(6) sub] .
    qed (use 1 q1 num2 kn in auto)
    then obtain br1 br2 c where IH: "meet q1 q2 = Some (br1, br2)" "chain q1 = br1 @ chain c"
      "chain q2 = br2 @ chain c" "length br1 = length br2" "set br1 \<inter> set br2 = {}" by blast
    have "n2 \<notin> set (chain q1)" "?n1 \<notin> set (chain q2)"
      using chain_num_ge [of q1 n2] chain_num_ge [of q2 ?n1] 1(2,3,4) q1 num2 by auto
    then have "n2 \<notin> set br1" "?n1 \<notin> set br2" using IH by auto
    moreover have "?n1 \<noteq> n2" using False by auto
    ultimately show ?thesis using False q1 q2 IH ch by auto
  qed
qed

section \<open>Correctness\<close>

text \<open>The tree is well numbered, has one root and coherent pointers.\<close>

definition single_tree :: "KhaosDB \<Rightarrow> KBlock \<Rightarrow> bool" where
  "single_tree k rt \<longleftrightarrow>
     (\<forall>i n. Khaos_Get k i = Some n \<longrightarrow> numbered n \<and> last (chain n) = rt) \<and> ptr_ok (lineage k)"

lemma lineageI: "Khaos_Get k i = Some n \<Longrightarrow> m \<in> set (chain n) \<Longrightarrow> m \<in> lineage k"
  by (auto simp: lineage_def Khaos_Get_def intro: fmran'I)

lemma last_suffix: "xs = ys @ zs \<Longrightarrow> zs \<noteq> [] \<Longrightarrow> last xs = last zs"
  by simp

lemma branches_disjoint_climb:
  assumes "\<forall>m \<in> set br. bnd < sint (kb_Num m)" "\<forall>m \<in> set r. sint (kb_Num m) \<le> bnd"
  shows "set br \<inter> set r = {}"
  using assms by fastforce

lemma GetBranch_single_tree:
  assumes "single_tree k rt" "Khaos_Get k id1 = Some n1" "Khaos_Get k id2 = Some n2"
  shows "\<exists>br1 br2 c. GetBranch k id1 id2 = Inr (br1, br2) \<and>
    chain n1 = br1 @ chain c \<and> chain n2 = br2 @ chain c \<and> set br1 \<inter> set br2 = {}"
proof -
  have n1: "numbered n1" "last (chain n1) = rt" and n2: "numbered n2" "last (chain n2) = rt"
    and ptrs: "ptr_ok (lineage k)"
    using assms by (auto simp: single_tree_def)
  have root_le: "sint (kb_Num rt) \<le> sint (kb_Num n1)" "sint (kb_Num rt) \<le> sint (kb_Num n2)"
    using n1 n2 chain_num_ge [OF n1(1), of rt] chain_num_ge [OF n2(1), of rt]
      last_in_set [of "chain n1"] last_in_set [of "chain n2"] by auto
  obtain br1 m1 where c1: "climb (kb_Num n2) n1 = Some (br1, m1)" "chain n1 = br1 @ chain m1"
    "sint (kb_Num m1) = min (sint (kb_Num n1)) (sint (kb_Num n2))"
    "\<forall>m \<in> set br1. sint (kb_Num n2) < sint (kb_Num m)"
    using climb_spec [of n1 "kb_Num n2"] n1 root_le by auto
  have "sint (kb_Num (last (chain n2))) \<le> sint (kb_Num m1)" using n2 root_le c1(3) by simp
  then obtain br2 m2 where c2: "climb (kb_Num m1) n2 = Some (br2, m2)" "chain n2 = br2 @ chain m2"
    "sint (kb_Num m2) = min (sint (kb_Num n2)) (sint (kb_Num m1))"
    "\<forall>m \<in> set br2. sint (kb_Num m1) < sint (kb_Num m)"
    using climb_spec [of n2 "kb_Num m1"] n2 by blast
  have in1: "m1 \<in> set (chain n1)" "set (chain m1) \<subseteq> set (chain n1)"
    and in2: "m2 \<in> set (chain n2)" "set (chain m2) \<subseteq> set (chain n2)"
    using c1(2) c2(2) by simp_all
  have num: "numbered m1" "numbered m2"
    using numbered_ancestor n1(1) n2(1) in1(1) in2(1) by blast+
  have "sint (kb_Num m1) = sint (kb_Num m2)" using c1(3) c2(3) by auto
  then have eqn: "kb_Num m1 = kb_Num m2" by (simp add: signed_word_eqI)
  have "ptr_ok (set (chain m1) \<union> set (chain m2))"
    using ptrs in1(2) in2(2) lineageI [OF assms(2)] lineageI [OF assms(3)] by (intro ptr_ok_mono [OF ptrs]) blast
  moreover have "last (chain m1) = last (chain m2)"
    using last_suffix [OF c1(2)] last_suffix [OF c2(2)] n1(2) n2(2) by simp
  ultimately obtain r1 r2 c where r: "meet m1 m2 = Some (r1, r2)" "chain m1 = r1 @ chain c"
    "chain m2 = r2 @ chain c" "set r1 \<inter> set r2 = {}"
    using meet_spec [OF num eqn] by auto
  have low: "\<forall>m \<in> set r1. sint (kb_Num m) \<le> sint (kb_Num m1)" "\<forall>m \<in> set r2. sint (kb_Num m) \<le> sint (kb_Num m2)"
    using chain_num_ge num r(2,3) by fastforce+
  have "set (br1 @ r1) \<inter> set (br2 @ r2) = {}"
  proof -
    have "set br1 \<inter> set r2 = {}"
      using c1(3,4) low(2) eqn by (intro branches_disjoint_climb [of br1 "sint (kb_Num n2)"]) auto
    moreover have "set br2 \<inter> set r1 = {}"
      using c2(4) low(1) by (intro branches_disjoint_climb) auto
    moreover have "set br1 \<inter> set br2 = {}"
    proof (cases "br1 = [] \<or> br2 = []")
      case False
      then obtain x where "x \<in> set br1" by (cases br1) auto
      with c1(2,4) n1 have "sint (kb_Num n2) < sint (kb_Num n1)"
        using chain_num_ge [OF n1(1), of x] by fastforce
      then have "sint (kb_Num m1) = sint (kb_Num n2)" using c1(3) by simp
      moreover obtain y where "y \<in> set br2" using False by (cases br2) auto
      ultimately show ?thesis using c2(2,4) chain_num_ge [OF n2(1), of y] by fastforce
    qed auto
    ultimately show ?thesis using r(4) by auto
  qed
  moreover have "GetBranch k id1 id2 = Inr (br1 @ r1, br2 @ r2)"
    using assms(2,3) c1(1) c2(1) r(1) by (simp add: GetBranch_def)
  ultimately show ?thesis using c1(2) c2(2) r(2,3) by (intro exI conjI) auto
qed

section \<open>Invariant\<close>

definition khaos_inv :: "KhaosDB \<Rightarrow> bool" where
  "khaos_inv k \<longleftrightarrow>
     (\<forall>i n. Khaos_Get k i = Some n \<longrightarrow> kb_ID n = i) \<and>
     (\<forall>m \<in> lineage k. kb_ptr m < kh_next k \<and> kb_Num m = Number (kb_Block m) \<and>
        (\<forall>p. kb_Parent m = Some p \<longrightarrow> kb_ID p = ParentHash (kb_Block m))) \<and>
     ptr_ok (lineage k) \<and>
     (\<exists>h. kh_head k = Some h \<and> Khaos_Get k (kb_ID h) = Some h \<and> 0 \<le> sint (kb_Num h) \<and>
        (\<forall>i n. Khaos_Get k i = Some n \<longrightarrow> sint (kb_Num n) \<le> sint (kb_Num h)))"

lemma prune_simps [simp]:
  "kh_head (prune k) = kh_head k" "kh_next (prune k) = kh_next k" "kh_maxSize (prune k) = kh_maxSize k"
  by (simp_all add: prune_def Let_def split: option.splits)

lemma Get_prune: "Khaos_Get (prune k) j = Some n \<Longrightarrow> Khaos_Get k j = Some n"
  by (auto simp: prune_def Khaos_Get_def Let_def split: option.splits if_splits)

lemma Get_prune_head:
  assumes "kh_head k = Some h" "0 \<le> sint (kb_Num h)" "Khaos_Get k j = Some n"
    and "sint (kb_Num h) - sint (kh_maxSize k) \<le> sint (kb_Num n) \<or> n = h"
  shows "Khaos_Get (prune k) j = Some n"
proof (cases "sle (kh_maxSize k) 0")
  case True
  with assms show ?thesis by (simp add: prune_def)
next
  case False
  have "sint (kb_Num h - kh_maxSize k) = sint (kb_Num h) - sint (kh_maxSize k)"
    using False assms(2) sint64_upper [of "kb_Num h"] sint64_upper [of "kh_maxSize k"]
    by (intro sint64_sub) (simp add: in_int64_def sle_def)
  with False assms show ?thesis
    by (auto simp: prune_def Khaos_Get_def Let_def scmp_defs)
qed

lemma lineage_mono:
  assumes "\<And>j n. Khaos_Get k' j = Some n \<Longrightarrow> n \<in> A \<or> Khaos_Get k j = Some n"
    and "\<And>n. n \<in> A \<Longrightarrow> set (chain n) \<subseteq> B"
  shows "lineage k' \<subseteq> B \<union> lineage k"
proof
  fix m assume "m \<in> lineage k'"
  then obtain j n where "Khaos_Get k' j = Some n" "m \<in> set (chain n)"
    by (auto simp: lineage_def Khaos_Get_def elim!: fmran'E)
  with assms lineageI show "m \<in> B \<union> lineage k" by blast
qed

text \<open>The outcomes of a push: nothing changes, or a node is inserted below its parent.\<close>

definition inserted :: "KhaosDB \<Rightarrow> Block \<Rightarrow> bytes \<Rightarrow> KBlock \<Rightarrow> KBlock" where
  "inserted k b i parent = KBlock (kh_next k) b i (ParentHash b) (Number b) (Some parent)"

definition advances :: "KhaosDB \<Rightarrow> Block \<Rightarrow> bool" where
  "advances k b = (case kh_head k of None \<Rightarrow> True | Some h \<Rightarrow> slt (kb_Num h) (Number b))"

definition insert_node :: "KhaosDB \<Rightarrow> KBlock \<Rightarrow> KhaosDB" where
  "insert_node k n = k\<lparr>kh_blocks := fmupd (kb_ID n) n (kh_blocks k), kh_next := kh_next k + 1\<rparr>"

lemma inserted_simps [simp]:
  "kb_ptr (inserted k b i p) = kh_next k" "kb_Block (inserted k b i p) = b" "kb_ID (inserted k b i p) = i"
  "kb_ParentID (inserted k b i p) = ParentHash b" "kb_Num (inserted k b i p) = Number b"
  "kb_Parent (inserted k b i p) = Some p" "chain (inserted k b i p) = inserted k b i p # chain p"
  by (simp_all add: inserted_def)

lemma insert_node_simps [simp]:
  "Khaos_Get (insert_node k n) j = (if j = kb_ID n then Some n else Khaos_Get k j)"
  "kh_head (insert_node k n) = kh_head k" "kh_next (insert_node k n) = kh_next k + 1"
  "kh_maxSize (insert_node k n) = kh_maxSize k"
  by (auto simp: insert_node_def Khaos_Get_def)

lemma Get_set_head [simp]: "Khaos_Get (k\<lparr>kh_head := h\<rparr>) j = Khaos_Get k j"
  by (simp add: Khaos_Get_def)

lemma Push_new:
  assumes "ID cd b = Inr i" "Khaos_Get k i = None" "Khaos_Get k (ParentHash b) = Some parent"
  shows "Khaos_Push cd b k = (Inr (inserted k b i parent),
    if advances k b
    then prune (insert_node k (inserted k b i parent)\<lparr>kh_head := Some (inserted k b i parent)\<rparr>)
    else insert_node k (inserted k b i parent))"
  using assms
  by (simp add: Khaos_Push_def Khaos_Get_def Let_def inserted_def advances_def insert_node_def
        split: option.splits)

lemma Push_cases:
  obtains (failed) e where "Khaos_Push cd b k = (Inl e, k)" "ID cd b = Inl e \<or> e = ErrUnlinked"
  | (known) i n where "Khaos_Push cd b k = (Inr n, k)" "ID cd b = Inr i" "Khaos_Get k i = Some n"
  | (new) i parent where "ID cd b = Inr i" "Khaos_Get k i = None" "Khaos_Get k (ParentHash b) = Some parent"
proof (cases "ID cd b")
  case (Inl e)
  then show ?thesis by (intro failed [of e]) (auto simp: Khaos_Push_def)
next
  case (Inr i)
  then show ?thesis
    by (cases "Khaos_Get k i"; cases "Khaos_Get k (ParentHash b)")
      (auto simp: Khaos_Push_def Khaos_Get_def intro: failed known new)
qed

lemma Get_Push_new:
  assumes "ID cd b = Inr i" "Khaos_Get k i = None" "Khaos_Get k (ParentHash b) = Some parent"
    and "Khaos_Get (snd (Khaos_Push cd b k)) j = Some n"
  shows "n = inserted k b i parent \<and> j = i \<or> j \<noteq> i \<and> Khaos_Get k j = Some n"
  using assms(4) by (auto simp: Push_new [OF assms(1-3)] split: if_splits dest!: Get_prune)

lemma lineage_Push_new:
  assumes "ID cd b = Inr i" "Khaos_Get k i = None" "Khaos_Get k (ParentHash b) = Some parent"
  shows "lineage (snd (Khaos_Push cd b k)) \<subseteq> insert (inserted k b i parent) (lineage k)"
proof -
  have "lineage (snd (Khaos_Push cd b k)) \<subseteq> set (chain (inserted k b i parent)) \<union> lineage k"
    using Get_Push_new [OF assms] by (intro lineage_mono [where A = "{inserted k b i parent}"]) blast+
  then show ?thesis using lineageI [OF assms(3)] by auto
qed

lemma Push_inv:
  assumes "khaos_inv k" shows "khaos_inv (snd (Khaos_Push cd b k))"
proof (cases rule: Push_cases [of cd b k])
  case (new i parent)
  let ?n = "inserted k b i parent" and ?k' = "snd (Khaos_Push cd b k)"
  obtain h where h: "kh_head k = Some h" "Khaos_Get k (kb_ID h) = Some h" "0 \<le> sint (kb_Num h)"
    "\<And>i n. Khaos_Get k i = Some n \<Longrightarrow> sint (kb_Num n) \<le> sint (kb_Num h)"
    using assms by (auto simp: khaos_inv_def)
  note lin = lineage_Push_new [OF new]
  have keys: "\<forall>j n. Khaos_Get ?k' j = Some n \<longrightarrow> kb_ID n = j"
    using Get_Push_new [OF new] assms by (fastforce simp: khaos_inv_def)
  have pid: "kb_ID parent = ParentHash b" using assms new(3) by (auto simp: khaos_inv_def)
  have next': "kh_next ?k' = kh_next k + 1" by (simp add: Push_new [OF new])
  have nodes: "\<forall>m \<in> lineage ?k'. kb_ptr m < kh_next ?k' \<and> kb_Num m = Number (kb_Block m) \<and>
      (\<forall>p. kb_Parent m = Some p \<longrightarrow> kb_ID p = ParentHash (kb_Block m))"
    using assms lin pid by (fastforce simp: khaos_inv_def next')
  have ptrs: "ptr_ok (lineage ?k')"
  proof -
    have "ptr_ok (insert ?n (lineage k))" using assms by (fastforce simp: khaos_inv_def ptr_ok_def)
    then show ?thesis using lin by (rule ptr_ok_mono)
  qed
  have head: "\<exists>h. kh_head ?k' = Some h \<and> Khaos_Get ?k' (kb_ID h) = Some h \<and> 0 \<le> sint (kb_Num h) \<and>
      (\<forall>i n. Khaos_Get ?k' i = Some n \<longrightarrow> sint (kb_Num n) \<le> sint (kb_Num h))"
  proof (cases "advances k b")
    case True
    then have lt: "sint (kb_Num h) < sint (Number b)" by (simp add: advances_def h slt_def)
    have "Khaos_Get ?k' i = Some ?n"
      using True lt h by (simp add: Push_new [OF new] Get_prune_head)
    with True lt h show ?thesis
      using Get_Push_new [OF new] by (intro exI [of _ ?n]) (fastforce simp: Push_new [OF new])
  next
    case False
    then have "sint (Number b) \<le> sint (kb_Num h)" by (simp add: advances_def h slt_def)
    moreover have "kb_ID h \<noteq> i" using h new(2) by auto
    ultimately show ?thesis
      using False h by (intro exI [of _ h]) (auto simp: Push_new [OF new] split: if_splits)
  qed
  show ?thesis unfolding khaos_inv_def using keys nodes ptrs head by blast
qed (use assms in auto)

text \<open>
  C37: The fork-choice rule: a push of an unknown block with a known parent makes it the head exactly
  when its number is strictly greater than the head's (ties keep the first block seen), and neither
  a known block nor an unlinked one moves the head.
\<close>

theorem Push_head_rule:
  assumes "kh_head k = Some h"
  shows "case fst (Khaos_Push cd b k) of
      Inl e \<Rightarrow> snd (Khaos_Push cd b k) = k
    | Inr n \<Rightarrow> kh_head (snd (Khaos_Push cd b k)) =
        (if (\<exists>i. ID cd b = Inr i \<and> Khaos_Get k i = None) \<and> sint (kb_Num h) < sint (Number b) then Some n else Some h)"
proof (cases rule: Push_cases [of cd b k])
  case (new i parent)
  then show ?thesis using assms by (simp add: Push_new [OF new] advances_def slt_def)
qed (use assms in auto)

lemma single_tree_Push:
  assumes "single_tree k r" "khaos_inv k"
    and "\<And>parent. Khaos_Get k (ParentHash b) = Some parent \<Longrightarrow> sint (Number b) = sint (kb_Num parent) + 1"
  shows "single_tree (snd (Khaos_Push cd b k)) r"
proof (cases rule: Push_cases [of cd b k])
  case (new i parent)
  have "numbered (inserted k b i parent)" "last (chain (inserted k b i parent)) = r"
    using assms(1,3) new(3) by (auto simp: single_tree_def numbered_unfold [of "inserted k b i parent"])
  moreover have "ptr_ok (lineage (snd (Khaos_Push cd b k)))"
    using Push_inv [OF assms(2)] by (simp add: khaos_inv_def)
  ultimately show ?thesis
    using assms(1) Get_Push_new [OF new] unfolding single_tree_def by metis
qed (use assms in auto)

section \<open>Runs of pushes\<close>

fun pushAll :: "codec \<Rightarrow> Block list \<Rightarrow> KhaosDB \<Rightarrow> KhaosDB" where
  "pushAll cd [] k = k"
| "pushAll cd (b # bs) k = pushAll cd bs (snd (Khaos_Push cd b k))"

text \<open>Every pushed block whose parent is known is numbered one above it.\<close>

fun numbered_run :: "codec \<Rightarrow> Block list \<Rightarrow> KhaosDB \<Rightarrow> bool" where
  "numbered_run cd [] k \<longleftrightarrow> True"
| "numbered_run cd (b # bs) k \<longleftrightarrow>
     (case Khaos_Get k (ParentHash b) of None \<Rightarrow> True | Some p \<Rightarrow> sint (Number b) = sint (kb_Num p) + 1) \<and>
     numbered_run cd bs (snd (Khaos_Push cd b k))"

definition started :: "codec \<Rightarrow> int64 \<Rightarrow> Block \<Rightarrow> KhaosDB" where
  "started cd maxSize rt = snd (Khaos_Start cd rt (Khaos_New maxSize))"

lemma started_inv:
  assumes "ID cd rt = Inr i" "0 \<le> sint (Number rt)"
  shows "khaos_inv (started cd ms rt)"
    and "single_tree (started cd ms rt) (KBlock 0 rt i (ParentHash rt) (Number rt) None)"
  using assms
  by (auto simp: started_def Khaos_Start_def Khaos_New_def Let_def khaos_inv_def single_tree_def
        Khaos_Get_def lineage_def ptr_ok_def fmran'_def split: if_splits)

lemma pushAll_inv: "khaos_inv k \<Longrightarrow> khaos_inv (pushAll cd bs k)"
  by (induction bs arbitrary: k) (simp_all add: Push_inv)

lemma pushAll_single_tree:
  "khaos_inv k \<Longrightarrow> single_tree k r \<Longrightarrow> numbered_run cd bs k \<Longrightarrow> single_tree (pushAll cd bs k) r"
proof (induction bs arbitrary: k)
  case (Cons b bs)
  have "single_tree (snd (Khaos_Push cd b k)) r"
    using Cons.prems by (intro single_tree_Push) auto
  with Cons show ?case by (simp add: Push_inv)
qed simp

text \<open>
  C36: However many blocks are pushed after \<open>Start\<close>, in whatever order and with whatever outcome, the
  fork tree stays well formed: nodes are stored under their own id, point at the block their
  header names as parent, carry their header's number and have unique addresses, and the head is a
  stored node that no other stored node exceeds in number.
\<close>

theorem fork_tree_invariant:
  assumes "ID cd rt = Inr i" "0 \<le> sint (Number rt)"
  shows "khaos_inv (pushAll cd bs (started cd maxSize rt))"
  by (intro pushAll_inv started_inv [OF assms])

text \<open>
  On a tree whose blocks are numbered one above their parents, \<open>GetBranch\<close> succeeds for any
  two stored ids and splits both ancestor chains at their lowest common ancestor: the two results
  are disjoint, tip first, and continue into the same chain.
\<close>

theorem GetBranch_ok:
  assumes "ID cd rt = Inr i" "0 \<le> sint (Number rt)" "numbered_run cd bs (started cd maxSize rt)"
    and "Khaos_Get (pushAll cd bs (started cd maxSize rt)) id1 = Some n1"
    and "Khaos_Get (pushAll cd bs (started cd maxSize rt)) id2 = Some n2"
  shows "\<exists>br1 br2 c. GetBranch (pushAll cd bs (started cd maxSize rt)) id1 id2 = Inr (br1, br2) \<and>
    chain n1 = br1 @ chain c \<and> chain n2 = br2 @ chain c \<and> set br1 \<inter> set br2 = {}"
  using GetBranch_single_tree [OF pushAll_single_tree [OF started_inv [OF assms(1,2)] assms(3)] assms(4,5)] .

text \<open>
  C38: Rejecting a tip that was just pushed on top of a retained head restores the tree: the previous
  head, and every stored node except those the push pruned.
\<close>

theorem RejectTip_undoes_Push:
  assumes "khaos_inv k" "kh_head k = Some h" "ID cd b = Inr i" "Khaos_Get k i = None"
    and "Khaos_Get k (ParentHash b) = Some parent" "sint (kb_Num h) < sint (Number b)"
    and "sint (Number b) - sint (kh_maxSize k) \<le> sint (kb_Num h) \<or> sint (kh_maxSize k) \<le> 0"
  shows "\<exists>k'. RejectTip i (Some h) (snd (Khaos_Push cd b k)) = (True, k') \<and> kh_head k' = Some h \<and>
    Khaos_Get k' i = None \<and> (\<forall>j n. Khaos_Get k' j = Some n \<longrightarrow> Khaos_Get k j = Some n) \<and>
    (sint (kh_maxSize k) \<le> 0 \<longrightarrow> kh_blocks k' = kh_blocks k)"
proof -
  let ?k' = "snd (Khaos_Push cd b k)" and ?n = "inserted k b i parent"
  have h: "Khaos_Get k (kb_ID h) = Some h" "0 \<le> sint (kb_Num h)"
    using assms(1,2) by (auto simp: khaos_inv_def)
  have adv: "advances k b" using assms(2,6) by (simp add: advances_def slt_def)
  have head: "kh_head ?k' = Some ?n" using adv by (simp add: Push_new [OF assms(3-5)])
  have ne: "kb_ID h \<noteq> i" using h(1) assms(4) by auto
  have stays: "Khaos_Get ?k' (kb_ID h) = Some h"
  proof (cases "sint (kh_maxSize k) \<le> 0")
    case True
    then show ?thesis using adv h ne by (simp add: Push_new [OF assms(3-5)] prune_def sle_def)
  next
    case False
    then show ?thesis using adv h ne assms(6,7) by (simp add: Push_new [OF assms(3-5)] Get_prune_head)
  qed
  have rej: "RejectTip i (Some h) ?k' = (True, ?k'\<lparr>kh_blocks := fmdrop i (kh_blocks ?k'), kh_head := Some h\<rparr>)"
    using head stays by (simp add: RejectTip_def)
  have "kh_blocks ?k' = fmupd i ?n (kh_blocks k)" if "sint (kh_maxSize k) \<le> 0"
    using that adv by (simp add: Push_new [OF assms(3-5)] prune_def sle_def insert_node_def)
  moreover have "fmdrop i (fmupd i ?n (kh_blocks k)) = kh_blocks k"
    using assms(4) by (intro fmap_ext) (auto simp: Khaos_Get_def)
  ultimately show ?thesis
    using rej Get_Push_new [OF assms(3-5)] by (auto simp: Khaos_Get_def split: if_splits)
qed

section \<open>A concrete tree\<close>

text \<open>Blocks that consist of a header with a number and a parent id.\<close>

definition headerBlock :: "int64 \<Rightarrow> bytes \<Rightarrow> Block" where
  "headerBlock n parent = \<lparr>b_Transactions = [], b_BlockHeader = Some \<lparr>hd_RawData =
     Some (zero_BlockHeaderRaw\<lparr>bh_Number := n, bh_ParentHash := parent\<rparr>), hd_WitnessSignature = []\<rparr>\<rparr>"

lemma headerBlock_simps [simp]:
  "Number (headerBlock n p) = n" "ParentHash (headerBlock n p) = p"
  by (simp_all add: headerBlock_def Number_def ParentHash_def GetBlockRawData_def)

definition refID :: "Block \<Rightarrow> bytes" where
  "refID b = (case ID ref_codec b of Inr i \<Rightarrow> i | Inl _ \<Rightarrow> [])"

lemma ID_ref [simp]: "ID ref_codec b = Inr (refID b)"
  by (simp add: refID_def ID_def IDFromHeaderRaw_def HeaderRawHash_def ref_codec_def)

lemma refID_neq: "Number b \<noteq> Number c \<Longrightarrow> refID b \<noteq> refID c"
  using ID_Number_neq [of ref_codec b _ c] by simp

definition blkR :: Block where "blkR = headerBlock 0 []"
definition blkA :: Block where "blkA = headerBlock 1 (refID blkR)"

lemma blk_simps [simp]:
  "Number blkR = 0" "ParentHash blkR = []" "Number blkA = 1" "ParentHash blkA = refID blkR"
  "refID blkA \<noteq> refID blkR" "refID blkR \<noteq> refID blkA"
  using refID_neq [of blkA blkR] by (simp_all add: blkA_def blkR_def)

definition nodeR :: KBlock where "nodeR = KBlock 0 blkR (refID blkR) [] 0 None"
definition nodeA :: KBlock where "nodeA = KBlock 1 blkA (refID blkA) (refID blkR) 1 (Some nodeR)"

definition treeR :: KhaosDB where
  "treeR = \<lparr>kh_blocks = fmupd (refID blkR) nodeR fmempty, kh_head = Some nodeR, kh_maxSize = 0, kh_next = 1\<rparr>"

definition treeRA :: KhaosDB where
  "treeRA = \<lparr>kh_blocks = fmupd (refID blkA) nodeA (fmupd (refID blkR) nodeR fmempty), kh_head = Some nodeA,
     kh_maxSize = 0, kh_next = 2\<rparr>"

lemma started_ref: "started ref_codec 0 blkR = treeR"
  by (simp add: started_def Khaos_Start_def Khaos_New_def Let_def treeR_def nodeR_def)

lemma push_ref: "Khaos_Push ref_codec blkA treeR = (Inr nodeA, treeRA)"
  by (simp add: Khaos_Push_def treeR_def treeRA_def nodeA_def nodeR_def Let_def prune_def sle_def slt_def)

lemma tree_gets [simp]:
  "Khaos_Get treeR (refID blkR) = Some nodeR" "Khaos_Get treeR (refID blkA) = None"
  "Khaos_Get treeRA (refID blkR) = Some nodeR" "Khaos_Get treeRA (refID blkA) = Some nodeA"
  "kh_head treeR = Some nodeR" "kh_head treeRA = Some nodeA" "kb_Num nodeR = 0" "kh_maxSize treeR = 0"
  by (simp_all add: treeR_def treeRA_def Khaos_Get_def nodeR_def)

theorem fork_tree_invariant_witness: "khaos_inv (pushAll ref_codec [blkA, blkR, blkA] (started ref_codec 0 blkR))"
  by (rule fork_tree_invariant [of _ _ "refID blkR"]) simp_all

theorem Push_head_rule_witness: "kh_head (snd (Khaos_Push ref_codec blkA treeR)) = Some nodeA"
  using Push_head_rule [of treeR nodeR ref_codec blkA] by (simp add: push_ref)

theorem GetBranch_ok_witness: "\<exists>br1 br2 c. GetBranch treeRA (refID blkA) (refID blkR) = Inr (br1, br2) \<and>
    chain nodeA = br1 @ chain c \<and> chain nodeR = br2 @ chain c \<and> set br1 \<inter> set br2 = {}"
  using GetBranch_ok [of ref_codec blkR "refID blkR" "[blkA]" 0 "refID blkA" nodeA "refID blkR" nodeR]
  by (simp add: started_ref push_ref)

theorem RejectTip_undoes_Push_witness:
  "\<exists>k'. RejectTip (refID blkA) (Some nodeR) (snd (Khaos_Push ref_codec blkA treeR)) = (True, k') \<and>
    kh_blocks k' = kh_blocks treeR"
proof -
  have inv: "khaos_inv treeR"
    using started_inv(1) [of ref_codec blkR "refID blkR" 0] by (simp add: started_ref)
  show ?thesis
    using RejectTip_undoes_Push [OF inv, of nodeR ref_codec blkA "refID blkA" nodeR] by auto
qed

end
