(* ===== verification/Revoking_Db.thy ===== *)
theory Revoking_Db
  imports Go_Prelude
begin

text \<open>
  \<open>internal/db\<close>: the committed key-value store (\<open>kv.go\<close>, the in-memory engine \<open>MemKV\<close>) and the
  revoking database layered over it (\<open>snapshot.go\<close>).

  A Go map is a finite map; a loop over one visits the keys in ascending order here, Go in an
  unspecified order, and the loops of this component write every key at most once, so the order does
  not matter (\<open>fold_writes_perm\<close>). The slice of open sessions is a list with the innermost session
  first. The mutexes of the source serialise whole operations and have no counterpart.

  \<open>view\<close> is the abstraction: what a reader of the database sees. The locale \<open>kv_store\<close> is the
  contract of the \<open>KV\<close> interface; both \<open>MemKV\<close> and \<open>Database\<close> are shown to satisfy it. The locale
  \<open>revoking\<close> adds the session operations and derives that a revoked session leaves no trace.
\<close>

section \<open>Prefix scans\<close>

definition has_prefix :: "bytes \<Rightarrow> bytes \<Rightarrow> bool" where
  "has_prefix p k \<longleftrightarrow> take (length p) k = p"

lemma has_prefix_append [simp]: "has_prefix p (p @ k)"
  by (simp add: has_prefix_def)

lemma has_prefix_iff: "has_prefix p k \<longleftrightarrow> (\<exists>r. k = p @ r)"
  by (auto simp: has_prefix_def) (metis append_take_drop_id)

text \<open>The entries of a map below a prefix, ascending by key.\<close>

definition entries :: "(bytes, 'v) fmap \<Rightarrow> bytes \<Rightarrow> (bytes \<times> 'v) list" where
  "entries m p = sorted_list_of_fmap (fmfilter (has_prefix p) m)"

lemma set_sorted_list_of_fmap [simp]: "set (sorted_list_of_fmap m) = {(k, v). fmlookup m k = Some v}"
  by (auto simp: sorted_list_of_fmap_def fmlookup_dom_iff image_iff)

lemma keys_sorted_list_of_fmap: "map fst (sorted_list_of_fmap m) = sorted_list_of_fset (fmdom m)"
  by (simp add: sorted_list_of_fmap_def comp_def)

lemma distinct_sorted_list_of_fmap [simp]: "distinct (map fst (sorted_list_of_fmap m))"
  unfolding keys_sorted_list_of_fmap by (simp add: sorted_list_of_fset.rep_eq)

lemma sorted_sorted_list_of_fmap: "sorted (map fst (sorted_list_of_fmap m))"
  unfolding keys_sorted_list_of_fmap by (simp add: sorted_list_of_fset.rep_eq)

text \<open>A strictly sorted association list is determined by its set.\<close>

lemma sorted_alist_unique:
  fixes xs :: "('a::linorder \<times> 'b) list"
  assumes "sorted (map fst xs)" "distinct (map fst xs)"
    "sorted (map fst ys)" "distinct (map fst ys)" "set xs = set ys"
  shows "xs = ys"
  using assms by (intro map_sorted_distinct_set_unique [of fst]) (auto simp: distinct_map)

text \<open>A loop that touches one key per step, run over distinct keys, acts on each key alone.\<close>

lemma fold_pointwise:
  assumes step: "\<And>k e m k'. fmlookup (f (k, e) m) k' = (if k' = k then g k e (fmlookup m k') else fmlookup m k')"
    and "distinct (map fst xs)"
  shows "fmlookup (fold f xs m) k =
    (case map_of xs k of Some e \<Rightarrow> g k e (fmlookup m k) | None \<Rightarrow> fmlookup m k)"
  using assms(2)
proof (induction xs arbitrary: m)
  case Nil
  then show ?case by simp
next
  case (Cons x xs)
  obtain j e where x: "x = (j, e)" by (cases x)
  show ?case
  proof (cases "k = j")
    case True
    with Cons.prems x have "map_of xs k = None" by (simp add: map_of_eq_None_iff)
    with True x Cons show ?thesis by (simp add: step)
  next
    case False
    with x Cons show ?thesis by (simp add: step split: option.splits)
  qed
qed

section \<open>The KV contract\<close>

locale kv_store =
  fixes Get :: "'s \<Rightarrow> bytes \<Rightarrow> bytes result"
    and Has :: "'s \<Rightarrow> bytes \<Rightarrow> bool result"
    and Put :: "'s \<Rightarrow> bytes \<Rightarrow> bytes \<Rightarrow> 's"
    and Delete :: "'s \<Rightarrow> bytes \<Rightarrow> 's"
    and Scan :: "'s \<Rightarrow> bytes \<Rightarrow> (bytes \<times> bytes) list result"
    and abs :: "'s \<Rightarrow> bytes \<Rightarrow> bytes option"
  assumes Get_abs: "Get s k = (case abs s k of None \<Rightarrow> Inl ErrNotFound | Some v \<Rightarrow> Inr v)"
    and Has_abs: "Has s k = Inr (abs s k \<noteq> None)"
    and Put_abs: "abs (Put s k v) = (abs s)(k \<mapsto> v)"
    and Delete_abs: "abs (Delete s k) = (abs s)(k := None)"
    and Scan_abs: "\<exists>xs. Scan s p = Inr xs \<and> sorted (map fst xs) \<and> distinct (map fst xs) \<and>
      set xs = {(k, v). abs s k = Some v \<and> has_prefix p k}"
begin

lemma Get_Put: "Get (Put s k v) k' = (if k' = k then Inr v else Get s k')"
  by (simp add: Get_abs Put_abs)

lemma Get_Delete: "Get (Delete s k) k' = (if k' = k then Inl ErrNotFound else Get s k')"
  by (simp add: Get_abs Delete_abs)

lemma Has_iff_Get: "Has s k = Inr b \<longleftrightarrow> b = (\<exists>v. Get s k = Inr v)"
  by (auto simp: Has_abs Get_abs split: option.splits)

lemma Get_only_not_found: "Get s k = Inl e \<Longrightarrow> e = ErrNotFound"
  by (auto simp: Get_abs split: option.splits)

lemma Scan_determined:
  assumes "Scan s p = Inr xs" "sorted (map fst ys)" "distinct (map fst ys)"
    "set ys = {(k, v). abs s k = Some v \<and> has_prefix p k}"
  shows "ys = xs"
  using Scan_abs [of s p] assms by (auto intro!: sorted_alist_unique)

lemma Put_twice: "abs (Put (Put s k v) k w) = abs (Put s k w)"
  by (simp add: Put_abs)

end

section \<open>MemKV\<close>

type_synonym MemKV = "(bytes, bytes) fmap"

definition NewMemKV :: MemKV where
  "NewMemKV = fmempty"

definition MemKV_Get :: "MemKV \<Rightarrow> bytes \<Rightarrow> bytes result" where
  "MemKV_Get d k = (case fmlookup d k of None \<Rightarrow> Inl ErrNotFound | Some v \<Rightarrow> Inr v)"

definition MemKV_Has :: "MemKV \<Rightarrow> bytes \<Rightarrow> bool result" where
  "MemKV_Has d k = Inr (case fmlookup d k of None \<Rightarrow> False | Some _ \<Rightarrow> True)"

definition MemKV_Put :: "MemKV \<Rightarrow> bytes \<Rightarrow> bytes \<Rightarrow> MemKV" where
  "MemKV_Put d k v = fmupd k v d"

definition MemKV_Delete :: "MemKV \<Rightarrow> bytes \<Rightarrow> MemKV" where
  "MemKV_Delete d k = fmdrop k d"

definition MemKV_Scan :: "MemKV \<Rightarrow> bytes \<Rightarrow> (bytes \<times> bytes) list result" where
  "MemKV_Scan d p = Inr (entries d p)"

definition MemKV_Len :: "MemKV \<Rightarrow> nat" where
  "MemKV_Len d = fcard (fmdom d)"

interpretation memkv: kv_store MemKV_Get MemKV_Has MemKV_Put MemKV_Delete MemKV_Scan fmlookup
proof
  fix s :: MemKV and p
  show "\<exists>xs. MemKV_Scan s p = Inr xs \<and> sorted (map fst xs) \<and> distinct (map fst xs) \<and>
      set xs = {(k, v). fmlookup s k = Some v \<and> has_prefix p k}"
    by (auto simp: MemKV_Scan_def entries_def sorted_sorted_list_of_fmap split: if_splits)
qed (auto simp: MemKV_Get_def MemKV_Has_def MemKV_Put_def MemKV_Delete_def fun_eq_iff split: option.splits)

section \<open>The revoking database\<close>

record entry =
  en_value :: bytes
  en_deleted :: bool

type_synonym session = "(bytes, entry) fmap"

record Database =
  db_base :: MemKV
  db_sessions :: "session list"

definition NewDatabase :: "MemKV \<Rightarrow> Database" where
  "NewDatabase base = \<lparr>db_base = base, db_sessions = []\<rparr>"

definition Depth :: "Database \<Rightarrow> nat" where
  "Depth d = length (db_sessions d)"

definition BuildSession :: "Database \<Rightarrow> Database" where
  "BuildSession d = d\<lparr>db_sessions := fmempty # db_sessions d\<rparr>"

fun find_entry :: "session list \<Rightarrow> bytes \<Rightarrow> entry option" where
  "find_entry [] k = None"
| "find_entry (w # ws) k = (case fmlookup w k of Some e \<Rightarrow> Some e | None \<Rightarrow> find_entry ws k)"

definition Database_Get :: "Database \<Rightarrow> bytes \<Rightarrow> bytes result" where
  "Database_Get d k =
     (case find_entry (db_sessions d) k of
        Some e \<Rightarrow> if en_deleted e then Inl ErrNotFound else Inr (en_value e)
      | None \<Rightarrow> MemKV_Get (db_base d) k)"

definition Database_Has :: "Database \<Rightarrow> bytes \<Rightarrow> bool result" where
  "Database_Has d k =
     (case find_entry (db_sessions d) k of
        Some e \<Rightarrow> Inr (\<not> en_deleted e)
      | None \<Rightarrow> MemKV_Has (db_base d) k)"

text \<open>\<open>Scan\<close> merges the base with the sessions, outermost session first.\<close>

definition merge_entry :: "bytes \<times> entry \<Rightarrow> MemKV \<Rightarrow> MemKV" where
  "merge_entry = (\<lambda>(k, e) m. if en_deleted e then fmdrop k m else fmupd k (en_value e) m)"

definition merge_session :: "bytes \<Rightarrow> session \<Rightarrow> MemKV \<Rightarrow> MemKV" where
  "merge_session p w m =
     fold (\<lambda>(k, e) m. if \<not> has_prefix p k then m else merge_entry (k, e) m)
       (sorted_list_of_fmap w) m"

definition Database_Scan :: "Database \<Rightarrow> bytes \<Rightarrow> (bytes \<times> bytes) list result" where
  "Database_Scan d p =
     bindE (MemKV_Scan (db_base d) p) (\<lambda>base.
       Inr (sorted_list_of_fmap
         (fold (merge_session p) (rev (db_sessions d)) (fmap_of_list base))))"

definition Database_Put :: "Database \<Rightarrow> bytes \<Rightarrow> bytes \<Rightarrow> Database" where
  "Database_Put d k v =
     (case db_sessions d of
        w # ws \<Rightarrow> d\<lparr>db_sessions := fmupd k \<lparr>en_value = v, en_deleted = False\<rparr> w # ws\<rparr>
      | [] \<Rightarrow> d\<lparr>db_base := MemKV_Put (db_base d) k v\<rparr>)"

definition Database_Delete :: "Database \<Rightarrow> bytes \<Rightarrow> Database" where
  "Database_Delete d k =
     (case db_sessions d of
        w # ws \<Rightarrow> d\<lparr>db_sessions := fmupd k \<lparr>en_value = [], en_deleted = True\<rparr> w # ws\<rparr>
      | [] \<Rightarrow> d\<lparr>db_base := MemKV_Delete (db_base d) k\<rparr>)"

definition flush_entry :: "bytes \<times> entry \<Rightarrow> MemKV \<Rightarrow> MemKV" where
  "flush_entry = (\<lambda>(k, e) b. if en_deleted e then MemKV_Delete b k else MemKV_Put b k (en_value e))"

definition Commit :: "Database \<Rightarrow> bool \<times> Database" where
  "Commit d =
     (case db_sessions d of
        [] \<Rightarrow> (False, d)
      | [w] \<Rightarrow> (True, d\<lparr>db_sessions := [], db_base := fold flush_entry (sorted_list_of_fmap w) (db_base d)\<rparr>)
      | w # parent # ws \<Rightarrow>
          (True, d\<lparr>db_sessions := fold (\<lambda>(k, e) m. fmupd k e m) (sorted_list_of_fmap w) parent # ws\<rparr>))"

definition Revoke :: "Database \<Rightarrow> bool \<times> Database" where
  "Revoke d = (case db_sessions d of [] \<Rightarrow> (False, d) | _ # ws \<Rightarrow> (True, d\<lparr>db_sessions := ws\<rparr>))"

section \<open>The visible map\<close>

definition entry_val :: "entry \<Rightarrow> bytes option" where
  "entry_val e = (if en_deleted e then None else Some (en_value e))"

definition view :: "Database \<Rightarrow> bytes \<Rightarrow> bytes option" where
  "view d k = (case find_entry (db_sessions d) k of
     Some e \<Rightarrow> entry_val e | None \<Rightarrow> fmlookup (db_base d) k)"

lemma fold_fmupd_lookup:
  "distinct (map fst xs) \<Longrightarrow>
   fmlookup (fold (\<lambda>(k, e) m. fmupd k e m) xs w) k =
     (case map_of xs k of Some e \<Rightarrow> Some e | None \<Rightarrow> fmlookup w k)"
  by (rule fold_pointwise) auto

lemma fold_flush_lookup:
  "distinct (map fst xs) \<Longrightarrow>
   fmlookup (fold flush_entry xs b) k =
     (case map_of xs k of Some e \<Rightarrow> entry_val e | None \<Rightarrow> fmlookup b k)"
  by (rule fold_pointwise)
    (auto simp: flush_entry_def MemKV_Put_def MemKV_Delete_def entry_val_def)

text \<open>Every key is written once, so any enumeration order of the session gives the same base.\<close>

lemma fold_writes_perm:
  assumes "distinct (map fst xs)" "distinct (map fst ys)" "set xs = set ys"
  shows "fold flush_entry xs b = fold flush_entry ys b"
proof -
  have "map_of xs = map_of ys"
  proof
    fix k
    show "map_of xs k = map_of ys k"
      using map_of_eq_Some_iff [OF assms(1), of k] map_of_eq_Some_iff [OF assms(2), of k] assms(3)
      by (cases "map_of xs k"; cases "map_of ys k") auto
  qed
  then show ?thesis
    by (auto intro!: fmap_ext simp: fold_flush_lookup assms)
qed

lemma merge_session_lookup:
  assumes "\<And>x. fmlookup m x = (if has_prefix p x then g x else None)"
  shows "fmlookup (merge_session p w m) k =
    (if has_prefix p k then (case fmlookup w k of Some e \<Rightarrow> entry_val e | None \<Rightarrow> g k) else None)"
proof -
  have "fmlookup (merge_session p w m) k =
    (case map_of (sorted_list_of_fmap w) k of
       Some e \<Rightarrow> if has_prefix p k then entry_val e else fmlookup m k
     | None \<Rightarrow> fmlookup m k)"
    unfolding merge_session_def by (rule fold_pointwise) (auto simp: merge_entry_def entry_val_def)
  then show ?thesis by (simp add: assms split: option.splits)
qed

lemma merge_sessions_lookup:
  "fmlookup (fold (merge_session p) (rev ws) (fmap_of_list (entries b p))) k =
     (if has_prefix p k then view \<lparr>db_base = b, db_sessions = ws\<rparr> k else None)"
proof (induction ws arbitrary: k)
  case Nil
  have "map_of (entries b p) k = fmlookup (fmfilter (has_prefix p) b) k"
    by (simp add: entries_def)
  then show ?case by (simp add: view_def fmlookup_of_list)
next
  case (Cons w ws)
  show ?case
    using merge_session_lookup [OF Cons]
    by (simp add: view_def split: option.splits)
qed

interpretation rdb: kv_store Database_Get Database_Has Database_Put Database_Delete Database_Scan view
proof
  fix s :: Database and p
  let ?m = "fold (merge_session p) (rev (db_sessions s)) (fmap_of_list (entries (db_base s) p))"
  have "fmlookup ?m k = (if has_prefix p k then view s k else None)" for k
    using merge_sessions_lookup [of p "db_sessions s" "db_base s"] by (simp add: view_def split: option.splits)
  then show "\<exists>xs. Database_Scan s p = Inr xs \<and> sorted (map fst xs) \<and> distinct (map fst xs) \<and>
      set xs = {(k, v). view s k = Some v \<and> has_prefix p k}"
    by (auto simp: Database_Scan_def MemKV_Scan_def sorted_sorted_list_of_fmap split: if_splits)
qed (auto simp: Database_Get_def Database_Has_def Database_Put_def Database_Delete_def view_def
       MemKV_Get_def MemKV_Has_def MemKV_Put_def MemKV_Delete_def entry_val_def fun_eq_iff
       split: option.splits list.splits)

section \<open>Sessions\<close>

locale revoking = kv_store +
  fixes build :: "'s \<Rightarrow> 's" and commit :: "'s \<Rightarrow> bool \<times> 's" and revoke :: "'s \<Rightarrow> bool \<times> 's"
    and depth :: "'s \<Rightarrow> nat" and under :: "'s \<Rightarrow> 's \<Rightarrow> bool"
  assumes under_build: "under s (build s)"
    and under_Put: "under s t \<Longrightarrow> under s (Put t k v)"
    and under_Delete: "under s t \<Longrightarrow> under s (Delete t k)"
    and revoke_under: "under s t \<Longrightarrow> revoke t = (True, s)"
    and depth_under: "under s t \<Longrightarrow> depth t = Suc (depth s)"
    and build_abs: "abs (build s) = abs s"
    and commit_abs: "abs (snd (commit s)) = abs s"
    and commit_depth: "depth (snd (commit s)) = depth s - 1"
begin

text \<open>Any program of writes run in a fresh session is undone by one \<open>revoke\<close>.\<close>

primrec run :: "(bytes \<times> bytes option) list \<Rightarrow> 's \<Rightarrow> 's" where
  "run [] s = s"
| "run (x # xs) s = run xs (case x of (k, None) \<Rightarrow> Delete s k | (k, Some v) \<Rightarrow> Put s k v)"

lemma under_run: "under s t \<Longrightarrow> under s (run xs t)"
  by (induction xs arbitrary: t) (auto simp: under_Put under_Delete split: prod.splits option.splits)

lemma revoke_run: "revoke (run xs (build s)) = (True, s)"
  by (intro revoke_under under_run under_build)

lemma abs_run_cong:
  assumes "abs s = abs t" shows "abs (run xs s) = abs (run xs t)"
  using assms
proof (induction xs arbitrary: s t)
  case (Cons x xs)
  obtain k v where x: "x = (k, v)" by (cases x)
  show ?case
  proof (cases v)
    case None
    have "abs (Delete s k) = abs (Delete t k)" by (simp add: Delete_abs Cons.prems)
    from Cons.IH [OF this] show ?thesis by (simp add: x None)
  next
    case (Some w)
    have "abs (Put s k w) = abs (Put t k w)" by (simp add: Put_abs Cons.prems)
    from Cons.IH [OF this] show ?thesis by (simp add: x Some)
  qed
qed simp

lemma abs_run_build: "abs (run xs (build s)) = abs (run xs s)"
  by (rule abs_run_cong) (rule build_abs)

lemma abs_commit_run: "abs (snd (commit (run xs (build s)))) = abs (run xs s)"
  by (simp add: commit_abs abs_run_build)

end

definition opened :: "Database \<Rightarrow> Database \<Rightarrow> bool" where
  "opened d d' \<longleftrightarrow> db_base d' = db_base d \<and> (\<exists>w. db_sessions d' = w # db_sessions d)"

lemma view_Commit: "view (snd (Commit d)) = view d"
proof (cases "db_sessions d")
  case Nil
  then show ?thesis by (simp add: Commit_def)
next
  case (Cons w ws)
  show ?thesis
  proof (cases ws)
    case Nil
    with Cons show ?thesis
      by (auto simp: Commit_def view_def fold_flush_lookup fun_eq_iff split: option.splits)
  next
    case (Cons parent ws')
    with \<open>db_sessions d = w # ws\<close> show ?thesis
      by (auto simp: Commit_def view_def fold_fmupd_lookup fun_eq_iff split: option.splits)
  qed
qed

interpretation rdb: revoking Database_Get Database_Has Database_Put Database_Delete Database_Scan view
  BuildSession Commit Revoke Depth opened
proof
  fix s :: Database
  show "view (snd (Commit s)) = view s" by (rule view_Commit)
  show "view (BuildSession s) = view s" by (simp add: BuildSession_def view_def fun_eq_iff split: option.splits)
  show "Depth (snd (Commit s)) = Depth s - 1"
    by (simp add: Depth_def Commit_def split: list.splits)
qed (auto simp: opened_def BuildSession_def Database_Put_def Database_Delete_def Revoke_def Depth_def)

section \<open>Monadic writes\<close>

definition DbPut :: "bytes \<Rightarrow> bytes \<Rightarrow> (Database, unit) op" where
  "DbPut k v = (\<lambda>d. (Inr (), Database_Put d k v))"

definition DbDelete :: "bytes \<Rightarrow> (Database, unit) op" where
  "DbDelete k = (\<lambda>d. (Inr (), Database_Delete d k))"

lemma DbPut_apply [simp]: "DbPut k v d = (Inr (), Database_Put d k v)"
  by (simp add: DbPut_def)

lemma DbDelete_apply [simp]: "DbDelete k d = (Inr (), Database_Delete d k)"
  by (simp add: DbDelete_def)

lemma view_Put [simp]: "view (Database_Put d k v) = (view d)(k \<mapsto> v)"
  by (rule rdb.Put_abs)

lemma view_Delete [simp]: "view (Database_Delete d k) = (view d)(k := None)"
  by (rule rdb.Delete_abs)

lemma view_BuildSession [simp]: "view (BuildSession d) = view d"
  by (rule rdb.build_abs)

text \<open>
  An operation built from database writes only touches the innermost session; run in a fresh
  session and revoked, it leaves the database exactly as it was.
\<close>

definition session_local :: "(Database, 'a) op \<Rightarrow> bool" where
  "session_local m \<longleftrightarrow> (\<forall>d. keeps (opened d) m)"

lemma revoke_session_local:
  assumes "session_local m" shows "Revoke (snd (m (BuildSession d))) = (True, d)"
proof -
  have "opened d (snd (m (BuildSession d)))"
    using assms rdb.under_build [of d] by (simp add: session_local_def keepsD)
  then show ?thesis by (rule rdb.revoke_under)
qed

section \<open>Main results\<close>

text \<open>
  C1: The layered database behaves as one map: every read sees the visible map \<open>view\<close>, every write
  updates it at one key, and a prefix scan lists exactly its entries below the prefix in strictly
  ascending key order, however many sessions are open.
\<close>

theorem Database_refines_map:
  "Database_Get d k = (case view d k of None \<Rightarrow> Inl ErrNotFound | Some v \<Rightarrow> Inr v) \<and>
   Database_Has d k = Inr (view d k \<noteq> None) \<and>
   view (Database_Put d k v) = (view d)(k \<mapsto> v) \<and>
   view (Database_Delete d k) = (view d)(k := None) \<and>
   (\<exists>xs. Database_Scan d p = Inr xs \<and> sorted (map fst xs) \<and> distinct (map fst xs) \<and>
      set xs = {(k, v). view d k = Some v \<and> has_prefix p k})"
  using rdb.Get_abs [of d k] rdb.Has_abs [of d k] rdb.Scan_abs [of d p] by simp

lemma db_base_Commit:
  "fmlookup (db_base (snd (Commit d))) = (if Depth d \<le> 1 then view d else fmlookup (db_base d))"
proof (cases "Depth d \<le> 1")
  case True
  then have "db_sessions (snd (Commit d)) = []"
    by (auto simp: Commit_def Depth_def split: list.splits)
  then have "fmlookup (db_base (snd (Commit d))) = view (snd (Commit d))"
    by (simp add: view_def fun_eq_iff)
  with True show ?thesis by (simp add: view_Commit)
next
  case False
  then show ?thesis by (auto simp: Commit_def Depth_def split: list.splits)
qed

text \<open>
  C2: Committing the innermost session changes nothing a reader sees; it removes one session, and
  only the commit of the last open session reaches the base store, which then holds exactly what
  was visible. Revoking restores the state before the session was opened after any writes.
\<close>

theorem Commit_Revoke_spec:
  "view (snd (Commit d)) = view d \<and> Depth (snd (Commit d)) = Depth d - 1 \<and>
   fmlookup (db_base (snd (Commit d))) = (if Depth d \<le> 1 then view d else fmlookup (db_base d)) \<and>
   Revoke (fold (\<lambda>(k, w) d. case w of None \<Rightarrow> Database_Delete d k | Some v \<Rightarrow> Database_Put d k v) ws
     (BuildSession d)) = (True, d)"
proof -
  have "opened d (fold (\<lambda>(k, w) d. case w of None \<Rightarrow> Database_Delete d k | Some v \<Rightarrow> Database_Put d k v) ws d')"
    if "opened d d'" for d'
    using that
  proof (induction ws arbitrary: d')
    case (Cons x ws)
    then show ?case
      by (cases x; cases "snd x") (simp_all add: rdb.under_Put rdb.under_Delete)
  qed simp
  from this [OF rdb.under_build] show ?thesis
    by (simp add: view_Commit rdb.commit_depth db_base_Commit rdb.revoke_under)
qed

end
