(* ===== verification/Chain_Stores.thy ===== *)
theory Chain_Stores
  imports Proto_Ref Revoking_Db
begin

text \<open>
  \<open>internal/state\<close>: the chain stores over the revoking database. \<open>state.go\<close> (accounts, witnesses),
  \<open>votes.go\<close>, \<open>contract.go\<close> (runtime code and contract storage) and \<open>delegated.go\<close> (delegated resources
  and the delegation index). \<open>State\<close> itself is a bundle of stores that all point at the same
  database, so the database is the state.

  Every store is a name space of the database (\<open>nsKey\<close>). Keys are written out as byte lists by the
  collection \<open>key_simps\<close>, which makes the separation of the name spaces a matter of simplification;
  \<open>typed_store\<close> is the contract the stores of protobuf messages share.
\<close>

section \<open>Keys\<close>

definition nsKey :: "bytes \<Rightarrow> bytes \<Rightarrow> bytes" where
  "nsKey prefix k = prefix @ k"

definition accountPrefix :: bytes where "accountPrefix = ascii ''a/''"
definition witnessPrefix :: bytes where "witnessPrefix = ascii ''w/''"
definition propertyPrefix :: bytes where "propertyPrefix = ascii ''p/''"
definition votesPrefix :: bytes where "votesPrefix = ascii ''vo/''"
definition codePrefix :: bytes where "codePrefix = ascii ''c/''"
definition storagePrefix :: bytes where "storagePrefix = ascii ''s/''"
definition delegatedPrefix :: bytes where "delegatedPrefix = ascii ''dr/''"
definition delegatedIndexPrefix :: bytes where "delegatedIndexPrefix = ascii ''di/''"

lemma nsKey_simps [key_simps]:
  "nsKey accountPrefix k = 97 # 47 # k"
  "nsKey witnessPrefix k = 119 # 47 # k"
  "nsKey propertyPrefix k = 112 # 47 # k"
  "nsKey votesPrefix k = 118 # 111 # 47 # k"
  "nsKey codePrefix k = 99 # 47 # k"
  "nsKey storagePrefix k = 115 # 47 # k"
  "nsKey delegatedPrefix k = 100 # 114 # 47 # k"
  "nsKey delegatedIndexPrefix k = 100 # 105 # 47 # k"
  by (simp_all add: nsKey_def accountPrefix_def witnessPrefix_def propertyPrefix_def votesPrefix_def
        codePrefix_def storagePrefix_def delegatedPrefix_def delegatedIndexPrefix_def ascii_simps)

lemma nsKey_inject [simp]: "nsKey p a = nsKey p b \<longleftrightarrow> a = b"
  by (simp add: nsKey_def)

section \<open>Stores of protobuf messages\<close>

text \<open>What the five stores share: read and decode, encode and write.\<close>

definition loadMsg :: "(bytes \<Rightarrow> 'm option) \<Rightarrow> Database \<Rightarrow> bytes \<Rightarrow> 'm result" where
  "loadMsg u d k = bindE (Database_Get d k) (\<lambda>b. unmarshalE (u b))"

definition saveMsg :: "('m \<Rightarrow> bytes option) \<Rightarrow> bytes \<Rightarrow> 'm \<Rightarrow> (Database, unit) op" where
  "saveMsg m k x = bindM (liftM (marshalE (m x))) (\<lambda>b. DbPut k b)"

locale typed_store =
  fixes get :: "Database \<Rightarrow> 'k \<Rightarrow> 'm result"
    and put :: "'m \<Rightarrow> (Database, unit) op"
    and key :: "'m \<Rightarrow> 'k" and dbkey :: "'k \<Rightarrow> bytes"
    and mar :: "'m \<Rightarrow> bytes option" and unm :: "bytes \<Rightarrow> 'm option"
  assumes get_load: "get d k = loadMsg unm d (dbkey k)"
    and put_save: "put x = saveMsg mar (dbkey (key x)) x"
    and dbkey_inj: "dbkey k = dbkey k' \<Longrightarrow> k = k'"
    and rt: "\<exists>b. mar x = Some b \<and> unm b = Some x"
begin

lemma put_ok: "\<exists>b. put x d = (Inr (), Database_Put d (dbkey (key x)) b) \<and> unm b = Some x"
  using rt [of x] by (auto simp: put_save saveMsg_def)

lemma get_put: "get (snd (put x d)) k = (if k = key x then Inr x else get d k)"
  using put_ok [of x d] by (auto simp: get_load loadMsg_def rdb.Get_Put dest: dbkey_inj)

lemma get_frame: "dbkey k \<noteq> k' \<Longrightarrow> get (Database_Put d k' b) k = get d k"
  by (simp add: get_load loadMsg_def rdb.Get_Put)

lemma get_frame_Delete: "dbkey k \<noteq> k' \<Longrightarrow> get (Database_Delete d k') k = get d k"
  by (simp add: get_load loadMsg_def rdb.Get_Delete)

lemma get_Delete: "get (Database_Delete d (dbkey k)) k' = (if k' = k then Inl ErrNotFound else get d k')"
  by (auto simp: get_load loadMsg_def rdb.Get_Delete dest: dbkey_inj)

lemma view_put: "k \<noteq> dbkey (key x) \<Longrightarrow> view (snd (put x d)) k = view d k"
  using put_ok [of x d] by auto

end

subsection \<open>Accounts and witnesses (state.go)\<close>

definition AccountStore_Put :: "codec \<Rightarrow> Account \<Rightarrow> (Database, unit) op" where
  "AccountStore_Put cd a = saveMsg (marshal_Account cd) (nsKey accountPrefix (ac_Address a)) a"

definition AccountStore_Get :: "codec \<Rightarrow> Database \<Rightarrow> bytes \<Rightarrow> Account result" where
  "AccountStore_Get cd d addr = loadMsg (unmarshal_Account cd) d (nsKey accountPrefix addr)"

definition AccountStore_Has :: "Database \<Rightarrow> bytes \<Rightarrow> bool result" where
  "AccountStore_Has d addr = Database_Has d (nsKey accountPrefix addr)"

definition WitnessStore_Put :: "codec \<Rightarrow> Witness \<Rightarrow> (Database, unit) op" where
  "WitnessStore_Put cd w = saveMsg (marshal_Witness cd) (nsKey witnessPrefix (w_Address w)) w"

definition WitnessStore_Get :: "codec \<Rightarrow> Database \<Rightarrow> bytes \<Rightarrow> Witness result" where
  "WitnessStore_Get cd d addr = loadMsg (unmarshal_Witness cd) d (nsKey witnessPrefix addr)"

definition WitnessStore_Has :: "Database \<Rightarrow> bytes \<Rightarrow> bool result" where
  "WitnessStore_Has d addr = Database_Has d (nsKey witnessPrefix addr)"

text \<open>
  \<open>Each\<close> decodes every entry of the name space in key order and hands it to a callback. The pairs
  are read once, before the first callback runs.
\<close>

fun eachMsg :: "(bytes \<Rightarrow> 'm option) \<Rightarrow> ('m \<Rightarrow> (Database, unit) op) \<Rightarrow> (bytes \<times> bytes) list
    \<Rightarrow> (Database, unit) op" where
  "eachMsg u fn [] = returnM ()"
| "eachMsg u fn ((k, v) # ps) =
     bindM (liftM (unmarshalE (u v))) (\<lambda>m. bindM (fn m) (\<lambda>_. eachMsg u fn ps))"

definition WitnessStore_Each :: "codec \<Rightarrow> (Witness \<Rightarrow> (Database, unit) op) \<Rightarrow> (Database, unit) op" where
  "WitnessStore_Each cd fn =
     bindM (readM (\<lambda>d. Database_Scan d witnessPrefix)) (\<lambda>ps. eachMsg (unmarshal_Witness cd) fn ps)"

subsection \<open>Votes (votes.go)\<close>

definition VotesStore_Get :: "codec \<Rightarrow> Database \<Rightarrow> bytes \<Rightarrow> Votes result" where
  "VotesStore_Get cd d addr = loadMsg (unmarshal_Votes cd) d (nsKey votesPrefix addr)"

definition VotesStore_Put :: "codec \<Rightarrow> Votes \<Rightarrow> (Database, unit) op" where
  "VotesStore_Put cd v = saveMsg (marshal_Votes cd) (nsKey votesPrefix (vs_Address v)) v"

definition VotesStore_Has :: "Database \<Rightarrow> bytes \<Rightarrow> bool result" where
  "VotesStore_Has d addr = Database_Has d (nsKey votesPrefix addr)"

definition VotesStore_Delete :: "bytes \<Rightarrow> (Database, unit) op" where
  "VotesStore_Delete addr = DbDelete (nsKey votesPrefix addr)"

text \<open>
  The callback of \<open>VotesStore.Each\<close> in the node updates local variables only; they are the
  accumulator here.
\<close>

fun foldMsg :: "(bytes \<Rightarrow> 'm option) \<Rightarrow> ('m \<Rightarrow> 'a \<Rightarrow> 'a result) \<Rightarrow> (bytes \<times> bytes) list \<Rightarrow> 'a \<Rightarrow> 'a result" where
  "foldMsg u fn [] acc = Inr acc"
| "foldMsg u fn ((k, v) # ps) acc =
     bindE (unmarshalE (u v)) (\<lambda>m. bindE (fn m acc) (\<lambda>acc'. foldMsg u fn ps acc'))"

definition VotesStore_Each :: "codec \<Rightarrow> (Votes \<Rightarrow> 'a \<Rightarrow> 'a result) \<Rightarrow> 'a \<Rightarrow> Database \<Rightarrow> 'a result" where
  "VotesStore_Each cd fn acc d =
     bindE (Database_Scan d votesPrefix) (\<lambda>ps. foldMsg (unmarshal_Votes cd) fn ps acc)"

subsection \<open>Code and contract storage (contract.go)\<close>

definition ContractStore_PutCode :: "bytes \<Rightarrow> bytes \<Rightarrow> (Database, unit) op" where
  "ContractStore_PutCode addr code = DbPut (nsKey codePrefix addr) code"

definition ContractStore_GetCode :: "Database \<Rightarrow> bytes \<Rightarrow> bytes result" where
  "ContractStore_GetCode d addr = Database_Get d (nsKey codePrefix addr)"

definition ContractStore_Has :: "Database \<Rightarrow> bytes \<Rightarrow> bool result" where
  "ContractStore_Has d addr = Database_Has d (nsKey codePrefix addr)"

text \<open>A \<open>[32]byte\<close> slot or value is a list of 32 bytes; \<open>copy(value[:], b)\<close> fills it from \<open>b\<close>.\<close>

definition fix32 :: "bytes \<Rightarrow> bytes" where
  "fix32 b = take 32 (b @ replicate 32 0)"

lemma fix32_id [simp]: "length b = 32 \<Longrightarrow> fix32 b = b"
  by (simp add: fix32_def)

lemma length_fix32 [simp]: "length (fix32 b) = 32"
  by (simp add: fix32_def)

definition storageRowKey :: "bytes \<Rightarrow> bytes \<Rightarrow> bytes" where
  "storageRowKey addr slot = addr @ slot"

definition StorageStore_Put :: "bytes \<Rightarrow> bytes \<Rightarrow> bytes \<Rightarrow> (Database, unit) op" where
  "StorageStore_Put addr slot value = DbPut (nsKey storagePrefix (storageRowKey addr slot)) value"

definition StorageStore_Get :: "Database \<Rightarrow> bytes \<Rightarrow> bytes \<Rightarrow> (bytes \<times> bool) result" where
  "StorageStore_Get d addr slot =
     (case Database_Get d (nsKey storagePrefix (storageRowKey addr slot)) of
        Inl e \<Rightarrow> if e = ErrNotFound then Inr (replicate 32 0, False) else Inl e
      | Inr b \<Rightarrow> Inr (fix32 b, True))"

subsection \<open>Delegated resources (delegated.go)\<close>

definition DelegatedResourceKey :: "bytes \<Rightarrow> bytes \<Rightarrow> bytes" where
  "DelegatedResourceKey from to = from @ to"

definition Delegated_Get :: "codec \<Rightarrow> Database \<Rightarrow> bytes \<Rightarrow> bytes \<Rightarrow> DelegatedResource result" where
  "Delegated_Get cd d from to =
     loadMsg (unmarshal_DelegatedResource cd) d (nsKey delegatedPrefix (DelegatedResourceKey from to))"

definition Delegated_Put :: "codec \<Rightarrow> DelegatedResource \<Rightarrow> (Database, unit) op" where
  "Delegated_Put cd r = saveMsg (marshal_DelegatedResource cd)
     (nsKey delegatedPrefix (DelegatedResourceKey (dr_From r) (dr_To r))) r"

definition Delegated_Delete :: "bytes \<Rightarrow> bytes \<Rightarrow> (Database, unit) op" where
  "Delegated_Delete from to = DbDelete (nsKey delegatedPrefix (DelegatedResourceKey from to))"

definition drV2Key :: "bytes \<Rightarrow> bytes \<Rightarrow> bool \<Rightarrow> bytes" where
  "drV2Key from to lock = (if lock then 2 else 1) # from @ to"

definition Delegated_GetV2 :: "codec \<Rightarrow> Database \<Rightarrow> bytes \<Rightarrow> bytes \<Rightarrow> bool \<Rightarrow> DelegatedResource result" where
  "Delegated_GetV2 cd d from to lock =
     loadMsg (unmarshal_DelegatedResource cd) d (nsKey delegatedPrefix (drV2Key from to lock))"

definition Delegated_PutV2 :: "codec \<Rightarrow> DelegatedResource \<Rightarrow> bool \<Rightarrow> (Database, unit) op" where
  "Delegated_PutV2 cd r lock = saveMsg (marshal_DelegatedResource cd)
     (nsKey delegatedPrefix (drV2Key (dr_From r) (dr_To r) lock)) r"

definition Delegated_DeleteV2 :: "bytes \<Rightarrow> bytes \<Rightarrow> bool \<Rightarrow> (Database, unit) op" where
  "Delegated_DeleteV2 from to lock = DbDelete (nsKey delegatedPrefix (drV2Key from to lock))"

definition Index_Get :: "codec \<Rightarrow> Database \<Rightarrow> bytes \<Rightarrow> DelegatedResourceAccountIndex result" where
  "Index_Get cd d addr = loadMsg (unmarshal_Index cd) d (nsKey delegatedIndexPrefix addr)"

definition Index_Put :: "codec \<Rightarrow> DelegatedResourceAccountIndex \<Rightarrow> (Database, unit) op" where
  "Index_Put cd i = saveMsg (marshal_Index cd) (nsKey delegatedIndexPrefix (di_Account i)) i"

definition idxFromPrefix :: byte where "idxFromPrefix = 1"
definition idxToPrefix :: byte where "idxToPrefix = 2"
definition idxV2FromPrefix :: byte where "idxV2FromPrefix = 3"
definition idxV2ToPrefix :: byte where "idxV2ToPrefix = 4"

definition edgeKey :: "byte \<Rightarrow> bytes \<Rightarrow> bytes \<Rightarrow> bytes" where
  "edgeKey prefix a b = prefix # a @ b"

definition putEdge :: "codec \<Rightarrow> byte \<Rightarrow> bytes \<Rightarrow> bytes \<Rightarrow> bytes \<Rightarrow> int64 \<Rightarrow> (Database, unit) op" where
  "putEdge cd prefix a b other time =
     saveMsg (marshal_Index cd) (nsKey delegatedIndexPrefix (edgeKey prefix a b))
       (zero_DelegatedResourceAccountIndex\<lparr>di_Account := other, di_Timestamp := time\<rparr>)"

definition deleteEdge :: "byte \<Rightarrow> bytes \<Rightarrow> bytes \<Rightarrow> (Database, unit) op" where
  "deleteEdge prefix a b = DbDelete (nsKey delegatedIndexPrefix (edgeKey prefix a b))"

definition Index_Delegate :: "codec \<Rightarrow> bytes \<Rightarrow> bytes \<Rightarrow> int64 \<Rightarrow> (Database, unit) op" where
  "Index_Delegate cd from to time =
     bindM (putEdge cd idxFromPrefix from to to time) (\<lambda>_. putEdge cd idxToPrefix to from from time)"

definition Index_UnDelegate :: "bytes \<Rightarrow> bytes \<Rightarrow> (Database, unit) op" where
  "Index_UnDelegate from to =
     bindM (deleteEdge idxFromPrefix from to) (\<lambda>_. deleteEdge idxToPrefix to from)"

definition Index_DelegateV2 :: "codec \<Rightarrow> bytes \<Rightarrow> bytes \<Rightarrow> int64 \<Rightarrow> (Database, unit) op" where
  "Index_DelegateV2 cd from to time =
     bindM (putEdge cd idxV2FromPrefix from to to time) (\<lambda>_. putEdge cd idxV2ToPrefix to from from time)"

definition Index_UnDelegateV2 :: "bytes \<Rightarrow> bytes \<Rightarrow> (Database, unit) op" where
  "Index_UnDelegateV2 from to =
     bindM (deleteEdge idxV2FromPrefix from to) (\<lambda>_. deleteEdge idxV2ToPrefix to from)"

definition HasEdge :: "Database \<Rightarrow> byte \<Rightarrow> bytes \<Rightarrow> bytes \<Rightarrow> bool" where
  "HasEdge d prefix a b =
     (case Database_Has d (nsKey delegatedIndexPrefix (edgeKey prefix a b)) of Inl _ \<Rightarrow> False | Inr ok \<Rightarrow> ok)"

fun convertTo :: "codec \<Rightarrow> bytes \<Rightarrow> nat \<Rightarrow> bytes list \<Rightarrow> (Database, unit) op" where
  "convertTo cd addr i [] = returnM ()"
| "convertTo cd addr i (to # ts) =
     bindM (Index_Delegate cd addr to (word_of_nat i + 1)) (\<lambda>_. convertTo cd addr (Suc i) ts)"

fun convertFrom :: "codec \<Rightarrow> bytes \<Rightarrow> nat \<Rightarrow> bytes list \<Rightarrow> (Database, unit) op" where
  "convertFrom cd addr i [] = returnM ()"
| "convertFrom cd addr i (from # fs) =
     bindM (Index_Delegate cd from addr (word_of_nat i + 1)) (\<lambda>_. convertFrom cd addr (Suc i) fs)"

definition Index_Convert :: "codec \<Rightarrow> bytes \<Rightarrow> (Database, unit) op" where
  "Index_Convert cd addr =
     bindM (tryR (\<lambda>d. Index_Get cd d addr)) (\<lambda>r.
     case r of
       Inl _ \<Rightarrow> returnM ()
     | Inr idx \<Rightarrow>
         bindM (convertTo cd addr 0 (di_ToAccounts idx)) (\<lambda>_.
         bindM (convertFrom cd addr 0 (di_FromAccounts idx)) (\<lambda>_.
           DbDelete (nsKey delegatedIndexPrefix addr))))"

section \<open>The stores satisfy their contract\<close>

sublocale proto_codec \<subseteq> acc: typed_store "AccountStore_Get cd" "AccountStore_Put cd" ac_Address
    "nsKey accountPrefix" "marshal_Account cd" "unmarshal_Account cd"
  by unfold_locales (simp_all add: AccountStore_Get_def AccountStore_Put_def Account_rt)

sublocale proto_codec \<subseteq> wit: typed_store "WitnessStore_Get cd" "WitnessStore_Put cd" w_Address
    "nsKey witnessPrefix" "marshal_Witness cd" "unmarshal_Witness cd"
  by unfold_locales (simp_all add: WitnessStore_Get_def WitnessStore_Put_def Witness_rt)

sublocale proto_codec \<subseteq> vot: typed_store "VotesStore_Get cd" "VotesStore_Put cd" vs_Address
    "nsKey votesPrefix" "marshal_Votes cd" "unmarshal_Votes cd"
  by unfold_locales (simp_all add: VotesStore_Get_def VotesStore_Put_def Votes_rt)

sublocale proto_codec \<subseteq> idx: typed_store "Index_Get cd" "Index_Put cd" di_Account
    "nsKey delegatedIndexPrefix" "marshal_Index cd" "unmarshal_Index cd"
  by unfold_locales (simp_all add: Index_Get_def Index_Put_def Index_rt)

section \<open>Encoded messages\<close>

text \<open>
  Under \<open>codec_ok\<close> a save writes \<open>enc cd x\<close>, and the decoder inverts \<open>enc\<close>: these rules let the
  simplifier run a store operation on a symbolic database.
\<close>

definition enc_Account :: "codec \<Rightarrow> Account \<Rightarrow> bytes" where "enc_Account cd x = the (marshal_Account cd x)"
definition enc_Witness :: "codec \<Rightarrow> Witness \<Rightarrow> bytes" where "enc_Witness cd x = the (marshal_Witness cd x)"
definition enc_Votes :: "codec \<Rightarrow> Votes \<Rightarrow> bytes" where "enc_Votes cd x = the (marshal_Votes cd x)"
definition enc_DR :: "codec \<Rightarrow> DelegatedResource \<Rightarrow> bytes" where
  "enc_DR cd x = the (marshal_DelegatedResource cd x)"
definition enc_Index :: "codec \<Rightarrow> DelegatedResourceAccountIndex \<Rightarrow> bytes" where
  "enc_Index cd x = the (marshal_Index cd x)"

lemma codec_ok_marshal [simp]:
  assumes "codec_ok cd"
  shows "marshal_Account cd a = Some (enc_Account cd a)"
    and "marshal_Witness cd w = Some (enc_Witness cd w)"
    and "marshal_Votes cd v = Some (enc_Votes cd v)"
    and "marshal_DelegatedResource cd r = Some (enc_DR cd r)"
    and "marshal_Index cd i = Some (enc_Index cd i)"
    and "unmarshal_Account cd (enc_Account cd a) = Some a"
    and "unmarshal_Witness cd (enc_Witness cd w) = Some w"
    and "unmarshal_Votes cd (enc_Votes cd v) = Some v"
    and "unmarshal_DelegatedResource cd (enc_DR cd r) = Some r"
    and "unmarshal_Index cd (enc_Index cd i) = Some i"
  using assms
  by (auto simp: codec_ok_def enc_Account_def enc_Witness_def enc_Votes_def enc_DR_def enc_Index_def
        elim!: roundtripE [where x = a] roundtripE [where x = w] roundtripE [where x = v]
          roundtripE [where x = r] roundtripE [where x = i])

named_theorems store_simps \<open>store operations in terms of the visible map\<close>

lemma Database_Get_view: "Database_Get d k = (case view d k of None \<Rightarrow> Inl ErrNotFound | Some v \<Rightarrow> Inr v)"
  by (rule rdb.Get_abs)

lemma loadMsg_view:
  "loadMsg u d k = (case view d k of None \<Rightarrow> Inl ErrNotFound | Some v \<Rightarrow> unmarshalE (u v))"
  by (simp add: loadMsg_def Database_Get_view split: option.splits)

lemma saveMsg_Some: "m x = Some b \<Longrightarrow> saveMsg m k x d = (Inr (), Database_Put d k b)"
  by (simp add: saveMsg_def)

section \<open>What every write keeps\<close>

text \<open>
  The node writes accounts only through \<open>AccountStore.Put\<close>, under their own address. \<open>write_inv\<close> is
  the contract of a property of the database that this discipline keeps: it survives any write
  outside the account name space and any account stored under its own address. Every operation of
  the stores and of the actuators is shown to keep such a property once, inside the locale; two
  instances matter: "only the innermost session changed" and "accounts are stored under their own
  address".
\<close>

locale write_inv =
  fixes cd :: codec and P :: "Database \<Rightarrow> bool"
  assumes put_other: "P d \<Longrightarrow> \<not> has_prefix accountPrefix k \<Longrightarrow> P (Database_Put d k v)"
    and delete_other: "P d \<Longrightarrow> \<not> has_prefix accountPrefix k \<Longrightarrow> P (Database_Delete d k)"
    and put_account: "P d \<Longrightarrow> marshal_Account cd a = Some b \<Longrightarrow>
      P (Database_Put d (nsKey accountPrefix (ac_Address a)) b)"
begin

lemma keeps_DbPut: "\<not> has_prefix accountPrefix k \<Longrightarrow> keeps P (DbPut k v)"
  by (simp add: keeps_def put_other)

lemma keeps_DbDelete: "\<not> has_prefix accountPrefix k \<Longrightarrow> keeps P (DbDelete k)"
  by (simp add: keeps_def delete_other)

lemma keeps_saveMsg: "\<not> has_prefix accountPrefix k \<Longrightarrow> keeps P (saveMsg m k x)"
  unfolding saveMsg_def by (intro keeps_intros keeps_DbPut)

lemma keeps_AccountStore_Put [keeps_intros]: "keeps P (AccountStore_Put cd a)"
  by (auto simp: keeps_def AccountStore_Put_def saveMsg_def put_account marshalE_def split: option.splits)

lemma not_account_key [simp]:
  "\<not> has_prefix accountPrefix (nsKey witnessPrefix k)"
  "\<not> has_prefix accountPrefix (nsKey propertyPrefix k)"
  "\<not> has_prefix accountPrefix (nsKey votesPrefix k)"
  "\<not> has_prefix accountPrefix (nsKey codePrefix k)"
  "\<not> has_prefix accountPrefix (nsKey storagePrefix k)"
  "\<not> has_prefix accountPrefix (nsKey delegatedPrefix k)"
  "\<not> has_prefix accountPrefix (nsKey delegatedIndexPrefix k)"
  by (simp_all add: has_prefix_def key_simps accountPrefix_def ascii_simps)

lemma keeps_eachMsg [keeps_intros]:
  "(\<And>m. keeps P (fn m)) \<Longrightarrow> keeps P (eachMsg u fn ps)"
proof (induction ps)
  case Nil
  then show ?case unfolding eachMsg.simps by (intro keeps_returnM)
next
  case (Cons p ps)
  obtain k v where p: "p = (k, v)" by (cases p)
  show ?case unfolding p eachMsg.simps
    by (intro keeps_bindM keeps_liftM Cons.IH Cons.prems)
qed

lemma keeps_stores [keeps_intros]:
  "keeps P (WitnessStore_Put c w)"
  "keeps P (VotesStore_Put c v)"
  "keeps P (VotesStore_Delete addr)"
  "keeps P (ContractStore_PutCode addr code)"
  "keeps P (StorageStore_Put addr slot val)"
  "keeps P (Delegated_Put c r)"
  "keeps P (Delegated_Delete from to)"
  "keeps P (Delegated_PutV2 c r lock)"
  "keeps P (Delegated_DeleteV2 from to lock)"
  "keeps P (Index_Put c i)"
  "keeps P (putEdge c pre x y other time)"
  "keeps P (deleteEdge pre x y)"
  unfolding WitnessStore_Put_def VotesStore_Put_def VotesStore_Delete_def
    ContractStore_PutCode_def StorageStore_Put_def Delegated_Put_def Delegated_Delete_def
    Delegated_PutV2_def Delegated_DeleteV2_def Index_Put_def putEdge_def deleteEdge_def
  by (simp_all add: keeps_saveMsg keeps_DbPut keeps_DbDelete)

lemma keeps_WitnessStore_Each [keeps_intros]:
  "(\<And>w. keeps P (fn w)) \<Longrightarrow> keeps P (WitnessStore_Each c fn)"
  unfolding WitnessStore_Each_def by (intro keeps_intros)

lemma keeps_index [keeps_intros]:
  "keeps P (Index_Delegate c from to time)"
  "keeps P (Index_UnDelegate from to)"
  "keeps P (Index_DelegateV2 c from to time)"
  "keeps P (Index_UnDelegateV2 from to)"
  unfolding Index_Delegate_def Index_UnDelegate_def Index_DelegateV2_def Index_UnDelegateV2_def
  by (intro keeps_intros)+

lemma keeps_convertTo [keeps_intros]: "keeps P (convertTo c addr i ts)"
  by (induction ts arbitrary: i) (simp_all, intro keeps_intros, intro keeps_bindM keeps_index)

lemma keeps_convertFrom [keeps_intros]: "keeps P (convertFrom c addr i fs)"
  by (induction fs arbitrary: i) (simp_all, intro keeps_intros, intro keeps_bindM keeps_index)

lemma keeps_Index_Convert [keeps_intros]: "keeps P (Index_Convert c addr)"
  unfolding Index_Convert_def by (intro keeps_intros keeps_DbDelete) simp

end

interpretation opn: write_inv cd "opened d" for cd d
  by unfold_locales (simp_all add: rdb.under_Put rdb.under_Delete)

definition accounts_keyed :: "codec \<Rightarrow> Database \<Rightarrow> bool" where
  "accounts_keyed cd d \<longleftrightarrow> (\<forall>addr a. AccountStore_Get cd d addr = Inr a \<longrightarrow> ac_Address a = addr)"

lemma AccountStore_Get_view:
  "AccountStore_Get cd d addr =
     (case view d (nsKey accountPrefix addr) of None \<Rightarrow> Inl ErrNotFound | Some b \<Rightarrow> unmarshalE (unmarshal_Account cd b))"
  by (simp add: AccountStore_Get_def loadMsg_view)

sublocale proto_codec \<subseteq> keyed: write_inv cd "accounts_keyed cd"
proof
  fix d k v assume "accounts_keyed cd d" "\<not> has_prefix accountPrefix k"
  then show "accounts_keyed cd (Database_Put d k v)" "accounts_keyed cd (Database_Delete d k)"
    by (auto simp: accounts_keyed_def AccountStore_Get_view nsKey_def)
next
  fix d a b assume "accounts_keyed cd d" "marshal_Account cd a = Some b"
  then show "accounts_keyed cd (Database_Put d (nsKey accountPrefix (ac_Address a)) b)"
    using Account_rt [of a] by (auto simp: accounts_keyed_def AccountStore_Get_view)
qed

context proto_codec
begin

lemma keyed_write_inv: "write_inv cd (accounts_keyed cd)"
  by (rule keyed.write_inv_axioms)

end

lemma codec_keyed: "codec_ok cd \<Longrightarrow> write_inv cd (accounts_keyed cd)"
  by (rule proto_codec.keyed_write_inv) (rule proto_codec.intro)

section \<open>Simplification of store operations\<close>

lemma AccountStore_Get_Put [simp]:
  "codec_ok cd \<Longrightarrow> AccountStore_Get cd (Database_Put d (nsKey accountPrefix a) (enc_Account cd x)) b =
     (if b = a then Inr x else AccountStore_Get cd d b)"
  by (simp add: AccountStore_Get_view)

lemma AccountStore_Put_apply [simp]:
  "codec_ok cd \<Longrightarrow> AccountStore_Put cd a d = (Inr (), Database_Put d (nsKey accountPrefix (ac_Address a)) (enc_Account cd a))"
  by (simp add: AccountStore_Put_def saveMsg_Some)

lemma AccountStore_Get_frame:
  "k \<noteq> nsKey accountPrefix a \<Longrightarrow> AccountStore_Get cd (Database_Put d k b) a = AccountStore_Get cd d a"
  by (simp add: AccountStore_Get_view)

lemma accounts_keyedD: "accounts_keyed cd d \<Longrightarrow> AccountStore_Get cd d addr = Inr a \<Longrightarrow> ac_Address a = addr"
  by (simp add: accounts_keyed_def)

end
