(* ===== verification/Dyn_Properties.thy ===== *)
theory Dyn_Properties
  imports Chain_Stores
begin

text \<open>
  \<open>internal/state/property.go\<close>: the dynamic chain properties, one 8-byte big-endian \<open>int64\<close> per
  string key in the name space \<open>p/\<close>. Every accessor is a read with a default; the state-changing
  operations are the \<open>Save...\<close> setters, the two weight accumulators, the maintenance clock and the
  genesis seeding. The locale \<open>int64_cell\<close> is the contract of a single property.
\<close>

section \<open>Keys and defaults\<close>

definition propTotalEnergyWeight :: bytes where "propTotalEnergyWeight = ascii ''TOTAL_ENERGY_WEIGHT''"
definition propTotalEnergyLimit :: bytes where "propTotalEnergyLimit = ascii ''TOTAL_ENERGY_LIMIT''"
definition propTotalEnergyCurrentLimit :: bytes where "propTotalEnergyCurrentLimit = ascii ''TOTAL_ENERGY_CURRENT_LIMIT''"
definition propTotalNetWeight :: bytes where "propTotalNetWeight = ascii ''TOTAL_NET_WEIGHT''"
definition propUnfreezeDelayDays :: bytes where "propUnfreezeDelayDays = ascii ''UNFREEZE_DELAY_DAYS''"
definition propAllowNewReward :: bytes where "propAllowNewReward = ascii ''ALLOW_NEW_REWARD''"
definition propAllowDelegateResource :: bytes where "propAllowDelegateResource = ascii ''ALLOW_DELEGATE_RESOURCE''"
definition propMinFrozenTime :: bytes where "propMinFrozenTime = ascii ''MIN_FROZEN_TIME''"
definition propMaxFrozenTime :: bytes where "propMaxFrozenTime = ascii ''MAX_FROZEN_TIME''"
definition propLatestBlockHeaderTimestamp :: bytes where "propLatestBlockHeaderTimestamp = ascii ''LATEST_BLOCK_HEADER_TIMESTAMP''"
definition propAllowMultiSign :: bytes where "propAllowMultiSign = ascii ''ALLOW_MULTI_SIGN''"
definition propAllowTvmConstantinople :: bytes where "propAllowTvmConstantinople = ascii ''ALLOW_TVM_CONSTANTINOPLE''"
definition propAllowTvmSolidity059 :: bytes where "propAllowTvmSolidity059 = ascii ''ALLOW_TVM_SOLIDITY_059''"
definition propAllowDelegateOptimization :: bytes where "propAllowDelegateOptimization = ascii ''ALLOW_DELEGATE_OPTIMIZATION''"
definition propEnergyFee :: bytes where "propEnergyFee = ascii ''ENERGY_FEE''"
definition propMaintenanceTimeInterval :: bytes where "propMaintenanceTimeInterval = ascii ''MAINTENANCE_TIME_INTERVAL''"
definition propNextMaintenanceTime :: bytes where "propNextMaintenanceTime = ascii ''NEXT_MAINTENANCE_TIME''"
definition propCurrentCycleNumber :: bytes where "propCurrentCycleNumber = ascii ''CURRENT_CYCLE_NUMBER''"
definition propChangeDelegation :: bytes where "propChangeDelegation = ascii ''CHANGE_DELEGATION''"
definition propNewRewardAlgoEffectiveCycle :: bytes where "propNewRewardAlgoEffectiveCycle = ascii ''NEW_REWARD_ALGORITHM_EFFECTIVE_CYCLE''"
definition propWitnessPayPerBlock :: bytes where "propWitnessPayPerBlock = ascii ''WITNESS_PAY_PER_BLOCK''"
definition propWitnessAllowanceFrozenTime :: bytes where "propWitnessAllowanceFrozenTime = ascii ''WITNESS_ALLOWANCE_FROZEN_TIME''"

lemmas prop_key_defs =
  propTotalEnergyWeight_def propTotalEnergyLimit_def propTotalEnergyCurrentLimit_def
  propTotalNetWeight_def propUnfreezeDelayDays_def propAllowNewReward_def
  propAllowDelegateResource_def propMinFrozenTime_def propMaxFrozenTime_def
  propLatestBlockHeaderTimestamp_def propAllowMultiSign_def propAllowTvmConstantinople_def
  propAllowTvmSolidity059_def propAllowDelegateOptimization_def propEnergyFee_def
  propMaintenanceTimeInterval_def propNextMaintenanceTime_def propCurrentCycleNumber_def
  propChangeDelegation_def propNewRewardAlgoEffectiveCycle_def propWitnessPayPerBlock_def
  propWitnessAllowanceFrozenTime_def

definition DefaultWitnessPayPerBlock :: int64 where "DefaultWitnessPayPerBlock = 32000000"
definition NewRewardAlgoDisabled :: int64 where "NewRewardAlgoDisabled = 9223372036854775807"
definition DefaultMaintenanceInterval :: int64 where "DefaultMaintenanceInterval = 21600000"
definition DefaultTotalEnergyLimit :: int64 where "DefaultTotalEnergyLimit = 50000000000"

section \<open>Scalar access\<close>

definition PutInt64 :: "bytes \<Rightarrow> int64 \<Rightarrow> (Database, unit) op" where
  "PutInt64 key v = DbPut (nsKey propertyPrefix key) (PutUint64 v)"

definition GetInt64 :: "Database \<Rightarrow> bytes \<Rightarrow> (int64 \<times> bool) result" where
  "GetInt64 d key =
     (case Database_Get d (nsKey propertyPrefix key) of
        Inl e \<Rightarrow> if e = ErrNotFound then Inr (0, False) else Inl e
      | Inr b \<Rightarrow> if length b \<noteq> 8 then Inl (Err ''property: want 8 bytes'') else Inr (Uint64 b, True))"

definition getOr :: "Database \<Rightarrow> bytes \<Rightarrow> int64 \<Rightarrow> int64 result" where
  "getOr d key def = bindE (GetInt64 d key) (\<lambda>(v, ok). if ok then Inr v else Inr def)"

text \<open>A flag property is on when it holds 1.\<close>

definition flagOn :: "Database \<Rightarrow> bytes \<Rightarrow> bool result" where
  "flagOn d key = bindE (getOr d key 0) (\<lambda>v. Inr (v = 1))"

section \<open>Accessors\<close>

definition TotalEnergyWeight :: "Database \<Rightarrow> int64 result" where
  "TotalEnergyWeight d = getOr d propTotalEnergyWeight 0"

definition TotalEnergyCurrentLimit :: "Database \<Rightarrow> int64 result" where
  "TotalEnergyCurrentLimit d = getOr d propTotalEnergyCurrentLimit DefaultTotalEnergyLimit"

definition EnergyFee :: "Database \<Rightarrow> int64 result" where
  "EnergyFee d = getOr d propEnergyFee 0"

definition UnfreezeDelayDays :: "Database \<Rightarrow> int64 result" where
  "UnfreezeDelayDays d = getOr d propUnfreezeDelayDays 0"

definition TotalNetWeight :: "Database \<Rightarrow> int64 result" where
  "TotalNetWeight d = getOr d propTotalNetWeight 0"

definition MinFrozenTime :: "Database \<Rightarrow> int64 result" where
  "MinFrozenTime d = getOr d propMinFrozenTime 3"

definition MaxFrozenTime :: "Database \<Rightarrow> int64 result" where
  "MaxFrozenTime d = getOr d propMaxFrozenTime 3"

definition LatestBlockHeaderTimestamp :: "Database \<Rightarrow> int64 result" where
  "LatestBlockHeaderTimestamp d = getOr d propLatestBlockHeaderTimestamp 0"

definition MaintenanceTimeInterval :: "Database \<Rightarrow> int64 result" where
  "MaintenanceTimeInterval d = getOr d propMaintenanceTimeInterval DefaultMaintenanceInterval"

definition NextMaintenanceTime :: "Database \<Rightarrow> int64 result" where
  "NextMaintenanceTime d = getOr d propNextMaintenanceTime 0"

definition CurrentCycleNumber :: "Database \<Rightarrow> int64 result" where
  "CurrentCycleNumber d = getOr d propCurrentCycleNumber 0"

definition NewRewardAlgorithmEffectiveCycle :: "Database \<Rightarrow> int64 result" where
  "NewRewardAlgorithmEffectiveCycle d = getOr d propNewRewardAlgoEffectiveCycle NewRewardAlgoDisabled"

definition WitnessPayPerBlock :: "Database \<Rightarrow> int64 result" where
  "WitnessPayPerBlock d = getOr d propWitnessPayPerBlock DefaultWitnessPayPerBlock"

definition WitnessAllowanceFrozenTime :: "Database \<Rightarrow> int64 result" where
  "WitnessAllowanceFrozenTime d = getOr d propWitnessAllowanceFrozenTime 1"

definition AllowNewReward :: "Database \<Rightarrow> bool result" where
  "AllowNewReward d = flagOn d propAllowNewReward"

definition SupportDR :: "Database \<Rightarrow> bool result" where
  "SupportDR d = flagOn d propAllowDelegateResource"

definition SupportAllowDelegateOptimization :: "Database \<Rightarrow> bool result" where
  "SupportAllowDelegateOptimization d = flagOn d propAllowDelegateOptimization"

definition AllowMultiSign :: "Database \<Rightarrow> bool result" where
  "AllowMultiSign d = flagOn d propAllowMultiSign"

definition AllowTvmConstantinople :: "Database \<Rightarrow> bool result" where
  "AllowTvmConstantinople d = flagOn d propAllowTvmConstantinople"

definition AllowTvmSolidity059 :: "Database \<Rightarrow> bool result" where
  "AllowTvmSolidity059 d = flagOn d propAllowTvmSolidity059"

definition AllowChangeDelegation :: "Database \<Rightarrow> bool result" where
  "AllowChangeDelegation d = flagOn d propChangeDelegation"

definition SupportUnfreezeDelay :: "Database \<Rightarrow> bool result" where
  "SupportUnfreezeDelay d = bindE (getOr d propUnfreezeDelayDays 0) (\<lambda>v. Inr (slt 0 v))"

definition UseNewRewardAlgorithm :: "Database \<Rightarrow> bool result" where
  "UseNewRewardAlgorithm d =
     bindE (NewRewardAlgorithmEffectiveCycle d) (\<lambda>c. Inr (c \<noteq> NewRewardAlgoDisabled))"

section \<open>Writes\<close>

definition SaveLatestBlockHeaderTimestamp :: "int64 \<Rightarrow> (Database, unit) op" where
  "SaveLatestBlockHeaderTimestamp ms = PutInt64 propLatestBlockHeaderTimestamp ms"

definition SaveNextMaintenanceTime :: "int64 \<Rightarrow> (Database, unit) op" where
  "SaveNextMaintenanceTime ms = PutInt64 propNextMaintenanceTime ms"

definition UpdateNextMaintenanceTime :: "int64 \<Rightarrow> (Database, unit) op" where
  "UpdateNextMaintenanceTime blockTime =
     bindM (readM MaintenanceTimeInterval) (\<lambda>interval.
     bindM (readM NextMaintenanceTime) (\<lambda>cur.
     bindM (liftM (quotE (blockTime - cur) interval)) (\<lambda>round.
       SaveNextMaintenanceTime (cur + (round + 1) * interval))))"

definition SaveCurrentCycleNumber :: "int64 \<Rightarrow> (Database, unit) op" where
  "SaveCurrentCycleNumber n = PutInt64 propCurrentCycleNumber n"

definition SaveChangeDelegation :: "int64 \<Rightarrow> (Database, unit) op" where
  "SaveChangeDelegation v = PutInt64 propChangeDelegation v"

definition SaveNewRewardAlgorithmEffectiveCycle :: "int64 \<Rightarrow> (Database, unit) op" where
  "SaveNewRewardAlgorithmEffectiveCycle c = PutInt64 propNewRewardAlgoEffectiveCycle c"

definition addWeight :: "bytes \<Rightarrow> int64 \<Rightarrow> (Database, unit) op" where
  "addWeight key amount =
     (if amount = 0 then returnM ()
      else
        bindM (readM (\<lambda>d. getOr d key 0)) (\<lambda>w0.
        bindM (readM AllowNewReward) (\<lambda>newReward.
          let w = w0 + amount in
          PutInt64 key (if newReward \<and> slt w 0 then 0 else w))))"

definition AddTotalNetWeight :: "int64 \<Rightarrow> (Database, unit) op" where
  "AddTotalNetWeight amount = addWeight propTotalNetWeight amount"

definition AddTotalEnergyWeight :: "int64 \<Rightarrow> (Database, unit) op" where
  "AddTotalEnergyWeight amount = addWeight propTotalEnergyWeight amount"

definition genesisDefaults :: "(bytes \<times> int64) list" where
  "genesisDefaults =
    [(propTotalEnergyWeight, 0),
     (propTotalEnergyLimit, DefaultTotalEnergyLimit),
     (propTotalEnergyCurrentLimit, DefaultTotalEnergyLimit),
     (propTotalNetWeight, 0),
     (propUnfreezeDelayDays, 0),
     (propAllowNewReward, 0),
     (propAllowDelegateResource, 0),
     (propMinFrozenTime, 3),
     (propMaxFrozenTime, 3),
     (propAllowMultiSign, 0),
     (propAllowTvmConstantinople, 0),
     (propAllowTvmSolidity059, 0),
     (propAllowDelegateOptimization, 0),
     (propCurrentCycleNumber, 0),
     (propChangeDelegation, 0),
     (propNewRewardAlgoEffectiveCycle, NewRewardAlgoDisabled),
     (propWitnessPayPerBlock, DefaultWitnessPayPerBlock),
     (propWitnessAllowanceFrozenTime, 1)]"

definition SeedGenesisDefaults :: "(Database, unit) op" where
  "SeedGenesisDefaults = forM genesisDefaults (\<lambda>(k, v). PutInt64 k v)"

section \<open>The contract of a property\<close>

lemma PutInt64_apply [simp]:
  "PutInt64 key v d = (Inr (), Database_Put d (nsKey propertyPrefix key) (PutUint64 v))"
  by (simp add: PutInt64_def)

lemma getOr_view:
  "getOr d key def = (case view d (nsKey propertyPrefix key) of None \<Rightarrow> Inr def
     | Some b \<Rightarrow> if length b \<noteq> 8 then Inl (Err ''property: want 8 bytes'') else Inr (Uint64 b))"
  by (simp add: getOr_def GetInt64_def Database_Get_view split: option.splits)

lemma getOr_Put [simp]:
  "getOr (Database_Put d k b) key def =
     (if nsKey propertyPrefix key = k
      then if length b \<noteq> 8 then Inl (Err ''property: want 8 bytes'') else Inr (Uint64 b)
      else getOr d key def)"
  by (simp add: getOr_view)

lemma getOr_Delete:
  "nsKey propertyPrefix key \<noteq> k \<Longrightarrow> getOr (Database_Delete d k) key def = getOr d key def"
  by (simp add: getOr_view)

lemma getOr_cong: "view d (nsKey propertyPrefix key) = view d' (nsKey propertyPrefix key) \<Longrightarrow>
   getOr d key def = getOr d' key def"
  by (simp add: getOr_view)

locale int64_cell =
  fixes rd :: "Database \<Rightarrow> int64 result" and wr :: "int64 \<Rightarrow> (Database, unit) op"
    and cell :: bytes and dflt :: int64
  assumes read_cell: "rd d = getOr d cell dflt"
    and write_cell: "wr v = PutInt64 cell v"
begin

lemma read_write: "rd (snd (wr v d)) = Inr v"
  by (simp add: read_cell write_cell)

lemma write_ok: "fst (wr v d) = Inr ()"
  by (simp add: write_cell)

lemma read_default: "view d (nsKey propertyPrefix cell) = None \<Longrightarrow> rd d = Inr dflt"
  by (simp add: read_cell getOr_view)

lemma read_frame: "nsKey propertyPrefix cell \<noteq> k \<Longrightarrow> rd (Database_Put d k b) = rd d"
  by (simp add: read_cell)

end

interpretation latestTime: int64_cell LatestBlockHeaderTimestamp SaveLatestBlockHeaderTimestamp
    propLatestBlockHeaderTimestamp 0
  by unfold_locales (simp_all add: LatestBlockHeaderTimestamp_def SaveLatestBlockHeaderTimestamp_def)

interpretation nextMaint: int64_cell NextMaintenanceTime SaveNextMaintenanceTime propNextMaintenanceTime 0
  by unfold_locales (simp_all add: NextMaintenanceTime_def SaveNextMaintenanceTime_def)

interpretation cycleNo: int64_cell CurrentCycleNumber SaveCurrentCycleNumber propCurrentCycleNumber 0
  by unfold_locales (simp_all add: CurrentCycleNumber_def SaveCurrentCycleNumber_def)

interpretation effCycle: int64_cell NewRewardAlgorithmEffectiveCycle SaveNewRewardAlgorithmEffectiveCycle
    propNewRewardAlgoEffectiveCycle NewRewardAlgoDisabled
  by unfold_locales
    (simp_all add: NewRewardAlgorithmEffectiveCycle_def SaveNewRewardAlgorithmEffectiveCycle_def)

context write_inv
begin

lemma keeps_PutInt64 [keeps_intros]: "keeps P (PutInt64 key v)"
  unfolding PutInt64_def by (simp add: keeps_DbPut)

lemma keeps_properties [keeps_intros]:
  "keeps P (SaveLatestBlockHeaderTimestamp ms)"
  "keeps P (SaveNextMaintenanceTime ms)"
  "keeps P (UpdateNextMaintenanceTime ms)"
  "keeps P (SaveCurrentCycleNumber ms)"
  "keeps P (SaveChangeDelegation ms)"
  "keeps P (SaveNewRewardAlgorithmEffectiveCycle ms)"
  "keeps P (addWeight key ms)"
  "keeps P (AddTotalNetWeight ms)"
  "keeps P (AddTotalEnergyWeight ms)"
  unfolding SaveLatestBlockHeaderTimestamp_def SaveNextMaintenanceTime_def UpdateNextMaintenanceTime_def
    SaveCurrentCycleNumber_def SaveChangeDelegation_def SaveNewRewardAlgorithmEffectiveCycle_def
    AddTotalNetWeight_def AddTotalEnergyWeight_def addWeight_def Let_def
  by (intro keeps_intros)+

lemma keeps_SeedGenesisDefaults [keeps_intros]: "keeps P SeedGenesisDefaults"
  unfolding SeedGenesisDefaults_def by (intro keeps_intros)

end

section \<open>Correctness of the writes\<close>

text \<open>Each weight accumulator adds its amount, clamped at zero once the new reward rules are on.\<close>

lemma addWeight_spec:
  assumes "getOr d key 0 = Inr w" "AllowNewReward d = Inr nr"
  shows "getOr (snd (addWeight key amount d)) key 0 =
    Inr (if amount \<noteq> 0 \<and> nr \<and> slt (w + amount) 0 then 0 else w + amount)"
    and "fst (addWeight key amount d) = Inr ()"
  using assms by (auto simp: addWeight_def Let_def)

lemma addWeight_frame:
  "k \<noteq> nsKey propertyPrefix key \<Longrightarrow> view (snd (addWeight key amount d)) k = view d k"
  by (auto simp: addWeight_def Let_def split: sum.splits)

lemma addWeight_frame_any:
  "k \<noteq> nsKey propertyPrefix key \<Longrightarrow> addWeight key amount d = (r, d') \<Longrightarrow> view d' k = view d k"
  using addWeight_frame [of k key amount d] by simp

lemma SeedGenesisDefaults_reads:
  "fst (SeedGenesisDefaults d) = Inr ()"
  "TotalEnergyWeight (snd (SeedGenesisDefaults d)) = Inr 0"
  "TotalEnergyCurrentLimit (snd (SeedGenesisDefaults d)) = Inr DefaultTotalEnergyLimit"
  "AllowChangeDelegation (snd (SeedGenesisDefaults d)) = Inr False"
  "UseNewRewardAlgorithm (snd (SeedGenesisDefaults d)) = Inr False"
  "SupportUnfreezeDelay (snd (SeedGenesisDefaults d)) = Inr False"
  by (simp_all add: SeedGenesisDefaults_def genesisDefaults_def bindM_def prop_key_defs
        TotalEnergyWeight_def TotalEnergyCurrentLimit_def AllowChangeDelegation_def flagOn_def
        UseNewRewardAlgorithm_def NewRewardAlgorithmEffectiveCycle_def SupportUnfreezeDelay_def slt_def)

text \<open>
  The maintenance clock: with a positive interval and a block time at or after the current
  boundary, the new boundary is the first one of the grid strictly after the block time.
\<close>

lemma next_boundary:
  fixes bt cur iv :: int
  assumes "0 < iv" "cur \<le> bt"
  shows "bt < cur + ((bt - cur) div iv + 1) * iv" "cur + ((bt - cur) div iv + 1) * iv \<le> bt + iv"
proof -
  define q m where "q = (bt - cur) div iv" and "m = (bt - cur) mod iv"
  have "q * iv + m = bt - cur" by (simp add: q_def m_def)
  moreover have "0 \<le> m" "m < iv" using assms by (simp_all add: m_def)
  moreover have "(q + 1) * iv = q * iv + iv" by (simp add: distrib_right)
  ultimately show "bt < cur + ((bt - cur) div iv + 1) * iv" "cur + ((bt - cur) div iv + 1) * iv \<le> bt + iv"
    unfolding q_def [symmetric] by linarith+
qed

lemma UpdateNextMaintenanceTime_value:
  assumes "MaintenanceTimeInterval d = Inr iv" "NextMaintenanceTime d = Inr cur"
    and "0 < sint iv" "0 \<le> sint cur" "sint cur \<le> sint bt" "sint bt + sint iv < 2 ^ 63"
  shows "\<exists>n. UpdateNextMaintenanceTime bt d =
      (Inr (), Database_Put d (nsKey propertyPrefix propNextMaintenanceTime) (PutUint64 n)) \<and>
    sint n = sint cur + ((sint bt - sint cur) div sint iv + 1) * sint iv"
proof -
  let ?r = "quot64 (bt - cur) iv"
  let ?q = "(sint bt - sint cur) div sint iv"
  have nz: "iv \<noteq> 0" using assms(3) by auto
  have sub: "sint (bt - cur) = sint bt - sint cur"
    using assms(4,5) sint64_upper [of bt] by (intro sint64_sub) (simp add: in_int64_def)
  have r: "sint ?r = ?q"
    using assms(3,5) by (simp add: sint_quot64 sub tquot_nonneg)
  have q0: "0 \<le> ?q" using assms(3,5) by (simp add: pos_imp_zdiv_nonneg_iff)
  note nb = next_boundary [OF assms(3,5)]
  have qiv: "(?q + 1) * sint iv \<le> sint bt + sint iv" "0 \<le> (?q + 1) * sint iv"
    using nb(2) assms(3,4) q0 by simp_all
  have "(?q + 1) * 1 \<le> (?q + 1) * sint iv" using assms(3) q0 by (intro mult_left_mono) simp_all
  then have "?q + 1 \<le> (?q + 1) * sint iv" by (simp only: mult_1_right)
  also note qiv(1)
  also note assms(6)
  finally have "?q + 1 < 2 ^ 63" .
  then have "sint (?r + 1) = ?q + 1"
    using r q0 by (subst sint64_add) (simp_all add: in_int64_def)
  moreover from this have "sint ((?r + 1) * iv) = (?q + 1) * sint iv"
    using qiv assms(6) by (subst sint64_mult) (simp_all add: in_int64_def)
  moreover from this have "sint (cur + (?r + 1) * iv) = sint cur + (?q + 1) * sint iv"
    using nb(2) qiv assms(4,6) by (subst sint64_add) (simp_all add: in_int64_def)
  ultimately show ?thesis
    using assms(1,2) nz by (auto simp: UpdateNextMaintenanceTime_def quotE_def SaveNextMaintenanceTime_def)
qed

text \<open>
  C34: With a positive maintenance interval and a block at or after the stored boundary,
  \<open>UpdateNextMaintenanceTime\<close> succeeds and moves the boundary by whole intervals to the first
  instant strictly after the block time, at most one interval ahead of it.
\<close>

theorem UpdateNextMaintenanceTime_advances:
  assumes "MaintenanceTimeInterval d = Inr iv" "NextMaintenanceTime d = Inr cur"
    and "0 < sint iv" "0 \<le> sint cur" "sint cur \<le> sint bt" "sint bt + sint iv < 2 ^ 63"
  shows "\<exists>n. fst (UpdateNextMaintenanceTime bt d) = Inr () \<and>
    NextMaintenanceTime (snd (UpdateNextMaintenanceTime bt d)) = Inr n \<and>
    sint bt < sint n \<and> sint n \<le> sint bt + sint iv \<and> sint iv dvd sint n - sint cur"
proof -
  obtain n where "UpdateNextMaintenanceTime bt d =
      (Inr (), Database_Put d (nsKey propertyPrefix propNextMaintenanceTime) (PutUint64 n))"
    and "sint n = sint cur + ((sint bt - sint cur) div sint iv + 1) * sint iv"
    using UpdateNextMaintenanceTime_value [OF assms] by blast
  with next_boundary [OF assms(3,5)] show ?thesis
    by (intro exI [of _ n]) (simp add: NextMaintenanceTime_def)
qed

theorem UpdateNextMaintenanceTime_witness:
  "\<exists>n. NextMaintenanceTime (snd (UpdateNextMaintenanceTime 50000000 (NewDatabase NewMemKV))) = Inr n \<and>
    50000000 < sint n \<and> sint n \<le> 50000000 + 21600000"
  using UpdateNextMaintenanceTime_advances [of "NewDatabase NewMemKV" 21600000 0 50000000]
  by (simp add: MaintenanceTimeInterval_def NextMaintenanceTime_def getOr_view NewDatabase_def NewMemKV_def
      view_def DefaultMaintenanceInterval_def) blast

section \<open>Well-formed properties\<close>

text \<open>Every stored property has eight bytes, as \<open>PutInt64\<close> writes it; then every accessor succeeds.\<close>

definition props_wf :: "Database \<Rightarrow> bool" where
  "props_wf d \<longleftrightarrow> (\<forall>key b. view d (nsKey propertyPrefix key) = Some b \<longrightarrow> length b = 8)"

lemma getOr_total: "props_wf d \<Longrightarrow> \<exists>v. getOr d key def = Inr v"
  by (auto simp: getOr_view props_wf_def split: option.splits)

lemma flagOn_total: "props_wf d \<Longrightarrow> \<exists>b. flagOn d key = Inr b"
  using getOr_total [of d key 0] by (auto simp: flagOn_def)

text \<open>Two databases that agree on the property name space answer every accessor alike.\<close>

definition same_props :: "Database \<Rightarrow> Database \<Rightarrow> bool" where
  "same_props d d' \<longleftrightarrow> (\<forall>key. view d' (nsKey propertyPrefix key) = view d (nsKey propertyPrefix key))"

lemma same_props_getOr: "same_props d d' \<Longrightarrow> getOr d' key def = getOr d key def"
  by (simp add: same_props_def getOr_view)

lemma same_props_flagOn: "same_props d d' \<Longrightarrow> flagOn d' key = flagOn d key"
  by (simp add: flagOn_def same_props_getOr)

end
