(* ===== verification/Delegation_Store.thy ===== *)
theory Delegation_Store
  imports Dyn_Properties
begin

text \<open>
  \<open>internal/state/delegation.go\<close>: the reward accounting store. Per-cycle, per-witness scalars are
  big-endian \<open>int64\<close>s, the reward-per-vote index Vi is an unsigned big-endian \<open>big.Int\<close>, and the vote
  snapshot of an account is a length-prefixed record. Proved here: the snapshot encoding round trips,
  the per-cycle cells satisfy read-after-write, and \<open>AccumulateWitnessVi\<close> computes the index the
  reward formula relies on.
\<close>

section \<open>Keys\<close>

definition DefaultBrokerage :: int64 where "DefaultBrokerage = 20"
definition RemarkNoVote :: int64 where "RemarkNoVote = - 1"
definition DecimalOfViReward :: int where "DecimalOfViReward = 10 ^ 18"

definition dgRewardPrefix :: bytes where "dgRewardPrefix = ascii ''dg/r/''"
definition dgViPrefix :: bytes where "dgViPrefix = ascii ''dg/v/''"
definition dgVotePrefix :: bytes where "dgVotePrefix = ascii ''dg/o/''"
definition dgAccountVotePrefix :: bytes where "dgAccountVotePrefix = ascii ''dg/a/''"
definition dgBeginCyclePrefix :: bytes where "dgBeginCyclePrefix = ascii ''dg/bc/''"
definition dgEndCyclePrefix :: bytes where "dgEndCyclePrefix = ascii ''dg/ec/''"
definition dgBrokeragePrefix :: bytes where "dgBrokeragePrefix = ascii ''dg/bk/''"

lemma dg_prefixes [key_simps]:
  "dgRewardPrefix = [100, 103, 47, 114, 47]"
  "dgViPrefix = [100, 103, 47, 118, 47]"
  "dgVotePrefix = [100, 103, 47, 111, 47]"
  "dgAccountVotePrefix = [100, 103, 47, 97, 47]"
  "dgBeginCyclePrefix = [100, 103, 47, 98, 99, 47]"
  "dgEndCyclePrefix = [100, 103, 47, 101, 99, 47]"
  "dgBrokeragePrefix = [100, 103, 47, 98, 107, 47]"
  by (simp_all add: dgRewardPrefix_def dgViPrefix_def dgVotePrefix_def dgAccountVotePrefix_def
        dgBeginCyclePrefix_def dgEndCyclePrefix_def dgBrokeragePrefix_def ascii_simps)

definition cycleKey :: "bytes \<Rightarrow> int64 \<Rightarrow> bytes \<Rightarrow> bytes" where
  "cycleKey prefix cycle addr = prefix @ PutUint64 cycle @ addr"

lemma cycleKey_inject [simp]: "cycleKey p c a = cycleKey p c' a' \<longleftrightarrow> c = c' \<and> a = a'"
  by (auto simp: cycleKey_def)

section \<open>Scalar cells\<close>

text \<open>\<open>binary.BigEndian.Uint64\<close> reads the first eight bytes and panics on a shorter slice.\<close>

definition dgGetInt64 :: "Database \<Rightarrow> bytes \<Rightarrow> int64 \<Rightarrow> int64 result" where
  "dgGetInt64 d key def =
     (case Database_Get d key of
        Inl e \<Rightarrow> if e = ErrNotFound then Inr def else Inl e
      | Inr b \<Rightarrow> if length b < 8 then Inl (Panic ''index out of range'') else Inr (Uint64 (take 8 b)))"

definition dgPutInt64 :: "bytes \<Rightarrow> int64 \<Rightarrow> (Database, unit) op" where
  "dgPutInt64 key v = DbPut key (PutUint64 v)"

definition GetReward :: "Database \<Rightarrow> int64 \<Rightarrow> bytes \<Rightarrow> int64 result" where
  "GetReward d cycle addr = dgGetInt64 d (cycleKey dgRewardPrefix cycle addr) 0"

definition AddReward :: "int64 \<Rightarrow> bytes \<Rightarrow> int64 \<Rightarrow> (Database, unit) op" where
  "AddReward cycle addr v =
     bindM (readM (\<lambda>d. GetReward d cycle addr)) (\<lambda>cur.
       dgPutInt64 (cycleKey dgRewardPrefix cycle addr) (cur + v))"

definition GetWitnessVote :: "Database \<Rightarrow> int64 \<Rightarrow> bytes \<Rightarrow> int64 result" where
  "GetWitnessVote d cycle addr = dgGetInt64 d (cycleKey dgVotePrefix cycle addr) RemarkNoVote"

definition SetWitnessVote :: "int64 \<Rightarrow> bytes \<Rightarrow> int64 \<Rightarrow> (Database, unit) op" where
  "SetWitnessVote cycle addr v = dgPutInt64 (cycleKey dgVotePrefix cycle addr) v"

definition GetBrokerageAt :: "Database \<Rightarrow> int64 \<Rightarrow> bytes \<Rightarrow> int64 result" where
  "GetBrokerageAt d cycle addr = dgGetInt64 d (cycleKey dgBrokeragePrefix cycle addr) DefaultBrokerage"

definition SetBrokerageAt :: "int64 \<Rightarrow> bytes \<Rightarrow> int64 \<Rightarrow> (Database, unit) op" where
  "SetBrokerageAt cycle addr pct = dgPutInt64 (cycleKey dgBrokeragePrefix cycle addr) pct"

definition GetBrokerage :: "Database \<Rightarrow> bytes \<Rightarrow> int64 result" where
  "GetBrokerage d addr = GetBrokerageAt d (- 1) addr"

definition SetBrokerage :: "bytes \<Rightarrow> int64 \<Rightarrow> (Database, unit) op" where
  "SetBrokerage addr pct = SetBrokerageAt (- 1) addr pct"

definition GetBeginCycle :: "Database \<Rightarrow> bytes \<Rightarrow> int64 result" where
  "GetBeginCycle d addr = dgGetInt64 d (dgBeginCyclePrefix @ addr) 0"

definition SetBeginCycle :: "bytes \<Rightarrow> int64 \<Rightarrow> (Database, unit) op" where
  "SetBeginCycle addr c = dgPutInt64 (dgBeginCyclePrefix @ addr) c"

definition GetEndCycle :: "Database \<Rightarrow> bytes \<Rightarrow> int64 result" where
  "GetEndCycle d addr = dgGetInt64 d (dgEndCyclePrefix @ addr) RemarkNoVote"

definition SetEndCycle :: "bytes \<Rightarrow> int64 \<Rightarrow> (Database, unit) op" where
  "SetEndCycle addr c = dgPutInt64 (dgEndCyclePrefix @ addr) c"

section \<open>The reward-per-vote index\<close>

definition GetWitnessVi :: "Database \<Rightarrow> int64 \<Rightarrow> bytes \<Rightarrow> int result" where
  "GetWitnessVi d cycle addr =
     (case Database_Get d (cycleKey dgViPrefix cycle addr) of
        Inl e \<Rightarrow> if e = ErrNotFound then Inr 0 else Inl e
      | Inr b \<Rightarrow> Inr (big_SetBytes b))"

definition SetWitnessVi :: "int64 \<Rightarrow> bytes \<Rightarrow> int \<Rightarrow> (Database, unit) op" where
  "SetWitnessVi cycle addr v = DbPut (cycleKey dgViPrefix cycle addr) (big_Bytes v)"

definition AccumulateWitnessVi :: "int64 \<Rightarrow> bytes \<Rightarrow> int64 \<Rightarrow> (Database, unit) op" where
  "AccumulateWitnessVi cycle addr voteCount =
     bindM (readM (\<lambda>d. GetWitnessVi d (cycle - 1) addr)) (\<lambda>preVi.
     bindM (readM (\<lambda>d. GetReward d cycle addr)) (\<lambda>reward.
       if reward = 0 \<or> voteCount = 0 then
         (if preVi \<noteq> 0 then SetWitnessVi cycle addr preVi else returnM ())
       else
         let deltaVi = big_Div (sint reward * DecimalOfViReward) (sint voteCount) in
         SetWitnessVi cycle addr (preVi + deltaVi)))"

section \<open>Vote snapshots\<close>

record AccountVote =
  av_Addresses :: "bytes list"
  av_Counts :: "int64 list"

text \<open>The loop of \<open>encodeAccountVote\<close> indexes \<open>Counts\<close> and panics when it is the shorter slice.\<close>

fun encodeAV :: "bytes list \<Rightarrow> int64 list \<Rightarrow> bytes result" where
  "encodeAV [] cs = Inr []"
| "encodeAV (a # as) [] = Inl (Panic ''index out of range'')"
| "encodeAV (a # as) (c # cs) = bindE (encodeAV as cs) (\<lambda>rest. Inr (a @ PutUint64 c @ rest))"

definition encodeAccountVote :: "AccountVote \<Rightarrow> bytes result" where
  "encodeAccountVote av =
     bindE (encodeAV (av_Addresses av) (av_Counts av)) (\<lambda>body.
       Inr (PutUint64 (word_of_nat (length (av_Addresses av))) @ body))"

text \<open>
  \<open>decodeAV n b\<close> reads \<open>n\<close> entries from the tail \<open>b\<close> of the record. \<open>make([][]byte, 0, n)\<close> panics for
  a negative \<open>n\<close> and for one whose 24-byte slice headers exceed the allocation limit \<open>2 ^ 48\<close>.
\<close>

fun decodeAV :: "nat \<Rightarrow> bytes \<Rightarrow> (bytes list \<times> int64 list) result" where
  "decodeAV 0 b = Inr ([], [])"
| "decodeAV (Suc n) b =
     (if length b < 29 then Inl (Err ''delegation: truncated account-vote record'')
      else bindE (decodeAV n (drop 29 b)) (\<lambda>(as, cs).
        Inr (take 21 b # as, Uint64 (take 8 (drop 21 b)) # cs)))"

definition decodeAccountVote :: "bytes \<Rightarrow> AccountVote result" where
  "decodeAccountVote b =
     (if length b < 8 then Inl (Err ''delegation: short account-vote record'')
      else
        let n = sint (Uint64 (take 8 b)) in
        if n < 0 \<or> 2 ^ 48 < n * 24 then Inl (Panic ''makeslice: cap out of range'')
        else bindE (decodeAV (nat n) (drop 8 b)) (\<lambda>(as, cs).
          Inr \<lparr>av_Addresses = as, av_Counts = cs\<rparr>))"

definition GetAccountVote :: "Database \<Rightarrow> int64 \<Rightarrow> bytes \<Rightarrow> AccountVote option result" where
  "GetAccountVote d cycle addr =
     (case Database_Get d (cycleKey dgAccountVotePrefix cycle addr) of
        Inl e \<Rightarrow> if e = ErrNotFound then Inr None else Inl e
      | Inr b \<Rightarrow> bindE (decodeAccountVote b) (\<lambda>av. Inr (Some av)))"

definition SetAccountVote :: "int64 \<Rightarrow> bytes \<Rightarrow> AccountVote \<Rightarrow> (Database, unit) op" where
  "SetAccountVote cycle addr av =
     bindM (liftM (encodeAccountVote av)) (\<lambda>b. DbPut (cycleKey dgAccountVotePrefix cycle addr) b)"

section \<open>Cells\<close>

lemma dgPutInt64_apply [simp]: "dgPutInt64 key v d = (Inr (), Database_Put d key (PutUint64 v))"
  by (simp add: dgPutInt64_def)

lemma dgGetInt64_view:
  "dgGetInt64 d key def = (case view d key of None \<Rightarrow> Inr def
     | Some b \<Rightarrow> if length b < 8 then Inl (Panic ''index out of range'') else Inr (Uint64 (take 8 b)))"
  by (simp add: dgGetInt64_def Database_Get_view split: option.splits)

lemma dgGetInt64_Put [simp]:
  "dgGetInt64 (Database_Put d key (PutUint64 v)) key' def = (if key' = key then Inr v else dgGetInt64 d key' def)"
  by (simp add: dgGetInt64_view)

lemma GetWitnessVi_view:
  "GetWitnessVi d cycle addr =
     (case view d (cycleKey dgViPrefix cycle addr) of None \<Rightarrow> Inr 0 | Some b \<Rightarrow> Inr (big_SetBytes b))"
  by (simp add: GetWitnessVi_def Database_Get_view split: option.splits)

lemma GetWitnessVi_total: "\<exists>v. GetWitnessVi d cycle addr = Inr v \<and> 0 \<le> v"
  by (simp add: GetWitnessVi_view big_SetBytes_def split: option.splits)

lemma cycleKey_neq [simp]:
  "cycleKey dgRewardPrefix c a \<noteq> cycleKey dgViPrefix c' a'"
  "cycleKey dgViPrefix c a \<noteq> cycleKey dgRewardPrefix c' a'"
  "cycleKey dgVotePrefix c a \<noteq> cycleKey dgViPrefix c' a'"
  "cycleKey dgVotePrefix c a \<noteq> cycleKey dgRewardPrefix c' a'"
  by (simp_all add: cycleKey_def key_simps)

context write_inv
begin

lemma keeps_delegation [keeps_intros]:
  "keeps P (AddReward c a v)"
  "keeps P (SetWitnessVote c a v)"
  "keeps P (SetBrokerageAt c a v)"
  "keeps P (SetBrokerage a v)"
  "keeps P (SetBeginCycle a c)"
  "keeps P (SetEndCycle a c)"
  "keeps P (SetWitnessVi c a vi)"
  "keeps P (AccumulateWitnessVi c a v)"
  "keeps P (SetAccountVote c a av)"
  unfolding AddReward_def SetWitnessVote_def SetBrokerageAt_def SetBrokerage_def SetBeginCycle_def
    SetEndCycle_def SetWitnessVi_def AccumulateWitnessVi_def SetAccountVote_def dgPutInt64_def Let_def
  by (intro keeps_intros keeps_DbPut; simp add: has_prefix_def cycleKey_def key_simps accountPrefix_def ascii_simps)+

end

section \<open>Correctness\<close>

lemma AccumulateWitnessVi_writes:
  assumes "GetWitnessVi d (cycle - 1) addr = Inr pre" "GetReward d cycle addr = Inr rw"
    and "0 \<le> sint rw" "0 < sint vc"
    and fresh: "view d (cycleKey dgViPrefix cycle addr) = None"
  shows "GetWitnessVi (snd (AccumulateWitnessVi cycle addr vc d)) cycle addr =
    Inr (pre + sint rw * DecimalOfViReward div sint vc)"
proof -
  have pre: "0 \<le> pre" using GetWitnessVi_total [of d "cycle - 1" addr] assms(1) by auto
  have vc: "vc \<noteq> 0" using assms(4) by auto
  show ?thesis
  proof (cases "rw = 0")
    case True
    then show ?thesis using assms(1,2) fresh pre
      by (simp add: AccumulateWitnessVi_def SetWitnessVi_def GetWitnessVi_view)
  next
    case False
    have "0 \<le> sint rw * DecimalOfViReward div sint vc"
      using assms(3,4) by (simp add: DecimalOfViReward_def pos_imp_zdiv_nonneg_iff)
    then show ?thesis using assms(1,2,4) False vc pre
      by (simp add: AccumulateWitnessVi_def SetWitnessVi_def GetWitnessVi_view Let_def big_Div_def)
  qed
qed

lemma encodeAV_ok: "length as = length cs \<Longrightarrow> \<exists>body. encodeAV as cs = Inr body"
  by (induction as cs rule: encodeAV.induct) auto

lemma decodeAV_encodeAV:
  assumes "encodeAV as cs = Inr body" "length as = length cs" "\<forall>a \<in> set as. length a = 21"
  shows "decodeAV (length as) (body @ rest) = Inr (as, cs)"
  using assms
proof (induction as cs arbitrary: body rule: encodeAV.induct)
  case (3 a as c cs)
  then obtain b where b: "encodeAV as cs = Inr b" "body = a @ PutUint64 c @ b"
    by (auto simp: bindE_eq_Inr)
  have "length a = 21" using 3 by simp
  moreover have "decodeAV (length as) (b @ rest) = Inr (as, cs)" using 3 b by simp
  ultimately show ?case using b by simp
qed auto

text \<open>
  Vote snapshots round trip: what \<open>SetAccountVote\<close> stores for well-formed votes (21-byte
  addresses, one count per address, fewer than ten million of them) is what \<open>GetAccountVote\<close> reads
  back, and the entries of other cycles and accounts are untouched.
\<close>

theorem AccountVote_roundtrip:
  assumes "length (av_Addresses av) = length (av_Counts av)" "\<forall>a \<in> set (av_Addresses av). length a = 21"
    and "length (av_Addresses av) < 10 ^ 7"
  shows "GetAccountVote (snd (SetAccountVote cycle addr av d)) c a =
    (if c = cycle \<and> a = addr then Inr (Some av) else GetAccountVote d c a)"
proof -
  let ?n = "length (av_Addresses av)"
  obtain body where body: "encodeAV (av_Addresses av) (av_Counts av) = Inr body"
    using encodeAV_ok [OF assms(1)] by blast
  have n: "sint (word_of_nat ?n :: int64) = int ?n"
  proof -
    have "sint (word_of_int (int ?n) :: int64) = int ?n"
      using assms(3) by (intro sint_word_of_int) (simp add: in_int64_def)
    then show ?thesis by simp
  qed
  have "decodeAV ?n body = Inr (av_Addresses av, av_Counts av)"
    using decodeAV_encodeAV [OF body assms(1,2), of "[]"] by simp
  then have "decodeAccountVote (PutUint64 (word_of_nat ?n) @ body) = Inr av"
    using n assms(3) by (simp add: decodeAccountVote_def Let_def)
  then show ?thesis
    by (simp add: GetAccountVote_def SetAccountVote_def encodeAccountVote_def body Database_Get_view)
qed

theorem AccountVote_roundtrip_witness:
  "GetAccountVote (snd (SetAccountVote 3 [65] \<lparr>av_Addresses = [replicate 21 7], av_Counts = [- 5]\<rparr>
      (NewDatabase NewMemKV))) 3 [65] = Inr (Some \<lparr>av_Addresses = [replicate 21 7], av_Counts = [- 5]\<rparr>)"
  using AccountVote_roundtrip [of "\<lparr>av_Addresses = [replicate 21 7], av_Counts = [- 5]\<rparr>" 3 "[65]"
      "NewDatabase NewMemKV" 3 "[65]"] by simp

end
