(* ===== verification/Resource.thy ===== *)
theory Resource
  imports Proto_Messages "HOL-Library.Log_Nat"
begin

text \<open>
  \<open>internal/resource\<close> (the energy bill, the account energy limit and the staked-energy derivation) and
  \<open>internal/bandwidth\<close>. All quantities are \<open>int64\<close>; the two places that compute in \<open>float64\<close> use a
  model of binary64 as rationals rounded to 53 significant bits, ties to even (the operands here are
  far from the subnormal and overflow ranges, and no division by zero occurs).
\<close>

section \<open>Binary64\<close>

definition pow2 :: "int \<Rightarrow> rat" where
  "pow2 k = (if 0 \<le> k then 2 ^ nat k else 1 / 2 ^ nat (- k))"

text \<open>Round to the nearest integer, ties to even.\<close>

definition rne :: "rat \<Rightarrow> int" where
  "rne m = (let f = \<lfloor>m\<rfloor>; r = m - of_int f in
     if r < 1 / 2 then f else if r > 1 / 2 then f + 1 else if even f then f else f + 1)"

text \<open>The binary exponent of a positive rational: \<open>pow2 (expo x) \<le> x < pow2 (expo x + 1)\<close>.\<close>

definition expo :: "rat \<Rightarrow> int" where
  "expo x = (case quotient_of x of (n, d) \<Rightarrow>
     let e = int (floorlog 2 (nat n)) - int (floorlog 2 (nat d)) in
     if pow2 e \<le> x then e else e - 1)"

type_synonym float64 = rat

definition round64 :: "rat \<Rightarrow> float64" where
  "round64 x =
     (if x = 0 then 0
      else let u = pow2 (expo \<bar>x\<bar> - 52) in of_int (rne (x / u)) * u)"

definition f64_of_int64 :: "int64 \<Rightarrow> float64" where
  "f64_of_int64 w = round64 (of_int (sint w))"

definition f64_mult :: "float64 \<Rightarrow> float64 \<Rightarrow> float64" where
  "f64_mult a b = round64 (a * b)"

definition f64_div :: "float64 \<Rightarrow> float64 \<Rightarrow> float64" where
  "f64_div a b = round64 (a / b)"

definition f64_add :: "float64 \<Rightarrow> float64 \<Rightarrow> float64" where
  "f64_add a b = round64 (a + b)"

text \<open>
  \<open>int64(x)\<close> truncates towards zero; out of range the value is implementation-defined in Go, and
  the amd64 code produces the least \<open>int64\<close>.
\<close>

definition f64_to_int64 :: "float64 \<Rightarrow> int64" where
  "f64_to_int64 x =
     (let t = (if 0 \<le> x then \<lfloor>x\<rfloor> else \<lceil>x\<rceil>) in
      if in_int64 t then word_of_int t else word_of_int (- (2 ^ 63)))"

section \<open>The energy bill (energy.go)\<close>

record Receipt =
  rc_EnergyUsage :: int64
  rc_OriginEnergyUsage :: int64
  rc_EnergyFee :: int64
  rc_EnergyUsageTotal :: int64

record Bill =
  bl_EnergyUsed :: int64
  bl_CallerEnergy :: int64
  bl_OriginEnergy :: int64
  bl_CallerIsOrigin :: bool
  bl_ConsumeUserPercent :: int64
  bl_OriginEnergyLimit :: int64
  bl_EnergyPrice :: int64

definition SunPerEnergyFloor :: int64 where "SunPerEnergyFloor = 100"

definition EnergyPrice :: "int64 \<Rightarrow> int64" where
  "EnergyPrice dynamicFee = (if slt SunPerEnergyFloor dynamicFee then dynamicFee else SunPerEnergyFloor)"

definition smin :: "int64 \<Rightarrow> int64 \<Rightarrow> int64" where
  "smin a b = (if sle a b then a else b)"

definition Compute :: "Bill \<Rightarrow> Receipt" where
  "Compute b =
     (let total = bl_EnergyUsed b in
      if sle total 0 then
        \<lparr>rc_EnergyUsage = 0, rc_OriginEnergyUsage = 0, rc_EnergyFee = 0, rc_EnergyUsageTotal = 0\<rparr>
      else
        let price = EnergyPrice (bl_EnergyPrice b);
            originUsage =
              (if bl_CallerIsOrigin b then 0
               else
                 let percent0 = 100 - bl_ConsumeUserPercent b;
                     percent = (if slt percent0 0 then 0 else percent0);
                     usage = quot64 (total * percent) 100;
                     cap = smin (bl_OriginEnergy b) (bl_OriginEnergyLimit b)
                 in if slt cap usage then cap else usage);
            callerUsage = total - originUsage;
            energyUsage = (if sle callerUsage (bl_CallerEnergy b) then callerUsage else bl_CallerEnergy b);
            energyFee = (if sle callerUsage (bl_CallerEnergy b) then 0
                         else (callerUsage - bl_CallerEnergy b) * price)
        in \<lparr>rc_EnergyUsage = energyUsage, rc_OriginEnergyUsage = originUsage, rc_EnergyFee = energyFee,
            rc_EnergyUsageTotal = total\<rparr>)"

definition AccountEnergyLimit :: "int64 \<Rightarrow> int64 \<Rightarrow> int64 \<Rightarrow> int64 \<Rightarrow> int64 \<Rightarrow> int64" where
  "AccountEnergyLimit frozenEnergy balance callValue feeLimit dynamicFee =
     (let price = EnergyPrice dynamicFee;
          spendable0 = balance - callValue;
          spendable = (if slt spendable0 0 then 0 else spendable0);
          available = frozenEnergy + quot64 spendable price
      in smin available (quot64 feeLimit price))"

section \<open>Staked energy (stake.go)\<close>

definition trxPrecision :: int64 where "trxPrecision = 1000000"
definition usagePrecision :: int64 where "usagePrecision = 1000000"
definition BlockProducedIntervalMs :: int64 where "BlockProducedIntervalMs = 3000"
definition windowSizeMs :: int64 where "windowSizeMs = 86400000"
definition windowSizePrecision :: int64 where "windowSizePrecision = 1000"
definition DefaultEnergyWindow :: int64 where
  "DefaultEnergyWindow = quot64 windowSizeMs BlockProducedIntervalMs"

record StakedEnergyInput =
  se_FrozenBalanceForEnergy :: int64
  se_EnergyUsage :: int64
  se_LatestConsumeSlot :: int64
  se_WindowSize :: int64
  se_NowSlot :: int64
  se_TotalEnergyCurrentLimit :: int64
  se_TotalEnergyWeight :: int64
  se_SupportUnfreezeDelay :: bool
  se_AllowNewReward :: bool

definition globalEnergyLimit :: "StakedEnergyInput \<Rightarrow> int64" where
  "globalEnergyLimit i =
     (let froze = se_FrozenBalanceForEnergy i;
          ratio = f64_div (f64_of_int64 (se_TotalEnergyCurrentLimit i)) (f64_of_int64 (se_TotalEnergyWeight i))
      in
      if se_SupportUnfreezeDelay i then
        (if se_TotalEnergyWeight i = 0 then 0
         else f64_to_int64 (f64_mult (f64_div (f64_of_int64 froze) (f64_of_int64 trxPrecision)) ratio))
      else if slt froze trxPrecision then 0
      else if sle (se_TotalEnergyWeight i) 0 then 0
      else f64_to_int64 (f64_mult (f64_of_int64 (quot64 froze trxPrecision)) ratio))"

text \<open>Go's \<open>%\<close> has the sign of the dividend.\<close>

definition srem :: "int64 \<Rightarrow> int64 \<Rightarrow> int64" where
  "srem a b = a - quot64 a b * b"

definition divideCeil :: "int64 \<Rightarrow> int64 \<Rightarrow> int64" where
  "divideCeil numerator denominator =
     (let q = quot64 numerator denominator in
      if slt 0 (srem numerator denominator) then q + 1 else q)"

definition roundHalfUp :: "float64 \<Rightarrow> int64" where
  "roundHalfUp x = f64_to_int64 (of_int \<lfloor>f64_add x (1 / 2)\<rfloor>)"

definition IncreaseEnergyUsage :: "int64 \<Rightarrow> int64 \<Rightarrow> int64 \<Rightarrow> int64 \<Rightarrow> int64 \<Rightarrow> int64" where
  "IncreaseEnergyUsage lastUsage add lastSlot nowSlot windowSize0 =
     (let windowSize = (if sle windowSize0 0 then DefaultEnergyWindow else windowSize0);
          averageLastUsage0 = divideCeil (lastUsage * usagePrecision) windowSize;
          averageAdd = divideCeil (add * usagePrecision) windowSize;
          averageLastUsage =
            (if lastSlot \<noteq> nowSlot then
               (if slt nowSlot (lastSlot + windowSize) then
                  let delta = nowSlot - lastSlot;
                      decay = f64_div (f64_of_int64 (windowSize - delta)) (f64_of_int64 windowSize)
                  in roundHalfUp (f64_mult (f64_of_int64 averageLastUsage0) decay)
                else 0)
             else averageLastUsage0)
      in quot64 ((averageLastUsage + averageAdd) * windowSize) usagePrecision)"

definition recoverEnergyUsage :: "int64 \<Rightarrow> int64 \<Rightarrow> int64 \<Rightarrow> int64 \<Rightarrow> int64" where
  "recoverEnergyUsage lastUsage lastSlot nowSlot windowSize =
     IncreaseEnergyUsage lastUsage 0 lastSlot nowSlot windowSize"

definition AvailableStakedEnergy :: "StakedEnergyInput \<Rightarrow> int64" where
  "AvailableStakedEnergy i =
     (let lmt = globalEnergyLimit i;
          used = recoverEnergyUsage (se_EnergyUsage i) (se_LatestConsumeSlot i) (se_NowSlot i) (se_WindowSize i);
          left = lmt - used
      in if slt 0 left then left else 0)"

definition EnergyWindow :: "int64 \<Rightarrow> bool \<Rightarrow> int64" where
  "EnergyWindow storedWindow optimized =
     (if storedWindow = 0 then DefaultEnergyWindow
      else if optimized then
        (if slt storedWindow windowSizePrecision then DefaultEnergyWindow
         else quot64 storedWindow windowSizePrecision)
      else storedWindow)"

section \<open>Bandwidth (bandwidth.go)\<close>

definition Rate :: int64 where "Rate = 10"

definition Size :: "codec \<Rightarrow> Transaction \<Rightarrow> int64 result" where
  "Size cd tx = bindE (marshalE (marshal_Transaction cd tx)) (\<lambda>b. Inr (word_of_nat (length b)))"

definition BurnFee :: "int64 \<Rightarrow> int64" where
  "BurnFee sz = sz * Rate"

section \<open>The bill is split exactly\<close>

lemma EnergyPrice_ge: "100 \<le> sint (EnergyPrice f)"
  by (simp add: EnergyPrice_def SunPerEnergyFloor_def slt_def)

lemma tquot_div [simp]: "0 \<le> a \<Longrightarrow> 0 < b \<Longrightarrow> tquot a b = a div b"
  by (rule tquot_nonneg)

lemma sint_quot_pos: "0 \<le> sint a \<Longrightarrow> 0 < sint b \<Longrightarrow> sint (quot64 a b) = sint a div sint b"
  by (simp add: sint_quot64)

text \<open>The origin's share in the bill, as an integer.\<close>

definition originShare :: "Bill \<Rightarrow> int" where
  "originShare b =
     (if bl_CallerIsOrigin b then 0
      else min (sint (bl_EnergyUsed b) * (100 - sint (bl_ConsumeUserPercent b)) div 100)
             (min (sint (bl_OriginEnergy b)) (sint (bl_OriginEnergyLimit b))))"

definition bill_ok :: "Bill \<Rightarrow> bool" where
  "bill_ok b \<longleftrightarrow> 0 < sint (bl_EnergyUsed b) \<and> 0 \<le> sint (bl_CallerEnergy b) \<and> 0 \<le> sint (bl_OriginEnergy b) \<and>
     0 \<le> sint (bl_OriginEnergyLimit b) \<and> 0 \<le> sint (bl_ConsumeUserPercent b) \<and> sint (bl_ConsumeUserPercent b) \<le> 100 \<and>
     sint (bl_EnergyUsed b) * sint (EnergyPrice (bl_EnergyPrice b)) < 2 ^ 63"

lemma originShare_bounds:
  assumes "bill_ok b" shows "0 \<le> originShare b" "originShare b \<le> sint (bl_EnergyUsed b)"
proof -
  let ?t = "sint (bl_EnergyUsed b)" and ?p = "100 - sint (bl_ConsumeUserPercent b)"
  have "?t * ?p \<le> ?t * 100" using assms by (intro mult_left_mono) (auto simp: bill_ok_def)
  then have "?t * ?p div 100 \<le> ?t" by (metis zdiv_mono1 nonzero_mult_div_cancel_right zero_less_numeral zero_neq_numeral)
  then show "originShare b \<le> ?t" using assms by (auto simp: originShare_def bill_ok_def)
  have "0 \<le> ?t * ?p" using assms by (intro mult_nonneg_nonneg) (auto simp: bill_ok_def)
  then have "0 \<le> ?t * ?p div 100" by (simp add: pos_imp_zdiv_nonneg_iff)
  then show "0 \<le> originShare b" using assms by (simp add: originShare_def bill_ok_def)
qed

lemma bill_total_range: "bill_ok b \<Longrightarrow> sint (bl_EnergyUsed b) * 100 < 2 ^ 63"
proof -
  assume b: "bill_ok b"
  have "sint (bl_EnergyUsed b) * 100 \<le> sint (bl_EnergyUsed b) * sint (EnergyPrice (bl_EnergyPrice b))"
    using b EnergyPrice_ge by (intro mult_left_mono) (auto simp: bill_ok_def)
  also have "\<dots> < 2 ^ 63" using b by (simp add: bill_ok_def)
  finally show ?thesis .
qed

lemma sint_origin_usage:
  assumes "bill_ok b"
  shows "sint (quot64 (bl_EnergyUsed b * (100 - bl_ConsumeUserPercent b)) 100) =
    sint (bl_EnergyUsed b) * (100 - sint (bl_ConsumeUserPercent b)) div 100"
    and "sint (100 - bl_ConsumeUserPercent b) = 100 - sint (bl_ConsumeUserPercent b)"
proof -
  let ?t = "sint (bl_EnergyUsed b)" and ?p = "100 - sint (bl_ConsumeUserPercent b)"
  show p: "sint (100 - bl_ConsumeUserPercent b) = ?p"
    using assms by (subst sint64_sub) (auto simp: bill_ok_def in_int64_def)
  have "0 \<le> ?t * ?p" "?t * ?p \<le> ?t * 100"
    using assms by (auto intro!: mult_nonneg_nonneg mult_left_mono simp: bill_ok_def)
  moreover from this have "sint (bl_EnergyUsed b * (100 - bl_ConsumeUserPercent b)) = ?t * ?p"
    using bill_total_range [OF assms] by (subst sint64_mult) (simp_all add: p in_int64_def)
  ultimately show "sint (quot64 (bl_EnergyUsed b * (100 - bl_ConsumeUserPercent b)) 100) = ?t * ?p div 100"
    by (simp add: sint_quot_pos)
qed

lemma Compute_origin:
  assumes "bill_ok b" shows "sint (rc_OriginEnergyUsage (Compute b)) = originShare b"
  using assms sint_origin_usage [OF assms]
  by (auto simp: Compute_def Let_def originShare_def smin_def scmp_defs bill_ok_def min_def)

lemma Compute_caller:
  assumes "bill_ok b"
  defines "caller \<equiv> sint (bl_EnergyUsed b) - originShare b"
  shows "sint (rc_EnergyUsage (Compute b)) = min caller (sint (bl_CallerEnergy b))"
    and "sint (rc_EnergyFee (Compute b)) =
      (caller - min caller (sint (bl_CallerEnergy b))) * sint (EnergyPrice (bl_EnergyPrice b))"
    and "rc_EnergyUsageTotal (Compute b) = bl_EnergyUsed b"
proof -
  let ?t = "bl_EnergyUsed b" and ?c = "bl_CallerEnergy b" and ?price = "EnergyPrice (bl_EnergyPrice b)"
  let ?o = "rc_OriginEnergyUsage (Compute b)"
  have pos: "\<not> sle ?t 0" using assms by (auto simp: bill_ok_def scmp_defs)
  note ob = originShare_bounds [OF assms(1)]
  have cu: "sint (?t - ?o) = caller"
    using ob sint64_upper [of ?t] by (subst sint64_sub) (simp_all add: Compute_origin [OF assms(1)] caller_def in_int64_def)
  have us: "rc_EnergyUsage (Compute b) = (if sle (?t - ?o) ?c then ?t - ?o else ?c)"
    and fe: "rc_EnergyFee (Compute b) = (if sle (?t - ?o) ?c then 0 else (?t - ?o - ?c) * ?price)"
    and to: "rc_EnergyUsageTotal (Compute b) = ?t"
    using pos by (simp_all add: Compute_def Let_def)
  show "sint (rc_EnergyUsage (Compute b)) = min caller (sint ?c)"
    by (simp add: us cu scmp_defs min_def)
  show "rc_EnergyUsageTotal (Compute b) = ?t" by (rule to)
  show "sint (rc_EnergyFee (Compute b)) = (caller - min caller (sint ?c)) * sint ?price"
  proof (cases "caller \<le> sint ?c")
    case True
    then show ?thesis by (simp add: fe cu scmp_defs)
  next
    case False
    have le: "caller \<le> sint ?t" "0 \<le> sint ?c" using ob assms(1) by (auto simp: caller_def bill_ok_def)
    then have d: "sint (?t - ?o - ?c) = caller - sint ?c"
      using False sint64_upper [of ?t] by (subst sint64_sub) (simp_all add: cu in_int64_def)
    have "(caller - sint ?c) * sint ?price \<le> sint ?t * sint ?price"
      using le EnergyPrice_ge [of "bl_EnergyPrice b"] by (intro mult_right_mono) auto
    moreover have "sint ?t * sint ?price < 2 ^ 63" using assms(1) by (simp add: bill_ok_def)
    moreover have "0 \<le> (caller - sint ?c) * sint ?price"
      using False EnergyPrice_ge [of "bl_EnergyPrice b"] by (intro mult_nonneg_nonneg) auto
    ultimately have "sint ((?t - ?o - ?c) * ?price) = (caller - sint ?c) * sint ?price"
      by (subst sint64_mult) (simp_all add: d in_int64_def)
    with False show ?thesis by (simp add: fe cu scmp_defs)
  qed
qed

text \<open>
  The energy bill is split without loss: for in-range inputs the caller's staked energy, the
  origin's staked energy and the burned fee divided by the effective price add up to the energy the
  VM consumed; nobody pays more staked energy than they have, the origin never exceeds its share or
  its limit, and the caller burns nothing while its staked energy suffices.
\<close>

theorem Compute_identity:
  assumes "bill_ok b"
  defines "r \<equiv> Compute b" and "price \<equiv> sint (EnergyPrice (bl_EnergyPrice b))"
  shows "sint (rc_EnergyUsage r) + sint (rc_OriginEnergyUsage r) + sint (rc_EnergyFee r) div price =
      sint (bl_EnergyUsed b) \<and> sint (rc_EnergyFee r) mod price = 0 \<and>
    0 \<le> sint (rc_EnergyUsage r) \<and> sint (rc_EnergyUsage r) \<le> sint (bl_CallerEnergy b) \<and>
    sint (rc_OriginEnergyUsage r) = originShare b \<and> rc_EnergyUsageTotal r = bl_EnergyUsed b \<and>
    (sint (rc_EnergyFee r) = 0 \<longleftrightarrow> sint (bl_EnergyUsed b) - originShare b \<le> sint (bl_CallerEnergy b))"
proof -
  have p: "price \<noteq> 0" using EnergyPrice_ge [of "bl_EnergyPrice b"] by (simp add: price_def)
  show ?thesis
    using originShare_bounds [OF assms(1)] p assms(1)
    unfolding r_def by (auto simp: Compute_caller [OF assms(1)] Compute_origin [OF assms(1)] price_def [symmetric] bill_ok_def)
qed

theorem Compute_identity_witness:
  "sint (rc_EnergyUsage (Compute \<lparr>bl_EnergyUsed = 1000, bl_CallerEnergy = 100, bl_OriginEnergy = 300,
      bl_CallerIsOrigin = False, bl_ConsumeUserPercent = 60, bl_OriginEnergyLimit = 500, bl_EnergyPrice = 420\<rparr>)) \<le> 100"
  using Compute_identity [of "\<lparr>bl_EnergyUsed = 1000, bl_CallerEnergy = 100, bl_OriginEnergy = 300,
      bl_CallerIsOrigin = False, bl_ConsumeUserPercent = 60, bl_OriginEnergyLimit = 500, bl_EnergyPrice = 420\<rparr>"]
  by (simp add: bill_ok_def EnergyPrice_def SunPerEnergyFloor_def slt_def)

section \<open>Usage recovery\<close>

lemma DefaultEnergyWindow_val: "DefaultEnergyWindow = 28800"
  by (simp add: DefaultEnergyWindow_def windowSizeMs_def BlockProducedIntervalMs_def quot64_def)

lemma sint_divideCeil:
  assumes "0 \<le> sint a" "0 < sint b" "sint a + sint b < 2 ^ 63"
  obtains c where "sint (divideCeil a b) = c" "sint a \<le> c * sint b" "c * sint b < sint a + sint b" "0 \<le> c"
proof -
  let ?q = "sint a div sint b" and ?r = "sint a mod sint b"
  have q: "sint (quot64 a b) = ?q" using assms by (simp add: sint_quot_pos)
  have dm: "?q * sint b + ?r = sint a" by (rule div_mult_mod_eq)
  have r: "0 \<le> ?r" "?r < sint b" using assms by simp_all
  have q0: "0 \<le> ?q" using assms by (simp add: pos_imp_zdiv_nonneg_iff)
  have q1: "?q \<le> sint a" using assms(1,2) by (cases "sint a = 0") (simp_all add: int_div_le_self)
  have "0 \<le> ?q * sint b" using q0 assms(2) by simp
  moreover have "?q * sint b \<le> sint a" using dm r by linarith
  ultimately have qb: "sint (quot64 a b * b) = ?q * sint b"
    using q assms by (subst sint64_mult) (simp_all add: in_int64_def)
  have "in_int64 m" if "0 \<le> m" "m < sint b" for m
    using that sint64_upper [of b] by (simp add: in_int64_def)
  from this [OF r] have rem: "sint (srem a b) = ?r"
    using qb unfolding srem_def by (subst sint64_sub) (simp_all add: minus_div_mult_eq_mod)
  show thesis
  proof (cases "?r = 0")
    case True
    with that [of ?q] rem q dm q0 assms show ?thesis by (simp add: divideCeil_def Let_def slt_def)
  next
    case False
    have "sint (quot64 a b + 1) = ?q + 1"
      using q q0 q1 assms by (subst sint64_add) (simp_all add: in_int64_def)
    moreover have "(?q + 1) * sint b = ?q * sint b + sint b" by (simp add: distrib_right)
    ultimately show ?thesis
      using that [of "?q + 1"] rem False dm r q0 by (simp add: divideCeil_def Let_def slt_def)
  qed
qed

text \<open>
  The average of nothing is nothing, and two averages at the same window add up to the exact sum as
  long as the window is at most 500000 slots.
\<close>

lemma averages_exact:
  assumes "0 \<le> sint x" "0 \<le> sint y" "0 < sint w" "sint w \<le> 500000"
    and "(sint x + sint y) * 1000000 + 2 * sint w < 2 ^ 63"
  shows "sint (quot64 ((divideCeil (x * usagePrecision) w + divideCeil (y * usagePrecision) w) * w) usagePrecision)
    = sint x + sint y"
proof -
  have up: "sint usagePrecision = 1000000" by (simp add: usagePrecision_def)
  have ux: "sint (x * usagePrecision) = sint x * 1000000"
    using assms by (subst sint64_mult) (simp_all add: usagePrecision_def in_int64_def)
  have uy: "sint (y * usagePrecision) = sint y * 1000000"
    using assms by (subst sint64_mult) (simp_all add: usagePrecision_def in_int64_def)
  obtain a where a: "sint (divideCeil (x * usagePrecision) w) = a" "sint x * 1000000 \<le> a * sint w"
    "a * sint w < sint x * 1000000 + sint w" "0 \<le> a"
    using sint_divideCeil [of "x * usagePrecision" w] assms by (auto simp: ux)
  obtain b where b: "sint (divideCeil (y * usagePrecision) w) = b" "sint y * 1000000 \<le> b * sint w"
    "b * sint w < sint y * 1000000 + sint w" "0 \<le> b"
    using sint_divideCeil [of "y * usagePrecision" w] assms by (auto simp: uy)
  have dist: "(a + b) * sint w = a * sint w + b * sint w" by (simp add: distrib_right)
  have "(a + b) * 1 \<le> (a + b) * sint w" using a b assms by (intro mult_left_mono) auto
  then have ab: "a + b \<le> (a + b) * sint w" by simp
  have s: "sint (divideCeil (x * usagePrecision) w + divideCeil (y * usagePrecision) w) = a + b"
    using a b ab dist assms(5) by (subst sint64_add) (simp_all add: in_int64_def)
  have m: "sint ((divideCeil (x * usagePrecision) w + divideCeil (y * usagePrecision) w) * w) = (a + b) * sint w"
    using a b dist assms(1,2,5) by (subst sint64_mult) (simp_all add: s in_int64_def)
  have "(a + b) * sint w div 1000000 = sint x + sint y"
  proof (rule int_div_pos_eq)
    show "(a + b) * sint w = 1000000 * (sint x + sint y) + ((a + b) * sint w - 1000000 * (sint x + sint y))" by simp
    show "(a + b) * sint w - 1000000 * (sint x + sint y) < 1000000" using a b dist assms(4) by simp
  qed (use a b dist in simp_all)
  moreover have "0 \<le> (a + b) * sint w" using a(4) b(4) assms(3) by simp
  ultimately show ?thesis
    by (subst sint_quot_pos) (simp_all add: m up)
qed

text \<open>
  C39: Energy accounting adds exactly within a slot and forgets exactly after a window: spending
  \<open>add\<close> at the slot of the last consumption stores \<open>lastUsage + add\<close>, and spending it a full window
  later stores \<open>add\<close> alone (windows up to 500000 slots, nonnegative in-range amounts).
\<close>

theorem IncreaseEnergyUsage_exact:
  assumes "0 \<le> sint lastUsage" "0 \<le> sint add" "0 < sint w" "sint w \<le> 500000"
    and "(sint lastUsage + sint add) * 1000000 + 2 * sint w < 2 ^ 63"
    and "now = lst \<or> (in_int64 (sint lst + sint w) \<and> sint lst + sint w \<le> sint now)"
  shows "sint (IncreaseEnergyUsage lastUsage add lst now w) =
    (if now = lst then sint lastUsage + sint add else sint add)"
proof (cases "now = lst")
  case True
  then show ?thesis
    using averages_exact [OF assms(1-5)] assms(3)
    by (simp add: IncreaseEnergyUsage_def Let_def sle_def)
next
  case False
  have z: "divideCeil (0 * usagePrecision) w = 0"
    by (simp add: divideCeil_def Let_def srem_def quot64_def tquot_def slt_def)
  have "sint (quot64 ((divideCeil (0 * usagePrecision) w + divideCeil (add * usagePrecision) w) * w) usagePrecision)
    = sint (0 :: int64) + sint add"
    by (rule averages_exact) (use assms(1-5) in simp_all)
  moreover have "\<not> slt now (lst + w)"
    using False assms(6) by (auto simp: slt_def sint64_add)
  ultimately show ?thesis
    using False z assms(3) by (simp add: IncreaseEnergyUsage_def Let_def sle_def)
qed

theorem IncreaseEnergyUsage_exact_witness:
  "sint (IncreaseEnergyUsage 12345 678 100 100 28800) = 12345 + 678 \<and>
   sint (IncreaseEnergyUsage 12345 678 100 28900 28800) = 678"
  using IncreaseEnergyUsage_exact [of 12345 678 28800 100 100] IncreaseEnergyUsage_exact [of 12345 678 28800 28900 100]
  by (simp add: in_int64_def)

end
