(* ===== verification/Actuator_Base.thy ===== *)
theory Actuator_Base
  imports Delegation_Store Resource Address_Base58
begin

text \<open>
  The frame of \<open>internal/actuator\<close> (\<open>actuator.go\<close>): the execution context, unpacking of contract
  parameters, the account accessors the staking actuators share, and the transfer actuator. A
  \<open>Validate\<close> method is a read of the database, an \<open>Execute\<close> method a state-changing operation. The
  Go code mutates the decoded account message and writes it back; here the updated record is passed
  along.
\<close>

section \<open>Context\<close>

text \<open>The interface \<open>StateProvider\<close> (\<open>vm_statedb.go\<close>): historical state, absent as \<open>None\<close>.\<close>

record StateProvider =
  sp_Balance :: "bytes \<Rightarrow> int64 option"
  sp_Code :: "bytes \<Rightarrow> bytes option"
  sp_Storage :: "bytes \<Rightarrow> bytes \<Rightarrow> bytes option"

record BlockContext =
  bc_Number :: int64
  bc_Timestamp :: int64
  bc_Witness :: bytes
  bc_Version :: int32
  bc_Provider :: "StateProvider option"

record Context =
  cx_Contract :: Transaction_Contract
  cx_Tx :: Transaction
  cx_TxID :: bytes
  cx_Block :: BlockContext

definition unpackE :: "string \<Rightarrow> (Any option \<Rightarrow> 'c option) \<Rightarrow> Context \<Rightarrow> 'c result" where
  "unpackE what to ctx = wrapE what (unmarshalE (to (tc_Parameter (cx_Contract ctx))))"

text \<open>\<open>address.FromBytes\<close> used as a check, its error rewrapped.\<close>

definition checkAddress :: "string \<Rightarrow> bytes \<Rightarrow> unit result" where
  "checkAddress what b = (case FromBytes b of Inl e \<Rightarrow> Inl (Wrap what e) | Inr _ \<Rightarrow> Inr ())"

lemma checkAddress_Inr [simp]: "checkAddress what b = Inr u \<longleftrightarrow> FromBytes b = Inr b"
  by (auto simp: checkAddress_def FromBytes_def split: sum.splits if_splits)

definition frozenPeriodMs :: int64 where "frozenPeriodMs = 86400000"

section \<open>Account accessors (freeze.go)\<close>

definition sumFrozen :: "Account \<Rightarrow> int64" where
  "sumFrozen a = fold (\<lambda>f total. total + fz_FrozenBalance f) (ac_Frozen a) 0"

definition energyFrozen :: "Account \<Rightarrow> int64" where
  "energyFrozen a = GetFrozenBalance (ar_FrozenBalanceForEnergy (GetAccountResource a))"

definition ensureResource :: "Account \<Rightarrow> Account" where
  "ensureResource a = (case ac_AccountResource a of
     None \<Rightarrow> a\<lparr>ac_AccountResource := Some zero_AccountResource\<rparr> | Some _ \<Rightarrow> a)"

text \<open>Update of the resource sub-message after \<open>ensureResource\<close>.\<close>

definition updResource :: "(AccountResource \<Rightarrow> AccountResource) \<Rightarrow> Account \<Rightarrow> Account" where
  "updResource f a = (ensureResource a)\<lparr>ac_AccountResource := Some (f (GetAccountResource (ensureResource a)))\<rparr>"

definition acquiredDelegatedEnergy :: "Account \<Rightarrow> int64" where
  "acquiredDelegatedEnergy a = ar_AcquiredDelegatedFrozenBalanceForEnergy (GetAccountResource a)"

definition addAcquiredDelegatedEnergy :: "int64 \<Rightarrow> Account \<Rightarrow> Account" where
  "addAcquiredDelegatedEnergy d = updResource (\<lambda>r. r\<lparr>ar_AcquiredDelegatedFrozenBalanceForEnergy :=
     ar_AcquiredDelegatedFrozenBalanceForEnergy r + d\<rparr>)"

definition setAcquiredDelegatedEnergy :: "int64 \<Rightarrow> Account \<Rightarrow> Account" where
  "setAcquiredDelegatedEnergy v = updResource (\<lambda>r. r\<lparr>ar_AcquiredDelegatedFrozenBalanceForEnergy := v\<rparr>)"

definition addDelegatedEnergy :: "int64 \<Rightarrow> Account \<Rightarrow> Account" where
  "addDelegatedEnergy d = updResource (\<lambda>r. r\<lparr>ar_DelegatedFrozenBalanceForEnergy :=
     ar_DelegatedFrozenBalanceForEnergy r + d\<rparr>)"

lemma GetAccountResource_ensure [simp]: "GetAccountResource (ensureResource a) = GetAccountResource a"
  by (simp add: ensureResource_def GetAccountResource_def split: option.splits)

lemma GetAccountResource_upd [simp]: "GetAccountResource (updResource f a) = f (GetAccountResource a)"
  by (simp add: updResource_def) (simp add: GetAccountResource_def)

lemma updResource_simps [simp]:
  "ac_Address (updResource f a) = ac_Address a" "ac_Balance (updResource f a) = ac_Balance a"
  "ac_Frozen (updResource f a) = ac_Frozen a" "ac_Votes (updResource f a) = ac_Votes a"
  "ac_FrozenV2 (updResource f a) = ac_FrozenV2 a" "ac_UnfrozenV2 (updResource f a) = ac_UnfrozenV2 a"
  "ac_Allowance (updResource f a) = ac_Allowance a" "ac_Type (updResource f a) = ac_Type a"
  "ac_DelegatedFrozenBalanceForBandwidth (updResource f a) = ac_DelegatedFrozenBalanceForBandwidth a"
  "ac_AcquiredDelegatedFrozenBalanceForBandwidth (updResource f a) = ac_AcquiredDelegatedFrozenBalanceForBandwidth a"
  "ac_DelegatedFrozenV2BalanceForBandwidth (updResource f a) = ac_DelegatedFrozenV2BalanceForBandwidth a"
  "ac_AcquiredDelegatedFrozenV2BalanceForBandwidth (updResource f a) = ac_AcquiredDelegatedFrozenV2BalanceForBandwidth a"
  by (simp_all add: updResource_def ensureResource_def split: option.splits)

lemma GetAccountResource_other [simp]:
  "GetAccountResource (a\<lparr>ac_Balance := b\<rparr>) = GetAccountResource a"
  "GetAccountResource (a\<lparr>ac_Votes := vs\<rparr>) = GetAccountResource a"
  "GetAccountResource (a\<lparr>ac_Frozen := fs\<rparr>) = GetAccountResource a"
  "GetAccountResource (a\<lparr>ac_FrozenV2 := f2\<rparr>) = GetAccountResource a"
  "GetAccountResource (a\<lparr>ac_UnfrozenV2 := u2\<rparr>) = GetAccountResource a"
  "GetAccountResource (a\<lparr>ac_Allowance := b\<rparr>) = GetAccountResource a"
  "GetAccountResource (a\<lparr>ac_DelegatedFrozenBalanceForBandwidth := b\<rparr>) = GetAccountResource a"
  "GetAccountResource (a\<lparr>ac_AcquiredDelegatedFrozenBalanceForBandwidth := b\<rparr>) = GetAccountResource a"
  "GetAccountResource (a\<lparr>ac_DelegatedFrozenV2BalanceForBandwidth := b\<rparr>) = GetAccountResource a"
  "GetAccountResource (a\<lparr>ac_AcquiredDelegatedFrozenV2BalanceForBandwidth := b\<rparr>) = GetAccountResource a"
  "GetAccountResource (a\<lparr>ac_AccountResource := Some r\<rparr>) = r"
  by (simp_all add: GetAccountResource_def)

lemma sumFrozen_other [simp]:
  "sumFrozen (a\<lparr>ac_Balance := b\<rparr>) = sumFrozen a"
  "sumFrozen (a\<lparr>ac_Votes := vs\<rparr>) = sumFrozen a"
  "sumFrozen (a\<lparr>ac_AccountResource := r\<rparr>) = sumFrozen a"
  "sumFrozen (updResource f a) = sumFrozen a"
  "sumFrozen (a\<lparr>ac_DelegatedFrozenBalanceForBandwidth := b\<rparr>) = sumFrozen a"
  by (simp_all add: sumFrozen_def)

section \<open>Transfer (actuator.go)\<close>

definition Transfer_unpack :: "codec \<Rightarrow> Context \<Rightarrow> TransferC result" where
  "Transfer_unpack cd = unpackE ''unpack TransferContract'' (to_Transfer cd)"

definition Transfer_Validate :: "codec \<Rightarrow> Context \<Rightarrow> Database \<Rightarrow> unit result" where
  "Transfer_Validate cd ctx d =
     bindE (Transfer_unpack cd ctx) (\<lambda>tc.
     bindE (check (sle (tf_Amount tc) 0) (Err ''actuator: transfer amount must be positive'')) (\<lambda>_.
     bindE (check (tf_OwnerAddress tc = tf_ToAddress tc) (Err ''actuator: cannot transfer to self'')) (\<lambda>_.
     bindE (wrapE ''actuator: owner account missing'' (AccountStore_Get cd d (tf_OwnerAddress tc))) (\<lambda>owner.
       check (slt (ac_Balance owner) (tf_Amount tc)) ErrInsufficientBalance))))"

definition Transfer_Execute :: "codec \<Rightarrow> Context \<Rightarrow> (Database, unit) op" where
  "Transfer_Execute cd ctx =
     bindM (liftM (Transfer_unpack cd ctx)) (\<lambda>tc.
     bindM (readM (\<lambda>d. AccountStore_Get cd d (tf_OwnerAddress tc))) (\<lambda>owner.
     bindM (tryR (\<lambda>d. AccountStore_Get cd d (tf_ToAddress tc))) (\<lambda>r.
       let to = (case r of Inl _ \<Rightarrow> zero_Account\<lparr>ac_Address := tf_ToAddress tc, ac_Type := Normal\<rparr> | Inr a \<Rightarrow> a);
           owner' = owner\<lparr>ac_Balance := ac_Balance owner - tf_Amount tc\<rparr>;
           to' = to\<lparr>ac_Balance := ac_Balance to + tf_Amount tc\<rparr>
       in bindM (AccountStore_Put cd owner') (\<lambda>_. AccountStore_Put cd to'))))"

context write_inv
begin

lemma keeps_Transfer [keeps_intros]: "keeps P (Transfer_Execute cd ctx)"
  unfolding Transfer_Execute_def Let_def by (intro keeps_intros)

end

section \<open>What a transfer does\<close>

text \<open>The balance of an address, zero when it has no readable account.\<close>

definition balanceOf :: "codec \<Rightarrow> Database \<Rightarrow> bytes \<Rightarrow> int64" where
  "balanceOf cd d addr = (case AccountStore_Get cd d addr of Inl _ \<Rightarrow> 0 | Inr a \<Rightarrow> ac_Balance a)"

text \<open>The account a transfer credits: the recipient's, or a new one where there is none.\<close>

definition recipient :: "codec \<Rightarrow> Database \<Rightarrow> bytes \<Rightarrow> Account" where
  "recipient cd d addr =
     (case AccountStore_Get cd d addr of Inl _ \<Rightarrow> zero_Account\<lparr>ac_Address := addr, ac_Type := Normal\<rparr> | Inr a \<Rightarrow> a)"

text \<open>
  C19: A validated transfer succeeds and moves exactly its amount. The owner's account keeps every
  field but the balance, which drops by the amount and stays nonnegative; the recipient's account
  (a new one of the normal type when it did not exist) keeps every field but the balance, to which
  the amount is added; nothing else in the database changes.
\<close>

theorem Transfer_moves_amount:
  assumes "codec_ok cd" "accounts_keyed cd d" "Transfer_Validate cd ctx d = Inr ()"
  shows "\<exists>tc owner d'. Transfer_unpack cd ctx = Inr tc \<and> Transfer_Execute cd ctx d = (Inr (), d') \<and>
    AccountStore_Get cd d (tf_OwnerAddress tc) = Inr owner \<and> 0 < sint (tf_Amount tc) \<and>
    AccountStore_Get cd d' (tf_OwnerAddress tc) = Inr (owner\<lparr>ac_Balance := ac_Balance owner - tf_Amount tc\<rparr>) \<and>
    sint (ac_Balance owner - tf_Amount tc) = sint (ac_Balance owner) - sint (tf_Amount tc) \<and>
    0 \<le> sint (ac_Balance owner - tf_Amount tc) \<and>
    (let to = recipient cd d (tf_ToAddress tc) in
       AccountStore_Get cd d' (tf_ToAddress tc) = Inr (to\<lparr>ac_Balance := ac_Balance to + tf_Amount tc\<rparr>)) \<and>
    (\<forall>k. k \<noteq> nsKey accountPrefix (tf_OwnerAddress tc) \<and> k \<noteq> nsKey accountPrefix (tf_ToAddress tc) \<longrightarrow>
       view d' k = view d k)"
proof -
  obtain tc owner where tc: "Transfer_unpack cd ctx = Inr tc" "0 < sint (tf_Amount tc)"
    "tf_OwnerAddress tc \<noteq> tf_ToAddress tc" "AccountStore_Get cd d (tf_OwnerAddress tc) = Inr owner"
    "sint (tf_Amount tc) \<le> sint (ac_Balance owner)"
    using assms(3) by (auto simp: Transfer_Validate_def bindE_eq_Inr scmp_defs split: if_splits)
  have addr: "ac_Address owner = tf_OwnerAddress tc"
    "\<And>a. AccountStore_Get cd d (tf_ToAddress tc) = Inr a \<Longrightarrow> ac_Address a = tf_ToAddress tc"
    using accounts_keyedD [OF assms(2)] tc(4) by auto
  have sub: "sint (ac_Balance owner - tf_Amount tc) = sint (ac_Balance owner) - sint (tf_Amount tc)"
    using tc(2,5) sint64_upper [of "ac_Balance owner"] by (intro sint64_sub) (simp add: in_int64_def)
  show ?thesis
    using assms(1) tc addr sub
    by (cases "AccountStore_Get cd d (tf_ToAddress tc)")
      (auto simp: Transfer_Execute_def Let_def recipient_def bindM_def)
qed

section \<open>Concrete states\<close>

text \<open>Databases and contexts over the reference codec, for evaluating the theorems.\<close>

definition sampleDb :: "Account list \<Rightarrow> Database" where
  "sampleDb as = fold (\<lambda>a d. snd (AccountStore_Put ref_codec a d)) as (NewDatabase NewMemKV)"

definition sampleAccount :: "byte \<Rightarrow> int64 \<Rightarrow> Account" where
  "sampleAccount b bal = zero_Account\<lparr>ac_Address := 0x41 # replicate 20 b, ac_Balance := bal\<rparr>"

definition sampleCtx :: "ContractType \<Rightarrow> Any \<Rightarrow> Context" where
  "sampleCtx t any = \<lparr>cx_Contract = \<lparr>tc_Type = t, tc_Parameter = Some any, tc_rest = []\<rparr>,
     cx_Tx = \<lparr>tx_RawData = None, tx_Signature = [], tx_rest = []\<rparr>, cx_TxID = [],
     cx_Block = \<lparr>bc_Number = 1, bc_Timestamp = 0, bc_Witness = [], bc_Version = 0, bc_Provider = None\<rparr>\<rparr>"

lemma sampleCtx_simps [simp]: "tc_Parameter (cx_Contract (sampleCtx t any)) = Some any"
  "tc_Type (cx_Contract (sampleCtx t any)) = t"
  by (simp_all add: sampleCtx_def)

lemma sampleAccount_simps [simp]:
  "ac_Address (sampleAccount b bal) = 0x41 # replicate 20 b" "ac_Balance (sampleAccount b bal) = bal"
  by (simp_all add: sampleAccount_def)

lemma FromBytes_sample [simp]: "FromBytes (65 # replicate 20 b) = Inr (65 # replicate 20 b)"
  by (simp add: FromBytes_def Length_def Prefix_def)

lemma sampleDb_snoc: "sampleDb (as @ [a]) = snd (AccountStore_Put ref_codec a (sampleDb as))"
  by (simp add: sampleDb_def)

lemma sampleDb_keyed: "accounts_keyed ref_codec (sampleDb as)"
proof (induction as rule: rev_induct)
  case Nil
  then show ?case
    by (simp add: sampleDb_def accounts_keyed_def AccountStore_Get_view view_def NewDatabase_def NewMemKV_def)
next
  case (snoc a as)
  then show ?case unfolding sampleDb_snoc by (intro keepsD [OF ref_rt.keyed.keeps_AccountStore_Put])
qed

lemma view_sampleDb_Nil [simp]: "view (sampleDb []) k = None"
  by (simp add: sampleDb_def view_def NewDatabase_def NewMemKV_def)

lemma sampleDb_Get:
  "AccountStore_Get ref_codec (sampleDb (as @ [a])) addr =
     (if addr = ac_Address a then Inr a else AccountStore_Get ref_codec (sampleDb as) addr)"
  by (simp add: sampleDb_snoc ref_codec_ok)

lemma sampleDb_Get_simps [simp]:
  "AccountStore_Get ref_codec (sampleDb []) addr = Inl ErrNotFound"
  "AccountStore_Get ref_codec (sampleDb [a]) addr = (if addr = ac_Address a then Inr a else Inl ErrNotFound)"
  "AccountStore_Get ref_codec (sampleDb [a, b]) addr = (if addr = ac_Address b then Inr b
     else if addr = ac_Address a then Inr a else Inl ErrNotFound)"
proof -
  show nil: "AccountStore_Get ref_codec (sampleDb []) addr = Inl ErrNotFound" for addr
    by (simp add: AccountStore_Get_view)
  show one: "AccountStore_Get ref_codec (sampleDb [a]) addr = (if addr = ac_Address a then Inr a else Inl ErrNotFound)" for addr
    using sampleDb_Get [of "[]" a addr] nil by simp
  show "AccountStore_Get ref_codec (sampleDb [a, b]) addr = (if addr = ac_Address b then Inr b
     else if addr = ac_Address a then Inr a else Inl ErrNotFound)"
    using sampleDb_Get [of "[a]" b addr] one by simp
qed

lemma sampleDb_props [simp]: "view (sampleDb as) (nsKey propertyPrefix k) = None"
proof (induction as rule: rev_induct)
  case (snoc a as)
  then show ?case by (simp add: sampleDb_snoc ref_codec_ok) (simp add: key_simps)
qed simp

lemma sampleDb_props_wf [simp]: "props_wf (sampleDb as)"
  by (simp add: props_wf_def)

lemma sampleDb_getOr [simp]: "getOr (sampleDb as) key def = Inr def"
  by (simp add: getOr_view)

lemma sampleDb_flagOn [simp]: "flagOn (sampleDb as) key = Inr False"
  by (simp add: flagOn_def)

theorem Transfer_moves_amount_witness:
  "\<exists>d'. Transfer_Execute ref_codec (sampleCtx TransferContract (pack 1 fmt_Transfer
      \<lparr>tf_OwnerAddress = 65 # replicate 20 1, tf_ToAddress = 65 # replicate 20 2, tf_Amount = 30\<rparr>))
      (sampleDb [sampleAccount 1 100]) = (Inr (), d') \<and>
    AccountStore_Get ref_codec d' (65 # replicate 20 1) = Inr (sampleAccount 1 70) \<and>
    AccountStore_Get ref_codec d' (65 # replicate 20 2) = Inr ((sampleAccount 2 30)\<lparr>ac_Type := Normal\<rparr>)"
proof -
  let ?c = "\<lparr>tf_OwnerAddress = 65 # replicate 20 1, tf_ToAddress = 65 # replicate 20 2, tf_Amount = 30\<rparr>"
  let ?ctx = "sampleCtx TransferContract (pack 1 fmt_Transfer ?c)"
  have u: "Transfer_unpack ref_codec ?ctx = Inr ?c" by (simp add: Transfer_unpack_def unpackE_def)
  have ne: "replicate 20 (1::byte) \<noteq> replicate 20 2" "replicate 20 (2::byte) \<noteq> replicate 20 1"
    by (simp_all add: numeral_eq_Suc)
  have v: "Transfer_Validate ref_codec ?ctx (sampleDb [sampleAccount 1 100]) = Inr ()"
    using ne by (simp add: Transfer_Validate_def u scmp_defs)
  show ?thesis
    using Transfer_moves_amount [OF ref_codec_ok sampleDb_keyed v] u ne
    by (auto simp: recipient_def Let_def sampleAccount_def zero_Account_def)
qed

end
