(* ===== verification/Reward.thy ===== *)
theory Reward
  imports Actuator_Base
begin

text \<open>
  \<open>internal/actuator/reward.go\<close>: the reward settlement of the delegated-proof-of-stake layer. Block
  rewards are split between the producer's allowance and the cycle's voter pool; \<open>WithdrawReward\<close>
  settles an account's share over the cycles since its cursor; \<open>queryReward\<close> computes the same amount
  without writing. The double arithmetic of the pre-Vi algorithm is binary64 of \<open>Resource\<close> (each
  operation rounded, no fused multiply-add).
\<close>

section \<open>Votes\<close>

record votePair =
  vp_addr :: bytes
  vp_count :: int64

definition votePairsFromAccount :: "Account \<Rightarrow> votePair list" where
  "votePairsFromAccount a = map (\<lambda>v. \<lparr>vp_addr = v_VoteAddress v, vp_count = v_VoteCount v\<rparr>) (ac_Votes a)"

text \<open>Indexing \<open>Counts\<close> by the positions of \<open>Addresses\<close> panics when it is shorter.\<close>

fun zipVotes :: "bytes list \<Rightarrow> int64 list \<Rightarrow> votePair list result" where
  "zipVotes [] cs = Inr []"
| "zipVotes (a # as) [] = Inl (Panic ''index out of range'')"
| "zipVotes (a # as) (c # cs) = bindE (zipVotes as cs) (\<lambda>vs. Inr (\<lparr>vp_addr = a, vp_count = c\<rparr> # vs))"

definition votePairsFromSnapshot :: "AccountVote \<Rightarrow> votePair list result" where
  "votePairsFromSnapshot av = zipVotes (av_Addresses av) (av_Counts av)"

definition snapshotFromAccount :: "Account \<Rightarrow> AccountVote" where
  "snapshotFromAccount a =
     \<lparr>av_Addresses = map v_VoteAddress (ac_Votes a), av_Counts = map v_VoteCount (ac_Votes a)\<rparr>"

section \<open>Block rewards\<close>

definition adjustAllowance :: "codec \<Rightarrow> bytes \<Rightarrow> int64 \<Rightarrow> (Database, unit) op" where
  "adjustAllowance cd addr amount =
     (if sle amount 0 then returnM ()
      else
        bindM (tryR (\<lambda>d. AccountStore_Get cd d addr)) (\<lambda>r.
          let acct = (case r of Inl _ \<Rightarrow> zero_Account\<lparr>ac_Address := addr\<rparr> | Inr a \<Rightarrow> a) in
          AccountStore_Put cd (acct\<lparr>ac_Allowance := ac_Allowance acct + amount\<rparr>)))"

definition brokerageCut :: "int64 \<Rightarrow> int64 \<Rightarrow> int64" where
  "brokerageCut brokerage v =
     f64_to_int64 (f64_mult (f64_div (f64_of_int64 brokerage) 100) (f64_of_int64 v))"

definition payReward :: "codec \<Rightarrow> bytes \<Rightarrow> int64 \<Rightarrow> (Database, unit) op" where
  "payReward cd witnessAddr v =
     bindM (readM CurrentCycleNumber) (\<lambda>cycle.
     bindM (readM (\<lambda>d. GetBrokerageAt d cycle witnessAddr)) (\<lambda>brokerage.
       let brokerageAmount = brokerageCut brokerage v in
       bindM (AddReward cycle witnessAddr (v - brokerageAmount)) (\<lambda>_.
         adjustAllowance cd witnessAddr brokerageAmount)))"

definition PayBlockReward :: "codec \<Rightarrow> bytes \<Rightarrow> int64 \<Rightarrow> (Database, unit) op" where
  "PayBlockReward cd witnessAddr v =
     bindM (readM AllowChangeDelegation) (\<lambda>on.
       if \<not> on then returnM () else payReward cd witnessAddr v)"

section \<open>Computing rewards\<close>

fun oldCycleLoop :: "Database \<Rightarrow> int64 \<Rightarrow> votePair list \<Rightarrow> int64 \<Rightarrow> int64 result" where
  "oldCycleLoop d cycle [] reward = Inr reward"
| "oldCycleLoop d cycle (v # vs) reward =
     bindE (GetReward d cycle (vp_addr v)) (\<lambda>totalReward.
       if sle totalReward 0 then oldCycleLoop d cycle vs reward
       else
         bindE (GetWitnessVote d cycle (vp_addr v)) (\<lambda>totalVote.
           if totalVote = RemarkNoVote \<or> totalVote = 0 then oldCycleLoop d cycle vs reward
           else
             let voteRate = f64_div (f64_of_int64 (vp_count v)) (f64_of_int64 totalVote) in
             oldCycleLoop d cycle vs
               (f64_to_int64 (f64_add (f64_of_int64 reward) (f64_mult voteRate (f64_of_int64 totalReward))))))"

definition computeRewardOldCycle :: "Database \<Rightarrow> int64 \<Rightarrow> votePair list \<Rightarrow> int64 result" where
  "computeRewardOldCycle d cycle votes = oldCycleLoop d cycle votes 0"

text \<open>\<open>oldRewardLoop n\<close> runs the cycle loop for the \<open>n\<close> cycles from \<open>cycle\<close> on.\<close>

fun oldRewardLoop :: "Database \<Rightarrow> nat \<Rightarrow> int64 \<Rightarrow> votePair list \<Rightarrow> int64 \<Rightarrow> int64 result" where
  "oldRewardLoop d 0 cycle votes reward = Inr reward"
| "oldRewardLoop d (Suc n) cycle votes reward =
     bindE (computeRewardOldCycle d cycle votes) (\<lambda>r. oldRewardLoop d n (cycle + 1) votes (reward + r))"

definition getOldReward :: "Database \<Rightarrow> int64 \<Rightarrow> int64 \<Rightarrow> votePair list \<Rightarrow> int64 result" where
  "getOldReward d bgn fin votes = oldRewardLoop d (nat (sint fin - sint bgn)) bgn votes 0"

fun viLoop :: "Database \<Rightarrow> int64 \<Rightarrow> int64 \<Rightarrow> votePair list \<Rightarrow> int64 \<Rightarrow> int64 result" where
  "viLoop d beginCycle endCycle [] reward = Inr reward"
| "viLoop d beginCycle endCycle (v # vs) reward =
     bindE (GetWitnessVi d (beginCycle - 1) (vp_addr v)) (\<lambda>beginVi.
     bindE (GetWitnessVi d (endCycle - 1) (vp_addr v)) (\<lambda>endVi.
       let deltaVi = endVi - beginVi in
       if deltaVi \<le> 0 then viLoop d beginCycle endCycle vs reward
       else
         let term = big_Div (deltaVi * sint (vp_count v)) DecimalOfViReward in
         viLoop d beginCycle endCycle vs (reward + word_of_int term)))"

definition computeReward :: "Database \<Rightarrow> int64 \<Rightarrow> int64 \<Rightarrow> votePair list \<Rightarrow> int64 result" where
  "computeReward d beginCycle endCycle votes =
     (if sle endCycle beginCycle then Inr 0
      else
        bindE (NewRewardAlgorithmEffectiveCycle d) (\<lambda>newAlgoCycle.
        bindE (if slt beginCycle newAlgoCycle then
                 let oldEnd = (if slt newAlgoCycle endCycle then newAlgoCycle else endCycle) in
                 bindE (getOldReward d beginCycle oldEnd votes) (\<lambda>r. Inr (r, oldEnd))
               else Inr (0, beginCycle)) (\<lambda>(reward, begin').
          if slt begin' endCycle then viLoop d begin' endCycle votes reward else Inr reward)))"

section \<open>Settlement\<close>

text \<open>
  The tail of \<open>WithdrawReward\<close> after the closed cycle was settled: \<open>acct\<close> is the account as read at
  the start, \<open>beginCycle\<close> the advanced cursor, \<open>endCycle\<close> the current cycle.
\<close>

definition withdrawTail :: "codec \<Rightarrow> bytes \<Rightarrow> Account \<Rightarrow> int64 \<Rightarrow> int64 \<Rightarrow> (Database, unit) op" where
  "withdrawTail cd addr acct beginCycle endCycle =
     (if length (ac_Votes acct) = 0 then SetBeginCycle addr (endCycle + 1)
      else
        bindM (if slt beginCycle endCycle then
                 bindM (readM (\<lambda>d. computeReward d beginCycle endCycle (votePairsFromAccount acct))) (\<lambda>r.
                   adjustAllowance cd addr r)
               else returnM ()) (\<lambda>_.
        bindM (SetBeginCycle addr endCycle) (\<lambda>_.
        bindM (SetEndCycle addr (endCycle + 1)) (\<lambda>_.
          SetAccountVote endCycle addr (snapshotFromAccount acct)))))"

text \<open>Settling the cycle that closed exactly at the cursor.\<close>

definition settleClosed :: "codec \<Rightarrow> bytes \<Rightarrow> int64 \<Rightarrow> int64 \<Rightarrow> (Database, unit) op" where
  "settleClosed cd addr beginCycle endCycle =
     bindM (readM (\<lambda>d. GetAccountVote d beginCycle addr)) (\<lambda>av.
       case av of
         None \<Rightarrow> returnM ()
       | Some v \<Rightarrow>
           bindM (liftM (votePairsFromSnapshot v)) (\<lambda>votes.
           bindM (readM (\<lambda>d. computeReward d beginCycle endCycle votes)) (\<lambda>reward.
             adjustAllowance cd addr reward)))"

definition WithdrawReward :: "codec \<Rightarrow> bytes \<Rightarrow> (Database, unit) op" where
  "WithdrawReward cd addr =
     bindM (readM AllowChangeDelegation) (\<lambda>on.
       if \<not> on then returnM ()
       else
         bindM (tryR (\<lambda>d. AccountStore_Get cd d addr)) (\<lambda>acctR.
         bindM (readM (\<lambda>d. GetBeginCycle d addr)) (\<lambda>beginCycle.
         bindM (readM (\<lambda>d. GetEndCycle d addr)) (\<lambda>endCycle.
         bindM (readM CurrentCycleNumber) (\<lambda>currentCycle.
           case acctR of
             Inl _ \<Rightarrow> returnM ()
           | Inr acct \<Rightarrow>
               if slt currentCycle beginCycle then returnM ()
               else
                 bindM (if beginCycle = currentCycle then
                          bindM (readM (\<lambda>d. GetAccountVote d beginCycle addr)) (\<lambda>av. returnM (av \<noteq> None))
                        else returnM False) (\<lambda>settled.
                   if settled then returnM ()
                   else if beginCycle + 1 = endCycle \<and> slt beginCycle currentCycle then
                     bindM (settleClosed cd addr beginCycle endCycle) (\<lambda>_.
                       withdrawTail cd addr acct (beginCycle + 1) currentCycle)
                   else withdrawTail cd addr acct beginCycle currentCycle))))))"

definition queryReward :: "codec \<Rightarrow> Database \<Rightarrow> bytes \<Rightarrow> int64 result" where
  "queryReward cd d addr =
     bindE (AllowChangeDelegation d) (\<lambda>on.
       if \<not> on then Inr 0
       else
         case AccountStore_Get cd d addr of
           Inl _ \<Rightarrow> Inr 0
         | Inr acct \<Rightarrow>
             bindE (GetBeginCycle d addr) (\<lambda>beginCycle.
             bindE (GetEndCycle d addr) (\<lambda>endCycle.
             bindE (CurrentCycleNumber d) (\<lambda>currentCycle.
               if slt currentCycle beginCycle then Inr (ac_Allowance acct)
               else
                 bindE (if beginCycle + 1 = endCycle \<and> slt beginCycle currentCycle then
                          bindE (GetAccountVote d beginCycle addr) (\<lambda>av.
                          bindE (case av of None \<Rightarrow> Inr 0
                                 | Some v \<Rightarrow> bindE (votePairsFromSnapshot v) (\<lambda>votes.
                                     computeReward d beginCycle endCycle votes)) (\<lambda>reward.
                            Inr (reward, beginCycle + 1)))
                        else Inr (0, beginCycle)) (\<lambda>(reward, begin').
                   if length (ac_Votes acct) = 0 then Inr (reward + ac_Allowance acct)
                   else
                     bindE (if slt begin' currentCycle
                            then computeReward d begin' currentCycle (votePairsFromAccount acct)
                            else Inr 0) (\<lambda>r. Inr (reward + r + ac_Allowance acct)))))))"

section \<open>WithdrawBalance\<close>

definition WithdrawBalance_unpack :: "codec \<Rightarrow> Context \<Rightarrow> OwnerC result" where
  "WithdrawBalance_unpack cd = unpackE ''unpack WithdrawBalanceContract'' (to_WithdrawBalance cd)"

definition MaxInt64 :: int64 where "MaxInt64 = 9223372036854775807"

definition WithdrawBalance_Validate :: "codec \<Rightarrow> Context \<Rightarrow> Database \<Rightarrow> unit result" where
  "WithdrawBalance_Validate cd ctx d =
     bindE (WithdrawBalance_unpack cd ctx) (\<lambda>c.
     let owner = ow_OwnerAddress c in
     bindE (case FromBytes owner of Inl _ \<Rightarrow> Inl (Err ''actuator: Invalid address'') | Inr _ \<Rightarrow> Inr ()) (\<lambda>_.
     bindE (case AccountStore_Get cd d owner of Inl _ \<Rightarrow> Inl (Err ''actuator: Account does not exist'')
            | Inr a \<Rightarrow> Inr a) (\<lambda>acct.
     bindE (LatestBlockHeaderTimestamp d) (\<lambda>now.
     bindE (WitnessAllowanceFrozenTime d) (\<lambda>frozenTime.
     bindE (check (slt (now - ac_LatestWithdrawTime acct) (frozenTime * frozenPeriodMs))
             (Err ''actuator: The last withdraw time is less than 24 hours'')) (\<lambda>_.
     bindE (queryReward cd d owner) (\<lambda>q.
     bindE (check (sle (ac_Allowance acct) 0 \<and> sle q 0)
             (Err ''actuator: witnessAccount does not have any reward'')) (\<lambda>_.
       check (slt (MaxInt64 - ac_Allowance acct) (ac_Balance acct))
         (Err ''actuator: balance + allowance overflow'')))))))))"

definition WithdrawBalance_Execute :: "codec \<Rightarrow> Context \<Rightarrow> (Database, unit) op" where
  "WithdrawBalance_Execute cd ctx =
     bindM (liftM (WithdrawBalance_unpack cd ctx)) (\<lambda>c.
     let owner = ow_OwnerAddress c in
     bindM (WithdrawReward cd owner) (\<lambda>_.
     bindM (readM (\<lambda>d. AccountStore_Get cd d owner)) (\<lambda>acct.
     bindM (readM LatestBlockHeaderTimestamp) (\<lambda>now.
       AccountStore_Put cd (acct\<lparr>ac_Balance := ac_Balance acct + ac_Allowance acct, ac_Allowance := 0,
         ac_LatestWithdrawTime := now\<rparr>)))))"

context write_inv
begin

lemma keeps_adjustAllowance [keeps_intros]: "keeps P (adjustAllowance cd addr amount)"
  unfolding adjustAllowance_def Let_def by (intro keeps_intros)

lemma keeps_reward [keeps_intros]:
  "keeps P (payReward cd w v)"
  "keeps P (PayBlockReward cd w v)"
  "keeps P (settleClosed cd addr b e)"
  "keeps P (withdrawTail cd addr acct b e)"
  unfolding payReward_def PayBlockReward_def settleClosed_def withdrawTail_def Let_def
  by (intro keeps_intros)+

lemma keeps_WithdrawReward [keeps_intros]: "keeps P (WithdrawReward cd addr)"
  unfolding WithdrawReward_def by (intro keeps_intros)

lemma keeps_WithdrawBalance [keeps_intros]: "keeps P (WithdrawBalance_Execute cd ctx)"
  unfolding WithdrawBalance_Execute_def Let_def by (intro keeps_intros)

end

section \<open>Rewards do not depend on accounts\<close>

lemma account_key_neq [simp]:
  "nsKey propertyPrefix p \<noteq> nsKey accountPrefix a"
  "cycleKey dgRewardPrefix c w \<noteq> nsKey accountPrefix a"
  "cycleKey dgViPrefix c w \<noteq> nsKey accountPrefix a"
  "cycleKey dgVotePrefix c w \<noteq> nsKey accountPrefix a"
  "cycleKey dgAccountVotePrefix c w \<noteq> nsKey accountPrefix a"
  "dgBeginCyclePrefix @ w \<noteq> nsKey accountPrefix a"
  "dgEndCyclePrefix @ w \<noteq> nsKey accountPrefix a"
  by (simp_all add: cycleKey_def key_simps)

lemma reward_reads_frame [simp]:
  "GetReward (Database_Put d (nsKey accountPrefix a) b) c w = GetReward d c w"
  "GetWitnessVote (Database_Put d (nsKey accountPrefix a) b) c w = GetWitnessVote d c w"
  "GetWitnessVi (Database_Put d (nsKey accountPrefix a) b) c w = GetWitnessVi d c w"
  "NewRewardAlgorithmEffectiveCycle (Database_Put d (nsKey accountPrefix a) b) = NewRewardAlgorithmEffectiveCycle d"
  by (simp_all add: GetReward_def GetWitnessVote_def GetWitnessVi_view dgGetInt64_view
        NewRewardAlgorithmEffectiveCycle_def getOr_view)

lemma oldCycleLoop_frame [simp]:
  "oldCycleLoop (Database_Put d (nsKey accountPrefix a) b) c vs r = oldCycleLoop d c vs r"
  by (induction vs arbitrary: r) (simp_all add: Let_def cong: if_cong)

lemma oldRewardLoop_frame [simp]:
  "oldRewardLoop (Database_Put d (nsKey accountPrefix a) b) n c vs r = oldRewardLoop d n c vs r"
  by (induction n arbitrary: c r) (simp_all add: computeRewardOldCycle_def)

lemma viLoop_frame [simp]:
  "viLoop (Database_Put d (nsKey accountPrefix a) b) x y vs r = viLoop d x y vs r"
  by (induction vs arbitrary: r) (simp_all add: Let_def cong: if_cong)

lemma computeReward_frame [simp]:
  "computeReward (Database_Put d (nsKey accountPrefix a) b) x y vs = computeReward d x y vs"
  by (simp add: computeReward_def getOldReward_def cong: if_cong)

text \<open>The account cell of \<open>addr\<close> is the only thing that may differ.\<close>

definition acct_only :: "bytes \<Rightarrow> Database \<Rightarrow> Database \<Rightarrow> bool" where
  "acct_only addr d d' \<longleftrightarrow> d' = d \<or> (\<exists>b. d' = Database_Put d (nsKey accountPrefix addr) b)"

lemma acct_only_computeReward: "acct_only addr d d' \<Longrightarrow> computeReward d' x y vs = computeReward d x y vs"
  by (auto simp: acct_only_def)

text \<open>\<open>adjustAllowance\<close> ignores an amount that is not positive.\<close>

definition credit :: "int64 \<Rightarrow> int64" where
  "credit r = (if sle r 0 then 0 else r)"

lemma credit_nonneg [simp]: "0 \<le> sint r \<Longrightarrow> credit r = r"
  by (auto simp: credit_def sle_def signed_eq_0_iff)

lemma adjustAllowance_credits:
  assumes "codec_ok cd" "AccountStore_Get cd d addr = Inr a" "ac_Address a = addr"
  shows "\<exists>d'. adjustAllowance cd addr r d = (Inr (), d') \<and> acct_only addr d d' \<and>
    AccountStore_Get cd d' addr = Inr (a\<lparr>ac_Allowance := ac_Allowance a + credit r\<rparr>)"
  using assms by (auto simp: adjustAllowance_def credit_def acct_only_def)

lemma encodeAccountVote_snapshot: "\<exists>b. encodeAccountVote (snapshotFromAccount a) = Inr b"
proof -
  obtain body where "encodeAV (map v_VoteAddress (ac_Votes a)) (map v_VoteCount (ac_Votes a)) = Inr body"
    using encodeAV_ok [of "map v_VoteAddress (ac_Votes a)" "map v_VoteCount (ac_Votes a)"] by auto
  then show ?thesis by (simp add: encodeAccountVote_def snapshotFromAccount_def)
qed

lemma cursor_writes_frame:
  "AccountStore_Get cd (Database_Put d (dgBeginCyclePrefix @ w) b) a = AccountStore_Get cd d a"
  "AccountStore_Get cd (Database_Put d (dgEndCyclePrefix @ w) b) a = AccountStore_Get cd d a"
  "AccountStore_Get cd (Database_Put d (cycleKey dgAccountVotePrefix c w) b) a = AccountStore_Get cd d a"
  using account_key_neq by (auto intro!: AccountStore_Get_frame)

section \<open>What a settlement may touch\<close>

text \<open>A settlement of \<open>addr\<close> writes its account and the delegation name space, and nothing else.\<close>

definition dgSpace :: bytes where "dgSpace = ascii ''dg/''"

definition reward_only :: "bytes \<Rightarrow> Database \<Rightarrow> Database \<Rightarrow> bool" where
  "reward_only addr d d' \<longleftrightarrow>
     (\<forall>k. k \<noteq> nsKey accountPrefix addr \<longrightarrow> \<not> has_prefix dgSpace k \<longrightarrow> view d' k = view d k)"

lemma dgSpace_keys [simp]:
  "has_prefix dgSpace (dgBeginCyclePrefix @ w)" "has_prefix dgSpace (dgEndCyclePrefix @ w)"
  "has_prefix dgSpace (cycleKey dgAccountVotePrefix c w)"
  by (simp_all add: has_prefix_def dgSpace_def ascii_simps cycleKey_def key_simps)

lemma reward_only_refl [simp]: "reward_only addr d d"
  by (simp add: reward_only_def)

lemma reward_only_trans: "reward_only addr d d1 \<Longrightarrow> reward_only addr d1 d2 \<Longrightarrow> reward_only addr d d2"
  by (simp add: reward_only_def)

lemma reward_only_Put [simp]: "has_prefix dgSpace k \<Longrightarrow> reward_only addr d (Database_Put d' k v) = reward_only addr d d'"
  by (auto simp: reward_only_def)

lemma acct_only_reward: "acct_only addr d d' \<Longrightarrow> reward_only addr d d'"
  by (auto simp: acct_only_def reward_only_def)

lemma reward_only_props: "reward_only addr d d' \<Longrightarrow> same_props d d'"
  by (simp add: reward_only_def same_props_def has_prefix_def dgSpace_def ascii_simps key_simps)

lemma reward_only_accounts:
  "reward_only addr d d' \<Longrightarrow> a \<noteq> addr \<Longrightarrow> AccountStore_Get cd d' a = AccountStore_Get cd d a"
  by (simp add: reward_only_def AccountStore_Get_view has_prefix_def dgSpace_def ascii_simps key_simps)

section \<open>Rewards can always be computed\<close>

text \<open>What the delegation store holds can be read: scalars have eight bytes, vote snapshots decode.\<close>

definition delegation_wf :: "Database \<Rightarrow> bool" where
  "delegation_wf d \<longleftrightarrow>
     (\<forall>c w. (\<exists>x. GetReward d c w = Inr x) \<and> (\<exists>x. GetWitnessVote d c w = Inr x) \<and> (\<exists>x. GetAccountVote d c w = Inr x)) \<and>
     (\<forall>w. (\<exists>x. GetBeginCycle d w = Inr x) \<and> (\<exists>x. GetEndCycle d w = Inr x))"

lemma oldCycleLoop_total: "delegation_wf d \<Longrightarrow> \<exists>r. oldCycleLoop d c vs s = Inr r"
proof (induction vs arbitrary: s)
  case (Cons v vs)
  then obtain x y where "GetReward d c (vp_addr v) = Inr x" "GetWitnessVote d c (vp_addr v) = Inr y"
    unfolding delegation_wf_def by blast
  with Cons show ?case by (simp add: Let_def)
qed simp

lemma oldRewardLoop_total: "delegation_wf d \<Longrightarrow> \<exists>r. oldRewardLoop d n c vs s = Inr r"
proof (induction n arbitrary: c s)
  case (Suc n)
  obtain x where "computeRewardOldCycle d c vs = Inr x"
    using oldCycleLoop_total [OF Suc.prems] unfolding computeRewardOldCycle_def by blast
  with Suc show ?case by simp
qed simp

lemma viLoop_total: "\<exists>r. viLoop d b e vs s = Inr r"
proof (induction vs arbitrary: s)
  case (Cons v vs)
  obtain x y where "GetWitnessVi d (b - 1) (vp_addr v) = Inr x" "GetWitnessVi d (e - 1) (vp_addr v) = Inr y"
    using GetWitnessVi_total by blast
  with Cons show ?case by (simp add: Let_def)
qed simp

lemma computeReward_total:
  assumes "delegation_wf d" "props_wf d"
  shows "\<exists>r. computeReward d b e vs = Inr r"
proof -
  obtain n where n: "NewRewardAlgorithmEffectiveCycle d = Inr n"
    using getOr_total [OF assms(2)] unfolding NewRewardAlgorithmEffectiveCycle_def by blast
  obtain r where "getOldReward d b (if slt n e then n else e) vs = Inr r"
    using oldRewardLoop_total [OF assms(1)] unfolding getOldReward_def by blast
  with n show ?thesis using viLoop_total by (auto simp: computeReward_def Let_def)
qed

lemma zipVotes_total: "length as = length cs \<Longrightarrow> \<exists>vs. zipVotes as cs = Inr vs"
  by (induction as cs rule: list_induct2) auto

lemma decodeAV_lengths: "decodeAV n b = Inr (as, cs) \<Longrightarrow> length as = length cs"
  by (induction n b arbitrary: as cs rule: decodeAV.induct) (auto simp: bindE_eq_Inr split: if_splits prod.splits)

lemma snapshot_pairs: "GetAccountVote d c w = Inr (Some v) \<Longrightarrow> \<exists>vs. votePairsFromSnapshot v = Inr vs"
  by (auto simp: GetAccountVote_def decodeAccountVote_def votePairsFromSnapshot_def Let_def bindE_eq_Inr
      intro!: zipVotes_total dest!: decodeAV_lengths split: sum.splits if_splits prod.splits)

section \<open>Withdrawing pays what the query promises\<close>

text \<open>
  The two amounts a settlement of \<open>addr\<close> consists of: the cycle that closed at the cursor, by the
  votes recorded then, and the cycles since, by the votes of the account.
\<close>

definition closedReward :: "Database \<Rightarrow> bytes \<Rightarrow> int64 \<Rightarrow> int64 \<Rightarrow> int64 result" where
  "closedReward d addr b e = bindE (GetAccountVote d b addr) (\<lambda>av. case av of None \<Rightarrow> Inr 0
     | Some v \<Rightarrow> bindE (votePairsFromSnapshot v) (\<lambda>votes. computeReward d b e votes))"

definition openReward :: "Database \<Rightarrow> Account \<Rightarrow> int64 \<Rightarrow> int64 \<Rightarrow> int64 result" where
  "openReward d acct b c =
     (if ac_Votes acct = [] \<or> \<not> slt b c then Inr 0 else computeReward d b c (votePairsFromAccount acct))"

definition pendingParts :: "Database \<Rightarrow> bytes \<Rightarrow> Account \<Rightarrow> (int64 \<times> int64) result" where
  "pendingParts d addr acct =
     bindE (GetBeginCycle d addr) (\<lambda>b. bindE (GetEndCycle d addr) (\<lambda>e. bindE (CurrentCycleNumber d) (\<lambda>c.
       if slt c b then Inr (0, 0)
       else if b + 1 = e \<and> slt b c then
         bindE (closedReward d addr b e) (\<lambda>r1. bindE (openReward d acct (b + 1) c) (\<lambda>r2. Inr (r1, r2)))
       else bindE (openReward d acct b c) (\<lambda>r2. Inr (0, r2)))))"

lemma parts_total:
  assumes "delegation_wf d" "props_wf d"
  shows "\<exists>r. closedReward d addr b e = Inr r" "\<exists>r. openReward d acct b c = Inr r"
proof -
  obtain av where av: "GetAccountVote d b addr = Inr av" using assms(1) unfolding delegation_wf_def by blast
  then show "\<exists>r. closedReward d addr b e = Inr r"
    using snapshot_pairs computeReward_total [OF assms] by (cases av) (force simp: closedReward_def)+
qed (use computeReward_total [OF assms] in \<open>auto simp: openReward_def\<close>)

lemma withdrawTail_pays:
  assumes "codec_ok cd" "acct_only addr d0 d" "AccountStore_Get cd d addr = Inr a" "ac_Address a = addr"
    and "openReward d0 acct b c = Inr r"
  shows "\<exists>d'. withdrawTail cd addr acct b c d = (Inr (), d') \<and> reward_only addr d d' \<and>
    AccountStore_Get cd d' addr = Inr (a\<lparr>ac_Allowance := ac_Allowance a + credit r\<rparr>)"
proof (cases "ac_Votes acct = []")
  case True
  then show ?thesis using assms(3,5) by (simp add: withdrawTail_def openReward_def SetBeginCycle_def cursor_writes_frame)
next
  case False
  obtain d1 where d1: "adjustAllowance cd addr r d = (Inr (), d1)" "acct_only addr d d1"
    "AccountStore_Get cd d1 addr = Inr (a\<lparr>ac_Allowance := ac_Allowance a + credit r\<rparr>)"
    using adjustAllowance_credits [OF assms(1,3,4)] by blast
  obtain bs where bs: "encodeAccountVote (snapshotFromAccount acct) = Inr bs"
    using encodeAccountVote_snapshot by blast
  have "(if slt b c then bindM (readM (\<lambda>d. computeReward d b c (votePairsFromAccount acct))) (adjustAllowance cd addr) else returnM ()) d = (Inr (), d1)"
    if "slt b c" using that False assms(5) d1(1) acct_only_computeReward [OF assms(2)] by (simp add: openReward_def)
  moreover have "r = 0" if "\<not> slt b c" using that assms(5) by (simp add: openReward_def)
  ultimately show ?thesis using False d1(3) acct_only_reward [OF d1(2)] bs assms(3)
    by (cases "slt b c") (simp_all add: withdrawTail_def bindM_def SetBeginCycle_def SetEndCycle_def SetAccountVote_def cursor_writes_frame)
qed

lemma settleClosed_pays:
  assumes "codec_ok cd" "AccountStore_Get cd d addr = Inr acct" "ac_Address acct = addr" "closedReward d addr b e = Inr r"
  shows "\<exists>d'. settleClosed cd addr b e d = (Inr (), d') \<and> acct_only addr d d' \<and>
    AccountStore_Get cd d' addr = Inr (acct\<lparr>ac_Allowance := ac_Allowance acct + credit r\<rparr>)"
proof -
  obtain av where av: "GetAccountVote d b addr = Inr av" using assms(4) by (auto simp: closedReward_def bindE_eq_Inr)
  show ?thesis
  proof (cases av)
    case None
    then show ?thesis using av assms by (auto simp: settleClosed_def closedReward_def acct_only_def)
  next
    case (Some v)
    then obtain vs where "votePairsFromSnapshot v = Inr vs" "computeReward d b e vs = Inr r"
      using av assms(4) by (auto simp: closedReward_def bindE_eq_Inr)
    with adjustAllowance_credits [OF assms(1-3), of r] av Some show ?thesis by (simp add: settleClosed_def)
  qed
qed

lemma queryReward_parts:
  assumes "AllowChangeDelegation d = Inr True" "AccountStore_Get cd d addr = Inr acct" "pendingParts d addr acct = Inr (r1, r2)"
  shows "queryReward cd d addr = Inr (r1 + r2 + ac_Allowance acct)"
proof -
  obtain b e c where cur: "GetBeginCycle d addr = Inr b" "GetEndCycle d addr = Inr e" "CurrentCycleNumber d = Inr c"
    using assms(3) by (auto simp: pendingParts_def bindE_eq_Inr)
  note simps = assms(1,2) cur
  consider "slt c b" | "\<not> slt c b" "b + 1 = e \<and> slt b c" | "\<not> slt c b" "\<not> (b + 1 = e \<and> slt b c)" by blast
  then show ?thesis
  proof cases
    case 1
    then show ?thesis using assms(3) by (simp add: queryReward_def pendingParts_def simps)
  next
    case 2
    then have "closedReward d addr b e = Inr r1" "openReward d acct (b + 1) c = Inr r2"
      using assms(3) by (auto simp: pendingParts_def simps bindE_eq_Inr)
    with 2 show ?thesis by (auto simp: queryReward_def simps closedReward_def openReward_def bindE_eq_Inr split: if_splits)
  next
    case 3
    then have "r1 = 0" "openReward d acct b c = Inr r2"
      using assms(3) by (auto simp: pendingParts_def simps bindE_eq_Inr)
    with 3 show ?thesis by (auto simp: queryReward_def simps openReward_def split: if_splits)
  qed
qed

text \<open>The settlement in one piece: it always succeeds and credits the two parts.\<close>

lemma WithdrawReward_run:
  assumes "codec_ok cd" "props_wf d" "delegation_wf d" "AllowChangeDelegation d = Inr True"
    and "AccountStore_Get cd d addr = Inr acct" "ac_Address acct = addr"
  shows "\<exists>r1 r2 d'. pendingParts d addr acct = Inr (r1, r2) \<and> WithdrawReward cd addr d = (Inr (), d') \<and> reward_only addr d d' \<and>
    AccountStore_Get cd d' addr = Inr (acct\<lparr>ac_Allowance := ac_Allowance acct + credit r1 + credit r2\<rparr>)"
proof -
  obtain b e av where cur: "GetBeginCycle d addr = Inr b" "GetEndCycle d addr = Inr e" "GetAccountVote d b addr = Inr av"
    using assms(3) unfolding delegation_wf_def by blast
  obtain c where c: "CurrentCycleNumber d = Inr c" using getOr_total [OF assms(2)] unfolding CurrentCycleNumber_def by blast
  note simps = assms(4,5) cur c
  have refl: "acct_only addr d d" by (simp add: acct_only_def)
  obtain r1 where r1: "closedReward d addr b e = Inr r1" using parts_total(1) [OF assms(3,2)] by blast
  consider "slt c b" | "\<not> slt c b" "b = c" "av \<noteq> None" | "\<not> slt c b" "b \<noteq> c \<or> av = None" by blast
  then show ?thesis
  proof cases
    case 1
    then show ?thesis using simps by (simp add: WithdrawReward_def pendingParts_def credit_def)
  next
    case 2
    then show ?thesis using simps by (simp add: WithdrawReward_def pendingParts_def openReward_def credit_def slt_def bindM_assoc)
  next
    case 3
    have go: "WithdrawReward cd addr d =
      (if b + 1 = e \<and> slt b c then bindM (settleClosed cd addr b e) (\<lambda>_. withdrawTail cd addr acct (b + 1) c) d
       else withdrawTail cd addr acct b c d)"
      using 3 simps by (auto simp: WithdrawReward_def bindM_assoc)
    show ?thesis
    proof (cases "b + 1 = e \<and> slt b c")
      case True
      obtain r2 where r2: "openReward d acct (b + 1) c = Inr r2" using parts_total(2) [OF assms(3,2)] by blast
      obtain d1 where d1: "settleClosed cd addr b e d = (Inr (), d1)" "acct_only addr d d1"
        "AccountStore_Get cd d1 addr = Inr (acct\<lparr>ac_Allowance := ac_Allowance acct + credit r1\<rparr>)"
        using settleClosed_pays [OF assms(1,5,6) r1] by blast
      from withdrawTail_pays [OF assms(1) d1(2,3) _ r2] assms(6) obtain d' where
        "withdrawTail cd addr acct (b + 1) c d1 = (Inr (), d')" "reward_only addr d1 d'"
        "AccountStore_Get cd d' addr = Inr (acct\<lparr>ac_Allowance := ac_Allowance acct + credit r1 + credit r2\<rparr>)" by auto
      moreover have "pendingParts d addr acct = Inr (r1, r2)" using simps 3(1) True r1 r2 by (simp add: pendingParts_def)
      ultimately show ?thesis using go True d1(1) reward_only_trans [OF acct_only_reward [OF d1(2)]] by (auto simp: bindM_def)
    next
      case False
      obtain r2 where r2: "openReward d acct b c = Inr r2" using parts_total(2) [OF assms(3,2)] by blast
      have "pendingParts d addr acct = Inr (0, r2)" using simps 3(1) False r2 by (auto simp: pendingParts_def)
      with withdrawTail_pays [OF assms(1) refl assms(5,6) r2] go False show ?thesis by (auto simp: credit_def)
    qed
  qed
qed

text \<open>For the actuators that settle first: only the allowance of the account changes, rewards active or not.\<close>

lemma WithdrawReward_settles:
  assumes "codec_ok cd" "props_wf d" "delegation_wf d" "AccountStore_Get cd d addr = Inr acct" "ac_Address acct = addr"
  shows "\<exists>d1 al. WithdrawReward cd addr d = (Inr (), d1) \<and> reward_only addr d d1 \<and>
    AccountStore_Get cd d1 addr = Inr (acct\<lparr>ac_Allowance := al\<rparr>)"
proof -
  obtain on where on: "AllowChangeDelegation d = Inr on" using flagOn_total [OF assms(2)] unfolding AllowChangeDelegation_def by blast
  show ?thesis
  proof (cases on)
    case True
    then show ?thesis using WithdrawReward_run [OF assms(1-3) _ assms(4,5)] on by auto
  next
    case False
    then show ?thesis using on assms(4)
      by (intro exI [of _ d] exI [of _ "ac_Allowance acct"]) (simp add: WithdrawReward_def)
  qed
qed

lemma same_props_wf: "props_wf d \<Longrightarrow> same_props d d' \<Longrightarrow> props_wf d'"
  by (simp add: props_wf_def same_props_def)

lemma settlement:
  assumes "codec_ok cd" "accounts_keyed cd d" "props_wf d" "delegation_wf d" "AccountStore_Get cd d addr = Inr acct"
  obtains d1 al where "WithdrawReward cd addr d = (Inr (), d1)" "reward_only addr d d1" "same_props d d1" "props_wf d1"
    and "accounts_keyed cd d1" "AccountStore_Get cd d1 addr = Inr (acct\<lparr>ac_Allowance := al\<rparr>)"
proof -
  obtain d1 al where d1: "WithdrawReward cd addr d = (Inr (), d1)" "reward_only addr d d1"
    "AccountStore_Get cd d1 addr = Inr (acct\<lparr>ac_Allowance := al\<rparr>)"
    using WithdrawReward_settles [OF assms(1,3-5) accounts_keyedD [OF assms(2,5)]] by blast
  have "accounts_keyed cd d1"
    using keepsD [OF write_inv.keeps_WithdrawReward [OF codec_keyed [OF assms(1)]] assms(2), of addr] d1(1) by simp
  with d1 reward_only_props [OF d1(2)] same_props_wf [OF assms(3)] show thesis by (intro that) auto
qed

text \<open>
  C40: While vote rewards are active, \<open>queryReward\<close> and \<open>WithdrawReward\<close> both succeed for an existing
  account, and they agree: the query is the allowance plus the amounts of the closed cycle and of the
  cycles since, and the withdrawal adds each of the two amounts that is positive to the allowance. So
  when neither amount is negative the allowance afterwards is the queried total. Every other field of
  the account is unchanged, and nothing else is written but entries of the delegation store.
\<close>

theorem WithdrawReward_pays_query:
  assumes "codec_ok cd" "accounts_keyed cd d" "props_wf d" "delegation_wf d" "AllowChangeDelegation d = Inr True"
    and "AccountStore_Get cd d addr = Inr acct"
  shows "\<exists>r1 r2 q d' acct'. pendingParts d addr acct = Inr (r1, r2) \<and>
    queryReward cd d addr = Inr q \<and> q = r1 + r2 + ac_Allowance acct \<and>
    WithdrawReward cd addr d = (Inr (), d') \<and> AccountStore_Get cd d' addr = Inr acct' \<and>
    acct' = acct\<lparr>ac_Allowance := ac_Allowance acct + credit r1 + credit r2\<rparr> \<and>
    (0 \<le> sint r1 \<and> 0 \<le> sint r2 \<longrightarrow> ac_Allowance acct' = q) \<and> reward_only addr d d'"
proof -
  have addr: "ac_Address acct = addr" using accounts_keyedD [OF assms(2,6)] .
  obtain r1 r2 d' where run: "pendingParts d addr acct = Inr (r1, r2)" "WithdrawReward cd addr d = (Inr (), d')" "reward_only addr d d'"
    "AccountStore_Get cd d' addr = Inr (acct\<lparr>ac_Allowance := ac_Allowance acct + credit r1 + credit r2\<rparr>)"
    using WithdrawReward_run [OF assms(1,3-6) addr] by blast
  have "ac_Allowance acct + credit r1 + credit r2 = r1 + r2 + ac_Allowance acct" if "0 \<le> sint r1 \<and> 0 \<le> sint r2"
    using that by simp
  with queryReward_parts [OF assms(5,6) run(1)] run show ?thesis by auto
qed

section \<open>A voter with two cycles to settle\<close>

text \<open>
  Rewards are active from the first cycle by the index Vi, the current cycle is 2. The voter had two
  votes for a witness in cycle 0, which is recorded and not yet settled, and has three since. The index
  grew by 4 in cycle 0 and by 5 in cycle 1: 8 and 15 are due. \<open>withRewards\<close> adds this to a database
  whose delegation store is empty.
\<close>

definition oldBallot :: AccountVote where
  "oldBallot = \<lparr>av_Addresses = [65 # replicate 20 9], av_Counts = [2]\<rparr>"

definition rewardBase :: "Database \<Rightarrow> Database" where
  "rewardBase d = fold (\<lambda>(k, v) d. Database_Put d k v)
     [(nsKey propertyPrefix propChangeDelegation, PutUint64 1), (nsKey propertyPrefix propCurrentCycleNumber, PutUint64 2),
      (nsKey propertyPrefix propNewRewardAlgoEffectiveCycle, PutUint64 0),
      (cycleKey dgViPrefix 0 (65 # replicate 20 9), big_Bytes (4 * DecimalOfViReward)),
      (cycleKey dgViPrefix 1 (65 # replicate 20 9), big_Bytes (9 * DecimalOfViReward)),
      (dgEndCyclePrefix @ 65 # replicate 20 1, PutUint64 1)] d"

definition withRewards :: "Database \<Rightarrow> Database" where
  "withRewards d = snd (SetAccountVote 0 (65 # replicate 20 1) oldBallot (rewardBase d))"

definition no_delegations :: "Database \<Rightarrow> bool" where
  "no_delegations d \<longleftrightarrow> (\<forall>k. has_prefix dgSpace k \<longrightarrow> view d k = None)"

lemma rewardBase_view:
  "view (rewardBase d) k =
     (if k = dgEndCyclePrefix @ 65 # replicate 20 1 then Some (PutUint64 1)
      else if k = cycleKey dgViPrefix 1 (65 # replicate 20 9) then Some (big_Bytes (9 * DecimalOfViReward))
      else if k = cycleKey dgViPrefix 0 (65 # replicate 20 9) then Some (big_Bytes (4 * DecimalOfViReward))
      else if k = nsKey propertyPrefix propNewRewardAlgoEffectiveCycle then Some (PutUint64 0)
      else if k = nsKey propertyPrefix propCurrentCycleNumber then Some (PutUint64 2)
      else if k = nsKey propertyPrefix propChangeDelegation then Some (PutUint64 1) else view d k)"
  by (simp add: rewardBase_def)

lemma withRewards_view:
  "\<exists>b. \<forall>k. view (withRewards d) k = (if k = cycleKey dgAccountVotePrefix 0 (65 # replicate 20 1) then Some b else view (rewardBase d) k)"
  by (auto simp: withRewards_def SetAccountVote_def oldBallot_def encodeAccountVote_def)

lemma withRewards_base: "\<not> has_prefix dgAccountVotePrefix k \<Longrightarrow> view (withRewards d) k = view (rewardBase d) k"
  using withRewards_view [of d] by (auto simp: has_prefix_def cycleKey_def)

lemma withRewards_other [simp]:
  "view (withRewards d) (nsKey accountPrefix a) = view d (nsKey accountPrefix a)"
  "view (withRewards d) (nsKey votesPrefix a) = view d (nsKey votesPrefix a)"
  "view (withRewards d) (nsKey propertyPrefix k) = (if k = propNewRewardAlgoEffectiveCycle then Some (PutUint64 0)
     else if k = propCurrentCycleNumber then Some (PutUint64 2) else if k = propChangeDelegation then Some (PutUint64 1)
     else view d (nsKey propertyPrefix k))"
  by (simp_all add: withRewards_base rewardBase_view has_prefix_def cycleKey_def key_simps)

lemma withRewards_accounts [simp]:
  "AccountStore_Get cd (withRewards d) a = AccountStore_Get cd d a" "accounts_keyed cd (withRewards d) = accounts_keyed cd d"
  by (simp_all add: AccountStore_Get_view accounts_keyed_def)

lemma withRewards_props:
  "getOr (withRewards d) k x = (if k = propNewRewardAlgoEffectiveCycle then Inr 0 else if k = propCurrentCycleNumber then Inr 2
     else if k = propChangeDelegation then Inr 1 else getOr d k x)"
  "props_wf d \<Longrightarrow> props_wf (withRewards d)"
  by (simp_all add: getOr_view props_wf_def)

lemma no_delegations_view: "no_delegations d \<Longrightarrow> has_prefix dgSpace k \<Longrightarrow> view d k = None"
  by (simp add: no_delegations_def)

lemma withRewards_AccountVote:
  assumes "no_delegations d"
  shows "GetAccountVote (withRewards d) c a = Inr (if c = 0 \<and> a = 65 # replicate 20 1 then Some oldBallot else None)"
proof -
  have "view d (cycleKey dgAccountVotePrefix c a) = None" by (rule no_delegations_view [OF assms]) simp
  then have "GetAccountVote (rewardBase d) c a = Inr None"
    by (simp add: GetAccountVote_def Database_Get_view rewardBase_view) (simp add: cycleKey_def key_simps)
  then show ?thesis unfolding withRewards_def
    using AccountVote_roundtrip [of oldBallot 0 "65 # replicate 20 1" "rewardBase d" c a] by (simp add: oldBallot_def)
qed

lemma withRewards_delegation:
  assumes "no_delegations d"
  shows "view (withRewards d) (cycleKey dgRewardPrefix c w) = None" "view (withRewards d) (cycleKey dgVotePrefix c w) = None"
    and "view (withRewards d) (dgBeginCyclePrefix @ w) = None"
    and "view (withRewards d) (dgEndCyclePrefix @ w) = (if w = 65 # replicate 20 1 then Some (PutUint64 1) else None)"
    and "view (withRewards d) (cycleKey dgViPrefix c (65 # replicate 20 9)) =
      (if c = 1 then Some (big_Bytes (9 * DecimalOfViReward)) else if c = 0 then Some (big_Bytes (4 * DecimalOfViReward)) else None)"
proof -
  have "view d (cycleKey dgRewardPrefix c w) = None" "view d (cycleKey dgVotePrefix c w) = None"
    "view d (dgBeginCyclePrefix @ w) = None" "view d (dgEndCyclePrefix @ w) = None"
    "view d (cycleKey dgViPrefix c (65 # replicate 20 9)) = None"
    by (auto intro!: no_delegations_view [OF assms] simp: has_prefix_def dgSpace_def ascii_simps cycleKey_def key_simps)
  then show "view (withRewards d) (cycleKey dgRewardPrefix c w) = None" "view (withRewards d) (cycleKey dgVotePrefix c w) = None"
    "view (withRewards d) (dgBeginCyclePrefix @ w) = None"
    "view (withRewards d) (dgEndCyclePrefix @ w) = (if w = 65 # replicate 20 1 then Some (PutUint64 1) else None)"
    "view (withRewards d) (cycleKey dgViPrefix c (65 # replicate 20 9)) =
      (if c = 1 then Some (big_Bytes (9 * DecimalOfViReward)) else if c = 0 then Some (big_Bytes (4 * DecimalOfViReward)) else None)"
    by (auto simp: withRewards_base rewardBase_view has_prefix_def cycleKey_def key_simps)
qed

lemma withRewards_reads:
  assumes "no_delegations d"
  shows "AllowChangeDelegation (withRewards d) = Inr True" "CurrentCycleNumber (withRewards d) = Inr 2"
    and "NewRewardAlgorithmEffectiveCycle (withRewards d) = Inr 0"
    and "GetBeginCycle (withRewards d) w = Inr 0" "GetEndCycle (withRewards d) w = Inr (if w = 65 # replicate 20 1 then 1 else RemarkNoVote)"
    and "GetWitnessVi (withRewards d) c (65 # replicate 20 9) =
      Inr (if c = 1 then 9 * DecimalOfViReward else if c = 0 then 4 * DecimalOfViReward else 0)"
    and "GetReward (withRewards d) c w = Inr 0" "GetWitnessVote (withRewards d) c w = Inr RemarkNoVote"
  by (simp_all add: AllowChangeDelegation_def flagOn_def CurrentCycleNumber_def NewRewardAlgorithmEffectiveCycle_def withRewards_props
      GetBeginCycle_def GetEndCycle_def GetReward_def GetWitnessVote_def dgGetInt64_view GetWitnessVi_view
      withRewards_delegation [OF assms] prop_key_defs DecimalOfViReward_def)

lemma withRewards_wf: "no_delegations d \<Longrightarrow> delegation_wf (withRewards d)"
  by (simp add: delegation_wf_def withRewards_reads withRewards_AccountVote)

lemma withRewards_parts:
  assumes "no_delegations d" "ac_Votes a = [\<lparr>v_VoteAddress = 65 # replicate 20 9, v_VoteCount = 3\<rparr>]"
  shows "pendingParts (withRewards d) (65 # replicate 20 1) a = Inr (8, 15)"
proof -
  note reads = withRewards_reads [OF assms(1)] withRewards_AccountVote [OF assms(1)]
  have "closedReward (withRewards d) (65 # replicate 20 1) 0 1 = Inr 8"
    by (simp add: closedReward_def reads oldBallot_def votePairsFromSnapshot_def computeReward_def
        DecimalOfViReward_def slt_def sle_def big_Div_def)
  moreover have "openReward (withRewards d) a 1 2 = Inr 15"
    by (simp add: openReward_def assms(2) votePairsFromAccount_def computeReward_def reads DecimalOfViReward_def slt_def sle_def big_Div_def)
  ultimately show ?thesis by (simp add: pendingParts_def reads slt_def)
qed

lemma withRewards_settles:
  assumes "no_delegations d" "props_wf d" "AccountStore_Get ref_codec d (65 # replicate 20 1) = Inr a"
    and "ac_Address a = 65 # replicate 20 1" "ac_Votes a = [\<lparr>v_VoteAddress = 65 # replicate 20 9, v_VoteCount = 3\<rparr>]"
  shows "\<exists>d'. WithdrawReward ref_codec (65 # replicate 20 1) (withRewards d) = (Inr (), d') \<and>
    AccountStore_Get ref_codec d' (65 # replicate 20 1) = Inr (a\<lparr>ac_Allowance := ac_Allowance a + 23\<rparr>)"
  using WithdrawReward_run [OF ref_codec_ok withRewards_props(2) [OF assms(2)] withRewards_wf [OF assms(1)] withRewards_reads(1) [OF assms(1)]
      _ assms(4)] assms(3) withRewards_parts [OF assms(1,5)] by auto

lemma allowance_inject: "a\<lparr>ac_Allowance := x\<rparr> = a\<lparr>ac_Allowance := y\<rparr> \<Longrightarrow> x = y" for a :: Account
  by (drule arg_cong [of _ _ ac_Allowance]) simp

lemma sampleDb_no_delegations [simp]: "no_delegations (sampleDb as)"
  by (induction as rule: rev_induct)
    (auto simp: no_delegations_def sampleDb_snoc ref_codec_ok has_prefix_def dgSpace_def ascii_simps key_simps)

lemma no_delegations_Put: "no_delegations d \<Longrightarrow> \<not> has_prefix dgSpace k \<Longrightarrow> no_delegations (Database_Put d k v)"
  by (auto simp: no_delegations_def)

definition voter :: Account where
  "voter = (sampleAccount 1 5)\<lparr>ac_Allowance := 7, ac_Votes := [\<lparr>v_VoteAddress = 65 # replicate 20 9, v_VoteCount = 3\<rparr>]\<rparr>"

lemma voter_simps [simp]: "ac_Address voter = 65 # replicate 20 1" "ac_Allowance voter = 7" "ac_Balance voter = 5"
  "ac_Votes voter = [\<lparr>v_VoteAddress = 65 # replicate 20 9, v_VoteCount = 3\<rparr>]"
  by (simp_all add: voter_def)

theorem WithdrawReward_pays_query_witness:
  "\<exists>d'. queryReward ref_codec (withRewards (sampleDb [voter])) (65 # replicate 20 1) = Inr 30 \<and>
    WithdrawReward ref_codec (65 # replicate 20 1) (withRewards (sampleDb [voter])) = (Inr (), d') \<and>
    AccountStore_Get ref_codec d' (65 # replicate 20 1) = Inr (voter\<lparr>ac_Allowance := 30\<rparr>)"
proof -
  let ?d = "withRewards (sampleDb [voter])"
  have "accounts_keyed ref_codec ?d" "props_wf ?d" "delegation_wf ?d" "AllowChangeDelegation ?d = Inr True"
    "AccountStore_Get ref_codec ?d (65 # replicate 20 1) = Inr voter"
    by (simp_all add: sampleDb_keyed withRewards_props withRewards_wf withRewards_reads)
  from WithdrawReward_pays_query [OF ref_codec_ok this] show ?thesis by (auto simp: withRewards_parts)
qed

end
