(* ===== verification/Freeze.thy ===== *)
theory Freeze
  imports Reward
begin

text \<open>
  \<open>internal/actuator/freeze.go\<close>: the Stake 1.0 actuators. A freeze moves spendable balance into the
  account's frozen stake (or, with a receiver and resource delegation enabled, into a delegation
  entry) and grows the network weight of the resource; an unfreeze releases expired stake, shrinks
  the weight and clears the account's votes.
\<close>

section \<open>Delegation index\<close>

definition delegatedForResource :: "Database \<Rightarrow> bytes \<Rightarrow> bool result" where
  "delegatedForResource d receiver = (if length receiver = 0 then Inr False else SupportDR d)"

definition containsAddr :: "bytes list \<Rightarrow> bytes \<Rightarrow> bool" where
  "containsAddr xs a = list_ex (\<lambda>x. x = a) xs"

definition removeAddr :: "bytes list \<Rightarrow> bytes \<Rightarrow> bytes list" where
  "removeAddr xs a = filter (\<lambda>x. x \<noteq> a) xs"

definition addDelegationIndex :: "codec \<Rightarrow> bytes \<Rightarrow> bytes \<Rightarrow> (Database, unit) op" where
  "addDelegationIndex cd from to =
     bindM (tryR (\<lambda>d. Index_Get cd d from)) (\<lambda>r.
       let fromIdx = (case r of Inl _ \<Rightarrow> zero_DelegatedResourceAccountIndex\<lparr>di_Account := from\<rparr> | Inr i \<Rightarrow> i) in
       bindM (if \<not> containsAddr (di_ToAccounts fromIdx) to
              then Index_Put cd (fromIdx\<lparr>di_ToAccounts := di_ToAccounts fromIdx @ [to]\<rparr>)
              else returnM ()) (\<lambda>_.
       bindM (tryR (\<lambda>d. Index_Get cd d to)) (\<lambda>r2.
         let toIdx = (case r2 of Inl _ \<Rightarrow> zero_DelegatedResourceAccountIndex\<lparr>di_Account := to\<rparr> | Inr i \<Rightarrow> i) in
         if \<not> containsAddr (di_FromAccounts toIdx) from
         then Index_Put cd (toIdx\<lparr>di_FromAccounts := di_FromAccounts toIdx @ [from]\<rparr>)
         else returnM ())))"

definition removeDelegationIndex :: "codec \<Rightarrow> bytes \<Rightarrow> bytes \<Rightarrow> (Database, unit) op" where
  "removeDelegationIndex cd from to =
     bindM (tryR (\<lambda>d. Index_Get cd d from)) (\<lambda>r.
     bindM (case r of Inl _ \<Rightarrow> returnM ()
            | Inr i \<Rightarrow> Index_Put cd (i\<lparr>di_ToAccounts := removeAddr (di_ToAccounts i) to\<rparr>)) (\<lambda>_.
     bindM (tryR (\<lambda>d. Index_Get cd d to)) (\<lambda>r2.
       case r2 of Inl _ \<Rightarrow> returnM ()
       | Inr i \<Rightarrow> Index_Put cd (i\<lparr>di_FromAccounts := removeAddr (di_FromAccounts i) from\<rparr>))))"

definition recordDelegationIndex :: "codec \<Rightarrow> bytes \<Rightarrow> bytes \<Rightarrow> (Database, unit) op" where
  "recordDelegationIndex cd from to =
     bindM (readM SupportAllowDelegateOptimization) (\<lambda>opt.
       if \<not> opt then addDelegationIndex cd from to
       else
         bindM (Index_Convert cd from) (\<lambda>_.
         bindM (Index_Convert cd to) (\<lambda>_.
         bindM (readM LatestBlockHeaderTimestamp) (\<lambda>now.
           Index_Delegate cd from to now))))"

definition dropDelegationIndex :: "codec \<Rightarrow> bytes \<Rightarrow> bytes \<Rightarrow> (Database, unit) op" where
  "dropDelegationIndex cd from to =
     bindM (readM SupportAllowDelegateOptimization) (\<lambda>opt.
       if \<not> opt then removeDelegationIndex cd from to
       else
         bindM (Index_Convert cd from) (\<lambda>_.
         bindM (Index_Convert cd to) (\<lambda>_.
           Index_UnDelegate from to)))"

section \<open>FreezeBalance\<close>

definition Freeze_unpack :: "codec \<Rightarrow> Context \<Rightarrow> FreezeBalanceC result" where
  "Freeze_unpack cd = unpackE ''unpack FreezeBalanceContract'' (to_FreezeBalance cd)"

definition Freeze_Validate :: "codec \<Rightarrow> Context \<Rightarrow> Database \<Rightarrow> unit result" where
  "Freeze_Validate cd ctx d =
     bindE (Freeze_unpack cd ctx) (\<lambda>fc.
     bindE (checkAddress ''actuator: invalid owner address'' (fb_OwnerAddress fc)) (\<lambda>_.
     bindE (wrapE ''actuator: freeze owner account missing'' (AccountStore_Get cd d (fb_OwnerAddress fc))) (\<lambda>acct.
     let frozenBalance = fb_FrozenBalance fc in
     bindE (check (sle frozenBalance 0) (Err ''actuator: frozenBalance must be positive'')) (\<lambda>_.
     bindE (check (slt frozenBalance trxPrecision)
             (Err ''actuator: frozenBalance must be greater than or equal to 1 TRX'')) (\<lambda>_.
     bindE (check (length (ac_Frozen acct) \<noteq> 0 \<and> length (ac_Frozen acct) \<noteq> 1)
             (Err ''actuator: frozenCount must be 0 or 1'')) (\<lambda>_.
     bindE (check (slt (ac_Balance acct) frozenBalance)
             (Err ''actuator: frozenBalance must be less than or equal to accountBalance'')) (\<lambda>_.
     bindE (MinFrozenTime d) (\<lambda>minDays.
     bindE (MaxFrozenTime d) (\<lambda>maxDays.
     bindE (check (slt (fb_FrozenDuration fc) minDays \<or> slt maxDays (fb_FrozenDuration fc))
             (Err ''actuator: frozenDuration out of range'')) (\<lambda>_.
     bindE (check (fb_Resource fc \<noteq> BANDWIDTH \<and> fb_Resource fc \<noteq> ENERGY)
             (Err ''actuator: ResourceCode error, valid ResourceCode[BANDWIDTH, ENERGY]'')) (\<lambda>_.
     bindE (delegatedForResource d (fb_ReceiverAddress fc)) (\<lambda>delegated.
     bindE (if delegated then
              let receiver = fb_ReceiverAddress fc in
              bindE (check (receiver = fb_OwnerAddress fc)
                      (Err ''actuator: receiverAddress must not be the same as ownerAddress'')) (\<lambda>_.
              bindE (checkAddress ''actuator: invalid receiverAddress'' receiver) (\<lambda>_.
              bindE (case AccountStore_Get cd d receiver of
                       Inl _ \<Rightarrow> Inl (Err ''actuator: receiver account does not exist'') | Inr a \<Rightarrow> Inr a) (\<lambda>rc.
              bindE (AllowTvmConstantinople d) (\<lambda>constantinople.
                check (constantinople \<and> ac_Type rc = Contract)
                  (Err ''actuator: do not allow delegate resources to contract addresses'')))))
            else Inr ()) (\<lambda>_.
     bindE (SupportUnfreezeDelay d) (\<lambda>v2.
       check v2 (Err ''actuator: freeze v2 is open, old freeze is closed'')))))))))))))))"

definition Freeze_delegate ::
  "codec \<Rightarrow> bytes \<Rightarrow> bytes \<Rightarrow> bool \<Rightarrow> int64 \<Rightarrow> int64 \<Rightarrow> (Database, int64) op" where
  "Freeze_delegate cd from to isBandwidth balance expireTime =
     bindM (tryR (\<lambda>d. Delegated_Get cd d from to)) (\<lambda>r.
       let dr = (case r of Inl _ \<Rightarrow> zero_DelegatedResource\<lparr>dr_From := from, dr_To := to\<rparr> | Inr x \<Rightarrow> x);
           dr' = (if isBandwidth
                  then dr\<lparr>dr_FrozenBalanceForBandwidth := dr_FrozenBalanceForBandwidth dr + balance,
                         dr_ExpireTimeForBandwidth := expireTime\<rparr>
                  else dr\<lparr>dr_FrozenBalanceForEnergy := dr_FrozenBalanceForEnergy dr + balance,
                         dr_ExpireTimeForEnergy := expireTime\<rparr>) in
       bindM (Delegated_Put cd dr') (\<lambda>_.
       bindM (recordDelegationIndex cd from to) (\<lambda>_.
       bindM (tryR (\<lambda>d. AccountStore_Get cd d to)) (\<lambda>rcR.
         case rcR of
           Inl _ \<Rightarrow> throwM (Err ''actuator: receiver account does not exist'')
         | Inr rc \<Rightarrow>
             let oldW = (if isBandwidth then quot64 (ac_AcquiredDelegatedFrozenBalanceForBandwidth rc) trxPrecision
                         else quot64 (acquiredDelegatedEnergy rc) trxPrecision);
                 rc' = (if isBandwidth
                        then rc\<lparr>ac_AcquiredDelegatedFrozenBalanceForBandwidth :=
                               ac_AcquiredDelegatedFrozenBalanceForBandwidth rc + balance\<rparr>
                        else addAcquiredDelegatedEnergy balance rc);
                 newW = (if isBandwidth then quot64 (ac_AcquiredDelegatedFrozenBalanceForBandwidth rc') trxPrecision
                         else quot64 (acquiredDelegatedEnergy rc') trxPrecision)
             in bindM (AccountStore_Put cd rc') (\<lambda>_. returnM (newW - oldW))))))"

text \<open>The self-freeze branch: the updated account and the whole-TRX increment of its stake.\<close>

definition freezeSelf :: "bool \<Rightarrow> int64 \<Rightarrow> int64 \<Rightarrow> Account \<Rightarrow> Account \<times> int64" where
  "freezeSelf isBandwidth frozenBalance expireTime acct =
     (if isBandwidth then
        let old = sumFrozen acct; newTotal = frozenBalance + old in
        (acct\<lparr>ac_Frozen := [\<lparr>fz_FrozenBalance = newTotal, fz_ExpireTime = expireTime\<rparr>]\<rparr>,
         quot64 newTotal trxPrecision - quot64 old trxPrecision)
      else
        let old = energyFrozen acct; newTotal = frozenBalance + old in
        (updResource (\<lambda>r. r\<lparr>ar_FrozenBalanceForEnergy :=
           Some \<lparr>fz_FrozenBalance = newTotal, fz_ExpireTime = expireTime\<rparr>\<rparr>) acct,
         quot64 newTotal trxPrecision - quot64 old trxPrecision))"

definition Freeze_Execute :: "codec \<Rightarrow> Context \<Rightarrow> (Database, unit) op" where
  "Freeze_Execute cd ctx =
     bindM (liftM (Freeze_unpack cd ctx)) (\<lambda>fc.
     bindM (readM (\<lambda>d. AccountStore_Get cd d (fb_OwnerAddress fc))) (\<lambda>acct.
     bindM (readM LatestBlockHeaderTimestamp) (\<lambda>now.
     bindM (readM AllowNewReward) (\<lambda>newReward.
     let frozenBalance = fb_FrozenBalance fc;
         expireTime = now + fb_FrozenDuration fc * frozenPeriodMs;
         isBandwidth = (fb_Resource fc = BANDWIDTH) in
     bindM (readM (\<lambda>d. delegatedForResource d (fb_ReceiverAddress fc))) (\<lambda>delegated.
     bindM (if delegated then
              bindM (Freeze_delegate cd (fb_OwnerAddress fc) (fb_ReceiverAddress fc) isBandwidth frozenBalance expireTime)
                (\<lambda>increment. returnM
                   (if isBandwidth
                    then acct\<lparr>ac_DelegatedFrozenBalanceForBandwidth := ac_DelegatedFrozenBalanceForBandwidth acct + frozenBalance\<rparr>
                    else addDelegatedEnergy frozenBalance acct, increment))
            else returnM (freezeSelf isBandwidth frozenBalance expireTime acct)) (\<lambda>(acct', increment).
       let weight = (if newReward then increment else quot64 frozenBalance trxPrecision) in
       bindM (if isBandwidth then AddTotalNetWeight weight else AddTotalEnergyWeight weight) (\<lambda>_.
         AccountStore_Put cd (acct'\<lparr>ac_Balance := ac_Balance acct' - frozenBalance\<rparr>))))))))"

section \<open>UnfreezeBalance\<close>

definition Unfreeze_unpack :: "codec \<Rightarrow> Context \<Rightarrow> UnfreezeBalanceC result" where
  "Unfreeze_unpack cd = unpackE ''unpack UnfreezeBalanceContract'' (to_UnfreezeBalance cd)"

definition energyDelegateExpiry :: "Database \<Rightarrow> DelegatedResource \<Rightarrow> int64" where
  "energyDelegateExpiry d dr =
     (case AllowMultiSign d of
        Inl _ \<Rightarrow> dr_ExpireTimeForBandwidth dr
      | Inr multi \<Rightarrow> if \<not> multi then dr_ExpireTimeForBandwidth dr else dr_ExpireTimeForEnergy dr)"

definition validateDelegated :: "codec \<Rightarrow> Database \<Rightarrow> UnfreezeBalanceC \<Rightarrow> int64 \<Rightarrow> unit result" where
  "validateDelegated cd d uc now =
     (let receiver = ub_ReceiverAddress uc in
      bindE (check (receiver = ub_OwnerAddress uc)
              (Err ''actuator: receiverAddress must not be the same as ownerAddress'')) (\<lambda>_.
      bindE (checkAddress ''actuator: invalid receiverAddress'' receiver) (\<lambda>_.
      bindE (AllowTvmConstantinople d) (\<lambda>constantinople.
      bindE (case AccountStore_Get cd d receiver of
               Inl _ \<Rightarrow> if \<not> constantinople then Inl (Err ''actuator: receiver account does not exist'') else Inr ()
             | Inr _ \<Rightarrow> Inr ()) (\<lambda>_.
      bindE (case Delegated_Get cd d (ub_OwnerAddress uc) receiver of
               Inl _ \<Rightarrow> Inl (Err ''actuator: delegated Resource does not exist'') | Inr x \<Rightarrow> Inr x) (\<lambda>dr.
        case ub_Resource uc of
          BANDWIDTH \<Rightarrow>
            bindE (check (sle (dr_FrozenBalanceForBandwidth dr) 0)
                    (Err ''actuator: no delegatedFrozenBalance(BANDWIDTH)'')) (\<lambda>_.
              check (slt now (dr_ExpireTimeForBandwidth dr)) (Err ''actuator: it is not time to unfreeze''))
        | ENERGY \<Rightarrow>
            bindE (check (sle (dr_FrozenBalanceForEnergy dr) 0)
                    (Err ''actuator: no delegateFrozenBalance(Energy)'')) (\<lambda>_.
              check (slt now (energyDelegateExpiry d dr)) (Err ''actuator: it is not time to unfreeze''))
        | _ \<Rightarrow> Inl (Err ''actuator: ResourceCode error, valid ResourceCode[BANDWIDTH, Energy]'')))))))"

definition Unfreeze_Validate :: "codec \<Rightarrow> Context \<Rightarrow> Database \<Rightarrow> unit result" where
  "Unfreeze_Validate cd ctx d =
     bindE (Unfreeze_unpack cd ctx) (\<lambda>uc.
     bindE (checkAddress ''actuator: invalid owner address'' (ub_OwnerAddress uc)) (\<lambda>_.
     bindE (wrapE ''actuator: unfreeze owner account missing'' (AccountStore_Get cd d (ub_OwnerAddress uc))) (\<lambda>acct.
     bindE (LatestBlockHeaderTimestamp d) (\<lambda>now.
     bindE (delegatedForResource d (ub_ReceiverAddress uc)) (\<lambda>delegated.
       if delegated then validateDelegated cd d uc now
       else
         case ub_Resource uc of
           BANDWIDTH \<Rightarrow>
             bindE (check (length (ac_Frozen acct) = 0) (Err ''actuator: no frozenBalance(BANDWIDTH)'')) (\<lambda>_.
               check (length (filter (\<lambda>f. sle (fz_ExpireTime f) now) (ac_Frozen acct)) = 0)
                 (Err ''actuator: it is not time to unfreeze(BANDWIDTH)''))
         | ENERGY \<Rightarrow>
             (let fbe = ar_FrozenBalanceForEnergy (GetAccountResource acct) in
              bindE (check (sle (GetFrozenBalance fbe) 0) (Err ''actuator: no frozenBalance(Energy)'')) (\<lambda>_.
                check (slt now (GetExpireTime fbe)) (Err ''actuator: it is not time to unfreeze(Energy)'')))
         | _ \<Rightarrow> Inl (Err ''actuator: ResourceCode error, valid ResourceCode[BANDWIDTH, ENERGY]''))))))"

text \<open>The self-unfreeze branch: the released amount, the weight decrease and the account.\<close>

definition unfreezeSelf :: "ResourceCode \<Rightarrow> int64 \<Rightarrow> Account \<Rightarrow> int64 \<times> int64 \<times> Account" where
  "unfreezeSelf res now acct =
     (case res of
        BANDWIDTH \<Rightarrow>
          let oldW = quot64 (sumFrozen acct) trxPrecision;
              unfreeze = fold (\<lambda>f u. if sle (fz_ExpireTime f) now then u + fz_FrozenBalance f else u) (ac_Frozen acct) 0;
              acct' = acct\<lparr>ac_Frozen := filter (\<lambda>f. \<not> sle (fz_ExpireTime f) now) (ac_Frozen acct)\<rparr>
          in (unfreeze, quot64 (sumFrozen acct') trxPrecision - oldW, acct')
      | ENERGY \<Rightarrow>
          let oldW = quot64 (energyFrozen acct) trxPrecision;
              unfreeze = energyFrozen acct;
              acct' = (case ac_AccountResource acct of None \<Rightarrow> acct
                       | Some r \<Rightarrow> acct\<lparr>ac_AccountResource := Some (r\<lparr>ar_FrozenBalanceForEnergy := None\<rparr>)\<rparr>)
          in (unfreeze, - oldW, acct')
      | _ \<Rightarrow> (0, 0, acct))"

text \<open>Debiting the receiver's acquired balance; a missing receiver is dereferenced and panics.\<close>

definition debitReceiver :: "bool \<Rightarrow> bool \<Rightarrow> int64 \<Rightarrow> Account \<Rightarrow> Account \<times> int64" where
  "debitReceiver isBandwidth solidity059 unfreeze rc =
     (let acquired = (if isBandwidth then ac_AcquiredDelegatedFrozenBalanceForBandwidth rc else acquiredDelegatedEnergy rc);
          under = (solidity059 \<and> slt acquired unfreeze);
          oldW = (if under then quot64 unfreeze trxPrecision else quot64 acquired trxPrecision);
          rc' = (if isBandwidth
                 then rc\<lparr>ac_AcquiredDelegatedFrozenBalanceForBandwidth := (if under then 0 else acquired - unfreeze)\<rparr>
                 else if under then setAcquiredDelegatedEnergy 0 rc else addAcquiredDelegatedEnergy (- unfreeze) rc);
          newW = (if isBandwidth then quot64 (ac_AcquiredDelegatedFrozenBalanceForBandwidth rc') trxPrecision
                  else quot64 (acquiredDelegatedEnergy rc') trxPrecision)
      in (rc', newW - oldW))"

definition executeDelegated :: "codec \<Rightarrow> UnfreezeBalanceC \<Rightarrow> Account \<Rightarrow> bool \<Rightarrow> (Database, unit) op" where
  "executeDelegated cd uc acct newReward =
     (let owner = ub_OwnerAddress uc; receiver = ub_ReceiverAddress uc;
          isBandwidth = (ub_Resource uc = BANDWIDTH) in
      bindM (tryR (\<lambda>d. Delegated_Get cd d owner receiver)) (\<lambda>drR.
      case drR of
        Inl _ \<Rightarrow> throwM (Err ''actuator: delegated Resource does not exist'')
      | Inr dr \<Rightarrow>
        let unfreeze = (if isBandwidth then dr_FrozenBalanceForBandwidth dr else dr_FrozenBalanceForEnergy dr);
            dr' = (if isBandwidth then dr\<lparr>dr_FrozenBalanceForBandwidth := 0, dr_ExpireTimeForBandwidth := 0\<rparr>
                   else dr\<lparr>dr_FrozenBalanceForEnergy := 0, dr_ExpireTimeForEnergy := 0\<rparr>);
            acct1 = (if isBandwidth
                     then acct\<lparr>ac_DelegatedFrozenBalanceForBandwidth := ac_DelegatedFrozenBalanceForBandwidth acct - unfreeze\<rparr>
                     else addDelegatedEnergy (- unfreeze) acct) in
        bindM (readM AllowTvmConstantinople) (\<lambda>constantinople.
        bindM (readM AllowTvmSolidity059) (\<lambda>solidity059.
        bindM (tryR (\<lambda>d. AccountStore_Get cd d receiver)) (\<lambda>rcR.
        bindM (if \<not> constantinople \<or> (case rcR of Inl _ \<Rightarrow> False | Inr rc \<Rightarrow> ac_Type rc \<noteq> Contract) then
                 (case rcR of
                    Inl _ \<Rightarrow> throwM (Panic ''nil pointer dereference'')
                  | Inr rc \<Rightarrow>
                      let (rc', decrease) = debitReceiver isBandwidth solidity059 unfreeze rc in
                      bindM (AccountStore_Put cd rc') (\<lambda>_. returnM decrease))
               else returnM (quot64 (- unfreeze) trxPrecision)) (\<lambda>decrease.
        let acct2 = acct1\<lparr>ac_Balance := ac_Balance acct1 + unfreeze\<rparr> in
        bindM (if dr_FrozenBalanceForBandwidth dr' = 0 \<and> dr_FrozenBalanceForEnergy dr' = 0 then
                 bindM (Delegated_Delete owner receiver) (\<lambda>_. dropDelegationIndex cd owner receiver)
               else Delegated_Put cd dr') (\<lambda>_.
        let weight = (if newReward then decrease else quot64 (- unfreeze) trxPrecision) in
        bindM (if isBandwidth then AddTotalNetWeight weight else AddTotalEnergyWeight weight) (\<lambda>_.
          AccountStore_Put cd (acct2\<lparr>ac_Votes := []\<rparr>)))))))))"

definition Unfreeze_Execute :: "codec \<Rightarrow> Context \<Rightarrow> (Database, unit) op" where
  "Unfreeze_Execute cd ctx =
     bindM (liftM (Unfreeze_unpack cd ctx)) (\<lambda>uc.
     bindM (WithdrawReward cd (ub_OwnerAddress uc)) (\<lambda>_.
     bindM (readM (\<lambda>d. AccountStore_Get cd d (ub_OwnerAddress uc))) (\<lambda>acct.
     bindM (readM LatestBlockHeaderTimestamp) (\<lambda>now.
     bindM (readM AllowNewReward) (\<lambda>newReward.
     bindM (readM (\<lambda>d. delegatedForResource d (ub_ReceiverAddress uc))) (\<lambda>delegated.
       if delegated then executeDelegated cd uc acct newReward
       else
         let (unfreeze, decrease, acct') = unfreezeSelf (ub_Resource uc) now acct;
             acct2 = acct'\<lparr>ac_Balance := ac_Balance acct' + unfreeze\<rparr>;
             weight = (if newReward then decrease else quot64 (- unfreeze) trxPrecision) in
         bindM (case ub_Resource uc of
                  BANDWIDTH \<Rightarrow> AddTotalNetWeight weight
                | ENERGY \<Rightarrow> AddTotalEnergyWeight weight
                | _ \<Rightarrow> returnM ()) (\<lambda>_.
           AccountStore_Put cd (acct2\<lparr>ac_Votes := []\<rparr>))))))))"

section \<open>Preservation\<close>

lemma keeps_case_ResourceCode [keeps_intros]:
  "keeps P a \<Longrightarrow> keeps P b \<Longrightarrow> keeps P c \<Longrightarrow> (\<And>x. keeps P (e x)) \<Longrightarrow>
   keeps P (case r of BANDWIDTH \<Rightarrow> a | ENERGY \<Rightarrow> b | TRON_POWER \<Rightarrow> c | ResourceCode_Other x \<Rightarrow> e x)"
  by (cases r) auto

context write_inv
begin

lemma keeps_delegationIndex [keeps_intros]:
  "keeps P (addDelegationIndex c from to)"
  "keeps P (removeDelegationIndex c from to)"
  unfolding addDelegationIndex_def removeDelegationIndex_def Let_def
  by (intro keeps_intros)+

lemma keeps_delegationIndex2 [keeps_intros]:
  "keeps P (recordDelegationIndex c from to)"
  "keeps P (dropDelegationIndex c from to)"
  unfolding recordDelegationIndex_def dropDelegationIndex_def
  by (intro keeps_intros)+

lemma keeps_Freeze_delegate [keeps_intros]: "keeps P (Freeze_delegate cd from to isb bal ex)"
  unfolding Freeze_delegate_def Let_def by (intro keeps_intros)

lemma keeps_Freeze [keeps_intros]: "keeps P (Freeze_Execute cd ctx)"
  unfolding Freeze_Execute_def Let_def by (intro keeps_intros)

lemma keeps_executeDelegated [keeps_intros]: "keeps P (executeDelegated cd uc acct nr)"
  unfolding executeDelegated_def Let_def by (intro keeps_intros)

lemma keeps_Unfreeze [keeps_intros]: "keeps P (Unfreeze_Execute cd ctx)"
  unfolding Unfreeze_Execute_def Let_def by (intro keeps_intros)

end

section \<open>Index maintenance always succeeds\<close>

text \<open>Only keys of the delegation index may differ.\<close>

definition idx_only :: "Database \<Rightarrow> Database \<Rightarrow> bool" where
  "idx_only d d' \<longleftrightarrow> (\<forall>k. \<not> has_prefix delegatedIndexPrefix k \<longrightarrow> view d' k = view d k)"

lemma idx_only_refl [simp]: "idx_only d d"
  by (simp add: idx_only_def)

lemma idx_only_accounts: "idx_only d d' \<Longrightarrow> AccountStore_Get cd d' a = AccountStore_Get cd d a"
  by (simp add: idx_only_def AccountStore_Get_view has_prefix_def key_simps delegatedIndexPrefix_def ascii_simps)

lemma idx_only_props: "idx_only d d' \<Longrightarrow> same_props d d'"
  by (simp add: idx_only_def same_props_def has_prefix_def key_simps delegatedIndexPrefix_def ascii_simps)

lemma idx_only_Put: "idx_only d d' \<Longrightarrow> idx_only d (Database_Put d' (nsKey delegatedIndexPrefix k) v)"
  and idx_only_Delete: "idx_only d d' \<Longrightarrow> idx_only d (Database_Delete d' (nsKey delegatedIndexPrefix k))"
  by (auto simp: idx_only_def nsKey_def)

lemma runs_index_puts [runs_intros]:
  "codec_ok cd \<Longrightarrow> runs (idx_only d) (Index_Put cd i)"
  "codec_ok cd \<Longrightarrow> runs (idx_only d) (putEdge cd p x y z t)"
  by (auto simp: runs_def Index_Put_def putEdge_def saveMsg_Some idx_only_Put)

lemma runs_index_deletes [runs_intros]:
  "runs (idx_only d) (deleteEdge p x y)"
  "runs (idx_only d) (DbDelete (nsKey delegatedIndexPrefix x))"
  by (auto simp: runs_def deleteEdge_def idx_only_Delete)

lemma runs_convert [runs_intros]:
  assumes "codec_ok cd"
  shows "runs (idx_only d) (convertTo cd addr i ts)" and "runs (idx_only d) (convertFrom cd addr i fs)"
proof -
  show "runs (idx_only d) (convertTo cd addr i ts)"
    by (induction ts arbitrary: i)
      (simp_all add: Index_Delegate_def runs_returnM, intro runs_bindM runs_index_puts assms)
  show "runs (idx_only d) (convertFrom cd addr i fs)"
    by (induction fs arbitrary: i)
      (simp_all add: Index_Delegate_def runs_returnM, intro runs_bindM runs_index_puts assms)
qed

lemma runs_delegationIndex:
  assumes "codec_ok cd" "props_wf d"
  shows "runs (idx_only d) (recordDelegationIndex cd from to)"
    and "runs (idx_only d) (dropDelegationIndex cd from to)"
proof -
  have flag: "runs (idx_only d) (readM SupportAllowDelegateOptimization)"
    using flagOn_total [OF assms(2)]
    by (intro runs_readM) (simp add: SupportAllowDelegateOptimization_def same_props_flagOn [OF idx_only_props])
  have time: "runs (idx_only d) (readM LatestBlockHeaderTimestamp)"
    using getOr_total [OF assms(2)]
    by (intro runs_readM) (simp add: LatestBlockHeaderTimestamp_def same_props_getOr [OF idx_only_props])
  show "runs (idx_only d) (recordDelegationIndex cd from to)"
    unfolding recordDelegationIndex_def addDelegationIndex_def Index_Convert_def Index_Delegate_def Let_def
    by (intro runs_intros flag time assms)
  show "runs (idx_only d) (dropDelegationIndex cd from to)"
    unfolding dropDelegationIndex_def removeDelegationIndex_def Index_Convert_def Index_UnDelegate_def
    by (intro runs_intros flag assms)
qed

section \<open>Freezing and unfreezing conserve holdings\<close>

text \<open>Everything an account owns under Stake 1.0: spendable, frozen and delegated out.\<close>

definition v1Holdings :: "Account \<Rightarrow> int64" where
  "v1Holdings a = ac_Balance a + sumFrozen a + energyFrozen a + ac_DelegatedFrozenBalanceForBandwidth a +
     ar_DelegatedFrozenBalanceForEnergy (GetAccountResource a)"

definition acquiredV1 :: "bool \<Rightarrow> Account \<Rightarrow> int64" where
  "acquiredV1 isBandwidth a =
     (if isBandwidth then ac_AcquiredDelegatedFrozenBalanceForBandwidth a else acquiredDelegatedEnergy a)"

lemma v1_updates [simp]:
  "v1Holdings (a\<lparr>ac_Balance := b\<rparr>) = v1Holdings a - ac_Balance a + b"
  "v1Holdings (a\<lparr>ac_Votes := vs\<rparr>) = v1Holdings a"
  "v1Holdings (addDelegatedEnergy x a) = v1Holdings a + x"
  "v1Holdings (a\<lparr>ac_DelegatedFrozenBalanceForBandwidth := y\<rparr>) =
     v1Holdings a - ac_DelegatedFrozenBalanceForBandwidth a + y"
  by (simp_all add: v1Holdings_def energyFrozen_def addDelegatedEnergy_def)

lemma freezeSelf_spec:
  assumes "freezeSelf isb fb ex acct = (acct', inc)"
  shows "v1Holdings acct' = v1Holdings acct + fb" "ac_Balance acct' = ac_Balance acct" "ac_Address acct' = ac_Address acct"
  using assms
  by (auto simp: freezeSelf_def Let_def v1Holdings_def energyFrozen_def split: if_splits) (simp_all add: sumFrozen_def)

lemma addWeight_runs:
  assumes "props_wf d"
  shows "\<exists>d'. addWeight key w d = (Inr (), d') \<and> (\<forall>k. k \<noteq> nsKey propertyPrefix key \<longrightarrow> view d' k = view d k)"
proof -
  obtain v nr where "getOr d key 0 = Inr v" "AllowNewReward d = Inr nr"
    using getOr_total [OF assms] flagOn_total [OF assms] by (metis AllowNewReward_def)
  then show ?thesis
    using addWeight_spec(2) [of d key v nr w] addWeight_frame [of _ key w d] by (metis prod.collapse)
qed

lemma add_weights_run:
  assumes "props_wf d"
  shows "\<exists>d'. (if b then AddTotalNetWeight w else AddTotalEnergyWeight w) d = (Inr (), d') \<and>
    (\<forall>a. AccountStore_Get cd d' a = AccountStore_Get cd d a)"
proof -
  obtain d' where d': "addWeight (if b then propTotalNetWeight else propTotalEnergyWeight) w d = (Inr (), d')"
    "\<And>k. k \<noteq> nsKey propertyPrefix (if b then propTotalNetWeight else propTotalEnergyWeight) \<Longrightarrow> view d' k = view d k"
    using addWeight_runs [OF assms] by blast
  have "AccountStore_Get cd d' a = AccountStore_Get cd d a" for a
    using d'(2) [of "nsKey accountPrefix a"] by (simp add: AccountStore_Get_view key_simps)
  with d'(1) show ?thesis
    by (auto simp: AddTotalNetWeight_def AddTotalEnergyWeight_def)
qed

lemma Freeze_delegate_spec:
  assumes "codec_ok cd" "props_wf d" "AccountStore_Get cd d to = Inr rc" "ac_Address rc = to"
  shows "\<exists>inc d' rc'. Freeze_delegate cd from to isb bal ex d = (Inr inc, d') \<and> same_props d d' \<and>
    AccountStore_Get cd d' to = Inr rc' \<and> acquiredV1 isb rc' = acquiredV1 isb rc + bal \<and>
    (\<forall>a. a \<noteq> to \<longrightarrow> AccountStore_Get cd d' a = AccountStore_Get cd d a)"
proof -
  define dr where "dr = (case Delegated_Get cd d from to of Inl _ \<Rightarrow> zero_DelegatedResource\<lparr>dr_From := from, dr_To := to\<rparr> | Inr x \<Rightarrow> x)"
  define dr' where "dr' = (if isb then dr\<lparr>dr_FrozenBalanceForBandwidth := dr_FrozenBalanceForBandwidth dr + bal,
                         dr_ExpireTimeForBandwidth := ex\<rparr>
                  else dr\<lparr>dr_FrozenBalanceForEnergy := dr_FrozenBalanceForEnergy dr + bal, dr_ExpireTimeForEnergy := ex\<rparr>)"
  define d1 where "d1 = snd (Delegated_Put cd dr' d)"
  have put: "Delegated_Put cd dr' d = (Inr (), d1)"
    using assms(1) by (simp add: d1_def Delegated_Put_def saveMsg_Some)
  have d1: "\<And>a. AccountStore_Get cd d1 a = AccountStore_Get cd d a" "same_props d d1"
    using assms(1) by (simp_all add: d1_def Delegated_Put_def saveMsg_Some AccountStore_Get_view same_props_def key_simps)
  have wf1: "props_wf d1" using assms(2) d1(2) by (rule same_props_wf)
  obtain d2 where d2: "recordDelegationIndex cd from to d1 = (Inr (), d2)" "idx_only d1 d2"
    using runsD [OF runs_delegationIndex(1) [OF assms(1) wf1, of "from" to], of d1] by auto
  define rc' where "rc' = (if isb then rc\<lparr>ac_AcquiredDelegatedFrozenBalanceForBandwidth :=
      ac_AcquiredDelegatedFrozenBalanceForBandwidth rc + bal\<rparr> else addAcquiredDelegatedEnergy bal rc)"
  have rc': "ac_Address rc' = to" "acquiredV1 isb rc' = acquiredV1 isb rc + bal"
    using assms(4) by (simp_all add: rc'_def acquiredV1_def addAcquiredDelegatedEnergy_def acquiredDelegatedEnergy_def)
  define d3 where "d3 = Database_Put d2 (nsKey accountPrefix to) (enc_Account cd rc')"
  have get2: "AccountStore_Get cd d2 a = AccountStore_Get cd d a" for a
    using d2(2) d1(1) by (simp add: idx_only_accounts)
  have props: "same_props d d3"
    using d1(2) idx_only_props [OF d2(2)] by (simp add: d3_def same_props_def key_simps)
  have "\<exists>inc. Freeze_delegate cd from to isb bal ex d = (Inr inc, d3)"
    using put d2(1) get2 assms(1,3) rc'(1) unfolding dr'_def rc'_def d3_def dr_def
    by (cases isb) (simp_all add: Freeze_delegate_def Let_def bindM_def)
  moreover have "AccountStore_Get cd d3 a = (if a = to then Inr rc' else AccountStore_Get cd d a)" for a
    using assms(1) get2 by (simp add: d3_def)
  ultimately show ?thesis using props rc'(2) by auto
qed

text \<open>Both branches end by adding the weight and storing the debited owner.\<close>

lemma freeze_finish:
  assumes "codec_ok cd" "props_wf d1" "ac_Address acct1 = owner"
  shows "\<exists>d'. bindM (if isb then AddTotalNetWeight w else AddTotalEnergyWeight w)
        (\<lambda>_. AccountStore_Put cd (acct1\<lparr>ac_Balance := ac_Balance acct1 - fb\<rparr>)) d1 = (Inr (), d') \<and>
      (\<forall>a. AccountStore_Get cd d' a = (if a = owner then Inr (acct1\<lparr>ac_Balance := ac_Balance acct1 - fb\<rparr>) else AccountStore_Get cd d1 a))"
  using add_weights_run [OF assms(2), of isb w cd] assms(1,3) by (auto simp: bindM_def)

lemma Freeze_self_run:
  assumes "codec_ok cd" "props_wf d" "Freeze_unpack cd ctx = Inr fc" "AccountStore_Get cd d (fb_OwnerAddress fc) = Inr acct"
    and "ac_Address acct = fb_OwnerAddress fc" "delegatedForResource d (fb_ReceiverAddress fc) = Inr False"
    and "LatestBlockHeaderTimestamp d = Inr now" "AllowNewReward d = Inr nr"
  shows "\<exists>d' acct'. Freeze_Execute cd ctx d = (Inr (), d') \<and> AccountStore_Get cd d' (fb_OwnerAddress fc) = Inr acct' \<and>
    v1Holdings acct' = v1Holdings acct \<and> ac_Balance acct' = ac_Balance acct - fb_FrozenBalance fc"
proof -
  let ?fb = "fb_FrozenBalance fc" and ?isb = "fb_Resource fc = BANDWIDTH"
  define ex where "ex = now + fb_FrozenDuration fc * frozenPeriodMs"
  obtain acct1 inc where s: "freezeSelf ?isb ?fb ex acct = (acct1, inc)" by (cases "freezeSelf ?isb ?fb ex acct")
  note fs = freezeSelf_spec [OF s]
  define w where "w = (if nr then inc else quot64 ?fb trxPrecision)"
  from freeze_finish [OF assms(1,2), of acct1 "fb_OwnerAddress fc" ?isb w ?fb] fs(3) assms(5) obtain d' where d':
    "bindM (if ?isb then AddTotalNetWeight w else AddTotalEnergyWeight w)
      (\<lambda>_. AccountStore_Put cd (acct1\<lparr>ac_Balance := ac_Balance acct1 - ?fb\<rparr>)) d = (Inr (), d')"
    "AccountStore_Get cd d' (fb_OwnerAddress fc) = Inr (acct1\<lparr>ac_Balance := ac_Balance acct1 - ?fb\<rparr>)" by auto
  have "Freeze_Execute cd ctx d = (Inr (), d')"
    using assms(3,4,6-8) s d'(1) unfolding w_def ex_def by (simp add: Freeze_Execute_def Let_def split del: if_split)
  then show ?thesis using d'(2) fs by auto
qed

lemma Freeze_delegated_run:
  assumes "codec_ok cd" "props_wf d" "Freeze_unpack cd ctx = Inr fc" "AccountStore_Get cd d (fb_OwnerAddress fc) = Inr acct"
    and "ac_Address acct = fb_OwnerAddress fc" "delegatedForResource d (fb_ReceiverAddress fc) = Inr True"
    and "LatestBlockHeaderTimestamp d = Inr now" "AllowNewReward d = Inr nr"
    and "AccountStore_Get cd d (fb_ReceiverAddress fc) = Inr rc" "ac_Address rc = fb_ReceiverAddress fc" "fb_ReceiverAddress fc \<noteq> fb_OwnerAddress fc"
  shows "\<exists>d' acct' rc'. Freeze_Execute cd ctx d = (Inr (), d') \<and> AccountStore_Get cd d' (fb_OwnerAddress fc) = Inr acct' \<and>
    v1Holdings acct' = v1Holdings acct \<and> ac_Balance acct' = ac_Balance acct - fb_FrozenBalance fc \<and>
    AccountStore_Get cd d' (fb_ReceiverAddress fc) = Inr rc' \<and>
    acquiredV1 (fb_Resource fc = BANDWIDTH) rc' = acquiredV1 (fb_Resource fc = BANDWIDTH) rc + fb_FrozenBalance fc"
proof -
  let ?fb = "fb_FrozenBalance fc" and ?owner = "fb_OwnerAddress fc" and ?recv = "fb_ReceiverAddress fc"
  let ?isb = "fb_Resource fc = BANDWIDTH"
  define ex where "ex = now + fb_FrozenDuration fc * frozenPeriodMs"
  from Freeze_delegate_spec [OF assms(1,2,9,10), of ?owner ?isb ?fb ex] obtain inc d1 rc' where
    del: "Freeze_delegate cd ?owner ?recv ?isb ?fb ex d = (Inr inc, d1)" "same_props d d1"
      "AccountStore_Get cd d1 ?recv = Inr rc'" "acquiredV1 ?isb rc' = acquiredV1 ?isb rc + ?fb"
    by blast
  define acct1 where "acct1 = (if ?isb then acct\<lparr>ac_DelegatedFrozenBalanceForBandwidth :=
      ac_DelegatedFrozenBalanceForBandwidth acct + ?fb\<rparr> else addDelegatedEnergy ?fb acct)"
  have a1: "v1Holdings acct1 = v1Holdings acct + ?fb" "ac_Balance acct1 = ac_Balance acct" "ac_Address acct1 = ?owner"
    using assms(5) by (simp_all add: acct1_def) (simp_all add: addDelegatedEnergy_def)
  define w where "w = (if nr then inc else quot64 ?fb trxPrecision)"
  from freeze_finish [OF assms(1) same_props_wf [OF assms(2) del(2)] a1(3), of ?isb w ?fb] obtain d' where
    fin: "bindM (if ?isb then AddTotalNetWeight w else AddTotalEnergyWeight w)
      (\<lambda>_. AccountStore_Put cd (acct1\<lparr>ac_Balance := ac_Balance acct1 - ?fb\<rparr>)) d1 = (Inr (), d')"
    "\<And>a. AccountStore_Get cd d' a = (if a = ?owner then Inr (acct1\<lparr>ac_Balance := ac_Balance acct1 - ?fb\<rparr>)
       else AccountStore_Get cd d1 a)" by blast
  have "Freeze_Execute cd ctx d = (Inr (), d')"
    using assms(3,4,6-8) fin(1) del(1) unfolding w_def ex_def acct1_def
    by (simp add: Freeze_Execute_def Let_def bindM_assoc bindM_Inr split del: if_split)
  then show ?thesis using a1 assms(11) fin(2) del(3,4) by auto
qed

text \<open>
  C20: A validated Stake 1.0 freeze succeeds, takes exactly the frozen amount out of a sufficient
  balance, and loses nothing: the owner's balance, frozen stake and delegated-out stake together are
  unchanged. With a receiver and delegation enabled, the receiver's acquired balance for the
  resource grows by the amount.
\<close>

theorem Freeze_conserves:
  assumes "codec_ok cd" "accounts_keyed cd d" "props_wf d" "Freeze_Validate cd ctx d = Inr ()"
    and "Freeze_unpack cd ctx = Inr fc" "AccountStore_Get cd d (fb_OwnerAddress fc) = Inr acct"
  shows "\<exists>d' acct'. Freeze_Execute cd ctx d = (Inr (), d') \<and>
    AccountStore_Get cd d' (fb_OwnerAddress fc) = Inr acct' \<and>
    v1Holdings acct' = v1Holdings acct \<and>
    sint (ac_Balance acct') = sint (ac_Balance acct) - sint (fb_FrozenBalance fc) \<and> 0 \<le> sint (ac_Balance acct') \<and>
    (delegatedForResource d (fb_ReceiverAddress fc) = Inr True \<longrightarrow>
       (\<exists>rc rc'. AccountStore_Get cd d (fb_ReceiverAddress fc) = Inr rc \<and>
          AccountStore_Get cd d' (fb_ReceiverAddress fc) = Inr rc' \<and>
          acquiredV1 (fb_Resource fc = BANDWIDTH) rc' = acquiredV1 (fb_Resource fc = BANDWIDTH) rc + fb_FrozenBalance fc))"
proof -
  let ?fb = "fb_FrozenBalance fc" and ?owner = "fb_OwnerAddress fc" and ?recv = "fb_ReceiverAddress fc"
  have amount: "0 < sint ?fb" "sint ?fb \<le> sint (ac_Balance acct)"
    using assms(4,5,6) by (auto simp: Freeze_Validate_def bindE_eq_Inr Let_def scmp_defs split: if_splits)
  have bal: "sint (ac_Balance acct - ?fb) = sint (ac_Balance acct) - sint ?fb"
    using amount sint64_upper [of "ac_Balance acct"] by (intro sint64_sub) (simp add: in_int64_def)
  have addr: "ac_Address acct = ?owner" using accounts_keyedD [OF assms(2,6)] .
  obtain now nr dl where reads: "LatestBlockHeaderTimestamp d = Inr now" "AllowNewReward d = Inr nr"
    "delegatedForResource d ?recv = Inr dl"
    using getOr_total [OF assms(3)] flagOn_total [OF assms(3)]
    unfolding LatestBlockHeaderTimestamp_def AllowNewReward_def delegatedForResource_def SupportDR_def by metis
  show ?thesis
  proof (cases dl)
    case False
    then show ?thesis using Freeze_self_run [OF assms(1,3,5,6) addr _ reads(1,2)] reads(3) bal amount by auto
  next
    case True
    then obtain rc where rc: "AccountStore_Get cd d ?recv = Inr rc" "?recv \<noteq> ?owner"
      using assms(4,5,6) reads(3)
      by (auto simp: Freeze_Validate_def bindE_eq_Inr Let_def split: if_splits sum.splits)
    have "ac_Address rc = ?recv" using accounts_keyedD [OF assms(2) rc(1)] .
    from Freeze_delegated_run [OF assms(1,3,5,6) addr _ reads(1,2) rc(1) this rc(2)] True reads(3) rc(1) bal amount
    show ?thesis by auto
  qed
qed

lemma fold_plus_sum: "fold (\<lambda>x t. t + g x) xs s = s + sum_list (map g xs)" for g :: "'a \<Rightarrow> int64"
  by (induction xs arbitrary: s) (simp_all add: add.assoc)

lemma sumFrozen_sum: "sumFrozen a = sum_list (map fz_FrozenBalance (ac_Frozen a))"
  by (simp add: sumFrozen_def fold_plus_sum)

lemma released_sum:
  "fold (\<lambda>f u. if sle (fz_ExpireTime f) now then u + fz_FrozenBalance f else u) fs s =
     s + sum_list (map fz_FrozenBalance (filter (\<lambda>f. sle (fz_ExpireTime f) now) fs))"
  by (induction fs arbitrary: s) (simp_all add: add.assoc)

lemma partition_sum: "sum_list (map g (filter Q xs)) + sum_list (map g (filter (\<lambda>x. \<not> Q x) xs)) = sum_list (map g xs)"
  for g :: "'a \<Rightarrow> int64"
  by (induction xs) (simp_all add: algebra_simps)

lemma unfreezeSelf_spec:
  assumes "unfreezeSelf res now acct = (u, dec, acct')"
  shows "v1Holdings acct' + u = v1Holdings acct" "ac_Balance acct' = ac_Balance acct" "ac_Address acct' = ac_Address acct"
    and "res = BANDWIDTH \<Longrightarrow> u = sum_list (map fz_FrozenBalance (filter (\<lambda>f. sle (fz_ExpireTime f) now) (ac_Frozen acct)))"
    and "res = ENERGY \<Longrightarrow> u = energyFrozen acct" and "ac_Allowance acct' = ac_Allowance acct"
  using assms partition_sum [of fz_FrozenBalance "\<lambda>f. sle (fz_ExpireTime f) now" "ac_Frozen acct"]
  by (auto simp: unfreezeSelf_def Let_def v1Holdings_def sumFrozen_sum energyFrozen_def released_sum algebra_simps
        GetAccountResource_def zero_AccountResource_def split: ResourceCode.splits option.splits)

lemma cleanup_runs:
  assumes "codec_ok cd" "props_wf d"
  shows "\<exists>d'. (if b then bindM (Delegated_Delete ow rcv) (\<lambda>_. dropDelegationIndex cd ow rcv) else Delegated_Put cd dr) d =
      (Inr (), d') \<and> same_props d d' \<and> (\<forall>a. AccountStore_Get cd d' a = AccountStore_Get cd d a)"
proof (cases b)
  case True
  let ?d1 = "snd (Delegated_Delete ow rcv d)"
  have d1: "Delegated_Delete ow rcv d = (Inr (), ?d1)" "same_props d ?d1"
    "\<And>a. AccountStore_Get cd ?d1 a = AccountStore_Get cd d a"
    by (simp_all add: Delegated_Delete_def same_props_def AccountStore_Get_view key_simps)
  obtain d2 where d2: "dropDelegationIndex cd ow rcv ?d1 = (Inr (), d2)" "idx_only ?d1 d2"
    using runsD [OF runs_delegationIndex(2) [OF assms(1) same_props_wf [OF assms(2) d1(2)], of ow rcv], of ?d1] by auto
  have "same_props d d2" using d1(2) idx_only_props [OF d2(2)] by (simp add: same_props_def)
  moreover have "AccountStore_Get cd d2 a = AccountStore_Get cd d a" for a
    using idx_only_accounts [OF d2(2)] d1(3) by simp
  ultimately show ?thesis using True d1(1) d2(1) by (simp add: bindM_Inr)
next
  case False
  then show ?thesis using assms(1)
    by (simp add: Delegated_Put_def saveMsg_Some same_props_def AccountStore_Get_view key_simps)
qed

lemma debitReceiver_addr: "debitReceiver isb s u rc = (rc', dec) \<Longrightarrow> ac_Address rc' = ac_Address rc"
  by (auto simp: debitReceiver_def Let_def setAcquiredDelegatedEnergy_def addAcquiredDelegatedEnergy_def split: if_splits)

lemma executeDelegated_spec:
  assumes "codec_ok cd" "accounts_keyed cd d" "props_wf d" "validateDelegated cd d uc now = Inr ()"
    and "ac_Address acct = ub_OwnerAddress uc"
  shows "\<exists>d' acct'. executeDelegated cd uc acct nr d = (Inr (), d') \<and>
    AccountStore_Get cd d' (ub_OwnerAddress uc) = Inr acct' \<and> v1Holdings acct' = v1Holdings acct \<and> ac_Votes acct' = [] \<and>
    ac_Allowance acct' = ac_Allowance acct"
proof -
  let ?ow = "ub_OwnerAddress uc" and ?rcv = "ub_ReceiverAddress uc" and ?isb = "ub_Resource uc = BANDWIDTH"
  obtain con where con: "AllowTvmConstantinople d = Inr con"
    using flagOn_total [OF assms(3)] unfolding AllowTvmConstantinople_def by metis
  obtain dr where dr: "Delegated_Get cd d ?ow ?rcv = Inr dr" "?rcv \<noteq> ?ow" "AllowTvmConstantinople d = Inr con"
    using assms(4) con
    by (cases "Delegated_Get cd d ?ow ?rcv") (auto simp: validateDelegated_def Let_def bindE_eq_Inr split: if_splits)
  have exists: "con \<or> (\<exists>rc. AccountStore_Get cd d ?rcv = Inr rc)"
    using assms(4) con
    by (cases "AccountStore_Get cd d ?rcv") (auto simp: validateDelegated_def Let_def bindE_eq_Inr split: if_splits)
  obtain sol where sol: "AllowTvmSolidity059 d = Inr sol"
    using flagOn_total [OF assms(3)] unfolding AllowTvmSolidity059_def by metis
  define u where "u = (if ?isb then dr_FrozenBalanceForBandwidth dr else dr_FrozenBalanceForEnergy dr)"
  define dr' where "dr' = (if ?isb then dr\<lparr>dr_FrozenBalanceForBandwidth := 0, dr_ExpireTimeForBandwidth := 0\<rparr>
       else dr\<lparr>dr_FrozenBalanceForEnergy := 0, dr_ExpireTimeForEnergy := 0\<rparr>)"
  define acct1 where "acct1 = (if ?isb
       then acct\<lparr>ac_DelegatedFrozenBalanceForBandwidth := ac_DelegatedFrozenBalanceForBandwidth acct - u\<rparr>
       else addDelegatedEnergy (- u) acct)"
  define debit where "debit = (if \<not> con \<or> (case AccountStore_Get cd d ?rcv of Inl _ \<Rightarrow> False | Inr rc \<Rightarrow> ac_Type rc \<noteq> Contract) then
       (case AccountStore_Get cd d ?rcv of
          Inl _ \<Rightarrow> throwM (Panic ''nil pointer dereference'')
        | Inr rc \<Rightarrow>
            let (rc', decrease) = debitReceiver ?isb sol u rc in
            bindM (AccountStore_Put cd rc') (\<lambda>_. returnM decrease))
     else returnM (quot64 (- u) trxPrecision))"
  have "\<exists>dec d1. debit d = (Inr dec, d1) \<and> same_props d d1"
  proof (cases "AccountStore_Get cd d ?rcv")
    case (Inl e)
    with exists show ?thesis by (auto simp: debit_def same_props_def)
  next
    case (Inr rc)
    obtain rc' dec where db: "debitReceiver ?isb sol u rc = (rc', dec)" by (cases "debitReceiver ?isb sol u rc")
    with Inr assms(1) show ?thesis by (simp add: debit_def bindM_Inr same_props_def key_simps)
  qed
  then obtain dec d1 where d1: "debit d = (Inr dec, d1)" "same_props d d1" by blast
  note wf1 = same_props_wf [OF assms(3) d1(2)]
  obtain d2 where d2: "(if dr_FrozenBalanceForBandwidth dr' = 0 \<and> dr_FrozenBalanceForEnergy dr' = 0
        then bindM (Delegated_Delete ?ow ?rcv) (\<lambda>_. dropDelegationIndex cd ?ow ?rcv) else Delegated_Put cd dr') d1 =
      (Inr (), d2)" "same_props d1 d2"
    using cleanup_runs [OF assms(1) wf1] by blast
  define w where "w = (if nr then dec else quot64 (- u) trxPrecision)"
  obtain d3 where d3: "(if ?isb then AddTotalNetWeight w else AddTotalEnergyWeight w) d2 = (Inr (), d3)"
    using add_weights_run [OF same_props_wf [OF wf1 d2(2)]] by blast
  define acct2 where "acct2 = acct1\<lparr>ac_Balance := ac_Balance acct1 + u, ac_Votes := []\<rparr>"
  have a2: "ac_Address acct2 = ?ow" "v1Holdings acct2 = v1Holdings acct" "ac_Votes acct2 = []" "ac_Allowance acct2 = ac_Allowance acct"
    using assms(5) by (simp_all add: acct2_def acct1_def addDelegatedEnergy_def) (simp add: v1Holdings_def energyFrozen_def)
  have "executeDelegated cd uc acct nr d = (Inr (), Database_Put d3 (nsKey accountPrefix ?ow) (enc_Account cd acct2))"
    using dr(1,3) sol d1(1) d2(1) d3 assms(1) a2(1)
    unfolding debit_def w_def acct2_def acct1_def dr'_def u_def
    by (simp add: executeDelegated_def Let_def bindM_Inr split del: if_split)
  then show ?thesis using a2 assms(1) by simp
qed

text \<open>The unfreeze after the settlement of the owner's rewards, which took \<open>d0\<close> to \<open>d\<close>.\<close>

lemma Unfreeze_run:
  assumes "codec_ok cd" "accounts_keyed cd d" "props_wf d"
    and "Unfreeze_Validate cd ctx d = Inr ()" "Unfreeze_unpack cd ctx = Inr uc"
    and "AccountStore_Get cd d (ub_OwnerAddress uc) = Inr acct" "LatestBlockHeaderTimestamp d = Inr now"
    and "WithdrawReward cd (ub_OwnerAddress uc) d0 = (Inr (), d)"
  shows "\<exists>d' acct'. Unfreeze_Execute cd ctx d0 = (Inr (), d') \<and>
    AccountStore_Get cd d' (ub_OwnerAddress uc) = Inr acct' \<and> v1Holdings acct' = v1Holdings acct \<and> ac_Votes acct' = [] \<and>
    ac_Allowance acct' = ac_Allowance acct \<and>
    (delegatedForResource d (ub_ReceiverAddress uc) = Inr False \<longrightarrow> ac_Balance acct' - ac_Balance acct =
       (if ub_Resource uc = BANDWIDTH
        then sum_list (map fz_FrozenBalance (filter (\<lambda>f. sle (fz_ExpireTime f) now) (ac_Frozen acct)))
        else energyFrozen acct))"
proof -
  let ?ow = "ub_OwnerAddress uc"
  have addr: "ac_Address acct = ?ow" using accounts_keyedD [OF assms(2,6)] .
  obtain nr dl where reads: "AllowNewReward d = Inr nr" "delegatedForResource d (ub_ReceiverAddress uc) = Inr dl"
    using flagOn_total [OF assms(3)] unfolding AllowNewReward_def delegatedForResource_def SupportDR_def by metis
  show ?thesis
  proof (cases dl)
    case True
    then have "validateDelegated cd d uc now = Inr ()"
      using assms(4-7) reads by (auto simp: Unfreeze_Validate_def bindE_eq_Inr)
    from executeDelegated_spec [OF assms(1-3) this addr, of nr] show ?thesis
      using True assms(8) reads assms(5-7) by (auto simp: Unfreeze_Execute_def bindM_Inr)
  next
    case False
    then have res: "ub_Resource uc = BANDWIDTH \<or> ub_Resource uc = ENERGY"
      using assms(4-7) reads by (auto simp: Unfreeze_Validate_def bindE_eq_Inr split: ResourceCode.splits)
    obtain u dec acct1 where un: "unfreezeSelf (ub_Resource uc) now acct = (u, dec, acct1)"
      by (cases "unfreezeSelf (ub_Resource uc) now acct")
    note us = unfreezeSelf_spec [OF un]
    define w where "w = (if nr then dec else quot64 (- u) trxPrecision)"
    obtain d1 where d1: "(if ub_Resource uc = BANDWIDTH then AddTotalNetWeight w else AddTotalEnergyWeight w) d = (Inr (), d1)"
      using add_weights_run [OF assms(3)] by blast
    define acct2 where "acct2 = acct1\<lparr>ac_Balance := ac_Balance acct1 + u, ac_Votes := []\<rparr>"
    have a2: "ac_Address acct2 = ?ow" "v1Holdings acct2 = v1Holdings acct" "ac_Votes acct2 = []"
      "ac_Balance acct2 = ac_Balance acct + u" "ac_Allowance acct2 = ac_Allowance acct"
      using us addr by (simp_all add: acct2_def)
    have "Unfreeze_Execute cd ctx d0 = (Inr (), Database_Put d1 (nsKey accountPrefix ?ow) (enc_Account cd acct2))"
      using res assms(8) reads assms(1,5-7) False un d1 a2(1) unfolding w_def acct2_def
      by (elim disjE) (simp_all add: Unfreeze_Execute_def Let_def bindM_Inr split del: if_split)
    then show ?thesis using a2 us(4,5) res assms(1) by auto
  qed
qed

text \<open>Validation does not look at what a settlement changes.\<close>

lemma allowance_other [simp]:
  "v1Holdings (a\<lparr>ac_Allowance := al\<rparr>) = v1Holdings a" "energyFrozen (a\<lparr>ac_Allowance := al\<rparr>) = energyFrozen a"
  "GetAccountResource (a\<lparr>ac_Allowance := al\<rparr>) = GetAccountResource a"
  by (simp_all add: v1Holdings_def sumFrozen_def energyFrozen_def GetAccountResource_def)

lemma reward_only_Delegated: "reward_only addr d d' \<Longrightarrow> Delegated_Get cd d' a b = Delegated_Get cd d a b"
  by (simp add: reward_only_def Delegated_Get_def loadMsg_view has_prefix_def dgSpace_def ascii_simps key_simps)

lemma settled_delegatedForResource: "same_props d d' \<Longrightarrow> delegatedForResource d' a = delegatedForResource d a"
  by (simp add: delegatedForResource_def SupportDR_def same_props_flagOn)

lemma settled_validateDelegated:
  assumes "reward_only (ub_OwnerAddress uc) d d1"
  shows "validateDelegated cd d1 uc now = validateDelegated cd d uc now"
proof (cases "ub_ReceiverAddress uc = ub_OwnerAddress uc")
  case False
  have "energyDelegateExpiry d1 dr = energyDelegateExpiry d dr" "AllowTvmConstantinople d1 = AllowTvmConstantinople d" for dr
    by (simp_all add: energyDelegateExpiry_def AllowTvmConstantinople_def AllowMultiSign_def
        same_props_flagOn [OF reward_only_props [OF assms]])
  then show ?thesis using reward_only_accounts [OF assms False] reward_only_Delegated [OF assms]
    by (cases "ub_Resource uc") (simp_all add: validateDelegated_def Let_def)
qed (simp add: validateDelegated_def Let_def)

lemma settled_Unfreeze_Validate:
  assumes "reward_only (ub_OwnerAddress uc) d d1" "Unfreeze_unpack cd ctx = Inr uc"
    and "AccountStore_Get cd d (ub_OwnerAddress uc) = Inr acct"
    and "AccountStore_Get cd d1 (ub_OwnerAddress uc) = Inr (acct\<lparr>ac_Allowance := al\<rparr>)"
  shows "Unfreeze_Validate cd ctx d1 = Unfreeze_Validate cd ctx d"
  using assms(2-4) settled_validateDelegated [OF assms(1)] reward_only_props [OF assms(1)]
  by (cases "ub_Resource uc") (simp_all add: Unfreeze_Validate_def settled_delegatedForResource LatestBlockHeaderTimestamp_def
      same_props_getOr cong: if_cong)

text \<open>
  C21: A validated Stake 1.0 unfreeze, direct or delegated, succeeds without panicking. It first settles
  the owner's vote rewards, and the allowance is what the settlement leaves; it then returns exactly
  the released stake to the owner (balance, frozen and delegated-out stake together are unchanged) and
  leaves the owner without votes. A direct unfreeze of bandwidth releases exactly the expired entries,
  one of energy the whole energy stake.
\<close>

theorem Unfreeze_conserves:
  assumes "codec_ok cd" "accounts_keyed cd d" "props_wf d" "delegation_wf d"
    and "Unfreeze_Validate cd ctx d = Inr ()" "Unfreeze_unpack cd ctx = Inr uc"
    and "AccountStore_Get cd d (ub_OwnerAddress uc) = Inr acct" "LatestBlockHeaderTimestamp d = Inr now"
  shows "\<exists>d1 al d' acct'. WithdrawReward cd (ub_OwnerAddress uc) d = (Inr (), d1) \<and>
    AccountStore_Get cd d1 (ub_OwnerAddress uc) = Inr (acct\<lparr>ac_Allowance := al\<rparr>) \<and> Unfreeze_Execute cd ctx d = (Inr (), d') \<and>
    AccountStore_Get cd d' (ub_OwnerAddress uc) = Inr acct' \<and> v1Holdings acct' = v1Holdings acct \<and> ac_Votes acct' = [] \<and>
    ac_Allowance acct' = al \<and>
    (delegatedForResource d (ub_ReceiverAddress uc) = Inr False \<longrightarrow> ac_Balance acct' - ac_Balance acct =
       (if ub_Resource uc = BANDWIDTH
        then sum_list (map fz_FrozenBalance (filter (\<lambda>f. sle (fz_ExpireTime f) now) (ac_Frozen acct)))
        else energyFrozen acct))"
proof -
  let ?ow = "ub_OwnerAddress uc"
  from settlement [OF assms(1-4,7)] obtain d1 al where
    st: "WithdrawReward cd ?ow d = (Inr (), d1)" "reward_only ?ow d d1" "same_props d d1" "props_wf d1" "accounts_keyed cd d1"
      "AccountStore_Get cd d1 ?ow = Inr (acct\<lparr>ac_Allowance := al\<rparr>)" .
  have v: "Unfreeze_Validate cd ctx d1 = Inr ()" using settled_Unfreeze_Validate [OF st(2) assms(6,7) st(6)] assms(5) by simp
  have now: "LatestBlockHeaderTimestamp d1 = Inr now"
    using assms(8) by (simp add: LatestBlockHeaderTimestamp_def same_props_getOr [OF st(3)])
  from Unfreeze_run [OF assms(1) st(5,4) v assms(6) st(6) now st(1)] show ?thesis
    unfolding settled_delegatedForResource [OF st(3)]
    using st(1,6) by - (rule exI [of _ d1], rule exI [of _ al], simp cong: if_cong split del: if_split)
qed

theorem Freeze_conserves_witness:
  "\<exists>d' acct'. Freeze_Execute ref_codec (sampleCtx FreezeBalanceContract (pack 2 fmt_FreezeBalance
      \<lparr>fb_OwnerAddress = 65 # replicate 20 1, fb_FrozenBalance = 2000000, fb_FrozenDuration = 3,
       fb_Resource = BANDWIDTH, fb_ReceiverAddress = []\<rparr>)) (sampleDb [sampleAccount 1 5000000]) = (Inr (), d') \<and>
    AccountStore_Get ref_codec d' (65 # replicate 20 1) = Inr acct' \<and> sint (ac_Balance acct') = 3000000"
proof -
  let ?c = "\<lparr>fb_OwnerAddress = 65 # replicate 20 1, fb_FrozenBalance = 2000000, fb_FrozenDuration = 3,
       fb_Resource = BANDWIDTH, fb_ReceiverAddress = []\<rparr> :: FreezeBalanceC"
  let ?ctx = "sampleCtx FreezeBalanceContract (pack 2 fmt_FreezeBalance ?c)" and ?d = "sampleDb [sampleAccount 1 5000000]"
  have u: "Freeze_unpack ref_codec ?ctx = Inr ?c" by (simp add: Freeze_unpack_def unpackE_def)
  have g: "AccountStore_Get ref_codec ?d (fb_OwnerAddress ?c) = Inr (sampleAccount 1 5000000)" by simp
  have v: "Freeze_Validate ref_codec ?ctx ?d = Inr ()"
    by (simp add: Freeze_Validate_def u scmp_defs trxPrecision_def checkAddress_def MinFrozenTime_def MaxFrozenTime_def
        delegatedForResource_def SupportUnfreezeDelay_def Let_def)
      (simp add: sampleAccount_def zero_Account_def)
  show ?thesis
    using Freeze_conserves [OF ref_codec_ok sampleDb_keyed _ v u g] by auto
qed

definition frozenAccount :: Account where
  "frozenAccount = (sampleAccount 1 7)\<lparr>ac_Frozen := [\<lparr>fz_FrozenBalance = 2000000, fz_ExpireTime = 0\<rparr>]\<rparr>"

definition frozenVoter :: Account where
  "frozenVoter = frozenAccount\<lparr>ac_Allowance := 7, ac_Votes := [\<lparr>v_VoteAddress = 65 # replicate 20 9, v_VoteCount = 3\<rparr>]\<rparr>"

lemma frozenVoter_simps [simp]: "ac_Address frozenVoter = 65 # replicate 20 1" "ac_Balance frozenVoter = 7"
  "ac_Frozen frozenVoter = [\<lparr>fz_FrozenBalance = 2000000, fz_ExpireTime = 0\<rparr>]" "ac_Allowance frozenVoter = 7"
  "ac_Votes frozenVoter = [\<lparr>v_VoteAddress = 65 # replicate 20 9, v_VoteCount = 3\<rparr>]"
  by (simp_all add: frozenVoter_def frozenAccount_def)

text \<open>With a reward of 23 pending, an unfreeze of the expired stake settles it and pays the stake out.\<close>

theorem Unfreeze_conserves_witness:
  "\<exists>d' acct'. Unfreeze_Execute ref_codec (sampleCtx UnfreezeBalanceContract (pack 3 fmt_UnfreezeBalance
      \<lparr>ub_OwnerAddress = 65 # replicate 20 1, ub_Resource = BANDWIDTH, ub_ReceiverAddress = []\<rparr>))
      (withRewards (sampleDb [frozenVoter])) = (Inr (), d') \<and>
    AccountStore_Get ref_codec d' (65 # replicate 20 1) = Inr acct' \<and> ac_Balance acct' - 7 = 2000000 \<and> ac_Allowance acct' = 30"
proof -
  let ?c = "\<lparr>ub_OwnerAddress = 65 # replicate 20 1, ub_Resource = BANDWIDTH, ub_ReceiverAddress = []\<rparr>"
  let ?ctx = "sampleCtx UnfreezeBalanceContract (pack 3 fmt_UnfreezeBalance ?c)" and ?d = "withRewards (sampleDb [frozenVoter])"
  have u: "Unfreeze_unpack ref_codec ?ctx = Inr ?c" by (simp add: Unfreeze_unpack_def unpackE_def)
  have g: "AccountStore_Get ref_codec ?d (ub_OwnerAddress ?c) = Inr frozenVoter" by simp
  have t: "LatestBlockHeaderTimestamp ?d = Inr 0" by (simp add: LatestBlockHeaderTimestamp_def withRewards_props prop_key_defs)
  have v: "Unfreeze_Validate ref_codec ?ctx ?d = Inr ()"
    by (simp add: Unfreeze_Validate_def u checkAddress_def t delegatedForResource_def scmp_defs)
  have k: "accounts_keyed ref_codec ?d" "props_wf ?d" "delegation_wf ?d"
    by (simp_all add: sampleDb_keyed withRewards_props withRewards_wf)
  from withRewards_settles [of "sampleDb [frozenVoter]" frozenVoter] obtain d1 where
    d1: "WithdrawReward ref_codec (65 # replicate 20 1) ?d = (Inr (), d1)"
      "AccountStore_Get ref_codec d1 (65 # replicate 20 1) = Inr (frozenVoter\<lparr>ac_Allowance := 30\<rparr>)" by auto
  show ?thesis
    using Unfreeze_conserves [OF ref_codec_ok k v u g t] d1 allowance_inject [where a = frozenVoter and y = 30]
    by (auto simp: delegatedForResource_def scmp_defs)
qed

end
