(* ===== verification/Stake2.thy ===== *)
theory Stake2
  imports Freeze
begin

text \<open>
  \<open>internal/actuator/stake2.go\<close>: the Stake 2.0 actuators. Stake has no expiry; an unfreeze turns it
  into an unfreezing entry that matures after the configured delay and is swept back into the balance.
\<close>

section \<open>Account accessors\<close>

definition unfreezeMaxTimes :: nat where "unfreezeMaxTimes = 32"

definition frozenV2Amount :: "Account \<Rightarrow> ResourceCode \<Rightarrow> int64" where
  "frozenV2Amount a res = fold (\<lambda>f total. if f2_Type f = res then total + f2_Amount f else total) (ac_FrozenV2 a) 0"

fun bumpV2 :: "ResourceCode \<Rightarrow> int64 \<Rightarrow> FreezeV2 list \<Rightarrow> FreezeV2 list" where
  "bumpV2 res delta [] = [\<lparr>f2_Type = res, f2_Amount = delta\<rparr>]"
| "bumpV2 res delta (f # fs) =
     (if f2_Type f = res then f\<lparr>f2_Amount := f2_Amount f + delta\<rparr> # fs else f # bumpV2 res delta fs)"

definition addFrozenV2 :: "ResourceCode \<Rightarrow> int64 \<Rightarrow> Account \<Rightarrow> Account" where
  "addFrozenV2 res delta a = a\<lparr>ac_FrozenV2 := bumpV2 res delta (ac_FrozenV2 a)\<rparr>"

definition delegatedOutV2 :: "Account \<Rightarrow> ResourceCode \<Rightarrow> int64" where
  "delegatedOutV2 a res =
     (if res = BANDWIDTH then ac_DelegatedFrozenV2BalanceForBandwidth a
      else ar_DelegatedFrozenV2BalanceForEnergy (GetAccountResource a))"

definition weightV2 :: "Account \<Rightarrow> ResourceCode \<Rightarrow> int64" where
  "weightV2 a res = quot64 (frozenV2Amount a res + delegatedOutV2 a res) trxPrecision"

definition addResourceWeight :: "ResourceCode \<Rightarrow> int64 \<Rightarrow> (Database, unit) op" where
  "addResourceWeight res delta = (if res = BANDWIDTH then AddTotalNetWeight delta else AddTotalEnergyWeight delta)"

definition validV2Resource :: "ResourceCode \<Rightarrow> bool" where
  "validV2Resource res \<longleftrightarrow> res = BANDWIDTH \<or> res = ENERGY"

definition requireStake2 :: "Database \<Rightarrow> unit result" where
  "requireStake2 d =
     bindE (SupportUnfreezeDelay d) (\<lambda>on.
       check (\<not> on) (Err ''actuator: not support transaction, need to be opened by the committee''))"

definition sweepMaturedUnfrozenV2 :: "int64 \<Rightarrow> Account \<Rightarrow> Account" where
  "sweepMaturedUnfrozenV2 now a =
     (let withdrawn = fold (\<lambda>u w. if sle (u2_UnfreezeExpireTime u) now then w + u2_UnfreezeAmount u else w)
            (ac_UnfrozenV2 a) 0;
          kept = filter (\<lambda>u. \<not> sle (u2_UnfreezeExpireTime u) now) (ac_UnfrozenV2 a)
      in a\<lparr>ac_UnfrozenV2 := kept, ac_Balance := ac_Balance a + withdrawn\<rparr>)"

definition unfreezingV2Count :: "int64 \<Rightarrow> Account \<Rightarrow> nat" where
  "unfreezingV2Count now a = length (filter (\<lambda>u. slt now (u2_UnfreezeExpireTime u)) (ac_UnfrozenV2 a))"

section \<open>FreezeBalanceV2\<close>

definition FreezeV2_unpack :: "codec \<Rightarrow> Context \<Rightarrow> FreezeBalanceV2C result" where
  "FreezeV2_unpack cd = unpackE ''unpack FreezeBalanceV2Contract'' (to_FreezeBalanceV2 cd)"

definition FreezeV2_Validate :: "codec \<Rightarrow> Context \<Rightarrow> Database \<Rightarrow> unit result" where
  "FreezeV2_Validate cd ctx d =
     bindE (requireStake2 d) (\<lambda>_.
     bindE (FreezeV2_unpack cd ctx) (\<lambda>c.
     bindE (checkAddress ''actuator: invalid owner address'' (fb2_OwnerAddress c)) (\<lambda>_.
     bindE (wrapE ''actuator: freezeV2 owner account missing'' (AccountStore_Get cd d (fb2_OwnerAddress c))) (\<lambda>acct.
     let fb = fb2_FrozenBalance c in
     bindE (check (sle fb 0) (Err ''actuator: frozenBalance must be positive'')) (\<lambda>_.
     bindE (check (slt fb trxPrecision)
             (Err ''actuator: frozenBalance must be greater than or equal to 1 TRX'')) (\<lambda>_.
     bindE (check (slt (ac_Balance acct) fb)
             (Err ''actuator: frozenBalance must be less than or equal to accountBalance'')) (\<lambda>_.
       check (\<not> validV2Resource (fb2_Resource c))
         (Err ''actuator: ResourceCode error, valid ResourceCode[BANDWIDTH, ENERGY]''))))))))"

definition FreezeV2_Execute :: "codec \<Rightarrow> Context \<Rightarrow> (Database, unit) op" where
  "FreezeV2_Execute cd ctx =
     bindM (liftM (FreezeV2_unpack cd ctx)) (\<lambda>c.
     bindM (readM (\<lambda>d. AccountStore_Get cd d (fb2_OwnerAddress c))) (\<lambda>acct.
       let res = fb2_Resource c;
           old = weightV2 acct res;
           acct1 = addFrozenV2 res (fb2_FrozenBalance c) acct in
       bindM (addResourceWeight res (weightV2 acct1 res - old)) (\<lambda>_.
         AccountStore_Put cd (acct1\<lparr>ac_Balance := ac_Balance acct1 - fb2_FrozenBalance c\<rparr>))))"

section \<open>UnfreezeBalanceV2\<close>

definition UnfreezeV2_unpack :: "codec \<Rightarrow> Context \<Rightarrow> UnfreezeBalanceV2C result" where
  "UnfreezeV2_unpack cd = unpackE ''unpack UnfreezeBalanceV2Contract'' (to_UnfreezeBalanceV2 cd)"

definition UnfreezeV2_Validate :: "codec \<Rightarrow> Context \<Rightarrow> Database \<Rightarrow> unit result" where
  "UnfreezeV2_Validate cd ctx d =
     bindE (requireStake2 d) (\<lambda>_.
     bindE (UnfreezeV2_unpack cd ctx) (\<lambda>c.
     bindE (checkAddress ''actuator: invalid owner address'' (ub2_OwnerAddress c)) (\<lambda>_.
     bindE (wrapE ''actuator: unfreezeV2 owner account missing'' (AccountStore_Get cd d (ub2_OwnerAddress c))) (\<lambda>acct.
     bindE (check (\<not> validV2Resource (ub2_Resource c))
             (Err ''actuator: ResourceCode error, valid ResourceCode[BANDWIDTH, Energy]'')) (\<lambda>_.
     bindE (check (sle (frozenV2Amount acct (ub2_Resource c)) 0) (Err ''actuator: no frozenBalance'')) (\<lambda>_.
     bindE (check (sle (ub2_UnfreezeBalance c) 0 \<or> slt (frozenV2Amount acct (ub2_Resource c)) (ub2_UnfreezeBalance c))
             (Err ''actuator: invalid unfreeze_balance'')) (\<lambda>_.
     bindE (LatestBlockHeaderTimestamp d) (\<lambda>now.
       check (unfreezingV2Count now acct \<ge> unfreezeMaxTimes)
         (Err ''actuator: invalid unfreeze operation, unfreezing times is over limit'')))))))))"

definition UnfreezeV2_Execute :: "codec \<Rightarrow> Context \<Rightarrow> (Database, unit) op" where
  "UnfreezeV2_Execute cd ctx =
     bindM (liftM (UnfreezeV2_unpack cd ctx)) (\<lambda>c.
     bindM (WithdrawReward cd (ub2_OwnerAddress c)) (\<lambda>_.
     bindM (readM (\<lambda>d. AccountStore_Get cd d (ub2_OwnerAddress c))) (\<lambda>acct.
     bindM (readM LatestBlockHeaderTimestamp) (\<lambda>now.
     bindM (readM UnfreezeDelayDays) (\<lambda>delayDays.
       let acct1 = sweepMaturedUnfrozenV2 now acct;
           res = ub2_Resource c;
           expire = now + delayDays * frozenPeriodMs;
           acct2 = acct1\<lparr>ac_UnfrozenV2 := ac_UnfrozenV2 acct1 @
             [\<lparr>u2_Type = res, u2_UnfreezeAmount = ub2_UnfreezeBalance c, u2_UnfreezeExpireTime = expire\<rparr>]\<rparr>;
           old = weightV2 acct2 res;
           acct3 = addFrozenV2 res (- ub2_UnfreezeBalance c) acct2 in
       bindM (addResourceWeight res (weightV2 acct3 res - old)) (\<lambda>_.
         AccountStore_Put cd (acct3\<lparr>ac_Votes := []\<rparr>)))))))"

section \<open>WithdrawExpireUnfreeze\<close>

definition WithdrawExpire_unpack :: "codec \<Rightarrow> Context \<Rightarrow> OwnerC result" where
  "WithdrawExpire_unpack cd = unpackE ''unpack WithdrawExpireUnfreezeContract'' (to_WithdrawExpireUnfreeze cd)"

definition WithdrawExpire_Validate :: "codec \<Rightarrow> Context \<Rightarrow> Database \<Rightarrow> unit result" where
  "WithdrawExpire_Validate cd ctx d =
     bindE (requireStake2 d) (\<lambda>_.
     bindE (WithdrawExpire_unpack cd ctx) (\<lambda>c.
     bindE (checkAddress ''actuator: invalid owner address'' (ow_OwnerAddress c)) (\<lambda>_.
     bindE (wrapE ''actuator: withdraw owner account missing'' (AccountStore_Get cd d (ow_OwnerAddress c))) (\<lambda>_.
       Inr ()))))"

definition WithdrawExpire_Execute :: "codec \<Rightarrow> Context \<Rightarrow> (Database, unit) op" where
  "WithdrawExpire_Execute cd ctx =
     bindM (liftM (WithdrawExpire_unpack cd ctx)) (\<lambda>c.
     bindM (readM (\<lambda>d. AccountStore_Get cd d (ow_OwnerAddress c))) (\<lambda>acct.
     bindM (readM LatestBlockHeaderTimestamp) (\<lambda>now.
       AccountStore_Put cd (sweepMaturedUnfrozenV2 now acct))))"

context write_inv
begin

lemma keeps_stake2 [keeps_intros]:
  "keeps P (addResourceWeight res w)"
  "keeps P (FreezeV2_Execute cd ctx)"
  "keeps P (WithdrawExpire_Execute cd ctx)"
  unfolding FreezeV2_Execute_def WithdrawExpire_Execute_def addResourceWeight_def Let_def
  by (intro keeps_intros)+

lemma keeps_UnfreezeV2 [keeps_intros]: "keeps P (UnfreezeV2_Execute cd ctx)"
  unfolding UnfreezeV2_Execute_def Let_def by (intro keeps_intros)

end

section \<open>Holdings\<close>

text \<open>Everything an account owns under Stake 2.0: spendable, frozen, unfreezing and delegated out.\<close>

definition v2Holdings :: "Account \<Rightarrow> int64" where
  "v2Holdings a = ac_Balance a + sum_list (map f2_Amount (ac_FrozenV2 a)) +
     sum_list (map u2_UnfreezeAmount (ac_UnfrozenV2 a)) + ac_DelegatedFrozenV2BalanceForBandwidth a +
     ar_DelegatedFrozenV2BalanceForEnergy (GetAccountResource a)"

lemma frozenV2Amount_sum: "frozenV2Amount a res = sum_list (map f2_Amount (filter (\<lambda>f. f2_Type f = res) (ac_FrozenV2 a)))"
proof -
  have gen: "fold (\<lambda>f total. if f2_Type f = res then total + f2_Amount f else total) fs s =
      s + sum_list (map f2_Amount (filter (\<lambda>f. f2_Type f = res) fs))" for fs s
    by (induction fs arbitrary: s) (simp_all add: add.assoc)
  show ?thesis using gen [of "ac_FrozenV2 a" 0] by (simp add: frozenV2Amount_def)
qed

lemma sum_bumpV2: "sum_list (map f2_Amount (bumpV2 res x fs)) = sum_list (map f2_Amount fs) + x"
  by (induction fs) (simp_all add: algebra_simps)

lemma sum_bumpV2_type:
  "sum_list (map f2_Amount (filter (\<lambda>f. f2_Type f = r) (bumpV2 res x fs))) =
     sum_list (map f2_Amount (filter (\<lambda>f. f2_Type f = r) fs)) + (if r = res then x else 0)"
  by (induction fs) (auto simp: algebra_simps)

lemma addFrozenV2_simps [simp]:
  "frozenV2Amount (addFrozenV2 res x a) r = frozenV2Amount a r + (if r = res then x else 0)"
  "v2Holdings (addFrozenV2 res x a) = v2Holdings a + x"
  "ac_Address (addFrozenV2 res x a) = ac_Address a" "ac_Balance (addFrozenV2 res x a) = ac_Balance a"
  "ac_UnfrozenV2 (addFrozenV2 res x a) = ac_UnfrozenV2 a"
  "delegatedOutV2 (addFrozenV2 res x a) r = delegatedOutV2 a r" "ac_Allowance (addFrozenV2 res x a) = ac_Allowance a"
  by (simp_all add: addFrozenV2_def frozenV2Amount_sum sum_bumpV2_type v2Holdings_def sum_bumpV2 delegatedOutV2_def)

lemma holdings_other [simp]:
  "v2Holdings (a\<lparr>ac_Votes := vs\<rparr>) = v2Holdings a"
  "v2Holdings (a\<lparr>ac_Balance := b\<rparr>) = v2Holdings a - ac_Balance a + b"
  "v2Holdings (a\<lparr>ac_UnfrozenV2 := us\<rparr>) =
     v2Holdings a - sum_list (map u2_UnfreezeAmount (ac_UnfrozenV2 a)) + sum_list (map u2_UnfreezeAmount us)"
  "frozenV2Amount (a\<lparr>ac_Votes := vs\<rparr>) r = frozenV2Amount a r"
  "frozenV2Amount (a\<lparr>ac_Balance := b\<rparr>) r = frozenV2Amount a r"
  "frozenV2Amount (a\<lparr>ac_UnfrozenV2 := us\<rparr>) r = frozenV2Amount a r"
  by (simp_all add: v2Holdings_def frozenV2Amount_def)

lemma matured_sum:
  "fold (\<lambda>u w. if sle (u2_UnfreezeExpireTime u) now then w + u2_UnfreezeAmount u else w) us s =
     s + sum_list (map u2_UnfreezeAmount (filter (\<lambda>u. sle (u2_UnfreezeExpireTime u) now) us))"
  by (induction us arbitrary: s) (simp_all add: add.assoc)

lemma sweep_simps [simp]:
  "ac_Address (sweepMaturedUnfrozenV2 now a) = ac_Address a" "ac_Allowance (sweepMaturedUnfrozenV2 now a) = ac_Allowance a"
  "ac_UnfrozenV2 (sweepMaturedUnfrozenV2 now a) = filter (\<lambda>u. slt now (u2_UnfreezeExpireTime u)) (ac_UnfrozenV2 a)"
  "frozenV2Amount (sweepMaturedUnfrozenV2 now a) r = frozenV2Amount a r"
  "v2Holdings (sweepMaturedUnfrozenV2 now a) = v2Holdings a"
proof -
  show "ac_UnfrozenV2 (sweepMaturedUnfrozenV2 now a) = filter (\<lambda>u. slt now (u2_UnfreezeExpireTime u)) (ac_UnfrozenV2 a)"
    by (simp add: sweepMaturedUnfrozenV2_def Let_def scmp_defs not_le)
  show "v2Holdings (sweepMaturedUnfrozenV2 now a) = v2Holdings a"
    using partition_sum [of u2_UnfreezeAmount "\<lambda>u. sle (u2_UnfreezeExpireTime u) now" "ac_UnfrozenV2 a"]
    by (simp add: sweepMaturedUnfrozenV2_def Let_def v2Holdings_def matured_sum algebra_simps)
qed (simp_all add: sweepMaturedUnfrozenV2_def Let_def frozenV2Amount_def)

lemma addResourceWeight_run:
  assumes "props_wf d"
  shows "\<exists>d'. addResourceWeight res w d = (Inr (), d') \<and>
    (\<forall>a. AccountStore_Get cd d' a = AccountStore_Get cd d a)"
  using add_weights_run [OF assms, of "res = BANDWIDTH" w cd]
  by (auto simp: addResourceWeight_def split: if_splits)

text \<open>The unfreeze after the settlement of the owner's rewards, which took \<open>d0\<close> to \<open>d\<close>.\<close>

lemma UnfreezeV2_run:
  assumes "codec_ok cd" "accounts_keyed cd d" "props_wf d"
    and "UnfreezeV2_Validate cd ctx d = Inr ()" "UnfreezeV2_unpack cd ctx = Inr c"
    and "AccountStore_Get cd d (ub2_OwnerAddress c) = Inr acct" "LatestBlockHeaderTimestamp d = Inr now"
    and "WithdrawReward cd (ub2_OwnerAddress c) d0 = (Inr (), d)"
  shows "\<exists>d' acct' expire. UnfreezeV2_Execute cd ctx d0 = (Inr (), d') \<and>
    AccountStore_Get cd d' (ub2_OwnerAddress c) = Inr acct' \<and> v2Holdings acct' = v2Holdings acct \<and>
    sint (frozenV2Amount acct' (ub2_Resource c)) = sint (frozenV2Amount acct (ub2_Resource c)) - sint (ub2_UnfreezeBalance c) \<and>
    0 \<le> sint (frozenV2Amount acct' (ub2_Resource c)) \<and>
    ac_UnfrozenV2 acct' = filter (\<lambda>u. slt now (u2_UnfreezeExpireTime u)) (ac_UnfrozenV2 acct) @
      [\<lparr>u2_Type = ub2_Resource c, u2_UnfreezeAmount = ub2_UnfreezeBalance c, u2_UnfreezeExpireTime = expire\<rparr>] \<and>
    length (ac_UnfrozenV2 acct') \<le> unfreezeMaxTimes \<and> ac_Votes acct' = [] \<and> ac_Allowance acct' = ac_Allowance acct"
proof -
  let ?ow = "ub2_OwnerAddress c" and ?res = "ub2_Resource c" and ?x = "ub2_UnfreezeBalance c"
  have v: "0 < sint ?x" "sint ?x \<le> sint (frozenV2Amount acct ?res)" "unfreezingV2Count now acct < unfreezeMaxTimes"
    using assms(4-7) by (auto simp: UnfreezeV2_Validate_def bindE_eq_Inr Let_def scmp_defs split: if_splits)
  have sub: "sint (frozenV2Amount acct ?res - ?x) = sint (frozenV2Amount acct ?res) - sint ?x"
    using v sint64_upper [of "frozenV2Amount acct ?res"] by (intro sint64_sub) (simp add: in_int64_def)
  have addr: "ac_Address acct = ?ow" using accounts_keyedD [OF assms(2,6)] .
  obtain dd where dd: "UnfreezeDelayDays d = Inr dd"
    using getOr_total [OF assms(3)] unfolding UnfreezeDelayDays_def by metis
  define acct1 where "acct1 = sweepMaturedUnfrozenV2 now acct"
  define acct2 where "acct2 = acct1\<lparr>ac_UnfrozenV2 := ac_UnfrozenV2 acct1 @ [\<lparr>u2_Type = ?res, u2_UnfreezeAmount = ?x,
     u2_UnfreezeExpireTime = now + dd * frozenPeriodMs\<rparr>]\<rparr>"
  define acct3 where "acct3 = (addFrozenV2 ?res (- ?x) acct2)\<lparr>ac_Votes := []\<rparr>"
  obtain d1 where d1: "addResourceWeight ?res (weightV2 (addFrozenV2 ?res (- ?x) acct2) ?res - weightV2 acct2 ?res) d = (Inr (), d1)"
    using addResourceWeight_run [OF assms(3)] by blast
  have a3: "ac_Address acct3 = ?ow" "v2Holdings acct3 = v2Holdings acct" "ac_Votes acct3 = []"
    "frozenV2Amount acct3 ?res = frozenV2Amount acct ?res - ?x" "ac_Allowance acct3 = ac_Allowance acct"
    using addr by (simp_all add: acct3_def acct2_def acct1_def)
  have un: "ac_UnfrozenV2 acct3 = filter (\<lambda>u. slt now (u2_UnfreezeExpireTime u)) (ac_UnfrozenV2 acct) @
      [\<lparr>u2_Type = ?res, u2_UnfreezeAmount = ?x, u2_UnfreezeExpireTime = now + dd * frozenPeriodMs\<rparr>]"
    by (simp add: acct3_def acct2_def acct1_def)
  have "UnfreezeV2_Execute cd ctx d0 = (Inr (), Database_Put d1 (nsKey accountPrefix ?ow) (enc_Account cd acct3))"
    using assms(1,5-8) dd d1 a3(1) unfolding acct3_def acct2_def acct1_def
    by (simp add: UnfreezeV2_Execute_def Let_def bindM_Inr)
  then show ?thesis
    using a3 un sub v assms(1) by (auto simp: unfreezingV2Count_def)
qed

lemma allowance_stake2 [simp]:
  "v2Holdings (a\<lparr>ac_Allowance := al\<rparr>) = v2Holdings a" "frozenV2Amount (a\<lparr>ac_Allowance := al\<rparr>) r = frozenV2Amount a r"
  "unfreezingV2Count now (a\<lparr>ac_Allowance := al\<rparr>) = unfreezingV2Count now a"
  by (simp_all add: v2Holdings_def frozenV2Amount_def unfreezingV2Count_def)

lemma settled_UnfreezeV2_Validate:
  assumes "reward_only (ub2_OwnerAddress c) d d1" "UnfreezeV2_unpack cd ctx = Inr c"
    and "AccountStore_Get cd d (ub2_OwnerAddress c) = Inr acct"
    and "AccountStore_Get cd d1 (ub2_OwnerAddress c) = Inr (acct\<lparr>ac_Allowance := al\<rparr>)"
  shows "UnfreezeV2_Validate cd ctx d1 = UnfreezeV2_Validate cd ctx d"
  using assms(2-4) by (simp add: UnfreezeV2_Validate_def requireStake2_def SupportUnfreezeDelay_def
      LatestBlockHeaderTimestamp_def same_props_getOr [OF reward_only_props [OF assms(1)]])

text \<open>
  C22: A validated Stake 2.0 unfreeze succeeds. It first settles the owner's vote rewards, and the
  allowance is what the settlement leaves; it keeps the owner's total holdings, moves exactly the
  requested amount out of the frozen stake of the resource (which stays nonnegative), returns only
  matured entries to the balance, and leaves at most 32 unfreezing entries, all pending ones or the
  new one.
\<close>

theorem UnfreezeV2_conserves:
  assumes "codec_ok cd" "accounts_keyed cd d" "props_wf d" "delegation_wf d"
    and "UnfreezeV2_Validate cd ctx d = Inr ()" "UnfreezeV2_unpack cd ctx = Inr c"
    and "AccountStore_Get cd d (ub2_OwnerAddress c) = Inr acct" "LatestBlockHeaderTimestamp d = Inr now"
  shows "\<exists>d1 al d' acct' expire. WithdrawReward cd (ub2_OwnerAddress c) d = (Inr (), d1) \<and>
    AccountStore_Get cd d1 (ub2_OwnerAddress c) = Inr (acct\<lparr>ac_Allowance := al\<rparr>) \<and> UnfreezeV2_Execute cd ctx d = (Inr (), d') \<and>
    AccountStore_Get cd d' (ub2_OwnerAddress c) = Inr acct' \<and> v2Holdings acct' = v2Holdings acct \<and>
    sint (frozenV2Amount acct' (ub2_Resource c)) = sint (frozenV2Amount acct (ub2_Resource c)) - sint (ub2_UnfreezeBalance c) \<and>
    0 \<le> sint (frozenV2Amount acct' (ub2_Resource c)) \<and>
    ac_UnfrozenV2 acct' = filter (\<lambda>u. slt now (u2_UnfreezeExpireTime u)) (ac_UnfrozenV2 acct) @
      [\<lparr>u2_Type = ub2_Resource c, u2_UnfreezeAmount = ub2_UnfreezeBalance c, u2_UnfreezeExpireTime = expire\<rparr>] \<and>
    length (ac_UnfrozenV2 acct') \<le> unfreezeMaxTimes \<and> ac_Votes acct' = [] \<and> ac_Allowance acct' = al"
proof -
  let ?ow = "ub2_OwnerAddress c"
  from settlement [OF assms(1-4,7)] obtain d1 al where
    st: "WithdrawReward cd ?ow d = (Inr (), d1)" "reward_only ?ow d d1" "same_props d d1" "props_wf d1" "accounts_keyed cd d1"
      "AccountStore_Get cd d1 ?ow = Inr (acct\<lparr>ac_Allowance := al\<rparr>)" .
  have v: "UnfreezeV2_Validate cd ctx d1 = Inr ()" using settled_UnfreezeV2_Validate [OF st(2) assms(6,7) st(6)] assms(5) by simp
  have now: "LatestBlockHeaderTimestamp d1 = Inr now"
    using assms(8) by (simp add: LatestBlockHeaderTimestamp_def same_props_getOr [OF st(3)])
  from UnfreezeV2_run [OF assms(1) st(5,4) v assms(6) st(6) now st(1)] st(1,6) show ?thesis
    by - (rule exI [of _ d1], rule exI [of _ al], simp)
qed

text \<open>
  A validated Stake 2.0 freeze succeeds: the amount leaves the balance (which stays nonnegative)
  and joins the frozen stake of the resource, the owner's holdings are unchanged, and every other
  account reads as before.
\<close>

theorem FreezeV2_conserves:
  assumes "codec_ok cd" "accounts_keyed cd d" "props_wf d"
    and "FreezeV2_Validate cd ctx d = Inr ()" "FreezeV2_unpack cd ctx = Inr c"
    and "AccountStore_Get cd d (fb2_OwnerAddress c) = Inr acct"
  shows "\<exists>d' acct'. FreezeV2_Execute cd ctx d = (Inr (), d') \<and>
    AccountStore_Get cd d' (fb2_OwnerAddress c) = Inr acct' \<and> v2Holdings acct' = v2Holdings acct \<and>
    frozenV2Amount acct' (fb2_Resource c) = frozenV2Amount acct (fb2_Resource c) + fb2_FrozenBalance c \<and>
    sint (ac_Balance acct') = sint (ac_Balance acct) - sint (fb2_FrozenBalance c) \<and> 0 \<le> sint (ac_Balance acct') \<and>
    (\<forall>a. a \<noteq> fb2_OwnerAddress c \<longrightarrow> AccountStore_Get cd d' a = AccountStore_Get cd d a)"
proof -
  let ?ow = "fb2_OwnerAddress c" and ?res = "fb2_Resource c" and ?x = "fb2_FrozenBalance c"
  have v: "0 < sint ?x" "sint ?x \<le> sint (ac_Balance acct)"
    using assms(4-6) by (auto simp: FreezeV2_Validate_def bindE_eq_Inr Let_def scmp_defs split: if_splits)
  have sub: "sint (ac_Balance acct - ?x) = sint (ac_Balance acct) - sint ?x"
    using v sint64_upper [of "ac_Balance acct"] by (intro sint64_sub) (simp add: in_int64_def)
  have addr: "ac_Address acct = ?ow" using accounts_keyedD [OF assms(2,6)] .
  define acct1 where "acct1 = addFrozenV2 ?res ?x acct"
  define acct2 where "acct2 = acct1\<lparr>ac_Balance := ac_Balance acct1 - ?x\<rparr>"
  obtain d1 where d1: "addResourceWeight ?res (weightV2 acct1 ?res - weightV2 acct ?res) d = (Inr (), d1)"
    "\<And>a. AccountStore_Get cd d1 a = AccountStore_Get cd d a"
    using addResourceWeight_run [OF assms(3)] by blast
  have a2: "ac_Address acct2 = ?ow" "v2Holdings acct2 = v2Holdings acct" "ac_Balance acct2 = ac_Balance acct - ?x"
    "frozenV2Amount acct2 ?res = frozenV2Amount acct ?res + ?x"
    using addr by (simp_all add: acct2_def acct1_def)
  have "FreezeV2_Execute cd ctx d = (Inr (), Database_Put d1 (nsKey accountPrefix ?ow) (enc_Account cd acct2))"
    using assms(1,5,6) d1(1) a2(1) unfolding acct2_def acct1_def
    by (simp add: FreezeV2_Execute_def Let_def bindM_Inr)
  then show ?thesis using a2 sub v assms(1) d1(2) by auto
qed

section \<open>Concrete runs\<close>

text \<open>The sample database with the Stake 2.0 proposal switched on (a delay of 14 days).\<close>

definition stakeDb :: "Account list \<Rightarrow> Database" where
  "stakeDb as = snd (PutInt64 propUnfreezeDelayDays 14 (sampleDb as))"

lemma stakeDb_simps [simp]:
  "accounts_keyed ref_codec (stakeDb as)" "props_wf (stakeDb as)"
  "AccountStore_Get ref_codec (stakeDb as) a = AccountStore_Get ref_codec (sampleDb as) a"
  "getOr (stakeDb as) key x = (if key = propUnfreezeDelayDays then Inr 14 else Inr x)"
proof -
  show "accounts_keyed ref_codec (stakeDb as)"
    unfolding stakeDb_def by (rule keepsD [OF ref_rt.keyed.keeps_PutInt64 sampleDb_keyed])
  show "props_wf (stakeDb as)" by (auto simp: stakeDb_def props_wf_def)
qed (auto simp: stakeDb_def AccountStore_Get_frame key_simps)

lemma stakeDb_reads:
  "requireStake2 (stakeDb as) = Inr ()" "LatestBlockHeaderTimestamp (stakeDb as) = Inr 0"
  "AllowChangeDelegation (stakeDb as) = Inr False"
  by (simp_all add: requireStake2_def SupportUnfreezeDelay_def LatestBlockHeaderTimestamp_def AllowChangeDelegation_def
      flagOn_def prop_key_defs scmp_defs)

definition stakedAccount :: Account where
  "stakedAccount = (sampleAccount 1 5000000)\<lparr>ac_FrozenV2 := [\<lparr>f2_Type = BANDWIDTH, f2_Amount = 9000000\<rparr>]\<rparr>"

lemma stakedAccount_simps [simp]:
  "ac_Address stakedAccount = 65 # replicate 20 1" "ac_Balance stakedAccount = 5000000"
  "frozenV2Amount stakedAccount BANDWIDTH = 9000000" "ac_UnfrozenV2 stakedAccount = []"
  by (simp_all add: stakedAccount_def frozenV2Amount_def sampleAccount_def zero_Account_def)

definition stakedVoter :: Account where
  "stakedVoter = stakedAccount\<lparr>ac_Allowance := 7, ac_Votes := [\<lparr>v_VoteAddress = 65 # replicate 20 9, v_VoteCount = 3\<rparr>]\<rparr>"

lemma stakedVoter_simps [simp]:
  "ac_Address stakedVoter = 65 # replicate 20 1" "ac_Allowance stakedVoter = 7" "ac_UnfrozenV2 stakedVoter = []"
  "ac_Votes stakedVoter = [\<lparr>v_VoteAddress = 65 # replicate 20 9, v_VoteCount = 3\<rparr>]" "frozenV2Amount stakedVoter BANDWIDTH = 9000000"
  by (simp_all add: stakedVoter_def)

lemma stakeDb_no_delegations [simp]: "no_delegations (stakeDb as)"
  by (auto simp: stakeDb_def PutInt64_def has_prefix_def dgSpace_def ascii_simps key_simps intro!: no_delegations_Put)

text \<open>With a reward of 23 pending, an unfreeze of 4 of 9 million settles it and queues the release.\<close>

theorem UnfreezeV2_conserves_witness:
  "\<exists>d' acct'. UnfreezeV2_Execute ref_codec (sampleCtx UnfreezeBalanceV2Contract (pack 5 fmt_UnfreezeBalanceV2
      \<lparr>ub2_OwnerAddress = 65 # replicate 20 1, ub2_UnfreezeBalance = 4000000, ub2_Resource = BANDWIDTH\<rparr>))
      (withRewards (stakeDb [stakedVoter])) = (Inr (), d') \<and>
    AccountStore_Get ref_codec d' (65 # replicate 20 1) = Inr acct' \<and> sint (frozenV2Amount acct' BANDWIDTH) = 5000000 \<and>
    v2Holdings acct' = v2Holdings stakedVoter \<and> ac_Allowance acct' = 30"
proof -
  let ?c = "\<lparr>ub2_OwnerAddress = 65 # replicate 20 1, ub2_UnfreezeBalance = 4000000, ub2_Resource = BANDWIDTH\<rparr>"
  let ?ctx = "sampleCtx UnfreezeBalanceV2Contract (pack 5 fmt_UnfreezeBalanceV2 ?c)" and ?d = "withRewards (stakeDb [stakedVoter])"
  have u: "UnfreezeV2_unpack ref_codec ?ctx = Inr ?c" by (simp add: UnfreezeV2_unpack_def unpackE_def)
  have g: "AccountStore_Get ref_codec ?d (ub2_OwnerAddress ?c) = Inr stakedVoter" by simp
  have t: "LatestBlockHeaderTimestamp ?d = Inr 0" "requireStake2 ?d = Inr ()"
    by (simp_all add: LatestBlockHeaderTimestamp_def requireStake2_def SupportUnfreezeDelay_def withRewards_props prop_key_defs scmp_defs)
  have v: "UnfreezeV2_Validate ref_codec ?ctx ?d = Inr ()"
    by (simp add: UnfreezeV2_Validate_def u t checkAddress_def validV2Resource_def scmp_defs
        unfreezingV2Count_def unfreezeMaxTimes_def)
  have k: "accounts_keyed ref_codec ?d" "props_wf ?d" "delegation_wf ?d" by (simp_all add: withRewards_props withRewards_wf)
  from withRewards_settles [of "stakeDb [stakedVoter]" stakedVoter] obtain d1 where
    d1: "WithdrawReward ref_codec (65 # replicate 20 1) ?d = (Inr (), d1)"
      "AccountStore_Get ref_codec d1 (65 # replicate 20 1) = Inr (stakedVoter\<lparr>ac_Allowance := 30\<rparr>)" by auto
  show ?thesis
    using UnfreezeV2_conserves [OF ref_codec_ok k v u g t(1)] d1 allowance_inject [where a = stakedVoter and y = 30] by auto
qed

theorem FreezeV2_conserves_witness:
  "\<exists>d' acct'. FreezeV2_Execute ref_codec (sampleCtx FreezeBalanceV2Contract (pack 4 fmt_FreezeBalanceV2
      \<lparr>fb2_OwnerAddress = 65 # replicate 20 1, fb2_FrozenBalance = 2000000, fb2_Resource = BANDWIDTH\<rparr>))
      (stakeDb [stakedAccount]) = (Inr (), d') \<and>
    AccountStore_Get ref_codec d' (65 # replicate 20 1) = Inr acct' \<and> sint (ac_Balance acct') = 3000000"
proof -
  let ?c = "\<lparr>fb2_OwnerAddress = 65 # replicate 20 1, fb2_FrozenBalance = 2000000, fb2_Resource = BANDWIDTH\<rparr>"
  let ?ctx = "sampleCtx FreezeBalanceV2Contract (pack 4 fmt_FreezeBalanceV2 ?c)" and ?d = "stakeDb [stakedAccount]"
  have u: "FreezeV2_unpack ref_codec ?ctx = Inr ?c" by (simp add: FreezeV2_unpack_def unpackE_def)
  have g: "AccountStore_Get ref_codec ?d (fb2_OwnerAddress ?c) = Inr stakedAccount" by simp
  have v: "FreezeV2_Validate ref_codec ?ctx ?d = Inr ()"
    by (simp add: FreezeV2_Validate_def u stakeDb_reads checkAddress_def validV2Resource_def scmp_defs trxPrecision_def)
  show ?thesis
    using FreezeV2_conserves [OF ref_codec_ok _ _ v u g] by auto
qed

end
