(* ===== verification/Stake2_Delegate.thy ===== *)
theory Stake2_Delegate
  imports Stake2
begin

text \<open>
  \<open>internal/actuator/stake2_delegate.go\<close>: delegation of Stake 2.0 resources. Delegating moves stake
  from the owner's frozen amount to its delegated-out amount and credits the receiver; taking the
  delegation back reverses both.
\<close>

section \<open>Delegation (stake2_delegate.go)\<close>

definition addDelegatedV2 :: "ResourceCode \<Rightarrow> int64 \<Rightarrow> Account \<Rightarrow> Account" where
  "addDelegatedV2 res x a =
     (if res = BANDWIDTH
      then a\<lparr>ac_DelegatedFrozenV2BalanceForBandwidth := ac_DelegatedFrozenV2BalanceForBandwidth a + x\<rparr>
      else updResource (\<lambda>r. r\<lparr>ar_DelegatedFrozenV2BalanceForEnergy := ar_DelegatedFrozenV2BalanceForEnergy r + x\<rparr>) a)"

definition acquiredDelegatedV2 :: "Account \<Rightarrow> ResourceCode \<Rightarrow> int64" where
  "acquiredDelegatedV2 a res =
     (if res = BANDWIDTH then ac_AcquiredDelegatedFrozenV2BalanceForBandwidth a
      else ar_AcquiredDelegatedFrozenV2BalanceForEnergy (GetAccountResource a))"

definition setAcquiredDelegatedV2 :: "ResourceCode \<Rightarrow> int64 \<Rightarrow> Account \<Rightarrow> Account" where
  "setAcquiredDelegatedV2 res v a =
     (if res = BANDWIDTH then a\<lparr>ac_AcquiredDelegatedFrozenV2BalanceForBandwidth := v\<rparr>
      else updResource (\<lambda>r. r\<lparr>ar_AcquiredDelegatedFrozenV2BalanceForEnergy := v\<rparr>) a)"

definition addAcquiredDelegatedV2 :: "ResourceCode \<Rightarrow> int64 \<Rightarrow> Account \<Rightarrow> Account" where
  "addAcquiredDelegatedV2 res x a =
     (if res = BANDWIDTH
      then a\<lparr>ac_AcquiredDelegatedFrozenV2BalanceForBandwidth := ac_AcquiredDelegatedFrozenV2BalanceForBandwidth a + x\<rparr>
      else updResource (\<lambda>r. r\<lparr>ar_AcquiredDelegatedFrozenV2BalanceForEnergy :=
             ar_AcquiredDelegatedFrozenV2BalanceForEnergy r + x\<rparr>) a)"

definition drBalance :: "DelegatedResource \<Rightarrow> ResourceCode \<Rightarrow> int64" where
  "drBalance dr res = (if res = BANDWIDTH then dr_FrozenBalanceForBandwidth dr else dr_FrozenBalanceForEnergy dr)"

definition addDRBalance :: "ResourceCode \<Rightarrow> int64 \<Rightarrow> DelegatedResource \<Rightarrow> DelegatedResource" where
  "addDRBalance res delta dr =
     (if res = BANDWIDTH then dr\<lparr>dr_FrozenBalanceForBandwidth := dr_FrozenBalanceForBandwidth dr + delta\<rparr>
      else dr\<lparr>dr_FrozenBalanceForEnergy := dr_FrozenBalanceForEnergy dr + delta\<rparr>)"

definition errLockedDelegateDeferred :: error where
  "errLockedDelegateDeferred = Err ''actuator: locked resource delegation (lock=true) not implemented''"

definition Delegate_unpack :: "codec \<Rightarrow> Context \<Rightarrow> DelegateResourceC result" where
  "Delegate_unpack cd = unpackE ''unpack DelegateResourceContract'' (to_DelegateResource cd)"

definition Delegate_Validate :: "codec \<Rightarrow> Context \<Rightarrow> Database \<Rightarrow> unit result" where
  "Delegate_Validate cd ctx d =
     bindE (requireStake2 d) (\<lambda>_.
     bindE (Delegate_unpack cd ctx) (\<lambda>c.
     bindE (check (dl_Lock c) errLockedDelegateDeferred) (\<lambda>_.
     bindE (checkAddress ''actuator: invalid owner address'' (dl_OwnerAddress c)) (\<lambda>_.
     bindE (wrapE ''actuator: delegate owner account missing'' (AccountStore_Get cd d (dl_OwnerAddress c))) (\<lambda>owner.
     bindE (check (slt (dl_Balance c) trxPrecision)
             (Err ''actuator: delegateBalance must be greater than or equal to 1 TRX'')) (\<lambda>_.
     bindE (check (\<not> validV2Resource (dl_Resource c)) (Err ''actuator: no support for resource delegate'')) (\<lambda>_.
     bindE (check (slt (frozenV2Amount owner (dl_Resource c)) (dl_Balance c))
             (Err ''actuator: delegateBalance exceeds the owner frozenV2 available for delegate'')) (\<lambda>_.
     bindE (checkAddress ''actuator: invalid receiverAddress'' (dl_ReceiverAddress c)) (\<lambda>_.
     bindE (check (dl_ReceiverAddress c = dl_OwnerAddress c)
             (Err ''actuator: receiverAddress must not be the same as ownerAddress'')) (\<lambda>_.
     bindE (case AccountStore_Get cd d (dl_ReceiverAddress c) of
              Inl _ \<Rightarrow> Inl (Err ''actuator: receiver account does not exist'') | Inr a \<Rightarrow> Inr a) (\<lambda>rc.
       check (ac_Type rc = Contract)
         (Err ''actuator: do not allow delegate resources to contract addresses''))))))))))))"

definition Delegate_Execute :: "codec \<Rightarrow> Context \<Rightarrow> (Database, unit) op" where
  "Delegate_Execute cd ctx =
     bindM (liftM (Delegate_unpack cd ctx)) (\<lambda>c.
     bindM (readM (\<lambda>d. AccountStore_Get cd d (dl_OwnerAddress c))) (\<lambda>owner.
     bindM (readM (\<lambda>d. AccountStore_Get cd d (dl_ReceiverAddress c))) (\<lambda>rc.
     bindM (tryR (\<lambda>d. Delegated_GetV2 cd d (dl_OwnerAddress c) (dl_ReceiverAddress c) False)) (\<lambda>r.
       let res = dl_Resource c; balance = dl_Balance c;
           dr = (case r of Inl _ \<Rightarrow> zero_DelegatedResource\<lparr>dr_From := dl_OwnerAddress c, dr_To := dl_ReceiverAddress c\<rparr>
                 | Inr x \<Rightarrow> x) in
       bindM (Delegated_PutV2 cd (addDRBalance res balance dr) False) (\<lambda>_.
       bindM (readM LatestBlockHeaderTimestamp) (\<lambda>now.
       bindM (Index_DelegateV2 cd (dl_OwnerAddress c) (dl_ReceiverAddress c) now) (\<lambda>_.
       bindM (AccountStore_Put cd (addAcquiredDelegatedV2 res balance rc)) (\<lambda>_.
         AccountStore_Put cd (addFrozenV2 res (- balance) (addDelegatedV2 res balance owner))))))))))"

definition UnDelegate_unpack :: "codec \<Rightarrow> Context \<Rightarrow> UnDelegateResourceC result" where
  "UnDelegate_unpack cd = unpackE ''unpack UnDelegateResourceContract'' (to_UnDelegateResource cd)"

definition UnDelegate_Validate :: "codec \<Rightarrow> Context \<Rightarrow> Database \<Rightarrow> unit result" where
  "UnDelegate_Validate cd ctx d =
     bindE (requireStake2 d) (\<lambda>_.
     bindE (UnDelegate_unpack cd ctx) (\<lambda>c.
     bindE (checkAddress ''actuator: invalid owner address'' (ud_OwnerAddress c)) (\<lambda>_.
     bindE (checkAddress ''actuator: invalid receiverAddress'' (ud_ReceiverAddress c)) (\<lambda>_.
     bindE (check (\<not> validV2Resource (ud_Resource c)) (Err ''actuator: no support for resource delegate'')) (\<lambda>_.
     bindE (check (sle (ud_Balance c) 0) (Err ''actuator: unDelegateBalance must be more than 0 TRX'')) (\<lambda>_.
     bindE (case Delegated_GetV2 cd d (ud_OwnerAddress c) (ud_ReceiverAddress c) False of
              Inl _ \<Rightarrow> Inl (Err ''actuator: delegated Resource does not exist'') | Inr x \<Rightarrow> Inr x) (\<lambda>dr.
       check (slt (drBalance dr (ud_Resource c)) (ud_Balance c))
         (Err ''actuator: insufficient delegatedFrozenBalance''))))))))"

definition UnDelegate_Execute :: "codec \<Rightarrow> Context \<Rightarrow> (Database, unit) op" where
  "UnDelegate_Execute cd ctx =
     bindM (liftM (UnDelegate_unpack cd ctx)) (\<lambda>c.
     let ow = ud_OwnerAddress c; rcv = ud_ReceiverAddress c; res = ud_Resource c; balance = ud_Balance c in
     bindM (readM (\<lambda>d. AccountStore_Get cd d ow)) (\<lambda>owner.
     bindM (tryR (\<lambda>d. AccountStore_Get cd d rcv)) (\<lambda>rcR.
     bindM (case rcR of
              Inl _ \<Rightarrow> returnM ()
            | Inr rc \<Rightarrow> AccountStore_Put cd
                (if slt (acquiredDelegatedV2 rc res) balance then setAcquiredDelegatedV2 res 0 rc
                 else addAcquiredDelegatedV2 res (- balance) rc)) (\<lambda>_.
     bindM (tryR (\<lambda>d. Delegated_GetV2 cd d ow rcv False)) (\<lambda>drR.
     case drR of
       Inl _ \<Rightarrow> throwM (Err ''actuator: delegated Resource does not exist'')
     | Inr dr \<Rightarrow>
         let dr' = addDRBalance res (- balance) dr in
         bindM (if dr_FrozenBalanceForBandwidth dr' = 0 \<and> dr_FrozenBalanceForEnergy dr' = 0 then
                  bindM (Delegated_DeleteV2 ow rcv False) (\<lambda>_. Index_UnDelegateV2 ow rcv)
                else Delegated_PutV2 cd dr' False) (\<lambda>_.
           AccountStore_Put cd (addFrozenV2 res balance (addDelegatedV2 res (- balance) owner))))))))"

context write_inv
begin

lemma keeps_delegate [keeps_intros]:
  "keeps P (Delegate_Execute cd ctx)"
  "keeps P (UnDelegate_Execute cd ctx)"
  unfolding Delegate_Execute_def UnDelegate_Execute_def Let_def
  by (intro keeps_intros)+

end

section \<open>Accounts and entries\<close>

lemma addDelegatedV2_simps [simp]:
  "v2Holdings (addDelegatedV2 res x a) = v2Holdings a + x"
  "frozenV2Amount (addDelegatedV2 res x a) r = frozenV2Amount a r"
  "delegatedOutV2 (addDelegatedV2 res x a) res = delegatedOutV2 a res + x"
  "ac_Address (addDelegatedV2 res x a) = ac_Address a" "ac_Balance (addDelegatedV2 res x a) = ac_Balance a"
  by (simp_all add: addDelegatedV2_def v2Holdings_def frozenV2Amount_def delegatedOutV2_def)

lemma acquiredV2_simps [simp]:
  "acquiredDelegatedV2 (addAcquiredDelegatedV2 res x a) res = acquiredDelegatedV2 a res + x"
  "ac_Address (addAcquiredDelegatedV2 res x a) = ac_Address a"
  "ac_Address (setAcquiredDelegatedV2 res x a) = ac_Address a"
  by (simp_all add: addAcquiredDelegatedV2_def setAcquiredDelegatedV2_def acquiredDelegatedV2_def)

lemma addDRBalance_simps [simp]:
  "dr_From (addDRBalance res x dr) = dr_From dr" "dr_To (addDRBalance res x dr) = dr_To dr"
  "drBalance (addDRBalance res x dr) res = drBalance dr res + x"
  by (simp_all add: addDRBalance_def drBalance_def)

lemma acquired_addFrozenV2 [simp]: "acquiredDelegatedV2 (addFrozenV2 res x a) r = acquiredDelegatedV2 a r"
  by (simp add: addFrozenV2_def acquiredDelegatedV2_def)

lemma weightV2_delegate [simp]: "weightV2 (addFrozenV2 res (- x) (addDelegatedV2 res x a)) res = weightV2 a res"
  by (simp add: weightV2_def)

lemma DR_V2_simps [simp]:
  "codec_ok cd \<Longrightarrow> Delegated_PutV2 cd dr l d =
     (Inr (), Database_Put d (nsKey delegatedPrefix (drV2Key (dr_From dr) (dr_To dr) l)) (enc_DR cd dr))"
  "codec_ok cd \<Longrightarrow> Delegated_GetV2 cd (Database_Put d (nsKey delegatedPrefix (drV2Key x y l)) (enc_DR cd dr)) x y l = Inr dr"
  "Delegated_GetV2 cd (Database_Put d (nsKey accountPrefix a) b) x y l = Delegated_GetV2 cd d x y l"
  "Delegated_GetV2 cd (Database_Put d (nsKey delegatedIndexPrefix a) b) x y l = Delegated_GetV2 cd d x y l"
  by (simp_all add: Delegated_PutV2_def saveMsg_Some Delegated_GetV2_def loadMsg_view key_simps)

lemma account_frame_V2 [simp]:
  "AccountStore_Get cd (Database_Put d (nsKey delegatedPrefix k) b) a = AccountStore_Get cd d a"
  "AccountStore_Get cd (Database_Put d (nsKey delegatedIndexPrefix k) b) a = AccountStore_Get cd d a"
  "AccountStore_Get cd (Database_Delete d (nsKey delegatedPrefix k)) a = AccountStore_Get cd d a"
  "AccountStore_Get cd (Database_Delete d (nsKey delegatedIndexPrefix k)) a = AccountStore_Get cd d a"
  by (simp_all add: AccountStore_Get_view key_simps)

definition edge :: "int64 \<Rightarrow> bytes \<Rightarrow> DelegatedResourceAccountIndex" where
  "edge time other = zero_DelegatedResourceAccountIndex\<lparr>di_Account := other, di_Timestamp := time\<rparr>"

lemma Index_DelegateV2_apply:
  "codec_ok cd \<Longrightarrow> Index_DelegateV2 cd x y time d = (Inr (),
     Database_Put (Database_Put d (nsKey delegatedIndexPrefix (edgeKey idxV2FromPrefix x y)) (enc_Index cd (edge time y)))
       (nsKey delegatedIndexPrefix (edgeKey idxV2ToPrefix y x)) (enc_Index cd (edge time x)))"
  by (simp add: Index_DelegateV2_def putEdge_def saveMsg_Some bindM_def edge_def)

lemma Index_UnDelegateV2_apply:
  "Index_UnDelegateV2 x y d = (Inr (), Database_Delete (Database_Delete d (nsKey delegatedIndexPrefix (edgeKey idxV2FromPrefix x y)))
       (nsKey delegatedIndexPrefix (edgeKey idxV2ToPrefix y x)))"
  by (simp add: Index_UnDelegateV2_def deleteEdge_def bindM_def)

text \<open>The delegation entry of a pair carries the pair's addresses.\<close>

definition entry_keyed :: "codec \<Rightarrow> Database \<Rightarrow> bytes \<Rightarrow> bytes \<Rightarrow> bool" where
  "entry_keyed cd d x y = (case Delegated_GetV2 cd d x y False of Inl _ \<Rightarrow> True | Inr dr \<Rightarrow> dr_From dr = x \<and> dr_To dr = y)"

text \<open>The balance a pair's entry holds for a resource, zero when there is none.\<close>

definition delegatedBetween :: "codec \<Rightarrow> Database \<Rightarrow> bytes \<Rightarrow> bytes \<Rightarrow> ResourceCode \<Rightarrow> int64" where
  "delegatedBetween cd d x y res = (case Delegated_GetV2 cd d x y False of Inl _ \<Rightarrow> 0 | Inr dr \<Rightarrow> drBalance dr res)"

section \<open>Delegating\<close>

lemma Delegate_run:
  assumes "codec_ok cd" "accounts_keyed cd d" "props_wf d" "entry_keyed cd d (dl_OwnerAddress c) (dl_ReceiverAddress c)"
    and "Delegate_unpack cd ctx = Inr c" "dl_ReceiverAddress c \<noteq> dl_OwnerAddress c"
    and "AccountStore_Get cd d (dl_OwnerAddress c) = Inr ow" "AccountStore_Get cd d (dl_ReceiverAddress c) = Inr rc"
  shows "\<exists>dr d'. Delegate_Execute cd ctx d = (Inr (), d') \<and>
    AccountStore_Get cd d' (dl_OwnerAddress c) =
      Inr (addFrozenV2 (dl_Resource c) (- dl_Balance c) (addDelegatedV2 (dl_Resource c) (dl_Balance c) ow)) \<and>
    AccountStore_Get cd d' (dl_ReceiverAddress c) = Inr (addAcquiredDelegatedV2 (dl_Resource c) (dl_Balance c) rc) \<and>
    Delegated_GetV2 cd d' (dl_OwnerAddress c) (dl_ReceiverAddress c) False = Inr dr \<and>
    dr_From dr = dl_OwnerAddress c \<and> dr_To dr = dl_ReceiverAddress c \<and>
    drBalance dr (dl_Resource c) =
      delegatedBetween cd d (dl_OwnerAddress c) (dl_ReceiverAddress c) (dl_Resource c) + dl_Balance c \<and> same_props d d'"
proof -
  let ?x = "dl_OwnerAddress c" and ?y = "dl_ReceiverAddress c" and ?res = "dl_Resource c" and ?b = "dl_Balance c"
  have addr: "ac_Address ow = ?x" "ac_Address rc = ?y"
    using accounts_keyedD [OF assms(2,7)] accounts_keyedD [OF assms(2,8)] by auto
  define dr where "dr = (case Delegated_GetV2 cd d ?x ?y False of
      Inl _ \<Rightarrow> zero_DelegatedResource\<lparr>dr_From := ?x, dr_To := ?y\<rparr> | Inr r \<Rightarrow> r)"
  have dr: "dr_From dr = ?x" "dr_To dr = ?y" "drBalance dr ?res = delegatedBetween cd d ?x ?y ?res"
    using assms(4)
    by (auto simp: dr_def entry_keyed_def delegatedBetween_def drBalance_def zero_DelegatedResource_def split: sum.splits)
  obtain now where now: "LatestBlockHeaderTimestamp d = Inr now"
    using getOr_total [OF assms(3)] unfolding LatestBlockHeaderTimestamp_def by metis
  let ?dr = "addDRBalance ?res ?b dr"
  have now': "LatestBlockHeaderTimestamp (Database_Put d (nsKey delegatedPrefix (drV2Key ?x ?y False)) (enc_DR cd ?dr)) = Inr now"
    using now by (simp add: LatestBlockHeaderTimestamp_def key_simps)
  show ?thesis
    using assms(1,5-8) addr dr now'
    by (intro exI [of _ ?dr]) (simp add: Delegate_Execute_def Let_def bindM_Inr Index_DelegateV2_apply dr_def [symmetric],
      simp add: same_props_def key_simps)
qed

text \<open>
  A validated delegation of Stake 2.0 succeeds: exactly the delegated balance leaves the owner's
  frozen stake (which stays nonnegative) for its delegated-out stake, so the owner's holdings and
  network weight are unchanged; the receiver and the delegation entry of the pair gain it.
\<close>

theorem Delegate_moves_stake:
  assumes "codec_ok cd" "accounts_keyed cd d" "props_wf d" "entry_keyed cd d (dl_OwnerAddress c) (dl_ReceiverAddress c)"
    and "Delegate_Validate cd ctx d = Inr ()" "Delegate_unpack cd ctx = Inr c"
    and "AccountStore_Get cd d (dl_OwnerAddress c) = Inr ow" "AccountStore_Get cd d (dl_ReceiverAddress c) = Inr rc"
  shows "\<exists>d' ow' rc'. Delegate_Execute cd ctx d = (Inr (), d') \<and>
    AccountStore_Get cd d' (dl_OwnerAddress c) = Inr ow' \<and> AccountStore_Get cd d' (dl_ReceiverAddress c) = Inr rc' \<and>
    sint (frozenV2Amount ow' (dl_Resource c)) = sint (frozenV2Amount ow (dl_Resource c)) - sint (dl_Balance c) \<and>
    0 \<le> sint (frozenV2Amount ow' (dl_Resource c)) \<and>
    delegatedOutV2 ow' (dl_Resource c) = delegatedOutV2 ow (dl_Resource c) + dl_Balance c \<and>
    v2Holdings ow' = v2Holdings ow \<and> weightV2 ow' (dl_Resource c) = weightV2 ow (dl_Resource c) \<and>
    acquiredDelegatedV2 rc' (dl_Resource c) = acquiredDelegatedV2 rc (dl_Resource c) + dl_Balance c \<and>
    delegatedBetween cd d' (dl_OwnerAddress c) (dl_ReceiverAddress c) (dl_Resource c) =
      delegatedBetween cd d (dl_OwnerAddress c) (dl_ReceiverAddress c) (dl_Resource c) + dl_Balance c"
proof -
  let ?res = "dl_Resource c" and ?b = "dl_Balance c"
  have v: "dl_ReceiverAddress c \<noteq> dl_OwnerAddress c" "0 < sint ?b" "sint ?b \<le> sint (frozenV2Amount ow ?res)"
    using assms(5-8)
    by (auto simp: Delegate_Validate_def bindE_eq_Inr scmp_defs trxPrecision_def split: if_splits)
  have sub: "sint (frozenV2Amount ow ?res - ?b) = sint (frozenV2Amount ow ?res) - sint ?b"
    using v sint64_upper [of "frozenV2Amount ow ?res"] by (intro sint64_sub) (simp add: in_int64_def)
  show ?thesis
    using Delegate_run [OF assms(1-4,6) v(1) assms(7,8)] sub v
    by (auto simp: delegatedBetween_def)
qed

section \<open>Taking a delegation back\<close>

lemma UnDelegate_run:
  assumes "codec_ok cd" "accounts_keyed cd d"
    and "UnDelegate_unpack cd ctx = Inr u" "ud_ReceiverAddress u \<noteq> ud_OwnerAddress u"
    and "AccountStore_Get cd d (ud_OwnerAddress u) = Inr ow" "AccountStore_Get cd d (ud_ReceiverAddress u) = Inr rc"
    and "Delegated_GetV2 cd d (ud_OwnerAddress u) (ud_ReceiverAddress u) False = Inr dr"
    and "dr_From dr = ud_OwnerAddress u" "dr_To dr = ud_ReceiverAddress u"
    and "sint (ud_Balance u) \<le> sint (acquiredDelegatedV2 rc (ud_Resource u))"
  shows "\<exists>d'. UnDelegate_Execute cd ctx d = (Inr (), d') \<and>
    AccountStore_Get cd d' (ud_OwnerAddress u) =
      Inr (addFrozenV2 (ud_Resource u) (ud_Balance u) (addDelegatedV2 (ud_Resource u) (- ud_Balance u) ow)) \<and>
    AccountStore_Get cd d' (ud_ReceiverAddress u) = Inr (addAcquiredDelegatedV2 (ud_Resource u) (- ud_Balance u) rc) \<and>
    delegatedBetween cd d' (ud_OwnerAddress u) (ud_ReceiverAddress u) (ud_Resource u) =
      drBalance dr (ud_Resource u) - ud_Balance u"
proof -
  let ?x = "ud_OwnerAddress u" and ?y = "ud_ReceiverAddress u" and ?res = "ud_Resource u" and ?b = "ud_Balance u"
  let ?dr = "addDRBalance ?res (- ?b) dr"
  have addr: "ac_Address ow = ?x" "ac_Address rc = ?y"
    using accounts_keyedD [OF assms(2,5)] accounts_keyedD [OF assms(2,6)] by auto
  have big: "\<not> slt (acquiredDelegatedV2 rc ?res) ?b" using assms(10) by (simp add: scmp_defs)
  let ?gone = "dr_FrozenBalanceForBandwidth ?dr = 0 \<and> dr_FrozenBalanceForEnergy ?dr = 0"
  have z: "drBalance dr ?res - ?b = 0" if "?gone"
    using that by (auto simp: addDRBalance_def drBalance_def split: if_splits)
  show ?thesis
  proof (cases "?gone")
    case True
    then show ?thesis using assms addr big z
      by (simp add: UnDelegate_Execute_def Let_def bindM_Inr Index_UnDelegateV2_apply Delegated_DeleteV2_def bindM_assoc
            delegatedBetween_def)
        (simp add: Delegated_GetV2_def loadMsg_view key_simps)
  next
    case False
    then show ?thesis using assms addr big
      by (simp add: UnDelegate_Execute_def Let_def bindM_Inr delegatedBetween_def del: de_Morgan_conj)
  qed
qed

text \<open>
  C23: Delegating and taking the same amount back is a round trip: after a validated delegation the
  matching undelegation is accepted and succeeds, and the owner's frozen and delegated-out stake,
  the receiver's acquired stake and the balance of the pair's entry are what they were.
\<close>

theorem UnDelegate_undoes_Delegate:
  assumes "codec_ok cd" "accounts_keyed cd d" "props_wf d" "entry_keyed cd d (dl_OwnerAddress c) (dl_ReceiverAddress c)"
    and "Delegate_Validate cd ctx d = Inr ()" "Delegate_unpack cd ctx = Inr c"
    and "AccountStore_Get cd d (dl_OwnerAddress c) = Inr ow" "AccountStore_Get cd d (dl_ReceiverAddress c) = Inr rc"
    and "UnDelegate_unpack cd ctx' = Inr \<lparr>ud_OwnerAddress = dl_OwnerAddress c, ud_Resource = dl_Resource c,
       ud_Balance = dl_Balance c, ud_ReceiverAddress = dl_ReceiverAddress c\<rparr>"
    and "0 \<le> sint (acquiredDelegatedV2 rc (dl_Resource c))"
      "sint (acquiredDelegatedV2 rc (dl_Resource c)) + sint (dl_Balance c) < 2 ^ 63"
    and "0 \<le> sint (delegatedBetween cd d (dl_OwnerAddress c) (dl_ReceiverAddress c) (dl_Resource c))"
      "sint (delegatedBetween cd d (dl_OwnerAddress c) (dl_ReceiverAddress c) (dl_Resource c)) + sint (dl_Balance c) < 2 ^ 63"
  shows "\<exists>d1 d2 ow' rc'. Delegate_Execute cd ctx d = (Inr (), d1) \<and> UnDelegate_Validate cd ctx' d1 = Inr () \<and>
    UnDelegate_Execute cd ctx' d1 = (Inr (), d2) \<and>
    AccountStore_Get cd d2 (dl_OwnerAddress c) = Inr ow' \<and> AccountStore_Get cd d2 (dl_ReceiverAddress c) = Inr rc' \<and>
    frozenV2Amount ow' (dl_Resource c) = frozenV2Amount ow (dl_Resource c) \<and>
    delegatedOutV2 ow' (dl_Resource c) = delegatedOutV2 ow (dl_Resource c) \<and> v2Holdings ow' = v2Holdings ow \<and>
    acquiredDelegatedV2 rc' (dl_Resource c) = acquiredDelegatedV2 rc (dl_Resource c) \<and>
    delegatedBetween cd d2 (dl_OwnerAddress c) (dl_ReceiverAddress c) (dl_Resource c) =
      delegatedBetween cd d (dl_OwnerAddress c) (dl_ReceiverAddress c) (dl_Resource c)"
proof -
  let ?x = "dl_OwnerAddress c" and ?y = "dl_ReceiverAddress c" and ?res = "dl_Resource c" and ?b = "dl_Balance c"
  let ?u = "\<lparr>ud_OwnerAddress = ?x, ud_Resource = ?res, ud_Balance = ?b, ud_ReceiverAddress = ?y\<rparr>"
  have v: "?y \<noteq> ?x" "0 < sint ?b" "validV2Resource ?res" "requireStake2 d = Inr ()"
    "checkAddress ''actuator: invalid owner address'' ?x = Inr ()" "checkAddress ''actuator: invalid receiverAddress'' ?y = Inr ()"
    using assms(5-8) by (auto simp: Delegate_Validate_def bindE_eq_Inr scmp_defs trxPrecision_def split: if_splits)
  obtain d1 dr where d1: "Delegate_Execute cd ctx d = (Inr (), d1)"
    "AccountStore_Get cd d1 ?x = Inr (addFrozenV2 ?res (- ?b) (addDelegatedV2 ?res ?b ow))"
    "AccountStore_Get cd d1 ?y = Inr (addAcquiredDelegatedV2 ?res ?b rc)"
    "Delegated_GetV2 cd d1 ?x ?y False = Inr dr" "dr_From dr = ?x" "dr_To dr = ?y"
    "drBalance dr ?res = delegatedBetween cd d ?x ?y ?res + ?b" "same_props d d1"
    using Delegate_run [OF assms(1-4,6) v(1) assms(7,8)] by blast
  have k1: "accounts_keyed cd d1"
    using keepsD [OF write_inv.keeps_delegate(1) [OF codec_keyed [OF assms(1)]] assms(2), of ctx] d1(1) by simp
  have ac: "sint (acquiredDelegatedV2 rc ?res + ?b) = sint (acquiredDelegatedV2 rc ?res) + sint ?b"
    using v(2) assms(10,11) by (intro sint64_add) (simp add: in_int64_def)
  have bal: "sint (drBalance dr ?res) = sint (delegatedBetween cd d ?x ?y ?res) + sint ?b"
    unfolding d1(7) using v(2) assms(12,13) by (intro sint64_add) (simp add: in_int64_def)
  have stake: "requireStake2 d1 = Inr ()"
    using v(4) same_props_getOr [OF d1(8)] by (simp add: requireStake2_def SupportUnfreezeDelay_def)
  have valid: "UnDelegate_Validate cd ctx' d1 = Inr ()"
    using v stake d1(4) bal assms(9,12) by (simp add: UnDelegate_Validate_def scmp_defs checkAddress_def)
  show ?thesis
    using UnDelegate_run [OF assms(1) k1 assms(9), of "addFrozenV2 ?res (- ?b) (addDelegatedV2 ?res ?b ow)"
        "addAcquiredDelegatedV2 ?res ?b rc" dr] v(1) d1 valid ac assms(10)
    by auto
qed

section \<open>Concrete runs\<close>

definition sampleDelegate :: DelegateResourceC where
  "sampleDelegate = \<lparr>dl_OwnerAddress = 65 # replicate 20 1, dl_Resource = BANDWIDTH, dl_Balance = 3000000,
     dl_ReceiverAddress = 65 # replicate 20 2, dl_Lock = False\<rparr>"

definition delegateCtx :: Context where
  "delegateCtx = sampleCtx DelegateResourceContract (pack 7 fmt_Delegate sampleDelegate)"

definition delegateDb :: Database where "delegateDb = stakeDb [sampleAccount 2 0, stakedAccount]"

lemma sampleDelegate_simps [simp]:
  "dl_OwnerAddress sampleDelegate = 65 # replicate 20 1" "dl_ReceiverAddress sampleDelegate = 65 # replicate 20 2"
  "dl_Balance sampleDelegate = 3000000" "dl_Resource sampleDelegate = BANDWIDTH" "\<not> dl_Lock sampleDelegate"
  by (simp_all add: sampleDelegate_def)

lemma delegateDb_facts:
  "accounts_keyed ref_codec delegateDb" "props_wf delegateDb"
  "AccountStore_Get ref_codec delegateDb (65 # replicate 20 1) = Inr stakedAccount"
  "AccountStore_Get ref_codec delegateDb (65 # replicate 20 2) = Inr (sampleAccount 2 0)"
  "Delegated_GetV2 ref_codec delegateDb x y False = Inl ErrNotFound"
proof -
  have ne: "replicate 20 (2::byte) \<noteq> replicate 20 1" by (simp add: numeral_eq_Suc)
  show "AccountStore_Get ref_codec delegateDb (65 # replicate 20 2) = Inr (sampleAccount 2 0)"
    using ne by (simp add: delegateDb_def)
  have "view (sampleDb as) (nsKey delegatedPrefix k) = None" for as k
    by (induction as rule: rev_induct) (simp_all add: sampleDb_snoc ref_codec_ok, simp add: key_simps)
  then show "Delegated_GetV2 ref_codec delegateDb x y False = Inl ErrNotFound"
    by (simp add: Delegated_GetV2_def loadMsg_view delegateDb_def stakeDb_def) (simp add: key_simps)
qed (simp_all add: delegateDb_def)

lemma delegate_sample:
  "Delegate_unpack ref_codec delegateCtx = Inr sampleDelegate"
  "entry_keyed ref_codec delegateDb x y"
  "Delegate_Validate ref_codec delegateCtx delegateDb = Inr ()"
proof -
  have ne: "replicate 20 (2::byte) \<noteq> replicate 20 1" by (simp add: numeral_eq_Suc)
  show u: "Delegate_unpack ref_codec delegateCtx = Inr sampleDelegate"
    by (simp add: delegateCtx_def Delegate_unpack_def unpackE_def)
  show "entry_keyed ref_codec delegateDb x y" by (simp add: entry_keyed_def delegateDb_facts)
  have "requireStake2 delegateDb = Inr ()" by (simp add: delegateDb_def stakeDb_reads)
  then show "Delegate_Validate ref_codec delegateCtx delegateDb = Inr ()"
    using ne by (simp add: Delegate_Validate_def u delegateDb_facts checkAddress_def validV2Resource_def scmp_defs trxPrecision_def)
      (simp add: sampleAccount_def zero_Account_def)
qed

theorem Delegate_moves_stake_witness:
  "\<exists>d' ow'. Delegate_Execute ref_codec delegateCtx delegateDb = (Inr (), d') \<and>
    AccountStore_Get ref_codec d' (65 # replicate 20 1) = Inr ow' \<and> sint (frozenV2Amount ow' BANDWIDTH) = 6000000"
  using Delegate_moves_stake [OF ref_codec_ok delegateDb_facts(1,2) delegate_sample(2,3,1), of stakedAccount "sampleAccount 2 0"]
  by (auto simp: delegateDb_facts)

theorem UnDelegate_undoes_Delegate_witness:
  "\<exists>d1 d2 ow'. Delegate_Execute ref_codec delegateCtx delegateDb = (Inr (), d1) \<and>
    UnDelegate_Execute ref_codec (sampleCtx UnDelegateResourceContract (pack 8 fmt_UnDelegate
      \<lparr>ud_OwnerAddress = 65 # replicate 20 1, ud_Resource = BANDWIDTH, ud_Balance = 3000000,
       ud_ReceiverAddress = 65 # replicate 20 2\<rparr>)) d1 = (Inr (), d2) \<and>
    AccountStore_Get ref_codec d2 (65 # replicate 20 1) = Inr ow' \<and> frozenV2Amount ow' BANDWIDTH = 9000000"
proof -
  let ?u = "\<lparr>ud_OwnerAddress = 65 # replicate 20 1, ud_Resource = BANDWIDTH, ud_Balance = 3000000,
       ud_ReceiverAddress = 65 # replicate 20 2\<rparr>"
  let ?ctx = "sampleCtx UnDelegateResourceContract (pack 8 fmt_UnDelegate ?u)"
  have u: "UnDelegate_unpack ref_codec ?ctx = Inr ?u" by (simp add: UnDelegate_unpack_def unpackE_def)
  have a: "acquiredDelegatedV2 (sampleAccount 2 0) BANDWIDTH = 0"
    by (simp add: acquiredDelegatedV2_def sampleAccount_def zero_Account_def)
  show ?thesis
    using UnDelegate_undoes_Delegate [OF ref_codec_ok delegateDb_facts(1,2) delegate_sample(2,3,1), of stakedAccount
        "sampleAccount 2 0" ?ctx] a u
    by (auto simp: delegateDb_facts delegatedBetween_def)
qed

end
