(* ===== verification/Vote.thy ===== *)
theory Vote
  imports Freeze
begin

text \<open>
  \<open>internal/actuator/vote.go\<close>: casting votes for witnesses. An account may spend its voting power,
  all its staked TRX; the cast replaces the account's votes and the new votes of its entry in the
  votes store.
\<close>

definition maxVoteNumber :: nat where "maxVoteNumber = 30"

definition tronPower :: "Account \<Rightarrow> int64" where
  "tronPower a =
     (let res = GetAccountResource a;
          tp0 = sumFrozen a + GetFrozenBalance (ar_FrozenBalanceForEnergy res) +
                ac_DelegatedFrozenBalanceForBandwidth a + ar_DelegatedFrozenBalanceForEnergy res;
          tp1 = fold (\<lambda>f tp. if f2_Type f \<noteq> TRON_POWER then tp + f2_Amount f else tp) (ac_FrozenV2 a) tp0
      in tp1 + ac_DelegatedFrozenV2BalanceForBandwidth a + ar_DelegatedFrozenV2BalanceForEnergy res)"

definition Vote_unpack :: "codec \<Rightarrow> Context \<Rightarrow> VoteWitnessC result" where
  "Vote_unpack cd = unpackE ''unpack VoteWitnessContract'' (to_VoteWitness cd)"

fun voteSum :: "Database \<Rightarrow> Vote list \<Rightarrow> int64 \<Rightarrow> int64 result" where
  "voteSum d [] tot = Inr tot"
| "voteSum d (v # vs) tot =
     bindE (case FromBytes (v_VoteAddress v) of Inl _ \<Rightarrow> Inl (Err ''actuator: invalid vote address!'') | Inr _ \<Rightarrow> Inr ()) (\<lambda>_.
     bindE (check (sle (v_VoteCount v) 0) (Err ''actuator: vote count must be greater than 0'')) (\<lambda>_.
     bindE (WitnessStore_Has d (v_VoteAddress v)) (\<lambda>has.
     bindE (check (\<not> has) (Err ''actuator: witness does not exist'')) (\<lambda>_.
       voteSum d vs (tot + v_VoteCount v)))))"

definition Vote_Validate :: "codec \<Rightarrow> Context \<Rightarrow> Database \<Rightarrow> unit result" where
  "Vote_Validate cd ctx d =
     bindE (Vote_unpack cd ctx) (\<lambda>c.
     bindE (checkAddress ''actuator: invalid owner address'' (vw_OwnerAddress c)) (\<lambda>_.
     let votes = vw_Votes c in
     bindE (check (length votes = 0) (Err ''actuator: VoteNumber must be more than 0'')) (\<lambda>_.
     bindE (check (length votes > maxVoteNumber) (Err ''actuator: VoteNumber more than maxVoteNumber'')) (\<lambda>_.
     bindE (wrapE ''actuator: vote owner account missing'' (AccountStore_Get cd d (vw_OwnerAddress c))) (\<lambda>owner.
     bindE (voteSum d votes 0) (\<lambda>tot.
       check (slt (tronPower owner) (tot * trxPrecision))
         (Err ''actuator: the total number of votes exceeds the tronPower'')))))))"

definition cloneVotes :: "Vote list \<Rightarrow> Vote list" where
  "cloneVotes vs = map (\<lambda>v. \<lparr>v_VoteAddress = v_VoteAddress v, v_VoteCount = v_VoteCount v\<rparr>) vs"

definition Vote_Execute :: "codec \<Rightarrow> Context \<Rightarrow> (Database, unit) op" where
  "Vote_Execute cd ctx =
     bindM (liftM (Vote_unpack cd ctx)) (\<lambda>c.
     bindM (readM (\<lambda>d. AccountStore_Get cd d (vw_OwnerAddress c))) (\<lambda>_.
     bindM (WithdrawReward cd (vw_OwnerAddress c)) (\<lambda>_.
     bindM (readM (\<lambda>d. AccountStore_Get cd d (vw_OwnerAddress c))) (\<lambda>owner.
     bindM (tryR (\<lambda>d. VotesStore_Get cd d (vw_OwnerAddress c))) (\<lambda>r.
       let votes = (case r of
              Inl _ \<Rightarrow> \<lparr>vs_Address = vw_OwnerAddress c, vs_OldVotes = cloneVotes (ac_Votes owner), vs_NewVotes = []\<rparr>
            | Inr v \<Rightarrow> v);
           cast = map (\<lambda>v. \<lparr>v_VoteAddress = v_VoteAddress v, v_VoteCount = v_VoteCount v\<rparr>) (vw_Votes c) in
       bindM (AccountStore_Put cd (owner\<lparr>ac_Votes := cast\<rparr>)) (\<lambda>_.
         VotesStore_Put cd (votes\<lparr>vs_NewVotes := cast\<rparr>)))))))"

context write_inv
begin

lemma keeps_Vote [keeps_intros]: "keeps P (Vote_Execute cd ctx)"
  unfolding Vote_Execute_def Let_def by (intro keeps_intros)

end

section \<open>What a valid ballot is\<close>

lemma voteSum_ok:
  "voteSum d vs tot = Inr t \<Longrightarrow>
    (\<forall>v \<in> set vs. 0 < sint (v_VoteCount v) \<and> WitnessStore_Has d (v_VoteAddress v) = Inr True) \<and>
    t = tot + sum_list (map v_VoteCount vs)"
proof (induction vs arbitrary: tot)
  case (Cons v vs)
  then have "0 < sint (v_VoteCount v)" "WitnessStore_Has d (v_VoteAddress v) = Inr True"
    "voteSum d vs (tot + v_VoteCount v) = Inr t"
    by (auto simp: bindE_eq_Inr scmp_defs split: if_splits sum.splits)
  with Cons.IH [of "tot + v_VoteCount v"] show ?case by (simp add: add.assoc)
qed simp

lemma sint_sum_list:
  "(\<forall>x \<in> set xs. 0 \<le> sint (x :: int64)) \<Longrightarrow> sum_list (map sint xs) < 2 ^ 63 \<Longrightarrow> sint (sum_list xs) = sum_list (map sint xs)"
proof (induction xs)
  case (Cons x xs)
  then have nn: "0 \<le> sum_list (map sint xs)" by (intro sum_list_le_add_int) simp
  with Cons have IH: "sint (sum_list xs) = sum_list (map sint xs)" by simp
  then have "sint (x + sum_list xs) = sint x + sint (sum_list xs)"
    using Cons.prems nn by (intro sint64_add) (simp add: in_int64_def)
  with IH show ?case by simp
qed simp

text \<open>
  A ballot that passes validation has between 1 and 30 votes, every vote is a positive count for
  an existing witness, and, as long as the total in sun fits 64 bits, the votes together cost at most
  the voter's power.
\<close>

theorem Vote_Validate_ok:
  assumes "Vote_Validate cd ctx d = Inr ()" "Vote_unpack cd ctx = Inr c"
    and "AccountStore_Get cd d (vw_OwnerAddress c) = Inr owner"
    and "sum_list (map (sint \<circ> v_VoteCount) (vw_Votes c)) * 1000000 < 2 ^ 63"
  shows "1 \<le> length (vw_Votes c) \<and> length (vw_Votes c) \<le> maxVoteNumber \<and>
    (\<forall>v \<in> set (vw_Votes c). 0 < sint (v_VoteCount v) \<and> WitnessStore_Has d (v_VoteAddress v) = Inr True) \<and>
    sum_list (map (sint \<circ> v_VoteCount) (vw_Votes c)) * 1000000 \<le> sint (tronPower owner)"
proof -
  let ?xs = "map v_VoteCount (vw_Votes c)" and ?t = "sum_list (map (sint \<circ> v_VoteCount) (vw_Votes c))"
  obtain t where v: "1 \<le> length (vw_Votes c)" "length (vw_Votes c) \<le> maxVoteNumber"
    "voteSum d (vw_Votes c) 0 = Inr t" "sint (t * trxPrecision) \<le> sint (tronPower owner)"
    using assms(1-3) by (auto simp: Vote_Validate_def bindE_eq_Inr Let_def scmp_defs Suc_le_eq split: if_splits)
  note vs = voteSum_ok [OF v(3)]
  have nn: "0 \<le> ?t" using vs by (intro sum_list_le_add_int) auto
  then have "sint (sum_list ?xs) = ?t"
    using vs assms(4) by (subst sint_sum_list) (auto simp: less_imp_le)
  then have "sint (sum_list ?xs * trxPrecision) = ?t * 1000000"
    using nn assms(4) by (subst sint64_mult) (simp_all add: in_int64_def trxPrecision_def)
  with v vs show ?thesis by simp
qed

text \<open>
  C25: The total is multiplied in 64 bits: a single vote of 2 to the 58th for an existing witness wraps
  to zero sun and passes validation for any voter whose power is nonnegative, even zero.
\<close>

theorem Vote_Validate_wraps:
  assumes "Vote_unpack cd ctx = Inr \<lparr>vw_OwnerAddress = ow, vw_Votes = [\<lparr>v_VoteAddress = w, v_VoteCount = 2 ^ 58\<rparr>]\<rparr>"
    and "FromBytes ow = Inr ow" "FromBytes w = Inr w"
    and "AccountStore_Get cd d ow = Inr owner" "WitnessStore_Has d w = Inr True" "0 \<le> sint (tronPower owner)"
  shows "Vote_Validate cd ctx d = Inr ()"
proof -
  have "(2 ^ 58 :: int64) * trxPrecision = 0" by (simp add: trxPrecision_def)
  then show ?thesis
    using assms by (simp add: Vote_Validate_def checkAddress_def scmp_defs maxVoteNumber_def)
qed

section \<open>Casting\<close>

text \<open>
  C24: Casting first settles the voter's pending rewards, and then replaces the voter's votes and the
  new votes of its entry in the votes store by the ballot; of the account nothing else changes than
  the allowance, which is what the settlement leaves. An entry created by the cast remembers the votes
  the account had, an existing one keeps what it remembered. All other accounts are unchanged.
\<close>

theorem Vote_casts:
  assumes "codec_ok cd" "accounts_keyed cd d" "props_wf d" "delegation_wf d"
    and "Vote_unpack cd ctx = Inr c" "AccountStore_Get cd d (vw_OwnerAddress c) = Inr owner"
    and "VotesStore_Get cd d (vw_OwnerAddress c) = Inl e \<or>
      VotesStore_Get cd d (vw_OwnerAddress c) = Inr vo \<and> vs_Address vo = vw_OwnerAddress c"
  shows "\<exists>d1 al d' en. WithdrawReward cd (vw_OwnerAddress c) d = (Inr (), d1) \<and>
    AccountStore_Get cd d1 (vw_OwnerAddress c) = Inr (owner\<lparr>ac_Allowance := al\<rparr>) \<and> Vote_Execute cd ctx d = (Inr (), d') \<and>
    AccountStore_Get cd d' (vw_OwnerAddress c) = Inr (owner\<lparr>ac_Allowance := al, ac_Votes := vw_Votes c\<rparr>) \<and>
    VotesStore_Get cd d' (vw_OwnerAddress c) = Inr en \<and> vs_NewVotes en = vw_Votes c \<and>
    vs_OldVotes en = (case VotesStore_Get cd d (vw_OwnerAddress c) of Inl _ \<Rightarrow> ac_Votes owner | Inr v \<Rightarrow> vs_OldVotes v) \<and>
    (\<forall>a. a \<noteq> vw_OwnerAddress c \<longrightarrow> AccountStore_Get cd d' a = AccountStore_Get cd d a)"
proof -
  let ?ow = "vw_OwnerAddress c"
  have addr: "ac_Address owner = ?ow" using accounts_keyedD [OF assms(2,6)] .
  have id: "map (\<lambda>v. \<lparr>v_VoteAddress = v_VoteAddress v, v_VoteCount = v_VoteCount v\<rparr>) vs = vs" for vs :: "Vote list"
    by (simp add: map_idI)
  from settlement [OF assms(1-4,6)] obtain d1 al where
    st: "WithdrawReward cd ?ow d = (Inr (), d1)" "reward_only ?ow d d1" "same_props d d1" "props_wf d1" "accounts_keyed cd d1"
      "AccountStore_Get cd d1 ?ow = Inr (owner\<lparr>ac_Allowance := al\<rparr>)" .
  have same: "VotesStore_Get cd d1 ?ow = VotesStore_Get cd d ?ow"
    using st(2) by (simp add: reward_only_def VotesStore_Get_def loadMsg_view has_prefix_def dgSpace_def ascii_simps key_simps)
  have other: "AccountStore_Get cd d1 a = AccountStore_Get cd d a" if "a \<noteq> ?ow" for a
    using reward_only_accounts [OF st(2) that] .
  have vot: "VotesStore_Put cd v d' = (Inr (), Database_Put d' (nsKey votesPrefix (vs_Address v)) (enc_Votes cd v))"
    "VotesStore_Get cd (Database_Put d' (nsKey votesPrefix a) (enc_Votes cd v)) a = Inr v"
    "AccountStore_Get cd (Database_Put d' (nsKey votesPrefix a) b) x = AccountStore_Get cd d' x"
    "VotesStore_Get cd (Database_Put d' (nsKey accountPrefix a') b) a = VotesStore_Get cd d' a" for v d' a b x a'
    using assms(1) by (simp_all add: VotesStore_Put_def saveMsg_Some VotesStore_Get_def loadMsg_view AccountStore_Get_view key_simps)
  show ?thesis
    using assms(1,5-7) addr st(1,6) same other vot
    by (auto simp: Vote_Execute_def cloneVotes_def id Let_def bindM_Inr)
qed

section \<open>Concrete ballots\<close>

definition voteDb :: Database where
  "voteDb = snd (WitnessStore_Put ref_codec (zero_Witness\<lparr>w_Address := 65 # replicate 20 9\<rparr>) (sampleDb [frozenAccount]))"

definition voteCtx :: "int64 \<Rightarrow> Context" where
  "voteCtx n = sampleCtx VoteWitnessContract (pack 9 fmt_VoteWitness \<lparr>vw_OwnerAddress = 65 # replicate 20 1,
     vw_Votes = [\<lparr>v_VoteAddress = 65 # replicate 20 9, v_VoteCount = n\<rparr>]\<rparr>)"

lemma voteCtx_unpack:
  "Vote_unpack ref_codec (voteCtx n) = Inr \<lparr>vw_OwnerAddress = 65 # replicate 20 1,
     vw_Votes = [\<lparr>v_VoteAddress = 65 # replicate 20 9, v_VoteCount = n\<rparr>]\<rparr>"
  by (simp add: voteCtx_def Vote_unpack_def unpackE_def)

lemma voteDb_put: "voteDb = Database_Put (sampleDb [frozenAccount]) (nsKey witnessPrefix (65 # replicate 20 9))
    (enc_Witness ref_codec (zero_Witness\<lparr>w_Address := 65 # replicate 20 9\<rparr>))"
  by (simp add: voteDb_def WitnessStore_Put_def saveMsg_Some enc_Witness_def)

lemma voteDb_facts:
  "accounts_keyed ref_codec voteDb" "AllowChangeDelegation voteDb = Inr False"
  "AccountStore_Get ref_codec voteDb (65 # replicate 20 1) = Inr frozenAccount"
  "WitnessStore_Has voteDb (65 # replicate 20 9) = Inr True"
  "VotesStore_Get ref_codec voteDb a = Inl ErrNotFound"
  "sint (tronPower frozenAccount) = 2000000"
proof -
  show "accounts_keyed ref_codec voteDb"
    unfolding voteDb_def by (rule keepsD [OF ref_rt.keyed.keeps_stores(1) sampleDb_keyed])
  show "AllowChangeDelegation voteDb = Inr False"
    by (simp add: voteDb_put AllowChangeDelegation_def flagOn_def) (simp add: key_simps)
  show "AccountStore_Get ref_codec voteDb (65 # replicate 20 1) = Inr frozenAccount"
    by (simp add: voteDb_put AccountStore_Get_frame key_simps) (simp add: frozenAccount_def)
  show "WitnessStore_Has voteDb (65 # replicate 20 9) = Inr True"
    by (simp add: voteDb_put WitnessStore_Has_def rdb.Has_abs)
  have "view (sampleDb as) (nsKey votesPrefix k) = None" for as k
    by (induction as rule: rev_induct) (simp_all add: sampleDb_snoc ref_codec_ok, simp add: key_simps)
  then show "VotesStore_Get ref_codec voteDb a = Inl ErrNotFound"
    by (simp add: voteDb_put VotesStore_Get_def loadMsg_view) (simp add: key_simps)
  show "sint (tronPower frozenAccount) = 2000000"
    by (simp add: tronPower_def frozenAccount_def sampleAccount_def zero_Account_def sumFrozen_def GetAccountResource_def
        GetFrozenBalance_def zero_AccountResource_def)
qed

theorem Vote_Validate_ok_witness: "sint (2 :: int64) * 1000000 \<le> sint (tronPower frozenAccount)"
proof -
  have "Vote_Validate ref_codec (voteCtx 2) voteDb = Inr ()"
    by (simp add: Vote_Validate_def voteCtx_unpack voteDb_facts checkAddress_def scmp_defs maxVoteNumber_def trxPrecision_def)
  from Vote_Validate_ok [OF this voteCtx_unpack, of frozenAccount] show ?thesis by (simp add: voteDb_facts)
qed

theorem Vote_Validate_wraps_witness: "Vote_Validate ref_codec (voteCtx (2 ^ 58)) voteDb = Inr ()"
  using Vote_Validate_wraps [OF voteCtx_unpack, where d = voteDb and owner = frozenAccount] by (simp add: voteDb_facts)

text \<open>The voter with a reward of 23 pending casts a new ballot: settled, and the old ballot remembered.\<close>

definition castDb :: Database where
  "castDb = withRewards (sampleDb [frozenVoter])"

lemma castDb_facts:
  "accounts_keyed ref_codec castDb" "props_wf castDb" "delegation_wf castDb"
  "AccountStore_Get ref_codec castDb (65 # replicate 20 1) = Inr frozenVoter" "VotesStore_Get ref_codec castDb a = Inl ErrNotFound"
proof -
  have "view (sampleDb as) (nsKey votesPrefix k) = None" for as k
    by (induction as rule: rev_induct) (simp_all add: sampleDb_snoc ref_codec_ok, simp add: key_simps)
  then show "VotesStore_Get ref_codec castDb a = Inl ErrNotFound" by (simp add: castDb_def VotesStore_Get_def loadMsg_view)
qed (simp_all add: castDb_def sampleDb_keyed withRewards_props withRewards_wf)

theorem Vote_casts_witness:
  "\<exists>d' en. Vote_Execute ref_codec (voteCtx 2) castDb = (Inr (), d') \<and>
    AccountStore_Get ref_codec d' (65 # replicate 20 1) =
      Inr (frozenVoter\<lparr>ac_Allowance := 30, ac_Votes := [\<lparr>v_VoteAddress = 65 # replicate 20 9, v_VoteCount = 2\<rparr>]\<rparr>) \<and>
    VotesStore_Get ref_codec d' (65 # replicate 20 1) = Inr en \<and>
    vs_NewVotes en = [\<lparr>v_VoteAddress = 65 # replicate 20 9, v_VoteCount = 2\<rparr>] \<and>
    vs_OldVotes en = [\<lparr>v_VoteAddress = 65 # replicate 20 9, v_VoteCount = 3\<rparr>]"
proof -
  from withRewards_settles [of "sampleDb [frozenVoter]" frozenVoter] obtain d1 where
    d1: "WithdrawReward ref_codec (65 # replicate 20 1) castDb = (Inr (), d1)"
      "AccountStore_Get ref_codec d1 (65 # replicate 20 1) = Inr (frozenVoter\<lparr>ac_Allowance := 30\<rparr>)" by (auto simp: castDb_def)
  let ?c = "\<lparr>vw_OwnerAddress = 65 # replicate 20 1, vw_Votes = [\<lparr>v_VoteAddress = 65 # replicate 20 9, v_VoteCount = 2\<rparr>]\<rparr>"
  have get: "AccountStore_Get ref_codec castDb (vw_OwnerAddress ?c) = Inr frozenVoter"
    "VotesStore_Get ref_codec castDb (vw_OwnerAddress ?c) = Inl ErrNotFound"
    by (simp_all add: castDb_facts)
  from Vote_casts [OF ref_codec_ok castDb_facts(1-3) voteCtx_unpack get(1) disjI1 [OF get(2)]]
  obtain d2 al d' en where run: "WithdrawReward ref_codec (65 # replicate 20 1) castDb = (Inr (), d2)"
    "AccountStore_Get ref_codec d2 (65 # replicate 20 1) = Inr (frozenVoter\<lparr>ac_Allowance := al\<rparr>)"
    "Vote_Execute ref_codec (voteCtx 2) castDb = (Inr (), d')"
    "AccountStore_Get ref_codec d' (65 # replicate 20 1) =
      Inr (frozenVoter\<lparr>ac_Allowance := al, ac_Votes := [\<lparr>v_VoteAddress = 65 # replicate 20 9, v_VoteCount = 2\<rparr>]\<rparr>)"
    "VotesStore_Get ref_codec d' (65 # replicate 20 1) = Inr en"
    "vs_NewVotes en = [\<lparr>v_VoteAddress = 65 # replicate 20 9, v_VoteCount = 2\<rparr>]"
    "vs_OldVotes en = [\<lparr>v_VoteAddress = 65 # replicate 20 9, v_VoteCount = 3\<rparr>]"
    unfolding get by (elim exE conjE) (simp only: VoteWitnessC.simps sum.case frozenVoter_simps)
  have "frozenVoter\<lparr>ac_Allowance := al\<rparr> = frozenVoter\<lparr>ac_Allowance := 30\<rparr>" using d1 run(1,2) by simp
  then have "al = 30" by (rule allowance_inject)
  with run(3-7) show ?thesis by simp
qed

end
