(* ===== verification/Tvm_Base.thy ===== *)
theory Tvm_Base
  imports Merkle_Block
begin

text \<open>
  \<open>internal/tvm\<close>, the parts below the interpreter: 256-bit words, operand stack (\<open>stack.go\<close>), memory
  (\<open>memory.go\<close>), energy meter (\<open>energy.go\<close>), fork gates (\<open>fork.go\<close>, \<open>VMConfig\<close> of \<open>interpreter.go\<close>),
  addresses and frames (\<open>contract.go\<close>) and event logs (\<open>logs.go\<close>).

  A \<open>uint256.Int\<close> is a \<open>256 word\<close>; a stack is a list with the top first; \<open>nil\<close> and empty slices are
  the same list. A Go panic is the outcome \<open>Crash\<close>.
\<close>

unbundle bit_operations_syntax

section \<open>Outcomes\<close>

datatype vmError =
    ErrStackUnderflow | ErrStackOverflow | ErrOutOfEnergy | ErrInvalidOpcode | ErrBadJumpDest
  | ErrMemoryOverflow | ErrGasUintOverflow | ErrStaticStateChange | ErrReturnDataOutOfBounds
  | ErrStakingOpDeferred | errPrecompileFailure | errShieldedUnsupported

text \<open>
  The outcome of a step: it goes on with a value, ends the frame with a VM exception (the value
  as far as it had been updated), panics, or, in the model only, has run out of fuel.
\<close>

datatype 'a outcome = Next 'a | Fault vmError 'a | Crash string | NoFuel

definition bindV :: "'a outcome \<Rightarrow> ('a \<Rightarrow> 'a outcome) \<Rightarrow> 'a outcome" where
  "bindV r f = (case r of Next x \<Rightarrow> f x | Fault e x \<Rightarrow> Fault e x | Crash s \<Rightarrow> Crash s | NoFuel \<Rightarrow> NoFuel)"

lemma bindV_simps [simp]:
  "bindV (Next x) f = f x" "bindV (Fault e x) f = Fault e x" "bindV (Crash s) f = Crash s" "bindV NoFuel f = NoFuel"
  by (simp_all add: bindV_def)

section \<open>256-bit words\<close>

definition Bytes32 :: "u256 \<Rightarrow> bytes" where
  "Bytes32 w = nat_to_be 32 (unat w)"

definition u_SetBytes :: "bytes \<Rightarrow> u256" where
  "u_SetBytes b = word_of_nat (be_to_nat b)"

lemma length_Bytes32 [simp]: "length (Bytes32 w) = 32"
  by (simp add: Bytes32_def)

lemma u_SetBytes_Bytes32 [simp]: "u_SetBytes (Bytes32 w) = w"
proof -
  have "unat w < 256 ^ 32" using unsigned_less [of w, where 'a = nat] by simp
  then show ?thesis by (simp add: u_SetBytes_def Bytes32_def)
qed

definition IsUint64 :: "u256 \<Rightarrow> bool" where
  "IsUint64 v \<longleftrightarrow> unat v < 2 ^ 64"

definition u_Uint64 :: "u256 \<Rightarrow> uint64" where
  "u_Uint64 v = ucast v"

definition SetUint64 :: "uint64 \<Rightarrow> u256" where
  "SetUint64 n = ucast n"

lemma unat_u_Uint64: "IsUint64 v \<Longrightarrow> unat (u_Uint64 v) = unat v"
  by (simp add: IsUint64_def u_Uint64_def unsigned_ucast_eq take_bit_nat_eq_self)

definition u_Div :: "u256 \<Rightarrow> u256 \<Rightarrow> u256" where
  "u_Div x y = (if y = 0 then 0 else x div y)"

definition u_SDiv :: "u256 \<Rightarrow> u256 \<Rightarrow> u256" where
  "u_SDiv x y = (if y = 0 then 0 else word_of_int (tquot (sint x) (sint y)))"

definition u_Mod :: "u256 \<Rightarrow> u256 \<Rightarrow> u256" where
  "u_Mod x y = (if y = 0 then 0 else x mod y)"

definition u_SMod :: "u256 \<Rightarrow> u256 \<Rightarrow> u256" where
  "u_SMod x y = (if y = 0 then 0 else word_of_int (sint x - tquot (sint x) (sint y) * sint y))"

definition u_AddMod :: "u256 \<Rightarrow> u256 \<Rightarrow> u256 \<Rightarrow> u256" where
  "u_AddMod a b m = (if m = 0 then 0 else word_of_nat ((unat a + unat b) mod unat m))"

definition u_MulMod :: "u256 \<Rightarrow> u256 \<Rightarrow> u256 \<Rightarrow> u256" where
  "u_MulMod a b m = (if m = 0 then 0 else word_of_nat (unat a * unat b mod unat m))"

definition u_Exp :: "u256 \<Rightarrow> u256 \<Rightarrow> u256" where
  "u_Exp base e = base ^ unat e"

definition u_ExtendSign :: "u256 \<Rightarrow> u256 \<Rightarrow> u256" where
  "u_ExtendSign x k = (if 30 < unat k then x else signed_take_bit (8 * unat k + 7) x)"

definition u_Byte :: "u256 \<Rightarrow> u256 \<Rightarrow> u256" where
  "u_Byte v n = (if unat n < 32 then take_bit 8 (drop_bit (8 * (31 - unat n)) v) else 0)"

definition u_ByteLen :: "u256 \<Rightarrow> nat" where
  "u_ByteLen w = length (nat_bytes (unat w))"

section \<open>Operand stack (stack.go)\<close>

definition MaxStack :: nat where "MaxStack = 1024"

type_synonym stack = "u256 list"

definition stack_push :: "u256 \<Rightarrow> stack \<Rightarrow> vmError + stack" where
  "stack_push v s = (if length s \<ge> MaxStack then Inl ErrStackOverflow else Inr (v # s))"

text \<open>The callers ignore the error of \<open>pop\<close>; the value is then the zero word.\<close>

definition stack_pop :: "stack \<Rightarrow> u256 \<times> stack" where
  "stack_pop s = (case s of [] \<Rightarrow> (0, []) | v # s' \<Rightarrow> (v, s'))"

definition stack_peek :: "nat \<Rightarrow> stack \<Rightarrow> u256 option" where
  "stack_peek n s = (if n < length s then Some (s ! n) else None)"

definition stack_dup :: "nat \<Rightarrow> stack \<Rightarrow> vmError + stack" where
  "stack_dup n s = (if length s < n then Inl ErrStackUnderflow
     else if length s \<ge> MaxStack then Inl ErrStackOverflow else Inr (s ! (n - 1) # s))"

definition stack_swap :: "nat \<Rightarrow> stack \<Rightarrow> vmError + stack" where
  "stack_swap n s = (if length s < n + 1 then Inl ErrStackUnderflow else Inr (s[0 := s ! n, n := s ! 0]))"

section \<open>Memory (memory.go)\<close>

type_synonym memory = bytes

definition wordsForBytes :: "uint64 \<Rightarrow> uint64" where
  "wordsForBytes n = (n + 31) div 32"

definition mem_resize :: "uint64 \<Rightarrow> memory \<Rightarrow> memory" where
  "mem_resize sz m =
     (let need = wordsForBytes sz * 32 in
      if word_of_nat (length m) \<ge> need then m else m @ replicate (unat (need - word_of_nat (length m))) 0)"

text \<open>Slicing out of range panics: \<open>None\<close>.\<close>

definition mem_set :: "uint64 \<Rightarrow> bytes \<Rightarrow> memory \<Rightarrow> memory option" where
  "mem_set off v m =
     (if v = [] then Some m
      else let m' = mem_resize (off + word_of_nat (length v)) m in
        if unat off > length m' then None
        else Some (take (unat off) m' @ take (length m' - unat off) v @ drop (unat off + length v) m'))"

definition mem_set32 :: "uint64 \<Rightarrow> bytes \<Rightarrow> memory \<Rightarrow> memory option" where
  "mem_set32 off v m =
     (let m' = mem_resize (off + 32) m in
      if unat off > unat (off + 32) \<or> unat (off + 32) > length m' then None
      else Some (take (unat off) m' @ v @ drop (unat off + 32) m'))"

definition mem_get :: "uint64 \<Rightarrow> uint64 \<Rightarrow> memory \<Rightarrow> (bytes \<times> memory) option" where
  "mem_get off sz m =
     (if sz = 0 then Some ([], m)
      else let m' = mem_resize (off + sz) m in
        if unat off > unat (off + sz) \<or> unat (off + sz) > length m' then None
        else Some (take (unat sz) (drop (unat off) m'), m'))"

section \<open>Energy meter (energy.go)\<close>

record energyMeter =
  em_limit :: uint64
  em_used :: uint64
  em_refund :: uint64

definition newEnergyMeter :: "uint64 \<Rightarrow> energyMeter" where
  "newEnergyMeter l = \<lparr>em_limit = l, em_used = 0, em_refund = 0\<rparr>"

definition spend :: "uint64 \<Rightarrow> energyMeter \<Rightarrow> bool \<times> energyMeter" where
  "spend cost m =
     (if cost > em_limit m - em_used m then (False, m\<lparr>em_used := em_limit m\<rparr>)
      else (True, m\<lparr>em_used := em_used m + cost\<rparr>))"

definition remaining :: "energyMeter \<Rightarrow> uint64" where
  "remaining m = em_limit m - em_used m"

definition restore :: "uint64 \<Rightarrow> energyMeter \<Rightarrow> energyMeter" where
  "restore n m = (if n > em_used m then m\<lparr>em_used := 0\<rparr> else m\<lparr>em_used := em_used m - n\<rparr>)"

definition addRefund :: "uint64 \<Rightarrow> energyMeter \<Rightarrow> energyMeter" where
  "addRefund v m = m\<lparr>em_refund := em_refund m + v\<rparr>"

section \<open>Fork gates (fork.go)\<close>

record VMConfig =
  LegacyMemCost :: bool
  Forward6364 :: bool
  AllowTransferTrc10 :: bool
  AllowConstantinople :: bool
  AllowSolidity059 :: bool
  AllowIstanbul :: bool
  AllowLondon :: bool
  AllowShieldedTRC20Transaction :: bool
  AllowTvmFreeze :: bool
  AllowTvmVote :: bool
  AllowTvmFreezeV2 :: bool

definition zero_VMConfig :: VMConfig where
  "zero_VMConfig = \<lparr>LegacyMemCost = False, Forward6364 = False, AllowTransferTrc10 = False,
     AllowConstantinople = False, AllowSolidity059 = False, AllowIstanbul = False, AllowLondon = False,
     AllowShieldedTRC20Transaction = False, AllowTvmFreeze = False, AllowTvmVote = False, AllowTvmFreezeV2 = False\<rparr>"

definition LatestVMConfig :: VMConfig where
  "LatestVMConfig = zero_VMConfig\<lparr>Forward6364 := True, AllowTransferTrc10 := True, AllowConstantinople := True,
     AllowSolidity059 := True, AllowIstanbul := True, AllowLondon := True\<rparr>"

definition ConstantinopleVMConfig :: VMConfig where
  "ConstantinopleVMConfig = zero_VMConfig\<lparr>AllowTransferTrc10 := True, AllowConstantinople := True\<rparr>"

definition verTransferTrc10 :: int where "verTransferTrc10 = 6"
definition verConstantinople :: int where "verConstantinople = 8"
definition verSolidity059 :: int where "verSolidity059 = 9"
definition verIstanbul :: int where "verIstanbul = 19"
definition verLondon :: int where "verLondon = 23"
definition verCompatibleEvm :: int where "verCompatibleEvm = 23"
definition verHigherCPULimit :: int where "verHigherCPULimit = 24"
definition LatestForkVersion :: int where "LatestForkVersion = 35"

definition VMConfigForVersion :: "int32 \<Rightarrow> VMConfig" where
  "VMConfigForVersion version =
     (let on = (\<lambda>v. sint version \<ge> v) in
      zero_VMConfig\<lparr>AllowTransferTrc10 := on verTransferTrc10, AllowConstantinople := on verConstantinople,
        AllowSolidity059 := on verSolidity059, AllowIstanbul := on verIstanbul, AllowLondon := on verLondon,
        Forward6364 := on verCompatibleEvm, LegacyMemCost := \<not> on verHigherCPULimit\<rparr>)"

lemmas fork_versions = verTransferTrc10_def verConstantinople_def verSolidity059_def verIstanbul_def
  verLondon_def verCompatibleEvm_def verHigherCPULimit_def LatestForkVersion_def

section \<open>Addresses and frames (contract.go)\<close>

definition addrPrefix :: byte where "addrPrefix = 0x41"

definition wordToAddr :: "u256 \<Rightarrow> bytes" where
  "wordToAddr w = addrPrefix # drop 12 (Bytes32 w)"

definition sha3omit12 :: "(bytes \<Rightarrow> bytes) \<Rightarrow> bytes list \<Rightarrow> bytes" where
  "sha3omit12 keccak ds = addrPrefix # take 20 (drop 12 (keccak (concat ds)))"

definition createAddress :: "(bytes \<Rightarrow> bytes) \<Rightarrow> bytes \<Rightarrow> uint64 \<Rightarrow> bytes" where
  "createAddress keccak rootTxID nonce = sha3omit12 keccak [rootTxID, PutUint64 nonce]"

definition create2Address :: "(bytes \<Rightarrow> bytes) \<Rightarrow> bytes \<Rightarrow> bytes \<Rightarrow> bytes \<Rightarrow> bytes" where
  "create2Address keccak sender salt initCode = sha3omit12 keccak [sender, salt, keccak initCode]"

definition CreateContractAddress :: "(bytes \<Rightarrow> bytes) \<Rightarrow> bytes \<Rightarrow> bytes \<Rightarrow> bytes" where
  "CreateContractAddress keccak owner txID = sha3omit12 keccak [owner, txID]"

definition addrWord :: "bytes \<Rightarrow> u256" where
  "addrWord a = u_SetBytes a"

lemma length_wordToAddr [simp]: "length (wordToAddr w) = 21"
  by (simp add: wordToAddr_def)

record VmBlock =
  vb_Number :: int64
  vb_Timestamp :: int64
  vb_Coinbase :: bytes
  vb_ChainID :: "u256 option"
  vb_Version :: int32

record Contract =
  c_Self :: bytes
  c_CodeAddr :: bytes
  c_Caller :: bytes
  c_Origin :: bytes
  c_Value :: u256
  c_Input :: bytes
  c_Code :: bytes

record Result =
  r_Return :: bytes
  r_Reverted :: bool
  r_EnergyUsed :: uint64
  r_Err :: "vmError option"
  r_FaultPC :: int
  r_FaultOp :: byte

record Log =
  l_Address :: bytes
  l_Topics :: "bytes list"
  l_Data :: bytes

end
