(* ===== verification/Tvm_State.thy ===== *)
theory Tvm_State
  imports Tvm_Base
begin

text \<open>
  \<open>internal/tvm/state_db.go\<close>: the account state the machine works on. The Go interface \<open>StateDB\<close> is a
  record of operations on some state; \<open>MemStateDB\<close> is the in-memory implementation. The locale
  \<open>state_db\<close> states what the interpreter relies on, against an abstract state that gives every
  address an account, together with the stack of abstract states the snapshots stand for.
\<close>

section \<open>The interface\<close>

record 's StateDB =
  sd_Exist :: "bytes \<Rightarrow> 's \<Rightarrow> bool \<times> 's"
  sd_CreateAccount :: "bytes \<Rightarrow> 's \<Rightarrow> 's"
  sd_GetBalance :: "bytes \<Rightarrow> 's \<Rightarrow> u256 \<times> 's"
  sd_AddBalance :: "bytes \<Rightarrow> u256 \<Rightarrow> 's \<Rightarrow> 's"
  sd_SubBalance :: "bytes \<Rightarrow> u256 \<Rightarrow> 's \<Rightarrow> 's"
  sd_GetNonce :: "bytes \<Rightarrow> 's \<Rightarrow> uint64 \<times> 's"
  sd_SetNonce :: "bytes \<Rightarrow> uint64 \<Rightarrow> 's \<Rightarrow> 's"
  sd_GetCode :: "bytes \<Rightarrow> 's \<Rightarrow> bytes \<times> 's"
  sd_SetCode :: "bytes \<Rightarrow> bytes \<Rightarrow> 's \<Rightarrow> 's"
  sd_GetCodeHash :: "bytes \<Rightarrow> 's \<Rightarrow> bytes \<times> 's"
  sd_GetCodeSize :: "bytes \<Rightarrow> 's \<Rightarrow> nat \<times> 's"
  sd_GetStorage :: "bytes \<Rightarrow> bytes \<Rightarrow> 's \<Rightarrow> (bytes \<times> bool) \<times> 's"
  sd_SetStorage :: "bytes \<Rightarrow> bytes \<Rightarrow> bytes \<Rightarrow> 's \<Rightarrow> 's"
  sd_Snapshot :: "'s \<Rightarrow> nat \<times> 's"
  sd_RevertToSnapshot :: "nat \<Rightarrow> 's \<Rightarrow> 's"

text \<open>What the interpreter can observe of an account.\<close>

record AbsAccount =
  aa_exists :: bool
  aa_balance :: u256
  aa_nonce :: uint64
  aa_code :: bytes
  aa_storage :: "bytes \<Rightarrow> bytes option"

definition noAccount :: AbsAccount where
  "noAccount = \<lparr>aa_exists = False, aa_balance = 0, aa_nonce = 0, aa_code = [], aa_storage = Map.empty\<rparr>"

locale state_db =
  fixes db :: "'s StateDB" and keccak :: "bytes \<Rightarrow> bytes"
    and acct :: "'s \<Rightarrow> bytes \<Rightarrow> AbsAccount" and snaps :: "'s \<Rightarrow> (bytes \<Rightarrow> AbsAccount) list"
  assumes Exist: "sd_Exist db a s = (b, s') \<Longrightarrow> b = aa_exists (acct s a) \<and> acct s' = acct s \<and> snaps s' = snaps s"
    and GetBalance: "sd_GetBalance db a s = (v, s') \<Longrightarrow> v = aa_balance (acct s a) \<and> acct s' = acct s \<and> snaps s' = snaps s"
    and GetNonce: "sd_GetNonce db a s = (n, s') \<Longrightarrow> n = aa_nonce (acct s a) \<and> acct s' = acct s \<and> snaps s' = snaps s"
    and GetCode: "sd_GetCode db a s = (c, s') \<Longrightarrow> c = aa_code (acct s a) \<and> acct s' = acct s \<and> snaps s' = snaps s"
    and GetCodeSize: "sd_GetCodeSize db a s = (sz, s') \<Longrightarrow>
      sz = length (aa_code (acct s a)) \<and> acct s' = acct s \<and> snaps s' = snaps s"
    and GetCodeHash: "sd_GetCodeHash db a s = (h, s') \<Longrightarrow>
      h = (if aa_exists (acct s a) then take 32 (keccak (aa_code (acct s a)) @ replicate 32 0) else replicate 32 0) \<and>
      acct s' = acct s \<and> snaps s' = snaps s"
    and GetStorage: "sd_GetStorage db a k s = ((x, p), s') \<Longrightarrow>
      (case aa_storage (acct s a) k of None \<Rightarrow> x = replicate 32 0 \<and> \<not> p | Some w \<Rightarrow> x = w \<and> p) \<and>
      acct s' = acct s \<and> snaps s' = snaps s"
    and CreateAccount: "acct (sd_CreateAccount db a s) = (acct s)(a := (acct s a)\<lparr>aa_exists := True\<rparr>)"
    and AddBalance: "acct (sd_AddBalance db a v s) =
      (acct s)(a := (acct s a)\<lparr>aa_exists := True, aa_balance := aa_balance (acct s a) + v\<rparr>)"
    and SubBalance: "acct (sd_SubBalance db a v s) =
      (acct s)(a := (acct s a)\<lparr>aa_exists := True, aa_balance := aa_balance (acct s a) - v\<rparr>)"
    and SetNonce: "\<exists>b. acct (sd_SetNonce db a n s) = (acct s)(a := (acct s a)\<lparr>aa_exists := b, aa_nonce := n\<rparr>)"
    and SetCode: "acct (sd_SetCode db a c s) = (acct s)(a := (acct s a)\<lparr>aa_exists := True, aa_code := c\<rparr>)"
    and SetStorage: "acct (sd_SetStorage db a k x s) =
      (acct s)(a := (acct s a)\<lparr>aa_exists := True, aa_storage := (aa_storage (acct s a))(k \<mapsto> x)\<rparr>)"
    and write_snaps: "snaps (sd_CreateAccount db a s) = snaps s" "snaps (sd_AddBalance db a v s) = snaps s"
      "snaps (sd_SubBalance db a v s) = snaps s" "snaps (sd_SetNonce db a n s) = snaps s"
      "snaps (sd_SetCode db a c s) = snaps s" "snaps (sd_SetStorage db a k x s) = snaps s"
    and Snapshot: "sd_Snapshot db s = (i, s') \<Longrightarrow> i = length (snaps s) \<and> acct s' = acct s \<and> snaps s' = snaps s @ [acct s]"
    and Revert: "i < length (snaps s) \<Longrightarrow> acct (sd_RevertToSnapshot db i s) = snaps s ! i \<and>
      snaps (sd_RevertToSnapshot db i s) = take i (snaps s)"
begin

text \<open>The point of snapshots: whatever happened since, reverting restores the accounts.\<close>

lemma revert_restores:
  assumes "sd_Snapshot db s = (i, s1)" "\<exists>xs. snaps s2 = snaps s1 @ xs"
  shows "acct (sd_RevertToSnapshot db i s2) = acct s \<and> snaps (sd_RevertToSnapshot db i s2) = snaps s"
proof -
  obtain xs where xs: "snaps s2 = snaps s @ [acct s] @ xs" "i = length (snaps s)"
    using Snapshot [OF assms(1)] assms(2) by auto
  then show ?thesis using Revert [of i s2] by (simp add: nth_append)
qed

end

section \<open>The in-memory implementation\<close>

record account =
  ma_balance :: u256
  ma_nonce :: uint64
  ma_code :: bytes
  ma_storage :: "(bytes, bytes) fmap"

record MemStateDB =
  ms_accounts :: "(bytes, account) fmap"
  ms_snaps :: "(bytes, account) fmap list"

definition NewMemStateDB :: MemStateDB where
  "NewMemStateDB = \<lparr>ms_accounts = fmempty, ms_snaps = []\<rparr>"

definition newAccount :: account where
  "newAccount = \<lparr>ma_balance = 0, ma_nonce = 0, ma_code = [], ma_storage = fmempty\<rparr>"

definition ms_get :: "MemStateDB \<Rightarrow> bytes \<Rightarrow> account option" where
  "ms_get s a = fmlookup (ms_accounts s) a"

definition ms_getOrCreate :: "MemStateDB \<Rightarrow> bytes \<Rightarrow> account" where
  "ms_getOrCreate s a = (case ms_get s a of None \<Rightarrow> newAccount | Some x \<Rightarrow> x)"

text \<open>A mutation through the pointer that \<open>getOrCreate\<close> returns.\<close>

definition ms_modify :: "bytes \<Rightarrow> (account \<Rightarrow> account) \<Rightarrow> MemStateDB \<Rightarrow> MemStateDB" where
  "ms_modify a f s = s\<lparr>ms_accounts := fmupd a (f (ms_getOrCreate s a)) (ms_accounts s)\<rparr>"

definition ms_Exist :: "bytes \<Rightarrow> MemStateDB \<Rightarrow> bool \<times> MemStateDB" where
  "ms_Exist a s = (ms_get s a \<noteq> None, s)"

definition ms_CreateAccount :: "bytes \<Rightarrow> MemStateDB \<Rightarrow> MemStateDB" where
  "ms_CreateAccount a = ms_modify a (\<lambda>x. x)"

definition ms_GetBalance :: "bytes \<Rightarrow> MemStateDB \<Rightarrow> u256 \<times> MemStateDB" where
  "ms_GetBalance a s = (case ms_get s a of None \<Rightarrow> 0 | Some x \<Rightarrow> ma_balance x, s)"

definition ms_AddBalance :: "bytes \<Rightarrow> u256 \<Rightarrow> MemStateDB \<Rightarrow> MemStateDB" where
  "ms_AddBalance a v = ms_modify a (\<lambda>x. x\<lparr>ma_balance := ma_balance x + v\<rparr>)"

definition ms_SubBalance :: "bytes \<Rightarrow> u256 \<Rightarrow> MemStateDB \<Rightarrow> MemStateDB" where
  "ms_SubBalance a v = ms_modify a (\<lambda>x. x\<lparr>ma_balance := ma_balance x - v\<rparr>)"

definition ms_GetNonce :: "bytes \<Rightarrow> MemStateDB \<Rightarrow> uint64 \<times> MemStateDB" where
  "ms_GetNonce a s = (case ms_get s a of Some x \<Rightarrow> ma_nonce x | None \<Rightarrow> 0, s)"

definition ms_SetNonce :: "bytes \<Rightarrow> uint64 \<Rightarrow> MemStateDB \<Rightarrow> MemStateDB" where
  "ms_SetNonce a n = ms_modify a (\<lambda>x. x\<lparr>ma_nonce := n\<rparr>)"

definition ms_GetCode :: "bytes \<Rightarrow> MemStateDB \<Rightarrow> bytes \<times> MemStateDB" where
  "ms_GetCode a s = (case ms_get s a of Some x \<Rightarrow> ma_code x | None \<Rightarrow> [], s)"

definition ms_SetCode :: "bytes \<Rightarrow> bytes \<Rightarrow> MemStateDB \<Rightarrow> MemStateDB" where
  "ms_SetCode a c = ms_modify a (\<lambda>x. x\<lparr>ma_code := c\<rparr>)"

definition ms_GetCodeHash :: "(bytes \<Rightarrow> bytes) \<Rightarrow> bytes \<Rightarrow> MemStateDB \<Rightarrow> bytes \<times> MemStateDB" where
  "ms_GetCodeHash keccak a s =
     (case ms_get s a of None \<Rightarrow> replicate 32 0 | Some x \<Rightarrow> take 32 (keccak (ma_code x) @ replicate 32 0), s)"

definition ms_GetCodeSize :: "bytes \<Rightarrow> MemStateDB \<Rightarrow> nat \<times> MemStateDB" where
  "ms_GetCodeSize a s = (length (fst (ms_GetCode a s)), s)"

definition ms_GetStorage :: "bytes \<Rightarrow> bytes \<Rightarrow> MemStateDB \<Rightarrow> (bytes \<times> bool) \<times> MemStateDB" where
  "ms_GetStorage a k s =
     (case ms_get s a of
        None \<Rightarrow> (replicate 32 0, False)
      | Some x \<Rightarrow> (case fmlookup (ma_storage x) k of None \<Rightarrow> (replicate 32 0, False) | Some v \<Rightarrow> (v, True)), s)"

definition ms_SetStorage :: "bytes \<Rightarrow> bytes \<Rightarrow> bytes \<Rightarrow> MemStateDB \<Rightarrow> MemStateDB" where
  "ms_SetStorage a k v = ms_modify a (\<lambda>x. x\<lparr>ma_storage := fmupd k v (ma_storage x)\<rparr>)"

definition ms_Snapshot :: "MemStateDB \<Rightarrow> nat \<times> MemStateDB" where
  "ms_Snapshot s = (length (ms_snaps s), s\<lparr>ms_snaps := ms_snaps s @ [ms_accounts s]\<rparr>)"

definition ms_RevertToSnapshot :: "nat \<Rightarrow> MemStateDB \<Rightarrow> MemStateDB" where
  "ms_RevertToSnapshot i s =
     (if i \<ge> length (ms_snaps s) then s
      else s\<lparr>ms_accounts := ms_snaps s ! i, ms_snaps := take i (ms_snaps s)\<rparr>)"

definition memDB :: "(bytes \<Rightarrow> bytes) \<Rightarrow> MemStateDB StateDB" where
  "memDB keccak = \<lparr>sd_Exist = ms_Exist, sd_CreateAccount = ms_CreateAccount, sd_GetBalance = ms_GetBalance,
     sd_AddBalance = ms_AddBalance, sd_SubBalance = ms_SubBalance, sd_GetNonce = ms_GetNonce, sd_SetNonce = ms_SetNonce,
     sd_GetCode = ms_GetCode, sd_SetCode = ms_SetCode, sd_GetCodeHash = ms_GetCodeHash keccak,
     sd_GetCodeSize = ms_GetCodeSize, sd_GetStorage = ms_GetStorage, sd_SetStorage = ms_SetStorage,
     sd_Snapshot = ms_Snapshot, sd_RevertToSnapshot = ms_RevertToSnapshot\<rparr>"

definition abs_account :: "account \<Rightarrow> AbsAccount" where
  "abs_account x = \<lparr>aa_exists = True, aa_balance = ma_balance x, aa_nonce = ma_nonce x, aa_code = ma_code x,
     aa_storage = fmlookup (ma_storage x)\<rparr>"

definition mem_accts :: "(bytes, account) fmap \<Rightarrow> bytes \<Rightarrow> AbsAccount" where
  "mem_accts m a = (case fmlookup m a of None \<Rightarrow> noAccount | Some x \<Rightarrow> abs_account x)"

lemma mem_accts_modify:
  "mem_accts (ms_accounts (ms_modify a f s)) = (mem_accts (ms_accounts s))(a := abs_account (f (ms_getOrCreate s a)))"
  by (auto simp: mem_accts_def ms_modify_def fun_eq_iff)

lemma snaps_modify [simp]: "ms_snaps (ms_modify a f s) = ms_snaps s"
  by (simp add: ms_modify_def)

lemma getOrCreate_acct:
  "abs_account (ms_getOrCreate s a) = (mem_accts (ms_accounts s) a)\<lparr>aa_exists := True\<rparr>"
  by (simp add: ms_getOrCreate_def ms_get_def mem_accts_def abs_account_def newAccount_def noAccount_def fun_eq_iff split: option.splits)

lemma getOrCreate_fields:
  "ma_balance (ms_getOrCreate s a) = aa_balance (mem_accts (ms_accounts s) a)"
  "ma_nonce (ms_getOrCreate s a) = aa_nonce (mem_accts (ms_accounts s) a)"
  "ma_code (ms_getOrCreate s a) = aa_code (mem_accts (ms_accounts s) a)"
  "fmlookup (ma_storage (ms_getOrCreate s a)) = aa_storage (mem_accts (ms_accounts s) a)"
  using arg_cong [OF getOrCreate_acct [of s a], of aa_balance] arg_cong [OF getOrCreate_acct [of s a], of aa_nonce]
    arg_cong [OF getOrCreate_acct [of s a], of aa_code] arg_cong [OF getOrCreate_acct [of s a], of aa_storage]
  by (simp_all add: abs_account_def)

interpretation memst: state_db "memDB keccak" keccak "\<lambda>s. mem_accts (ms_accounts s)" "\<lambda>s. map mem_accts (ms_snaps s)"
  for keccak
proof (unfold_locales, goal_cases)
  case (11 a n s)
  show ?case
    by (rule exI [of _ True]) (simp add: memDB_def ms_SetNonce_def mem_accts_modify abs_account_def getOrCreate_fields fun_eq_iff)
qed (auto simp: memDB_def ms_Exist_def ms_CreateAccount_def ms_GetBalance_def ms_AddBalance_def ms_SubBalance_def
    ms_GetNonce_def ms_SetNonce_def ms_GetCode_def ms_SetCode_def ms_GetCodeHash_def ms_GetCodeSize_def
    ms_GetStorage_def ms_SetStorage_def ms_Snapshot_def ms_RevertToSnapshot_def ms_get_def mem_accts_modify
    getOrCreate_fields mem_accts_def [of _ a for a] noAccount_def abs_account_def take_map fun_eq_iff
    split: option.splits)

end
