(* ===== verification/Tvm_Precompiles.thy ===== *)
theory Tvm_Precompiles
  imports Tvm_State
begin

text \<open>
  \<open>internal/tvm/precompiles.go\<close>, \<open>ecrecover.go\<close>, \<open>bn128.go\<close>, \<open>blake2f.go\<close>, \<open>multisig.go\<close> and
  \<open>shielded.go\<close>: the contracts executed natively, their energy and their gates. The third-party
  libraries they call (Keccak-256, RIPEMD-160, secp256k1 recovery, the BN254 group and pairing) are
  the fields of \<open>vmlib\<close>. A Go panic is \<open>None\<close> or \<open>Crash\<close>; the two multi-signature contracts recover
  from panics, the others do not.
\<close>

record vmlib =
  L_keccak :: "bytes \<Rightarrow> bytes"
  L_ripemd160 :: "bytes \<Rightarrow> bytes"
  L_recover :: "bytes \<Rightarrow> bytes \<Rightarrow> bytes option"
  L_fpModulus :: nat
  L_g1OnCurve :: "nat \<times> nat \<Rightarrow> bool"
  L_g1Add :: "nat \<times> nat \<Rightarrow> nat \<times> nat \<Rightarrow> nat \<times> nat"
  L_g1Mul :: "nat \<times> nat \<Rightarrow> nat \<Rightarrow> nat \<times> nat"
  L_g2OnCurve :: "(nat \<times> nat) \<times> (nat \<times> nat) \<Rightarrow> bool"
  L_g2InSubGroup :: "(nat \<times> nat) \<times> (nat \<times> nat) \<Rightarrow> bool"
  L_pairingCheck :: "(nat \<times> nat) list \<Rightarrow> ((nat \<times> nat) \<times> (nat \<times> nat)) list \<Rightarrow> bool option"

record PermissionKey =
  pk_Address :: bytes
  pk_Weight :: int64

type_synonym permReader = "bytes \<Rightarrow> int \<Rightarrow> (int64 \<times> PermissionKey list) option"

section \<open>Slices and lengths\<close>

text \<open>\<open>make([]byte, n)\<close> panics for a negative length and beyond the largest allocation of the runtime.\<close>

definition maxAlloc :: int where "maxAlloc = 2 ^ 48"

definition rightPad :: "bytes \<Rightarrow> int64 \<Rightarrow> int64 \<Rightarrow> bytes option" where
  "rightPad src off sz =
     (if sint sz < 0 \<or> sint sz > maxAlloc then None
      else if sint off < int (length src) then
        let e = min (sint (off + sz)) (int (length src)) in
        if sint off < 0 \<or> e < sint off then None
        else let b = take (nat (e - sint off)) (drop (nat (sint off)) src)
          in Some (b @ replicate (nat (sint sz) - length b) 0)
      else Some (replicate (nat (sint sz)) 0))"

text \<open>With a fixed small length it is the zero-extended slice.\<close>

definition slice0 :: "bytes \<Rightarrow> nat \<Rightarrow> nat \<Rightarrow> bytes" where
  "slice0 src off n = take n (drop off src @ replicate n 0)"

lemma length_slice0 [simp]: "length (slice0 src off n) = n"
  by (simp add: slice0_def)

lemma rightPad_slice0:
  assumes "0 \<le> sint off" "0 \<le> sint sz" "sint sz \<le> maxAlloc" "sint off + sint sz < 2 ^ 63"
  shows "rightPad src off sz = Some (slice0 src (nat (sint off)) (nat (sint sz)))"
proof -
  have add: "sint (off + sz) = sint off + sint sz"
    using assms by (intro sint64_add) (simp add: in_int64_def)
  show ?thesis
  proof (cases "sint off < int (length src)")
    case True
    define o' n where "o' = nat (sint off)" and "n = nat (sint sz)"
    then have on: "sint off = int o'" "sint sz = int n" using assms by simp_all
    have "nat (min (int o' + int n) (int (length src)) - int o') = min n (length src - o')"
      using True on by simp
    then have "take (nat (min (int o' + int n) (int (length src)) - int o')) (drop o' src) = take n (drop o' src)"
      by (simp add: min_def)
    then show ?thesis using True assms add on
      by (simp add: rightPad_def slice0_def Let_def take_replicate min_def split: if_splits) arith
  next
    case False
    with assms show ?thesis by (simp add: rightPad_def slice0_def take_replicate)
  qed
qed

definition wordCount :: "nat \<Rightarrow> uint64" where
  "wordCount n = (word_of_nat n + 31) div 32"

definition precompileAddr :: "uint64 \<Rightarrow> bytes" where
  "precompileAddr v = addrPrefix # replicate 12 0 @ PutUint64 v"

section \<open>Modular exponentiation (0x05)\<close>

definition lenField :: "bytes \<Rightarrow> int64 \<Rightarrow> int64 option" where
  "lenField inp off = map_option (\<lambda>b. word_of_nat (be_to_nat b)) (rightPad inp off 32)"

definition modexp_fields :: "bytes \<Rightarrow> (int64 \<times> int64 \<times> int64 \<times> nat \<times> nat \<times> nat) option" where
  "modexp_fields inp =
     Option.bind (lenField inp 0) (\<lambda>baseLen.
     Option.bind (lenField inp 32) (\<lambda>expLen.
     Option.bind (lenField inp 64) (\<lambda>modLen.
     Option.bind (rightPad inp 96 baseLen) (\<lambda>b.
     Option.bind (rightPad inp (96 + baseLen) expLen) (\<lambda>e.
     Option.bind (rightPad inp (96 + baseLen + expLen) modLen) (\<lambda>m.
       Some (baseLen, expLen, modLen, be_to_nat b, be_to_nat e, be_to_nat m)))))))"

definition modexp_Run :: "bytes \<Rightarrow> bytes outcome" where
  "modexp_Run inp =
     (case modexp_fields inp of
        None \<Rightarrow> Crash ''makeslice: len out of range''
      | Some (_, _, modLen, b, e, m) \<Rightarrow>
          if modLen = 0 \<or> m = 0 then Next []
          else let resB = nat_bytes (b ^ e mod m); n = nat (sint modLen) in
            Next (if length resB \<le> n then replicate (n - length resB) 0 @ resB else drop (length resB - n) resB))"

definition multComplexity :: "uint64 \<Rightarrow> uint64" where
  "multComplexity x =
     (if x \<le> 64 then x * x
      else if x \<le> 1024 then x * x div 4 + 96 * x - 3072
      else x * x div 16 + 480 * x - 199680)"

fun bitLen :: "nat \<Rightarrow> nat" where
  "bitLen n = (if n = 0 then 0 else Suc (bitLen (n div 2)))"

declare bitLen.simps [simp del]

definition adjustedExpLen :: "uint64 \<Rightarrow> nat \<Rightarrow> uint64" where
  "adjustedExpLen expLen e =
     (if expLen \<le> 32 then if e = 0 then 0 else word_of_nat (bitLen e - 1)
      else let high = e div 2 ^ unat (8 * (expLen - 32)) in
        8 * (expLen - 32) + (if bitLen high > 0 then word_of_nat (bitLen high - 1) else 0))"

definition modexp_RequiredEnergy :: "bytes \<Rightarrow> uint64 option" where
  "modexp_RequiredEnergy inp =
     Option.bind (modexp_fields inp) (\<lambda>(baseLen, expLen, _, _, e, _).
     Option.bind (lenField inp 64) (\<lambda>l.
       let maxLen = (if slt baseLen l then l else baseLen) in
       Some (multComplexity maxLen * max (adjustedExpLen expLen e) 1 div 20)))"

section \<open>Signature recovery (0x01) and hashes\<close>

definition ecrecoverRun :: "vmlib \<Rightarrow> bytes \<Rightarrow> bytes" where
  "ecrecoverRun L input =
     (let inp = take 128 (input @ replicate 128 0); v = inp ! 63 in
      if (\<exists>b \<in> set (take 31 (drop 32 inp)). b \<noteq> 0) then []
      else if v \<noteq> 27 \<and> v \<noteq> 28 then []
      else case L_recover L (v # take 32 (drop 64 inp) @ take 32 (drop 96 inp)) (take 32 inp) of
          None \<Rightarrow> []
        | Some unc \<Rightarrow> replicate 12 0 @ take 20 (drop 12 (L_keccak L (drop 1 unc))))"

definition tronRipemd160_Run :: "bytes \<Rightarrow> bytes" where
  "tronRipemd160_Run inp = Sha256 [take 20 (Sha256 [inp])]"

definition ethRipemd160_Run :: "vmlib \<Rightarrow> bytes \<Rightarrow> bytes" where
  "ethRipemd160_Run L inp = take 32 (replicate 12 0 @ L_ripemd160 L inp @ replicate 20 0)"

section \<open>BN254 (0x06 to 0x08)\<close>

definition setCoord :: "vmlib \<Rightarrow> bytes \<Rightarrow> nat option" where
  "setCoord L b = (if be_to_nat b \<ge> L_fpModulus L then None else Some (be_to_nat b))"

definition decodeG1 :: "vmlib \<Rightarrow> bytes \<Rightarrow> (nat \<times> nat) option" where
  "decodeG1 L buf =
     Option.bind (setCoord L (take 32 buf)) (\<lambda>x.
     Option.bind (setCoord L (take 32 (drop 32 buf))) (\<lambda>y.
       if L_g1OnCurve L (x, y) then Some (x, y) else None))"

text \<open>A point of the twist is \<open>((x real, x imaginary), (y real, y imaginary))\<close>.\<close>

definition decodeG2 :: "vmlib \<Rightarrow> bytes \<Rightarrow> ((nat \<times> nat) \<times> (nat \<times> nat)) option" where
  "decodeG2 L buf =
     Option.bind (setCoord L (take 32 buf)) (\<lambda>xi.
     Option.bind (setCoord L (take 32 (drop 32 buf))) (\<lambda>xr.
     Option.bind (setCoord L (take 32 (drop 64 buf))) (\<lambda>yi.
     Option.bind (setCoord L (take 32 (drop 96 buf))) (\<lambda>yr.
       let p = ((xr, xi), (yr, yi)) in
       if \<not> L_g2OnCurve L p \<or> \<not> L_g2InSubGroup L p then None else Some p))))"

definition encodeG1 :: "nat \<times> nat \<Rightarrow> bytes" where
  "encodeG1 p = nat_to_be 32 (fst p) @ nat_to_be 32 (snd p)"

definition bn128Add_Run :: "vmlib \<Rightarrow> bytes \<Rightarrow> bytes outcome" where
  "bn128Add_Run L inp =
     (case decodeG1 L (slice0 inp 0 64) of
        None \<Rightarrow> Fault errPrecompileFailure []
      | Some p1 \<Rightarrow>
          (case decodeG1 L (slice0 inp 64 64) of
             None \<Rightarrow> Fault errPrecompileFailure []
           | Some p2 \<Rightarrow> Next (encodeG1 (L_g1Add L p1 p2))))"

definition bn128ScalarMul_Run :: "vmlib \<Rightarrow> bytes \<Rightarrow> bytes outcome" where
  "bn128ScalarMul_Run L inp =
     (case decodeG1 L (slice0 inp 0 64) of
        None \<Rightarrow> Fault errPrecompileFailure []
      | Some p \<Rightarrow> Next (encodeG1 (L_g1Mul L p (be_to_nat (slice0 inp 64 32)))))"

definition bn128PairSize :: nat where "bn128PairSize = 192"

fun decodePairs :: "vmlib \<Rightarrow> nat \<Rightarrow> bytes \<Rightarrow> ((nat \<times> nat) list \<times> ((nat \<times> nat) \<times> (nat \<times> nat)) list) option" where
  "decodePairs L 0 inp = Some ([], [])"
| "decodePairs L (Suc k) inp =
     Option.bind (decodeG1 L (take 64 inp)) (\<lambda>p1.
     Option.bind (decodeG2 L (take 128 (drop 64 inp))) (\<lambda>p2.
     Option.bind (decodePairs L k (drop 192 inp)) (\<lambda>(g1s, g2s). Some (p1 # g1s, p2 # g2s))))"

definition boolWord :: "bool \<Rightarrow> bytes" where
  "boolWord b = replicate 31 0 @ [if b then 1 else 0]"

definition bn128Pairing_Run :: "vmlib \<Rightarrow> bytes \<Rightarrow> bytes outcome" where
  "bn128Pairing_Run L inp =
     (if length inp mod bn128PairSize \<noteq> 0 then Fault errPrecompileFailure []
      else let k = length inp div bn128PairSize in
        if k = 0 then Next (boolWord True)
        else case decodePairs L k inp of
            None \<Rightarrow> Fault errPrecompileFailure []
          | Some (g1s, g2s) \<Rightarrow>
              (case L_pairingCheck L g1s g2s of
                 None \<Rightarrow> Fault errPrecompileFailure []
               | Some ok \<Rightarrow> Next (boolWord ok)))"

definition bn128_requiredEnergyCfg :: "nat \<Rightarrow> bytes \<Rightarrow> VMConfig \<Rightarrow> uint64" where
  "bn128_requiredEnergyCfg which inp cfg =
     (let k = word_of_nat (length inp div bn128PairSize) in
      if which = 6 then if AllowIstanbul cfg then 150 else 500
      else if which = 7 then if AllowIstanbul cfg then 6000 else 40000
      else if AllowIstanbul cfg then 34000 * k + 45000 else 80000 * k + 100000)"

section \<open>BLAKE2b compression (0x20009)\<close>

definition blake2FInputLen :: nat where "blake2FInputLen = 213"

definition Uint64LE :: "bytes \<Rightarrow> uint64" where
  "Uint64LE b = word_of_nat (be_to_nat (rev (take 8 b)))"

definition PutUint64LE :: "uint64 \<Rightarrow> bytes" where
  "PutUint64LE w = rev (PutUint64 w)"

definition blake2bIV :: "uint64 list" where
  "blake2bIV = [7640891576956012808, 13503953896175478587, 4354685564936845355, 11912009170470909681,
     5840696475078001361, 11170449401992604703, 2270897969802886507, 6620516959819538809]"

definition blake2bSigma :: "nat list list" where
  "blake2bSigma = [
     [0, 1, 2, 3, 4, 5, 6, 7, 8, 9, 10, 11, 12, 13, 14, 15],
     [14, 10, 4, 8, 9, 15, 13, 6, 1, 12, 0, 2, 11, 7, 5, 3],
     [11, 8, 12, 0, 5, 2, 15, 13, 10, 14, 3, 6, 7, 1, 9, 4],
     [7, 9, 3, 1, 13, 12, 11, 14, 2, 6, 5, 10, 4, 0, 15, 8],
     [9, 0, 5, 7, 2, 4, 10, 15, 14, 1, 11, 12, 6, 8, 3, 13],
     [2, 12, 6, 10, 0, 11, 8, 3, 4, 13, 7, 5, 15, 14, 1, 9],
     [12, 5, 1, 15, 14, 13, 4, 10, 0, 7, 6, 3, 9, 2, 8, 11],
     [13, 11, 7, 14, 12, 1, 3, 9, 5, 0, 15, 4, 8, 6, 2, 10],
     [6, 15, 14, 9, 11, 3, 0, 8, 12, 2, 13, 7, 1, 4, 10, 5],
     [10, 2, 8, 4, 7, 6, 1, 5, 15, 11, 9, 14, 3, 12, 13, 0]]"

definition rotr64 :: "uint64 \<Rightarrow> nat \<Rightarrow> uint64" where
  "rotr64 x n = drop_bit n x OR push_bit (64 - n) x"

definition blake_g :: "nat \<Rightarrow> nat \<Rightarrow> nat \<Rightarrow> nat \<Rightarrow> uint64 \<Rightarrow> uint64 \<Rightarrow> uint64 list \<Rightarrow> uint64 list" where
  "blake_g a b c d x y v =
     (let v = v[a := v ! a + v ! b + x]; v = v[d := rotr64 (v ! d XOR v ! a) 32];
          v = v[c := v ! c + v ! d]; v = v[b := rotr64 (v ! b XOR v ! c) 24];
          v = v[a := v ! a + v ! b + y]; v = v[d := rotr64 (v ! d XOR v ! a) 16];
          v = v[c := v ! c + v ! d]
      in v[b := rotr64 (v ! b XOR v ! c) 63])"

definition blake_round :: "uint64 list \<Rightarrow> nat \<Rightarrow> uint64 list \<Rightarrow> uint64 list" where
  "blake_round m r v =
     (let s = blake2bSigma ! (r mod 10); w = (\<lambda>i. m ! (s ! i)) in
      blake_g 3 4 9 14 (w 14) (w 15) (blake_g 2 7 8 13 (w 12) (w 13) (blake_g 1 6 11 12 (w 10) (w 11)
        (blake_g 0 5 10 15 (w 8) (w 9) (blake_g 3 7 11 15 (w 6) (w 7) (blake_g 2 6 10 14 (w 4) (w 5)
        (blake_g 1 5 9 13 (w 2) (w 3) (blake_g 0 4 8 12 (w 0) (w 1) v))))))))"

definition blake2bF :: "uint64 list \<Rightarrow> uint64 list \<Rightarrow> uint64 \<Rightarrow> uint64 \<Rightarrow> bool \<Rightarrow> nat \<Rightarrow> uint64 list" where
  "blake2bF h m t0 t1 final rounds =
     (let v0 = h @ blake2bIV;
          v1 = v0[12 := v0 ! 12 XOR t0, 13 := v0 ! 13 XOR t1];
          v2 = (if final then v1[14 := NOT (v1 ! 14)] else v1);
          v = fold (blake_round m) [0..<rounds] v2
      in map (\<lambda>i. h ! i XOR (v ! i XOR v ! (i + 8))) [0..<8])"

definition blake2F_RequiredEnergy :: "bytes \<Rightarrow> uint64" where
  "blake2F_RequiredEnergy inp =
     (if length inp \<noteq> blake2FInputLen \<or> (inp ! 212) AND 0xFE \<noteq> 0 then 0 else word_of_nat (be_to_nat (take 4 inp)))"

definition blake2F_Run :: "bytes \<Rightarrow> bytes outcome" where
  "blake2F_Run inp =
     (if length inp \<noteq> blake2FInputLen \<or> (inp ! 212 \<noteq> 0 \<and> inp ! 212 \<noteq> 1) then Fault errPrecompileFailure []
      else let h = map (\<lambda>i. Uint64LE (drop (4 + i * 8) inp)) [0..<8];
               m = map (\<lambda>i. Uint64LE (drop (68 + i * 8) inp)) [0..<16]
        in Next (concat (map PutUint64LE (blake2bF h m (Uint64LE (drop 196 inp)) (Uint64LE (drop 204 inp))
             (inp ! 212 = 1) (be_to_nat (take 4 inp))))))"

section \<open>Multi-signature checks (0x09, 0x0a)\<close>

definition wordSize :: nat where "wordSize = 32"
definition energyPerSign :: uint64 where "energyPerSign = 1500"
definition batchMaxSize :: nat where "batchMaxSize = 16"
definition multiSignMax :: nat where "multiSignMax = 5"

definition parseWords :: "bytes \<Rightarrow> bytes list" where
  "parseWords inp = map (\<lambda>i. take wordSize (drop (i * wordSize) inp)) [0..<length inp div wordSize]"

definition intValueSafe :: "bytes \<Rightarrow> nat" where
  "intValueSafe w =
     (let occupied = length (dropWhile (\<lambda>b. b = 0) w);
          iv = (word_of_nat (be_to_nat (drop 28 w)) :: int32)
      in if occupied > 4 \<or> sint iv < 0 then 2147483647 else nat (sint iv))"

definition toTronAddress :: "bytes \<Rightarrow> bytes" where
  "toTronAddress w = addrPrefix # drop 12 w"

definition last20 :: "bytes \<Rightarrow> bytes" where
  "last20 a = drop (length a - 20) a"

definition equalAddressBytes :: "bytes \<Rightarrow> bytes \<Rightarrow> bool" where
  "equalAddressBytes a b \<longleftrightarrow> 20 \<le> length a \<and> 20 \<le> length b \<and> last20 a = last20 b"

definition recoverTronAddr :: "vmlib \<Rightarrow> bytes \<Rightarrow> bytes \<Rightarrow> bytes option" where
  "recoverTronAddr L sign hash =
     (if length sign < 65 then None
      else let v = (if sign ! 64 < 27 then sign ! 64 + 27 else sign ! 64) in
        if v \<noteq> 27 \<and> v \<noteq> 28 then None
        else case L_recover L (v # take 64 sign) hash of
            None \<Rightarrow> None
          | Some unc \<Rightarrow> Some (addrPrefix # take 20 (drop 12 (L_keccak L (drop 1 unc)))))"

text \<open>An index out of range panics.\<close>

definition nthE :: "'a list \<Rightarrow> nat \<Rightarrow> 'a option" where
  "nthE xs i = (if i < length xs then Some (xs ! i) else None)"

fun allSome :: "'a option list \<Rightarrow> 'a list option" where
  "allSome [] = Some []"
| "allSome (x # xs) = Option.bind x (\<lambda>y. Option.bind (allSome xs) (\<lambda>ys. Some (y # ys)))"

definition extractBytes32Array :: "bytes list \<Rightarrow> nat \<Rightarrow> bytes list option" where
  "extractBytes32Array ws offset =
     Option.bind (nthE ws offset) (\<lambda>w.
       allSome (map (\<lambda>i. nthE ws (offset + i + 1)) [0..<intValueSafe w]))"

definition extractBytesArray :: "bytes list \<Rightarrow> nat \<Rightarrow> bytes \<Rightarrow> bytes list option" where
  "extractBytesArray ws offset inp =
     (if length ws \<le> offset then Some []
      else allSome (map (\<lambda>i.
        Option.bind (nthE ws (offset + i + 1)) (\<lambda>ow.
          let bytesOffset = intValueSafe ow div wordSize in
          Option.bind (nthE ws (offset + bytesOffset + 1)) (\<lambda>lw.
            Some (slice0 inp ((bytesOffset + offset + 2) * wordSize) (intValueSafe lw)))))
        [0..<intValueSafe (ws ! offset)]))"

definition batch_RequiredEnergy :: "bytes \<Rightarrow> uint64" where
  "batch_RequiredEnergy inp =
     (let cnt = tquot (int (length inp div wordSize) - 5) 6 in if cnt < 0 then 0 else word_of_int cnt * energyPerSign)"

definition batch_body :: "vmlib \<Rightarrow> bytes \<Rightarrow> bytes option" where
  "batch_body L inp =
     (let ws = parseWords inp in
      if length ws < 3 then Some (replicate wordSize 0)
      else
        Option.bind (extractBytesArray ws (intValueSafe (ws ! 1) div wordSize) inp) (\<lambda>sigs.
        Option.bind (extractBytes32Array ws (intValueSafe (ws ! 2) div wordSize)) (\<lambda>addrs.
          let cnt = length sigs in
          if cnt = 0 \<or> cnt > batchMaxSize \<or> cnt \<noteq> length addrs then Some (replicate wordSize 0)
          else Some (map (\<lambda>i. if i < cnt \<and> (case recoverTronAddr L (sigs ! i) (ws ! 0) of
                  None \<Rightarrow> False | Some a \<Rightarrow> equalAddressBytes (addrs ! i) a) then 1 else 0) [0..<wordSize]))))"

definition batchValidateSign_Run :: "vmlib \<Rightarrow> bytes \<Rightarrow> bytes" where
  "batchValidateSign_Run L inp = (case batch_body L inp of None \<Rightarrow> replicate wordSize 0 | Some out \<Rightarrow> out)"

definition multi_RequiredEnergy :: "bytes \<Rightarrow> uint64" where
  "multi_RequiredEnergy inp =
     (let cnt = tquot (int (length inp div wordSize) - 5) 5 in if cnt < 0 then 0 else word_of_int cnt * energyPerSign)"

fun weightOf :: "PermissionKey list \<Rightarrow> bytes option \<Rightarrow> int64" where
  "weightOf ks None = 0"
| "weightOf [] (Some a) = 0"
| "weightOf (k # ks) (Some a) = (if pk_Address k = a then pk_Weight k else weightOf ks (Some a))"

text \<open>
  The loop over the signatures: \<open>None\<close> when some signer has no weight, else the total. \<open>seenAddr\<close> and
  \<open>seenSign\<close> are the two sets of the source; a failed recovery counts as the empty address.
\<close>

fun multiLoop :: "vmlib \<Rightarrow> bytes \<Rightarrow> PermissionKey list \<Rightarrow> bytes set \<Rightarrow> bytes set \<Rightarrow> int64 \<Rightarrow> bytes list \<Rightarrow> int64 option" where
  "multiLoop L hash ks seenAddr seenSign tot [] = Some tot"
| "multiLoop L hash ks seenAddr seenSign tot (sign # sigs) =
     (let rec = recoverTronAddr L sign hash; r = (case rec of None \<Rightarrow> [] | Some a \<Rightarrow> a); merged = r @ sign in
      if r \<in> seenAddr \<and> merged \<in> seenSign then multiLoop L hash ks seenAddr seenSign tot sigs
      else let w = weightOf ks rec in
        if w = 0 then None
        else multiLoop L hash ks (insert r seenAddr) (insert merged seenSign) (tot + w) sigs)"

definition int32BE :: "nat \<Rightarrow> bytes" where
  "int32BE v = nat_to_be 4 v"

definition multi_body :: "vmlib \<Rightarrow> permReader option \<Rightarrow> bytes \<Rightarrow> bool option" where
  "multi_body L perm inp =
     (let ws = parseWords inp in
      if length ws < 4 then Some False
      else
        let address = toTronAddress (ws ! 0); permissionID = intValueSafe (ws ! 1);
            hash = Sha256 [address @ int32BE permissionID @ ws ! 2] in
        Option.bind (extractBytesArray ws (intValueSafe (ws ! 3) div wordSize) inp) (\<lambda>sigs.
          if length sigs = 0 \<or> length sigs > multiSignMax then Some False
          else case perm of
              None \<Rightarrow> Some False
            | Some rd \<Rightarrow>
                (case rd address (int permissionID) of
                   None \<Rightarrow> Some False
                 | Some (threshold, ks) \<Rightarrow>
                     (case multiLoop L hash ks {} {} 0 sigs of
                        None \<Rightarrow> Some False
                      | Some tot \<Rightarrow> Some (sle threshold tot)))))"

definition validateMultiSign_Run :: "vmlib \<Rightarrow> permReader option \<Rightarrow> bytes \<Rightarrow> bytes" where
  "validateMultiSign_Run L perm inp = boolWord (multi_body L perm inp = Some True)"

section \<open>Dispatch\<close>

datatype Precompile =
    ecrecover | sha256Hash | tronRipemd160 | dataCopy | bigModExp | bn128Add | bn128ScalarMul | bn128Pairing
  | ethRipemd160 | blake2F | batchValidateSign | validateMultiSign "permReader option" | shieldedDeferred uint64

definition energyVerifyMintProof :: uint64 where "energyVerifyMintProof = 150000"
definition energyVerifyTransferProof :: uint64 where "energyVerifyTransferProof = 200000"
definition energyVerifyBurnProof :: uint64 where "energyVerifyBurnProof = 150000"
definition energyMerkleHash :: uint64 where "energyMerkleHash = 500"

definition precompiles :: "(bytes \<times> Precompile) list" where
  "precompiles = [(precompileAddr 0x01, ecrecover), (precompileAddr 0x02, sha256Hash), (precompileAddr 0x03, tronRipemd160),
     (precompileAddr 0x04, dataCopy), (precompileAddr 0x05, bigModExp), (precompileAddr 0x06, bn128Add),
     (precompileAddr 0x07, bn128ScalarMul), (precompileAddr 0x08, bn128Pairing), (precompileAddr 0x20003, ethRipemd160)]"

definition lookupPrecompile :: "bytes \<Rightarrow> VMConfig \<Rightarrow> permReader option \<Rightarrow> Precompile option" where
  "lookupPrecompile addr cfg perm =
     (case map_of precompiles addr of
        Some p \<Rightarrow> Some p
      | None \<Rightarrow>
          if Forward6364 cfg \<and> addr = precompileAddr 0x20009 then Some blake2F
          else if AllowSolidity059 cfg \<and> addr = precompileAddr 0x09 then Some batchValidateSign
          else if AllowSolidity059 cfg \<and> addr = precompileAddr 0x0a then Some (validateMultiSign perm)
          else if AllowShieldedTRC20Transaction cfg \<and> addr = precompileAddr 0x1000001 then Some (shieldedDeferred energyVerifyMintProof)
          else if AllowShieldedTRC20Transaction cfg \<and> addr = precompileAddr 0x1000002 then Some (shieldedDeferred energyVerifyTransferProof)
          else if AllowShieldedTRC20Transaction cfg \<and> addr = precompileAddr 0x1000003 then Some (shieldedDeferred energyVerifyBurnProof)
          else if AllowShieldedTRC20Transaction cfg \<and> addr = precompileAddr 0x1000004 then Some (shieldedDeferred energyMerkleHash)
          else None)"

text \<open>The energy \<open>runPrecompile\<close> charges: \<open>requiredEnergyCfg\<close> for the curve contracts, else \<open>RequiredEnergy\<close>.\<close>

fun precompileEnergy :: "Precompile \<Rightarrow> bytes \<Rightarrow> VMConfig \<Rightarrow> uint64 option" where
  "precompileEnergy ecrecover inp cfg = Some 3000"
| "precompileEnergy sha256Hash inp cfg = Some (60 + 12 * wordCount (length inp))"
| "precompileEnergy tronRipemd160 inp cfg = Some (600 + 120 * wordCount (length inp))"
| "precompileEnergy ethRipemd160 inp cfg = Some (600 + 120 * wordCount (length inp))"
| "precompileEnergy dataCopy inp cfg = Some (15 + 3 * wordCount (length inp))"
| "precompileEnergy bigModExp inp cfg = modexp_RequiredEnergy inp"
| "precompileEnergy bn128Add inp cfg = Some (bn128_requiredEnergyCfg 6 inp cfg)"
| "precompileEnergy bn128ScalarMul inp cfg = Some (bn128_requiredEnergyCfg 7 inp cfg)"
| "precompileEnergy bn128Pairing inp cfg = Some (bn128_requiredEnergyCfg 8 inp cfg)"
| "precompileEnergy blake2F inp cfg = Some (blake2F_RequiredEnergy inp)"
| "precompileEnergy batchValidateSign inp cfg = Some (batch_RequiredEnergy inp)"
| "precompileEnergy (validateMultiSign p) inp cfg = Some (multi_RequiredEnergy inp)"
| "precompileEnergy (shieldedDeferred e) inp cfg = Some e"

fun precompileRun :: "vmlib \<Rightarrow> Precompile \<Rightarrow> bytes \<Rightarrow> bytes outcome" where
  "precompileRun L ecrecover inp = Next (ecrecoverRun L inp)"
| "precompileRun L sha256Hash inp = Next (Sha256 [inp])"
| "precompileRun L tronRipemd160 inp = Next (tronRipemd160_Run inp)"
| "precompileRun L ethRipemd160 inp = Next (ethRipemd160_Run L inp)"
| "precompileRun L dataCopy inp = Next inp"
| "precompileRun L bigModExp inp = modexp_Run inp"
| "precompileRun L bn128Add inp = bn128Add_Run L inp"
| "precompileRun L bn128ScalarMul inp = bn128ScalarMul_Run L inp"
| "precompileRun L bn128Pairing inp = bn128Pairing_Run L inp"
| "precompileRun L blake2F inp = blake2F_Run inp"
| "precompileRun L batchValidateSign inp = Next (batchValidateSign_Run L inp)"
| "precompileRun L (validateMultiSign p) inp = Next (validateMultiSign_Run L p inp)"
| "precompileRun L (shieldedDeferred e) inp = Fault errShieldedUnsupported []"

text \<open>The result is the output with the energy used; on a failure the whole budget is used.\<close>

definition runPrecompile :: "vmlib \<Rightarrow> Precompile \<Rightarrow> bytes \<Rightarrow> uint64 \<Rightarrow> VMConfig \<Rightarrow> (bytes \<times> uint64) outcome" where
  "runPrecompile L pc inp budget cfg =
     (case precompileEnergy pc inp cfg of
        None \<Rightarrow> Crash ''makeslice: len out of range''
      | Some cost \<Rightarrow>
          if cost > budget then Fault ErrOutOfEnergy ([], budget)
          else case precompileRun L pc inp of
              Next out \<Rightarrow> Next (out, cost)
            | Fault e _ \<Rightarrow> Fault e ([], budget)
            | Crash m \<Rightarrow> Crash m
            | NoFuel \<Rightarrow> NoFuel)"

lemma runPrecompile_used:
  "runPrecompile L pc inp budget cfg = Next (out, used) \<Longrightarrow> used \<le> budget"
  "runPrecompile L pc inp budget cfg = Fault e (out, used) \<Longrightarrow> used = budget"
  by (auto simp: runPrecompile_def not_less split: option.splits if_splits outcome.splits)

lemma precompileRun_fuel: "precompileRun L pc inp \<noteq> NoFuel"
  by (cases pc) (auto simp: modexp_Run_def bn128Add_Run_def bn128ScalarMul_Run_def bn128Pairing_Run_def blake2F_Run_def
      Let_def split: option.splits)

lemma runPrecompile_fuel: "runPrecompile L pc inp budget cfg \<noteq> NoFuel"
  using precompileRun_fuel by (auto simp: runPrecompile_def split: option.splits outcome.splits)

section \<open>A panic in modular exponentiation\<close>

lemma sint_high:
  assumes "2 ^ 63 \<le> unat (w :: 64 word)" shows "sint w < 0"
proof -
  have "unat w < 2 ^ 64" using unsigned_less [of w, where 'a = nat] by simp
  then have "unat w div 2 ^ 63 = 1" using assms by (simp add: div_nat_eqI)
  then have "bit (unat w) 63" by (simp add: bit_iff_odd)
  then have "bit w 63" by (simp add: bit_unsigned_iff)
  then show ?thesis by (simp add: sint_uint signed_take_bit_negative_iff bit_uint_iff)
qed

text \<open>
  C32: An input whose declared base length reads as a negative 64-bit integer makes
  the modular exponentiation contract panic while its energy is computed, before any energy is
  charged; nothing in the contract or its caller recovers.
\<close>

theorem modexp_panics:
  assumes "be_to_nat (slice0 inp 0 32) mod 2 ^ 64 \<ge> 2 ^ 63"
  shows "runPrecompile L bigModExp inp budget cfg = Crash ''makeslice: len out of range''"
proof -
  let ?l = "word_of_nat (be_to_nat (slice0 inp 0 32)) :: int64"
  have r: "rightPad inp 0 32 = Some (slice0 inp 0 32)"
    using rightPad_slice0 [of 0 32 inp] by (simp add: maxAlloc_def)
  have "sint ?l < 0"
    using assms by (intro sint_high) (simp add: unat_of_nat take_bit_eq_mod)
  then have b: "rightPad inp 96 ?l = None" by (simp only: rightPad_def simp_thms if_True)
  have l: "lenField inp 0 = Some ?l" by (simp only: lenField_def r option.map)
  have "modexp_fields inp = None"
    by (cases "lenField inp 32"; cases "lenField inp 64") (simp_all only: modexp_fields_def l b bind.simps)
  then show ?thesis by (simp add: runPrecompile_def modexp_RequiredEnergy_def)
qed

lemma be_to_nat_ones: "be_to_nat (replicate n 255) + 1 = 256 ^ n"
proof (induction n)
  case (Suc n)
  have "replicate (Suc n) (255::byte) = replicate n 255 @ [255]" by (simp add: replicate_append_same)
  with Suc show ?case by (simp only: be_to_nat_snoc) simp
qed simp

theorem modexp_panics_witness:
  "\<forall>L. runPrecompile L bigModExp (replicate 32 255) 100000 LatestVMConfig = Crash ''makeslice: len out of range''"
proof -
  have "2 ^ 63 \<le> be_to_nat (slice0 (replicate 32 255) 0 32) mod 2 ^ 64"
    using be_to_nat_ones [of 32] by (simp add: slice0_def)
  then show ?thesis by (intro allI modexp_panics)
qed

end
