(* ===== verification/Tvm_Interp.thy ===== *)
theory Tvm_Interp
  imports Tvm_Precompiles
begin

text \<open>
  \<open>internal/tvm/interpreter.go\<close>, \<open>gas.go\<close>, \<open>instructions.go\<close>, \<open>logs.go\<close>, \<open>staking_ops.go\<close> and \<open>evm.go\<close>:
  the interpreter of one frame, the energy functions, the jump table, and the call and create
  frames. The mutable fields of \<open>scope\<close>, \<open>interpreter\<close> and \<open>EVM\<close> form the record \<open>frame\<close>, the fixed
  ones \<open>env\<close>. Executors get the runner of nested frames as an argument; \<open>runFrame\<close> ties the knot by
  recursion on fuel, which bounds both the steps of a frame and the nesting.
\<close>

record 's env =
  ev_db :: "'s StateDB"
  ev_lib :: vmlib
  ev_block :: VmBlock
  ev_cfg :: VMConfig
  ev_rootTxID :: bytes
  ev_perm :: "permReader option"

record 's frame =
  f_contract :: Contract
  f_stack :: stack
  f_mem :: memory
  f_pc :: nat
  f_stop :: bool
  f_ret :: bytes
  f_reverted :: bool
  f_returnData :: bytes
  f_meter :: energyMeter
  f_dests :: "bool list"
  f_readOnly :: bool
  f_state :: 's
  f_depth :: nat
  f_logs :: "Log list"

type_synonym 's gasFn = "'s env \<Rightarrow> 's frame \<Rightarrow> (uint64 \<times> 's frame) outcome"

text \<open>A runner executes a contract with a budget, a read-only flag and a depth on logs and state.\<close>

type_synonym 's runner = "Contract \<Rightarrow> uint64 \<Rightarrow> bool \<Rightarrow> nat \<Rightarrow> Log list \<Rightarrow> 's \<Rightarrow> (Result \<times> Log list \<times> 's) outcome"

type_synonym 's execFn = "'s runner \<Rightarrow> 's env \<Rightarrow> 's frame \<Rightarrow> 's frame outcome"

section \<open>Memory cost (interpreter.go)\<close>

definition memLimit :: uint64 where "memLimit = 3145728"

definition memCostWords :: "uint64 \<Rightarrow> uint64" where
  "memCostWords ws = 3 * ws + ws * ws div 512"

definition memExpandCost :: "memory \<Rightarrow> uint64 \<Rightarrow> vmError + uint64" where
  "memExpandCost m newByteSize =
     (if newByteSize = 0 then Inr 0
      else if newByteSize > memLimit then Inl ErrMemoryOverflow
      else let newSize = wordsForBytes newByteSize * 32; old = word_of_nat (length m) in
        if newSize \<le> old then Inr 0 else Inr (memCostWords (newSize div 32) - memCostWords (old div 32)))"

definition toUint64 :: "u256 \<Rightarrow> vmError + uint64" where
  "toUint64 v = (if \<not> IsUint64 v then Inl ErrGasUintOverflow else Inr (u_Uint64 v))"

definition clampU64 :: "u256 \<Rightarrow> uint64" where
  "clampU64 v = (if IsUint64 v then u_Uint64 v else - 1)"

definition bindS :: "vmError + 'a \<Rightarrow> ('a \<Rightarrow> vmError + 'b) \<Rightarrow> vmError + 'b" where
  "bindS r f = (case r of Inl e \<Rightarrow> Inl e | Inr x \<Rightarrow> f x)"

definition memAccessSize :: "u256 \<Rightarrow> u256 \<Rightarrow> vmError + uint64" where
  "memAccessSize offset sz =
     (if sz = 0 then Inr 0
      else bindS (toUint64 offset) (\<lambda>off. bindS (toUint64 sz) (\<lambda>s.
        if off + s < off then Inl ErrGasUintOverflow else Inr (off + s))))"

definition memGrowth :: "memory \<Rightarrow> u256 \<Rightarrow> u256 \<Rightarrow> vmError + uint64" where
  "memGrowth m offset sz = bindS (memAccessSize offset sz) (memExpandCost m)"

definition pushBytes :: "byte \<Rightarrow> nat option" where
  "pushBytes op = (if 0x60 \<le> op \<and> op \<le> 0x7f then Some (unat op - 0x60 + 1) else None)"

text \<open>The bitmap of valid jump destinations; the first argument counts immediate bytes still to skip.\<close>

fun scanDests :: "nat \<Rightarrow> bytes \<Rightarrow> bool list" where
  "scanDests k [] = []"
| "scanDests (Suc k) (b # bs) = False # scanDests k bs"
| "scanDests 0 (b # bs) =
     (case pushBytes b of Some n \<Rightarrow> False # scanDests n bs | None \<Rightarrow> (b = 0x5b) # scanDests 0 bs)"

definition analyzeJumpDests :: "bytes \<Rightarrow> bool list" where
  "analyzeJumpDests code = scanDests 0 code"

section \<open>Energy functions (gas.go)\<close>

text \<open>Peeking past the stack panics.\<close>

definition peekV :: "nat \<Rightarrow> 's frame \<Rightarrow> (u256 \<Rightarrow> 'a outcome) \<Rightarrow> 'a outcome" where
  "peekV n f k = (case stack_peek n (f_stack f) of None \<Rightarrow> Crash ''index out of range'' | Some v \<Rightarrow> k v)"

definition liftG :: "'s frame \<Rightarrow> vmError + uint64 \<Rightarrow> (uint64 \<Rightarrow> (uint64 \<times> 's frame) outcome) \<Rightarrow> (uint64 \<times> 's frame) outcome" where
  "liftG f r k = (case r of Inl e \<Rightarrow> Fault e (0, f) | Inr x \<Rightarrow> k x)"

definition constGas :: "uint64 \<Rightarrow> 's gasFn" where
  "constGas c env f = Next (c, f)"

definition gasSpecial :: uint64 where "gasSpecial = 1"

definition memSpecialTier :: "VMConfig \<Rightarrow> uint64" where
  "memSpecialTier cfg = (if LegacyMemCost cfg then 0 else gasSpecial)"

definition gasMload :: "'s gasFn" where
  "gasMload env f = peekV 0 f (\<lambda>off.
     liftG f (memGrowth (f_mem f) off 32) (\<lambda>ex. Next (memSpecialTier (ev_cfg env) + ex, f)))"

definition gasMstore :: "'s gasFn" where
  "gasMstore = gasMload"

definition gasMstore8 :: "'s gasFn" where
  "gasMstore8 env f = peekV 0 f (\<lambda>off.
     liftG f (memGrowth (f_mem f) off 1) (\<lambda>ex. Next (memSpecialTier (ev_cfg env) + ex, f)))"

definition gasKeccak256 :: "'s gasFn" where
  "gasKeccak256 env f = peekV 0 f (\<lambda>off. peekV 1 f (\<lambda>sz.
     liftG f (memGrowth (f_mem f) off sz) (\<lambda>ex. liftG f (toUint64 sz) (\<lambda>n.
       Next (30 + 6 * wordsForBytes n + ex, f)))))"

definition gasCopy :: "'s gasFn" where
  "gasCopy env f = peekV 0 f (\<lambda>memOff. peekV 2 f (\<lambda>len.
     liftG f (memGrowth (f_mem f) memOff len) (\<lambda>ex. liftG f (toUint64 len) (\<lambda>l.
       Next (ex + 3 * wordsForBytes l, f)))))"

definition gasReturn :: "'s gasFn" where
  "gasReturn env f = peekV 0 f (\<lambda>off. peekV 1 f (\<lambda>sz.
     liftG f (memGrowth (f_mem f) off sz) (\<lambda>ex. Next (ex, f))))"

definition gasExp :: "'s gasFn" where
  "gasExp env f = peekV 1 f (\<lambda>e. Next (10 + 10 * word_of_nat (u_ByteLen e), f))"

definition gasExtcodecopy :: "'s gasFn" where
  "gasExtcodecopy env f = peekV 1 f (\<lambda>memOff. peekV 3 f (\<lambda>len.
     liftG f (memGrowth (f_mem f) memOff len) (\<lambda>ex. liftG f (toUint64 len) (\<lambda>l.
       Next (20 + ex + 3 * wordsForBytes l, f)))))"

definition gasReturndatacopy :: "'s gasFn" where
  "gasReturndatacopy = gasCopy"

definition callArgsMem :: "memory \<Rightarrow> u256 \<Rightarrow> u256 \<Rightarrow> u256 \<Rightarrow> u256 \<Rightarrow> vmError + uint64" where
  "callArgsMem m inOff inSize outOff outSize =
     bindS (memAccessSize inOff inSize) (\<lambda>inEnd. bindS (memAccessSize outOff outSize) (\<lambda>outEnd.
       memExpandCost m (if outEnd > inEnd then outEnd else inEnd)))"

definition stipendCall :: uint64 where "stipendCall = 2300"
definition createData :: uint64 where "createData = 200"
definition vtCall :: uint64 where "vtCall = 9000"
definition newAcctCall :: uint64 where "newAcctCall = 25000"
definition createGas :: uint64 where "createGas = 32000"

definition gasCall :: "'s gasFn" where
  "gasCall env f = peekV 2 f (\<lambda>v. peekV 3 f (\<lambda>inOff. peekV 4 f (\<lambda>inSize. peekV 5 f (\<lambda>outOff. peekV 6 f (\<lambda>outSize.
     liftG f (callArgsMem (f_mem f) inOff inSize outOff outSize) (\<lambda>mem.
       if v = 0 then Next (40 + mem, f)
       else peekV 1 f (\<lambda>a.
         let (ex, s) = sd_Exist (ev_db env) (wordToAddr a) (f_state f) in
         Next (40 + mem + vtCall + (if ex then 0 else newAcctCall), f\<lparr>f_state := s\<rparr>))))))))"

definition gasCallcode :: "'s gasFn" where
  "gasCallcode env f = peekV 2 f (\<lambda>v. peekV 3 f (\<lambda>inOff. peekV 4 f (\<lambda>inSize. peekV 5 f (\<lambda>outOff. peekV 6 f (\<lambda>outSize.
     liftG f (callArgsMem (f_mem f) inOff inSize outOff outSize) (\<lambda>mem.
       Next (if v = 0 then 40 + mem else 40 + mem + vtCall, f)))))))"

definition gasCallNoValue :: "'s gasFn" where
  "gasCallNoValue env f = peekV 2 f (\<lambda>inOff. peekV 3 f (\<lambda>inSize. peekV 4 f (\<lambda>outOff. peekV 5 f (\<lambda>outSize.
     liftG f (callArgsMem (f_mem f) inOff inSize outOff outSize) (\<lambda>mem. Next (40 + mem, f))))))"

definition gasCreate :: "'s gasFn" where
  "gasCreate env f = peekV 1 f (\<lambda>off. peekV 2 f (\<lambda>sz.
     liftG f (memGrowth (f_mem f) off sz) (\<lambda>ex. Next (createGas + ex, f))))"

definition gasCreate2 :: "'s gasFn" where
  "gasCreate2 env f = peekV 1 f (\<lambda>off. peekV 2 f (\<lambda>sz.
     liftG f (memGrowth (f_mem f) off sz) (\<lambda>ex. liftG f (toUint64 sz) (\<lambda>n.
       Next (createGas + ex + 6 * wordsForBytes n, f)))))"

definition gasSstore :: "'s gasFn" where
  "gasSstore env f = peekV 0 f (\<lambda>slot. peekV 1 f (\<lambda>v.
     let ((_, present), s) = sd_GetStorage (ev_db env) (c_Self (f_contract f)) (Bytes32 slot) (f_state f);
         f' = f\<lparr>f_state := s\<rparr> in
     if \<not> present \<and> v \<noteq> 0 then Next (20000, f')
     else if present \<and> v = 0 then Next (5000, f')
     else Next (5000, f')))"

definition logEnergy :: uint64 where "logEnergy = 375"
definition logTopicEnergy :: uint64 where "logTopicEnergy = 375"
definition logDataEnergy :: uint64 where "logDataEnergy = 8"

definition gasLog :: "nat \<Rightarrow> 's gasFn" where
  "gasLog n env f = peekV 0 f (\<lambda>off. peekV 1 f (\<lambda>sz.
     liftG f (memGrowth (f_mem f) off sz) (\<lambda>ex. liftG f (toUint64 sz) (\<lambda>s.
       Next (logEnergy + logTopicEnergy * word_of_nat n + logDataEnergy * s + ex, f)))))"

section \<open>Executors (instructions.go)\<close>

text \<open>The shapes the executors share: rewrite the top, combine the popped words with the new top, push.\<close>

definition unop :: "(u256 \<Rightarrow> u256) \<Rightarrow> 's execFn" where
  "unop g run env f = (case f_stack f of [] \<Rightarrow> Crash ''index out of range'' | x # st \<Rightarrow> Next (f\<lparr>f_stack := g x # st\<rparr>))"

definition binop :: "(u256 \<Rightarrow> u256 \<Rightarrow> u256) \<Rightarrow> 's execFn" where
  "binop g run env f =
     (let (x, st) = stack_pop (f_stack f) in
      case st of [] \<Rightarrow> Crash ''index out of range'' | y # st' \<Rightarrow> Next (f\<lparr>f_stack := g x y # st'\<rparr>))"

definition ternop :: "(u256 \<Rightarrow> u256 \<Rightarrow> u256 \<Rightarrow> u256) \<Rightarrow> 's execFn" where
  "ternop g run env f =
     (let (x, st) = stack_pop (f_stack f); (y, st') = stack_pop st in
      case st' of [] \<Rightarrow> Crash ''index out of range'' | z # st'' \<Rightarrow> Next (f\<lparr>f_stack := g x y z # st''\<rparr>))"

definition pushW :: "u256 \<Rightarrow> 's frame \<Rightarrow> 's frame outcome" where
  "pushW w f = (case stack_push w (f_stack f) of Inl e \<Rightarrow> Fault e f | Inr st \<Rightarrow> Next (f\<lparr>f_stack := st\<rparr>))"

definition popF :: "'s frame \<Rightarrow> (u256 \<Rightarrow> 's frame \<Rightarrow> 'a) \<Rightarrow> 'a" where
  "popF f k = (let (x, st) = stack_pop (f_stack f) in k x (f\<lparr>f_stack := st\<rparr>))"

definition memGetF :: "uint64 \<Rightarrow> uint64 \<Rightarrow> 's frame \<Rightarrow> (bytes \<Rightarrow> 's frame \<Rightarrow> 's frame outcome) \<Rightarrow> 's frame outcome" where
  "memGetF off sz f k =
     (case mem_get off sz (f_mem f) of None \<Rightarrow> Crash ''slice bounds out of range'' | Some (b, m) \<Rightarrow> k b (f\<lparr>f_mem := m\<rparr>))"

definition memSetF :: "uint64 \<Rightarrow> bytes \<Rightarrow> 's frame \<Rightarrow> 's frame outcome" where
  "memSetF off b f =
     (case mem_set off b (f_mem f) of None \<Rightarrow> Crash ''slice bounds out of range'' | Some m \<Rightarrow> Next (f\<lparr>f_mem := m\<rparr>))"

definition opStop :: "'s execFn" where "opStop run env f = Next (f\<lparr>f_stop := True\<rparr>)"
definition opAdd :: "'s execFn" where "opAdd = binop (\<lambda>x y. x + y)"
definition opMul :: "'s execFn" where "opMul = binop (\<lambda>x y. x * y)"
definition opSub :: "'s execFn" where "opSub = binop (\<lambda>x y. x - y)"
definition opDiv :: "'s execFn" where "opDiv = binop u_Div"
definition opSdiv :: "'s execFn" where "opSdiv = binop u_SDiv"
definition opMod :: "'s execFn" where "opMod = binop u_Mod"
definition opSmod :: "'s execFn" where "opSmod = binop u_SMod"
definition opAddmod :: "'s execFn" where "opAddmod = ternop u_AddMod"
definition opMulmod :: "'s execFn" where "opMulmod = ternop u_MulMod"
definition opExp :: "'s execFn" where "opExp = binop u_Exp"
definition opSignextend :: "'s execFn" where "opSignextend = binop (\<lambda>back num. u_ExtendSign num back)"

definition setBool :: "bool \<Rightarrow> u256" where "setBool b = (if b then 1 else 0)"

definition opLt :: "'s execFn" where "opLt = binop (\<lambda>x y. setBool (x < y))"
definition opGt :: "'s execFn" where "opGt = binop (\<lambda>x y. setBool (x > y))"
definition opSlt :: "'s execFn" where "opSlt = binop (\<lambda>x y. setBool (sint x < sint y))"
definition opSgt :: "'s execFn" where "opSgt = binop (\<lambda>x y. setBool (sint x > sint y))"
definition opEq :: "'s execFn" where "opEq = binop (\<lambda>x y. setBool (x = y))"
definition opIszero :: "'s execFn" where "opIszero = unop (\<lambda>x. setBool (x = 0))"
definition opAnd :: "'s execFn" where "opAnd = binop (\<lambda>x y. x AND y)"
definition opOr :: "'s execFn" where "opOr = binop (\<lambda>x y. x OR y)"
definition opXor :: "'s execFn" where "opXor = binop (\<lambda>x y. x XOR y)"
definition opNot :: "'s execFn" where "opNot = unop (\<lambda>x. NOT x)"
definition opByte :: "'s execFn" where "opByte = binop (\<lambda>idx v. u_Byte v idx)"

definition shiftAmount :: "u256 \<Rightarrow> nat" where
  "shiftAmount shift = (if unat shift < 256 then unat shift else 256)"

definition opShl :: "'s execFn" where "opShl = binop (\<lambda>s v. push_bit (shiftAmount s) v)"
definition opShr :: "'s execFn" where "opShr = binop (\<lambda>s v. drop_bit (shiftAmount s) v)"
definition opSar :: "'s execFn" where "opSar = binop (\<lambda>s v. signed_drop_bit (shiftAmount s) v)"

definition opKeccak256 :: "'s execFn" where
  "opKeccak256 run env f = popF f (\<lambda>off f1. peekV 0 f1 (\<lambda>sz.
     memGetF (u_Uint64 off) (u_Uint64 sz) f1 (\<lambda>b f2.
       Next (f2\<lparr>f_stack := u_SetBytes (L_keccak (ev_lib env) b) # tl (f_stack f2)\<rparr>))))"

definition opAddress :: "'s execFn" where "opAddress run env f = pushW (addrWord (c_Self (f_contract f))) f"
definition opOrigin :: "'s execFn" where "opOrigin run env f = pushW (addrWord (c_Origin (f_contract f))) f"
definition opCaller :: "'s execFn" where "opCaller run env f = pushW (addrWord (c_Caller (f_contract f))) f"
definition opCallvalue :: "'s execFn" where "opCallvalue run env f = pushW (c_Value (f_contract f)) f"

text \<open>\<open>copyDataAt\<close>: \<open>n\<close> bytes of the source from an offset, zero past its end.\<close>

definition copyDataAt :: "bytes \<Rightarrow> uint64 \<Rightarrow> uint64 \<Rightarrow> bytes" where
  "copyDataAt src off n = take (unat n) (drop (unat off) src @ replicate (unat n) 0)"

definition opCalldataload :: "'s execFn" where
  "opCalldataload run env f = unop (\<lambda>off.
     u_SetBytes (if IsUint64 off then copyDataAt (c_Input (f_contract f)) (u_Uint64 off) 32 else replicate 32 0)) run env f"

definition lenWord :: "nat \<Rightarrow> u256" where "lenWord n = SetUint64 (word_of_nat n)"

definition opCalldatasize :: "'s execFn" where "opCalldatasize run env f = pushW (lenWord (length (c_Input (f_contract f)))) f"
definition opCodesize :: "'s execFn" where "opCodesize run env f = pushW (lenWord (length (c_Code (f_contract f)))) f"

definition copyOp :: "bytes \<Rightarrow> 's frame \<Rightarrow> 's frame outcome" where
  "copyOp src f = popF f (\<lambda>memOff f1. popF f1 (\<lambda>dataOff f2. popF f2 (\<lambda>len f3.
     memSetF (u_Uint64 memOff) (copyDataAt src (clampU64 dataOff) (u_Uint64 len)) f3)))"

definition opCalldatacopy :: "'s execFn" where "opCalldatacopy run env f = copyOp (c_Input (f_contract f)) f"
definition opCodecopy :: "'s execFn" where "opCodecopy run env f = copyOp (c_Code (f_contract f)) f"
definition opGasprice :: "'s execFn" where "opGasprice run env f = pushW 0 f"
definition opReturndatasize :: "'s execFn" where "opReturndatasize run env f = pushW (lenWord (length (f_returnData f))) f"
definition opCoinbase :: "'s execFn" where "opCoinbase run env f = pushW (addrWord (vb_Coinbase (ev_block env))) f"
definition opTimestamp :: "'s execFn" where "opTimestamp run env f = pushW (SetUint64 (vb_Timestamp (ev_block env))) f"
definition opNumber :: "'s execFn" where "opNumber run env f = pushW (SetUint64 (vb_Number (ev_block env))) f"
definition opZeroWord :: "'s execFn" where "opZeroWord run env f = pushW 0 f"
definition opChainid :: "'s execFn" where
  "opChainid run env f = pushW (case vb_ChainID (ev_block env) of None \<Rightarrow> 0 | Some c \<Rightarrow> c) f"

definition opPop :: "'s execFn" where
  "opPop run env f = (case f_stack f of [] \<Rightarrow> Fault ErrStackUnderflow f | _ # st \<Rightarrow> Next (f\<lparr>f_stack := st\<rparr>))"

definition opMload :: "'s execFn" where
  "opMload run env f = peekV 0 f (\<lambda>off. memGetF (u_Uint64 off) 32 f (\<lambda>b f1.
     Next (f1\<lparr>f_stack := u_SetBytes b # tl (f_stack f1)\<rparr>)))"

definition opMstore :: "'s execFn" where
  "opMstore run env f = popF f (\<lambda>off f1. popF f1 (\<lambda>v f2.
     case mem_set32 (u_Uint64 off) (Bytes32 v) (f_mem f2) of
       None \<Rightarrow> Crash ''slice bounds out of range'' | Some m \<Rightarrow> Next (f2\<lparr>f_mem := m\<rparr>)))"

definition opMstore8 :: "'s execFn" where
  "opMstore8 run env f = popF f (\<lambda>off f1. popF f1 (\<lambda>v f2. memSetF (u_Uint64 off) [ucast (u_Uint64 v)] f2))"

definition opSload :: "'s execFn" where
  "opSload run env f = peekV 0 f (\<lambda>slot.
     let ((v, _), s) = sd_GetStorage (ev_db env) (c_Self (f_contract f)) (Bytes32 slot) (f_state f) in
     Next (f\<lparr>f_state := s, f_stack := u_SetBytes v # tl (f_stack f)\<rparr>))"

definition opSstore :: "'s execFn" where
  "opSstore run env f =
     (if f_readOnly f then Fault ErrStaticStateChange f
      else popF f (\<lambda>slot f1. popF f1 (\<lambda>v f2.
        Next (f2\<lparr>f_state := sd_SetStorage (ev_db env) (c_Self (f_contract f2)) (Bytes32 slot) (Bytes32 v) (f_state f2)\<rparr>))))"

definition jumpTo :: "u256 \<Rightarrow> 's frame \<Rightarrow> 's frame outcome" where
  "jumpTo dest f =
     (if \<not> IsUint64 dest then Fault ErrBadJumpDest f
      else if unat dest \<ge> length (c_Code (f_contract f)) \<or> \<not> f_dests f ! unat dest then Fault ErrBadJumpDest f
      else Next (f\<lparr>f_pc := unat dest\<rparr>))"

definition opJump :: "'s execFn" where "opJump run env f = popF f (\<lambda>dest f1. jumpTo dest f1)"

definition opJumpi :: "'s execFn" where
  "opJumpi run env f = popF f (\<lambda>dest f1. popF f1 (\<lambda>cond f2.
     if cond = 0 then Next (f2\<lparr>f_pc := f_pc f2 + 1\<rparr>) else jumpTo dest f2))"

definition opPc :: "'s execFn" where "opPc run env f = pushW (lenWord (f_pc f)) f"
definition opMsize :: "'s execFn" where "opMsize run env f = pushW (lenWord (length (f_mem f))) f"
definition opGas :: "'s execFn" where "opGas run env f = pushW (SetUint64 (remaining (f_meter f))) f"
definition opJumpdest :: "'s execFn" where "opJumpdest run env f = Next f"

definition makePush :: "nat \<Rightarrow> 's execFn" where
  "makePush sz run env f =
     pushW (u_SetBytes (slice0 (c_Code (f_contract f)) (f_pc f + 1) sz)) (f\<lparr>f_pc := f_pc f + sz\<rparr>)"

definition makeDup :: "nat \<Rightarrow> 's execFn" where
  "makeDup n run env f = (case stack_dup n (f_stack f) of Inl e \<Rightarrow> Fault e f | Inr st \<Rightarrow> Next (f\<lparr>f_stack := st\<rparr>))"

definition makeSwap :: "nat \<Rightarrow> 's execFn" where
  "makeSwap n run env f = (case stack_swap n (f_stack f) of Inl e \<Rightarrow> Fault e f | Inr st \<Rightarrow> Next (f\<lparr>f_stack := st\<rparr>))"

definition opReturn :: "'s execFn" where
  "opReturn run env f = popF f (\<lambda>off f1. popF f1 (\<lambda>sz f2.
     memGetF (u_Uint64 off) (u_Uint64 sz) f2 (\<lambda>b f3. Next (f3\<lparr>f_ret := b, f_stop := True\<rparr>))))"

definition opRevert :: "'s execFn" where
  "opRevert run env f = popF f (\<lambda>off f1. popF f1 (\<lambda>sz f2.
     memGetF (u_Uint64 off) (u_Uint64 sz) f2 (\<lambda>b f3. Next (f3\<lparr>f_ret := b, f_reverted := True, f_stop := True\<rparr>))))"

definition opInvalid :: "'s execFn" where "opInvalid run env f = Fault ErrInvalidOpcode f"

definition stateTop :: "(bytes \<Rightarrow> 's \<Rightarrow> u256 \<times> 's) \<Rightarrow> 's frame \<Rightarrow> 's frame outcome" where
  "stateTop g f = peekV 0 f (\<lambda>a.
     let (v, s) = g (wordToAddr a) (f_state f) in Next (f\<lparr>f_state := s, f_stack := v # tl (f_stack f)\<rparr>))"

definition opBalance :: "'s execFn" where "opBalance run env f = stateTop (sd_GetBalance (ev_db env)) f"

definition opSelfbalance :: "'s execFn" where
  "opSelfbalance run env f =
     (let (v, s) = sd_GetBalance (ev_db env) (c_Self (f_contract f)) (f_state f) in pushW v (f\<lparr>f_state := s\<rparr>))"

definition opExtcodesize :: "'s execFn" where
  "opExtcodesize run env f = stateTop (\<lambda>a s. let (n, s') = sd_GetCodeSize (ev_db env) a s in (lenWord n, s')) f"

definition opExtcodehash :: "'s execFn" where
  "opExtcodehash run env f = stateTop (\<lambda>a s.
     let (ex, s1) = sd_Exist (ev_db env) a s in
     if \<not> ex then (0, s1) else let (h, s2) = sd_GetCodeHash (ev_db env) a s1 in (u_SetBytes h, s2)) f"

definition opExtcodecopy :: "'s execFn" where
  "opExtcodecopy run env f = popF f (\<lambda>addr f1. popF f1 (\<lambda>memOff f2. popF f2 (\<lambda>codeOff f3. popF f3 (\<lambda>len f4.
     let (code, s) = sd_GetCode (ev_db env) (wordToAddr addr) (f_state f4) in
     memSetF (u_Uint64 memOff) (copyDataAt code (clampU64 codeOff) (u_Uint64 len)) (f4\<lparr>f_state := s\<rparr>)))))"

definition opIscontract :: "'s execFn" where
  "opIscontract run env f = stateTop (\<lambda>a s. let (n, s') = sd_GetCodeSize (ev_db env) a s in (setBool (n > 0), s')) f"

definition opReturndatacopy :: "'s execFn" where
  "opReturndatacopy run env f = popF f (\<lambda>memOff f1. popF f1 (\<lambda>dataOff f2. popF f2 (\<lambda>len f3.
     case memAccessSize dataOff len of
       Inl e \<Rightarrow> Fault e f3
     | Inr e \<Rightarrow>
         if e > word_of_nat (length (f_returnData f3)) then Fault ErrReturnDataOutOfBounds f3
         else memSetF (u_Uint64 memOff) (copyDataAt (f_returnData f3) (u_Uint64 dataOff) (u_Uint64 len)) f3)))"

definition opCalltokenvalue :: "'s execFn" where "opCalltokenvalue run env f = pushW 0 f"
definition opCalltokenid :: "'s execFn" where "opCalltokenid run env f = pushW 0 f"
definition opTokenbalance :: "'s execFn" where "opTokenbalance = binop (\<lambda>_ _. 0)"

fun popTopics :: "nat \<Rightarrow> 's frame \<Rightarrow> bytes list \<times> 's frame" where
  "popTopics 0 f = ([], f)"
| "popTopics (Suc n) f = popF f (\<lambda>t f1. let (ts, f2) = popTopics n f1 in (Bytes32 t # ts, f2))"

definition opLog :: "nat \<Rightarrow> 's execFn" where
  "opLog n run env f =
     (if f_readOnly f then Fault ErrStaticStateChange f
      else popF f (\<lambda>off f1. popF f1 (\<lambda>sz f2.
        let (topics, f3) = popTopics n f2 in
        memGetF (u_Uint64 off) (u_Uint64 sz) f3 (\<lambda>b f4.
          Next (f4\<lparr>f_logs := f_logs f4 @ [\<lparr>l_Address = c_Self (f_contract f4), l_Topics = topics, l_Data = b\<rparr>]\<rparr>)))))"

definition opStakingDeferred :: "'s execFn" where "opStakingDeferred run env f = Fault ErrStakingOpDeferred f"

section \<open>Call and create frames (evm.go)\<close>

definition maxCallDepth :: nat where "maxCallDepth = 64"

definition callEnergy :: "VMConfig \<Rightarrow> uint64 \<Rightarrow> uint64 \<Rightarrow> uint64" where
  "callEnergy cfg requested available =
     (let av = (if Forward6364 cfg then available - available div 64 else available) in
      if requested < av then requested else av)"

datatype callKind = kindCall | kindCallCode | kindDelegate | kindStatic

definition writeReturn :: "uint64 \<Rightarrow> bytes \<Rightarrow> uint64 \<Rightarrow> 's frame \<Rightarrow> 's frame outcome" where
  "writeReturn outOff b outSize f =
     (let n = (if length b > unat outSize then unat outSize else length b) in
      if n > 0 then memSetF outOff (take n b) f else Next f)"

definition childContract :: "callKind \<Rightarrow> Contract \<Rightarrow> bytes \<Rightarrow> u256 \<Rightarrow> bytes \<Rightarrow> bytes \<Rightarrow> Contract" where
  "childContract kind c to value args code =
     (case kind of
        kindCallCode \<Rightarrow> \<lparr>c_Self = c_Self c, c_CodeAddr = to, c_Caller = c_Self c, c_Origin = c_Origin c,
          c_Value = value, c_Input = args, c_Code = code\<rparr>
      | kindDelegate \<Rightarrow> \<lparr>c_Self = c_Self c, c_CodeAddr = to, c_Caller = c_Caller c, c_Origin = c_Origin c,
          c_Value = c_Value c, c_Input = args, c_Code = code\<rparr>
      | _ \<Rightarrow> \<lparr>c_Self = to, c_CodeAddr = to, c_Caller = c_Self c, c_Origin = c_Origin c,
          c_Value = value, c_Input = args, c_Code = code\<rparr>)"

text \<open>Undoing a failed child: state and logs back to the marks.\<close>

definition undoFrame :: "'s env \<Rightarrow> nat \<Rightarrow> nat \<Rightarrow> 's frame \<Rightarrow> 's frame" where
  "undoFrame env snap logMark f =
     f\<lparr>f_state := sd_RevertToSnapshot (ev_db env) snap (f_state f), f_logs := take logMark (f_logs f)\<rparr>"

text \<open>Whether the balance of an address is below a value; the state may cache what it read.\<close>

definition lacksBalance :: "'s env \<Rightarrow> bytes \<Rightarrow> u256 \<Rightarrow> 's frame \<Rightarrow> bool \<times> 's frame" where
  "lacksBalance env a value f =
     (if value = 0 then (False, f)
      else let (b, s) = sd_GetBalance (ev_db env) a (f_state f) in (b < value, f\<lparr>f_state := s\<rparr>))"

text \<open>
  \<open>doCall\<close> in its stages. Setting up: reserve the child's energy, mark state and logs, load the code,
  build the child contract and transfer the value (the budget, the snapshot and the child are
  returned with the frame).
\<close>

definition prepareCall :: "'s env \<Rightarrow> callKind \<Rightarrow> bytes \<Rightarrow> u256 \<Rightarrow> uint64 \<Rightarrow> bytes \<Rightarrow> 's frame \<Rightarrow>
    uint64 \<times> nat \<times> Contract \<times> 's frame" where
  "prepareCall env kind to value requested args f =
     (let db = ev_db env; self = c_Self (f_contract f);
          childGas = callEnergy (ev_cfg env) requested (remaining (f_meter f));
          budget = (if value \<noteq> 0 then childGas + stipendCall else childGas);
          (snap, s1) = sd_Snapshot db (f_state f);
          (code, s2) = sd_GetCode db to s1;
          s3 = (if kind = kindCall \<and> value \<noteq> 0 then sd_AddBalance db to value (sd_SubBalance db self value s2) else s2)
      in (budget, snap, childContract kind (f_contract f) to value args code,
          f\<lparr>f_meter := snd (spend childGas (f_meter f)), f_state := s3\<rparr>))"

text \<open>After a native contract: refund, and either roll back and push 0, or deliver the output and push 1.\<close>

definition afterPrecompile :: "'s env \<Rightarrow> uint64 \<Rightarrow> nat \<Rightarrow> nat \<Rightarrow> uint64 \<Rightarrow> uint64 \<Rightarrow> 's frame \<Rightarrow>
    (bytes \<times> uint64) outcome \<Rightarrow> 's frame outcome" where
  "afterPrecompile env budget snap logMark outOff outSize f r =
     (case r of
        Next (out, used) \<Rightarrow>
          bindV (writeReturn outOff out outSize (f\<lparr>f_meter := restore (budget - used) (f_meter f), f_returnData := out\<rparr>)) (pushW 1)
      | Fault e (_, used) \<Rightarrow>
          pushW 0 ((undoFrame env snap logMark (f\<lparr>f_meter := restore (budget - used) (f_meter f)\<rparr>))\<lparr>f_returnData := []\<rparr>)
      | Crash m \<Rightarrow> Crash m
      | NoFuel \<Rightarrow> NoFuel)"

text \<open>After a child frame: refund; a fault or a revert rolls back and pushes 0, a success pushes 1.\<close>

definition afterCall :: "'s env \<Rightarrow> uint64 \<Rightarrow> nat \<Rightarrow> nat \<Rightarrow> uint64 \<Rightarrow> uint64 \<Rightarrow> 's frame \<Rightarrow>
    (Result \<times> Log list \<times> 's) outcome \<Rightarrow> 's frame outcome" where
  "afterCall env budget snap logMark outOff outSize f r =
     (case r of
        Next (res, logs, s) \<Rightarrow>
          let f1 = f\<lparr>f_meter := restore (budget - r_EnergyUsed res) (f_meter f), f_logs := logs, f_state := s\<rparr> in
          if r_Err res \<noteq> None then pushW 0 ((undoFrame env snap logMark f1)\<lparr>f_returnData := []\<rparr>)
          else if r_Reverted res then
            bindV (writeReturn outOff (r_Return res) outSize
              ((undoFrame env snap logMark f1)\<lparr>f_returnData := r_Return res\<rparr>)) (pushW 0)
          else bindV (writeReturn outOff (r_Return res) outSize (f1\<lparr>f_returnData := r_Return res\<rparr>)) (pushW 1)
      | Fault e x \<Rightarrow> Fault e f
      | Crash m \<Rightarrow> Crash m
      | NoFuel \<Rightarrow> NoFuel)"

text \<open>A missing value operand (\<open>nil\<close>) is the value zero: neither transfers.\<close>

definition doCall :: "'s runner \<Rightarrow> 's env \<Rightarrow> callKind \<Rightarrow> bytes \<Rightarrow> u256 \<Rightarrow> uint64 \<Rightarrow> bytes \<Rightarrow> uint64 \<Rightarrow> uint64 \<Rightarrow>
    's frame \<Rightarrow> 's frame outcome" where
  "doCall run env kind to value requested args outOff outSize f =
     (if (kind = kindStatic \<or> f_readOnly f) \<and> value \<noteq> 0 then Fault ErrStaticStateChange f
      else
        let (broke, f1) = (if f_depth f \<ge> maxCallDepth then (True, f) else lacksBalance env (c_Self (f_contract f)) value f) in
        if broke then pushW 0 (f1\<lparr>f_returnData := []\<rparr>)
        else
          let logMark = length (f_logs f1);
              (budget, snap, child, f2) = prepareCall env kind to value requested args f1 in
          case lookupPrecompile to (ev_cfg env) (ev_perm env) of
            Some pc \<Rightarrow> afterPrecompile env budget snap logMark outOff outSize f2
              (runPrecompile (ev_lib env) pc args budget (ev_cfg env))
          | None \<Rightarrow> afterCall env budget snap logMark outOff outSize f2
              (run child budget (f_readOnly f \<or> kind = kindStatic) (f_depth f2 + 1) (f_logs f2) (f_state f2)))"

text \<open>\<open>doCreate\<close> likewise: derive the address, reserve energy, mark, create and fund the account.\<close>

definition prepareCreate :: "'s env \<Rightarrow> u256 \<Rightarrow> bytes \<Rightarrow> bytes option \<Rightarrow> 's frame \<Rightarrow> uint64 \<times> nat \<times> Contract \<times> 's frame" where
  "prepareCreate env value initCode salt f =
     (let db = ev_db env; self = c_Self (f_contract f);
          (nonce, s1) = sd_GetNonce db self (f_state f);
          s2 = sd_SetNonce db self (nonce + 1) s1;
          newAddr = (case salt of Some sa \<Rightarrow> create2Address (L_keccak (ev_lib env)) self sa initCode
                     | None \<Rightarrow> createAddress (L_keccak (ev_lib env)) (ev_rootTxID env) nonce);
          available = remaining (f_meter f);
          childGas = callEnergy (ev_cfg env) available available;
          (snap, s3) = sd_Snapshot db s2;
          s4 = sd_CreateAccount db newAddr s3;
          s5 = (if value \<noteq> 0 then sd_AddBalance db newAddr value (sd_SubBalance db self value s4) else s4)
      in (childGas, snap, \<lparr>c_Self = newAddr, c_CodeAddr = newAddr, c_Caller = self, c_Origin = c_Origin (f_contract f),
            c_Value = value, c_Input = [], c_Code = initCode\<rparr>,
          f\<lparr>f_meter := snd (spend childGas (f_meter f)), f_state := s5\<rparr>))"

definition afterCreate :: "'s env \<Rightarrow> uint64 \<Rightarrow> nat \<Rightarrow> nat \<Rightarrow> bytes \<Rightarrow> 's frame \<Rightarrow>
    (Result \<times> Log list \<times> 's) outcome \<Rightarrow> 's frame outcome" where
  "afterCreate env childGas snap logMark newAddr f r =
     (case r of
        Next (res, logs, s) \<Rightarrow>
          let leftover = childGas - r_EnergyUsed res; f1 = f\<lparr>f_logs := logs, f_state := s\<rparr> in
          if r_Err res \<noteq> None \<or> r_Reverted res then
            pushW 0 ((undoFrame env snap logMark f1)
              \<lparr>f_meter := restore leftover (f_meter f1), f_returnData := (if r_Err res \<noteq> None then [] else r_Return res)\<rparr>)
          else
            let deployCost = word_of_nat (length (r_Return res)) * createData in
            if deployCost > leftover then pushW 0 ((undoFrame env snap logMark f1)\<lparr>f_returnData := []\<rparr>)
            else pushW (addrWord newAddr) (f1\<lparr>f_meter := restore (leftover - deployCost) (f_meter f1),
                   f_state := sd_SetCode (ev_db env) newAddr (r_Return res) (f_state f1), f_returnData := []\<rparr>)
      | Fault e x \<Rightarrow> Fault e f
      | Crash m \<Rightarrow> Crash m
      | NoFuel \<Rightarrow> NoFuel)"

definition doCreate :: "'s runner \<Rightarrow> 's env \<Rightarrow> u256 \<Rightarrow> bytes \<Rightarrow> bytes option \<Rightarrow> 's frame \<Rightarrow> 's frame outcome" where
  "doCreate run env value initCode salt f =
     (if f_readOnly f then Fault ErrStaticStateChange f
      else
        let (broke, f1) = (if f_depth f \<ge> maxCallDepth then (True, f) else lacksBalance env (c_Self (f_contract f)) value f) in
        if broke then pushW 0 (f1\<lparr>f_returnData := []\<rparr>)
        else
          let logMark = length (f_logs f1);
              (childGas, snap, child, f2) = prepareCreate env value initCode salt f1 in
          afterCreate env childGas snap logMark (c_Self child) f2
            (run child childGas False (f_depth f2 + 1) (f_logs f2) (f_state f2)))"

text \<open>The operands of the call family; \<open>valued\<close> tells whether there is a value operand.\<close>

definition callOp :: "callKind \<Rightarrow> bool \<Rightarrow> 's execFn" where
  "callOp kind valued run env f =
     popF f (\<lambda>gasW f1. popF f1 (\<lambda>addrW f2.
       let (value, f3) = (if valued then popF f2 Pair else (0, f2)) in
       popF f3 (\<lambda>inOff f4. popF f4 (\<lambda>inSize f5. popF f5 (\<lambda>outOff f6. popF f6 (\<lambda>outSize f7.
         memGetF (u_Uint64 inOff) (u_Uint64 inSize) f7 (\<lambda>args f8.
           doCall run env kind (wordToAddr addrW) value (clampU64 gasW) args (u_Uint64 outOff) (u_Uint64 outSize) f8)))))))"

definition opCall :: "'s execFn" where "opCall = callOp kindCall True"
definition opCallcode :: "'s execFn" where "opCallcode = callOp kindCallCode True"
definition opDelegatecall :: "'s execFn" where "opDelegatecall = callOp kindDelegate False"
definition opStaticcall :: "'s execFn" where "opStaticcall = callOp kindStatic False"

definition opCreate :: "'s execFn" where
  "opCreate run env f = popF f (\<lambda>value f1. popF f1 (\<lambda>inOff f2. popF f2 (\<lambda>inSize f3.
     memGetF (u_Uint64 inOff) (u_Uint64 inSize) f3 (\<lambda>initCode f4. doCreate run env value initCode None f4))))"

definition opCreate2 :: "'s execFn" where
  "opCreate2 run env f = popF f (\<lambda>value f1. popF f1 (\<lambda>inOff f2. popF f2 (\<lambda>inSize f3. popF f3 (\<lambda>salt f4.
     memGetF (u_Uint64 inOff) (u_Uint64 inSize) f4 (\<lambda>initCode f5. doCreate run env value initCode (Some (Bytes32 salt)) f5)))))"

section \<open>The jump table\<close>

record 's operation =
  o_exec :: "'s execFn"
  o_gas :: "'s gasFn"
  o_pop :: nat
  o_push :: nat
  o_halts :: bool
  o_jumps :: bool
  o_enabled :: "VMConfig \<Rightarrow> bool"

definition oper :: "'s execFn \<Rightarrow> 's gasFn \<Rightarrow> nat \<Rightarrow> nat \<Rightarrow> 's operation" where
  "oper e g p q = \<lparr>o_exec = e, o_gas = g, o_pop = p, o_push = q, o_halts = False, o_jumps = False, o_enabled = (\<lambda>_. True)\<rparr>"

definition halting :: "'s operation \<Rightarrow> 's operation" where "halting oo = oo\<lparr>o_halts := True\<rparr>"
definition jumping :: "'s operation \<Rightarrow> 's operation" where "jumping oo = oo\<lparr>o_jumps := True\<rparr>"
definition gated :: "(VMConfig \<Rightarrow> bool) \<Rightarrow> 's operation \<Rightarrow> 's operation" where "gated g oo = oo\<lparr>o_enabled := g\<rparr>"

definition gasZero :: uint64 where "gasZero = 0"
definition gasBase :: uint64 where "gasBase = 2"
definition gasVeryLow :: uint64 where "gasVeryLow = 3"
definition gasLow :: uint64 where "gasLow = 5"
definition gasMid :: uint64 where "gasMid = 8"
definition gasHigh :: uint64 where "gasHigh = 10"
definition gasSLOAD :: uint64 where "gasSLOAD = 50"

definition arithTable :: "(nat \<times> 's operation) list" where
  "arithTable = [
     (0x00, halting (oper opStop (constGas gasZero) 0 0)),
     (0x01, oper opAdd (constGas gasVeryLow) 2 1), (0x02, oper opMul (constGas gasLow) 2 1),
     (0x03, oper opSub (constGas gasVeryLow) 2 1), (0x04, oper opDiv (constGas gasLow) 2 1),
     (0x05, oper opSdiv (constGas gasLow) 2 1), (0x06, oper opMod (constGas gasLow) 2 1),
     (0x07, oper opSmod (constGas gasLow) 2 1), (0x08, oper opAddmod (constGas gasMid) 3 1),
     (0x09, oper opMulmod (constGas gasMid) 3 1), (0x0a, oper opExp gasExp 2 1),
     (0x0b, oper opSignextend (constGas gasLow) 2 1),
     (0x10, oper opLt (constGas gasVeryLow) 2 1), (0x11, oper opGt (constGas gasVeryLow) 2 1),
     (0x12, oper opSlt (constGas gasVeryLow) 2 1), (0x13, oper opSgt (constGas gasVeryLow) 2 1),
     (0x14, oper opEq (constGas gasVeryLow) 2 1), (0x15, oper opIszero (constGas gasVeryLow) 1 1),
     (0x16, oper opAnd (constGas gasVeryLow) 2 1), (0x17, oper opOr (constGas gasVeryLow) 2 1),
     (0x18, oper opXor (constGas gasVeryLow) 2 1), (0x19, oper opNot (constGas gasVeryLow) 1 1),
     (0x1a, oper opByte (constGas gasVeryLow) 2 1),
     (0x1b, gated AllowConstantinople (oper opShl (constGas gasVeryLow) 2 1)),
     (0x1c, gated AllowConstantinople (oper opShr (constGas gasVeryLow) 2 1)),
     (0x1d, gated AllowConstantinople (oper opSar (constGas gasVeryLow) 2 1)),
     (0x20, oper opKeccak256 gasKeccak256 2 1)]"

definition envTable :: "(nat \<times> 's operation) list" where
  "envTable = [
     (0x30, oper opAddress (constGas gasBase) 0 1), (0x31, oper opBalance (constGas 20) 1 1),
     (0x32, oper opOrigin (constGas gasBase) 0 1), (0x33, oper opCaller (constGas gasBase) 0 1),
     (0x34, oper opCallvalue (constGas gasBase) 0 1), (0x35, oper opCalldataload (constGas gasVeryLow) 1 1),
     (0x36, oper opCalldatasize (constGas gasBase) 0 1), (0x37, oper opCalldatacopy gasCopy 3 0),
     (0x38, oper opCodesize (constGas gasBase) 0 1), (0x39, oper opCodecopy gasCopy 3 0),
     (0x3a, oper opGasprice (constGas gasBase) 0 1), (0x3b, oper opExtcodesize (constGas 20) 1 1),
     (0x3c, oper opExtcodecopy gasExtcodecopy 4 0), (0x3d, oper opReturndatasize (constGas gasBase) 0 1),
     (0x3e, oper opReturndatacopy gasReturndatacopy 3 0),
     (0x3f, gated AllowConstantinople (oper opExtcodehash (constGas 400) 1 1)),
     (0x41, oper opCoinbase (constGas gasBase) 0 1), (0x42, oper opTimestamp (constGas gasBase) 0 1),
     (0x43, oper opNumber (constGas gasBase) 0 1), (0x44, oper opZeroWord (constGas gasBase) 0 1),
     (0x45, oper opZeroWord (constGas gasBase) 0 1), (0x46, gated AllowIstanbul (oper opChainid (constGas gasBase) 0 1)),
     (0x47, gated AllowIstanbul (oper opSelfbalance (constGas gasLow) 0 1))]"

definition flowTable :: "(nat \<times> 's operation) list" where
  "flowTable = [
     (0x50, oper opPop (constGas gasBase) 1 0), (0x51, oper opMload gasMload 1 1),
     (0x52, oper opMstore gasMstore 2 0), (0x53, oper opMstore8 gasMstore8 2 0),
     (0x54, oper opSload (constGas gasSLOAD) 1 1), (0x55, oper opSstore gasSstore 2 0),
     (0x56, jumping (oper opJump (constGas gasMid) 1 0)), (0x57, jumping (oper opJumpi (constGas gasHigh) 2 0)),
     (0x58, oper opPc (constGas gasBase) 0 1), (0x59, oper opMsize (constGas gasBase) 0 1),
     (0x5a, oper opGas (constGas gasBase) 0 1), (0x5b, oper opJumpdest (constGas gasSpecial) 0 0)]"

definition rangeTable :: "(nat \<times> 's operation) list" where
  "rangeTable =
     map (\<lambda>n. (0x60 + n, oper (makePush (n + 1)) (constGas gasVeryLow) 0 1)) [0..<32] @
     map (\<lambda>n. (0x80 + n, oper (makeDup (n + 1)) (constGas gasVeryLow) (n + 1) (n + 2))) [0..<16] @
     map (\<lambda>n. (0x90 + n, oper (makeSwap (n + 1)) (constGas gasVeryLow) (n + 2) (n + 2))) [0..<16] @
     map (\<lambda>n. (0xa0 + n, oper (opLog n) (gasLog n) (2 + n) 0)) [0..<5]"

definition callTable :: "(nat \<times> 's operation) list" where
  "callTable = [
     (0xd1, gated AllowTransferTrc10 (oper opTokenbalance (constGas 20) 2 1)),
     (0xd2, gated AllowTransferTrc10 (oper opCalltokenvalue (constGas gasBase) 0 1)),
     (0xd3, gated AllowTransferTrc10 (oper opCalltokenid (constGas gasBase) 0 1)),
     (0xd4, gated AllowSolidity059 (oper opIscontract (constGas gasBase) 1 1)),
     (0xf0, oper opCreate gasCreate 3 1), (0xf1, oper opCall gasCall 7 1), (0xf2, oper opCallcode gasCallcode 7 1),
     (0xf3, halting (oper opReturn gasReturn 2 0)), (0xf4, oper opDelegatecall gasCallNoValue 6 1),
     (0xf5, gated AllowConstantinople (oper opCreate2 gasCreate2 4 1)), (0xfa, oper opStaticcall gasCallNoValue 6 1),
     (0xfd, halting (oper opRevert gasReturn 2 0)), (0xfe, oper opInvalid (constGas gasZero) 0 0)]"

definition stakingTable :: "(nat \<times> 's operation) list" where
  "stakingTable = map (\<lambda>(k, p, q, g). (k, gated g (oper opStakingDeferred (constGas gasZero) p q))) [
     (0xd5, 3, 1, AllowTvmFreeze), (0xd6, 2, 1, AllowTvmFreeze), (0xd7, 2, 1, AllowTvmFreeze),
     (0xd8, 4, 1, AllowTvmVote), (0xd9, 0, 1, AllowTvmVote),
     (0xda, 2, 1, AllowTvmFreezeV2), (0xdb, 2, 1, AllowTvmFreezeV2), (0xdc, 0, 1, AllowTvmFreezeV2),
     (0xdd, 0, 1, AllowTvmFreezeV2), (0xde, 3, 1, AllowTvmFreezeV2), (0xdf, 3, 1, AllowTvmFreezeV2)]"

definition opTable :: "byte \<Rightarrow> 's operation option" where
  "opTable op = map_of (arithTable @ envTable @ flowTable @ rangeTable @ callTable @ stakingTable) (unat op)"

declare arithTable_def [code_unfold] envTable_def [code_unfold] flowTable_def [code_unfold]
  rangeTable_def [code_unfold] callTable_def [code_unfold] stakingTable_def [code_unfold]

section \<open>The interpreter loop\<close>

definition stepFrame :: "'s runner \<Rightarrow> 's env \<Rightarrow> 's frame \<Rightarrow> 's frame outcome" where
  "stepFrame run env f =
     (case opTable (c_Code (f_contract f) ! f_pc f) of
        None \<Rightarrow> Fault ErrInvalidOpcode f
      | Some oo \<Rightarrow>
          if \<not> o_enabled oo (ev_cfg env) then Fault ErrInvalidOpcode f
          else if length (f_stack f) < o_pop oo then Fault ErrStackUnderflow f
          else if length (f_stack f) - o_pop oo + o_push oo > MaxStack then Fault ErrStackOverflow f
          else case o_gas oo env f of
              Next (cost, f1) \<Rightarrow>
                let (ok, m) = spend cost (f_meter f1); f2 = f1\<lparr>f_meter := m\<rparr> in
                if \<not> ok then Fault ErrOutOfEnergy f2
                else bindV (o_exec oo run env f2) (\<lambda>f3.
                  Next (if \<not> o_jumps oo \<and> \<not> o_halts oo then f3\<lparr>f_pc := f_pc f3 + 1\<rparr> else f3))
            | Fault e (_, f1) \<Rightarrow> Fault e f1
            | Crash m \<Rightarrow> Crash m
            | NoFuel \<Rightarrow> NoFuel)"

definition newFrame :: "Contract \<Rightarrow> uint64 \<Rightarrow> bool \<Rightarrow> nat \<Rightarrow> Log list \<Rightarrow> 's \<Rightarrow> 's frame" where
  "newFrame c limit ro depth logs s =
     \<lparr>f_contract = c, f_stack = [], f_mem = [], f_pc = 0, f_stop = False, f_ret = [], f_reverted = False,
      f_returnData = [], f_meter = newEnergyMeter limit, f_dests = analyzeJumpDests (c_Code c), f_readOnly = ro,
      f_state = s, f_depth = depth, f_logs = logs\<rparr>"

definition failResult :: "'s frame \<Rightarrow> vmError \<Rightarrow> (Result \<times> 's frame) outcome" where
  "failResult f e =
     (if f_pc f \<ge> length (c_Code (f_contract f)) then Crash ''index out of range''
      else Next (\<lparr>r_Return = [], r_Reverted = False, r_EnergyUsed = em_limit (f_meter f), r_Err = Some e,
        r_FaultPC = int (f_pc f), r_FaultOp = c_Code (f_contract f) ! f_pc f\<rparr>, f))"

definition endResult :: "'s frame \<Rightarrow> Result" where
  "endResult f = \<lparr>r_Return = f_ret f, r_Reverted = f_reverted f, r_EnergyUsed = em_used (f_meter f), r_Err = None,
     r_FaultPC = - 1, r_FaultOp = 0\<rparr>"

fun runFrame :: "nat \<Rightarrow> 's env \<Rightarrow> 's frame \<Rightarrow> (Result \<times> 's frame) outcome" where
  "runFrame 0 env f = NoFuel"
| "runFrame (Suc n) env f =
     (if f_stop f \<or> f_pc f \<ge> length (c_Code (f_contract f)) then Next (endResult f, f)
      else case stepFrame (\<lambda>c limit ro depth logs s.
            case runFrame n env (newFrame c limit ro depth logs s) of
              Next (res, f') \<Rightarrow> Next (res, f_logs f', f_state f')
            | Fault e (res, f') \<Rightarrow> Fault e (res, f_logs f', f_state f')
            | Crash m \<Rightarrow> Crash m
            | NoFuel \<Rightarrow> NoFuel) env f of
          Next f' \<Rightarrow> runFrame n env f'
        | Fault e f' \<Rightarrow> failResult f' e
        | Crash m \<Rightarrow> Crash m
        | NoFuel \<Rightarrow> NoFuel)"

text \<open>\<open>EVM.run\<close> and the entry point \<open>EVM.Execute\<close>.\<close>

definition evm_run :: "nat \<Rightarrow> 's env \<Rightarrow> 's runner" where
  "evm_run n env c limit ro depth logs s =
     (case runFrame n env (newFrame c limit ro depth logs s) of
        Next (res, f') \<Rightarrow> Next (res, f_logs f', f_state f')
      | Fault e (res, f') \<Rightarrow> Fault e (res, f_logs f', f_state f')
      | Crash m \<Rightarrow> Crash m
      | NoFuel \<Rightarrow> NoFuel)"

lemma runFrame_Suc:
  "runFrame (Suc n) env f =
     (if f_stop f \<or> f_pc f \<ge> length (c_Code (f_contract f)) then Next (endResult f, f)
      else case stepFrame (evm_run n env) env f of
          Next f' \<Rightarrow> runFrame n env f'
        | Fault e f' \<Rightarrow> failResult f' e
        | Crash m \<Rightarrow> Crash m
        | NoFuel \<Rightarrow> NoFuel)"
  by (simp add: evm_run_def [abs_def])

declare runFrame.simps(2) [simp del]

definition evm_Execute :: "nat \<Rightarrow> 's env \<Rightarrow> Contract \<Rightarrow> bytes \<Rightarrow> uint64 \<Rightarrow> 's \<Rightarrow> (Result \<times> Log list \<times> 's) outcome" where
  "evm_Execute n env c input limit s = evm_run n env
     (c\<lparr>c_Input := input, c_CodeAddr := (if c_CodeAddr c = [] then c_Self c else c_CodeAddr c)\<rparr>) limit False 0 [] s"

end
