(* ===== verification/Tvm_Props.thy ===== *)
theory Tvm_Props
  imports Tvm_Interp
begin

text \<open>
  Properties of the interpreter: the energy meter is never overdrawn, every frame ends (enough fuel
  gives a result, and more fuel gives the same one), read-only frames leave accounts and logs alone.

  The jump table is finite, so what holds of every operation is checked entry by entry: \<open>tame\<close> and
  \<open>gas_tame\<close> say which parts of a frame executors and energy functions leave alone.
\<close>

section \<open>The energy meter\<close>

definition meter_ok :: "energyMeter \<Rightarrow> bool" where
  "meter_ok m \<longleftrightarrow> em_used m \<le> em_limit m \<and> unat (em_limit m) < 2 ^ 63"

lemma meter_ok_new: "unat l < 2 ^ 63 \<Longrightarrow> meter_ok (newEnergyMeter l)"
  by (simp add: meter_ok_def newEnergyMeter_def)

lemma spend_simps [simp]: "em_limit (snd (spend c m)) = em_limit m"
  by (auto simp: spend_def split: if_splits)

lemma restore_simps [simp]: "em_limit (restore c m) = em_limit m"
  by (simp add: restore_def)

lemma unat_remaining: "em_used m \<le> em_limit m \<Longrightarrow> unat (remaining m) = unat (em_limit m) - unat (em_used m)"
  by (simp add: remaining_def unat_sub)

lemma fst_spend: "fst (spend c m) \<longleftrightarrow> \<not> c > em_limit m - em_used m"
  by (cases "c > em_limit m - em_used m") (simp_all only: spend_def if_True if_False fst_conv simp_thms)

lemma spend_used:
  assumes "em_used m \<le> em_limit m"
  shows "em_used (snd (spend c m)) \<le> em_limit m"
    and "fst (spend c m) \<Longrightarrow> unat (em_used (snd (spend c m))) = unat (em_used m) + unat c"
proof -
  have ul: "unat (em_used m) \<le> unat (em_limit m)" using assms by (simp add: word_le_nat_alt)
  have bound: "unat (em_used m + c) = unat (em_used m) + unat c \<and> unat (em_used m) + unat c \<le> unat (em_limit m)"
    if "c \<le> em_limit m - em_used m"
  proof -
    have c: "unat c \<le> unat (em_limit m) - unat (em_used m)"
      using that assms by (metis unat_sub word_le_nat_alt)
    then have "unat (em_used m) + unat c < 2 ^ LENGTH(64)"
      using ul unsigned_less [of "em_limit m", where 'a = nat] by linarith
    then have "unat (em_used m + c) = unat (em_used m) + unat c" by (metis unat_word_ariths(1) mod_less)
    with c ul show ?thesis by linarith
  qed
  show "em_used (snd (spend c m)) \<le> em_limit m"
  proof (cases "c > em_limit m - em_used m")
    case False
    then have "c \<le> em_limit m - em_used m" by (simp only: not_less)
    from bound [OF this] have le: "em_used m + c \<le> em_limit m" by (simp only: word_le_nat_alt)
    have "spend c m = (True, m\<lparr>em_used := em_used m + c\<rparr>)" using False by (simp only: spend_def if_False)
    then have "em_used (snd (spend c m)) = em_used m + c" by simp
    with le show ?thesis by (simp only:)
  next
    case True
    have "spend c m = (False, m\<lparr>em_used := em_limit m\<rparr>)" using True by (simp only: spend_def if_True)
    then show ?thesis by simp
  qed
  show "unat (em_used (snd (spend c m))) = unat (em_used m) + unat c" if "fst (spend c m)"
  proof -
    have c: "\<not> c > em_limit m - em_used m" using that by (rule fst_spend [THEN iffD1])
    then have "c \<le> em_limit m - em_used m" by (simp only: not_less)
    note b = bound [OF this]
    have "spend c m = (True, m\<lparr>em_used := em_used m + c\<rparr>)" using c by (simp only: spend_def if_False)
    then have "em_used (snd (spend c m)) = em_used m + c" by simp
    with b show ?thesis by (simp only:)
  qed
qed

lemma restore_used: "unat (em_used (restore n m)) = unat (em_used m) - unat n"
  by (auto simp: restore_def unat_sub word_le_nat_alt not_less word_less_nat_alt)

lemma meter_ok_spend: "meter_ok m \<Longrightarrow> meter_ok (snd (spend c m))"
  using spend_used(1) [of m c] by (simp add: meter_ok_def)

lemma meter_ok_restore: "meter_ok m \<Longrightarrow> meter_ok (restore n m)"
  by (auto simp: meter_ok_def word_le_nat_alt restore_used)

section \<open>Tame executors and energy functions\<close>

definition same_frame :: "'s frame \<Rightarrow> 's frame \<Rightarrow> bool" where
  "same_frame f f' \<longleftrightarrow> f_contract f' = f_contract f \<and> f_dests f' = f_dests f \<and> f_readOnly f' = f_readOnly f \<and>
     f_depth f' = f_depth f"

definition outcome_all :: "('a \<Rightarrow> bool) \<Rightarrow> 'a outcome \<Rightarrow> bool" where
  "outcome_all P r = (case r of Next x \<Rightarrow> P x | Fault e x \<Rightarrow> P x | _ \<Rightarrow> True)"

lemma outcome_all_simps [simp]:
  "outcome_all P (Next x) = P x" "outcome_all P (Fault e x) = P x" "outcome_all P (Crash m)" "outcome_all P NoFuel"
  by (simp_all add: outcome_all_def)

lemma outcome_all_bindV: "outcome_all P r \<Longrightarrow> (\<And>x. P x \<Longrightarrow> outcome_all P (k x)) \<Longrightarrow> outcome_all P (bindV r k)"
  by (cases r) simp_all

lemma outcome_all_mono: "outcome_all P r \<Longrightarrow> (\<And>x. P x \<Longrightarrow> Q x) \<Longrightarrow> outcome_all Q r"
  by (cases r) simp_all

definition tame :: "'s execFn \<Rightarrow> bool" where
  "tame e \<longleftrightarrow> (\<forall>run env f. e run env f \<noteq> NoFuel \<and> (\<forall>run'. e run' env f = e run env f) \<and>
     outcome_all (\<lambda>f'. same_frame f f' \<and> f_meter f' = f_meter f) (e run env f))"

lemma tameD:
  assumes "tame e"
  shows "e run env f \<noteq> NoFuel" "e run env f = e run' env f"
    "outcome_all (\<lambda>f'. same_frame f f' \<and> f_meter f' = f_meter f) (e run env f)"
  using assms unfolding tame_def by blast+

definition forward :: "'s execFn \<Rightarrow> bool" where
  "forward e \<longleftrightarrow> (\<forall>run env f f'. e run env f = Next f' \<longrightarrow> f_pc f \<le> f_pc f')"

definition gas_tame :: "'s gasFn \<Rightarrow> bool" where
  "gas_tame g \<longleftrightarrow> (\<forall>env f. g env f \<noteq> NoFuel \<and> outcome_all (\<lambda>(c, f'). \<exists>s. f' = f\<lparr>f_state := s\<rparr>) (g env f))"

lemma gas_tameD:
  assumes "gas_tame g"
  shows "g env f = Next (c, f') \<Longrightarrow> \<exists>s. f' = f\<lparr>f_state := s\<rparr>" "g env f = Fault e (c, f') \<Longrightarrow> \<exists>s. f' = f\<lparr>f_state := s\<rparr>"
    "g env f \<noteq> NoFuel"
  using assms [unfolded gas_tame_def, rule_format, of env f] by auto

lemmas shape_defs = unop_def binop_def ternop_def pushW_def popF_def memGetF_def memSetF_def peekV_def copyOp_def
  stateTop_def jumpTo_def Let_def split_beta

lemma tame_shapes:
  "tame (unop g1)" "tame (binop g2)" "tame (ternop g3)" "forward (unop g1)" "forward (binop g2)" "forward (ternop g3)"
  by (auto simp: tame_def forward_def same_frame_def shape_defs split: list.splits)

lemma tame_pops: "tame opPop" "forward opPop" "tame opSstore" "forward opSstore" "tame opStop" "forward opStop"
  "tame opJumpdest" "forward opJumpdest" "tame opInvalid" "forward opInvalid" "tame opStakingDeferred" "forward opStakingDeferred"
  by (auto simp: tame_def forward_def same_frame_def shape_defs opPop_def opSstore_def opStop_def opJumpdest_def opInvalid_def
      opStakingDeferred_def split: list.splits)


lemmas plain_ops = opAdd_def opMul_def opSub_def opDiv_def opSdiv_def opMod_def opSmod_def opAddmod_def opMulmod_def opExp_def
  opSignextend_def opLt_def opGt_def opSlt_def opSgt_def opEq_def opIszero_def opAnd_def opOr_def opXor_def opNot_def
  opByte_def opShl_def opShr_def opSar_def opTokenbalance_def

lemma tame_push:
  "tame opAddress" "tame opOrigin" "tame opCaller" "tame opCallvalue" "tame opCalldatasize" "tame opCodesize" "tame opGasprice"
  "tame opReturndatasize" "tame opCoinbase" "tame opTimestamp" "tame opNumber" "tame opZeroWord" "tame opChainid" "tame opPc"
  "tame opMsize" "tame opGas" "tame opCalltokenvalue" "tame opCalltokenid" "tame opSelfbalance" "tame (makePush n)"
  by (auto simp: tame_def same_frame_def shape_defs opAddress_def opOrigin_def opCaller_def opCallvalue_def opCalldatasize_def
      opCodesize_def opGasprice_def opReturndatasize_def opCoinbase_def opTimestamp_def opNumber_def opZeroWord_def
      opChainid_def opPc_def opMsize_def opGas_def opCalltokenvalue_def opCalltokenid_def opSelfbalance_def makePush_def
      split: sum.splits)

lemma forward_push:
  "forward opAddress" "forward opOrigin" "forward opCaller" "forward opCallvalue" "forward opCalldatasize" "forward opCodesize"
  "forward opGasprice" "forward opReturndatasize" "forward opCoinbase" "forward opTimestamp" "forward opNumber"
  "forward opZeroWord" "forward opChainid" "forward opPc" "forward opMsize" "forward opGas" "forward opCalltokenvalue"
  "forward opCalltokenid" "forward opSelfbalance" "forward (makePush n)"
  by (auto simp: forward_def shape_defs opAddress_def opOrigin_def opCaller_def opCallvalue_def opCalldatasize_def
      opCodesize_def opGasprice_def opReturndatasize_def opCoinbase_def opTimestamp_def opNumber_def opZeroWord_def
      opChainid_def opPc_def opMsize_def opGas_def opCalltokenvalue_def opCalltokenid_def opSelfbalance_def makePush_def
      split: sum.splits)

lemma tame_state:
  "tame opBalance" "tame opExtcodesize" "tame opExtcodehash" "tame opIscontract" "tame opSload" "tame opCalldataload"
  "forward opBalance" "forward opExtcodesize" "forward opExtcodehash" "forward opIscontract" "forward opSload" "forward opCalldataload"
  "tame (makeDup n)" "tame (makeSwap n)" "forward (makeDup n)" "forward (makeSwap n)"
  by (auto simp: tame_def forward_def same_frame_def shape_defs opBalance_def opExtcodesize_def opExtcodehash_def
      opIscontract_def opSload_def opCalldataload_def makeDup_def makeSwap_def split: option.splits list.splits sum.splits)

lemma tame_memory:
  "tame opKeccak256" "tame opMload" "tame opMstore" "tame opMstore8" "tame opReturn" "tame opRevert" "tame opCalldatacopy"
  "tame opCodecopy" "tame opExtcodecopy" "tame opReturndatacopy"
  by (auto simp: tame_def same_frame_def shape_defs opKeccak256_def opMload_def opMstore_def opMstore8_def opReturn_def
      opRevert_def opCalldatacopy_def opCodecopy_def opExtcodecopy_def opReturndatacopy_def split: option.splits sum.splits)

lemma forward_memory:
  "forward opKeccak256" "forward opMload" "forward opMstore" "forward opMstore8" "forward opReturn" "forward opRevert"
  "forward opCalldatacopy" "forward opCodecopy" "forward opExtcodecopy" "forward opReturndatacopy"
  by (auto simp: forward_def shape_defs opKeccak256_def opMload_def opMstore_def opMstore8_def opReturn_def
      opRevert_def opCalldatacopy_def opCodecopy_def opExtcodecopy_def opReturndatacopy_def split: option.splits sum.splits if_splits)

lemma popTopics_frame:
  "popTopics n f = (ts, f') \<Longrightarrow> \<exists>st. f' = f\<lparr>f_stack := st\<rparr>"
proof (induction n arbitrary: f ts f')
  case 0
  then show ?case by (auto intro: exI [of _ "f_stack f"])
next
  case (Suc n)
  obtain ts1 f1 where r: "popTopics n (f\<lparr>f_stack := snd (stack_pop (f_stack f))\<rparr>) = (ts1, f1)" by force
  with Suc.prems have "f' = f1" by (simp add: popF_def Let_def split_beta)
  with Suc.IH [OF r] show ?case by auto
qed

lemma tame_log: "tame (opLog n)" "forward (opLog n)"
  by (auto simp: tame_def forward_def same_frame_def opLog_def popF_def Let_def memGetF_def split: prod.splits option.splits
      dest!: popTopics_frame)

lemma tame_jumps: "tame opJump" "tame opJumpi"
  by (auto simp: tame_def same_frame_def shape_defs opJump_def opJumpi_def)

lemma frame_self [simp]: "\<exists>s. f = f\<lparr>f_state := s\<rparr>"
  by (rule exI [of _ "f_state f"]) simp

lemma gas_tame_simple:
  "gas_tame (constGas c)" "gas_tame gasMload" "gas_tame gasMstore" "gas_tame gasMstore8" "gas_tame gasKeccak256" "gas_tame gasCopy"
  "gas_tame gasReturn" "gas_tame gasExp" "gas_tame gasExtcodecopy" "gas_tame gasReturndatacopy" "gas_tame gasCallcode"
  "gas_tame gasCallNoValue" "gas_tame gasCreate" "gas_tame gasCreate2" "gas_tame (gasLog n)"
  by (auto simp: gas_tame_def constGas_def gasMload_def gasMstore_def gasMstore8_def gasKeccak256_def gasCopy_def gasReturn_def
      gasExp_def gasExtcodecopy_def gasReturndatacopy_def gasCallcode_def gasCallNoValue_def gasCreate_def gasCreate2_def
      gasLog_def peekV_def liftG_def split: option.splits sum.splits)

lemma gas_tame_state: "gas_tame gasCall" "gas_tame gasSstore"
  by (auto simp: gas_tame_def gasCall_def gasSstore_def peekV_def liftG_def Let_def split_beta
      split: option.splits sum.splits)

section \<open>Nested frames\<close>

text \<open>
  A step uses the runner at most once, with arguments that do not depend on it and a budget below
  \<open>B\<close>, and is out of fuel exactly when the nested run is.
\<close>

definition calls_once :: "nat \<Rightarrow> ('s runner \<Rightarrow> 'a outcome) \<Rightarrow> bool" where
  "calls_once B g \<longleftrightarrow> (\<exists>r. r \<noteq> NoFuel \<and> (\<forall>run. g run = r)) \<or>
     (\<exists>c l ro d lg s k. unat l < B \<and> (\<forall>x. k x = NoFuel \<longleftrightarrow> x = NoFuel) \<and> (\<forall>run. g run = k (run c l ro d lg s)))"

lemma calls_onceI1: "r \<noteq> NoFuel \<Longrightarrow> (\<And>run. g run = r) \<Longrightarrow> calls_once B g"
  unfolding calls_once_def by blast

lemma calls_onceI2:
  "unat l < B \<Longrightarrow> (\<And>x. k x = NoFuel \<longleftrightarrow> x = NoFuel) \<Longrightarrow> (\<And>run. g run = k (run c l ro d lg s)) \<Longrightarrow> calls_once B g"
  unfolding calls_once_def by blast

lemma calls_once_const: "r \<noteq> NoFuel \<Longrightarrow> calls_once B (\<lambda>run. r)"
  by (rule calls_onceI1) simp_all

lemma push_fuel [simp]: "pushW w f \<noteq> NoFuel" "writeReturn oo b os f \<noteq> NoFuel" "bindV (writeReturn oo b os f) (pushW w) \<noteq> NoFuel"
proof -
  show 1: "pushW w f \<noteq> NoFuel" for w :: u256 and f :: "'a frame" by (simp add: pushW_def split: sum.splits)
  show 2: "writeReturn oo b os f \<noteq> NoFuel"
    by (simp add: writeReturn_def memSetF_def Let_def split: option.splits)
  show "bindV (writeReturn oo b os f) (pushW w) \<noteq> NoFuel"
    using 1 2 by (cases "writeReturn oo b os f") auto
qed

lemma callEnergy_le: "callEnergy cfg requested available \<le> available"
proof -
  have "unat (available - available div 64) \<le> unat available"
    by (subst unat_sub) (simp_all add: word_le_nat_alt unat_div)
  then have "(if Forward6364 cfg then available - available div 64 else available) \<le> available"
    by (simp add: word_le_nat_alt)
  then show ?thesis by (auto simp: callEnergy_def Let_def)
qed

text \<open>What a step leaves of a frame, with a predicate on the meter.\<close>

definition post :: "'s frame \<Rightarrow> (energyMeter \<Rightarrow> bool) \<Rightarrow> 's frame \<Rightarrow> bool" where
  "post f0 M f \<longleftrightarrow> same_frame f0 f \<and> f_pc f = f_pc f0 \<and> M (f_meter f)"

lemma post_updates [simp]:
  "post f0 M (f\<lparr>f_stack := st\<rparr>) = post f0 M f" "post f0 M (f\<lparr>f_mem := mm\<rparr>) = post f0 M f"
  "post f0 M (f\<lparr>f_state := s\<rparr>) = post f0 M f" "post f0 M (f\<lparr>f_logs := lg\<rparr>) = post f0 M f"
  "post f0 M (f\<lparr>f_returnData := rd\<rparr>) = post f0 M f" "post f0 M (undoFrame env i j f) = post f0 M f"
  by (simp_all add: post_def same_frame_def undoFrame_def)

lemma post_pushW: "post f0 M f \<Longrightarrow> outcome_all (post f0 M) (pushW w f)"
  by (simp add: pushW_def split: sum.splits)

lemma post_writeReturn: "post f0 M f \<Longrightarrow> outcome_all (post f0 M) (bindV (writeReturn oo b os f) (pushW w))"
  by (intro outcome_all_bindV post_pushW)
    (simp_all add: writeReturn_def memSetF_def Let_def split: option.splits)

definition run_bounded :: "'s runner \<Rightarrow> bool" where
  "run_bounded run \<longleftrightarrow> (\<forall>c l ro d lg s res lg' s'.
     run c l ro d lg s = Next (res, lg', s') \<longrightarrow> unat l < 2 ^ 63 \<longrightarrow> r_EnergyUsed res \<le> l)"

text \<open>The meter after a nested frame: still sound, and at most the stipend richer than before.\<close>

definition after_child :: "nat \<Rightarrow> energyMeter \<Rightarrow> energyMeter \<Rightarrow> bool" where
  "after_child bonus m0 m \<longleftrightarrow> em_limit m = em_limit m0 \<and> meter_ok m \<and> unat (em_used m0) \<le> unat (em_used m) + bonus"

lemma after_child_refl: "meter_ok m \<Longrightarrow> after_child b m m"
  by (simp add: after_child_def)

lemma after_child_restore:
  assumes "meter_ok m" "g \<le> remaining m" "unat n \<le> unat g + bonus"
  shows "after_child bonus m (restore n (snd (spend g m)))"
proof -
  have "fst (spend g m)" using assms(2) by (simp only: fst_spend remaining_def not_less)
  then have "unat (em_used (snd (spend g m))) = unat (em_used m) + unat g"
    using assms(1) spend_used(2) by (simp add: meter_ok_def)
  then show ?thesis
    using assms(1,3) meter_ok_restore [OF meter_ok_spend [OF assms(1)]] by (simp add: after_child_def restore_used)
qed

lemma lacksBalance_frame: "lacksBalance env a v f = (b, f1) \<Longrightarrow> \<exists>s. f1 = f\<lparr>f_state := s\<rparr>"
  by (auto simp: lacksBalance_def split_beta Let_def split: if_splits)

lemma broke_frame:
  "(if f_depth f \<ge> n then (True, f) else lacksBalance env a v f) = (b, f1) \<Longrightarrow> \<exists>s. f1 = f\<lparr>f_state := s\<rparr>"
  by (cases "f_depth f \<ge> n") (auto dest: lacksBalance_frame)

lemma unat_budget:
  assumes "meter_ok m" "g \<le> remaining m"
  shows "unat (g + stipendCall) = unat g + 2300"
proof -
  have "unat g \<le> unat (remaining m)" using assms(2) by (simp add: word_le_nat_alt)
  then have "unat g < 2 ^ 63" using assms(1) unat_remaining [of m] by (auto simp: meter_ok_def)
  then have "unat g + unat stipendCall < 2 ^ LENGTH(64)" by (simp add: stipendCall_def)
  then have "unat (g + stipendCall) = unat g + unat stipendCall" by (metis unat_word_ariths(1) mod_less)
  then show ?thesis by (simp add: stipendCall_def)
qed

definition bonus :: "u256 \<Rightarrow> nat" where "bonus v = (if v = 0 then 0 else 2300)"

lemma after_fuel:
  "afterCall env budget snap lm oo os f x = NoFuel \<longleftrightarrow> x = NoFuel"
  "afterCreate env budget snap lm na f x = NoFuel \<longleftrightarrow> x = NoFuel"
  "afterPrecompile env budget snap lm oo os f y = NoFuel \<longleftrightarrow> y = NoFuel"
  by (auto simp: afterCall_def afterCreate_def afterPrecompile_def Let_def split: outcome.splits prod.splits)

lemma prepareCall_spec:
  assumes "prepareCall env kind to value requested args f = (budget, snap, child, f2)" "meter_ok (f_meter f)"
  shows "\<exists>g s. g \<le> remaining (f_meter f) \<and> unat budget = unat g + bonus value \<and>
    f2 = f\<lparr>f_meter := snd (spend g (f_meter f)), f_state := s\<rparr>"
proof -
  let ?g = "callEnergy (ev_cfg env) requested (remaining (f_meter f))"
  have "unat (?g + stipendCall) = unat ?g + 2300" by (rule unat_budget [OF assms(2) callEnergy_le])
  then show ?thesis
    using assms(1) callEnergy_le [of "ev_cfg env" requested "remaining (f_meter f)"]
    by (intro exI [of _ ?g]) (auto simp: prepareCall_def Let_def split_beta bonus_def)
qed

lemma prepareCreate_spec:
  assumes "prepareCreate env value initCode salt f = (budget, snap, child, f2)"
  shows "\<exists>s. budget \<le> remaining (f_meter f) \<and> f2 = f\<lparr>f_meter := snd (spend budget (f_meter f)), f_state := s\<rparr>"
  using assms callEnergy_le by (auto simp: prepareCreate_def Let_def split_beta)

lemma doCall_once:
  assumes "meter_ok (f_meter f)" "unat (remaining (f_meter f)) + bonus value < B"
  shows "calls_once B (\<lambda>run. doCall run env kind to value requested args outOff outSize f)"
proof -
  obtain broke f1 where bf: "(if f_depth f \<ge> maxCallDepth then (True, f) else lacksBalance env (c_Self (f_contract f)) value f) = (broke, f1)"
    by force
  then have f1: "f_meter f1 = f_meter f" by (auto dest!: broke_frame)
  obtain budget snap child f2 where pc: "prepareCall env kind to value requested args f1 = (budget, snap, child, f2)"
    by (metis prod_cases4)
  obtain g where "g \<le> remaining (f_meter f)" "unat budget = unat g + bonus value"
    using prepareCall_spec [OF pc] f1 assms(1) by auto
  then have b: "unat budget < B" using assms(2) by (simp add: word_le_nat_alt)
  show ?thesis
  proof (cases "lookupPrecompile to (ev_cfg env) (ev_perm env)")
    case None
    show ?thesis
    proof (cases "(kind = kindStatic \<or> f_readOnly f) \<and> value \<noteq> 0 \<or> broke")
      case True
      then show ?thesis unfolding doCall_def bf Let_def prod.case
        by (cases "(kind = kindStatic \<or> f_readOnly f) \<and> value \<noteq> 0")
          (simp_all only: if_True if_False simp_thms calls_once_const push_fuel outcome.distinct)
    next
      case False
      show ?thesis unfolding doCall_def bf using None b False
        by (intro calls_onceI2 [of budget B "afterCall env budget snap (length (f_logs f1)) outOff outSize f2"])
          (auto simp: pc after_fuel)
    qed
  next
    case (Some p)
    show ?thesis unfolding doCall_def bf Some pc Let_def prod.case option.case
      by (rule calls_once_const) (simp add: after_fuel runPrecompile_fuel)
  qed
qed

lemma doCreate_once:
  assumes "unat (remaining (f_meter f)) < B"
  shows "calls_once B (\<lambda>run. doCreate run env value initCode salt f)"
proof -
  obtain broke f1 where bf: "(if f_depth f \<ge> maxCallDepth then (True, f) else lacksBalance env (c_Self (f_contract f)) value f) = (broke, f1)"
    by force
  then have f1: "f_meter f1 = f_meter f" by (auto dest!: broke_frame)
  obtain budget snap child f2 where pc: "prepareCreate env value initCode salt f1 = (budget, snap, child, f2)"
    by (metis prod_cases4)
  have b: "unat budget < B" using prepareCreate_spec [OF pc] f1 assms by (auto simp: word_le_nat_alt)
  show ?thesis
  proof (cases "f_readOnly f \<or> broke")
    case True
    then show ?thesis unfolding doCreate_def bf Let_def prod.case
      by (cases "f_readOnly f") (simp_all add: calls_once_const)
  next
    case False
    show ?thesis unfolding doCreate_def bf using b False
      by (intro calls_onceI2 [of budget B "afterCreate env budget snap (length (f_logs f1)) (c_Self child) f2"])
        (auto simp: pc after_fuel)
  qed
qed

text \<open>The meter after the call or creation.\<close>

lemma restore_0 [simp]: "restore 0 m = m"
  by (simp add: restore_def)

lemma undo_meter:
  "(undoFrame env i j (f\<lparr>f_logs := lg, f_state := s\<rparr>))\<lparr>f_meter := m\<rparr> =
     undoFrame env i j ((f\<lparr>f_meter := m\<rparr>)\<lparr>f_logs := lg, f_state := s\<rparr>)"
  "f\<lparr>f_logs := lg, f_meter := m\<rparr> = (f\<lparr>f_meter := m\<rparr>)\<lparr>f_logs := lg\<rparr>"
  by (simp_all add: undoFrame_def)

lemma leftover_bound:
  assumes "used \<le> budget" shows "unat (budget - used :: uint64) \<le> unat budget"
  using assms by (simp add: unat_sub)

lemma runPrecompile_le:
  "runPrecompile L pc inp budget cfg = Next (out, used) \<Longrightarrow> used \<le> budget"
  "runPrecompile L pc inp budget cfg = Fault e (out, used) \<Longrightarrow> used \<le> budget"
  using runPrecompile_used by fastforce+

lemma doCall_post:
  assumes "meter_ok (f_meter f)" "unat (remaining (f_meter f)) + bonus value < 2 ^ 63" "run_bounded run"
  shows "outcome_all (post f (after_child (bonus value) (f_meter f)))
    (doCall run env kind to value requested args outOff outSize f)"
proof -
  let ?P = "post f (after_child (bonus value) (f_meter f))"
  have self: "?P f" using assms(1) by (simp add: post_def same_frame_def after_child_refl)
  obtain broke f1 where bf: "(if f_depth f \<ge> maxCallDepth then (True, f) else lacksBalance env (c_Self (f_contract f)) value f) = (broke, f1)"
    by force
  then obtain s1 where f1: "f1 = f\<lparr>f_state := s1\<rparr>" using broke_frame by blast
  obtain budget snap child f2 where pc: "prepareCall env kind to value requested args f1 = (budget, snap, child, f2)"
    by (metis prod_cases4)
  obtain g s where g: "g \<le> remaining (f_meter f)" "unat budget = unat g + bonus value"
    "f2 = f\<lparr>f_meter := snd (spend g (f_meter f)), f_state := s\<rparr>"
    using prepareCall_spec [OF pc] assms(1) by (auto simp: f1)
  have b63: "unat budget < 2 ^ 63" using g assms(2) by (simp add: word_le_nat_alt)
  have refund: "?P (f2\<lparr>f_meter := restore (budget - used) (f_meter f2)\<rparr>)" if "used \<le> budget" for used
    using after_child_restore [OF assms(1) g(1)] leftover_bound [OF that] g(2,3)
    by (simp add: post_def same_frame_def)
  then have keep: "?P f2" using refund [of budget] by simp
  have used: "r_EnergyUsed res \<le> budget" if "run c budget ro d lg st = Next (res, lg', st')" for c ro d lg st res lg' st'
    using assms(3) that b63 unfolding run_bounded_def by blast
  show ?thesis
  proof (cases "(kind = kindStatic \<or> f_readOnly f) \<and> value \<noteq> 0 \<or> broke")
    case True
    have "outcome_all ?P (pushW 0 (f1\<lparr>f_returnData := []\<rparr>))" using self by (intro post_pushW) (simp add: f1)
    then show ?thesis using True self unfolding doCall_def bf Let_def prod.case
      by (cases "(kind = kindStatic \<or> f_readOnly f) \<and> value \<noteq> 0") (simp_all only: if_True if_False simp_thms outcome_all_simps)
  next
    case False
    have "outcome_all ?P (afterPrecompile env budget snap (length (f_logs f1)) outOff outSize f2
        (runPrecompile (ev_lib env) p args budget (ev_cfg env)))" for p
      by (auto simp: afterPrecompile_def Let_def split: outcome.splits prod.splits
          intro!: post_pushW post_writeReturn refund dest: runPrecompile_le)
    moreover have "outcome_all ?P (afterCall env budget snap (length (f_logs f1)) outOff outSize f2 (run c budget ro d lg st))" for c ro d lg st
      using keep
      by (auto simp: afterCall_def Let_def split: outcome.splits prod.splits
          intro!: post_pushW post_writeReturn refund dest: used)
    ultimately show ?thesis unfolding doCall_def bf pc Let_def prod.case using False
      by (auto split: option.splits)
  qed
qed

lemma doCreate_post:
  assumes "meter_ok (f_meter f)" "run_bounded run"
  shows "outcome_all (post f (after_child 0 (f_meter f))) (doCreate run env value initCode salt f)"
proof -
  let ?P = "post f (after_child 0 (f_meter f))"
  have self: "?P f" using assms(1) by (simp add: post_def same_frame_def after_child_refl)
  obtain broke f1 where bf: "(if f_depth f \<ge> maxCallDepth then (True, f) else lacksBalance env (c_Self (f_contract f)) value f) = (broke, f1)"
    by force
  then obtain s1 where f1: "f1 = f\<lparr>f_state := s1\<rparr>" using broke_frame by blast
  obtain budget snap child f2 where pc: "prepareCreate env value initCode salt f1 = (budget, snap, child, f2)"
    by (metis prod_cases4)
  obtain s where g: "budget \<le> remaining (f_meter f)" "f2 = f\<lparr>f_meter := snd (spend budget (f_meter f)), f_state := s\<rparr>"
    using prepareCreate_spec [OF pc] by (auto simp: f1)
  have b63: "unat budget < 2 ^ 63"
    using g assms(1) unat_remaining [of "f_meter f"] by (auto simp: word_le_nat_alt meter_ok_def)
  have refund: "?P (f2\<lparr>f_meter := restore n (f_meter f2)\<rparr>)" if "unat n \<le> unat budget" for n
    using after_child_restore [OF assms(1) g(1)] that g(2) by (simp add: post_def same_frame_def)
  then have keep: "?P f2" using refund [of 0] by simp
  have used: "r_EnergyUsed res \<le> budget" if "run c budget ro d lg st = Next (res, lg', st')" for c ro d lg st res lg' st'
    using assms(2) that b63 unfolding run_bounded_def by blast
  show ?thesis
  proof (cases "f_readOnly f \<or> broke")
    case True
    have "outcome_all ?P (pushW 0 (f1\<lparr>f_returnData := []\<rparr>))" using self by (intro post_pushW) (simp add: f1)
    then show ?thesis using True self unfolding doCreate_def bf Let_def prod.case by (cases "f_readOnly f") simp_all
  next
    case False
    have le: "unat (budget - u) \<le> unat budget" "\<not> budget - u < d \<Longrightarrow> unat (budget - u - d) \<le> unat budget" if "u \<le> budget" for u d
      using leftover_bound [OF that] leftover_bound [of d "budget - u"] by (auto simp: not_less)
    have "outcome_all ?P (afterCreate env budget snap (length (f_logs f1)) a f2 (run c budget ro d lg st))" for a c ro d lg st
      using keep
      by (auto simp: afterCreate_def Let_def undo_meter split: outcome.splits prod.splits
          intro!: post_pushW refund le dest: used)
    then show ?thesis unfolding doCreate_def bf pc Let_def prod.case using False by auto
  qed
qed

section \<open>What nested operations cost\<close>

lemma unat_memCostWords:
  assumes "unat ws \<le> 98304"
  shows "unat (memCostWords ws) = 3 * unat ws + unat ws * unat ws div 512"
proof -
  let ?n = "unat ws"
  have sq: "?n * ?n \<le> 98304 * 98304" using assms by (intro mult_le_mono)
  then have "unat (ws * ws) = ?n * ?n" by (simp add: unat_word_ariths)
  then have d: "unat (ws * ws div 512) = ?n * ?n div 512" by (simp add: unat_div)
  have t: "unat (3 * ws) = 3 * ?n" using assms by (simp add: unat_word_ariths)
  have "?n * ?n div 512 \<le> 98304 * 98304 div 512" using sq by (rule div_le_mono)
  then show ?thesis using assms by (simp add: memCostWords_def unat_word_ariths d t)
qed

lemma memExpandCost_bound:
  assumes "memExpandCost m n = Inr c" shows "unat c \<le> 19169280"
proof (cases "n = 0 \<or> wordsForBytes n * 32 \<le> word_of_nat (length m)")
  case True
  then show ?thesis using assms by (auto simp: memExpandCost_def Let_def split: if_splits)
next
  case False
  let ?w = "wordsForBytes n" and ?old = "word_of_nat (length m) :: uint64"
  have lim: "n \<le> memLimit" using assms False by (auto simp: memExpandCost_def not_less split: if_splits)
  then have n: "unat n \<le> 3145728" by (simp add: memLimit_def word_le_nat_alt)
  then have "unat (n + 31) = unat n + 31" by (simp add: unat_word_ariths)
  then have w: "unat ?w = (unat n + 31) div 32" by (simp add: wordsForBytes_def unat_div)
  then have w2: "unat ?w \<le> 98304" using n by simp
  then have w32: "unat (?w * 32) = unat ?w * 32" by (simp add: unat_word_ariths)
  then have "unat (?w * 32 div 32) = unat ?w" by (simp only: unat_div) simp
  then have wd: "?w * 32 div 32 = ?w" by (simp only: word_unat_eq_iff)
  have old: "unat (?old div 32) \<le> unat ?w"
    using False w32 by (auto simp: unat_div word_le_nat_alt not_le intro: less_imp_le less_mult_imp_div_less)
  have mono: "memCostWords (?old div 32) \<le> memCostWords ?w"
    using old w2 by (simp add: word_le_nat_alt unat_memCostWords add_mono div_le_mono mult_le_mono)
  have "c = memCostWords ?w - memCostWords (?old div 32)"
    using assms False lim wd by (auto simp: memExpandCost_def Let_def split: if_splits)
  then have "unat c \<le> unat (memCostWords ?w)" using leftover_bound [OF mono] by simp
  moreover have "unat (memCostWords ?w) \<le> 19169280"
  proof -
    have "unat ?w * unat ?w \<le> 98304 * 98304" using w2 by (intro mult_le_mono)
    then have "unat ?w * unat ?w div 512 \<le> 98304 * 98304 div 512" by (rule div_le_mono)
    then show ?thesis using w2 by (simp add: unat_memCostWords)
  qed
  ultimately show ?thesis by simp
qed

lemma callArgsMem_bound: "callArgsMem m a b c d = Inr x \<Longrightarrow> unat x \<le> 19169280"
  by (auto simp: callArgsMem_def bindS_def split: sum.splits if_splits dest: memExpandCost_bound)

lemma memGrowth_bound: "memGrowth m a b = Inr x \<Longrightarrow> unat x \<le> 19169280"
  by (auto simp: memGrowth_def bindS_def split: sum.splits dest: memExpandCost_bound)

text \<open>An access that passed the memory charge does not wrap and stays below the memory limit.\<close>

lemma memAccessSize_ok:
  assumes "memAccessSize off sz = Inr e"
  shows "sz = 0 \<and> e = 0 \<or> IsUint64 off \<and> IsUint64 sz \<and> unat e = unat off + unat sz"
proof (cases "sz = 0")
  case False
  then have u: "IsUint64 off" "IsUint64 sz" and e: "e = u_Uint64 off + u_Uint64 sz" "\<not> u_Uint64 off + u_Uint64 sz < u_Uint64 off"
    using assms by (auto simp: memAccessSize_def bindS_def toUint64_def split: if_splits)
  then have "unat e = unat (u_Uint64 off) + unat (u_Uint64 sz)" by (simp add: not_less unat_plus_simple)
  with u show ?thesis by (simp add: unat_u_Uint64)
qed (use assms in \<open>simp add: memAccessSize_def\<close>)

lemma memExpandCost_limit: "memExpandCost m n = Inr c \<Longrightarrow> unat n \<le> 3145728"
  by (auto simp: memExpandCost_def memLimit_def word_le_nat_alt not_less split: if_splits)

lemma memGrowth_ok:
  assumes "memGrowth m off sz = Inr x"
  shows "sz = 0 \<or> IsUint64 off \<and> IsUint64 sz \<and> unat off + unat sz \<le> 3145728"
  using assms by (auto simp: memGrowth_def bindS_def split: sum.splits dest!: memAccessSize_ok memExpandCost_limit)

lemma unat_add64: "unat a + unat b < 2 ^ 64 \<Longrightarrow> unat (a + b :: uint64) = unat a + unat b"
  by (simp add: unat_word_ariths)

text \<open>The value operand of a call: the third word of the stack.\<close>

definition callValue :: "bool \<Rightarrow> 's frame \<Rightarrow> u256" where
  "callValue valued f = (if valued then popF f (\<lambda>_ f1. popF f1 (\<lambda>_ f2. popF f2 (\<lambda>v _. v))) else 0)"

lemma callValue_peek: "stack_peek 2 (f_stack f) = Some v \<Longrightarrow> callValue True f = v"
  by (cases "f_stack f" rule: remdups_adj.cases; cases "tl (tl (f_stack f))")
    (auto simp: callValue_def popF_def stack_pop_def stack_peek_def split: if_splits)

definition gas_covers :: "'s gasFn \<Rightarrow> ('s frame \<Rightarrow> nat) \<Rightarrow> bool" where
  "gas_covers g b \<longleftrightarrow> (\<forall>env f c f'. g env f = Next (c, f') \<longrightarrow> b f < unat c)"

lemma gas_covers_call:
  "gas_covers gasCall (\<lambda>f. bonus (callValue True f))" "gas_covers gasCallcode (\<lambda>f. bonus (callValue True f))"
  "gas_covers gasCallNoValue (\<lambda>f. bonus (callValue False f))" "gas_covers gasCreate (\<lambda>_. 0)" "gas_covers gasCreate2 (\<lambda>_. 0)"
proof -
  have add: "unat (40 + x) = 40 + unat x" "unat (40 + x + vtCall) = 9040 + unat x" "unat (40 + x + vtCall + newAcctCall) = 34040 + unat x"
    "unat (createGas + x) = 32000 + unat x" if "unat x \<le> 19169280" for x :: uint64
    using that by (simp_all add: unat_word_ariths vtCall_def newAcctCall_def createGas_def)
  show "gas_covers gasCall (\<lambda>f. bonus (callValue True f))" "gas_covers gasCallcode (\<lambda>f. bonus (callValue True f))"
    by (auto simp: gas_covers_def gasCall_def gasCallcode_def peekV_def liftG_def Let_def split_beta bonus_def add
        split: option.splits sum.splits if_splits dest!: callArgsMem_bound callValue_peek)
  show "gas_covers gasCallNoValue (\<lambda>f. bonus (callValue False f))" "gas_covers gasCreate (\<lambda>_. 0)"
    by (auto simp: gas_covers_def gasCallNoValue_def gasCreate_def peekV_def liftG_def callValue_def bonus_def add
        split: option.splits sum.splits dest!: callArgsMem_bound memGrowth_bound)
  have w: "unat (createGas + x + 6 * wordsForBytes n) > 0"
    if "memGrowth m off sz = Inr x" "toUint64 sz = Inr n" for m off sz x n
  proof -
    have x: "unat x \<le> 19169280" using that(1) by (rule memGrowth_bound)
    have n: "unat n \<le> 3145728"
      using memGrowth_ok [OF that(1)] that(2) by (auto simp: toUint64_def unat_u_Uint64 split: if_splits)
    then have "unat (wordsForBytes n) = (unat n + 31) div 32" by (simp add: wordsForBytes_def unat_div unat_word_ariths)
    then have "unat (wordsForBytes n) \<le> 98304" using n by simp
    then show ?thesis using x by (simp add: unat_word_ariths createGas_def)
  qed
  then show "gas_covers gasCreate2 (\<lambda>_. 0)"
    by (auto simp: gas_covers_def gasCreate2_def peekV_def liftG_def split: option.splits sum.splits)
qed

text \<open>A nesting executor pops its operands, reads memory and hands over to \<open>doCall\<close> or \<open>doCreate\<close>.\<close>

definition nest_ok :: "'s frame \<Rightarrow> nat \<Rightarrow> ('s runner \<Rightarrow> 's frame outcome) \<Rightarrow> bool" where
  "nest_ok f b g \<longleftrightarrow> (\<forall>B. unat (remaining (f_meter f)) + b < B \<longrightarrow> calls_once B g) \<and>
     (\<forall>run. run_bounded run \<longrightarrow> outcome_all (post f (after_child b (f_meter f))) (g run))"

definition nests :: "'s execFn \<Rightarrow> ('s frame \<Rightarrow> nat) \<Rightarrow> bool" where
  "nests e b \<longleftrightarrow> (\<forall>env f. meter_ok (f_meter f) \<longrightarrow> unat (remaining (f_meter f)) + b f < 2 ^ 63 \<longrightarrow>
     nest_ok f (b f) (\<lambda>run. e run env f))"

lemma post_base [simp]: "post (f0\<lparr>f_stack := st\<rparr>) = post f0" "post (f0\<lparr>f_mem := mm\<rparr>) = post f0"
  by (simp_all add: post_def same_frame_def fun_eq_iff)

lemma nest_memGet:
  assumes "\<And>bs m. nest_ok f b (\<lambda>run. k run bs (f1\<lparr>f_mem := m\<rparr>))"
  shows "nest_ok f b (\<lambda>run. memGetF off sz f1 (k run))"
proof (cases "mem_get off sz (f_mem f1)")
  case None
  then show ?thesis by (simp add: nest_ok_def memGetF_def calls_once_const)
next
  case (Some p)
  then show ?thesis using assms by (cases p) (simp add: memGetF_def)
qed

lemma nest_doCall:
  assumes "meter_ok (f_meter f)" "unat (remaining (f_meter f)) + bonus v < 2 ^ 63"
  shows "nest_ok f (bonus v) (\<lambda>run. doCall run env kind to v req args oo os (f\<lparr>f_stack := st, f_mem := m\<rparr>))"
  using assms doCall_once [of "f\<lparr>f_stack := st, f_mem := m\<rparr>"] doCall_post [of "f\<lparr>f_stack := st, f_mem := m\<rparr>"]
  by (simp add: nest_ok_def)

lemma nest_doCreate:
  assumes "meter_ok (f_meter f)"
  shows "nest_ok f 0 (\<lambda>run. doCreate run env v code salt (f\<lparr>f_stack := st, f_mem := m\<rparr>))"
  using assms doCreate_once [of "f\<lparr>f_stack := st, f_mem := m\<rparr>"] doCreate_post [of "f\<lparr>f_stack := st, f_mem := m\<rparr>"]
  by (simp add: nest_ok_def)

lemma nests_callOp: "nests (callOp kind valued) (\<lambda>f. bonus (callValue valued f))"
  by (cases valued) (auto simp: nests_def callOp_def popF_def split_beta Let_def callValue_def intro!: nest_memGet nest_doCall)

lemma nests_create: "nests opCreate (\<lambda>_. 0)" "nests opCreate2 (\<lambda>_. 0)"
  by (auto simp: nests_def opCreate_def opCreate2_def popF_def split_beta Let_def intro!: nest_memGet nest_doCreate)

section \<open>Every entry of the jump table\<close>

definition stops :: "'s execFn \<Rightarrow> bool" where
  "stops e \<longleftrightarrow> (\<forall>run env f f'. e run env f = Next f' \<longrightarrow> f_stop f')"

text \<open>An entry either leaves the meter alone and makes progress, or pays for its nested frame.\<close>

definition op_ok :: "'s operation \<Rightarrow> bool" where
  "op_ok oo \<longleftrightarrow> gas_tame (o_gas oo) \<and>
     (tame (o_exec oo) \<and>
        (\<not> o_jumps oo \<and> \<not> o_halts oo \<and> forward (o_exec oo) \<or> stops (o_exec oo) \<or> gas_covers (o_gas oo) (\<lambda>_. 0)) \<or>
      (\<exists>b. nests (o_exec oo) b \<and> gas_covers (o_gas oo) b \<and> (\<forall>f c s. b (f\<lparr>f_state := s, f_meter := c\<rparr>) = b f)))"

lemma stops_halts: "stops opStop" "stops opReturn" "stops opRevert"
  by (auto simp: stops_def opStop_def opReturn_def opRevert_def shape_defs split: option.splits)

lemma op_ok_oper:
  assumes "gas_tame g" "tame e" "forward e"
  shows "op_ok (oper e g p q)" "op_ok (gated c (oper e g p q))"
  using assms by (simp_all add: op_ok_def oper_def gated_def)

lemma op_ok_halting: "gas_tame g \<Longrightarrow> tame e \<Longrightarrow> stops e \<Longrightarrow> op_ok (halting (oper e g p q))"
  by (simp add: op_ok_def oper_def halting_def)

lemma op_ok_jumping: "tame e \<Longrightarrow> c \<noteq> 0 \<Longrightarrow> op_ok (jumping (oper e (constGas c) p q))"
  using gas_tame_simple(1) by (simp add: op_ok_def oper_def jumping_def gas_covers_def constGas_def unat_gt_0)

lemma op_ok_nests:
  assumes "gas_tame g" "nests e b" "gas_covers g b" "\<And>f c s. b (f\<lparr>f_state := s, f_meter := c\<rparr>) = b f"
  shows "op_ok (oper e g p q)" "op_ok (gated c (oper e g p q))"
  using assms unfolding op_ok_def oper_def gated_def by auto

lemmas tame_all = tame_shapes tame_pops tame_push forward_push tame_state tame_memory forward_memory tame_log tame_jumps
  gas_tame_simple gas_tame_state stops_halts

lemma callValue_update [simp]: "callValue v (f\<lparr>f_state := s, f_meter := c\<rparr>) = callValue v f"
  by (simp add: callValue_def popF_def split_beta Let_def)

lemma op_ok_callOp:
  "gas_tame g \<Longrightarrow> gas_covers g (\<lambda>f. bonus (callValue v f)) \<Longrightarrow> op_ok (oper (callOp k v) g p q)"
  by (rule op_ok_nests [OF _ nests_callOp]) simp_all

lemma op_ok_call: "op_ok (oper opCall gasCall p q)" "op_ok (oper opCallcode gasCallcode p q)"
  "op_ok (oper opDelegatecall gasCallNoValue p q)" "op_ok (oper opStaticcall gasCallNoValue p q)"
  "op_ok (oper opCreate gasCreate p q)" "op_ok (gated c (oper opCreate2 gasCreate2 p q))"
  by (auto simp: opCall_def opCallcode_def opDelegatecall_def opStaticcall_def gas_covers_call nests_create
      intro!: op_ok_callOp tame_all op_ok_nests [where b = "\<lambda>_. 0"])

lemma tables_ok:
  "\<forall>(k, oo) \<in> set arithTable. op_ok oo" "\<forall>(k, oo) \<in> set envTable. op_ok oo" "\<forall>(k, oo) \<in> set flowTable. op_ok oo"
  "\<forall>(k, oo) \<in> set rangeTable. op_ok oo" "\<forall>(k, oo) \<in> set callTable. op_ok oo" "\<forall>(k, oo) \<in> set stakingTable. op_ok oo"
  by (auto simp: arithTable_def envTable_def flowTable_def rangeTable_def callTable_def stakingTable_def plain_ops gasMid_def gasHigh_def
      op_ok_call intro!: op_ok_oper op_ok_halting op_ok_jumping tame_all)

lemma opTable_ok: "opTable op = Some oo \<Longrightarrow> op_ok oo"
  unfolding opTable_def using tables_ok by (fastforce dest: map_of_SomeD)

section \<open>One step\<close>

lemma calls_once_bindV:
  assumes "calls_once B g" "\<And>x. k x \<noteq> NoFuel" shows "calls_once B (\<lambda>run. bindV (g run) k)"
proof -
  have k: "bindV r k = NoFuel \<longleftrightarrow> r = NoFuel" for r using assms(2) by (cases r) auto
  from assms(1) [unfolded calls_once_def] show ?thesis
  proof (elim disjE exE conjE)
    fix r assume "r \<noteq> NoFuel" "\<forall>run. g run = r"
    then show ?thesis by (intro calls_onceI1 [of "bindV r k"]) (simp_all add: k)
  next
    fix c l ro d lg s k' assume "unat l < B" "\<forall>x. k' x = NoFuel \<longleftrightarrow> x = NoFuel" "\<forall>run. g run = k' (run c l ro d lg s)"
    then show ?thesis by (intro calls_onceI2 [of l B "\<lambda>x. bindV (k' x) k"]) (simp_all add: k)
  qed
qed

text \<open>The effect of a step on the meter and the control state, given that nested runs respect their budget.\<close>

definition step_good :: "'s frame \<Rightarrow> 's frame \<Rightarrow> bool" where
  "step_good f f' \<longleftrightarrow> same_frame f f' \<and> meter_ok (f_meter f') \<and> em_limit (f_meter f') = em_limit (f_meter f) \<and>
     unat (em_used (f_meter f)) \<le> unat (em_used (f_meter f'))"

definition progress :: "'s frame \<Rightarrow> 's frame \<Rightarrow> bool" where
  "progress f f' \<longleftrightarrow> unat (em_used (f_meter f)) < unat (em_used (f_meter f')) \<or>
     em_used (f_meter f) = em_used (f_meter f') \<and> (f_stop f' \<or> f_pc f < f_pc f')"

definition advance :: "'s operation \<Rightarrow> 's frame \<Rightarrow> 's frame" where
  "advance oo f = (if \<not> o_jumps oo \<and> \<not> o_halts oo then f\<lparr>f_pc := f_pc f + 1\<rparr> else f)"

lemma advance_simps [simp]: "same_frame f (advance oo f') = same_frame f f'" "f_meter (advance oo f') = f_meter f'"
  "f_stop (advance oo f') = f_stop f'" "f_pc f' \<le> f_pc (advance oo f')" "step_good f (advance oo f') = step_good f f'"
  by (simp_all add: advance_def same_frame_def step_good_def)

lemma exec_tame:
  assumes "tame (o_exec oo)" "meter_ok (f_meter f2)"
  shows "calls_once B (\<lambda>run. o_exec oo run env f2)" "outcome_all (step_good f2) (o_exec oo run env f2)"
proof -
  show "calls_once B (\<lambda>run. o_exec oo run env f2)"
    by (rule calls_onceI1 [OF tameD(1) [OF assms(1)] tameD(2) [OF assms(1)]])
  show "outcome_all (step_good f2) (o_exec oo run env f2)"
    by (rule outcome_all_mono [OF tameD(3) [OF assms(1)]]) (use assms(2) in \<open>simp add: step_good_def\<close>)
qed

lemma exec_nests:
  assumes "nests (o_exec oo) b" "meter_ok (f_meter f2)" "unat (em_used (f_meter f)) + b f2 < unat (em_used (f_meter f2))"
    "em_limit (f_meter f2) = em_limit (f_meter f)" "meter_ok (f_meter f)" "same_frame f f2"
  shows "calls_once (unat (remaining (f_meter f))) (\<lambda>run. o_exec oo run env f2)"
    and "run_bounded run \<Longrightarrow> outcome_all (\<lambda>f'. step_good f f' \<and> unat (em_used (f_meter f)) < unat (em_used (f_meter f')))
       (o_exec oo run env f2)"
proof -
  have le: "em_used (f_meter f) \<le> em_limit (f_meter f)" "em_used (f_meter f2) \<le> em_limit (f_meter f)"
    "unat (em_limit (f_meter f)) < 2 ^ 63" using assms(2,4,5) by (auto simp: meter_ok_def)
  have "unat (remaining (f_meter f2)) + b f2 < unat (remaining (f_meter f))"
    using unat_remaining [of "f_meter f"] unat_remaining [of "f_meter f2"] le assms(3,4) by (simp add: word_le_nat_alt)
  moreover have "unat (remaining (f_meter f)) < 2 ^ 63" using unat_remaining [OF le(1)] le(3) by simp
  ultimately have n: "nest_ok f2 (b f2) (\<lambda>run. o_exec oo run env f2)" and
    lt: "unat (remaining (f_meter f2)) + b f2 < unat (remaining (f_meter f))"
    using assms(1,2) unfolding nests_def by auto
  show "calls_once (unat (remaining (f_meter f))) (\<lambda>run. o_exec oo run env f2)" using n lt by (simp add: nest_ok_def)
  assume "run_bounded run"
  then have "outcome_all (post f2 (after_child (b f2) (f_meter f2))) (o_exec oo run env f2)" using n by (simp add: nest_ok_def)
  then show "outcome_all (\<lambda>f'. step_good f f' \<and> unat (em_used (f_meter f)) < unat (em_used (f_meter f'))) (o_exec oo run env f2)"
    using assms(3,4,6) unfolding outcome_all_def post_def after_child_def step_good_def same_frame_def
    by (auto split: outcome.splits)
qed

text \<open>A step faults or panics before the operation runs, or charges its cost and runs it.\<close>

definition charged :: "uint64 \<Rightarrow> 's \<Rightarrow> 's frame \<Rightarrow> 's frame" where
  "charged c s f = f\<lparr>f_state := s, f_meter := snd (spend c (f_meter f))\<rparr>"

lemma step_shape:
  fixes f :: "'s frame"
  assumes "meter_ok (f_meter f)"
  obtains (fault) e f' where "step_good f f'" "f_pc f' = f_pc f" "\<And>run. stepFrame run env f = Fault e f'"
  | (panic) m where "\<And>run. stepFrame run env f = Crash m"
  | (runs) oo c s where "op_ok oo" "opTable (c_Code (f_contract f) ! f_pc f) = Some oo" "o_pop oo \<le> length (f_stack f)"
      "o_gas oo env f = Next (c, f\<lparr>f_state := s\<rparr>)"
      "fst (spend c (f_meter f))" "\<And>run. stepFrame run env f = bindV (o_exec oo run env (charged c s f)) (\<lambda>f3. Next (advance oo f3))"
proof (cases "opTable (c_Code (f_contract f) ! f_pc f) :: 's operation option")
  case None
  then show ?thesis using assms by (intro fault [of f ErrInvalidOpcode]) (simp_all add: stepFrame_def step_good_def same_frame_def)
next
  case (Some oo)
  have self: "step_good f f" using assms by (simp add: step_good_def same_frame_def)
  have ok: "op_ok oo" using Some by (rule opTable_ok)
  then have g: "gas_tame (o_gas oo)" by (simp add: op_ok_def)
  show ?thesis
  proof (cases "o_enabled oo (ev_cfg env) \<and> o_pop oo \<le> length (f_stack f) \<and> length (f_stack f) - o_pop oo + o_push oo \<le> MaxStack")
    case False
    then show ?thesis using self Some
      by (intro fault [of f "if \<not> o_enabled oo (ev_cfg env) then ErrInvalidOpcode
            else if length (f_stack f) < o_pop oo then ErrStackUnderflow else ErrStackOverflow"]) (auto simp: stepFrame_def)
  next
    case True
    show ?thesis
    proof (cases "o_gas oo env f")
      case (Next p)
      obtain c f1 where p: "p = (c, f1)" by force
      obtain s where s: "f1 = f\<lparr>f_state := s\<rparr>" using gas_tameD(1) [OF g] Next p by blast
      have guards: "o_enabled oo (ev_cfg env)" "\<not> length (f_stack f) < o_pop oo" "\<not> MaxStack < length (f_stack f) - o_pop oo + o_push oo"
        using True unfolding not_less by blast+
      have eq: "stepFrame run env f = (if fst (spend c (f_meter f)) then bindV (o_exec oo run env (charged c s f)) (\<lambda>f3. Next (advance oo f3))
          else Fault ErrOutOfEnergy (charged c s f))" for run
        by (simp add: stepFrame_def Some guards Next p s Let_def split_beta charged_def advance_def)
      show ?thesis
      proof (cases "fst (spend c (f_meter f))")
        case True
        show ?thesis
          by (rule runs [of oo c s]) (use ok Some guards Next p s True eq in simp_all)
      next
        case False
        have "step_good f (charged c s f)"
          using assms spend_used(1) [of "f_meter f" c] False
          by (auto simp: step_good_def same_frame_def charged_def meter_ok_spend spend_def word_le_nat_alt meter_ok_def split: if_splits)
        then show ?thesis
          by (intro fault [of "charged c s f" ErrOutOfEnergy]) (use False eq in \<open>simp_all add: charged_def\<close>)
      qed
    next
      case (Fault e p)
      obtain c f1 where p: "p = (c, f1)" by force
      obtain s where s: "f1 = f\<lparr>f_state := s\<rparr>" using gas_tameD(2) [OF g] Fault p by blast
      then show ?thesis using Some True Fault p self by (intro fault [of f1 e]) (auto simp: stepFrame_def step_good_def same_frame_def)
    next
      case (Crash m)
      then show ?thesis using Some True by (intro panic [of m]) (auto simp: stepFrame_def)
    next
      case NoFuel
      then show ?thesis using gas_tameD(3) [OF g] by blast
    qed
  qed
qed

lemma charged_good:
  assumes "meter_ok (f_meter f)" "fst (spend c (f_meter f))"
  shows "same_frame f (charged c s f)" "meter_ok (f_meter (charged c s f))"
    "em_limit (f_meter (charged c s f)) = em_limit (f_meter f)" "f_pc (charged c s f) = f_pc f"
    "unat (em_used (f_meter (charged c s f))) = unat (em_used (f_meter f)) + unat c"
  using assms spend_used(2) [of "f_meter f" c] by (simp_all add: charged_def same_frame_def meter_ok_spend meter_ok_def [of "f_meter f"])

lemma outcome_all_advance:
  "outcome_all P (bindV r (\<lambda>f3. Next (advance oo f3))) \<longleftrightarrow>
     (case r of Next x \<Rightarrow> P (advance oo x) | Fault e x \<Rightarrow> P x | _ \<Rightarrow> True)"
  by (cases r) simp_all

text \<open>A step keeps the meter sound, never gives energy back, and calls the runner at most once with less energy than it has.\<close>

lemma step_spec:
  assumes "meter_ok (f_meter f)"
  shows "calls_once (unat (remaining (f_meter f))) (\<lambda>run. stepFrame run env f)"
    and "run_bounded run \<Longrightarrow> outcome_all (step_good f) (stepFrame run env f)"
    and "run_bounded run \<Longrightarrow> stepFrame run env f = Next f' \<Longrightarrow> progress f f'"
proof -
  have "calls_once (unat (remaining (f_meter f))) (\<lambda>run. stepFrame run env f) \<and>
    (run_bounded run \<longrightarrow> outcome_all (step_good f) (stepFrame run env f)) \<and>
    (run_bounded run \<longrightarrow> stepFrame run env f = Next f' \<longrightarrow> progress f f')"
    using assms
  proof (cases rule: step_shape [where env = env])
    case (fault e f1)
    then show ?thesis by (simp add: calls_once_const)
  next
    case (panic m)
    then show ?thesis by (simp add: calls_once_const)
  next
    case (runs oo c s)
    let ?f2 = "charged c s f"
    note ch = charged_good [OF assms runs(5), of s]
    have step: "calls_once B (\<lambda>run. stepFrame run env f)" if "calls_once B (\<lambda>run. o_exec oo run env ?f2)" for B
      unfolding runs(6) using that by (intro calls_once_bindV) simp_all
    from runs(1) consider
        (nests) b where "nests (o_exec oo) b" "gas_covers (o_gas oo) b" "\<And>f c s. b (f\<lparr>f_state := s, f_meter := c\<rparr>) = b f"
      | (tame) "tame (o_exec oo)" "\<not> o_jumps oo \<and> \<not> o_halts oo \<and> forward (o_exec oo) \<or> stops (o_exec oo) \<or> gas_covers (o_gas oo) (\<lambda>_. 0)"
      unfolding op_ok_def by blast
    then show ?thesis
    proof cases
      case nests
      have "b ?f2 < unat c" using nests(2,3) runs(4) unfolding gas_covers_def charged_def by metis
      note en = exec_nests [OF nests(1) ch(2) _ ch(3) assms ch(1)]
      from \<open>b ?f2 < unat c\<close> have lt: "unat (em_used (f_meter f)) + b ?f2 < unat (em_used (f_meter ?f2))" using ch(5) by simp
      show ?thesis using step [OF en(1) [OF lt]] en(2) [OF lt, of run env]
        unfolding runs(6) outcome_all_advance
        by (cases "o_exec oo run env ?f2") (auto simp: progress_def)
    next
      case tame
      note ex = exec_tame [OF tame(1) ch(2)]
      have good: "step_good f x" if "step_good ?f2 x" for x
        using that ch by (auto simp: step_good_def same_frame_def)
      have used: "f_meter x = f_meter ?f2" if "o_exec oo run env ?f2 = Next x" for x
        using tameD(3) [OF tame(1), of ?f2 run env] that by simp
      have prog: "progress f (advance oo x)" if x: "o_exec oo run env ?f2 = Next x" for x
      proof (cases "unat c = 0")
        case True
        then have "em_used (f_meter x) = em_used (f_meter f)" using ch(5) used [OF x] by (simp add: word_unat_eq_iff)
        moreover have "\<not> gas_covers (o_gas oo) (\<lambda>_. 0)" using runs(4) True unfolding gas_covers_def by force
        ultimately show ?thesis using tame(2) x ch(4) unfolding progress_def forward_def stops_def
          by (fastforce simp: advance_def)
      next
        case False
        then show ?thesis using ch(5) used [OF x] by (simp add: progress_def)
      qed
      show ?thesis using step [OF ex(1)] ex(2) [of run env] good prog unfolding runs(6) outcome_all_advance
        by (cases "o_exec oo run env ?f2") auto
    qed
  qed
  then show "calls_once (unat (remaining (f_meter f))) (\<lambda>run. stepFrame run env f)"
    and "run_bounded run \<Longrightarrow> outcome_all (step_good f) (stepFrame run env f)"
    and "run_bounded run \<Longrightarrow> stepFrame run env f = Next f' \<Longrightarrow> progress f f'" by blast+
qed

section \<open>Frames\<close>

lemma newFrame_meter [simp]: "f_meter (newFrame c l ro d lg s) = newEnergyMeter l"
  by (simp add: newFrame_def)

lemma limit_new [simp]: "em_limit (newEnergyMeter l) = l" "remaining (newEnergyMeter l) = l"
  by (simp_all add: newEnergyMeter_def remaining_def)

lemma evm_run_bounded:
  assumes "\<And>f res f'. meter_ok (f_meter f) \<Longrightarrow> runFrame n env f = Next (res, f') \<Longrightarrow> r_EnergyUsed res \<le> em_limit (f_meter f)"
  shows "run_bounded (evm_run n env)"
  unfolding run_bounded_def
proof (intro allI impI)
  fix c l ro d lg s res lg' s'
  assume "evm_run n env c l ro d lg s = Next (res, lg', s')" and l: "unat l < 2 ^ 63"
  then obtain f1 where "runFrame n env (newFrame c l ro d lg s) = Next (res, f1)"
    by (auto simp: evm_run_def split: outcome.splits prod.splits)
  from assms [OF _ this] l show "r_EnergyUsed res \<le> l" by (simp add: meter_ok_new)
qed

lemma runFrame_energy:
  assumes "meter_ok (f_meter f)" "runFrame n env f = Next (res, f')"
  shows "r_EnergyUsed res \<le> em_limit (f_meter f) \<and> (r_Err res \<noteq> None \<longrightarrow> r_EnergyUsed res = em_limit (f_meter f))"
  using assms
proof (induction n arbitrary: f res f')
  case (Suc n)
  have bounded: "run_bounded (evm_run n env)" using Suc.IH by (intro evm_run_bounded) blast
  show ?case
  proof (cases "f_stop f \<or> f_pc f \<ge> length (c_Code (f_contract f))")
    case True
    then show ?thesis using Suc.prems by (auto simp: runFrame_Suc endResult_def meter_ok_def)
  next
    case False
    note good = step_spec(2) [OF Suc.prems(1) bounded, of env]
    show ?thesis
    proof (cases "stepFrame (evm_run n env) env f")
      case (Next f1)
      then have "step_good f f1" "runFrame n env f1 = Next (res, f')"
        using good False Suc.prems(2) by (simp_all add: runFrame_Suc)
      then show ?thesis using Suc.IH [of f1] by (auto simp: step_good_def)
    next
      case (Fault e f1)
      then show ?thesis using good False Suc.prems(2)
        by (auto simp: runFrame_Suc failResult_def step_good_def split: if_splits)
    qed (use False Suc.prems(2) in \<open>simp_all add: runFrame_Suc\<close>)
  qed
qed simp

lemma run_bounded_evm: "run_bounded (evm_run n env)"
  using runFrame_energy by (intro evm_run_bounded) blast

text \<open>More fuel gives the same result.\<close>

lemma evm_run_fuel: "evm_run n env c l ro d lg s = NoFuel \<longleftrightarrow> runFrame n env (newFrame c l ro d lg s) = NoFuel"
  by (auto simp: evm_run_def split: outcome.splits prod.splits)

lemma remaining_63: "meter_ok m \<Longrightarrow> unat (remaining m) < 2 ^ 63"
  using unat_remaining [of m] by (auto simp: meter_ok_def)

lemma step_stable:
  assumes "meter_ok (f_meter f)"
    and "\<And>c l ro d lg s. unat l < unat (remaining (f_meter f)) \<Longrightarrow> run1 c l ro d lg s \<noteq> NoFuel \<Longrightarrow> run2 c l ro d lg s = run1 c l ro d lg s"
    and "stepFrame run1 env f \<noteq> NoFuel"
  shows "stepFrame run2 env f = stepFrame run1 env f"
  using step_spec(1) [OF assms(1), of env, unfolded calls_once_def]
proof (elim disjE exE conjE)
  fix c l ro d lg s k
  assume l: "unat l < unat (remaining (f_meter f))" and k: "\<forall>x. k x = NoFuel \<longleftrightarrow> x = NoFuel"
    and eq: "\<forall>run. stepFrame run env f = k (run c l ro d lg s)"
  have "k (run1 c l ro d lg s) \<noteq> NoFuel" using assms(3) eq by simp
  then have "run1 c l ro d lg s \<noteq> NoFuel" using k by blast
  then show ?thesis using assms(2) [OF l] eq by simp
qed simp

lemma runFrame_more_fuel:
  assumes "meter_ok (f_meter f)" "runFrame n env f \<noteq> NoFuel" "n \<le> m"
  shows "runFrame m env f = runFrame n env f"
  using assms
proof (induction n arbitrary: f m)
  case (Suc n)
  obtain m' where m: "m = Suc m'" "n \<le> m'" using Suc.prems(3) by (cases m) auto
  show ?case
  proof (cases "f_stop f \<or> f_pc f \<ge> length (c_Code (f_contract f))")
    case True
    then show ?thesis by (simp add: m runFrame_Suc)
  next
    case False
    have "stepFrame (evm_run n env) env f \<noteq> NoFuel" using Suc.prems(2) False by (auto simp: runFrame_Suc)
    moreover have "evm_run m' env c l ro d lg s = evm_run n env c l ro d lg s"
      if "unat l < unat (remaining (f_meter f))" "evm_run n env c l ro d lg s \<noteq> NoFuel" for c l ro d lg s
    proof -
      have "meter_ok (f_meter (newFrame c l ro d lg s))"
        using that(1) remaining_63 [OF Suc.prems(1)] by (simp add: meter_ok_new)
      from Suc.IH [OF this _ m(2)] that(2) show ?thesis by (simp add: evm_run_fuel) (simp add: evm_run_def)
    qed
    ultimately have eq: "stepFrame (evm_run m' env) env f = stepFrame (evm_run n env) env f"
      by (intro step_stable [OF Suc.prems(1)])
    note good = step_spec(2) [OF Suc.prems(1) run_bounded_evm [of n env], of env]
    show ?thesis
    proof (cases "stepFrame (evm_run n env) env f")
      case (Next f1)
      then have "meter_ok (f_meter f1)" "runFrame n env f1 \<noteq> NoFuel"
        using good Suc.prems(2) False by (auto simp: step_good_def runFrame_Suc)
      from Suc.IH [OF this m(2)] show ?thesis using False Next eq by (simp add: m(1) runFrame_Suc)
    qed (use False eq in \<open>simp_all add: m(1) runFrame_Suc\<close>)
  qed
qed simp

lemma evm_run_more_fuel:
  assumes "unat l < 2 ^ 63" "evm_run n env c l ro d lg s \<noteq> NoFuel" "n \<le> m"
  shows "evm_run m env c l ro d lg s = evm_run n env c l ro d lg s"
proof -
  have "runFrame m env (newFrame c l ro d lg s) = runFrame n env (newFrame c l ro d lg s)"
    using assms by (intro runFrame_more_fuel) (simp_all add: meter_ok_new evm_run_fuel)
  then show ?thesis by (simp add: evm_run_def)
qed

lemma step_more_fuel:
  assumes "meter_ok (f_meter f)" "stepFrame (evm_run n env) env f \<noteq> NoFuel" "n \<le> m"
  shows "stepFrame (evm_run m env) env f = stepFrame (evm_run n env) env f"
  using remaining_63 [OF assms(1)] assms by (intro step_stable evm_run_more_fuel) auto

text \<open>Every frame ends: the energy left, and then the code left, decreases.\<close>

definition frame_rank :: "'s frame \<Rightarrow> nat \<times> nat" where
  "frame_rank f = (unat (remaining (f_meter f)), if f_stop f then 0 else Suc (length (c_Code (f_contract f)) - f_pc f))"

lemma progress_rank:
  assumes "progress f f'" "step_good f f'" "meter_ok (f_meter f)" "\<not> f_stop f" "f_pc f < length (c_Code (f_contract f))"
  shows "(frame_rank f', frame_rank f) \<in> less_than <*lex*> less_than"
proof -
  have r: "unat (remaining (f_meter f)) = unat (em_limit (f_meter f)) - unat (em_used (f_meter f))"
    "unat (remaining (f_meter f')) = unat (em_limit (f_meter f)) - unat (em_used (f_meter f'))"
    "unat (em_used (f_meter f')) \<le> unat (em_limit (f_meter f))"
    using assms(2,3) unat_remaining [of "f_meter f"] unat_remaining [of "f_meter f'"]
    by (auto simp: step_good_def meter_ok_def word_le_nat_alt)
  from assms(1) show ?thesis unfolding progress_def
  proof
    assume "unat (em_used (f_meter f)) < unat (em_used (f_meter f'))"
    then have "unat (remaining (f_meter f')) < unat (remaining (f_meter f))" using r by linarith
    then show ?thesis by (simp add: frame_rank_def)
  next
    assume "em_used (f_meter f) = em_used (f_meter f') \<and> (f_stop f' \<or> f_pc f < f_pc f')"
    then show ?thesis using r assms(2,4,5) by (auto simp: frame_rank_def step_good_def same_frame_def)
  qed
qed

lemma runFrame_ends:
  assumes "meter_ok (f_meter f)"
  shows "\<exists>n. runFrame n env f \<noteq> NoFuel"
  using assms
proof (induction f rule: wf_induct_rule [OF wf_inv_image [OF wf_lex_prod [OF wf_less_than wf_less_than], of frame_rank]])
  case (1 f)
  show ?case
  proof (cases "f_stop f \<or> f_pc f \<ge> length (c_Code (f_contract f))")
    case True
    then have "runFrame 1 env f \<noteq> NoFuel" using runFrame_Suc [of 0 env f] by simp
    then show ?thesis by blast
  next
    case False
    have child: "\<exists>n. \<forall>m \<ge> n. evm_run m env c l ro d lg s \<noteq> NoFuel" if l: "unat l < unat (remaining (f_meter f))" for c l ro d lg s
    proof -
      have ok: "meter_ok (f_meter (newFrame c l ro d lg s))"
        using l remaining_63 [OF 1(2)] by (simp add: meter_ok_new)
      moreover have "(newFrame c l ro d lg s, f) \<in> inv_image (less_than <*lex*> less_than) frame_rank"
        using l by (simp add: frame_rank_def)
      ultimately obtain n where n: "runFrame n env (newFrame c l ro d lg s) \<noteq> NoFuel" using 1(1) by blast
      have "runFrame m env (newFrame c l ro d lg s) \<noteq> NoFuel" if "n \<le> m" for m
        using runFrame_more_fuel [OF ok n that] n by simp
      then show ?thesis unfolding evm_run_fuel by blast
    qed
    have "\<exists>n. \<forall>m \<ge> n. stepFrame (evm_run m env) env f \<noteq> NoFuel"
      using step_spec(1) [OF 1(2), of env, unfolded calls_once_def]
    proof (elim disjE exE conjE)
      fix c l ro d lg s k
      assume "unat l < unat (remaining (f_meter f))" and k: "\<forall>x. k x = NoFuel \<longleftrightarrow> x = NoFuel"
        and eq: "\<forall>run. stepFrame run env f = k (run c l ro d lg s)"
      from child [OF this(1)] obtain n where "\<forall>m \<ge> n. evm_run m env c l ro d lg s \<noteq> NoFuel" by blast
      then have "\<forall>m \<ge> n. k (evm_run m env c l ro d lg s) \<noteq> NoFuel" using k by blast
      then show ?thesis unfolding eq [rule_format] by blast
    qed simp
    then obtain n where n: "\<And>m. n \<le> m \<Longrightarrow> stepFrame (evm_run m env) env f \<noteq> NoFuel" by blast
    show ?thesis
    proof (cases "stepFrame (evm_run n env) env f")
      case (Next f1)
      have good: "step_good f f1" using step_spec(2) [OF 1(2) run_bounded_evm [of n env], of env] Next by simp
      have "progress f f1" using step_spec(3) [OF 1(2) run_bounded_evm [of n env], of env] Next by blast
      then have "(f1, f) \<in> inv_image (less_than <*lex*> less_than) frame_rank"
        using progress_rank [OF _ good 1(2)] False by simp
      then obtain n1 where n1: "runFrame n1 env f1 \<noteq> NoFuel" using 1(1) good unfolding step_good_def by blast
      have "stepFrame (evm_run (max n n1) env) env f = Next f1"
        using step_more_fuel [OF 1(2), of n env "max n n1"] Next by simp
      moreover have "runFrame (max n n1) env f1 = runFrame n1 env f1"
        using good n1 by (intro runFrame_more_fuel) (simp_all add: step_good_def)
      ultimately have "runFrame (Suc (max n n1)) env f = runFrame n1 env f1"
        using False by (simp add: runFrame_Suc)
      then show ?thesis using n1 by metis
    next
      case (Fault e f1)
      then have "runFrame (Suc n) env f \<noteq> NoFuel" using False by (simp add: runFrame_Suc failResult_def)
      then show ?thesis by blast
    next
      case (Crash m)
      then have "runFrame (Suc n) env f \<noteq> NoFuel" using False by (simp add: runFrame_Suc)
      then show ?thesis by blast
    next
      case NoFuel
      then show ?thesis using n by blast
    qed
  qed
qed

section \<open>The entry point\<close>

lemma Execute_alt:
  "evm_Execute n env c input limit s =
     evm_run n env (c\<lparr>c_Input := input, c_CodeAddr := (if c_CodeAddr c = [] then c_Self c else c_CodeAddr c)\<rparr>) limit False 0 [] s"
  by (simp only: evm_Execute_def)

lemma evm_run_Next:
  "evm_run n env c l ro d lg s = Next (res, lg', s') \<longleftrightarrow>
     (\<exists>f'. runFrame n env (newFrame c l ro d lg s) = Next (res, f') \<and> lg' = f_logs f' \<and> s' = f_state f')"
  by (auto simp: evm_run_def split: outcome.splits prod.splits)

text \<open>
  C10: A transaction's message frame, nested frames included, never uses more than its energy
  limit, and a VM exception uses exactly the whole limit.
\<close>

theorem Execute_energy:
  assumes "unat limit < 2 ^ 63" "evm_Execute n env c input limit s = Next (res, logs, s')"
  shows "r_EnergyUsed res \<le> limit \<and> (r_Err res \<noteq> None \<longrightarrow> r_EnergyUsed res = limit)"
proof -
  obtain c' f' where "runFrame n env (newFrame c' limit False 0 [] s) = Next (res, f')"
    using assms(2) unfolding Execute_alt evm_run_Next by blast
  from runFrame_energy [OF _ this] assms(1) show ?thesis by (simp add: meter_ok_new)
qed

lemma Execute_ends:
  assumes "unat limit < 2 ^ 63"
  shows "\<exists>n r. r \<noteq> NoFuel \<and> (\<forall>k. evm_Execute (n + k) env c input limit s = r)"
proof -
  define c' where "c' = c\<lparr>c_Input := input, c_CodeAddr := (if c_CodeAddr c = [] then c_Self c else c_CodeAddr c)\<rparr>"
  have "meter_ok (f_meter (newFrame c' limit False 0 [] s))" using assms by (simp add: meter_ok_new)
  from runFrame_ends [OF this] obtain n where n: "evm_run n env c' limit False 0 [] s \<noteq> NoFuel"
    unfolding evm_run_fuel by blast
  have "evm_run (n + k) env c' limit False 0 [] s = evm_run n env c' limit False 0 [] s" for k
    by (rule evm_run_more_fuel [OF assms n]) simp
  with n show ?thesis unfolding Execute_alt c'_def [symmetric] by blast
qed

text \<open>
  C9: Execution of any code with any state always ends: some amount of fuel gives a result, and any
  more fuel gives the same one. The interpreter has no other bound on its steps than energy.
\<close>

theorem Execute_terminates:
  assumes "unat limit < 2 ^ 63"
  shows "\<exists>n r. r \<noteq> NoFuel \<and> (\<forall>k. evm_Execute (n + k) env c input limit s = r)"
  by (rule Execute_ends [OF assms])

section \<open>A sample machine\<close>

text \<open>A machine over the in-memory state, with stand-ins for the third-party functions, used by the witnesses.\<close>

definition sampleLib :: vmlib where
  "sampleLib = \<lparr>L_keccak = (\<lambda>b. Sha256 [b]), L_ripemd160 = (\<lambda>b. take 20 b), L_recover = (\<lambda>_ _. None), L_fpModulus = 0,
     L_g1OnCurve = (\<lambda>_. False), L_g1Add = (\<lambda>p _. p), L_g1Mul = (\<lambda>p _. p), L_g2OnCurve = (\<lambda>_. False),
     L_g2InSubGroup = (\<lambda>_. False), L_pairingCheck = (\<lambda>_ _. None)\<rparr>"

definition sampleEnv :: "MemStateDB env" where
  "sampleEnv = \<lparr>ev_db = memDB (L_keccak sampleLib), ev_lib = sampleLib,
     ev_block = \<lparr>vb_Number = 1, vb_Timestamp = 0, vb_Coinbase = [], vb_ChainID = None, vb_Version = 35\<rparr>,
     ev_cfg = LatestVMConfig, ev_rootTxID = [], ev_perm = None\<rparr>"

definition sampleContract :: "bytes \<Rightarrow> Contract" where
  "sampleContract code = \<lparr>c_Self = replicate 21 1, c_CodeAddr = [], c_Caller = replicate 21 2, c_Origin = replicate 21 2,
     c_Value = 0, c_Input = [], c_Code = code\<rparr>"

text \<open>\<open>ADD\<close> on an empty stack: the exception uses the whole limit of 500.\<close>

lemma underflow_run:
  "evm_Execute 1 sampleEnv (sampleContract [0x01]) [] 500 NewMemStateDB =
     Next (\<lparr>r_Return = [], r_Reverted = False, r_EnergyUsed = 500, r_Err = Some ErrStackUnderflow, r_FaultPC = 0,
       r_FaultOp = 0x01\<rparr>, [], NewMemStateDB)"
  unfolding One_nat_def
  by (simp add: evm_Execute_def evm_run_def runFrame_Suc stepFrame_def newFrame_def sampleContract_def opTable_def
      arithTable_def oper_def failResult_def newEnergyMeter_def)

theorem Execute_energy_witness:
  "\<exists>res. evm_Execute 1 sampleEnv (sampleContract [0x01]) [] 500 NewMemStateDB = Next (res, [], NewMemStateDB) \<and>
     r_Err res = Some ErrStackUnderflow \<and> r_EnergyUsed res = 500"
  using Execute_energy [OF _ underflow_run] underflow_run by simp

text \<open>The program \<open>JUMPDEST PUSH1 0 JUMP\<close> jumps back forever; it ends by running out of energy.\<close>

theorem Execute_terminates_witness:
  "\<exists>n r. r \<noteq> NoFuel \<and>
     (\<forall>k. evm_Execute (n + k) sampleEnv (sampleContract [0x5b, 0x60, 0, 0x56]) [] 1000 NewMemStateDB = r)"
  by (rule Execute_terminates) simp

end
