(* ===== verification/Tvm_Rollback.thy ===== *)
theory Tvm_Rollback
  imports Tvm_Props
begin

text \<open>
  What frames do to accounts and event logs, over any state that satisfies the contract of the
  locale \<open>state_db\<close>: a frame only adds snapshots and logs, a read-only frame leaves accounts and logs
  alone, and a failed nested call restores both. The results are instantiated on the in-memory state.
\<close>

section \<open>Executors that touch neither state nor logs\<close>

definition quiet :: "'s execFn \<Rightarrow> bool" where
  "quiet e \<longleftrightarrow> (\<forall>run env f. outcome_all (\<lambda>f'. f_state f' = f_state f \<and> f_logs f' = f_logs f) (e run env f))"

lemma quiet_shapes: "quiet (unop g1)" "quiet (binop g2)" "quiet (ternop g3)"
  "quiet opPop" "quiet opStop" "quiet opJumpdest" "quiet opInvalid" "quiet opStakingDeferred" "quiet opJump" "quiet opJumpi"
  "quiet (makeDup n)" "quiet (makeSwap n)" "quiet opCalldataload"
  by (auto simp: quiet_def shape_defs opPop_def opStop_def opJumpdest_def opInvalid_def opStakingDeferred_def opJump_def
      opJumpi_def makeDup_def makeSwap_def opCalldataload_def split: list.splits sum.splits)

lemma quiet_push:
  "quiet opAddress" "quiet opOrigin" "quiet opCaller" "quiet opCallvalue" "quiet opCalldatasize" "quiet opCodesize" "quiet opGasprice"
  "quiet opReturndatasize" "quiet opCoinbase" "quiet opTimestamp" "quiet opNumber" "quiet opZeroWord" "quiet opChainid" "quiet opPc"
  "quiet opMsize" "quiet opGas" "quiet opCalltokenvalue" "quiet opCalltokenid" "quiet (makePush n)"
  by (auto simp: quiet_def shape_defs opAddress_def opOrigin_def opCaller_def opCallvalue_def opCalldatasize_def
      opCodesize_def opGasprice_def opReturndatasize_def opCoinbase_def opTimestamp_def opNumber_def opZeroWord_def
      opChainid_def opPc_def opMsize_def opGas_def opCalltokenvalue_def opCalltokenid_def makePush_def
      split: sum.splits)

lemma quiet_memory:
  "quiet opKeccak256" "quiet opMload" "quiet opMstore" "quiet opMstore8" "quiet opReturn" "quiet opRevert" "quiet opCalldatacopy"
  "quiet opCodecopy" "quiet opReturndatacopy"
  by (auto simp: quiet_def shape_defs opKeccak256_def opMload_def opMstore_def opMstore8_def opReturn_def
      opRevert_def opCalldatacopy_def opCodecopy_def opReturndatacopy_def split: option.splits sum.splits)

lemma popTopics_simps [simp]:
  "f_state (snd (popTopics n f)) = f_state f" "f_logs (snd (popTopics n f)) = f_logs f"
  using popTopics_frame [of n f] by (cases "popTopics n f"; force)+

lemma push_result: "pushW w f = Next f' \<Longrightarrow> hd (f_stack f') = w \<and> f_state f' = f_state f \<and> f_logs f' = f_logs f"
  by (auto simp: pushW_def stack_push_def split: sum.splits if_splits)

lemma write_push_result:
  "bindV (writeReturn oo b os f) (pushW w) = Next f' \<Longrightarrow> hd (f_stack f') = w \<and> f_state f' = f_state f \<and> f_logs f' = f_logs f"
  by (auto simp: writeReturn_def memSetF_def Let_def split: option.splits if_splits dest!: push_result)

lemma push_all: "Q (f_state f) (f_logs f) \<Longrightarrow> outcome_all (\<lambda>f'. Q (f_state f') (f_logs f')) (pushW w f)"
  by (simp add: pushW_def split: sum.splits)

lemma write_push_all:
  "Q (f_state f) (f_logs f) \<Longrightarrow> outcome_all (\<lambda>f'. Q (f_state f') (f_logs f')) (bindV (writeReturn oo b os f) (pushW w))"
  by (intro outcome_all_bindV push_all) (simp_all add: writeReturn_def memSetF_def Let_def split: option.splits)

text \<open>The frame's own mode survives every operation.\<close>

definition keeps_mode :: "'s execFn \<Rightarrow> bool" where
  "keeps_mode e \<longleftrightarrow> (\<forall>run env f. outcome_all (same_frame f) (e run env f))"

lemma mode_tame: "tame e \<Longrightarrow> keeps_mode e"
  unfolding keeps_mode_def by (intro allI, rule outcome_all_mono, erule tameD(3)) simp

lemma post_any [simp]: "post f0 (\<lambda>_. True) (f\<lparr>f_meter := m\<rparr>) = post f0 (\<lambda>_. True) f" "post f (\<lambda>_. True) f"
  by (simp_all add: post_def same_frame_def)

lemma after_mode:
  assumes "post f0 (\<lambda>_. True) f"
  shows "outcome_all (post f0 (\<lambda>_. True)) (afterCall env budget snap lm oo os f r)"
    and "outcome_all (post f0 (\<lambda>_. True)) (afterCreate env budget snap lm na f r)"
    and "outcome_all (post f0 (\<lambda>_. True)) (afterPrecompile env budget snap lm oo os f p)"
  using assms by (auto simp: afterCall_def afterCreate_def afterPrecompile_def Let_def split: outcome.splits prod.splits
      intro!: post_pushW post_writeReturn)

lemma doCall_mode: "outcome_all (post f (\<lambda>_. True)) (doCall run env kind to v req args oo os f)"
proof -
  obtain broke f1 where bf: "(if f_depth f \<ge> maxCallDepth then (True, f) else lacksBalance env (c_Self (f_contract f)) v f) = (broke, f1)"
    by force
  then obtain s where f1: "f1 = f\<lparr>f_state := s\<rparr>" using broke_frame by blast
  obtain budget snap child f2 where pc: "prepareCall env kind to v req args f1 = (budget, snap, child, f2)" by (metis prod_cases4)
  then have f2: "post f (\<lambda>_. True) f2" by (auto simp: prepareCall_def Let_def split_beta f1)
  show ?thesis unfolding doCall_def bf Let_def prod.case pc
    using after_mode [OF f2] post_pushW [of f "\<lambda>_. True" "f1\<lparr>f_returnData := []\<rparr>"] f1 by (simp split: option.split)
qed

lemma doCreate_mode: "outcome_all (post f (\<lambda>_. True)) (doCreate run env v code salt f)"
proof -
  obtain broke f1 where bf: "(if f_depth f \<ge> maxCallDepth then (True, f) else lacksBalance env (c_Self (f_contract f)) v f) = (broke, f1)"
    by force
  then obtain s where f1: "f1 = f\<lparr>f_state := s\<rparr>" using broke_frame by blast
  obtain budget snap child f2 where pc: "prepareCreate env v code salt f1 = (budget, snap, child, f2)" by (metis prod_cases4)
  then have f2: "post f (\<lambda>_. True) f2" by (auto simp: prepareCreate_def Let_def split_beta f1)
  show ?thesis unfolding doCreate_def bf Let_def prod.case pc
    using after_mode [OF f2] post_pushW [of f "\<lambda>_. True" "f1\<lparr>f_returnData := []\<rparr>"] f1 by simp
qed

lemma mode_memGet:
  "(\<And>b m. outcome_all P (k b (f\<lparr>f_mem := m\<rparr>))) \<Longrightarrow> outcome_all P (memGetF off sz f k)"
  by (simp add: memGetF_def split: option.splits prod.splits)

lemma post_same: "outcome_all (post (f\<lparr>f_stack := st, f_mem := m\<rparr>) M) r \<Longrightarrow> outcome_all (same_frame f) r"
  by (erule outcome_all_mono) (simp add: post_def)

lemma mode_call: "keeps_mode (callOp kind valued)"
  using post_same [OF doCall_mode]
  by (auto simp: keeps_mode_def callOp_def popF_def split_beta Let_def intro!: mode_memGet)

lemma mode_create: "keeps_mode opCreate"
  using post_same [OF doCreate_mode]
  by (auto simp: keeps_mode_def opCreate_def popF_def split_beta Let_def intro!: mode_memGet)

lemma mode_create2: "keeps_mode opCreate2"
  using post_same [OF doCreate_mode]
  by (auto simp: keeps_mode_def opCreate2_def popF_def split_beta Let_def intro!: mode_memGet)

lemma mode_oper [simp]:
  "o_exec (oper e g p q) = e" "o_exec (gated c oo) = o_exec oo" "o_exec (halting oo) = o_exec oo" "o_exec (jumping oo) = o_exec oo"
  by (simp_all add: oper_def gated_def halting_def jumping_def)

lemma tables_mode:
  "\<forall>(k, oo) \<in> set arithTable. keeps_mode (o_exec oo)" "\<forall>(k, oo) \<in> set envTable. keeps_mode (o_exec oo)"
  "\<forall>(k, oo) \<in> set flowTable. keeps_mode (o_exec oo)" "\<forall>(k, oo) \<in> set rangeTable. keeps_mode (o_exec oo)"
  "\<forall>(k, oo) \<in> set callTable. keeps_mode (o_exec oo)" "\<forall>(k, oo) \<in> set stakingTable. keeps_mode (o_exec oo)"
  by (auto simp: arithTable_def envTable_def flowTable_def rangeTable_def callTable_def stakingTable_def plain_ops
      opCall_def opCallcode_def opDelegatecall_def opStaticcall_def mode_call mode_create mode_create2 mode_tame tame_all)

lemma opTable_mode: "opTable op = Some oo \<Longrightarrow> keeps_mode (o_exec oo)"
  unfolding opTable_def using tables_mode by (fastforce dest: map_of_SomeD)

lemma step_mode:
  fixes f :: "'s frame"
  shows "outcome_all (same_frame f) (stepFrame run env f)"
proof (cases "opTable (c_Code (f_contract f) ! f_pc f) :: 's operation option")
  case (Some oo)
  have g: "gas_tame (o_gas oo)" using opTable_ok [OF Some] by (simp add: op_ok_def)
  have e: "outcome_all (same_frame f2) (o_exec oo run env f2)" for f2
    using opTable_mode [OF Some] unfolding keeps_mode_def by blast
  show ?thesis
  proof (cases "o_gas oo env f")
    case (Next p)
    obtain c s where p: "p = (c, f\<lparr>f_state := s\<rparr>)" using gas_tameD(1) [OF g] Next by (cases p) blast
    let ?f2 = "f\<lparr>f_state := s, f_meter := snd (spend c (f_meter f))\<rparr>"
    show ?thesis using e [of ?f2] by (cases "o_exec oo run env ?f2") (simp_all add: stepFrame_def Some Next p Let_def split_beta same_frame_def)
  next
    case (Fault x p)
    obtain c s where "p = (c, f\<lparr>f_state := s\<rparr>)" using gas_tameD(2) [OF g] Fault by (cases p) blast
    then show ?thesis by (simp add: stepFrame_def Some Fault same_frame_def)
  qed (simp_all add: stepFrame_def Some same_frame_def)
qed (simp add: stepFrame_def same_frame_def)

section \<open>Evolution of state and logs\<close>

context state_db
begin

definition evolves :: "bool \<Rightarrow> 's \<times> Log list \<Rightarrow> 's \<times> Log list \<Rightarrow> bool" where
  "evolves ro x y \<longleftrightarrow> (\<exists>xs. snaps (fst y) = snaps (fst x) @ xs) \<and> (\<exists>ys. snd y = snd x @ ys) \<and>
     (ro \<longrightarrow> acct (fst y) = acct (fst x) \<and> snd y = snd x)"

abbreviation sl :: "'s frame \<Rightarrow> 's \<times> Log list" where "sl f \<equiv> (f_state f, f_logs f)"

lemma evolves_refl: "evolves ro x x"
  by (simp add: evolves_def)

lemma evolves_trans: "evolves ro x y \<Longrightarrow> evolves ro y z \<Longrightarrow> evolves ro x z"
  unfolding evolves_def by (metis append_assoc)

text \<open>An observation leaves accounts and snapshots alone.\<close>

lemma evolves_same: "acct s' = acct s \<Longrightarrow> snaps s' = snaps s \<Longrightarrow> evolves ro (s, lg) (s', lg)"
  by (simp add: evolves_def)

text \<open>What holds of an executor on every environment over this database, if it holds of nested runs.\<close>

definition run_steady :: "'s runner \<Rightarrow> bool" where
  "run_steady run \<longleftrightarrow> (\<forall>c l ro d lg s res lg' s'. run c l ro d lg s = Next (res, lg', s') \<longrightarrow> evolves ro (s, lg) (s', lg'))"

definition steady :: "'s execFn \<Rightarrow> bool" where
  "steady e \<longleftrightarrow> (\<forall>run env f. run_steady run \<longrightarrow>
     outcome_all (\<lambda>f'. evolves (f_readOnly f) (sl f) (sl f')) (e run (env\<lparr>ev_db := db\<rparr>) f))"

lemma steady_quiet: "quiet e \<Longrightarrow> steady e"
  unfolding steady_def by (intro allI impI, rule outcome_all_mono, erule quiet_def [THEN iffD1, rule_format]) (simp add: evolves_refl)

lemma read_simps [simp]:
  "acct (snd (sd_Exist db a s)) = acct s" "snaps (snd (sd_Exist db a s)) = snaps s"
  "acct (snd (sd_GetBalance db a s)) = acct s" "snaps (snd (sd_GetBalance db a s)) = snaps s"
  "acct (snd (sd_GetNonce db a s)) = acct s" "snaps (snd (sd_GetNonce db a s)) = snaps s"
  "acct (snd (sd_GetCode db a s)) = acct s" "snaps (snd (sd_GetCode db a s)) = snaps s"
  "acct (snd (sd_GetCodeSize db a s)) = acct s" "snaps (snd (sd_GetCodeSize db a s)) = snaps s"
  "acct (snd (sd_GetCodeHash db a s)) = acct s" "snaps (snd (sd_GetCodeHash db a s)) = snaps s"
  "acct (snd (sd_GetStorage db a k s)) = acct s" "snaps (snd (sd_GetStorage db a k s)) = snaps s"
  using Exist [of a s] GetBalance [of a s] GetNonce [of a s] GetCode [of a s] GetCodeSize [of a s] GetCodeHash [of a s]
    GetStorage [of a k s] by (metis prod.collapse)+

lemma steady_reads:
  "steady opBalance" "steady opSelfbalance" "steady opExtcodesize" "steady opExtcodehash" "steady opExtcodecopy" "steady opIscontract"
  "steady opSload"
  by (auto simp: steady_def opBalance_def opSelfbalance_def opExtcodesize_def opExtcodehash_def opExtcodecopy_def opIscontract_def
      opSload_def stateTop_def peekV_def popF_def memSetF_def pushW_def Let_def split_beta
      split: option.splits sum.splits intro!: evolves_same)

lemma steady_writes: "steady opSstore" "steady (opLog n)"
  by (auto simp: steady_def opSstore_def opLog_def popF_def memGetF_def evolves_def write_snaps split_beta Let_def
      split: option.splits)

text \<open>Reverting to the mark of a call undoes everything after it.\<close>

lemma undo_restores:
  assumes "snaps s' = snaps s @ acct s # xs" "lg' = lg @ ys"
  shows "acct (sd_RevertToSnapshot db (length (snaps s)) s') = acct s" "snaps (sd_RevertToSnapshot db (length (snaps s)) s') = snaps s"
    "take (length lg) lg' = lg"
  using Revert [of "length (snaps s)" s'] assms by (simp_all add: nth_append)

lemma snapshot_simps [simp]:
  "fst (sd_Snapshot db s) = length (snaps s)" "acct (snd (sd_Snapshot db s)) = acct s"
  "snaps (snd (sd_Snapshot db s)) = snaps s @ [acct s]"
  using Snapshot [of s] by (metis prod.collapse)+

lemma prepareCall_state:
  assumes "prepareCall (env\<lparr>ev_db := db\<rparr>) kind to v req args f = (budget, snap, child, f2)"
  shows "snap = length (snaps (f_state f))" "snaps (f_state f2) = snaps (f_state f) @ [acct (f_state f)]" "f_logs f2 = f_logs f"
    "v = 0 \<Longrightarrow> acct (f_state f2) = acct (f_state f)"
  using assms by (auto simp: prepareCall_def Let_def split_beta write_snaps)

lemma prepareCreate_state:
  assumes "prepareCreate (env\<lparr>ev_db := db\<rparr>) v code salt f = (budget, snap, child, f2)"
  shows "snap = length (snaps (f_state f))" "\<exists>a. snaps (f_state f2) = snaps (f_state f) @ [a]" "f_logs f2 = f_logs f"
  using assms by (cases "v = 0"; auto simp: prepareCreate_def Let_def split_beta write_snaps)+

lemma broke_state:
  assumes "(if f_depth f \<ge> n then (True, f) else lacksBalance (env\<lparr>ev_db := db\<rparr>) a v f) = (broke, f1)"
  shows "acct (f_state f1) = acct (f_state f)" "snaps (f_state f1) = snaps (f_state f)" "f_logs f1 = f_logs f"
  using assms by (auto simp: lacksBalance_def Let_def split_beta split: if_splits)

lemma doCall_effect:
  fixes env :: "'s env"
  defines "e \<equiv> env\<lparr>ev_db := db\<rparr>"
  assumes "run_steady run"
  shows "outcome_all (\<lambda>f'. evolves (f_readOnly f) (sl f) (sl f')) (doCall run e kind to v req args oo os f)"
    and "doCall run e kind to v req args oo os f = Next f' \<Longrightarrow> hd (f_stack f') = 0 \<Longrightarrow>
      acct (f_state f') = acct (f_state f) \<and> f_logs f' = f_logs f"
proof -
  obtain broke f1 where bf: "(if f_depth f \<ge> maxCallDepth then (True, f) else lacksBalance e (c_Self (f_contract f)) v f) = (broke, f1)"
    by force
  note f1 = broke_state [OF bf [unfolded e_def]]
  obtain budget snap child f2 where pc: "prepareCall e kind to v req args f1 = (budget, snap, child, f2)" by (metis prod_cases4)
  note f2 = prepareCall_state [OF pc [unfolded e_def]]
  let ?Q = "\<lambda>s lg. evolves (f_readOnly f) (sl f) (s, lg)" and ?R = "\<lambda>s lg. acct s = acct (f_state f) \<and> lg = f_logs f"
  have kept: "?Q s lg" if "?R s lg" "snaps s = snaps (f_state f)" for s lg using that by (simp add: evolves_def)
  have q1: "?Q (f_state f1) (f_logs f1)" "?R (f_state f1) (f_logs f1)" using f1 kept by auto
  have undone: "?R (sd_RevertToSnapshot db snap s) (take (length (f_logs f1)) lg)"
      "?Q (sd_RevertToSnapshot db snap s) (take (length (f_logs f1)) lg)"
    if "snaps s = snaps (f_state f2) @ xs" "lg = f_logs f2 @ ys" for s lg xs ys
  proof -
    have "?R (sd_RevertToSnapshot db snap s) (take (length (f_logs f1)) lg) \<and> snaps (sd_RevertToSnapshot db snap s) = snaps (f_state f)"
      using undo_restores [of s "f_state f1" xs lg "f_logs f1" ys] that f1 f2 by simp
    then show "?R (sd_RevertToSnapshot db snap s) (take (length (f_logs f1)) lg)"
      "?Q (sd_RevertToSnapshot db snap s) (take (length (f_logs f1)) lg)" using kept by auto
  qed
  have child: "outcome_all (\<lambda>f'. ?Q (f_state f') (f_logs f')) r \<and> (\<forall>f'. r = Next f' \<longrightarrow> hd (f_stack f') = 0 \<longrightarrow> ?R (f_state f') (f_logs f'))"
    if guard: "\<not> ((kind = kindStatic \<or> f_readOnly f) \<and> v \<noteq> 0)"
      and r: "r = afterPrecompile e budget snap (length (f_logs f1)) oo os f2 (runPrecompile (ev_lib e) p args budget (ev_cfg e)) \<or>
        r = afterCall e budget snap (length (f_logs f1)) oo os f2
          (run child budget (f_readOnly f \<or> kind = kindStatic) (f_depth f2 + 1) (f_logs f2) (f_state f2))" for r p
  proof -
    have q2: "?Q (f_state f2) (f_logs f2)" using f1 f2 guard by (auto simp: evolves_def)
    have edb: "ev_db e = db" by (simp add: e_def)
    from r show ?thesis
    proof
      assume "r = afterPrecompile e budget snap (length (f_logs f1)) oo os f2 (runPrecompile (ev_lib e) p args budget (ev_cfg e))"
      then show ?thesis using q2 undone [of "f_state f2" "[]" "f_logs f2" "[]"]
        by (auto simp: afterPrecompile_def Let_def undoFrame_def edb split: outcome.splits prod.splits
            intro!: push_all write_push_all dest!: push_result write_push_result)
    next
      let ?run = "run child budget (f_readOnly f \<or> kind = kindStatic) (f_depth f2 + 1) (f_logs f2) (f_state f2)"
      assume r: "r = afterCall e budget snap (length (f_logs f1)) oo os f2 ?run"
      show ?thesis
      proof (cases ?run)
        case (Next x)
        obtain res lg s where x: "x = (res, lg, s)" by (metis prod_cases3)
        have ev: "evolves (f_readOnly f \<or> kind = kindStatic) (sl f2) (s, lg)"
          using assms(2) Next x unfolding run_steady_def by blast
        then have q3: "?Q s lg" using evolves_trans [OF q2, of "(s, lg)"] by (auto simp: evolves_def)
        obtain xs ys where "snaps s = snaps (f_state f2) @ xs" "lg = f_logs f2 @ ys" using ev by (auto simp: evolves_def)
        note un = undone [OF this]
        show ?thesis using un q3 Next x r
          by (auto simp: afterCall_def Let_def undoFrame_def edb split: if_splits
              intro!: push_all write_push_all dest!: push_result write_push_result)
      qed (use r q2 in \<open>simp_all add: afterCall_def\<close>)
    qed
  qed
  have all: "outcome_all (\<lambda>f'. ?Q (f_state f') (f_logs f')) (doCall run e kind to v req args oo os f) \<and>
    (\<forall>f'. doCall run e kind to v req args oo os f = Next f' \<longrightarrow> hd (f_stack f') = 0 \<longrightarrow> ?R (f_state f') (f_logs f'))"
  proof (cases "(kind = kindStatic \<or> f_readOnly f) \<and> v \<noteq> 0")
    case True
    then show ?thesis unfolding doCall_def bf by (simp add: evolves_refl)
  next
    case False
    show ?thesis
    proof (cases broke)
      case True
      then show ?thesis using False q1 unfolding doCall_def bf Let_def prod.case if_not_P [OF False]
        by (auto intro!: push_all dest!: push_result)
    next
      case nb: False
      show ?thesis unfolding doCall_def bf pc Let_def prod.case if_not_P [OF False] if_not_P [OF nb]
        by (rule child [OF False, where p = "the (lookupPrecompile to (ev_cfg e) (ev_perm e))"]) (auto split: option.split)
    qed
  qed
  from all show "outcome_all (\<lambda>f'. ?Q (f_state f') (f_logs f')) (doCall run e kind to v req args oo os f)" by (rule conjunct1)
  from all show "?R (f_state f') (f_logs f')" if "doCall run e kind to v req args oo os f = Next f'" "hd (f_stack f') = 0"
    using that by blast
qed

lemma doCreate_effect:
  fixes env :: "'s env"
  defines "e \<equiv> env\<lparr>ev_db := db\<rparr>"
  assumes "run_steady run"
  shows "outcome_all (\<lambda>f'. evolves (f_readOnly f) (sl f) (sl f')) (doCreate run e v code salt f)"
proof (cases "f_readOnly f")
  case True
  then show ?thesis by (simp add: doCreate_def evolves_refl)
next
  case False
  obtain broke f1 where bf: "(if f_depth f \<ge> maxCallDepth then (True, f) else lacksBalance e (c_Self (f_contract f)) v f) = (broke, f1)"
    by force
  note f1 = broke_state [OF bf [unfolded e_def]]
  obtain budget snap child f2 where pc: "prepareCreate e v code salt f1 = (budget, snap, child, f2)" by (metis prod_cases4)
  obtain a where f2: "snap = length (snaps (f_state f))" "snaps (f_state f2) = snaps (f_state f) @ [a]" "f_logs f2 = f_logs f"
    using prepareCreate_state [OF pc [unfolded e_def]] f1 by auto
  let ?Q = "\<lambda>s lg. evolves False (sl f) (s, lg)"
  have q1: "?Q (f_state f1) (f_logs f1)" "?Q (f_state f2) (f_logs f2)" using f1 f2 by (simp_all add: evolves_def)
  have edb: "ev_db e = db" by (simp add: e_def)
  have after: "outcome_all (\<lambda>f'. ?Q (f_state f') (f_logs f')) (afterCreate e budget snap (length (f_logs f1)) na f2 (run child budget ro d (f_logs f2) (f_state f2)))" for na ro d
  proof (cases "run child budget ro d (f_logs f2) (f_state f2)")
    case (Next x)
    obtain res lg s where x: "x = (res, lg, s)" by (metis prod_cases3)
    have "evolves ro (sl f2) (s, lg)" using assms(2) Next x unfolding run_steady_def by blast
    then obtain xs ys where ev: "snaps s = snaps (f_state f) @ a # xs" "lg = f_logs f @ ys" using f2 by (auto simp: evolves_def)
    then have q3: "?Q s lg" "?Q (sd_SetCode db na (r_Return res) s) lg" by (simp_all add: evolves_def write_snaps)
    have "?Q (sd_RevertToSnapshot db snap s) (take (length (f_logs f1)) lg)"
      using Revert [of snap s] ev f1(3) f2(1) by (simp add: evolves_def)
    then show ?thesis using q3 Next x
      by (auto simp: afterCreate_def Let_def undoFrame_def edb split: if_splits intro!: push_all)
  qed (use q1 in \<open>simp_all add: afterCreate_def\<close>)
  show ?thesis unfolding doCreate_def bf Let_def prod.case pc
    using False after push_all [of ?Q "f1\<lparr>f_returnData := []\<rparr>"] q1 by simp
qed

lemma steady_nested: "steady (callOp kind valued)" "steady opCreate" "steady opCreate2"
  using doCall_effect(1) [of _ "f\<lparr>f_stack := st, f_mem := m\<rparr>" for f st m] doCreate_effect [of _ "f\<lparr>f_stack := st, f_mem := m\<rparr>" for f st m]
  by (auto simp: steady_def callOp_def opCreate_def opCreate2_def popF_def split_beta Let_def intro!: mode_memGet)

definition gas_steady :: "'s gasFn \<Rightarrow> bool" where
  "gas_steady g \<longleftrightarrow> (\<forall>env f. outcome_all (\<lambda>(c, f'). evolves (f_readOnly f) (sl f) (sl f')) (g (env\<lparr>ev_db := db\<rparr>) f))"

lemma gas_steady_all:
  "gas_steady (constGas c)" "gas_steady gasMload" "gas_steady gasMstore" "gas_steady gasMstore8" "gas_steady gasKeccak256" "gas_steady gasCopy"
  "gas_steady gasReturn" "gas_steady gasExp" "gas_steady gasExtcodecopy" "gas_steady gasReturndatacopy" "gas_steady gasCallcode"
  "gas_steady gasCallNoValue" "gas_steady gasCreate" "gas_steady gasCreate2" "gas_steady (gasLog n)" "gas_steady gasCall" "gas_steady gasSstore"
  by (auto simp: gas_steady_def constGas_def gasMload_def gasMstore_def gasMstore8_def gasKeccak256_def gasCopy_def gasReturn_def
      gasExp_def gasExtcodecopy_def gasReturndatacopy_def gasCallcode_def gasCallNoValue_def gasCreate_def gasCreate2_def gasCall_def gasSstore_def
      gasLog_def peekV_def liftG_def evolves_refl Let_def split_beta split: option.splits sum.splits intro!: evolves_same)

definition op_steady :: "'s operation \<Rightarrow> bool" where
  "op_steady oo \<longleftrightarrow> steady (o_exec oo) \<and> gas_steady (o_gas oo)"

lemma op_steady_oper:
  assumes "steady e" "gas_steady g"
  shows "op_steady (oper e g p q)" "op_steady (gated c (oper e g p q))" "op_steady (halting (oper e g p q))" "op_steady (jumping (oper e g p q))"
  using assms by (simp_all add: op_steady_def oper_def gated_def halting_def jumping_def)

lemmas steady_all = gas_steady_all steady_reads steady_writes steady_nested

lemma tables_steady:
  "\<forall>(k, oo) \<in> set arithTable. op_steady oo" "\<forall>(k, oo) \<in> set envTable. op_steady oo" "\<forall>(k, oo) \<in> set flowTable. op_steady oo"
  "\<forall>(k, oo) \<in> set rangeTable. op_steady oo" "\<forall>(k, oo) \<in> set callTable. op_steady oo" "\<forall>(k, oo) \<in> set stakingTable. op_steady oo"
  by (auto simp: arithTable_def envTable_def flowTable_def rangeTable_def callTable_def stakingTable_def plain_ops
      opCall_def opCallcode_def opDelegatecall_def opStaticcall_def
      intro!: op_steady_oper steady_all quiet_shapes quiet_push quiet_memory
      intro: steady_quiet)

lemma opTable_steady: "opTable op = Some oo \<Longrightarrow> op_steady oo"
  unfolding opTable_def using tables_steady by (fastforce dest: map_of_SomeD)

section \<open>Frames over the contract\<close>

lemma step_evolves:
  assumes "run_steady run"
  shows "outcome_all (\<lambda>f'. evolves (f_readOnly f) (sl f) (sl f') \<and> f_readOnly f' = f_readOnly f)
    (stepFrame run (env\<lparr>ev_db := db\<rparr>) f)"
proof (cases "opTable (c_Code (f_contract f) ! f_pc f) :: 's operation option")
  case None
  then show ?thesis by (simp add: stepFrame_def evolves_refl)
next
  case (Some oo)
  let ?e = "env\<lparr>ev_db := db\<rparr>"
  have ok: "keeps_mode (o_exec oo)" "steady (o_exec oo)" "gas_steady (o_gas oo)"
    using opTable_steady [OF Some] opTable_mode [OF Some] by (simp_all add: op_steady_def)
  have tame: "gas_tame (o_gas oo)" using opTable_ok [OF Some] by (simp add: op_ok_def)
  have gas: "evolves (f_readOnly f) (sl f) (sl f1) \<and> f_readOnly f1 = f_readOnly f"
    if "o_gas oo ?e f = Next (c, f1) \<or> o_gas oo ?e f = Fault x (c, f1)" for c f1 x
    using ok(3) [unfolded gas_steady_def, rule_format, of f env] gas_tameD(1,2) [OF tame, of ?e f] that by fastforce
  have exec: "outcome_all (\<lambda>f'. evolves (f_readOnly f) (sl f) (sl f') \<and> f_readOnly f' = f_readOnly f) (o_exec oo run ?e f2)"
    if "evolves (f_readOnly f) (sl f) (sl f2)" "f_readOnly f2 = f_readOnly f" for f2
    using ok(1) [unfolded keeps_mode_def, rule_format, of f2 run ?e] ok(2) [unfolded steady_def, rule_format, OF assms, of f2 env]
      evolves_trans [OF that(1)] that(2) by (cases "o_exec oo run ?e f2") (auto simp: same_frame_def)
  show ?thesis
  proof (cases "o_gas oo ?e f")
    case (Next p)
    obtain c f1 where p: "p = (c, f1)" by force
    note g = gas [of c f1] and ex = exec [of "f1\<lparr>f_meter := snd (spend c (f_meter f1))\<rparr>"]
    show ?thesis using Some Next p g ex
      by (cases "o_exec oo run ?e (f1\<lparr>f_meter := snd (spend c (f_meter f1))\<rparr>)")
        (simp_all add: stepFrame_def Let_def split_beta evolves_refl)
  qed (use Some gas in \<open>auto simp: stepFrame_def evolves_refl split: prod.splits\<close>)
qed

lemma runFrame_evolves:
  assumes "runFrame n (env\<lparr>ev_db := db\<rparr>) f = Next (res, f')"
  shows "evolves (f_readOnly f) (sl f) (sl f')"
  using assms
proof (induction n arbitrary: f res f')
  case (Suc n)
  let ?e = "env\<lparr>ev_db := db\<rparr>"
  have "run_steady (evm_run n ?e)"
    unfolding run_steady_def evm_run_Next by (fastforce dest: Suc.IH simp: newFrame_def)
  note st = step_evolves [OF this, of f env]
  show ?case
  proof (cases "f_stop f \<or> f_pc f \<ge> length (c_Code (f_contract f))")
    case True
    then show ?thesis using Suc.prems by (simp add: runFrame_Suc evolves_refl)
  next
    case False
    show ?thesis
    proof (cases "stepFrame (evm_run n ?e) ?e f")
      case (Next f1)
      then have "runFrame n ?e f1 = Next (res, f')" using Suc.prems False by (simp add: runFrame_Suc)
      from Suc.IH [OF this] st Next show ?thesis by (auto intro: evolves_trans)
    next
      case (Fault x f1)
      then show ?thesis using Suc.prems False st by (auto simp: runFrame_Suc failResult_def split: if_splits)
    qed (use Suc.prems False in \<open>simp_all add: runFrame_Suc\<close>)
  qed
qed simp

lemma run_steady_evm: "ev_db env = db \<Longrightarrow> run_steady (evm_run n env)"
  unfolding run_steady_def evm_run_Next using runFrame_evolves [of n env] by (fastforce simp: newFrame_def)

lemma readonly_run:
  assumes "ev_db env = db" "evm_run n env c l True d lg s = Next (res, lg', s')"
  shows "acct s' = acct s \<and> lg' = lg"
  using run_steady_evm [OF assms(1), of n] assms(2) unfolding run_steady_def evolves_def by fastforce

lemma failed_call:
  assumes "ev_db env = db" "doCall (evm_run n env) env kind to v req args oo os f = Next f'" "hd (f_stack f') = 0"
  shows "acct (f_state f') = acct (f_state f) \<and> f_logs f' = f_logs f"
proof -
  have "env\<lparr>ev_db := db\<rparr> = env" using assms(1) by (cases env) simp
  from doCall_effect(2) [OF run_steady_evm [OF assms(1)], of n env, unfolded this] assms(2,3) show ?thesis by blast
qed

end

section \<open>The in-memory state\<close>

lemma mem_accts_inj: "mem_accts m = mem_accts m' \<Longrightarrow> m = m'"
proof (rule fmap_ext)
  fix a assume "mem_accts m = mem_accts m'"
  then have "mem_accts m a = mem_accts m' a" by simp
  then show "fmlookup m a = fmlookup m' a"
    by (auto simp: mem_accts_def abs_account_def noAccount_def fmlookup_inject split: option.splits)
qed

text \<open>
  C12: A read-only frame (the code under a static call), with everything it calls, leaves every
  account and the event log exactly as they were, whatever its code does.
\<close>

theorem static_frame_readonly:
  assumes "ev_db env = memDB keccak" "evm_run n env c limit True depth logs s = Next (res, logs', s')"
  shows "ms_accounts s' = ms_accounts s \<and> logs' = logs"
  using memst.readonly_run [OF assms] mem_accts_inj by blast

text \<open>
  C11: A call that pushes 0 (too deep, too little balance, an exception or a revert in the called
  code, or a failed native contract) leaves every account and the event log as they were before
  it, the value transfer included.
\<close>

theorem failed_call_rolls_back:
  assumes "ev_db env = memDB keccak"
    and "doCall (evm_run n env) env kind to value requested args outOff outSize f = Next f'" "hd (f_stack f') = 0"
  shows "ms_accounts (f_state f') = ms_accounts (f_state f) \<and> f_logs f' = f_logs f"
  using memst.failed_call [OF assms] mem_accts_inj by blast

section \<open>Witnesses\<close>

text \<open>\<open>PUSH1 7 PUSH1 0 SSTORE\<close> in a read-only frame.\<close>

lemma opTable_samples:
  "opTable 0x60 = Some (oper (makePush 1) (constGas gasVeryLow) 0 1)"
  "opTable 0x55 = Some (oper opSstore gasSstore 2 0)"
  "opTable 0x01 = Some (oper opAdd (constGas gasVeryLow) 2 1)"
  by (simp_all add: opTable_def arithTable_def envTable_def flowTable_def rangeTable_def upt_rec)

lemmas sample_run = runFrame_Suc stepFrame_def newFrame_def sampleContract_def opTable_samples oper_def failResult_def endResult_def
  newEnergyMeter_def MaxStack_def constGas_def spend_def peekV_def stack_peek_def u_SetBytes_def

lemma static_store_run:
  "evm_run 3 sampleEnv (sampleContract [0x60, 7, 0x60, 0, 0x55]) 50000 True 1 [] NewMemStateDB =
     Next (\<lparr>r_Return = [], r_Reverted = False, r_EnergyUsed = 50000, r_Err = Some ErrStaticStateChange, r_FaultPC = 4,
       r_FaultOp = 0x55\<rparr>, [], NewMemStateDB)"
  by (simp add: evm_run_def sample_run numeral_3_eq_3 makePush_def pushW_def stack_push_def slice0_def gasVeryLow_def gasSstore_def
      opSstore_def sampleEnv_def memDB_def ms_GetStorage_def ms_get_def NewMemStateDB_def be_to_nat_def Let_def)

theorem static_frame_readonly_witness:
  "\<exists>res. evm_run 3 sampleEnv (sampleContract [0x60, 7, 0x60, 0, 0x55]) 50000 True 1 [] NewMemStateDB = Next (res, [], NewMemStateDB) \<and>
     r_Err res = Some ErrStaticStateChange"
  using static_frame_readonly [OF _ static_store_run] static_store_run by (simp add: sampleEnv_def)

text \<open>A call with value 5 to a contract whose only instruction underflows the stack.\<close>

definition callState :: MemStateDB where
  "callState = NewMemStateDB\<lparr>ms_accounts := fmupd (replicate 21 1) (newAccount\<lparr>ma_balance := 10\<rparr>)
     (fmupd (replicate 21 9) (newAccount\<lparr>ma_code := [0x01]\<rparr>) fmempty)\<rparr>"

definition callFrame :: "MemStateDB frame" where
  "callFrame = newFrame (sampleContract []) 50000 False 0 [] callState"

lemma no_precompile: "lookupPrecompile (replicate 21 9) cfg perm = None"
proof -
  have "hd (precompileAddr v) \<noteq> hd (replicate 21 9)" for v by (simp add: precompileAddr_def addrPrefix_def)
  then have "precompileAddr v \<noteq> replicate 21 9" "replicate 21 9 \<noteq> precompileAddr v" for v by metis+
  then show ?thesis by (simp add: lookupPrecompile_def precompiles_def)
qed

lemma failed_call_run:
  "\<exists>f'. doCall (evm_run 1 sampleEnv) sampleEnv kindCall (replicate 21 9) 5 1000 [] 0 0 callFrame = Next f' \<and> hd (f_stack f') = 0"
  by (simp add: doCall_def callFrame_def lacksBalance_def prepareCall_def afterCall_def evm_run_def sample_run callState_def
      sampleEnv_def memDB_def ms_GetBalance_def ms_get_def no_precompile pushW_def stack_push_def maxCallDepth_def
      ms_Snapshot_def ms_GetCode_def ms_AddBalance_def ms_SubBalance_def ms_modify_def ms_getOrCreate_def childContract_def
      callEnergy_def remaining_def LatestVMConfig_def zero_VMConfig_def newAccount_def NewMemStateDB_def stipendCall_def
      restore_def undoFrame_def Let_def)

theorem failed_call_rolls_back_witness:
  "\<exists>f'. doCall (evm_run 1 sampleEnv) sampleEnv kindCall (replicate 21 9) 5 1000 [] 0 0 callFrame = Next f' \<and>
     ms_accounts (f_state f') = ms_accounts callState \<and> f_logs f' = []"
proof -
  obtain f' where f': "doCall (evm_run 1 sampleEnv) sampleEnv kindCall (replicate 21 9) 5 1000 [] 0 0 callFrame = Next f'"
    "hd (f_stack f') = 0" using failed_call_run by blast
  have "ms_accounts (f_state f') = ms_accounts (f_state callFrame) \<and> f_logs f' = f_logs callFrame"
    by (rule failed_call_rolls_back [OF _ f']) (simp add: sampleEnv_def)
  with f' show ?thesis by (simp add: callFrame_def newFrame_def)
qed

end
