(* ===== verification/Tvm_Safe.thy ===== *)
theory Tvm_Safe
  imports Tvm_Rollback
begin

text \<open>
  The interpreter does not panic: no operation indexes past the stack, slices past the memory or
  looks up a fault position past the code. The one panic left is the allocation in modular
  exponentiation (\<open>modexp_panics\<close>). The invariant is that memory never exceeds its limit; the
  operand count and the memory charge of each entry of the jump table justify its executor.
\<close>

section \<open>Memory within its limit\<close>

definition memMax :: nat where "memMax = 3145728"

lemma wordsForBytes_32:
  assumes "unat n \<le> memMax"
  shows "unat (wordsForBytes n * 32) \<le> memMax" "unat n \<le> unat (wordsForBytes n * 32)"
proof -
  have "unat (n + 31) = unat n + 31" using assms by (simp add: unat_word_ariths memMax_def)
  then have w: "unat (wordsForBytes n) = (unat n + 31) div 32" by (simp add: wordsForBytes_def unat_div)
  then have "unat (wordsForBytes n) \<le> 98304" using assms by (simp add: memMax_def)
  then have "unat (wordsForBytes n * 32) = (unat n + 31) div 32 * 32" using w by (simp add: unat_word_ariths)
  then show "unat (wordsForBytes n * 32) \<le> memMax" "unat n \<le> unat (wordsForBytes n * 32)"
    using assms by (simp_all add: memMax_def)
qed

lemma mem_resize_len:
  assumes "unat n \<le> memMax" "length m \<le> memMax"
  shows "length (mem_resize n m) \<le> memMax" "unat n \<le> length (mem_resize n m)"
proof -
  have l: "unat (word_of_nat (length m) :: uint64) = length m" using assms(2) by (simp add: unat_of_nat memMax_def)
  note w = wordsForBytes_32 [OF assms(1)]
  have "length (mem_resize n m) = max (length m) (unat (wordsForBytes n * 32))"
  proof (cases "word_of_nat (length m) \<ge> wordsForBytes n * 32")
    case True
    then show ?thesis using l by (simp add: mem_resize_def Let_def word_le_nat_alt)
  next
    case False
    then have "unat (wordsForBytes n * 32 - word_of_nat (length m)) = unat (wordsForBytes n * 32) - length m"
      using l by (subst unat_sub) (simp_all add: not_le)
    then show ?thesis using False l by (simp add: mem_resize_def Let_def not_le word_less_nat_alt)
  qed
  then show "length (mem_resize n m) \<le> memMax" "unat n \<le> length (mem_resize n m)" using w assms(2) by simp_all
qed

text \<open>An access charged by the energy function: empty, or inside the limit.\<close>

definition in_mem :: "uint64 \<Rightarrow> nat \<Rightarrow> bool" where
  "in_mem off n \<longleftrightarrow> n = 0 \<or> unat off + n \<le> memMax"

lemma in_mem_add:
  assumes "unat (off :: uint64) + n \<le> memMax" shows "unat (off + word_of_nat n) = unat off + n"
  using assms by (simp add: unat_word_ariths memMax_def unat_of_nat)

lemma mem_get_safe:
  assumes "in_mem off (unat sz)" "length m \<le> memMax"
  shows "\<exists>b m'. mem_get off sz m = Some (b, m') \<and> length m' \<le> memMax"
proof (cases "sz = 0")
  case False
  then have u: "unat (off + sz) = unat off + unat sz" "unat off + unat sz \<le> memMax"
    using assms(1) in_mem_add [of off "unat sz"] by (auto simp: in_mem_def unat_eq_zero)
  then show ?thesis using mem_resize_len [of "off + sz" m] assms(2) False by (simp add: mem_get_def Let_def)
qed (use assms in \<open>simp add: mem_get_def\<close>)

lemma mem_set_safe:
  assumes "in_mem off (length v)" "length m \<le> memMax"
  shows "\<exists>m'. mem_set off v m = Some m' \<and> length m' \<le> memMax"
proof (cases "v = []")
  case False
  then have u: "unat (off + word_of_nat (length v)) = unat off + length v" "unat off + length v \<le> memMax"
    using assms(1) in_mem_add [of off "length v"] by (auto simp: in_mem_def)
  then show ?thesis using mem_resize_len [of "off + word_of_nat (length v)" m] assms(2) False by (simp add: mem_set_def Let_def)
qed (use assms in \<open>simp add: mem_set_def\<close>)

lemma mem_set32_safe:
  assumes "in_mem off 32" "length v = 32" "length m \<le> memMax"
  shows "\<exists>m'. mem_set32 off v m = Some m' \<and> length m' \<le> memMax"
proof -
  have u: "unat (off + 32) = unat off + 32" "unat off + 32 \<le> memMax"
    using assms(1) in_mem_add [of off 32] by (auto simp: in_mem_def)
  then show ?thesis using mem_resize_len [of "off + 32" m] assms(2,3) by (simp add: mem_set32_def Let_def)
qed

lemma u_Uint64_0 [simp]: "u_Uint64 0 = 0"
  by (simp add: u_Uint64_def)

lemma memGrowth_in: "memGrowth m off sz = Inr x \<Longrightarrow> in_mem (u_Uint64 off) (unat (u_Uint64 sz))"
  using memGrowth_ok [of m off sz x] by (auto simp: in_mem_def memMax_def unat_u_Uint64)

lemma callArgsMem_in:
  assumes "callArgsMem m a b c d = Inr x"
  shows "in_mem (u_Uint64 a) (unat (u_Uint64 b))" "in_mem (u_Uint64 c) (unat (u_Uint64 d))"
proof -
  obtain e1 e2 where e: "memAccessSize a b = Inr e1" "memAccessSize c d = Inr e2" "unat e1 \<le> memMax" "unat e2 \<le> memMax"
    using assms memExpandCost_limit
    by (fastforce simp: callArgsMem_def bindS_def memMax_def word_less_nat_alt not_less split: sum.splits if_splits)
  then show "in_mem (u_Uint64 a) (unat (u_Uint64 b))" "in_mem (u_Uint64 c) (unat (u_Uint64 d))"
    using memAccessSize_ok [OF e(1)] memAccessSize_ok [OF e(2)] by (auto simp: in_mem_def unat_u_Uint64)
qed

section \<open>Safe outcomes\<close>

definition panicMsg :: string where "panicMsg = ''makeslice: len out of range''"

text \<open>Goes on with memory in its limit, faults at the same position, or panics in an allocation.\<close>

definition safe :: "nat \<Rightarrow> 's frame outcome \<Rightarrow> bool" where
  "safe pc r = (case r of Next f \<Rightarrow> length (f_mem f) \<le> memMax | Fault e f \<Rightarrow> f_pc f = pc | Crash m \<Rightarrow> m = panicMsg | NoFuel \<Rightarrow> True)"

lemma safe_simps [simp]:
  "safe pc (Next f) = (length (f_mem f) \<le> memMax)" "safe pc (Fault e f) = (f_pc f = pc)" "safe pc (Crash m) = (m = panicMsg)" "safe pc NoFuel"
  by (simp_all add: safe_def)

definition run_safe :: "'s runner \<Rightarrow> bool" where
  "run_safe run \<longleftrightarrow> (\<forall>c l ro d lg s m. run c l ro d lg s = Crash m \<longrightarrow> m = panicMsg)"

definition op_safe :: "'s operation \<Rightarrow> bool" where
  "op_safe oo \<longleftrightarrow> (\<forall>run env f. run_safe run \<longrightarrow> length (f_mem f) \<le> memMax \<longrightarrow> o_pop oo \<le> length (f_stack f) \<longrightarrow>
     length (f_stack f) - o_pop oo + o_push oo \<le> MaxStack \<longrightarrow>
     (\<forall>m. o_gas oo env f \<noteq> Crash m) \<and>
     (\<forall>c s m. o_gas oo env f = Next (c, f\<lparr>f_state := s\<rparr>) \<longrightarrow> safe (f_pc f) (o_exec oo run env (f\<lparr>f_state := s, f_meter := m\<rparr>))))"

lemma op_safe_flags [simp]:
  "op_safe (gated c oo) = op_safe oo" "op_safe (halting oo) = op_safe oo" "op_safe (jumping oo) = op_safe oo"
  by (simp_all add: op_safe_def gated_def halting_def jumping_def)

lemma stack_forms:
  "Suc 0 \<le> length xs \<longleftrightarrow> (\<exists>a ys. xs = a # ys)" "2 \<le> length xs \<longleftrightarrow> (\<exists>a b ys. xs = a # b # ys)"
  "3 \<le> length xs \<longleftrightarrow> (\<exists>a b c ys. xs = a # b # c # ys)" "4 \<le> length xs \<longleftrightarrow> (\<exists>a b c d ys. xs = a # b # c # d # ys)"
  "6 \<le> length xs \<longleftrightarrow> (\<exists>a b c d e f ys. xs = a # b # c # d # e # f # ys)"
  "7 \<le> length xs \<longleftrightarrow> (\<exists>a b c d e f g ys. xs = a # b # c # d # e # f # g # ys)"
  by (auto simp: numeral_eq_Suc Suc_le_length_iff)

lemma pop_simps [simp]: "stack_pop (a # st) = (a, st)" "stack_peek 0 (a # st) = Some a"
  "stack_peek (Suc n) (a # st) = stack_peek n st"
  by (simp_all add: stack_pop_def stack_peek_def)

lemma peek_numerals [simp]: "stack_peek (numeral k) (a # st) = stack_peek (pred_numeral k) st"
  by (simp add: numeral_eq_Suc)

lemmas op_safe_intro = op_safe_def oper_def shape_defs stack_forms constGas_def liftG_def

lemma safe_shapes:
  "op_safe (oper (unop g1) (constGas c) (Suc 0) q)" "op_safe (oper (binop g2) (constGas c) 2 q)" "op_safe (oper (ternop g3) (constGas c) 3 q)"
  "op_safe (oper (binop g2) gasExp 2 q)" "op_safe (oper opCalldataload (constGas c) (Suc 0) q)"
  by (auto simp: op_safe_intro opCalldataload_def gasExp_def)

lemma pushW_safe: "length (f_mem f) \<le> memMax \<Longrightarrow> f_pc f = pc \<or> length (f_stack f) < MaxStack \<Longrightarrow> safe pc (pushW w f)"
  by (auto simp: pushW_def stack_push_def)

lemma safe_push:
  "op_safe (oper opAddress (constGas c) 0 q)" "op_safe (oper opOrigin (constGas c) 0 q)" "op_safe (oper opCaller (constGas c) 0 q)"
  "op_safe (oper opCallvalue (constGas c) 0 q)" "op_safe (oper opCalldatasize (constGas c) 0 q)" "op_safe (oper opCodesize (constGas c) 0 q)"
  "op_safe (oper opGasprice (constGas c) 0 q)" "op_safe (oper opReturndatasize (constGas c) 0 q)" "op_safe (oper opCoinbase (constGas c) 0 q)"
  "op_safe (oper opTimestamp (constGas c) 0 q)" "op_safe (oper opNumber (constGas c) 0 q)" "op_safe (oper opZeroWord (constGas c) 0 q)"
  "op_safe (oper opChainid (constGas c) 0 q)" "op_safe (oper opPc (constGas c) 0 q)" "op_safe (oper opMsize (constGas c) 0 q)"
  "op_safe (oper opGas (constGas c) 0 q)" "op_safe (oper opCalltokenvalue (constGas c) 0 q)" "op_safe (oper opCalltokenid (constGas c) 0 q)"
  "op_safe (oper opSelfbalance (constGas c) 0 q)" "op_safe (oper (makePush n) (constGas c) 0 (Suc 0))"
  by (simp_all add: op_safe_def oper_def constGas_def opAddress_def opOrigin_def opCaller_def opCallvalue_def opCalldatasize_def
      opCodesize_def opGasprice_def opReturndatasize_def opCoinbase_def opTimestamp_def opNumber_def opZeroWord_def
      opChainid_def opPc_def opMsize_def opGas_def opCalltokenvalue_def opCalltokenid_def opSelfbalance_def makePush_def
      Let_def split_beta pushW_safe)

lemma safe_control:
  "op_safe (oper opStop (constGas c) p q)" "op_safe (oper opPop (constGas c) p q)" "op_safe (oper opJumpdest (constGas c) p q)"
  "op_safe (oper opInvalid (constGas c) p q)" "op_safe (oper opStakingDeferred (constGas c) p q)" "op_safe (oper opJump (constGas c) p q)"
  "op_safe (oper opJumpi (constGas c) p q)" "op_safe (oper (makeDup n) (constGas c) p q)" "op_safe (oper (makeSwap n) (constGas c) p q)"
  by (auto simp: op_safe_intro opStop_def opPop_def opJumpdest_def opInvalid_def opStakingDeferred_def opJump_def opJumpi_def
      makeDup_def makeSwap_def split: list.splits sum.splits)

lemma safe_state:
  "op_safe (oper opBalance (constGas c) (Suc 0) q)" "op_safe (oper opExtcodesize (constGas c) (Suc 0) q)"
  "op_safe (oper opExtcodehash (constGas c) (Suc 0) q)" "op_safe (oper opIscontract (constGas c) (Suc 0) q)"
  "op_safe (oper opSload (constGas c) (Suc 0) q)" "op_safe (oper opSstore gasSstore 2 q)"
  by (auto simp: op_safe_intro opBalance_def opExtcodesize_def opExtcodehash_def opIscontract_def opSload_def opSstore_def gasSstore_def
      split: if_splits)

lemma memGetF_safe:
  assumes "in_mem off (unat sz)" "length (f_mem f) \<le> memMax" "\<And>b m. length m \<le> memMax \<Longrightarrow> safe pc (k b (f\<lparr>f_mem := m\<rparr>))"
  shows "safe pc (memGetF off sz f k)"
  using mem_get_safe [OF assms(1,2)] assms(3) by (auto simp: memGetF_def)

lemma memSetF_safe:
  assumes "in_mem off (length b)" "length (f_mem f) \<le> memMax"
  shows "safe pc (memSetF off b f)"
  using mem_set_safe [OF assms] by (auto simp: memSetF_def)

lemma length_copyDataAt [simp]: "length (copyDataAt src off n) = unat n"
  by (simp add: copyDataAt_def)

lemmas growth_in = memGrowth_in [unfolded u_Uint64_def] memGrowth_in

lemma in_mem_consts: "memGrowth m off 32 = Inr x \<Longrightarrow> in_mem (u_Uint64 off) 32" "memGrowth m off 1 = Inr x \<Longrightarrow> in_mem (u_Uint64 off) 1"
  using memGrowth_in [of m off 32 x] memGrowth_in [of m off 1 x] by (simp_all add: u_Uint64_def)

lemma safe_memory:
  "op_safe (oper opKeccak256 gasKeccak256 2 q)" "op_safe (oper opMload gasMload (Suc 0) q)" "op_safe (oper opMstore8 gasMstore8 2 q)"
  "op_safe (oper opReturn gasReturn 2 q)" "op_safe (oper opRevert gasReturn 2 q)" "op_safe (oper opCalldatacopy gasCopy 3 q)"
  "op_safe (oper opCodecopy gasCopy 3 q)" "op_safe (oper opExtcodecopy gasExtcodecopy 4 q)" "op_safe (oper opReturndatacopy gasReturndatacopy 3 q)"
  by (auto simp: op_safe_def oper_def stack_forms opKeccak256_def opMload_def opMstore8_def opReturn_def opRevert_def opCalldatacopy_def opCodecopy_def
      opExtcodecopy_def opReturndatacopy_def gasKeccak256_def gasMload_def gasMstore8_def gasReturn_def gasCopy_def gasExtcodecopy_def
      gasReturndatacopy_def copyOp_def popF_def peekV_def liftG_def Let_def split_beta
      split: sum.splits option.splits intro!: memGetF_safe memSetF_safe dest: memGrowth_in in_mem_consts)

lemma store_safe:
  assumes "memGrowth m off 32 = Inr y" "length mm \<le> memMax"
  shows "safe pc (case mem_set32 (u_Uint64 off) (Bytes32 v) mm of None \<Rightarrow> Crash x | Some m \<Rightarrow> Next (f\<lparr>f_mem := m\<rparr>))"
  using mem_set32_safe [OF in_mem_consts(1) [OF assms(1)] _ assms(2), of "Bytes32 v"] by auto

lemma safe_mstore: "op_safe (oper opMstore gasMstore 2 q)"
  by (auto simp: op_safe_def oper_def stack_forms opMstore_def gasMstore_def gasMload_def popF_def peekV_def liftG_def Let_def
      split: sum.splits intro: store_safe)

lemma popTopics_mem: "popTopics n f = (ts, f') \<Longrightarrow> f_mem f' = f_mem f \<and> f_pc f' = f_pc f"
  by (auto dest: popTopics_frame)

lemma safe_log: "op_safe (oper (opLog n) (gasLog n) (2 + n) q)"
  by (auto simp: op_safe_def oper_def opLog_def gasLog_def popF_def peekV_def stack_peek_def stack_pop_def liftG_def Let_def
      split: sum.splits option.splits list.splits prod.splits intro!: memGetF_safe dest: memGrowth_in dest!: popTopics_mem)

section \<open>Calls and creations\<close>

lemma writeReturn_safe:
  assumes "in_mem oo (unat os)" "length (f_mem f) \<le> memMax" "f_pc f = pc"
  shows "safe pc (bindV (writeReturn oo b os f) (pushW w))"
proof (cases "b = [] \<or> os = 0")
  case True
  then show ?thesis using assms by (auto simp: writeReturn_def Let_def intro!: pushW_safe)
next
  case False
  define n where "n = (if length b > unat os then unat os else length b)"
  have "in_mem oo (length (take n b))" "n > 0" using assms(1) False by (auto simp: in_mem_def n_def unat_eq_zero unat_gt_0)
  then obtain m where "mem_set oo (take n b) (f_mem f) = Some m" "length m \<le> memMax" using mem_set_safe assms(2) by blast
  then show ?thesis using assms(3) \<open>n > 0\<close> by (simp add: writeReturn_def n_def [symmetric] Let_def memSetF_def pushW_safe)
qed

lemma precompile_panic: "runPrecompile L pc inp budget cfg = Crash m \<Longrightarrow> m = panicMsg"
  by (cases pc) (auto simp: runPrecompile_def panicMsg_def modexp_Run_def bn128Add_Run_def bn128ScalarMul_Run_def bn128Pairing_Run_def
      blake2F_Run_def Let_def split: option.splits if_splits outcome.splits prod.splits)

lemma doCall_safe:
  assumes "run_safe run" "in_mem oo (unat os)" "length (f_mem f) \<le> memMax"
  shows "safe (f_pc f) (doCall run env kind to v req args oo os f)"
proof -
  obtain broke f1 where bf: "(if f_depth f \<ge> maxCallDepth then (True, f) else lacksBalance env (c_Self (f_contract f)) v f) = (broke, f1)"
    by force
  then obtain s where f1: "f1 = f\<lparr>f_state := s\<rparr>" using broke_frame by blast
  obtain budget snap child f2 where pc: "prepareCall env kind to v req args f1 = (budget, snap, child, f2)" by (metis prod_cases4)
  then have f2: "f_pc f2 = f_pc f" "length (f_mem f2) \<le> memMax" using assms(3) by (auto simp: prepareCall_def Let_def split_beta f1)
  have "safe (f_pc f) (afterPrecompile env budget snap lm oo os f2 (runPrecompile L p args budget cfg))" for lm L p cfg
    using f2 assms(2) precompile_panic [of L p args budget cfg]
    by (auto simp: afterPrecompile_def Let_def undoFrame_def split: outcome.splits prod.splits intro!: pushW_safe writeReturn_safe)
  moreover have "safe (f_pc f) (afterCall env budget snap lm oo os f2 (run c l ro d lg st))" for lm c l ro d lg st
    using f2 assms(1,2) unfolding run_safe_def
    by (auto simp: afterCall_def Let_def undoFrame_def split: outcome.splits prod.splits intro!: pushW_safe writeReturn_safe)
  moreover have "safe (f_pc f) (pushW 0 (f1\<lparr>f_returnData := []\<rparr>))" using f1 assms(3) by (intro pushW_safe) auto
  ultimately show ?thesis unfolding doCall_def bf Let_def prod.case pc by (simp split: option.split)
qed

lemma doCreate_safe:
  assumes "run_safe run" "length (f_mem f) \<le> memMax"
  shows "safe (f_pc f) (doCreate run env v code salt f)"
proof -
  obtain broke f1 where bf: "(if f_depth f \<ge> maxCallDepth then (True, f) else lacksBalance env (c_Self (f_contract f)) v f) = (broke, f1)"
    by force
  then obtain s where f1: "f1 = f\<lparr>f_state := s\<rparr>" using broke_frame by blast
  obtain budget snap child f2 where pc: "prepareCreate env v code salt f1 = (budget, snap, child, f2)" by (metis prod_cases4)
  then have f2: "f_pc f2 = f_pc f" "length (f_mem f2) \<le> memMax" using assms(2) by (auto simp: prepareCreate_def Let_def split_beta f1)
  have "safe (f_pc f) (afterCreate env budget snap lm na f2 (run c l ro d lg st))" for lm na c l ro d lg st
    using f2 assms(1) unfolding run_safe_def
    by (auto simp: afterCreate_def Let_def undoFrame_def split: outcome.splits prod.splits intro!: pushW_safe)
  moreover have "safe (f_pc f) (pushW 0 (f1\<lparr>f_returnData := []\<rparr>))" using f1 assms(2) by (intro pushW_safe) auto
  ultimately show ?thesis unfolding doCreate_def bf Let_def prod.case pc by simp
qed

lemma safe_calls:
  "op_safe (oper (callOp k True) gasCall 7 q)" "op_safe (oper (callOp k True) gasCallcode 7 q)"
  "op_safe (oper (callOp k False) gasCallNoValue 6 q)"
proof -
  have do: "safe pc (memGetF a b f (\<lambda>args f8. doCall run env k to v req args oo os f8))"
    if "in_mem a (unat b)" "in_mem oo (unat os)" "length (f_mem f) \<le> memMax" "run_safe run" "pc = f_pc f"
    for a b oo os pc run env k to v req and f :: "'z frame"
    using that doCall_safe [OF that(4,2), of "f\<lparr>f_mem := m\<rparr>" for m] by (auto intro!: memGetF_safe)
  show "op_safe (oper (callOp k True) gasCall 7 q)" "op_safe (oper (callOp k True) gasCallcode 7 q)"
    "op_safe (oper (callOp k False) gasCallNoValue 6 q)"
    by (auto simp: op_safe_def oper_def stack_forms callOp_def gasCall_def gasCallcode_def gasCallNoValue_def popF_def peekV_def liftG_def
        Let_def split_beta split: sum.splits if_splits intro!: do dest: callArgsMem_in)
qed

lemma safe_creates: "op_safe (oper opCreate gasCreate 3 q)" "op_safe (oper opCreate2 gasCreate2 4 q)"
proof -
  have do: "safe pc (memGetF a b f (\<lambda>code f8. doCreate run env v code salt f8))"
    if "in_mem a (unat b)" "length (f_mem f) \<le> memMax" "run_safe run" "pc = f_pc f" for a b pc run env v salt and f :: "'z frame"
    using that doCreate_safe [OF that(3), of "f\<lparr>f_mem := m\<rparr>" for m] by (auto intro!: memGetF_safe)
  show "op_safe (oper opCreate gasCreate 3 q)" "op_safe (oper opCreate2 gasCreate2 4 q)"
    by (auto simp: op_safe_def oper_def stack_forms opCreate_def opCreate2_def gasCreate_def gasCreate2_def popF_def peekV_def liftG_def
        Let_def split_beta split: sum.splits intro!: do dest: memGrowth_in)
qed

lemmas safe_all = safe_shapes safe_push safe_control safe_state safe_memory safe_mstore safe_log safe_calls safe_creates

lemma tables_safe:
  "\<forall>(k, oo) \<in> set arithTable. op_safe oo" "\<forall>(k, oo) \<in> set envTable. op_safe oo" "\<forall>(k, oo) \<in> set flowTable. op_safe oo"
  "\<forall>(k, oo) \<in> set rangeTable. op_safe oo" "\<forall>(k, oo) \<in> set callTable. op_safe oo" "\<forall>(k, oo) \<in> set stakingTable. op_safe oo"
  by (auto simp: arithTable_def envTable_def flowTable_def rangeTable_def callTable_def stakingTable_def plain_ops
      opCall_def opCallcode_def opDelegatecall_def opStaticcall_def safe_all safe_log [simplified])

lemma opTable_safe: "opTable op = Some oo \<Longrightarrow> op_safe oo"
  unfolding opTable_def using tables_safe by (fastforce dest: map_of_SomeD)

section \<open>Frames\<close>

lemma step_safe:
  fixes f :: "'s frame"
  assumes "run_safe run" "length (f_mem f) \<le> memMax"
  shows "safe (f_pc f) (stepFrame run env f)"
proof (cases "opTable (c_Code (f_contract f) ! f_pc f) :: 's operation option")
  case None
  then show ?thesis by (simp add: stepFrame_def)
next
  case (Some oo)
  show ?thesis
  proof (cases "o_enabled oo (ev_cfg env) \<and> \<not> length (f_stack f) < o_pop oo \<and> \<not> MaxStack < length (f_stack f) - o_pop oo + o_push oo")
    case False
    then show ?thesis using Some by (auto simp: stepFrame_def)
  next
    case True
    then have guards: "o_enabled oo (ev_cfg env)" "\<not> length (f_stack f) < o_pop oo" "\<not> MaxStack < length (f_stack f) - o_pop oo + o_push oo"
      by blast+
    have ok: "\<And>m. o_gas oo env f \<noteq> Crash m"
      "\<And>c s m. o_gas oo env f = Next (c, f\<lparr>f_state := s\<rparr>) \<Longrightarrow> safe (f_pc f) (o_exec oo run env (f\<lparr>f_state := s, f_meter := m\<rparr>))"
      using opTable_safe [OF Some, unfolded op_safe_def, rule_format, OF assms guards(2,3) [unfolded not_less]] by blast+
    have tame: "gas_tame (o_gas oo)" using opTable_ok [OF Some] by (simp add: op_ok_def)
    show ?thesis
    proof (cases "o_gas oo env f")
      case (Next p)
      obtain c s where p: "p = (c, f\<lparr>f_state := s\<rparr>)" using gas_tameD(1) [OF tame] Next by (cases p) blast
      from ok(2) [OF Next [unfolded p], of "snd (spend c (f_meter f))"]
      have "safe (f_pc f) (bindV (o_exec oo run env (f\<lparr>f_state := s, f_meter := snd (spend c (f_meter f))\<rparr>))
          (\<lambda>f3. Next (if \<not> o_jumps oo \<and> \<not> o_halts oo then f3\<lparr>f_pc := f_pc f3 + 1\<rparr> else f3)))"
        by (cases "o_exec oo run env (f\<lparr>f_state := s, f_meter := snd (spend c (f_meter f))\<rparr>)") auto
      then show ?thesis by (simp add: stepFrame_def Some guards Next p Let_def split_beta)
    next
      case (Fault e p)
      obtain c s where "p = (c, f\<lparr>f_state := s\<rparr>)" using gas_tameD(2) [OF tame] Fault by (cases p) blast
      then show ?thesis using Some guards Fault by (simp add: stepFrame_def)
    qed (use Some guards ok(1) in \<open>simp_all add: stepFrame_def\<close>)
  qed
qed

lemma runFrame_safe:
  assumes "length (f_mem f) \<le> memMax" "runFrame n env f = Crash m"
  shows "m = panicMsg"
  using assms
proof (induction n arbitrary: f m)
  case (Suc n)
  have run: "run_safe (evm_run n env)"
    unfolding run_safe_def
    by (auto simp: evm_run_def newFrame_def split: outcome.splits prod.splits intro: Suc.IH [rotated])
  have go: "\<not> (f_stop f \<or> f_pc f \<ge> length (c_Code (f_contract f)))" using Suc.prems(2) by (auto simp: runFrame_Suc)
  note st = step_safe [OF run Suc.prems(1), of env]
  have code: "f_contract f' = f_contract f" if "stepFrame (evm_run n env) env f = Fault e f'" for e f'
    using step_mode [of f "evm_run n env" env] that by (simp add: same_frame_def)
  show ?case
  proof (cases "stepFrame (evm_run n env) env f")
    case (Next f1)
    then show ?thesis using st go Suc.prems(2) Suc.IH [of f1 m] by (simp add: runFrame_Suc)
  next
    case (Fault e f1)
    then show ?thesis using st go Suc.prems(2) code [OF Fault] by (simp add: runFrame_Suc failResult_def)
  qed (use st go Suc.prems(2) in \<open>simp_all add: runFrame_Suc\<close>)
qed simp

lemma evm_Execute_safe: "evm_Execute n env c input limit s = Crash m \<Longrightarrow> m = ''makeslice: len out of range''"
proof -
  assume "evm_Execute n env c input limit s = Crash m"
  then obtain c' where "runFrame n env (newFrame c' limit False 0 [] s) = Crash m"
    unfolding Execute_alt evm_run_def by (auto split: outcome.splits prod.splits)
  from runFrame_safe [OF _ this] show ?thesis by (simp add: newFrame_def panicMsg_def)
qed

text \<open>
  C13: The interpreter never panics on an index or a slice, whatever the code, the input and the
  state: if executing a message panics at all, the panic is the allocation inside the modular
  exponentiation contract.
\<close>

theorem Execute_no_index_panic:
  "case evm_Execute n env c input limit s of Crash m \<Rightarrow> m = ''makeslice: len out of range'' | _ \<Rightarrow> True"
  by (cases "evm_Execute n env c input limit s") (simp_all add: evm_Execute_safe)

end
