(* ===== verification/Pebble.thy ===== *)
theory Pebble
  imports Revoking_Db "HOL-Library.Sublist"
begin

text \<open>
  The durable store of a running node: \<open>PebbleKV\<close> of \<open>internal/db/pebble.go\<close>, an adapter that gives the
  Pebble engine the interface \<open>KV\<close>, and the flush of a session of \<open>internal/db/snapshot.go\<close> to it.

  Pebble is third-party code and a parameter, the record \<open>engine\<close> of the calls the adapter makes. Its
  operations may fail; the hypothesis \<open>pebble_ok\<close> states its documented behaviour when they do not: what
  the store holds is a map, a write that succeeds updates it and one that fails touches no other key, an
  iterator visits the entries in ascending order of their keys and is valid until it is exhausted or
  has an error. The mutex serialises whole operations. Closing a value or an iterator has no effect
  the adapter can see; the value bytes are copied before.
\<close>

section \<open>The engine\<close>

record ('s, 'i) engine =
  pe_Get :: "'s \<Rightarrow> bytes \<Rightarrow> bytes result"
  pe_Set :: "bytes \<Rightarrow> bytes \<Rightarrow> ('s, unit) op"
  pe_Delete :: "bytes \<Rightarrow> ('s, unit) op"
  pe_NewIter :: "'s \<Rightarrow> 'i result"
  pe_SeekGE :: "bytes \<Rightarrow> 'i \<Rightarrow> 'i"
  pe_Valid :: "'i \<Rightarrow> bool"
  pe_Key :: "'i \<Rightarrow> bytes"
  pe_Value :: "'i \<Rightarrow> bytes"
  pe_Next :: "'i \<Rightarrow> 'i"
  pe_Error :: "'i \<Rightarrow> error option"
  pe_Close :: "('s, unit) op"

definition ErrClosed :: error where "ErrClosed = Err ''db: store closed''"

definition pebbleErrNotFound :: error where "pebbleErrNotFound = Err ''pebble: not found''"

text \<open>An error of the engine itself: neither the absence of a key nor one of the adapter's own.\<close>

definition fault :: "error \<Rightarrow> bool" where
  "fault e \<longleftrightarrow> e \<notin> {ErrNotFound, ErrClosed, pebbleErrNotFound}"

definition write_ok :: "('s \<Rightarrow> MemKV) \<Rightarrow> ('s, unit) op \<Rightarrow> (MemKV \<Rightarrow> MemKV) \<Rightarrow> 's \<Rightarrow> bool" where
  "write_ok held w f s =
     (case w s of
        (Inr _, s') \<Rightarrow> held s' = f (held s)
      | (Inl e, s') \<Rightarrow> fault e \<and> (held s' = held s \<or> held s' = f (held s)))"

definition pebble_ok :: "('s, 'i) engine \<Rightarrow> ('s \<Rightarrow> MemKV) \<Rightarrow> ('i \<Rightarrow> (bytes \<times> bytes) list) \<Rightarrow> bool" where
  "pebble_ok E held left \<longleftrightarrow>
     (\<forall>s k. case pe_Get E s k of
        Inr v \<Rightarrow> fmlookup (held s) k = Some v
      | Inl e \<Rightarrow> fault e \<or> e = pebbleErrNotFound \<and> fmlookup (held s) k = None) \<and>
     (\<forall>s k v. write_ok held (pe_Set E k v) (fmupd k v) s) \<and>
     (\<forall>s k. write_ok held (pe_Delete E k) (fmdrop k) s) \<and>
     (\<forall>s p. case pe_NewIter E s of
        Inl e \<Rightarrow> fault e
      | Inr it \<Rightarrow> left (pe_SeekGE E p it) = dropWhile (\<lambda>x. fst x < p) (sorted_list_of_fmap (held s))) \<and>
     (\<forall>it. if pe_Valid E it then left it = (pe_Key E it, pe_Value E it) # left (pe_Next E it)
        else (case pe_Error E it of None \<Rightarrow> left it = [] | Some e \<Rightarrow> fault e)) \<and>
     (\<forall>it e. pe_Error E it = Some e \<longrightarrow> fault e)"

section \<open>The adapter\<close>

record 's PebbleKV =
  pk_store :: 's
  pk_closed :: bool

definition onEngine :: "('s, 'a) op \<Rightarrow> ('s PebbleKV, 'a) op" where
  "onEngine f d = (case f (pk_store d) of (r, s) \<Rightarrow> (r, d\<lparr>pk_store := s\<rparr>))"

definition PebbleKV_Get :: "('s, 'i) engine \<Rightarrow> 's PebbleKV \<Rightarrow> bytes \<Rightarrow> bytes result" where
  "PebbleKV_Get E d k =
     (if pk_closed d then Inl ErrClosed
      else case pe_Get E (pk_store d) k of
        Inl e \<Rightarrow> if e = pebbleErrNotFound then Inl ErrNotFound else Inl e
      | Inr v \<Rightarrow> Inr v)"

definition PebbleKV_Has :: "('s, 'i) engine \<Rightarrow> 's PebbleKV \<Rightarrow> bytes \<Rightarrow> bool result" where
  "PebbleKV_Has E d k =
     (case PebbleKV_Get E d k of Inr _ \<Rightarrow> Inr True | Inl e \<Rightarrow> if e = ErrNotFound then Inr False else Inl e)"

definition PebbleKV_Put :: "('s, 'i) engine \<Rightarrow> bytes \<Rightarrow> bytes \<Rightarrow> ('s PebbleKV, unit) op" where
  "PebbleKV_Put E k v d = (if pk_closed d then (Inl ErrClosed, d) else onEngine (pe_Set E k v) d)"

definition PebbleKV_Delete :: "('s, 'i) engine \<Rightarrow> bytes \<Rightarrow> ('s PebbleKV, unit) op" where
  "PebbleKV_Delete E k d = (if pk_closed d then (Inl ErrClosed, d) else onEngine (pe_Delete E k) d)"

text \<open>The loop of \<open>Scan\<close> ends only because the iterator does: \<open>None\<close> is not returning.\<close>

partial_function (option) scanLoop ::
    "('s, 'i) engine \<Rightarrow> bytes \<Rightarrow> (bytes \<times> bytes) list \<Rightarrow> 'i \<Rightarrow> ((bytes \<times> bytes) list \<times> 'i) option" where
  [code]: "scanLoop E p output it =
     (if \<not> pe_Valid E it then Some (output, it)
      else if \<not> has_prefix p (pe_Key E it) then Some (output, it)
      else scanLoop E p (output @ [(pe_Key E it, pe_Value E it)]) (pe_Next E it))"

definition PebbleKV_Scan :: "('s, 'i) engine \<Rightarrow> 's PebbleKV \<Rightarrow> bytes \<Rightarrow> (bytes \<times> bytes) list result option" where
  "PebbleKV_Scan E d p =
     (if pk_closed d then Some (Inl ErrClosed)
      else case pe_NewIter E (pk_store d) of
        Inl e \<Rightarrow> Some (Inl e)
      | Inr it \<Rightarrow> map_option (\<lambda>(output, it'). case pe_Error E it' of Some e \<Rightarrow> Inl e | None \<Rightarrow> Inr output)
          (scanLoop E p [] (pe_SeekGE E p it)))"

definition PebbleKV_Close :: "('s, 'i) engine \<Rightarrow> ('s PebbleKV, unit) op" where
  "PebbleKV_Close E d = (if pk_closed d then (Inr (), d) else onEngine (pe_Close E) (d\<lparr>pk_closed := True\<rparr>))"

section \<open>The scan loop\<close>

text \<open>The keys below a prefix are an interval that starts at the prefix.\<close>

lemma prefix_ge: "has_prefix p k \<Longrightarrow> p \<le> k"
proof -
  have "p \<le> p @ r" for r :: bytes by (induction p) auto
  then show "has_prefix p k \<Longrightarrow> p \<le> k" by (auto simp: has_prefix_iff)
qed

lemma prefix_convex: "p \<le> j \<Longrightarrow> j \<le> k \<Longrightarrow> has_prefix p k \<Longrightarrow> has_prefix p j"
proof (induction p arbitrary: j k)
  case (Cons b p)
  then obtain c j' k' where "j = c # j'" "k = b # k'" "has_prefix p k'"
    by (cases j; cases k) (auto simp: has_prefix_def)
  with Cons show ?case by (auto simp: has_prefix_def)
qed (simp add: has_prefix_def)

lemma takeWhile_filter_sorted:
  assumes "sorted (map fst xs)" "\<forall>x \<in> set xs. p \<le> fst x"
  shows "takeWhile (\<lambda>x. has_prefix p (fst x)) xs = filter (\<lambda>x. has_prefix p (fst x)) xs"
  using assms
proof (induction xs)
  case (Cons x xs)
  show ?case
  proof (cases "has_prefix p (fst x)")
    case False
    then have "\<not> has_prefix p (fst y)" if "y \<in> set xs" for y
      using that Cons.prems prefix_convex [of p "fst x" "fst y"] by auto
    then show ?thesis using False by (simp add: filter_empty_conv)
  qed (use Cons in simp)
qed simp

lemma dropWhile_sorted_ge:
  assumes "sorted (map fst xs)"
  shows "sorted (map fst (dropWhile (\<lambda>x. fst x < p) xs))" "\<forall>x \<in> set (dropWhile (\<lambda>x. fst x < p) xs). p \<le> fst x"
    and "filter (\<lambda>x. has_prefix p (fst x)) (dropWhile (\<lambda>x. fst x < p) xs) = filter (\<lambda>x. has_prefix p (fst x)) xs"
  using assms by (induction xs) (auto dest: prefix_ge)

lemma entries_alt: "entries m p = filter (\<lambda>x. has_prefix p (fst x)) (sorted_list_of_fmap m)"
  unfolding entries_def
  by (rule sorted_alist_unique)
    (auto simp: sorted_sorted_list_of_fmap distinct_map_filter intro: sorted_filter split: if_splits)

lemma scan_range:
  "takeWhile (\<lambda>x. has_prefix p (fst x)) (dropWhile (\<lambda>x. fst x < p) (sorted_list_of_fmap m)) = entries m p"
  using takeWhile_filter_sorted [OF dropWhile_sorted_ge(1,2) [OF sorted_sorted_list_of_fmap], of p m]
    dropWhile_sorted_ge(3) [OF sorted_sorted_list_of_fmap, of p m] by (simp add: entries_alt)

lemmas pebble_clauses = pebble_ok_def [THEN iffD1, THEN conjunct1]
  pebble_ok_def [THEN iffD1, THEN conjunct2, THEN conjunct1]
  pebble_ok_def [THEN iffD1, THEN conjunct2, THEN conjunct2, THEN conjunct1]
  pebble_ok_def [THEN iffD1, THEN conjunct2, THEN conjunct2, THEN conjunct2, THEN conjunct1]
  pebble_ok_def [THEN iffD1, THEN conjunct2, THEN conjunct2, THEN conjunct2, THEN conjunct2, THEN conjunct1]
  pebble_ok_def [THEN iffD1, THEN conjunct2, THEN conjunct2, THEN conjunct2, THEN conjunct2, THEN conjunct2]

text \<open>The loop ends, and without an error it has collected the entries up to the first other key.\<close>

lemma scanLoop_ends:
  assumes "pebble_ok E held left"
  shows "\<exists>output it'. scanLoop E p acc it = Some (output, it') \<and>
    (pe_Error E it' = None \<longrightarrow> output = acc @ takeWhile (\<lambda>x. has_prefix p (fst x)) (left it))"
proof (induction "left it" arbitrary: it acc)
  case Nil
  then have "\<not> pe_Valid E it" using pebble_clauses(5) [OF assms] by (metis list.distinct(1))
  with Nil show ?case by (subst scanLoop.simps) simp
next
  case (Cons x xs)
  show ?case
  proof (cases "pe_Valid E it")
    case True
    with Cons.hyps(2) pebble_clauses(5) [OF assms] have x: "left it = (pe_Key E it, pe_Value E it) # left (pe_Next E it)" by metis
    with Cons.hyps(2) have "xs = left (pe_Next E it)" by simp
    from Cons.hyps(1) [OF this, of "acc @ [(pe_Key E it, pe_Value E it)]"] True x show ?thesis
      by (subst scanLoop.simps) auto
  next
    case False
    with Cons.hyps(2) pebble_clauses(5) [OF assms] have "pe_Error E it \<noteq> None" by (metis list.distinct(1) option.case(1))
    with False show ?thesis by (subst scanLoop.simps) auto
  qed
qed

lemma PebbleKV_Scan_entries:
  assumes "pebble_ok E held left" "\<not> pk_closed d"
  shows "\<exists>r. PebbleKV_Scan E d p = Some r \<and> (case r of Inl e \<Rightarrow> fault e | Inr xs \<Rightarrow> xs = entries (held (pk_store d)) p)"
proof (cases "pe_NewIter E (pk_store d)")
  case (Inl e)
  then show ?thesis using assms(2) pebble_clauses(4) [OF assms(1), THEN spec [where x = "pk_store d"]] by (simp add: PebbleKV_Scan_def)
next
  case (Inr it)
  obtain xs it' where lp: "scanLoop E p [] (pe_SeekGE E p it) = Some (xs, it')"
    "pe_Error E it' = None \<longrightarrow> xs = takeWhile (\<lambda>x. has_prefix p (fst x)) (left (pe_SeekGE E p it))"
    using scanLoop_ends [OF assms(1), of p "[]" "pe_SeekGE E p it"] by auto
  have "left (pe_SeekGE E p it) = dropWhile (\<lambda>x. fst x < p) (sorted_list_of_fmap (held (pk_store d)))"
    using pebble_clauses(4) [OF assms(1), THEN spec [where x = "pk_store d"], THEN spec [where x = p]] Inr by simp
  with lp show ?thesis using Inr assms(2) pebble_clauses(6) [OF assms(1)]
    by (auto simp: PebbleKV_Scan_def scan_range split: option.splits)
qed

lemma PebbleKV_Get_cases:
  assumes "pebble_ok E held left" "\<not> pk_closed d"
  shows "(\<exists>e. fault e \<and> PebbleKV_Get E d k = Inl e) \<or> PebbleKV_Get E d k = MemKV_Get (held (pk_store d)) k"
  using pebble_clauses(1) [OF assms(1), rule_format, of "pk_store d" k] assms(2)
  by (auto simp: PebbleKV_Get_def MemKV_Get_def fault_def split: sum.splits)

lemma PebbleKV_Put_ok:
  "pebble_ok E held left \<Longrightarrow> \<not> pk_closed d \<Longrightarrow> write_ok (\<lambda>d. held (pk_store d)) (PebbleKV_Put E k v) (\<lambda>m. MemKV_Put m k v) d"
  using pebble_clauses(2) [of E held left, rule_format, of k v "pk_store d"]
  by (auto simp: write_ok_def PebbleKV_Put_def MemKV_Put_def onEngine_def split: prod.splits sum.splits)

lemma PebbleKV_Delete_ok:
  "pebble_ok E held left \<Longrightarrow> \<not> pk_closed d \<Longrightarrow> write_ok (\<lambda>d. held (pk_store d)) (PebbleKV_Delete E k) (\<lambda>m. MemKV_Delete m k) d"
  using pebble_clauses(3) [of E held left, rule_format, of k "pk_store d"]
  by (auto simp: write_ok_def PebbleKV_Delete_def MemKV_Delete_def onEngine_def split: prod.splits sum.splits)

text \<open>After \<open>Close\<close>, which may be repeated, every operation is refused and does not reach the engine.\<close>

lemma Close_closes: "pk_closed (snd (PebbleKV_Close E d))"
  by (auto simp: PebbleKV_Close_def onEngine_def split: prod.splits)

lemma closed_store_refuses:
  assumes "pk_closed d"
  shows "PebbleKV_Get E d k = Inl ErrClosed" "PebbleKV_Has E d k = Inl ErrClosed" "PebbleKV_Put E k v d = (Inl ErrClosed, d)"
    "PebbleKV_Delete E k d = (Inl ErrClosed, d)" "PebbleKV_Scan E d p = Some (Inl ErrClosed)" "PebbleKV_Close E d = (Inr (), d)"
  using assms
  by (simp_all add: PebbleKV_Get_def PebbleKV_Has_def PebbleKV_Put_def PebbleKV_Delete_def PebbleKV_Scan_def PebbleKV_Close_def ErrClosed_def)

section \<open>Committing a session to the store\<close>

text \<open>\<open>Database\<close> over a Pebble store, and its \<open>Commit\<close>; \<open>ord\<close> is the order in which Go visits the writes.\<close>

record 's PebbleDatabase =
  pd_base :: "'s PebbleKV"
  pd_sessions :: "session list"

definition flushOne :: "('s, 'i) engine \<Rightarrow> bytes \<times> entry \<Rightarrow> ('s PebbleKV, unit) op" where
  "flushOne E = (\<lambda>(k, e). if en_deleted e then PebbleKV_Delete E k else PebbleKV_Put E k (en_value e))"

definition PebbleCommit :: "('s, 'i) engine \<Rightarrow> (session \<Rightarrow> (bytes \<times> entry) list) \<Rightarrow> ('s PebbleDatabase, bool) op" where
  "PebbleCommit E ord d =
     (case pd_sessions d of
        [] \<Rightarrow> (Inr False, d)
      | [w] \<Rightarrow> (case forM (ord w) (flushOne E) (pd_base d) of
          (Inl e, b) \<Rightarrow> (Inl e, d\<lparr>pd_base := b, pd_sessions := []\<rparr>)
        | (Inr _, b) \<Rightarrow> (Inr True, d\<lparr>pd_base := b, pd_sessions := []\<rparr>))
      | w # parent # ws \<Rightarrow> (Inr True, d\<lparr>pd_sessions := fold (\<lambda>(k, e) m. fmupd k e m) (ord w) parent # ws\<rparr>))"

lemma flushOne_ok:
  assumes "pebble_ok E held left" "\<not> pk_closed d"
  shows "write_ok (\<lambda>d. held (pk_store d)) (flushOne E x) (flush_entry x) d"
  using PebbleKV_Put_ok [OF assms, of "fst x" "en_value (snd x)"] PebbleKV_Delete_ok [OF assms, of "fst x"]
  by (cases x) (simp add: flushOne_def flush_entry_def)

lemma flushOne_open: "\<not> pk_closed d \<Longrightarrow> \<not> pk_closed (snd (flushOne E x d))"
  by (auto simp: flushOne_def PebbleKV_Put_def PebbleKV_Delete_def onEngine_def split: prod.splits)

lemma flush_runs:
  assumes "pebble_ok E held left" "\<not> pk_closed d"
  shows "case forM xs (flushOne E) d of
      (Inr _, d') \<Rightarrow> held (pk_store d') = fold flush_entry xs (held (pk_store d))
    | (Inl e, d') \<Rightarrow> fault e \<and> (\<exists>written. prefix written xs \<and> held (pk_store d') = fold flush_entry written (held (pk_store d)))"
  using assms(2)
proof (induction xs arbitrary: d)
  case (Cons x xs)
  obtain r d1 where x: "flushOne E x d = (r, d1)" by fastforce
  note ok = flushOne_ok [OF assms(1) Cons.prems, of x, unfolded write_ok_def x] flushOne_open [OF Cons.prems, of E x, unfolded x]
  show ?case
  proof (cases r)
    case (Inl e)
    then have "held (pk_store d1) = held (pk_store d) \<or> held (pk_store d1) = flush_entry x (held (pk_store d))"
      using ok(1) by simp
    then have "\<exists>written. prefix written (x # xs) \<and> held (pk_store d1) = fold flush_entry written (held (pk_store d))"
      by (elim disjE) (rule exI [of _ "[]"], simp, rule exI [of _ "[x]"], simp)
    moreover have "forM (x # xs) (flushOne E) d = (Inl e, d1)" using Inl x by (simp add: bindM_def)
    ultimately show ?thesis using ok(1) Inl by auto
  next
    case (Inr u)
    with ok have d1: "held (pk_store d1) = flush_entry x (held (pk_store d))" "\<not> pk_closed d1" by simp_all
    obtain r2 d2 where d2: "forM xs (flushOne E) d1 = (r2, d2)" by fastforce
    have step: "forM (x # xs) (flushOne E) d = (r2, d2)" using x Inr d2 by (simp add: bindM_def)
    show ?thesis
    proof (cases r2)
      case (Inl e)
      with Cons.IH [OF d1(2)] d2 d1(1) obtain written where
        "fault e" "prefix written xs" "held (pk_store d2) = fold flush_entry (x # written) (held (pk_store d))" by auto
      then show ?thesis unfolding step Inl by (auto intro!: exI [of _ "x # written"])
    next
      case (Inr u)
      with Cons.IH [OF d1(2)] d2 d1(1) show ?thesis unfolding step by simp
    qed
  qed
qed simp

section \<open>Properties\<close>

text \<open>
  C6: An open Pebble store is the in-memory store with the same contents: every read returns what
  \<open>MemKV\<close> returns, every write leaves what \<open>MemKV\<close> leaves, and a prefix scan comes to an end with the
  entries \<open>MemKV\<close> returns, in the same order, although it stops at the first key outside the prefix.
  The only other outcome is an error of the engine.
\<close>

theorem PebbleKV_refines_MemKV:
  assumes "pebble_ok E held left" "\<not> pk_closed d"
  shows "((\<exists>e. fault e \<and> PebbleKV_Get E d k = Inl e) \<or> PebbleKV_Get E d k = MemKV_Get (held (pk_store d)) k) \<and>
    ((\<exists>e. fault e \<and> PebbleKV_Has E d k = Inl e) \<or> PebbleKV_Has E d k = MemKV_Has (held (pk_store d)) k) \<and>
    ((\<exists>e d'. fault e \<and> PebbleKV_Put E k v d = (Inl e, d')) \<or>
      (\<exists>d'. PebbleKV_Put E k v d = (Inr (), d') \<and> held (pk_store d') = MemKV_Put (held (pk_store d)) k v \<and> \<not> pk_closed d')) \<and>
    ((\<exists>e d'. fault e \<and> PebbleKV_Delete E k d = (Inl e, d')) \<or>
      (\<exists>d'. PebbleKV_Delete E k d = (Inr (), d') \<and> held (pk_store d') = MemKV_Delete (held (pk_store d)) k \<and> \<not> pk_closed d')) \<and>
    (\<exists>r. PebbleKV_Scan E d p = Some r \<and> ((\<exists>e. fault e \<and> r = Inl e) \<or> r = MemKV_Scan (held (pk_store d)) p))"
    (is "?get \<and> ?has \<and> ?put \<and> ?delete \<and> ?scan")
proof (intro conjI)
  show ?get by (rule PebbleKV_Get_cases [OF assms])
  then show ?has
    by (auto simp: PebbleKV_Has_def MemKV_Has_def MemKV_Get_def fault_def split: option.splits sum.splits)
  show ?put using PebbleKV_Put_ok [OF assms, of k v] assms(2)
    by (auto simp: write_ok_def PebbleKV_Put_def onEngine_def split: prod.splits sum.splits)
  show ?delete using PebbleKV_Delete_ok [OF assms, of k] assms(2)
    by (auto simp: write_ok_def PebbleKV_Delete_def onEngine_def split: prod.splits sum.splits)
  obtain r where "PebbleKV_Scan E d p = Some r" "case r of Inl e \<Rightarrow> fault e | Inr xs \<Rightarrow> xs = entries (held (pk_store d)) p"
    using PebbleKV_Scan_entries [OF assms, of p] by blast
  then show ?scan by (cases r) (simp_all add: MemKV_Scan_def)
qed

text \<open>
  C7: Committing the only open session to a Pebble store is not atomic. A commit that succeeds leaves
  what \<open>Commit\<close> leaves over \<open>MemKV\<close>; one that fails has dropped the session and written the
  writes the loop had reached, so the rest of the session is in neither.
\<close>

theorem PebbleCommit_may_tear:
  assumes "pebble_ok E held left" "\<not> pk_closed (pd_base d)" "pd_sessions d = [w]"
    and "distinct (map fst (ord w))" "set (ord w) = set (sorted_list_of_fmap w)"
  shows "case PebbleCommit E ord d of
      (Inr b, d') \<Rightarrow> b \<and> pd_sessions d' = [] \<and>
        (True, \<lparr>db_base = held (pk_store (pd_base d')), db_sessions = []\<rparr>) = Commit \<lparr>db_base = held (pk_store (pd_base d)), db_sessions = [w]\<rparr>
    | (Inl e, d') \<Rightarrow> fault e \<and> pd_sessions d' = [] \<and>
        (\<exists>written. prefix written (ord w) \<and> held (pk_store (pd_base d')) = fold flush_entry written (held (pk_store (pd_base d))))"
  using flush_runs [OF assms(1,2), of "ord w"] fold_writes_perm [OF assms(4) _ assms(5)] assms(3)
  by (auto simp: PebbleCommit_def Commit_def split: prod.splits sum.splits)

section \<open>Witnesses\<close>

text \<open>An engine with room for a number of writes; an iterator is the list of the entries before it.\<close>

definition diskEngine :: "(MemKV \<times> nat, (bytes \<times> bytes) list) engine" where
  "diskEngine = \<lparr>pe_Get = (\<lambda>s k. case fmlookup (fst s) k of None \<Rightarrow> Inl pebbleErrNotFound | Some v \<Rightarrow> Inr v),
     pe_Set = (\<lambda>k v s. case snd s of 0 \<Rightarrow> (Inl (Err ''no space left on device''), s) | Suc n \<Rightarrow> (Inr (), (fmupd k v (fst s), n))),
     pe_Delete = (\<lambda>k s. case snd s of 0 \<Rightarrow> (Inl (Err ''no space left on device''), s) | Suc n \<Rightarrow> (Inr (), (fmdrop k (fst s), n))),
     pe_NewIter = (\<lambda>s. Inr (sorted_list_of_fmap (fst s))), pe_SeekGE = (\<lambda>p. dropWhile (\<lambda>x. fst x < p)),
     pe_Valid = (\<lambda>it. it \<noteq> []), pe_Key = (\<lambda>it. fst (hd it)), pe_Value = (\<lambda>it. snd (hd it)), pe_Next = tl,
     pe_Error = (\<lambda>_. None), pe_Close = (\<lambda>s. (Inr (), s))\<rparr>"

lemma diskEngine_ok: "pebble_ok diskEngine fst (\<lambda>it. it)"
  by (simp add: pebble_ok_def write_ok_def diskEngine_def fault_def ErrClosed_def pebbleErrNotFound_def split: option.split nat.split)

definition diskKV :: "nat \<Rightarrow> (bytes \<times> bytes) list \<Rightarrow> (MemKV \<times> nat) PebbleKV" where
  "diskKV room xs = \<lparr>pk_store = (fmap_of_list xs, room), pk_closed = False\<rparr>"

theorem PebbleKV_refines_MemKV_witness:
  "\<exists>r. PebbleKV_Scan diskEngine (diskKV 5 [([2], [9]), ([1, 2], [8]), ([1], [7]), ([0, 1], [6])]) [1] = Some r \<and>
     ((\<exists>e. fault e \<and> r = Inl e) \<or> r = Inr [([1], [7]), ([1, 2], [8])])"
proof -
  let ?d = "diskKV 5 [([2], [9]), ([1, 2], [8]), ([1], [7]), ([0, 1], [6])]"
  have "MemKV_Scan (fst (pk_store ?d)) [1] = Inr [([1], [7]), ([1, 2], [8])]"
  proof -
    have "[([1], [7]), ([1, 2], [8])] = entries (fst (pk_store ?d)) [1]"
      by (rule memkv.Scan_determined [OF MemKV_Scan_def])
        (auto simp: diskKV_def fmlookup_of_list has_prefix_def split: if_splits)
    then show ?thesis by (simp add: MemKV_Scan_def)
  qed
  then show ?thesis using PebbleKV_refines_MemKV [OF diskEngine_ok, of ?d "[1]" _ "[1]"] by (simp add: diskKV_def)
qed

text \<open>Two writes and room for one.\<close>

definition tornSession :: "(bytes \<times> entry) list" where
  "tornSession = [([1], \<lparr>en_value = [7], en_deleted = False\<rparr>), ([2], \<lparr>en_value = [8], en_deleted = False\<rparr>)]"

definition tornDb :: "(MemKV \<times> nat) PebbleDatabase" where
  "tornDb = \<lparr>pd_base = diskKV 1 [], pd_sessions = [fmap_of_list tornSession]\<rparr>"

theorem PebbleCommit_may_tear_witness:
  "\<exists>e d'. PebbleCommit diskEngine (\<lambda>_. tornSession) tornDb = (Inl e, d') \<and> pd_sessions d' = [] \<and>
     (\<exists>written. prefix written tornSession \<and> fst (pk_store (pd_base d')) = fold flush_entry written fmempty) \<and>
     fmlookup (fst (pk_store (pd_base d'))) [1] = Some [7] \<and> fmlookup (fst (pk_store (pd_base d'))) [2] = None"
proof -
  have "distinct (map fst tornSession)" "set tornSession = set (sorted_list_of_fmap (fmap_of_list tornSession))"
    by (auto simp: tornSession_def fmlookup_of_list split: if_splits)
  from PebbleCommit_may_tear [OF diskEngine_ok, of tornDb "fmap_of_list tornSession" "\<lambda>_. tornSession", OF _ _ this]
  show ?thesis
    by (auto simp: tornDb_def diskKV_def PebbleCommit_def tornSession_def flushOne_def PebbleKV_Put_def onEngine_def diskEngine_def bindM_def)
qed

end
