(* ===== verification/Opcodes.thy ===== *)
theory Opcodes
  imports Tvm_Interp
begin

text \<open>
  The names of the instructions (\<open>internal/tvm/opcodes.go\<close>) against the jump table. Of the PUSH, DUP and SWAP
  families the source names the ends of the range.
\<close>

definition opcodes :: "(string \<times> nat) list" where
  "opcodes = [
     (''STOP'', 0x00), (''ADD'', 0x01), (''MUL'', 0x02), (''SUB'', 0x03), (''DIV'', 0x04), (''SDIV'', 0x05),
     (''MOD'', 0x06), (''SMOD'', 0x07), (''ADDMOD'', 0x08), (''MULMOD'', 0x09), (''EXP'', 0x0a),
     (''SIGNEXTEND'', 0x0b), (''LT'', 0x10), (''GT'', 0x11), (''SLT'', 0x12), (''SGT'', 0x13), (''EQ'', 0x14),
     (''ISZERO'', 0x15), (''AND'', 0x16), (''OR'', 0x17), (''XOR'', 0x18), (''NOT'', 0x19), (''BYTE'', 0x1a),
     (''SHL'', 0x1b), (''SHR'', 0x1c), (''SAR'', 0x1d), (''KECCAK256'', 0x20), (''ADDRESS'', 0x30),
     (''BALANCE'', 0x31), (''ORIGIN'', 0x32), (''CALLER'', 0x33), (''CALLVALUE'', 0x34), (''CALLDATALOAD'', 0x35),
     (''CALLDATASIZE'', 0x36), (''CALLDATACOPY'', 0x37), (''CODESIZE'', 0x38), (''CODECOPY'', 0x39),
     (''GASPRICE'', 0x3a), (''EXTCODESIZE'', 0x3b), (''EXTCODECOPY'', 0x3c), (''RETURNDATASIZE'', 0x3d),
     (''RETURNDATACOPY'', 0x3e), (''EXTCODEHASH'', 0x3f), (''BLOCKHASH'', 0x40), (''COINBASE'', 0x41),
     (''TIMESTAMP'', 0x42), (''NUMBER'', 0x43), (''DIFFICULTY'', 0x44), (''GASLIMIT'', 0x45), (''CHAINID'', 0x46),
     (''SELFBALANCE'', 0x47), (''POP'', 0x50), (''MLOAD'', 0x51), (''MSTORE'', 0x52), (''MSTORE8'', 0x53),
     (''SLOAD'', 0x54), (''SSTORE'', 0x55), (''JUMP'', 0x56), (''JUMPI'', 0x57), (''PC'', 0x58), (''MSIZE'', 0x59),
     (''GAS'', 0x5a), (''JUMPDEST'', 0x5b), (''PUSH1'', 0x60), (''PUSH32'', 0x7f), (''DUP1'', 0x80), (''DUP16'', 0x8f),
     (''SWAP1'', 0x90), (''SWAP16'', 0x9f), (''LOG0'', 0xa0), (''LOG1'', 0xa1), (''LOG2'', 0xa2), (''LOG3'', 0xa3),
     (''LOG4'', 0xa4), (''CALLTOKEN'', 0xd0), (''TOKENBALANCE'', 0xd1), (''CALLTOKENVALUE'', 0xd2),
     (''CALLTOKENID'', 0xd3), (''ISCONTRACT'', 0xd4), (''FREEZE'', 0xd5), (''UNFREEZE'', 0xd6),
     (''FREEZEEXPIRETIME'', 0xd7), (''VOTEWITNESS'', 0xd8), (''WITHDRAWREWARD'', 0xd9), (''FREEZEBALANCEV2'', 0xda),
     (''UNFREEZEBALANCEV2'', 0xdb), (''CANCELALLUNFREEZEV2'', 0xdc), (''WITHDRAWEXPIREUNFREEZE'', 0xdd),
     (''DELEGATERESOURCE'', 0xde), (''UNDELEGATERESOURCE'', 0xdf), (''CREATE'', 0xf0), (''CALL'', 0xf1),
     (''CALLCODE'', 0xf2), (''RETURN'', 0xf3), (''DELEGATECALL'', 0xf4), (''CREATE2'', 0xf5), (''STATICCALL'', 0xfa),
     (''REVERT'', 0xfd), (''INVALID'', 0xfe), (''SELFDESTRUCT'', 0xff)]"

definition families :: "(string \<times> string) list" where
  "families = [(''PUSH1'', ''PUSH32''), (''DUP1'', ''DUP16''), (''SWAP1'', ''SWAP16'')]"

text \<open>The bytes the source gives a name or has in one of the families.\<close>

definition named :: "nat list" where
  "named = map snd opcodes @
     concat (map (\<lambda>(a, b). case (map_of opcodes a, map_of opcodes b) of (Some i, Some j) \<Rightarrow> [i..<j + 1] | _ \<Rightarrow> []) families)"

definition unimplemented :: "string list" where
  "unimplemented = [''BLOCKHASH'', ''CALLTOKEN'', ''SELFDESTRUCT'']"

text \<open>Names and bytes are in one-to-one correspondence.\<close>

lemma opcodes_distinct: "distinct (map fst opcodes)" "distinct (map snd opcodes)"
  by (simp_all add: opcodes_def)

definition tableKeys :: "nat list" where
  "tableKeys = map fst (arithTable @ envTable @ flowTable @ rangeTable @ callTable @ (stakingTable :: (nat \<times> unit operation) list))"

lemma tableKeys_poly:
  "map fst (arithTable @ envTable @ flowTable @ rangeTable @ callTable @ (stakingTable :: (nat \<times> 's operation) list)) = tableKeys"
  by (simp add: tableKeys_def arithTable_def envTable_def flowTable_def rangeTable_def callTable_def stakingTable_def comp_def)

lemma tableKeys_distinct: "distinct tableKeys"
  by (simp add: tableKeys_def arithTable_def envTable_def flowTable_def rangeTable_def callTable_def stakingTable_def comp_def upt_rec)

lemma tableKeys_eq: "tableKeys = [0x00..<0x0c] @ [0x10..<0x1e] @ [0x20] @ [0x30..<0x40] @ [0x41..<0x48] @ [0x50..<0x5c] @
    [0x60..<0xa5] @ [0xd1..<0xd5] @ [0xf0..<0xf6] @ [0xfa, 0xfd, 0xfe] @ [0xd5..<0xe0]"
  by (simp add: tableKeys_def arithTable_def envTable_def flowTable_def rangeTable_def callTable_def stakingTable_def comp_def upt_rec)

lemma opcode_bytes: "map snd opcodes = [0x00..<0x0c] @ [0x10..<0x1e] @ [0x20] @ [0x30..<0x48] @ [0x50..<0x5c] @
    [0x60, 0x7f, 0x80, 0x8f, 0x90, 0x9f] @ [0xa0..<0xa5] @ [0xd0..<0xe0] @ [0xf0..<0xf6] @ [0xfa, 0xfd, 0xfe, 0xff]"
  by (simp add: opcodes_def upt_rec)

lemma family_bytes:
  "concat (map (\<lambda>(a, b). case (map_of opcodes a, map_of opcodes b) of (Some i, Some j) \<Rightarrow> [i..<j + 1] | _ \<Rightarrow> []) families) =
     [0x60..<0x80] @ [0x80..<0x90] @ [0x90..<0xa0]"
  by (simp add: families_def opcodes_def)

lemma unimplemented_bytes: "List.map_filter (map_of opcodes) unimplemented = [0x40, 0xd0, 0xff]"
  by (simp add: unimplemented_def opcodes_def List.map_filter_simps)

lemma named_table: "set named - set (List.map_filter (map_of opcodes) unimplemented) = set tableKeys"
proof -
  have "x \<in> set named - set (List.map_filter (map_of opcodes) unimplemented) \<longleftrightarrow> x \<in> set tableKeys" for x
    unfolding named_def opcode_bytes family_bytes unimplemented_bytes tableKeys_eq set_append set_upt Un_iff Diff_iff atLeastLessThan_iff list.set
      insert_iff empty_iff
    by presburger
  then show ?thesis by blast
qed

text \<open>
  The machine executes exactly the named instructions, except for three that have a name and no
  entry: BLOCKHASH, CALLTOKEN and SELFDESTRUCT are invalid opcodes here.
\<close>

theorem table_covers_opcodes:
  "opTable op \<noteq> (None :: 's operation option) \<longleftrightarrow> unat op \<in> set named - set (List.map_filter (map_of opcodes) unimplemented)"
  unfolding named_table tableKeys_poly [where ?'s = 's, symmetric] opTable_def by (simp add: map_of_eq_None_iff)

end
