(* ===== verification/Tx_Extension.thy ===== *)
theory Tx_Extension
  imports Merkle_Block
begin

text \<open>
  The hand-written methods of \<open>TransactionExtention\<close> (\<open>internal/proto/api/api_extension.go\<close>): a client sets the
  memo or the permission of a transaction it is about to sign, and the id is recomputed. The receiver and
  its nested messages are pointers that may be nil, also the contracts in the list. \<open>marshal\<close> is the
  protobuf runtime.
\<close>

record ExtContract =
  xc_PermissionId :: int32
  xc_rest :: bytes

record ExtRaw =
  xr_Data :: bytes
  xr_Contract :: "ExtContract option list"
  xr_rest :: bytes

record ExtTransaction =
  xt_RawData :: "ExtRaw option"
  xt_rest :: bytes

record TransactionExtention =
  te_Transaction :: "ExtTransaction option"
  te_Txid :: bytes
  te_rest :: bytes

definition emptyRaw :: ExtRaw where "emptyRaw = \<lparr>xr_Data = [], xr_Contract = [], xr_rest = []\<rparr>"
definition emptyTransaction :: ExtTransaction where "emptyTransaction = \<lparr>xt_RawData = None, xt_rest = []\<rparr>"

definition rawOf :: "TransactionExtention \<Rightarrow> ExtRaw option" where
  "rawOf x = (case te_Transaction x of None \<Rightarrow> None | Some t \<Rightarrow> xt_RawData t)"

definition setRaw :: "ExtRaw \<Rightarrow> TransactionExtention \<Rightarrow> TransactionExtention" where
  "setRaw r x = x\<lparr>te_Transaction := map_option (\<lambda>t. t\<lparr>xt_RawData := Some r\<rparr>) (te_Transaction x)\<rparr>"

text \<open>Missing messages are created before anything else is looked at, also when the call then fails.\<close>

definition ensureRaw :: "TransactionExtention \<Rightarrow> TransactionExtention" where
  "ensureRaw x =
     (let x1 = (if te_Transaction x = None then x\<lparr>te_Transaction := Some emptyTransaction\<rparr> else x) in
      if rawOf x1 = None then setRaw emptyRaw x1 else x1)"

definition UpdateHash :: "(ExtRaw \<Rightarrow> bytes result) \<Rightarrow> (TransactionExtention option, unit) op" where
  "UpdateHash marshal x =
     (case x of
        None \<Rightarrow> (Inl (Err ''TransactionExtention or Transaction or RawData is nil''), x)
      | Some e \<Rightarrow> (case rawOf e of
          None \<Rightarrow> (Inl (Err ''TransactionExtention or Transaction or RawData is nil''), x)
        | Some r \<Rightarrow> (case marshal r of Inl err \<Rightarrow> (Inl err, x) | Inr rawData \<Rightarrow> (Inr (), Some (e\<lparr>te_Txid := Sha256 [rawData]\<rparr>)))))"

definition SetData :: "(ExtRaw \<Rightarrow> bytes result) \<Rightarrow> bytes \<Rightarrow> (TransactionExtention option, unit) op" where
  "SetData marshal memo x =
     (case x of
        None \<Rightarrow> (Inl (Err ''TransactionExtention is nil''), x)
      | Some e0 \<Rightarrow> (let e = ensureRaw e0; r = the (rawOf e) in
          if length (xr_Data r) \<noteq> 0 then (Inl (Err ''memo is already set''), Some e)
          else UpdateHash marshal (Some (setRaw (r\<lparr>xr_Data := memo\<rparr>) e))))"

text \<open>The loop over the contracts; a nil one panics, and those before it have been set.\<close>

fun setPermission :: "int32 \<Rightarrow> ExtContract option list \<Rightarrow> unit result \<times> ExtContract option list" where
  "setPermission i [] = (Inr (), [])"
| "setPermission i (None # cs) = (Inl (Panic ''nil pointer dereference''), None # cs)"
| "setPermission i (Some c # cs) = (case setPermission i cs of (r, cs') \<Rightarrow> (r, Some (c\<lparr>xc_PermissionId := i\<rparr>) # cs'))"

definition SetPermissionId :: "(ExtRaw \<Rightarrow> bytes result) \<Rightarrow> int32 \<Rightarrow> (TransactionExtention option, unit) op" where
  "SetPermissionId marshal i x =
     (case x of
        None \<Rightarrow> (Inl (Err ''TransactionExtention is nil''), x)
      | Some e0 \<Rightarrow> (let e = ensureRaw e0; r = the (rawOf e) in
          case setPermission i (xr_Contract r) of
            (Inl err, cs) \<Rightarrow> (Inl err, Some (setRaw (r\<lparr>xr_Contract := cs\<rparr>) e))
          | (Inr _, cs) \<Rightarrow> UpdateHash marshal (Some (setRaw (r\<lparr>xr_Contract := cs\<rparr>) e))))"

section \<open>The id always matches the data\<close>

definition idMatches :: "(ExtRaw \<Rightarrow> bytes result) \<Rightarrow> TransactionExtention \<Rightarrow> bool" where
  "idMatches marshal e \<longleftrightarrow> (\<exists>r b. rawOf e = Some r \<and> marshal r = Inr b \<and> te_Txid e = Sha256 [b])"

lemma rawOf_ensureRaw: "\<exists>r. rawOf (ensureRaw e) = Some r \<and> (\<forall>r0. rawOf e = Some r0 \<longrightarrow> r = r0)"
  by (auto simp: ensureRaw_def rawOf_def setRaw_def emptyTransaction_def Let_def split: option.splits)

lemma rawOf_setRaw [simp]: "rawOf e \<noteq> None \<Longrightarrow> rawOf (setRaw r e) = Some r"
  by (auto simp: rawOf_def setRaw_def split: option.splits)

lemma rawOf_Txid [simp]: "rawOf (e\<lparr>te_Txid := t\<rparr>) = rawOf e"
  by (simp add: rawOf_def)

lemma UpdateHash_ok:
  "UpdateHash marshal x = (Inr (), x') \<Longrightarrow> \<exists>e e'. x = Some e \<and> x' = Some e' \<and> idMatches marshal e' \<and> rawOf e' = rawOf e"
  by (auto simp: UpdateHash_def idMatches_def split: option.splits sum.splits)

lemma SetData_ok:
  assumes "SetData marshal memo x = (Inr (), x')"
  shows "\<exists>e r. x' = Some e \<and> idMatches marshal e \<and> rawOf e = Some r \<and> xr_Data r = memo"
proof -
  obtain e0 where x: "x = Some e0" using assms by (auto simp: SetData_def split: option.splits)
  obtain r where r: "rawOf (ensureRaw e0) = Some r" using rawOf_ensureRaw by blast
  with assms x have "UpdateHash marshal (Some (setRaw (r\<lparr>xr_Data := memo\<rparr>) (ensureRaw e0))) = (Inr (), x')"
    by (auto simp: SetData_def Let_def split: if_splits)
  from UpdateHash_ok [OF this] r show ?thesis by auto
qed

lemma SetData_twice:
  assumes "SetData marshal memo x = (Inr (), x')" "memo \<noteq> []"
  shows "SetData marshal memo2 x' = (Inl (Err ''memo is already set''), x')"
proof -
  obtain e r where e: "x' = Some e" "rawOf e = Some r" "xr_Data r = memo" using SetData_ok [OF assms(1)] by blast
  then have "ensureRaw e = e" by (auto simp: ensureRaw_def rawOf_def split: option.splits)
  with e assms(2) show ?thesis by (simp add: SetData_def)
qed

lemma setPermission_ok: "setPermission i cs = (Inr (), cs') \<Longrightarrow> \<forall>c \<in> set cs'. \<exists>k. c = Some k \<and> xc_PermissionId k = i"
  by (induction i cs arbitrary: cs' rule: setPermission.induct) (auto split: prod.splits)

lemma SetPermissionId_ok:
  assumes "SetPermissionId marshal i x = (Inr (), x')"
  shows "\<exists>e r. x' = Some e \<and> idMatches marshal e \<and> rawOf e = Some r \<and> (\<forall>c \<in> set (xr_Contract r). \<exists>k. c = Some k \<and> xc_PermissionId k = i)"
proof -
  obtain e0 where x: "x = Some e0" using assms by (auto simp: SetPermissionId_def split: option.splits)
  obtain r where r: "rawOf (ensureRaw e0) = Some r" using rawOf_ensureRaw by blast
  with assms x obtain cs where cs: "setPermission i (xr_Contract r) = (Inr (), cs)"
    "UpdateHash marshal (Some (setRaw (r\<lparr>xr_Contract := cs\<rparr>) (ensureRaw e0))) = (Inr (), x')"
    by (auto simp: SetPermissionId_def Let_def split: prod.splits sum.splits)
  from UpdateHash_ok [OF cs(2)] r setPermission_ok [OF cs(1)] show ?thesis by auto
qed

end
