(* ===== verification/Vm_State.thy ===== *)
theory Vm_State
  imports Actuator_Base Tvm_Rollback
begin

text \<open>
  \<open>internal/actuator/vm_statedb.go\<close>: the per-transaction working copy the machine runs on. Reads fall
  through to the chain stores and then to the optional historical provider, writes stay in the dirty
  layer until \<open>Flush\<close>. The stores are not written during execution, so every operation takes the
  database it reads as an argument and only \<open>Flush\<close> changes it. The theory shows that the working
  copy meets the contract \<open>state_db\<close> of the interpreter.
\<close>

section \<open>Working copy\<close>

record vmAccount =
  va_balance :: u256
  va_nonce :: uint64
  va_code :: bytes
  va_storage :: "(bytes, bytes) fmap"
  va_loadedSlot :: "bytes fset"
  va_dirtySlot :: "bytes fset"
  va_balDirty :: bool
  va_codeDirty :: bool
  va_exists :: bool

record vmStateDB =
  vm_dirty :: "(bytes, vmAccount) fmap"
  vm_snaps :: "(bytes, vmAccount) fmap list"

text \<open>What the working copy reads from: the node stores and the provider.\<close>

record vmSource =
  so_codec :: codec
  so_db :: Database
  so_provider :: "StateProvider option"

definition newVMStateDB :: vmStateDB where
  "newVMStateDB = \<lparr>vm_dirty = fmempty, vm_snaps = []\<rparr>"

definition provided :: "vmSource \<Rightarrow> (StateProvider \<Rightarrow> 'a option) \<Rightarrow> 'a option" where
  "provided src q = (case so_provider src of None \<Rightarrow> None | Some p \<Rightarrow> q p)"

definition baseBalance :: "vmSource \<Rightarrow> bytes \<Rightarrow> int64 option" where
  "baseBalance src addr = (case AccountStore_Get (so_codec src) (so_db src) addr of
     Inr acct \<Rightarrow> Some (ac_Balance acct) | Inl _ \<Rightarrow> provided src (\<lambda>p. sp_Balance p addr))"

definition baseCode :: "vmSource \<Rightarrow> bytes \<Rightarrow> bytes option" where
  "baseCode src addr = (case ContractStore_GetCode (so_db src) addr of
     Inr code \<Rightarrow> Some code | Inl _ \<Rightarrow> provided src (\<lambda>p. sp_Code p addr))"

definition baseSlot :: "vmSource \<Rightarrow> bytes \<Rightarrow> bytes \<Rightarrow> bytes option" where
  "baseSlot src addr key = (case StorageStore_Get (so_db src) addr key of
     Inr (v, True) \<Rightarrow> Some v | _ \<Rightarrow> provided src (\<lambda>p. sp_Storage p addr key))"

text \<open>The account \<open>load\<close> builds on first touch.\<close>

definition vm_fresh :: "vmSource \<Rightarrow> bytes \<Rightarrow> vmAccount" where
  "vm_fresh src addr = \<lparr>va_balance = (case baseBalance src addr of None \<Rightarrow> 0 | Some b \<Rightarrow> ucast b), va_nonce = 0,
     va_code = (case baseCode src addr of None \<Rightarrow> [] | Some c \<Rightarrow> c),
     va_storage = fmempty, va_loadedSlot = {||}, va_dirtySlot = {||}, va_balDirty = False, va_codeDirty = False,
     va_exists = (baseBalance src addr \<noteq> None \<or> baseCode src addr \<noteq> None)\<rparr>"

definition vm_load :: "vmSource \<Rightarrow> bytes \<Rightarrow> vmStateDB \<Rightarrow> vmAccount \<times> vmStateDB" where
  "vm_load src addr s =
     (case fmlookup (vm_dirty s) addr of
        Some a \<Rightarrow> (a, s)
      | None \<Rightarrow> let a = vm_fresh src addr in (a, s\<lparr>vm_dirty := fmupd addr a (vm_dirty s)\<rparr>))"

text \<open>An observation of the loaded account, and a mutation through the pointer \<open>load\<close> returns.\<close>

definition vm_view :: "vmSource \<Rightarrow> (vmAccount \<Rightarrow> 'a) \<Rightarrow> bytes \<Rightarrow> vmStateDB \<Rightarrow> 'a \<times> vmStateDB" where
  "vm_view src g addr s = (case vm_load src addr s of (a, s') \<Rightarrow> (g a, s'))"

definition vm_modify :: "vmSource \<Rightarrow> (vmAccount \<Rightarrow> vmAccount) \<Rightarrow> bytes \<Rightarrow> vmStateDB \<Rightarrow> vmStateDB" where
  "vm_modify src f addr s = (case vm_load src addr s of (a, s') \<Rightarrow> s'\<lparr>vm_dirty := fmupd addr (f a) (vm_dirty s')\<rparr>)"

definition vm_Exist :: "vmSource \<Rightarrow> bytes \<Rightarrow> vmStateDB \<Rightarrow> bool \<times> vmStateDB" where
  "vm_Exist src = vm_view src va_exists"

definition vm_CreateAccount :: "vmSource \<Rightarrow> bytes \<Rightarrow> vmStateDB \<Rightarrow> vmStateDB" where
  "vm_CreateAccount src = vm_modify src (\<lambda>a. a\<lparr>va_balDirty := True, va_exists := True\<rparr>)"

definition vm_GetBalance :: "vmSource \<Rightarrow> bytes \<Rightarrow> vmStateDB \<Rightarrow> u256 \<times> vmStateDB" where
  "vm_GetBalance src = vm_view src va_balance"

definition vm_AddBalance :: "vmSource \<Rightarrow> bytes \<Rightarrow> u256 \<Rightarrow> vmStateDB \<Rightarrow> vmStateDB" where
  "vm_AddBalance src addr amount = vm_modify src (\<lambda>a. a\<lparr>va_balance := va_balance a + amount, va_balDirty := True,
     va_exists := True\<rparr>) addr"

definition vm_SubBalance :: "vmSource \<Rightarrow> bytes \<Rightarrow> u256 \<Rightarrow> vmStateDB \<Rightarrow> vmStateDB" where
  "vm_SubBalance src addr amount = vm_modify src (\<lambda>a. a\<lparr>va_balance := va_balance a - amount, va_balDirty := True,
     va_exists := True\<rparr>) addr"

definition vm_GetNonce :: "vmSource \<Rightarrow> bytes \<Rightarrow> vmStateDB \<Rightarrow> uint64 \<times> vmStateDB" where
  "vm_GetNonce src = vm_view src va_nonce"

definition vm_SetNonce :: "vmSource \<Rightarrow> bytes \<Rightarrow> uint64 \<Rightarrow> vmStateDB \<Rightarrow> vmStateDB" where
  "vm_SetNonce src addr n = vm_modify src (\<lambda>a. a\<lparr>va_nonce := n\<rparr>) addr"

definition vm_GetCode :: "vmSource \<Rightarrow> bytes \<Rightarrow> vmStateDB \<Rightarrow> bytes \<times> vmStateDB" where
  "vm_GetCode src = vm_view src va_code"

definition vm_SetCode :: "vmSource \<Rightarrow> bytes \<Rightarrow> bytes \<Rightarrow> vmStateDB \<Rightarrow> vmStateDB" where
  "vm_SetCode src addr code = vm_modify src (\<lambda>a. a\<lparr>va_code := code, va_codeDirty := True, va_exists := True\<rparr>) addr"

definition vm_GetCodeHash :: "vmSource \<Rightarrow> (bytes \<Rightarrow> bytes) \<Rightarrow> bytes \<Rightarrow> vmStateDB \<Rightarrow> bytes \<times> vmStateDB" where
  "vm_GetCodeHash src keccak = vm_view src (\<lambda>a. if \<not> va_exists a then replicate 32 0 else fix32 (keccak (va_code a)))"

definition vm_GetCodeSize :: "vmSource \<Rightarrow> bytes \<Rightarrow> vmStateDB \<Rightarrow> nat \<times> vmStateDB" where
  "vm_GetCodeSize src = vm_view src (\<lambda>a. length (va_code a))"

definition vm_GetStorage :: "vmSource \<Rightarrow> bytes \<Rightarrow> bytes \<Rightarrow> vmStateDB \<Rightarrow> (bytes \<times> bool) \<times> vmStateDB" where
  "vm_GetStorage src addr key s =
     (case vm_load src addr s of (a, s') \<Rightarrow>
       case fmlookup (va_storage a) key of
         Some v \<Rightarrow> ((v, True), s')
       | None \<Rightarrow>
           if key |\<in>| va_loadedSlot a then ((replicate 32 0, False), s')
           else let a1 = a\<lparr>va_loadedSlot := finsert key (va_loadedSlot a)\<rparr> in
             case baseSlot src addr key of
               Some v \<Rightarrow> ((v, True), s'\<lparr>vm_dirty := fmupd addr (a1\<lparr>va_storage := fmupd key v (va_storage a1)\<rparr>) (vm_dirty s')\<rparr>)
             | None \<Rightarrow> ((replicate 32 0, False), s'\<lparr>vm_dirty := fmupd addr a1 (vm_dirty s')\<rparr>))"

definition vm_SetStorage :: "vmSource \<Rightarrow> bytes \<Rightarrow> bytes \<Rightarrow> bytes \<Rightarrow> vmStateDB \<Rightarrow> vmStateDB" where
  "vm_SetStorage src addr key v = vm_modify src (\<lambda>a. a\<lparr>va_storage := fmupd key v (va_storage a),
     va_loadedSlot := finsert key (va_loadedSlot a), va_dirtySlot := finsert key (va_dirtySlot a), va_exists := True\<rparr>) addr"

definition vm_Snapshot :: "vmStateDB \<Rightarrow> nat \<times> vmStateDB" where
  "vm_Snapshot s = (length (vm_snaps s), s\<lparr>vm_snaps := vm_snaps s @ [vm_dirty s]\<rparr>)"

definition vm_RevertToSnapshot :: "nat \<Rightarrow> vmStateDB \<Rightarrow> vmStateDB" where
  "vm_RevertToSnapshot i s =
     (if i \<ge> length (vm_snaps s) then s else s\<lparr>vm_dirty := vm_snaps s ! i, vm_snaps := take i (vm_snaps s)\<rparr>)"

definition vmDB :: "vmSource \<Rightarrow> (bytes \<Rightarrow> bytes) \<Rightarrow> vmStateDB StateDB" where
  "vmDB src keccak = \<lparr>sd_Exist = vm_Exist src, sd_CreateAccount = vm_CreateAccount src, sd_GetBalance = vm_GetBalance src,
     sd_AddBalance = vm_AddBalance src, sd_SubBalance = vm_SubBalance src, sd_GetNonce = vm_GetNonce src,
     sd_SetNonce = vm_SetNonce src, sd_GetCode = vm_GetCode src, sd_SetCode = vm_SetCode src,
     sd_GetCodeHash = vm_GetCodeHash src keccak, sd_GetCodeSize = vm_GetCodeSize src, sd_GetStorage = vm_GetStorage src,
     sd_SetStorage = vm_SetStorage src, sd_Snapshot = vm_Snapshot, sd_RevertToSnapshot = vm_RevertToSnapshot\<rparr>"

section \<open>The working copy meets the interpreter's contract\<close>

text \<open>What a loaded account stands for: an uncached slot still has its stored value.\<close>

definition abs_vm :: "vmSource \<Rightarrow> bytes \<Rightarrow> vmAccount \<Rightarrow> AbsAccount" where
  "abs_vm src addr a = \<lparr>aa_exists = va_exists a, aa_balance = va_balance a, aa_nonce = va_nonce a, aa_code = va_code a,
     aa_storage = (\<lambda>k. case fmlookup (va_storage a) k of Some v \<Rightarrow> Some v
       | None \<Rightarrow> if k |\<in>| va_loadedSlot a then None else baseSlot src addr k)\<rparr>"

definition vm_peek :: "vmSource \<Rightarrow> (bytes, vmAccount) fmap \<Rightarrow> bytes \<Rightarrow> vmAccount" where
  "vm_peek src m addr = (case fmlookup m addr of None \<Rightarrow> vm_fresh src addr | Some a \<Rightarrow> a)"

definition vm_accts :: "vmSource \<Rightarrow> (bytes, vmAccount) fmap \<Rightarrow> bytes \<Rightarrow> AbsAccount" where
  "vm_accts src m addr = abs_vm src addr (vm_peek src m addr)"

lemma vm_load_simps [simp]:
  "fst (vm_load src addr s) = vm_peek src (vm_dirty s) addr"
  "vm_snaps (snd (vm_load src addr s)) = vm_snaps s"
  "vm_peek src (vm_dirty (snd (vm_load src addr s))) = vm_peek src (vm_dirty s)"
  by (auto simp: vm_load_def vm_peek_def Let_def fun_eq_iff split: option.splits)

lemma vm_peek_upd [simp]: "vm_peek src (fmupd addr a m) = (vm_peek src m)(addr := a)"
  by (auto simp: vm_peek_def)

lemma vm_accts_upd [simp]: "vm_accts src (fmupd addr a m) = (vm_accts src m)(addr := abs_vm src addr a)"
  by (auto simp: vm_accts_def)

lemma vm_accts_load [simp]: "vm_accts src (vm_dirty (snd (vm_load src addr s))) = vm_accts src (vm_dirty s)"
  by (simp add: vm_accts_def [abs_def])

lemma vm_view_simps [simp]:
  "fst (vm_view src g addr s) = g (vm_peek src (vm_dirty s) addr)" "vm_snaps (snd (vm_view src g addr s)) = vm_snaps s"
  "vm_accts src (vm_dirty (snd (vm_view src g addr s))) = vm_accts src (vm_dirty s)"
  by (simp_all add: vm_view_def split_beta)

lemma vm_modify_simps [simp]:
  "vm_accts src (vm_dirty (vm_modify src f addr s)) =
     (vm_accts src (vm_dirty s))(addr := abs_vm src addr (f (vm_peek src (vm_dirty s) addr)))"
  "vm_snaps (vm_modify src f addr s) = vm_snaps s"
  by (simp_all add: vm_modify_def split_beta)

lemma vm_view_eq:
  "vm_view src g addr s = (x, s') \<Longrightarrow>
     x = g (vm_peek src (vm_dirty s) addr) \<and> vm_accts src (vm_dirty s') = vm_accts src (vm_dirty s) \<and> vm_snaps s' = vm_snaps s"
  using vm_view_simps [of src g addr s] by auto

lemma vm_GetStorage_eq:
  assumes "vm_GetStorage src addr k s = ((x, p), s')"
  shows "(case aa_storage (vm_accts src (vm_dirty s) addr) k of None \<Rightarrow> x = replicate 32 0 \<and> \<not> p | Some w \<Rightarrow> x = w \<and> p) \<and>
    vm_accts src (vm_dirty s') = vm_accts src (vm_dirty s) \<and> vm_snaps s' = vm_snaps s"
proof -
  obtain a s1 where l: "vm_load src addr s = (a, s1)" by force
  then have a: "a = vm_peek src (vm_dirty s) addr" "vm_accts src (vm_dirty s1) = vm_accts src (vm_dirty s)" "vm_snaps s1 = vm_snaps s"
    using vm_load_simps [of src addr s] vm_accts_load [of src addr s] by auto
  have abs: "vm_accts src (vm_dirty s) addr = abs_vm src addr a" by (simp add: a(1) vm_accts_def)
  have cached: "abs_vm src addr (a\<lparr>va_loadedSlot := finsert k (va_loadedSlot a), va_storage := fmupd k v (va_storage a)\<rparr>) = abs_vm src addr a"
    if "fmlookup (va_storage a) k = None" "k |\<notin>| va_loadedSlot a" "baseSlot src addr k = Some v" for v
    using that by (auto simp: abs_vm_def fun_eq_iff)
  have absent: "abs_vm src addr (a\<lparr>va_loadedSlot := finsert k (va_loadedSlot a)\<rparr>) = abs_vm src addr a"
    if "baseSlot src addr k = None"
    using that by (auto simp: abs_vm_def fun_eq_iff split: option.splits)
  show ?thesis
    using assms a(2,3) abs cached absent
    by (auto simp: vm_GetStorage_def l Let_def fun_upd_idem abs_vm_def [of src addr a] split: option.splits if_splits)
qed

lemma abs_vm_simps [simp]:
  "aa_exists (abs_vm src addr a) = va_exists a" "aa_balance (abs_vm src addr a) = va_balance a"
  "aa_nonce (abs_vm src addr a) = va_nonce a" "aa_code (abs_vm src addr a) = va_code a"
  by (simp_all add: abs_vm_def)

lemma vm_accts_at: "vm_accts src m addr = abs_vm src addr (vm_peek src m addr)"
  by (simp add: vm_accts_def)

text \<open>Each mutation, seen on the account it stands for.\<close>

lemma abs_vm_mutations:
  "abs_vm src addr (a\<lparr>va_balDirty := True, va_exists := True\<rparr>) = (abs_vm src addr a)\<lparr>aa_exists := True\<rparr>"
  "abs_vm src addr (a\<lparr>va_balance := v\<rparr>) = (abs_vm src addr a)\<lparr>aa_balance := v\<rparr>"
  "abs_vm src addr (a\<lparr>va_nonce := n\<rparr>) = (abs_vm src addr a)\<lparr>aa_exists := va_exists a, aa_nonce := n\<rparr>"
  "abs_vm src addr (a\<lparr>va_code := c, va_codeDirty := True, va_exists := True\<rparr>) =
     (abs_vm src addr a)\<lparr>aa_exists := True, aa_code := c\<rparr>"
  "abs_vm src addr (a\<lparr>va_storage := fmupd k v' (va_storage a), va_loadedSlot := finsert k (va_loadedSlot a),
       va_dirtySlot := finsert k (va_dirtySlot a), va_exists := True\<rparr>) =
     (abs_vm src addr a)\<lparr>aa_exists := True, aa_storage := (aa_storage (abs_vm src addr a))(k \<mapsto> v')\<rparr>"
  by (auto simp: abs_vm_def fun_eq_iff)

lemmas vm_op_defs = vm_Exist_def vm_CreateAccount_def vm_GetBalance_def vm_AddBalance_def vm_SubBalance_def
  vm_GetNonce_def vm_SetNonce_def vm_GetCode_def vm_SetCode_def vm_GetCodeHash_def vm_GetCodeSize_def
  vm_SetStorage_def vm_Snapshot_def vm_RevertToSnapshot_def

interpretation vmst: state_db "vmDB src keccak" keccak "\<lambda>s. vm_accts src (vm_dirty s)" "\<lambda>s. map (vm_accts src) (vm_snaps s)"
  for src keccak
proof (unfold_locales, goal_cases)
  case (7 a k s x p s')
  then show ?case using vm_GetStorage_eq [of src a k s x p s'] by (simp add: vmDB_def)
next
  case (11 a n s)
  show ?case
    by (rule exI [of _ "va_exists (vm_peek src (vm_dirty s) a)"]) (simp add: vmDB_def vm_SetNonce_def vm_accts_at abs_vm_mutations)
qed (simp_all add: vmDB_def vm_op_defs vm_accts_at abs_vm_mutations take_map, (drule vm_view_eq, simp)+, auto simp: fix32_def)

end
