(* ===== verification/Tvm_Inv.thy ===== *)
theory Tvm_Inv
  imports Tvm_Rollback
begin

text \<open>
  Invariants of the state under the machine: a property of states that every operation of the
  \<open>StateDB\<close> interface keeps (storage writes with 32-byte slots and values, and reverts to snapshots
  not older than a given mark) is kept by every frame, so by a whole execution.
\<close>

locale state_inv =
  fixes db :: "'s StateDB" and I :: "'s \<Rightarrow> bool" and mark :: nat
  assumes reads: "I s \<Longrightarrow> I (snd (sd_Exist db a s))" "I s \<Longrightarrow> I (snd (sd_GetBalance db a s))"
      "I s \<Longrightarrow> I (snd (sd_GetNonce db a s))" "I s \<Longrightarrow> I (snd (sd_GetCode db a s))" "I s \<Longrightarrow> I (snd (sd_GetCodeSize db a s))"
      "I s \<Longrightarrow> I (snd (sd_GetCodeHash db a s))" "I s \<Longrightarrow> I (snd (sd_GetStorage db a k s))"
    and writes: "I s \<Longrightarrow> I (sd_CreateAccount db a s)" "I s \<Longrightarrow> I (sd_AddBalance db a v s)" "I s \<Longrightarrow> I (sd_SubBalance db a v s)"
      "I s \<Longrightarrow> I (sd_SetNonce db a n s)" "I s \<Longrightarrow> I (sd_SetCode db a c s)"
      "I s \<Longrightarrow> length k = 32 \<Longrightarrow> length x = 32 \<Longrightarrow> I (sd_SetStorage db a k x s)"
    and snapshot: "I s \<Longrightarrow> I (snd (sd_Snapshot db s))" "I s \<Longrightarrow> mark \<le> fst (sd_Snapshot db s)"
    and revert: "I s \<Longrightarrow> mark \<le> i \<Longrightarrow> I (sd_RevertToSnapshot db i s)"
begin

abbreviation IF :: "'s frame \<Rightarrow> bool" where "IF f \<equiv> I (f_state f)"

definition run_inv :: "'s runner \<Rightarrow> bool" where
  "run_inv run \<longleftrightarrow> (\<forall>c l ro d lg s res lg' s'. run c l ro d lg s = Next (res, lg', s') \<longrightarrow> I s \<longrightarrow> I s')"

definition inv :: "'s execFn \<Rightarrow> bool" where
  "inv e \<longleftrightarrow> (\<forall>run env f. run_inv run \<longrightarrow> IF f \<longrightarrow> outcome_all IF (e run (env\<lparr>ev_db := db\<rparr>) f))"

definition gas_inv :: "'s gasFn \<Rightarrow> bool" where
  "gas_inv g \<longleftrightarrow> (\<forall>env f. IF f \<longrightarrow> outcome_all (\<lambda>(c, f'). IF f') (g (env\<lparr>ev_db := db\<rparr>) f))"

lemma inv_quiet: "quiet e \<Longrightarrow> inv e"
  unfolding inv_def by (intro allI impI, rule outcome_all_mono, erule quiet_def [THEN iffD1, rule_format]) simp

lemma inv_reads:
  "inv opBalance" "inv opSelfbalance" "inv opExtcodesize" "inv opExtcodehash" "inv opExtcodecopy" "inv opIscontract" "inv opSload"
  by (auto simp: inv_def opBalance_def opSelfbalance_def opExtcodesize_def opExtcodehash_def opExtcodecopy_def opIscontract_def
      opSload_def stateTop_def peekV_def popF_def memSetF_def pushW_def Let_def split_beta reads split: option.splits sum.splits)

lemma inv_writes: "inv opSstore" "inv (opLog n)"
  by (auto simp: inv_def opSstore_def opLog_def popF_def memGetF_def writes split_beta Let_def split: option.splits)

lemma inv_broke:
  assumes "(if f_depth f \<ge> n then (True, f) else lacksBalance (env\<lparr>ev_db := db\<rparr>) a v f) = (broke, f1)" "IF f"
  shows "IF f1"
  using assms by (auto simp: lacksBalance_def Let_def split_beta reads split: if_splits)

lemma inv_prepareCall:
  assumes "prepareCall (env\<lparr>ev_db := db\<rparr>) kind to v req args f = (budget, snap, child, f2)" "IF f"
  shows "IF f2 \<and> mark \<le> snap"
  using assms by (auto simp: prepareCall_def Let_def split_beta reads writes snapshot)

lemma inv_prepareCreate:
  assumes "prepareCreate (env\<lparr>ev_db := db\<rparr>) v code salt f = (budget, snap, child, f2)" "IF f"
  shows "IF f2 \<and> mark \<le> snap"
  using assms by (auto simp: prepareCreate_def Let_def split_beta reads writes snapshot)

lemma inv_undo: "IF f \<Longrightarrow> mark \<le> snap \<Longrightarrow> IF (undoFrame (env\<lparr>ev_db := db\<rparr>) snap lm f)"
  by (simp add: undoFrame_def revert)

lemma inv_push: "IF f \<Longrightarrow> outcome_all IF (pushW w f)"
  by (rule push_all [where Q = "\<lambda>s lg. I s"])

lemma inv_write_push: "IF f \<Longrightarrow> outcome_all IF (bindV (writeReturn oo b os f) (pushW w))"
  by (rule write_push_all [where Q = "\<lambda>s lg. I s"])

lemmas inv_pushes = inv_push inv_write_push

text \<open>What follows a nested run keeps the invariant if the run did.\<close>

lemma inv_after:
  fixes env :: "'s env"
  defines "e \<equiv> env\<lparr>ev_db := db\<rparr>"
  assumes "IF f" "mark \<le> snap" "\<And>res lg s. r = Next (res, lg, s) \<Longrightarrow> I s"
  shows "outcome_all IF (afterCall e budget snap lm oo os f r)" "outcome_all IF (afterCreate e budget snap lm na f r)"
    "outcome_all IF (afterPrecompile e budget snap lm oo os f p)"
  using assms(2-) inv_undo [of _ snap env lm, folded e_def]
  by (auto simp: afterCall_def afterCreate_def afterPrecompile_def e_def Let_def writes
      split: outcome.splits prod.splits intro!: inv_pushes)

lemma inv_doCall:
  fixes env :: "'s env"
  assumes "run_inv run" "IF f"
  shows "outcome_all IF (doCall run (env\<lparr>ev_db := db\<rparr>) kind to v req args oo os f)"
proof -
  let ?e = "env\<lparr>ev_db := db\<rparr>"
  obtain broke f1 where bf: "(if f_depth f \<ge> maxCallDepth then (True, f) else lacksBalance ?e (c_Self (f_contract f)) v f) = (broke, f1)"
    by force
  obtain budget snap child f2 where pc: "prepareCall ?e kind to v req args f1 = (budget, snap, child, f2)" by (metis prod_cases4)
  note f1 = inv_broke [OF bf assms(2)]
  note f2 = inv_prepareCall [OF pc f1]
  show ?thesis unfolding doCall_def bf Let_def prod.case pc
    using assms f1 f2 unfolding run_inv_def
    by (auto intro!: inv_push inv_after split: option.splits)
qed

lemma inv_doCreate:
  fixes env :: "'s env"
  assumes "run_inv run" "IF f"
  shows "outcome_all IF (doCreate run (env\<lparr>ev_db := db\<rparr>) v code salt f)"
proof -
  let ?e = "env\<lparr>ev_db := db\<rparr>"
  obtain broke f1 where bf: "(if f_depth f \<ge> maxCallDepth then (True, f) else lacksBalance ?e (c_Self (f_contract f)) v f) = (broke, f1)"
    by force
  obtain budget snap child f2 where pc: "prepareCreate ?e v code salt f1 = (budget, snap, child, f2)" by (metis prod_cases4)
  note f1 = inv_broke [OF bf assms(2)]
  note f2 = inv_prepareCreate [OF pc f1]
  show ?thesis unfolding doCreate_def bf Let_def prod.case pc
    using assms f1 f2 unfolding run_inv_def by (auto intro!: inv_push inv_after)
qed

lemma inv_nested: "inv (callOp kind valued)" "inv opCreate" "inv opCreate2"
  by (auto simp: inv_def callOp_def opCreate_def opCreate2_def popF_def split_beta Let_def
      intro!: mode_memGet inv_doCall inv_doCreate)

lemma gas_inv_all:
  "gas_inv (constGas c)" "gas_inv gasMload" "gas_inv gasMstore" "gas_inv gasMstore8" "gas_inv gasKeccak256" "gas_inv gasCopy"
  "gas_inv gasReturn" "gas_inv gasExp" "gas_inv gasExtcodecopy" "gas_inv gasReturndatacopy" "gas_inv gasCallcode"
  "gas_inv gasCallNoValue" "gas_inv gasCreate" "gas_inv gasCreate2" "gas_inv (gasLog n)" "gas_inv gasCall" "gas_inv gasSstore"
  by (auto simp: gas_inv_def constGas_def gasMload_def gasMstore_def gasMstore8_def gasKeccak256_def gasCopy_def gasReturn_def
      gasExp_def gasExtcodecopy_def gasReturndatacopy_def gasCallcode_def gasCallNoValue_def gasCreate_def gasCreate2_def gasCall_def gasSstore_def
      gasLog_def peekV_def liftG_def reads Let_def split_beta split: option.splits sum.splits)

definition op_inv :: "'s operation \<Rightarrow> bool" where
  "op_inv oo \<longleftrightarrow> inv (o_exec oo) \<and> gas_inv (o_gas oo)"

lemma op_inv_oper:
  assumes "inv e" "gas_inv g"
  shows "op_inv (oper e g p q)" "op_inv (gated c (oper e g p q))" "op_inv (halting (oper e g p q))" "op_inv (jumping (oper e g p q))"
  using assms by (simp_all add: op_inv_def oper_def gated_def halting_def jumping_def)

lemmas inv_all = gas_inv_all inv_reads inv_writes inv_nested

lemma tables_inv:
  "\<forall>(k, oo) \<in> set arithTable. op_inv oo" "\<forall>(k, oo) \<in> set envTable. op_inv oo" "\<forall>(k, oo) \<in> set flowTable. op_inv oo"
  "\<forall>(k, oo) \<in> set rangeTable. op_inv oo" "\<forall>(k, oo) \<in> set callTable. op_inv oo" "\<forall>(k, oo) \<in> set stakingTable. op_inv oo"
  by (auto simp: arithTable_def envTable_def flowTable_def rangeTable_def callTable_def stakingTable_def plain_ops
      opCall_def opCallcode_def opDelegatecall_def opStaticcall_def
      intro!: op_inv_oper inv_all quiet_shapes quiet_push quiet_memory
      intro: inv_quiet)

lemma opTable_inv: "opTable op = Some oo \<Longrightarrow> op_inv oo"
  unfolding opTable_def using tables_inv by (fastforce dest: map_of_SomeD)

lemma step_inv:
  assumes "run_inv run" "IF f"
  shows "outcome_all IF (stepFrame run (env\<lparr>ev_db := db\<rparr>) f)"
proof (cases "opTable (c_Code (f_contract f) ! f_pc f) :: 's operation option")
  case None
  then show ?thesis using assms(2) by (simp add: stepFrame_def)
next
  case (Some oo)
  let ?e = "env\<lparr>ev_db := db\<rparr>"
  have ok: "inv (o_exec oo)" "gas_inv (o_gas oo)" using opTable_inv [OF Some] by (simp_all add: op_inv_def)
  have exec: "IF f2 \<Longrightarrow> outcome_all IF (o_exec oo run ?e f2)" for f2
    using ok(1) assms(1) unfolding inv_def by blast
  have gas: "outcome_all (\<lambda>(c, f'). IF f') (o_gas oo ?e f)" using ok(2) assms(2) unfolding gas_inv_def by blast
  show ?thesis
  proof (cases "o_gas oo ?e f")
    case (Next p)
    obtain c f1 where p: "p = (c, f1)" by force
    let ?f2 = "f1\<lparr>f_meter := snd (spend c (f_meter f1))\<rparr>"
    show ?thesis using Some Next p gas exec [of ?f2] assms(2)
      by (cases "o_exec oo run ?e ?f2") (simp_all add: stepFrame_def Let_def split_beta)
  qed (use Some gas assms(2) in \<open>auto simp: stepFrame_def split: prod.splits\<close>)
qed

lemma runFrame_inv:
  assumes "runFrame n (env\<lparr>ev_db := db\<rparr>) f = Next (res, f')" "IF f"
  shows "IF f'"
  using assms
proof (induction n arbitrary: f res f')
  case (Suc n)
  let ?e = "env\<lparr>ev_db := db\<rparr>"
  have "run_inv (evm_run n ?e)"
    unfolding run_inv_def evm_run_Next by (fastforce dest: Suc.IH simp: newFrame_def)
  note st = step_inv [OF this Suc.prems(2), of env]
  show ?case
  proof (cases "f_stop f \<or> f_pc f \<ge> length (c_Code (f_contract f))")
    case True
    then show ?thesis using Suc.prems by (simp add: runFrame_Suc)
  next
    case False
    show ?thesis
    proof (cases "stepFrame (evm_run n ?e) ?e f")
      case (Next f1)
      then have "runFrame n ?e f1 = Next (res, f')" using Suc.prems False by (simp add: runFrame_Suc)
      from Suc.IH [OF this] st Next show ?thesis by simp
    next
      case (Fault x f1)
      then show ?thesis using Suc.prems False st by (auto simp: runFrame_Suc failResult_def split: if_splits)
    qed (use Suc.prems False in \<open>simp_all add: runFrame_Suc\<close>)
  qed
qed simp

lemma Execute_inv:
  assumes "ev_db env = db" "evm_Execute n env c input limit s = Next (res, lg, s')" "I s"
  shows "I s'"
proof -
  have "env\<lparr>ev_db := db\<rparr> = env" using assms(1) by (cases env) simp
  with runFrame_inv [of n env] assms(2,3) show ?thesis
    by (fastforce simp: evm_Execute_def evm_run_Next newFrame_def)
qed

end

end
