(* ===== verification/Vm_Flush.thy ===== *)
theory Vm_Flush
  imports Vm_State Tvm_Inv
begin

text \<open>
  \<open>vmStateDB.Flush\<close> (\<open>internal/actuator/vm_statedb.go\<close>): writing the dirty layer back to the stores.
  Go ranges over maps in an unspecified order; the order is the argument \<open>ord\<close>, any enumeration of a
  finite set. The theory shows that the flush succeeds, what the stores hold afterwards for every
  order, and that a working copy opened on the new stores reads the state of the old one.
\<close>

section \<open>The operation\<close>

definition slotVal :: "vmAccount \<Rightarrow> bytes \<Rightarrow> bytes" where
  "slotVal a slot = (case fmlookup (va_storage a) slot of None \<Rightarrow> replicate 32 0 | Some v \<Rightarrow> v)"

definition flushedAccount :: "bytes \<Rightarrow> vmAccount \<Rightarrow> Account result \<Rightarrow> Account" where
  "flushedAccount addr a r =
     (let acct = (case r of Inl _ \<Rightarrow> zero_Account\<lparr>ac_Address := addr, ac_Type := Normal\<rparr> | Inr x \<Rightarrow> x);
          typed = (if length (va_code a) > 0 then acct\<lparr>ac_Type := Contract\<rparr> else acct)
      in typed\<lparr>ac_Balance := ucast (va_balance a)\<rparr>)"

definition flushAccount :: "codec \<Rightarrow> (bytes fset \<Rightarrow> bytes list) \<Rightarrow> bytes \<Rightarrow> vmAccount \<Rightarrow> (Database, unit) op" where
  "flushAccount cd ord addr a =
     bindM (if va_balDirty a
            then bindM (tryR (\<lambda>d. AccountStore_Get cd d addr)) (\<lambda>r. AccountStore_Put cd (flushedAccount addr a r))
            else returnM ()) (\<lambda>_.
     bindM (if va_codeDirty a then ContractStore_PutCode addr (va_code a) else returnM ()) (\<lambda>_.
       forM (ord (va_dirtySlot a)) (\<lambda>slot. StorageStore_Put addr slot (slotVal a slot))))"

definition vm_Flush :: "codec \<Rightarrow> (bytes fset \<Rightarrow> bytes list) \<Rightarrow> vmStateDB \<Rightarrow> (Database, unit) op" where
  "vm_Flush cd ord s = forM (ord (fmdom (vm_dirty s))) (\<lambda>k.
     case fmlookup (vm_dirty s) k of None \<Rightarrow> returnM () | Some a \<Rightarrow> flushAccount cd ord k a)"

definition range_order :: "('a fset \<Rightarrow> 'a list) \<Rightarrow> bool" where
  "range_order ord \<longleftrightarrow> (\<forall>A. set (ord A) = fset A \<and> distinct (ord A))"

context write_inv
begin

lemma keeps_flushAccount [keeps_intros]: "keeps P (flushAccount cd ord addr a)"
  unfolding flushAccount_def by (intro keeps_intros)

lemma keeps_vm_Flush [keeps_intros]: "keeps P (vm_Flush cd ord s)"
  unfolding vm_Flush_def by (intro keeps_intros)

end

section \<open>The stores after a flush\<close>

lemma vm_keys [simp]:
  "nsKey codePrefix a \<noteq> nsKey storagePrefix b" "nsKey storagePrefix b \<noteq> nsKey codePrefix a"
  "nsKey accountPrefix a \<noteq> nsKey storagePrefix b" "nsKey accountPrefix a \<noteq> nsKey codePrefix b"
  "nsKey storagePrefix b \<noteq> nsKey accountPrefix a" "nsKey codePrefix b \<noteq> nsKey accountPrefix a"
  by (simp_all add: key_simps)

lemma same_keys [simp]: "nsKey p a = nsKey p b \<longleftrightarrow> a = b" "storageRowKey a s = storageRowKey a t \<longleftrightarrow> s = t"
  by (simp_all add: nsKey_def storageRowKey_def)

lemma slot_keys:
  "length s = length t \<Longrightarrow> storageRowKey a s = storageRowKey b t \<longleftrightarrow> a = b \<and> s = t"
  by (auto simp: storageRowKey_def)

lemma StorageStore_Get_view:
  "StorageStore_Get d addr slot = (case view d (nsKey storagePrefix (storageRowKey addr slot)) of
     None \<Rightarrow> Inr (replicate 32 0, False) | Some b \<Rightarrow> Inr (fix32 b, True))"
  by (simp add: StorageStore_Get_def Database_Get_view split: option.splits)

lemma ContractStore_GetCode_view:
  "ContractStore_GetCode d addr = (case view d (nsKey codePrefix addr) of None \<Rightarrow> Inl ErrNotFound | Some b \<Rightarrow> Inr b)"
  by (simp add: ContractStore_GetCode_def Database_Get_view)

lemma has_prefix_nsKey [simp]: "has_prefix p (nsKey p k)"
  by (simp add: nsKey_def)

text \<open>The accounts in \<open>S\<close> have been written, nothing else has changed.\<close>

definition wrote :: "(bytes \<Rightarrow> vmAccount) \<Rightarrow> bytes set \<Rightarrow> bytes \<Rightarrow> bool" where
  "wrote p S k \<longleftrightarrow> (\<exists>addr \<in> S. va_balDirty (p addr) \<and> k = nsKey accountPrefix addr \<or>
     va_codeDirty (p addr) \<and> k = nsKey codePrefix addr \<or>
     (\<exists>slot. slot |\<in>| va_dirtySlot (p addr) \<and> k = nsKey storagePrefix (storageRowKey addr slot)))"

definition flushed :: "codec \<Rightarrow> (bytes \<Rightarrow> vmAccount) \<Rightarrow> bytes set \<Rightarrow> Database \<Rightarrow> Database \<Rightarrow> bool" where
  "flushed cd p S d d' \<longleftrightarrow>
     (\<forall>addr. AccountStore_Get cd d' addr =
        (if addr \<in> S \<and> va_balDirty (p addr) then Inr (flushedAccount addr (p addr) (AccountStore_Get cd d addr))
         else AccountStore_Get cd d addr)) \<and>
     (\<forall>addr. ContractStore_GetCode d' addr =
        (if addr \<in> S \<and> va_codeDirty (p addr) then Inr (va_code (p addr)) else ContractStore_GetCode d addr)) \<and>
     (\<forall>addr slot. length slot = 32 \<longrightarrow> StorageStore_Get d' addr slot =
        (if addr \<in> S \<and> slot |\<in>| va_dirtySlot (p addr) then Inr (fix32 (slotVal (p addr) slot), True)
         else StorageStore_Get d addr slot)) \<and>
     (\<forall>k. \<not> wrote p S k \<longrightarrow> view d' k = view d k)"

lemma putSlots:
  "\<exists>d'. forM slots (\<lambda>slot. StorageStore_Put addr slot (slotVal a slot)) d = (Inr (), d') \<and>
     (\<forall>slot. view d' (nsKey storagePrefix (storageRowKey addr slot)) =
       (if slot \<in> set slots then Some (slotVal a slot) else view d (nsKey storagePrefix (storageRowKey addr slot)))) \<and>
     (\<forall>k. (\<forall>slot \<in> set slots. k \<noteq> nsKey storagePrefix (storageRowKey addr slot)) \<longrightarrow> view d' k = view d k)"
proof (induction slots arbitrary: d)
  case (Cons x xs)
  let ?d1 = "Database_Put d (nsKey storagePrefix (storageRowKey addr x)) (slotVal a x)"
  have put: "StorageStore_Put addr x (slotVal a x) d = (Inr (), ?d1)" by (simp add: StorageStore_Put_def)
  obtain d' where d': "forM xs (\<lambda>slot. StorageStore_Put addr slot (slotVal a slot)) ?d1 = (Inr (), d')"
    "\<And>slot. view d' (nsKey storagePrefix (storageRowKey addr slot)) =
       (if slot \<in> set xs then Some (slotVal a slot) else view ?d1 (nsKey storagePrefix (storageRowKey addr slot)))"
    "\<And>k. (\<forall>slot \<in> set xs. k \<noteq> nsKey storagePrefix (storageRowKey addr slot)) \<Longrightarrow> view d' k = view ?d1 k"
    using Cons.IH [of ?d1] by blast
  show ?case
    by (rule exI [of _ d']) (auto simp: bindM_def put d'(1,2) d'(3))
qed simp

lemma putBalance:
  assumes "codec_ok cd" "accounts_keyed cd d"
  shows "\<exists>d'. (if va_balDirty a
            then bindM (tryR (\<lambda>d. AccountStore_Get cd d addr)) (\<lambda>r. AccountStore_Put cd (flushedAccount addr a r))
            else returnM ()) d = (Inr (), d') \<and>
     (\<forall>b. AccountStore_Get cd d' b = (if b = addr \<and> va_balDirty a then Inr (flushedAccount addr a (AccountStore_Get cd d addr))
        else AccountStore_Get cd d b)) \<and>
     (\<forall>k. \<not> (va_balDirty a \<and> k = nsKey accountPrefix addr) \<longrightarrow> view d' k = view d k)"
proof -
  have "ac_Address (flushedAccount addr a (AccountStore_Get cd d addr)) = addr"
    using accounts_keyedD [OF assms(2)] by (auto simp: flushedAccount_def Let_def split: sum.splits)
  then show ?thesis using assms(1) by auto
qed

lemma flushed_step:
  assumes ok: "codec_ok cd" "accounts_keyed cd d" and S: "flushed cd p S d d1" "addr \<notin> S" "accounts_keyed cd d1"
    and ord: "set (ord (va_dirtySlot (p addr))) = fset (va_dirtySlot (p addr))"
    and len: "\<forall>slot. slot |\<in>| va_dirtySlot (p addr) \<longrightarrow> length slot = 32"
  shows "\<exists>d2. flushAccount cd ord addr (p addr) d1 = (Inr (), d2) \<and> flushed cd p (insert addr S) d d2"
proof -
  let ?a = "p addr"
  obtain d2 where d2: "(if va_balDirty ?a
            then bindM (tryR (\<lambda>d. AccountStore_Get cd d addr)) (\<lambda>r. AccountStore_Put cd (flushedAccount addr ?a r))
            else returnM ()) d1 = (Inr (), d2)"
     "\<And>b. AccountStore_Get cd d2 b = (if b = addr \<and> va_balDirty ?a then Inr (flushedAccount addr ?a (AccountStore_Get cd d1 addr))
        else AccountStore_Get cd d1 b)"
     "\<And>k. \<not> (va_balDirty ?a \<and> k = nsKey accountPrefix addr) \<Longrightarrow> view d2 k = view d1 k"
    using putBalance [OF ok(1) S(3), of ?a addr] by blast
  define d3 where "d3 = (if va_codeDirty ?a then Database_Put d2 (nsKey codePrefix addr) (va_code ?a) else d2)"
  have d3: "(if va_codeDirty ?a then ContractStore_PutCode addr (va_code ?a) else returnM ()) d2 = (Inr (), d3)"
    by (simp add: d3_def ContractStore_PutCode_def)
  obtain d4 where d4: "forM (ord (va_dirtySlot ?a)) (\<lambda>slot. StorageStore_Put addr slot (slotVal ?a slot)) d3 = (Inr (), d4)"
     "\<And>slot. view d4 (nsKey storagePrefix (storageRowKey addr slot)) =
       (if slot |\<in>| va_dirtySlot ?a then Some (slotVal ?a slot) else view d3 (nsKey storagePrefix (storageRowKey addr slot)))"
     "\<And>k. (\<And>slot. slot |\<in>| va_dirtySlot ?a \<Longrightarrow> k \<noteq> nsKey storagePrefix (storageRowKey addr slot)) \<Longrightarrow> view d4 k = view d3 k"
    using putSlots [of "ord (va_dirtySlot ?a)" addr ?a d3] ord by auto
  have run: "flushAccount cd ord addr ?a d1 = (Inr (), d4)"
    unfolding flushAccount_def
    by (rule trans [OF bindM_Inr], rule d2(1), rule trans [OF bindM_Inr], rule d3, rule d4(1))
  have acc: "AccountStore_Get cd d4 b = AccountStore_Get cd d2 b" for b
    by (simp add: AccountStore_Get_view d4(3) d3_def)
  have code: "ContractStore_GetCode d4 b = (if b = addr \<and> va_codeDirty ?a then Inr (va_code ?a) else ContractStore_GetCode d1 b)" for b
    by (auto simp: ContractStore_GetCode_view d4(3) d3_def d2(3))
  have slot: "StorageStore_Get d4 b slot = (if b = addr \<and> slot |\<in>| va_dirtySlot ?a then Inr (fix32 (slotVal ?a slot), True)
      else StorageStore_Get d1 b slot)" if "length slot = 32" for b slot
  proof (cases "b = addr")
    case True
    then show ?thesis by (simp add: StorageStore_Get_view d4(2) d3_def d2(3))
  next
    case False
    then have "view d4 (nsKey storagePrefix (storageRowKey b slot)) = view d3 (nsKey storagePrefix (storageRowKey b slot))"
      using len that by (intro d4(3)) (auto simp: slot_keys)
    then show ?thesis using False by (simp add: StorageStore_Get_view d3_def d2(3))
  qed
  have other: "view d4 k = view d1 k" if "\<not> wrote p (insert addr S) k" for k
  proof -
    have "view d4 k = view d3 k" using that by (intro d4(3)) (auto simp: wrote_def)
    also have "\<dots> = view d2 k" using that by (auto simp: d3_def wrote_def)
    also have "\<dots> = view d1 k" using that by (intro d2(3)) (auto simp: wrote_def)
    finally show ?thesis .
  qed
  have less: "\<not> wrote p (insert addr S) k \<Longrightarrow> \<not> wrote p S k" for k by (auto simp: wrote_def)
  show ?thesis
    using S(1,2) by (intro exI [of _ d4]) (auto simp: run flushed_def acc d2(2) code slot other less)
qed

lemma flushed_all:
  assumes ok: "codec_ok cd" "accounts_keyed cd d" and ord: "range_order ord"
    and len: "\<And>addr slot. slot |\<in>| va_dirtySlot (p addr) \<Longrightarrow> length slot = 32"
    and ks: "distinct ks" "set ks \<inter> S = {}" "\<And>k. k \<in> set ks \<Longrightarrow> fmlookup m k = Some (p k)"
    and S: "flushed cd p S d d1" "accounts_keyed cd d1"
  shows "\<exists>d2. forM ks (\<lambda>k. case fmlookup m k of None \<Rightarrow> returnM () | Some a \<Rightarrow> flushAccount cd ord k a) d1 = (Inr (), d2) \<and>
    flushed cd p (set ks \<union> S) d d2"
  using ks S
proof (induction ks arbitrary: S d1)
  case (Cons k ks)
  obtain d2 where d2: "flushAccount cd ord k (p k) d1 = (Inr (), d2)" "flushed cd p (insert k S) d d2"
    using flushed_step [OF ok Cons.prems(4) _ Cons.prems(5), of k ord] Cons.prems(2) ord len by (auto simp: range_order_def)
  have k2: "accounts_keyed cd d2"
    using keepsD [OF write_inv.keeps_flushAccount [OF codec_keyed [OF ok(1)]] Cons.prems(5), of ord k "p k"] d2(1) by simp
  have "\<exists>d3. forM ks (\<lambda>k. case fmlookup m k of None \<Rightarrow> returnM () | Some a \<Rightarrow> flushAccount cd ord k a) d2 = (Inr (), d3) \<and>
    flushed cd p (set ks \<union> insert k S) d d3"
    using Cons.prems d2(2) k2 by (intro Cons.IH) auto
  moreover have "(case fmlookup m k of None \<Rightarrow> returnM () | Some a \<Rightarrow> flushAccount cd ord k a) d1 = (Inr (), d2)"
    using Cons.prems(3) d2(1) by simp
  ultimately show ?case by (simp add: bindM_Inr)
qed simp

text \<open>The account a dirty layer writes at an address; an untouched address writes nothing.\<close>

definition vm_written :: "(bytes, vmAccount) fmap \<Rightarrow> bytes \<Rightarrow> vmAccount" where
  "vm_written m addr = (case fmlookup m addr of Some a \<Rightarrow> a
     | None \<Rightarrow> \<lparr>va_balance = 0, va_nonce = 0, va_code = [], va_storage = fmempty, va_loadedSlot = {||}, va_dirtySlot = {||},
         va_balDirty = False, va_codeDirty = False, va_exists = False\<rparr>)"

definition slots32 :: "(bytes, vmAccount) fmap \<Rightarrow> bool" where
  "slots32 m \<longleftrightarrow> (\<forall>addr slot. slot |\<in>| va_dirtySlot (vm_written m addr) \<longrightarrow> length slot = 32)"

lemma flushed_dom:
  assumes "\<And>addr. addr \<notin> S \<Longrightarrow> \<not> va_balDirty (p addr) \<and> \<not> va_codeDirty (p addr) \<and> va_dirtySlot (p addr) = {||}" "flushed cd p S d d'"
  shows "flushed cd p UNIV d d'"
proof -
  have "wrote p UNIV k \<longleftrightarrow> wrote p S k" for k using assms(1) by (fastforce simp: wrote_def)
  with assms show ?thesis by (fastforce simp: flushed_def)
qed

lemma Flush_flushed:
  assumes "codec_ok cd" "accounts_keyed cd d" "range_order ord" "slots32 (vm_dirty s)"
  shows "\<exists>d'. vm_Flush cd ord s d = (Inr (), d') \<and> flushed cd (vm_written (vm_dirty s)) UNIV d d'"
proof -
  let ?ks = "ord (fmdom (vm_dirty s))" and ?p = "vm_written (vm_dirty s)"
  have ks: "set ?ks = fset (fmdom (vm_dirty s))" "distinct ?ks" using assms(3) by (simp_all add: range_order_def)
  have p: "fmlookup (vm_dirty s) k = Some (?p k)" if "k \<in> set ?ks" for k
    using that ks(1) by (auto simp: vm_written_def fmlookup_dom_iff)
  have "flushed cd ?p {} d d" by (simp add: flushed_def)
  from flushed_all [OF assms(1,2,3) _ ks(2) _ p this assms(2)] assms(4)
  obtain d' where d': "vm_Flush cd ord s d = (Inr (), d')" "flushed cd ?p (set ?ks) d d'"
    unfolding vm_Flush_def slots32_def by auto
  have "flushed cd ?p UNIV d d'"
    by (rule flushed_dom [OF _ d'(2)]) (auto simp: ks(1) vm_written_def fmlookup_dom_iff split: option.splits)
  with d'(1) show ?thesis by blast
qed

section \<open>The invariant of the working copy\<close>

text \<open>What is not marked dirty is what the stores hold; slots to be written are 32-byte arrays.\<close>

definition acct_ok :: "vmSource \<Rightarrow> bytes \<Rightarrow> vmAccount \<Rightarrow> bool" where
  "acct_ok src addr a \<longleftrightarrow>
     (\<not> va_balDirty a \<longrightarrow> va_balance a = va_balance (vm_fresh src addr)) \<and>
     (\<not> va_codeDirty a \<longrightarrow> va_code a = va_code (vm_fresh src addr)) \<and>
     (\<forall>k v. fmlookup (va_storage a) k = Some v \<longrightarrow> k |\<notin>| va_dirtySlot a \<longrightarrow> baseSlot src addr k = Some v) \<and>
     (\<forall>k. k |\<in>| va_loadedSlot a \<longrightarrow> fmlookup (va_storage a) k = None \<longrightarrow> baseSlot src addr k = None) \<and>
     (\<forall>k. k |\<in>| va_dirtySlot a \<longrightarrow> length k = 32 \<and> (\<exists>v. fmlookup (va_storage a) k = Some v \<and> length v = 32))"

definition layer_ok :: "vmSource \<Rightarrow> (bytes, vmAccount) fmap \<Rightarrow> bool" where
  "layer_ok src m \<longleftrightarrow> (\<forall>addr a. fmlookup m addr = Some a \<longrightarrow> acct_ok src addr a)"

definition vm_inv :: "vmSource \<Rightarrow> (bytes, vmAccount) fmap list \<Rightarrow> vmStateDB \<Rightarrow> bool" where
  "vm_inv src old s \<longleftrightarrow> layer_ok src (vm_dirty s) \<and> list_all (layer_ok src) (vm_snaps s) \<and> (\<exists>new. vm_snaps s = old @ new)"

lemma acct_ok_fresh [simp]: "acct_ok src addr (vm_fresh src addr)"
  by (simp add: acct_ok_def vm_fresh_def)

lemma layer_ok_upd: "layer_ok src m \<Longrightarrow> acct_ok src addr a \<Longrightarrow> layer_ok src (fmupd addr a m)"
  by (auto simp: layer_ok_def)

lemma layer_ok_peek: "layer_ok src m \<Longrightarrow> acct_ok src addr (vm_peek src m addr)"
  by (auto simp: layer_ok_def vm_peek_def split: option.splits)

lemma layer_ok_load: "layer_ok src (vm_dirty s) \<Longrightarrow> layer_ok src (vm_dirty (snd (vm_load src addr s)))"
  by (simp add: vm_load_def Let_def layer_ok_upd split: option.splits)

lemma vm_inv_view: "vm_inv src old s \<Longrightarrow> vm_inv src old (snd (vm_view src g addr s))"
  by (auto simp: vm_inv_def vm_view_def split_beta layer_ok_load)

lemma vm_inv_modify:
  assumes "vm_inv src old s" "\<And>a. acct_ok src addr a \<Longrightarrow> acct_ok src addr (f a)"
  shows "vm_inv src old (vm_modify src f addr s)"
  using assms layer_ok_peek [of src "vm_dirty s" addr]
  by (auto simp: vm_inv_def vm_modify_def split_beta layer_ok_load layer_ok_upd)

lemma vm_inv_GetStorage:
  assumes "vm_inv src old s"
  shows "vm_inv src old (snd (vm_GetStorage src addr k s))"
proof -
  obtain a s1 where l: "vm_load src addr s = (a, s1)" by force
  have a: "acct_ok src addr a" "layer_ok src (vm_dirty s1)" "vm_snaps s1 = vm_snaps s"
    using assms layer_ok_peek [of src "vm_dirty s" addr] layer_ok_load [of src s addr] vm_load_simps [of src addr s]
    by (auto simp: l vm_inv_def)
  have "acct_ok src addr (a\<lparr>va_loadedSlot := finsert k (va_loadedSlot a), va_storage := fmupd k v (va_storage a)\<rparr>)"
    if "baseSlot src addr k = Some v" "fmlookup (va_storage a) k = None" for v
    using a(1) that by (auto simp: acct_ok_def)
  moreover have "acct_ok src addr (a\<lparr>va_loadedSlot := finsert k (va_loadedSlot a)\<rparr>)" if "baseSlot src addr k = None"
    using a(1) that by (auto simp: acct_ok_def)
  ultimately show ?thesis
    using assms a(2,3) by (auto simp: vm_GetStorage_def l Let_def vm_inv_def layer_ok_upd split: option.splits)
qed

lemma vm_inv_revert: "vm_inv src old s \<Longrightarrow> length old \<le> i \<Longrightarrow> vm_inv src old (vm_RevertToSnapshot i s)"
  by (auto simp: vm_RevertToSnapshot_def vm_inv_def list_all_length)

lemma vm_inv_snapshot:
  "vm_inv src old s \<Longrightarrow> vm_inv src old (snd (vm_Snapshot s))" "vm_inv src old s \<Longrightarrow> length old \<le> fst (vm_Snapshot s)"
  by (auto simp: vm_Snapshot_def vm_inv_def)

interpretation vmkeep: state_inv "vmDB src keccak" "vm_inv src old" "length old" for src keccak old
  by unfold_locales (auto simp: vmDB_def vm_Exist_def vm_CreateAccount_def vm_GetBalance_def vm_AddBalance_def vm_SubBalance_def
  vm_GetNonce_def vm_SetNonce_def vm_GetCode_def vm_SetCode_def vm_GetCodeHash_def vm_GetCodeSize_def
  vm_SetStorage_def vm_inv_view vm_inv_GetStorage vm_inv_revert vm_inv_snapshot acct_ok_def intro!: vm_inv_modify)

lemma vm_inv_new: "vm_inv src [] newVMStateDB"
  by (simp add: vm_inv_def newVMStateDB_def layer_ok_def)

section \<open>Reading a flushed state back\<close>

lemma layer_ok_slots32: "layer_ok src m \<Longrightarrow> slots32 m"
  by (auto simp: slots32_def vm_written_def layer_ok_def acct_ok_def split: option.splits)

lemma flushed_balance [simp]: "ac_Balance (flushedAccount addr a r) = ucast (va_balance a)"
  by (simp add: flushedAccount_def Let_def)

lemma slotVal_dirty: "acct_ok src addr a \<Longrightarrow> k |\<in>| va_dirtySlot a \<Longrightarrow> fmlookup (va_storage a) k = Some (fix32 (slotVal a k))"
  by (force simp: acct_ok_def slotVal_def)

text \<open>One account of a fresh working copy over the flushed stores.\<close>

lemma flushed_account:
  fixes cd d d' prov addr m
  defines "src \<equiv> \<lparr>so_codec = cd, so_db = d, so_provider = prov\<rparr>"
  defines "src' \<equiv> \<lparr>so_codec = cd, so_db = d', so_provider = prov\<rparr>"
  assumes "flushed cd (vm_written m) UNIV d d'" "layer_ok src m"
  shows "va_balance (vm_fresh src' addr) = ucast (ucast (va_balance (vm_peek src m addr)) :: int64)"
    and "va_code (vm_fresh src' addr) = va_code (vm_peek src m addr)"
    and "length k = 32 \<Longrightarrow> baseSlot src' addr k = aa_storage (abs_vm src addr (vm_peek src m addr)) k"
proof -
  let ?p = "vm_written m addr"
  have bal: "baseBalance src' addr = (if va_balDirty ?p then Some (ucast (va_balance ?p)) else baseBalance src addr)"
    and code: "baseCode src' addr = (if va_codeDirty ?p then Some (va_code ?p) else baseCode src addr)"
    using assms(3) by (auto simp: flushed_def baseBalance_def baseCode_def provided_def src_def src'_def split: sum.splits)
  have slot: "baseSlot src' addr k = (if k |\<in>| va_dirtySlot ?p then Some (fix32 (slotVal ?p k)) else baseSlot src addr k)"
    if "length k = 32" for k
    using assms(3) that by (auto simp: flushed_def baseSlot_def provided_def src_def src'_def split: sum.splits prod.splits bool.splits)
  have up: "ucast (ucast (ucast b :: u256) :: int64) = (ucast b :: u256)" for b :: int64
    by (rule bit_word_eqI) (auto simp: bit_ucast_iff dest: bit_imp_le_length)
  show "va_balance (vm_fresh src' addr) = ucast (ucast (va_balance (vm_peek src m addr)) :: int64)"
    using assms(4) bal up by (auto simp: vm_fresh_def vm_peek_def vm_written_def layer_ok_def acct_ok_def split: option.splits if_splits)
  show "va_code (vm_fresh src' addr) = va_code (vm_peek src m addr)"
    using assms(4) code by (auto simp: vm_fresh_def vm_peek_def vm_written_def layer_ok_def acct_ok_def split: option.splits if_splits)
  show "baseSlot src' addr k = aa_storage (abs_vm src addr (vm_peek src m addr)) k" if "length k = 32"
  proof (cases "fmlookup m addr")
    case None
    then show ?thesis using slot [OF that] by (simp add: abs_vm_def vm_peek_def vm_written_def vm_fresh_def)
  next
    case (Some a)
    then have "acct_ok src addr a" using assms(4) by (simp add: layer_ok_def)
    with Some slot [OF that] slotVal_dirty [OF this, of k] show ?thesis
      by (auto simp: abs_vm_def vm_peek_def vm_written_def acct_ok_def split: option.splits)
  qed
qed

text \<open>
  C15: Flushing a working copy succeeds and persists it: a working copy opened afterwards on the new
  stores sees, for every address, the balance (its low 64 bits, which is what the stores can hold),
  the code and every storage slot of the old one, whichever order the maps were visited in.
\<close>

theorem Flush_reads_back:
  assumes "codec_ok cd" "accounts_keyed cd d" "range_order ord"
    and "src = \<lparr>so_codec = cd, so_db = d, so_provider = prov\<rparr>" "vm_inv src [] s"
  shows "\<exists>d'. vm_Flush cd ord s d = (Inr (), d') \<and>
    (\<forall>addr. let before = vm_accts src (vm_dirty s) addr;
               after = vm_accts (src\<lparr>so_db := d'\<rparr>) (vm_dirty newVMStateDB) addr
      in aa_balance after = ucast (ucast (aa_balance before) :: int64) \<and> aa_code after = aa_code before \<and>
         (\<forall>k. length k = 32 \<longrightarrow> aa_storage after k = aa_storage before k))"
proof -
  have ok: "layer_ok src (vm_dirty s)" using assms(5) by (simp add: vm_inv_def)
  obtain d' where d': "vm_Flush cd ord s d = (Inr (), d')" "flushed cd (vm_written (vm_dirty s)) UNIV d d'"
    using Flush_flushed [OF assms(1-3) layer_ok_slots32 [OF ok]] by blast
  note reread = flushed_account [OF d'(2) ok [unfolded assms(4)]]
  have fresh: "vm_peek src' (vm_dirty newVMStateDB) addr = vm_fresh src' addr"
    "aa_storage (abs_vm src' addr (vm_fresh src' addr)) = baseSlot src' addr" for src' addr
    by (simp_all add: vm_peek_def newVMStateDB_def abs_vm_def vm_fresh_def)
  show ?thesis
    by (rule exI [of _ d']) (simp add: d'(1) assms(4) Let_def fresh reread vm_accts_at)
qed

text \<open>A working copy over an empty chain in which an account was credited and a slot written.\<close>

definition emptySource :: vmSource where
  "emptySource = \<lparr>so_codec = ref_codec, so_db = NewDatabase NewMemKV, so_provider = None\<rparr>"

definition sampleVm :: vmStateDB where
  "sampleVm = vm_SetStorage emptySource (replicate 21 1) (replicate 32 7) (replicate 32 9)
     (vm_AddBalance emptySource (replicate 21 1) 5 newVMStateDB)"

lemma empty_chain: "AccountStore_Get ref_codec (NewDatabase NewMemKV) addr = Inl ErrNotFound"
  by (simp add: AccountStore_Get_view view_def NewDatabase_def NewMemKV_def)

lemma range_order_sorted: "range_order sorted_list_of_fset"
  by (simp add: range_order_def sorted_list_of_fset.rep_eq)

lemma vm_inv_sample: "vm_inv emptySource [] sampleVm"
  unfolding sampleVm_def
  using vmkeep.writes(2,6) [of emptySource "[]", where keccak = "\<lambda>b. b"] vm_inv_new by (simp add: vmDB_def)

theorem Flush_reads_back_witness:
  "\<exists>d'. vm_Flush ref_codec sorted_list_of_fset sampleVm (NewDatabase NewMemKV) = (Inr (), d') \<and>
     (let after = vm_accts (emptySource\<lparr>so_db := d'\<rparr>) (vm_dirty newVMStateDB) (replicate 21 1)
      in aa_balance after = 5 \<and> aa_storage after (replicate 32 7) = Some (replicate 32 9))"
proof -
  have now: "aa_balance (vm_accts emptySource (vm_dirty sampleVm) (replicate 21 1)) = 5"
    "aa_storage (vm_accts emptySource (vm_dirty sampleVm) (replicate 21 1)) (replicate 32 7) = Some (replicate 32 9)"
    using vmst.SetStorage [of emptySource "\<lambda>b. b"] vmst.AddBalance [of emptySource "\<lambda>b. b"]
    by (simp_all add: sampleVm_def vmDB_def)
      (simp add: vm_accts_at vm_peek_def newVMStateDB_def vm_fresh_def emptySource_def baseBalance_def empty_chain provided_def)
  show ?thesis
    using Flush_reads_back [OF ref_codec_ok _ range_order_sorted emptySource_def vm_inv_sample] now
    by (fastforce simp: Let_def accounts_keyed_def empty_chain)
qed

end
