(* ===== verification/Vm_Actuator.thy ===== *)
theory Vm_Actuator
  imports Vm_Flush
begin

text \<open>
  \<open>internal/actuator/energy.go\<close>, \<open>multisig.go\<close> and \<open>vm.go\<close>: the staked energy of an account, the
  permissions the multi-signature contract reads, and the actuator that runs contract creations and
  calls on the machine. The interpreter is given a number of steps; that enough steps give a result
  is part of what is shown.
\<close>

section \<open>Staked energy (energy.go)\<close>

definition mainnetGenesisTimestampMs :: int64 where "mainnetGenesisTimestampMs = 1529891469000"

record energyDynamicProps =
  ep_totalEnergyCurrentLimit :: int64
  ep_totalEnergyWeight :: int64
  ep_supportUnfreezeDelay :: bool
  ep_allowNewReward :: bool

definition energyDynamicPropsFromState :: "Database \<Rightarrow> energyDynamicProps result" where
  "energyDynamicPropsFromState d =
     bindE (TotalEnergyCurrentLimit d) (\<lambda>currentLimit.
     bindE (TotalEnergyWeight d) (\<lambda>weight.
     bindE (SupportUnfreezeDelay d) (\<lambda>unfreezeDelay.
     bindE (AllowNewReward d) (\<lambda>newReward.
       Inr \<lparr>ep_totalEnergyCurrentLimit = currentLimit, ep_totalEnergyWeight = weight,
            ep_supportUnfreezeDelay = unfreezeDelay, ep_allowNewReward = newReward\<rparr>))))"

definition headSlot :: "int64 \<Rightarrow> int64" where
  "headSlot blockTimestampMs = quot64 (blockTimestampMs - mainnetGenesisTimestampMs) BlockProducedIntervalMs"

definition allFrozenBalanceForEnergy :: "Account \<Rightarrow> int64" where
  "allFrozenBalanceForEnergy a =
     (let res = GetAccountResource a;
          t = GetFrozenBalance (ar_FrozenBalanceForEnergy res) + ar_AcquiredDelegatedFrozenBalanceForEnergy res +
              ar_AcquiredDelegatedFrozenV2BalanceForEnergy res
      in fold (\<lambda>f t. if f2_Type f = ENERGY then t + f2_Amount f else t) (ac_FrozenV2 a) t)"

definition availableStakedEnergy :: "Account option \<Rightarrow> int64 \<Rightarrow> energyDynamicProps \<Rightarrow> int64" where
  "availableStakedEnergy acct blockTimestampMs props =
     (case acct of
        None \<Rightarrow> 0
      | Some a \<Rightarrow> let res = GetAccountResource a in
          AvailableStakedEnergy \<lparr>se_FrozenBalanceForEnergy = allFrozenBalanceForEnergy a,
            se_EnergyUsage = ar_EnergyUsage res, se_LatestConsumeSlot = ar_LatestConsumeTimeForEnergy res,
            se_WindowSize = EnergyWindow (ar_EnergyWindowSize res) (ar_EnergyWindowOptimized res),
            se_NowSlot = headSlot blockTimestampMs, se_TotalEnergyCurrentLimit = ep_totalEnergyCurrentLimit props,
            se_TotalEnergyWeight = ep_totalEnergyWeight props, se_SupportUnfreezeDelay = ep_supportUnfreezeDelay props,
            se_AllowNewReward = ep_allowNewReward props\<rparr>)"

definition lookupAccount :: "codec \<Rightarrow> Database \<Rightarrow> bytes \<Rightarrow> Account option" where
  "lookupAccount cd d addr = (case AccountStore_Get cd d addr of Inl _ \<Rightarrow> None | Inr a \<Rightarrow> Some a)"

definition chargedResource :: "int64 \<Rightarrow> int64 \<Rightarrow> AccountResource \<Rightarrow> AccountResource" where
  "chargedResource usage nowSlot r = r
     \<lparr>ar_EnergyUsage := IncreaseEnergyUsage (ar_EnergyUsage r) usage (ar_LatestConsumeTimeForEnergy r) nowSlot
        (EnergyWindow (ar_EnergyWindowSize r) (ar_EnergyWindowOptimized r)),
      ar_LatestConsumeTimeForEnergy := nowSlot\<rparr>"

definition chargeCallerEnergy :: "codec \<Rightarrow> bytes \<Rightarrow> int64 \<Rightarrow> int64 \<Rightarrow> (Database, unit) op" where
  "chargeCallerEnergy cd addr usage nowMs =
     bindM (tryR (\<lambda>d. AccountStore_Get cd d addr)) (\<lambda>r.
       case r of
         Inl _ \<Rightarrow> returnM ()
       | Inr acct \<Rightarrow> AccountStore_Put cd (updResource (chargedResource usage (headSlot nowMs)) acct))"

section \<open>Permissions (multisig.go)\<close>

definition defaultOwnerPermission :: "bytes \<Rightarrow> Permission" where
  "defaultOwnerPermission addr = \<lparr>pm_Type = 0, pm_Id = 0, pm_PermissionName = ascii ''owner'', pm_Threshold = 1,
     pm_ParentId = 0, pm_Operations = [], pm_Keys = [\<lparr>k_Address = addr, k_Weight = 1\<rparr>]\<rparr>"

definition permissionByID :: "Account \<Rightarrow> int \<Rightarrow> Permission option" where
  "permissionByID a ident =
     (if ident = 0 then
        (case ac_OwnerPermission a of Some p \<Rightarrow> Some p | None \<Rightarrow> Some (defaultOwnerPermission (ac_Address a)))
      else if ident = 1 then ac_WitnessPermission a
      else find (\<lambda>p. sint (pm_Id p) = ident) (ac_ActivePermission a))"

definition PermissionById :: "codec \<Rightarrow> Database \<Rightarrow> permReader" where
  "PermissionById cd d addr ident =
     (case AccountStore_Get cd d addr of
        Inl _ \<Rightarrow> None
      | Inr a \<Rightarrow> (case permissionByID a ident of
          None \<Rightarrow> None
        | Some perm \<Rightarrow> Some (pm_Threshold perm, map (\<lambda>k. \<lparr>pk_Address = k_Address k, pk_Weight = k_Weight k\<rparr>) (pm_Keys perm))))"

section \<open>Contract transactions (vm.go)\<close>

definition mainnetChainID :: u256 where "mainnetChainID = 728126428"

record VmReceipt =
  vr_Energy :: Receipt
  vr_ContractAddress :: bytes
  vr_Return :: bytes
  vr_Reverted :: bool
  vr_VMError :: "vmError option"
  vr_Logs :: "Log list"

definition Vm_Validate :: "codec \<Rightarrow> bool \<Rightarrow> Context \<Rightarrow> unit result" where
  "Vm_Validate cd create ctx =
     (if create then
        bindE (unpackE ''unpack CreateSmartContract'' (to_CreateSmart cd) ctx) (\<lambda>csc.
        bindE (check (cs_NewContract csc = None) (Err ''actuator: CreateSmartContract has no new_contract'')) (\<lambda>_.
          check (length (cs_OwnerAddress csc) = 0) (Err ''actuator: CreateSmartContract missing owner'')))
      else
        bindE (unpackE ''unpack TriggerSmartContract'' (to_TriggerSmart cd) ctx) (\<lambda>tsc.
          check (length (ts_ContractAddress tsc) = 0) (Err ''actuator: TriggerSmartContract missing contract address'')))"

text \<open>The local variables the two contract types fill in.\<close>

record vmCall =
  vc_owner :: bytes
  vc_contractAddr :: bytes
  vc_code :: bytes
  vc_input :: bytes
  vc_callValue :: int64
  vc_consumeUserPercent :: int64
  vc_originEnergyLimit :: int64

definition GetNewContract :: "CreateSmartC \<Rightarrow> SmartContract" where
  "GetNewContract csc = (case cs_NewContract csc of Some sc \<Rightarrow> sc
     | None \<Rightarrow> \<lparr>sm_Bytecode = [], sm_CallValue = 0, sm_ConsumeUserResourcePercent = 0, sm_OriginEnergyLimit = 0\<rparr>)"

definition vm_unpack :: "codec \<Rightarrow> vmlib \<Rightarrow> bool \<Rightarrow> Context \<Rightarrow> vmSource \<Rightarrow> (vmCall \<times> vmStateDB) result" where
  "vm_unpack cd lib create ctx src =
     (if create then
        bindE (unpackE ''unpack CreateSmartContract'' (to_CreateSmart cd) ctx) (\<lambda>csc.
          let sc = GetNewContract csc; owner = cs_OwnerAddress csc in
          Inr (\<lparr>vc_owner = owner, vc_contractAddr = CreateContractAddress (L_keccak lib) owner (cx_TxID ctx),
            vc_code = sm_Bytecode sc, vc_input = [], vc_callValue = sm_CallValue sc,
            vc_consumeUserPercent = sm_ConsumeUserResourcePercent sc, vc_originEnergyLimit = sm_OriginEnergyLimit sc\<rparr>,
            newVMStateDB))
      else
        bindE (unpackE ''unpack TriggerSmartContract'' (to_TriggerSmart cd) ctx) (\<lambda>tsc.
          let (code, sdb) = vm_GetCode src (ts_ContractAddress tsc) newVMStateDB in
          Inr (\<lparr>vc_owner = ts_OwnerAddress tsc, vc_contractAddr = ts_ContractAddress tsc, vc_code = code,
            vc_input = ts_Data tsc, vc_callValue = ts_CallValue tsc, vc_consumeUserPercent = 100, vc_originEnergyLimit = 0\<rparr>,
            sdb)))"

definition vmEnv :: "codec \<Rightarrow> vmlib \<Rightarrow> Context \<Rightarrow> vmSource \<Rightarrow> vmStateDB env" where
  "vmEnv cd lib ctx src = (let blk = cx_Block ctx in
     \<lparr>ev_db = vmDB src (L_keccak lib), ev_lib = lib,
      ev_block = \<lparr>vb_Number = bc_Number blk, vb_Timestamp = bc_Timestamp blk, vb_Coinbase = bc_Witness blk,
        vb_ChainID = Some mainnetChainID, vb_Version = bc_Version blk\<rparr>,
      ev_cfg = VMConfigForVersion (bc_Version blk), ev_rootTxID = cx_TxID ctx,
      ev_perm = Some (PermissionById cd (so_db src))\<rparr>)"

text \<open>
  From the snapshot to the deployment of returned code. A panic of the machine (\<open>Crash\<close>) is a panic
  of the actuator.
\<close>

definition vm_frame :: "vmCall \<Rightarrow> Contract" where
  "vm_frame c = \<lparr>c_Self = vc_contractAddr c, c_CodeAddr = vc_contractAddr c, c_Caller = vc_owner c, c_Origin = vc_owner c,
     c_Value = ucast (vc_callValue c), c_Input = [], c_Code = vc_code c\<rparr>"

definition vm_fund :: "vmSource \<Rightarrow> bool \<Rightarrow> vmCall \<Rightarrow> vmStateDB \<Rightarrow> vmStateDB" where
  "vm_fund src create c s =
     (let s1 = (if create then vm_CreateAccount src (vc_contractAddr c) s else s) in
      if slt 0 (vc_callValue c)
      then vm_AddBalance src (vc_contractAddr c) (ucast (vc_callValue c)) (vm_SubBalance src (vc_owner c) (ucast (vc_callValue c)) s1)
      else s1)"

definition vm_runCall :: "nat \<Rightarrow> codec \<Rightarrow> vmlib \<Rightarrow> bool \<Rightarrow> Context \<Rightarrow> vmSource \<Rightarrow> vmCall \<Rightarrow> uint64 \<Rightarrow> vmStateDB \<Rightarrow>
    (Result \<times> bool \<times> Log list \<times> vmStateDB) result" where
  "vm_runCall fuel cd lib create ctx src c budget s =
     (let (snap, s1) = vm_Snapshot s; s2 = vm_fund src create c s1 in
      case evm_Execute fuel (vmEnv cd lib ctx src) (vm_frame c) (vc_input c) budget s2 of
        Next (res, logs, s3) \<Rightarrow>
          let reverted = (r_Err res \<noteq> None \<or> r_Reverted res);
              s4 = (if reverted then vm_RevertToSnapshot snap s3
                    else if create then vm_SetCode src (vc_contractAddr c) (r_Return res) s3 else s3)
          in Inr (res, reverted, if reverted then [] else logs, s4)
      | Fault e x \<Rightarrow> Inl (Panic ''unreachable'')
      | Crash m \<Rightarrow> Inl (Panic m)
      | NoFuel \<Rightarrow> Inl OutOfFuel)"

definition vm_bill :: "bool \<Rightarrow> vmCall \<Rightarrow> int64 \<Rightarrow> int64 \<Rightarrow> Result \<Rightarrow> Receipt" where
  "vm_bill create c callerEnergy energyFee res =
     Compute \<lparr>bl_EnergyUsed = r_EnergyUsed res, bl_CallerEnergy = callerEnergy, bl_OriginEnergy = 0, bl_CallerIsOrigin = create,
       bl_ConsumeUserPercent = vc_consumeUserPercent c, bl_OriginEnergyLimit = vc_originEnergyLimit c, bl_EnergyPrice = energyFee\<rparr>"

text \<open>The caller's staked energy and the energy the transaction may use; the balance read may cache the account.\<close>

definition vm_budget :: "codec \<Rightarrow> Context \<Rightarrow> vmSource \<Rightarrow> vmCall \<Rightarrow> vmStateDB \<Rightarrow>
    (int64 \<times> int64 \<times> int64 \<times> uint64 \<times> vmStateDB) result" where
  "vm_budget cd ctx src c s =
     bindE (wrapE ''actuator: read energy properties'' (energyDynamicPropsFromState (so_db src))) (\<lambda>props.
     bindE (wrapE ''actuator: read header timestamp'' (LatestBlockHeaderTimestamp (so_db src))) (\<lambda>nowMs.
     bindE (wrapE ''actuator: read energy fee'' (EnergyFee (so_db src))) (\<lambda>energyFee.
       let callerEnergy = availableStakedEnergy (lookupAccount cd (so_db src) (vc_owner c)) nowMs props;
           (bal, s1) = vm_GetBalance src (vc_owner c) s;
           energyLimit = AccountEnergyLimit callerEnergy (ucast bal) (vc_callValue c) (tr_FeeLimit (GetTxRawData (cx_Tx ctx))) energyFee
       in Inr (nowMs, energyFee, callerEnergy, if slt 0 energyLimit then energyLimit else 0, s1))))"

text \<open>After the run: the fee, the write-back to the stores, the energy record and the receipt.\<close>

definition vm_fee :: "vmSource \<Rightarrow> bytes \<Rightarrow> Receipt \<Rightarrow> vmStateDB \<Rightarrow> vmStateDB" where
  "vm_fee src owner bill s = (if slt 0 (rc_EnergyFee bill) then vm_SubBalance src owner (ucast (rc_EnergyFee bill)) s else s)"

definition vm_settle :: "codec \<Rightarrow> (bytes fset \<Rightarrow> bytes list) \<Rightarrow> vmSource \<Rightarrow> vmCall \<Rightarrow> Receipt \<Rightarrow> int64 \<Rightarrow>
    Result \<times> bool \<times> Log list \<times> vmStateDB \<Rightarrow> (Database, VmReceipt) op" where
  "vm_settle cd ord src c bill nowMs = (\<lambda>(res, reverted, logs, s).
     bindM (wrapM ''actuator: vm state flush'' (vm_Flush cd ord (vm_fee src (vc_owner c) bill s))) (\<lambda>_.
     bindM (wrapM ''actuator: energy usage write-back'' (chargeCallerEnergy cd (vc_owner c) (rc_EnergyUsage bill) nowMs)) (\<lambda>_.
       returnM \<lparr>vr_Energy = bill, vr_ContractAddress = vc_contractAddr c, vr_Return = r_Return res,
         vr_Reverted = reverted, vr_VMError = r_Err res, vr_Logs = logs\<rparr>)))"

definition Vm_Execute :: "nat \<Rightarrow> codec \<Rightarrow> vmlib \<Rightarrow> (bytes fset \<Rightarrow> bytes list) \<Rightarrow> bool \<Rightarrow> Context \<Rightarrow> (Database, VmReceipt) op" where
  "Vm_Execute fuel cd lib ord create ctx d =
     (let src = \<lparr>so_codec = cd, so_db = d, so_provider = bc_Provider (cx_Block ctx)\<rparr> in
      bindM (liftM (vm_unpack cd lib create ctx src)) (\<lambda>(c, s0).
      bindM (liftM (vm_budget cd ctx src c s0)) (\<lambda>(nowMs, energyFee, callerEnergy, budget, s1).
      bindM (liftM (vm_runCall fuel cd lib create ctx src c budget s1)) (\<lambda>out.
        vm_settle cd ord src c (vm_bill create c callerEnergy energyFee (fst out)) nowMs out))) d)"

lemma keeps_diag: "(\<And>d. keeps P (m d)) \<Longrightarrow> keeps P (\<lambda>d. m d d)"
  by (simp add: keeps_def)

context write_inv
begin

lemma keeps_chargeCallerEnergy [keeps_intros]: "keeps P (chargeCallerEnergy cd addr usage nowMs)"
  unfolding chargeCallerEnergy_def by (intro keeps_intros)

lemma keeps_vm_settle [keeps_intros]: "keeps P (vm_settle cd ord src c bill nowMs out)"
  unfolding vm_settle_def by (intro keeps_intros)

lemma keeps_Vm_Execute [keeps_intros]: "keeps P (Vm_Execute fuel cd lib ord create ctx)"
  unfolding Vm_Execute_def [abs_def] Let_def by (rule keeps_diag) (intro keeps_intros)

end

end
