(* ===== verification/Vm_Props.thy ===== *)
theory Vm_Props
  imports Vm_Actuator
begin

text \<open>
  Properties of the contract actuator (\<open>internal/actuator/vm.go\<close>): every contract transaction comes to
  an end, a reverted one changes nothing but the caller's account, and what happens to a value the
  caller does not have.
\<close>

section \<open>Every contract transaction ends\<close>

lemma runFrame_no_Fault: "runFrame n env f \<noteq> Fault e x"
proof (induction n arbitrary: f)
  case (Suc n)
  then show ?case by (auto simp: runFrame_Suc failResult_def split: outcome.splits)
qed simp

lemma Execute_no_Fault: "evm_Execute n env c input limit s \<noteq> Fault e x"
  unfolding evm_Execute_def evm_run_def by (auto simp: runFrame_no_Fault split: outcome.split prod.split)

lemma positive_63: "slt 0 (x :: int64) \<Longrightarrow> unat x < 2 ^ 63"
  using sint_high [of x] by (force simp: slt_def)

lemma vm_budget_63:
  "vm_budget cd ctx src c s = Inr (nowMs, energyFee, callerEnergy, budget, s') \<Longrightarrow> unat budget < 2 ^ 63"
  using positive_63 by (auto simp: vm_budget_def bindE_eq_Inr Let_def split_beta split: if_splits)

lemma vm_unpack_fuel: "vm_unpack cd lib create ctx src \<noteq> Inl OutOfFuel"
  by (auto simp: vm_unpack_def unpackE_def wrapE_def bindE_def Let_def split_beta split: sum.splits)

lemma vm_budget_fuel: "vm_budget cd ctx src c s \<noteq> Inl OutOfFuel"
  by (auto simp: vm_budget_def wrapE_def bindE_def Let_def split_beta split: sum.splits)

lemma wrapM_fuel: "wrapM m x d = (r, d') \<Longrightarrow> r \<noteq> Inl OutOfFuel"
  by (auto simp: wrapM_def wrapE_def split: prod.splits sum.splits)

lemma vm_runCall_ends:
  assumes "unat budget < 2 ^ 63"
  shows "\<exists>n r. r \<noteq> Inl OutOfFuel \<and> (\<forall>k. vm_runCall (n + k) cd lib create ctx src c budget s = r)"
proof -
  let ?s = "vm_fund src create c (snd (vm_Snapshot s))"
  obtain n r where r: "r \<noteq> NoFuel" "\<And>k. evm_Execute (n + k) (vmEnv cd lib ctx src) (vm_frame c) (vc_input c) budget ?s = r"
    using Execute_ends [OF assms] by metis
  show ?thesis
    by (rule exI [of _ n], rule exI [of _ "vm_runCall n cd lib create ctx src c budget s"])
      (use r(1) r(2) [of 0] in \<open>auto simp: vm_runCall_def r(2) Let_def split_beta split: outcome.splits\<close>)
qed

lemma vm_settle_fuel: "fst (vm_settle cd ord src c bill nowMs out d) \<noteq> Inl OutOfFuel"
proof -
  have "fst (wrapM m x d) \<noteq> Inl OutOfFuel" for m d and x :: "(Database, unit) op"
    using wrapM_fuel [of m x d] by (cases "wrapM m x d") auto
  then show ?thesis
    by (auto simp: vm_settle_def bindM_def split_beta split: sum.splits prod.splits)
qed

text \<open>
  C16: A contract transaction always comes to an end, whatever code it runs and whatever the stores
  hold: some number of interpreter steps gives its result (a receipt, an error or a panic), and more
  steps give the same one.
\<close>

theorem Vm_Execute_ends:
  "\<exists>n r. fst r \<noteq> Inl OutOfFuel \<and> (\<forall>k. Vm_Execute (n + k) cd lib ord create ctx d = r)"
proof -
  let ?src = "\<lparr>so_codec = cd, so_db = d, so_provider = bc_Provider (cx_Block ctx)\<rparr>"
  show ?thesis
  proof (cases "vm_unpack cd lib create ctx ?src")
    case (Inl e)
    then show ?thesis using vm_unpack_fuel [of cd lib create ctx ?src] by (auto simp: Vm_Execute_def)
  next
    case unpack: (Inr x)
    obtain c s0 where x: "x = (c, s0)" by force
    show ?thesis
    proof (cases "vm_budget cd ctx ?src c s0")
      case (Inl e)
      then show ?thesis using vm_budget_fuel [of cd ctx ?src c s0] unpack x by (auto simp: Vm_Execute_def)
    next
      case budget: (Inr y)
      obtain nowMs fee energy budget s1 where y: "y = (nowMs, fee, energy, budget, s1)" by (metis prod_cases5)
      obtain n out where out: "out \<noteq> Inl OutOfFuel" "\<And>k. vm_runCall (n + k) cd lib create ctx ?src c budget s1 = out"
        using vm_runCall_ends [OF vm_budget_63] budget y by metis
      have "Vm_Execute (n + k) cd lib ord create ctx d = (case out of Inl e \<Rightarrow> (Inl e, d)
          | Inr z \<Rightarrow> vm_settle cd ord ?src c (vm_bill create c energy fee (fst z)) nowMs z d)" for k
        by (simp add: Vm_Execute_def unpack x budget y out(2))
      moreover have "fst (case out of Inl e \<Rightarrow> (Inl e, d)
          | Inr z \<Rightarrow> vm_settle cd ord ?src c (vm_bill create c energy fee (fst z)) nowMs z d) \<noteq> Inl OutOfFuel"
        using out(1) vm_settle_fuel by (auto split: sum.splits)
      ultimately show ?thesis by blast
    qed
  qed
qed

section \<open>A reverted transaction\<close>

text \<open>A layer that has only cached what the stores hold.\<close>

definition clean :: "vmSource \<Rightarrow> vmStateDB \<Rightarrow> bool" where
  "clean src s \<longleftrightarrow> vm_snaps s = [] \<and> (\<forall>addr a. fmlookup (vm_dirty s) addr = Some a \<longrightarrow> a = vm_fresh src addr)"

lemma clean_new: "clean src newVMStateDB"
  by (simp add: clean_def newVMStateDB_def)

lemma clean_ok: "clean src s \<Longrightarrow> layer_ok src (vm_dirty s)"
  unfolding clean_def layer_ok_def by (metis acct_ok_fresh)

lemma fresh_clean [simp]: "\<not> va_balDirty (vm_fresh src addr)" "\<not> va_codeDirty (vm_fresh src addr)" "va_dirtySlot (vm_fresh src addr) = {||}"
  by (simp_all add: vm_fresh_def)

lemma clean_view: "clean src s \<Longrightarrow> clean src (snd (vm_view src g addr s))"
  by (auto simp: clean_def vm_view_def vm_load_def Let_def split_beta split: option.splits)

lemma vm_unpack_clean: "vm_unpack cd lib create ctx src = Inr (c, s) \<Longrightarrow> clean src s"
  using clean_view [OF clean_new] clean_new
  by (auto simp: vm_unpack_def bindE_eq_Inr Let_def split_beta vm_GetCode_def split: if_splits)

lemma vm_budget_clean:
  "vm_budget cd ctx src c s = Inr (nowMs, fee, energy, budget, s') \<Longrightarrow> clean src s \<Longrightarrow> clean src s'"
  using clean_view by (auto simp: vm_budget_def bindE_eq_Inr Let_def split_beta vm_GetBalance_def)

lemma vm_inv_fund: "vm_inv src old s \<Longrightarrow> vm_inv src old (vm_fund src create c s)"
  using vmkeep.writes(1,2,3) [of src old, where keccak = "\<lambda>b. b"] by (simp add: vm_fund_def Let_def vmDB_def)

lemma reverted_run:
  assumes "vm_runCall fuel cd lib create ctx src c budget s = Inr (res, True, logs, s')" "clean src s"
  shows "clean src s' \<and> logs = []"
proof -
  let ?s1 = "snd (vm_Snapshot s)" and ?env = "vmEnv cd lib ctx src"
  have "layer_ok src (vm_dirty s)" "vm_snaps s = []" using assms(2) clean_ok by (auto simp: clean_def)
  then have "vm_inv src [vm_dirty s] ?s1" and snap: "fst (vm_Snapshot s) = 0" by (auto simp: vm_inv_def vm_Snapshot_def)
  from vm_inv_fund [OF this(1)] have inv: "vm_inv src [vm_dirty s] (vm_fund src create c ?s1)" .
  obtain lg s3 where run: "evm_Execute fuel ?env (vm_frame c) (vc_input c) budget (vm_fund src create c ?s1) = Next (res, lg, s3)"
    and s': "s' = vm_RevertToSnapshot 0 s3" "logs = []"
    using assms(1) snap by (auto simp: vm_runCall_def Let_def split_beta split: outcome.splits if_splits)
  have "vm_inv src [vm_dirty s] s3"
    by (rule vmkeep.Execute_inv [OF _ run inv]) (simp add: vmEnv_def Let_def)
  then show ?thesis using assms(2) s' by (auto simp: vm_inv_def vm_RevertToSnapshot_def clean_def)
qed

text \<open>Flushing a clean layer from which the fee has been taken writes at most the owner's account.\<close>

lemma fee_written:
  fixes src s owner bill
  defines "p \<equiv> vm_written (vm_dirty (vm_fee src owner bill s))"
  assumes "clean src s"
  shows "\<not> va_codeDirty (p addr)" "va_dirtySlot (p addr) = {||}" "va_balDirty (p addr) \<longleftrightarrow> addr = owner \<and> slt 0 (rc_EnergyFee bill)"
    "slt 0 (rc_EnergyFee bill) \<Longrightarrow> va_balance (p owner) = va_balance (vm_fresh src owner) - ucast (rc_EnergyFee bill)"
proof -
  have c: "fmlookup (vm_dirty s) x = Some a \<Longrightarrow> a = vm_fresh src x" for x a using assms(2) by (simp add: clean_def)
  note d = p_def vm_fee_def vm_SubBalance_def vm_modify_def vm_load_def vm_written_def Let_def
  show "\<not> va_codeDirty (p addr)" "va_dirtySlot (p addr) = {||}" "va_balDirty (p addr) \<longleftrightarrow> addr = owner \<and> slt 0 (rc_EnergyFee bill)"
    "slt 0 (rc_EnergyFee bill) \<Longrightarrow> va_balance (p owner) = va_balance (vm_fresh src owner) - ucast (rc_EnergyFee bill)"
    by (auto simp: d split: option.splits dest!: c)
qed

lemma mod_256_64: "((z::int) mod 2 ^ 256) mod 2 ^ 64 = z mod 2 ^ 64"
  by (rule mod_mod_cancel) (simp add: le_imp_power_dvd)

lemma ucast_sub: "ucast (x - y :: u256) = (ucast x - ucast y :: int64)"
proof (rule word_uint_eqI)
  have "uint (ucast (x - y) :: int64) = ((uint x - uint y) mod 2 ^ 256) mod 2 ^ 64"
    by (simp only: unsigned_ucast_eq uint_word_ariths take_bit_eq_mod len_of_numeral_defs) simp
  then show "uint (ucast (x - y) :: int64) = uint (ucast x - ucast y :: int64)"
    unfolding mod_256_64 by (simp add: unsigned_ucast_eq uint_word_ariths take_bit_eq_mod mod_diff_eq)
qed

lemma ucast_add: "ucast (x + y :: u256) = (ucast x + ucast y :: int64)"
proof (rule word_uint_eqI)
  have "uint (ucast (x + y) :: int64) = ((uint x + uint y) mod 2 ^ 256) mod 2 ^ 64"
    by (simp only: unsigned_ucast_eq uint_word_ariths take_bit_eq_mod len_of_numeral_defs) simp
  then show "uint (ucast (x + y) :: int64) = uint (ucast x + ucast y :: int64)"
    unfolding mod_256_64 by (simp add: unsigned_ucast_eq uint_word_ariths take_bit_eq_mod mod_add_eq)
qed

lemma ucast_up: "ucast (ucast b :: u256) = (b :: int64)"
  by transfer simp

lemmas ucast_arith = ucast_sub ucast_add ucast_up

lemma charge_owner:
  assumes "codec_ok cd" "accounts_keyed cd d"
  shows "\<exists>d'. chargeCallerEnergy cd addr usage nowMs d = (Inr (), d') \<and>
    (\<forall>k. k \<noteq> nsKey accountPrefix addr \<longrightarrow> view d' k = view d k) \<and>
    (\<forall>a. AccountStore_Get cd d addr = Inr a \<longrightarrow>
       AccountStore_Get cd d' addr = Inr (updResource (chargedResource usage (headSlot nowMs)) a))"
  using assms accounts_keyedD [OF assms(2), of addr]
  by (cases "AccountStore_Get cd d addr") (auto simp: chargeCallerEnergy_def)

text \<open>
  The account of a caller who only paid: the fee is gone from the balance, the energy record is
  updated, and the type says whether the address has code.
\<close>

definition paidAccount :: "int64 \<Rightarrow> Account \<Rightarrow> Account \<Rightarrow> bool" where
  "paidAccount fee a a' \<longleftrightarrow> a' = a\<lparr>ac_Type := ac_Type a', ac_Balance := ac_Balance a - fee, ac_AccountResource := ac_AccountResource a'\<rparr>"

lemma paid_charged: "paidAccount fee a (updResource f (a\<lparr>ac_Type := t, ac_Balance := ac_Balance a - fee\<rparr>))"
  by (simp add: paidAccount_def updResource_def ensureResource_def split: option.splits)

lemma settle_clean:
  fixes cd d prov s bill c
  defines "src \<equiv> \<lparr>so_codec = cd, so_db = d, so_provider = prov\<rparr>" and "owner \<equiv> vc_owner c"
  assumes ok: "codec_ok cd" "accounts_keyed cd d" "range_order ord" and "clean src s"
  shows "\<exists>d'. vm_settle cd ord src c bill nowMs (res, True, logs, s) d =
      (Inr \<lparr>vr_Energy = bill, vr_ContractAddress = vc_contractAddr c, vr_Return = r_Return res, vr_Reverted = True,
         vr_VMError = r_Err res, vr_Logs = logs\<rparr>, d') \<and>
    (\<forall>k. k \<noteq> nsKey accountPrefix owner \<longrightarrow> view d' k = view d k) \<and>
    (\<forall>a. AccountStore_Get cd d owner = Inr a \<longrightarrow> (\<exists>a'. AccountStore_Get cd d' owner = Inr a' \<and>
       paidAccount (if slt 0 (rc_EnergyFee bill) then rc_EnergyFee bill else 0) a a'))"
proof -
  let ?s = "vm_fee src owner bill s" and ?fee = "rc_EnergyFee bill"
  let ?p = "vm_written (vm_dirty ?s)"
  note w = fee_written [OF assms(6), where owner = owner and bill = bill]
  have "slots32 (vm_dirty ?s)" by (simp add: slots32_def w)
  then obtain d1 where d1: "vm_Flush cd ord ?s d = (Inr (), d1)" "flushed cd ?p UNIV d d1"
    using Flush_flushed [OF ok] by blast
  have k1: "accounts_keyed cd d1"
    using keepsD [OF write_inv.keeps_vm_Flush [OF codec_keyed [OF ok(1)]] ok(2), of ord ?s] d1(1) by simp
  obtain d2 where d2: "chargeCallerEnergy cd owner (rc_EnergyUsage bill) nowMs d1 = (Inr (), d2)"
      "\<And>k. k \<noteq> nsKey accountPrefix owner \<Longrightarrow> view d2 k = view d1 k"
      "\<And>a. AccountStore_Get cd d1 owner = Inr a \<Longrightarrow>
         AccountStore_Get cd d2 owner = Inr (updResource (chargedResource (rc_EnergyUsage bill) (headSlot nowMs)) a)"
    using charge_owner [OF ok(1) k1] by blast
  have frame: "view d2 k = view d k" if "k \<noteq> nsKey accountPrefix owner" for k
    using that d1(2) d2(2) by (auto simp: flushed_def wrote_def w)
  have acct: "\<exists>a'. AccountStore_Get cd d2 owner = Inr a' \<and> paidAccount (if slt 0 ?fee then ?fee else 0) a a'"
    if a: "AccountStore_Get cd d owner = Inr a" for a
  proof -
    have "va_balance (vm_fresh src owner) = ucast (ac_Balance a)" using a by (simp add: vm_fresh_def baseBalance_def src_def)
    then have bal: "slt 0 ?fee \<Longrightarrow> ucast (va_balance (?p owner)) = ac_Balance a - ?fee" by (simp add: w(4) ucast_arith)
    let ?t = "if slt 0 ?fee \<and> length (va_code (?p owner)) > 0 then Contract else ac_Type a"
    have "AccountStore_Get cd d1 owner = (if slt 0 ?fee then Inr (flushedAccount owner (?p owner) (Inr a)) else Inr a)"
      using d1(2) a by (simp add: flushed_def w(3))
    then have "AccountStore_Get cd d1 owner = Inr (a\<lparr>ac_Type := ?t, ac_Balance := ac_Balance a - (if slt 0 ?fee then ?fee else 0)\<rparr>)"
      using bal by (simp add: flushedAccount_def Let_def)
    from d2(3) [OF this] show ?thesis using paid_charged by blast
  qed
  have run: "vm_settle cd ord src c bill nowMs (res, True, logs, s) d =
      (Inr \<lparr>vr_Energy = bill, vr_ContractAddress = vc_contractAddr c, vr_Return = r_Return res, vr_Reverted = True,
         vr_VMError = r_Err res, vr_Logs = logs\<rparr>, d2)"
    using d1(1) d2(1) by (simp add: vm_settle_def bindM_def wrapM_def owner_def)
  show ?thesis using run frame acct by blast
qed

text \<open>
  C14: A contract transaction whose execution reverted or faulted leaves no trace but its cost: no
  event is kept, every record of the database except the caller's account is as it was, and of the
  caller's account only the balance (by exactly the billed fee), the energy record and the account
  type may differ.
\<close>

theorem reverted_changes_caller_only:
  assumes "codec_ok cd" "accounts_keyed cd d" "range_order ord"
    and "Vm_Execute fuel cd lib ord create ctx d = (Inr r, d')" "vr_Reverted r"
  shows "\<exists>c s. vm_unpack cd lib create ctx \<lparr>so_codec = cd, so_db = d, so_provider = bc_Provider (cx_Block ctx)\<rparr> = Inr (c, s) \<and>
    vr_Logs r = [] \<and> (\<forall>k. k \<noteq> nsKey accountPrefix (vc_owner c) \<longrightarrow> view d' k = view d k) \<and>
    (\<forall>a. AccountStore_Get cd d (vc_owner c) = Inr a \<longrightarrow> (\<exists>a'. AccountStore_Get cd d' (vc_owner c) = Inr a' \<and>
       paidAccount (if slt 0 (rc_EnergyFee (vr_Energy r)) then rc_EnergyFee (vr_Energy r) else 0) a a'))"
proof -
  let ?src = "\<lparr>so_codec = cd, so_db = d, so_provider = bc_Provider (cx_Block ctx)\<rparr>"
  obtain c s0 nowMs fee energy budget s1 res reverted logs s2
    where unpack: "vm_unpack cd lib create ctx ?src = Inr (c, s0)"
      and budget: "vm_budget cd ctx ?src c s0 = Inr (nowMs, fee, energy, budget, s1)"
      and run: "vm_runCall fuel cd lib create ctx ?src c budget s1 = Inr (res, reverted, logs, s2)"
      and settle: "vm_settle cd ord ?src c (vm_bill create c energy fee res) nowMs (res, reverted, logs, s2) d = (Inr r, d')"
    using assms(4) by (auto simp: Vm_Execute_def Let_def split: sum.splits prod.splits)
  have rev: "reverted = True" using settle assms(5) by (auto simp: vm_settle_def elim!: bindM_success)
  from reverted_run [OF run [unfolded rev]] vm_budget_clean [OF budget vm_unpack_clean [OF unpack]]
  have s2: "clean ?src s2" "logs = []" by auto
  from settle_clean [OF assms(1-3) s2(1), of c "vm_bill create c energy fee res" nowMs res logs] settle rev unpack s2(2)
  show ?thesis by (intro exI [of _ c] exI [of _ s0]) (auto simp: eq_commute [of "(Inr r, d')"])
qed

section \<open>Stores without a provider\<close>

lemma vm_budget_total:
  assumes "props_wf (so_db src)"
  shows "\<exists>nowMs fee energy budget. vm_budget cd ctx src c s = Inr (nowMs, fee, energy, budget, snd (vm_GetBalance src (vc_owner c) s))"
proof -
  obtain p t f where "energyDynamicPropsFromState (so_db src) = Inr p" "LatestBlockHeaderTimestamp (so_db src) = Inr t"
    "EnergyFee (so_db src) = Inr f"
    using getOr_total [OF assms] flagOn_total [OF assms]
    by (metis (no_types, lifting) bindE_simps(2) energyDynamicPropsFromState_def LatestBlockHeaderTimestamp_def EnergyFee_def
        TotalEnergyCurrentLimit_def TotalEnergyWeight_def SupportUnfreezeDelay_def AllowNewReward_def)
  then show ?thesis by (simp add: vm_budget_def Let_def split_beta)
qed

lemma vm_peek_modify:
  "vm_peek src (vm_dirty (vm_modify src f addr s)) = (vm_peek src (vm_dirty s))(addr := f (vm_peek src (vm_dirty s) addr))"
  by (simp add: vm_modify_def split_beta)

lemma balanceOf_fresh:
  "balanceOf cd d addr = ucast (va_balance (vm_fresh \<lparr>so_codec = cd, so_db = d, so_provider = None\<rparr> addr))"
  by (simp add: balanceOf_def vm_fresh_def baseBalance_def provided_def ucast_arith split: sum.splits)

text \<open>A settled transaction leaves in the stores, for every address, the balance the working copy had after the fee.\<close>

lemma settle_balances:
  fixes cd d s bill c
  defines "src \<equiv> \<lparr>so_codec = cd, so_db = d, so_provider = None\<rparr>"
  assumes ok: "codec_ok cd" "accounts_keyed cd d" "range_order ord" and "vm_inv src [] s"
  shows "\<exists>d'. vm_settle cd ord src c bill nowMs (res, reverted, logs, s) d =
      (Inr \<lparr>vr_Energy = bill, vr_ContractAddress = vc_contractAddr c, vr_Return = r_Return res, vr_Reverted = reverted,
         vr_VMError = r_Err res, vr_Logs = logs\<rparr>, d') \<and>
    (\<forall>addr. balanceOf cd d' addr = ucast (aa_balance (vm_accts src (vm_dirty (vm_fee src (vc_owner c) bill s)) addr)))"
proof -
  let ?s = "vm_fee src (vc_owner c) bill s"
  have "vm_inv src [] ?s"
    using assms(5) vmkeep.writes(3) [of src "[]" s, where keccak = "\<lambda>b. b"] by (simp add: vm_fee_def vmDB_def)
  then have lok: "layer_ok src (vm_dirty ?s)" by (simp add: vm_inv_def)
  obtain d1 where d1: "vm_Flush cd ord ?s d = (Inr (), d1)" "flushed cd (vm_written (vm_dirty ?s)) UNIV d d1"
    using Flush_flushed [OF ok layer_ok_slots32 [OF lok]] by blast
  define m where "m = vm_dirty ?s"
  have "layer_ok \<lparr>so_codec = cd, so_db = d, so_provider = None\<rparr> m" using lok by (simp add: m_def src_def)
  note fresh = flushed_account(1) [OF d1(2) [folded m_def] this]
  have bal: "balanceOf cd d1 addr = ucast (va_balance (vm_peek src m addr))" for addr
    unfolding balanceOf_fresh fresh src_def by (simp add: ucast_arith)
  have k1: "accounts_keyed cd d1"
    using keepsD [OF write_inv.keeps_vm_Flush [OF codec_keyed [OF ok(1)]] ok(2), of ord ?s] d1(1) by simp
  obtain d2 where d2: "chargeCallerEnergy cd (vc_owner c) (rc_EnergyUsage bill) nowMs d1 = (Inr (), d2)"
      "\<And>addr. balanceOf cd d2 addr = balanceOf cd d1 addr"
    using accounts_keyedD [OF k1, of "vc_owner c"] ok(1)
    by (cases "AccountStore_Get cd d1 (vc_owner c)") (auto simp: chargeCallerEnergy_def balanceOf_def)
  have "vm_settle cd ord src c bill nowMs (res, reverted, logs, s) d =
      (Inr \<lparr>vr_Energy = bill, vr_ContractAddress = vc_contractAddr c, vr_Return = r_Return res, vr_Reverted = reverted,
         vr_VMError = r_Err res, vr_Logs = logs\<rparr>, d2)"
    using d1(1) d2(1) by (simp add: vm_settle_def bindM_def wrapM_def)
  then show ?thesis using d2(2) bal by (auto simp: vm_accts_at m_def)
qed

section \<open>A value the caller does not have\<close>

lemma no_code_run:
  "evm_Execute (Suc n) env c input limit s = Next (endResult (newFrame c limit False 0 [] s), [], s)" if "c_Code c = []"
  using that by (simp add: evm_Execute_def evm_run_def runFrame_Suc newFrame_def endResult_def newEnergyMeter_def)

text \<open>
  C31: A call of an address without code moves its value from the caller without looking at the
  caller's balance: the receipt reports success and the stored balance of the caller is the old
  balance less the value, so below zero when the value is larger.
\<close>

theorem Trigger_overdraws:
  assumes "codec_ok cd" "accounts_keyed cd d" "range_order ord" "props_wf d"
    and "unpackE ''unpack TriggerSmartContract'' (to_TriggerSmart cd) ctx = Inr tsc" "bc_Provider (cx_Block ctx) = None"
    and "ContractStore_GetCode d (ts_ContractAddress tsc) = Inl e" "ts_OwnerAddress tsc \<noteq> ts_ContractAddress tsc"
    and "slt 0 (ts_CallValue tsc)"
  shows "\<exists>r d'. Vm_Execute (Suc n) cd lib ord False ctx d = (Inr r, d') \<and> \<not> vr_Reverted r \<and>
    balanceOf cd d' (ts_OwnerAddress tsc) = balanceOf cd d (ts_OwnerAddress tsc) - ts_CallValue tsc \<and>
    balanceOf cd d' (ts_ContractAddress tsc) = balanceOf cd d (ts_ContractAddress tsc) + ts_CallValue tsc"
proof -
  define src where "src = \<lparr>so_codec = cd, so_db = d, so_provider = None\<rparr>"
  let ?o = "ts_OwnerAddress tsc" and ?a = "ts_ContractAddress tsc" and ?v = "ts_CallValue tsc"
  obtain c s0 where unpack: "vm_unpack cd lib False ctx src = Inr (c, s0)" "clean src s0"
    and c: "vc_owner c = ?o" "vc_contractAddr c = ?a" "vc_code c = []" "vc_callValue c = ?v"
  proof -
    have "fst (vm_GetCode src ?a newVMStateDB) = []"
      using assms(7) by (simp add: vm_GetCode_def vm_peek_def newVMStateDB_def vm_fresh_def baseCode_def src_def provided_def)
    then show ?thesis using that clean_view [OF clean_new, of src va_code ?a] assms(5)
      by (simp add: vm_unpack_def Let_def split_beta vm_GetCode_def)
  qed
  obtain nowMs fee energy budget s1 where budget: "vm_budget cd ctx src c s0 = Inr (nowMs, fee, energy, budget, s1)" "clean src s1"
    using vm_budget_total [of src cd ctx c s0] clean_view [OF unpack(2)] assms(4) by (force simp: src_def vm_GetBalance_def)
  let ?s2 = "vm_fund src False c (snd (vm_Snapshot s1))"
  define res where "res = endResult (newFrame (vm_frame c) budget False 0 [] ?s2)"
  have run: "vm_runCall (Suc n) cd lib False ctx src c budget s1 = Inr (res, False, [], ?s2)"
    by (simp add: vm_runCall_def Let_def split_beta no_code_run vm_frame_def c(3) res_def endResult_def newFrame_def)
  have bill: "rc_EnergyFee (vm_bill False c energy fee res) = 0"
    by (simp add: vm_bill_def Compute_def res_def endResult_def newFrame_def newEnergyMeter_def scmp_defs)
  have inv: "vm_inv src [] ?s2"
    using clean_ok [OF budget(2)] budget(2) by (intro vm_inv_fund) (simp add: vm_inv_def vm_Snapshot_def clean_def)
  have "slt 0 (0 :: int64) = False" by (simp add: scmp_defs)
  with settle_balances [OF assms(1-3) inv [unfolded src_def], of c "vm_bill False c energy fee res" nowMs res False "[]", folded src_def] bill
  obtain r d' where settle: "vm_settle cd ord src c (vm_bill False c energy fee res) nowMs (res, False, [], ?s2) d = (Inr r, d')"
    "\<not> vr_Reverted r" "\<And>addr. balanceOf cd d' addr = ucast (aa_balance (vm_accts src (vm_dirty ?s2) addr))"
    by (auto simp: vm_fee_def)
  have "Vm_Execute (Suc n) cd lib ord False ctx d = (Inr r, d')"
    unfolding Vm_Execute_def assms(6) src_def [symmetric] Let_def by (simp add: unpack(1) budget(1) run settle(1))
  moreover have "vm_peek src (vm_dirty s1) = vm_fresh src" using budget(2) by (auto simp: clean_def vm_peek_def split: option.splits)
  then have "balanceOf cd d' ?o = balanceOf cd d ?o - ?v \<and> balanceOf cd d' ?a = balanceOf cd d ?a + ?v"
    using assms(8,9) unfolding settle(3) balanceOf_fresh [of cd d] src_def [symmetric]
    by (auto simp: vm_fund_def Let_def c vm_AddBalance_def vm_SubBalance_def vm_accts_at vm_peek_modify vm_Snapshot_def ucast_arith)
  ultimately show ?thesis using settle(2) by blast
qed

section \<open>Witnesses\<close>

text \<open>A caller with 10 sun calling a contract, with a value of 20 sun.\<close>

definition callerAddr :: bytes where "callerAddr = 65 # replicate 20 1"
definition calleeAddr :: bytes where "calleeAddr = 65 # replicate 20 2"

definition sampleTrigger :: TriggerSmartC where
  "sampleTrigger = \<lparr>ts_OwnerAddress = callerAddr, ts_ContractAddress = calleeAddr, ts_CallValue = 20, ts_Data = []\<rparr>"

definition triggerCtx :: Context where
  "triggerCtx = sampleCtx TriggerSmartContract (pack 12 fmt_TriggerSmart sampleTrigger)"

lemma triggerCtx_simps [simp]:
  "unpackE ''unpack TriggerSmartContract'' (to_TriggerSmart ref_codec) triggerCtx = Inr sampleTrigger"
  "bc_Provider (cx_Block triggerCtx) = None"
  by (simp_all add: triggerCtx_def unpackE_def) (simp add: sampleCtx_def)

lemma sample_addrs [simp]: "callerAddr \<noteq> calleeAddr" "calleeAddr \<noteq> callerAddr"
  by (simp_all add: callerAddr_def calleeAddr_def numeral_eq_Suc)

lemma sampleDb_code: "ContractStore_GetCode (sampleDb as) addr = Inl ErrNotFound"
proof -
  have "view (sampleDb as) (nsKey codePrefix addr) = None"
    by (induction as rule: rev_induct) (simp_all add: sampleDb_snoc ref_codec_ok)
  then show ?thesis by (simp add: ContractStore_GetCode_view)
qed

theorem Trigger_overdraws_witness:
  "\<exists>r d'. Vm_Execute 1 ref_codec sampleLib sorted_list_of_fset False triggerCtx (sampleDb [sampleAccount 1 10]) = (Inr r, d') \<and>
     \<not> vr_Reverted r \<and> sint (balanceOf ref_codec d' callerAddr) = - 10"
proof -
  have "balanceOf ref_codec (sampleDb [sampleAccount 1 10]) callerAddr = 10" by (simp add: balanceOf_def callerAddr_def)
  then show ?thesis
    using Trigger_overdraws [OF ref_codec_ok sampleDb_keyed range_order_sorted _ triggerCtx_simps, of "[sampleAccount 1 10]" ErrNotFound 0 sampleLib]
    by (force simp: sampleTrigger_def sampleDb_code scmp_defs)
qed

text \<open>The same call when the contract's code is \<open>ADD\<close>, which underflows the stack.\<close>

definition addDb :: Database where
  "addDb = Database_Put (sampleDb [sampleAccount 1 10]) (nsKey codePrefix calleeAddr) [0x01]"

lemma addDb_keyed: "accounts_keyed ref_codec addDb"
  using write_inv.put_other [OF codec_keyed [OF ref_codec_ok] sampleDb_keyed] by (simp add: addDb_def)

lemma add_run:
  assumes "c_Code c = [0x01]"
  shows "\<exists>res. evm_Execute 1 env c input limit s = Next (res, [], s) \<and> r_Err res = Some ErrStackUnderflow"
  using assms unfolding One_nat_def
  by (simp add: evm_Execute_def evm_run_def runFrame_Suc stepFrame_def newFrame_def opTable_samples oper_def failResult_def)

lemma add_reverts:
  "\<exists>r d'. Vm_Execute 1 ref_codec sampleLib sorted_list_of_fset False triggerCtx addDb = (Inr r, d') \<and> vr_Reverted r \<and>
     vr_VMError r = Some ErrStackUnderflow"
proof -
  let ?src = "\<lparr>so_codec = ref_codec, so_db = addDb, so_provider = None\<rparr>"
  obtain c s0 where unpack: "vm_unpack ref_codec sampleLib False triggerCtx ?src = Inr (c, s0)" "vc_code c = [0x01]"
    by (simp add: vm_unpack_def Let_def split_beta vm_GetCode_def vm_peek_def newVMStateDB_def vm_fresh_def baseCode_def
        ContractStore_GetCode_view addDb_def sampleTrigger_def)
  have "props_wf addDb" by (simp add: props_wf_def addDb_def) (simp add: key_simps)
  then obtain nowMs fee energy budget s1 where budget: "vm_budget ref_codec triggerCtx ?src c s0 = Inr (nowMs, fee, energy, budget, s1)"
    using vm_budget_total [of ?src ref_codec triggerCtx c s0] by auto
  obtain res s2 where run: "vm_runCall 1 ref_codec sampleLib False triggerCtx ?src c budget s1 = Inr (res, True, [], s2)"
    "r_Err res = Some ErrStackUnderflow"
    using add_run [of "vm_frame c" "vmEnv ref_codec sampleLib triggerCtx ?src" "vc_input c" budget "vm_fund ?src False c (snd (vm_Snapshot s1))"] unpack(2)
    by (auto simp: vm_runCall_def Let_def split_beta vm_frame_def)
  have "clean ?src s2"
    using reverted_run [OF run(1)] vm_budget_clean [OF budget vm_unpack_clean [OF unpack(1)]] by simp
  from settle_clean [OF ref_codec_ok addDb_keyed range_order_sorted this, of c "vm_bill False c energy fee res" nowMs res "[]"] run(2)
  obtain r d' where "vm_settle ref_codec sorted_list_of_fset ?src c (vm_bill False c energy fee res) nowMs (res, True, [], s2) addDb = (Inr r, d')"
    "vr_Reverted r" "vr_VMError r = Some ErrStackUnderflow" by auto
  then show ?thesis
    unfolding Vm_Execute_def triggerCtx_simps Let_def by (simp add: unpack(1) budget run(1) [unfolded One_nat_def])
qed

theorem reverted_changes_caller_only_witness:
  "\<exists>r d'. Vm_Execute 1 ref_codec sampleLib sorted_list_of_fset False triggerCtx addDb = (Inr r, d') \<and>
     vr_VMError r = Some ErrStackUnderflow \<and> vr_Logs r = [] \<and> ContractStore_GetCode d' calleeAddr = Inr [0x01]"
proof -
  obtain r d' where r: "Vm_Execute 1 ref_codec sampleLib sorted_list_of_fset False triggerCtx addDb = (Inr r, d')" "vr_Reverted r"
    "vr_VMError r = Some ErrStackUnderflow" using add_reverts by blast
  from reverted_changes_caller_only [OF ref_codec_ok addDb_keyed range_order_sorted r(1,2)]
  have "vr_Logs r = []" "view d' (nsKey codePrefix calleeAddr) = view addDb (nsKey codePrefix calleeAddr)" by auto
  with r show ?thesis by (simp add: ContractStore_GetCode_view addDb_def)
qed

end
