(* ===== verification/Actuators.thy ===== *)
theory Actuators
  imports Stake2_Delegate Vote Vm_Props
begin

text \<open>
  The dispatch of \<open>internal/actuator/actuator.go\<close>: the registry of actuators by contract type, the
  transaction id, and \<open>Apply\<close>, which validates and executes the contracts of a transaction in order.
  What the machine needs from outside the repository (the third-party functions, the iteration order
  of Go maps and the number of interpreter steps) is the record \<open>host\<close>.
\<close>

section \<open>Registry\<close>

record host =
  h_codec :: codec
  h_lib :: vmlib
  h_order :: "bytes fset \<Rightarrow> bytes list"
  h_fuel :: nat

record Actuator =
  act_Validate :: "Context \<Rightarrow> Database \<Rightarrow> unit result"
  act_Execute :: "Context \<Rightarrow> (Database, VmReceipt option) op"

definition nativeActuator :: "(Context \<Rightarrow> Database \<Rightarrow> unit result) \<Rightarrow> (Context \<Rightarrow> (Database, unit) op) \<Rightarrow> Actuator" where
  "nativeActuator v e = \<lparr>act_Validate = v, act_Execute = (\<lambda>ctx. bindM (e ctx) (\<lambda>_. returnM None))\<rparr>"

definition vmActuator :: "host \<Rightarrow> bool \<Rightarrow> Actuator" where
  "vmActuator h create = \<lparr>act_Validate = (\<lambda>ctx d. Vm_Validate (h_codec h) create ctx),
     act_Execute = (\<lambda>ctx. bindM (Vm_Execute (h_fuel h) (h_codec h) (h_lib h) (h_order h) create ctx) (\<lambda>r. returnM (Some r)))\<rparr>"

fun registry :: "host \<Rightarrow> ContractType \<Rightarrow> Actuator option" where
  "registry h TransferContract = Some (nativeActuator (Transfer_Validate (h_codec h)) (Transfer_Execute (h_codec h)))"
| "registry h CreateSmartContract = Some (vmActuator h True)"
| "registry h TriggerSmartContract = Some (vmActuator h False)"
| "registry h FreezeBalanceContract = Some (nativeActuator (Freeze_Validate (h_codec h)) (Freeze_Execute (h_codec h)))"
| "registry h UnfreezeBalanceContract = Some (nativeActuator (Unfreeze_Validate (h_codec h)) (Unfreeze_Execute (h_codec h)))"
| "registry h FreezeBalanceV2Contract = Some (nativeActuator (FreezeV2_Validate (h_codec h)) (FreezeV2_Execute (h_codec h)))"
| "registry h UnfreezeBalanceV2Contract = Some (nativeActuator (UnfreezeV2_Validate (h_codec h)) (UnfreezeV2_Execute (h_codec h)))"
| "registry h WithdrawExpireUnfreezeContract =
     Some (nativeActuator (WithdrawExpire_Validate (h_codec h)) (WithdrawExpire_Execute (h_codec h)))"
| "registry h DelegateResourceContract = Some (nativeActuator (Delegate_Validate (h_codec h)) (Delegate_Execute (h_codec h)))"
| "registry h UnDelegateResourceContract = Some (nativeActuator (UnDelegate_Validate (h_codec h)) (UnDelegate_Execute (h_codec h)))"
| "registry h VoteWitnessContract = Some (nativeActuator (Vote_Validate (h_codec h)) (Vote_Execute (h_codec h)))"
| "registry h WithdrawBalanceContract =
     Some (nativeActuator (WithdrawBalance_Validate (h_codec h)) (WithdrawBalance_Execute (h_codec h)))"
| "registry h (ContractType_Other n) = None"

section \<open>Applying a transaction\<close>

record ApplyResult =
  aq_Unhandled :: nat
  aq_Receipts :: "VmReceipt list"

definition TxID :: "codec \<Rightarrow> Transaction \<Rightarrow> bytes" where
  "TxID cd tx = Sha256 [case marshal_TransactionRaw cd (GetTxRawData tx) of None \<Rightarrow> [] | Some b \<Rightarrow> b]"

definition applyContract :: "host \<Rightarrow> Actuator \<Rightarrow> Context \<Rightarrow> (Database, VmReceipt option) op" where
  "applyContract h act ctx =
     bindM (wrapM ''contract validate'' (readM (act_Validate act ctx))) (\<lambda>_. wrapM ''contract execute'' (act_Execute act ctx))"

fun applyContracts :: "host \<Rightarrow> Transaction \<Rightarrow> BlockContext \<Rightarrow> Transaction_Contract list \<Rightarrow> ApplyResult \<Rightarrow> (Database, ApplyResult) op" where
  "applyContracts h tx blk [] out = returnM out"
| "applyContracts h tx blk (c # cs) out =
     (case registry h (tc_Type c) of
        None \<Rightarrow> applyContracts h tx blk cs (out\<lparr>aq_Unhandled := aq_Unhandled out + 1\<rparr>)
      | Some act \<Rightarrow>
          bindM (applyContract h act \<lparr>cx_Contract = c, cx_Tx = tx, cx_TxID = TxID (h_codec h) tx, cx_Block = blk\<rparr>) (\<lambda>r.
            applyContracts h tx blk cs (case r of None \<Rightarrow> out | Some x \<Rightarrow> out\<lparr>aq_Receipts := aq_Receipts out @ [x]\<rparr>)))"

definition Apply :: "host \<Rightarrow> Transaction \<Rightarrow> BlockContext \<Rightarrow> (Database, ApplyResult) op" where
  "Apply h tx blk = applyContracts h tx blk (tr_Contract (GetTxRawData tx)) \<lparr>aq_Unhandled = 0, aq_Receipts = []\<rparr>"

section \<open>What every transaction keeps\<close>

text \<open>The writes of every registered actuator go through the store operations.\<close>

lemma registry_keeps:
  assumes "write_inv (h_codec h) P" "registry h t = Some act"
  shows "keeps P (act_Execute act ctx)"
proof -
  note k = write_inv.keeps_Transfer [OF assms(1)] write_inv.keeps_Freeze [OF assms(1)] write_inv.keeps_Unfreeze [OF assms(1)]
    write_inv.keeps_stake2 [OF assms(1)] write_inv.keeps_UnfreezeV2 [OF assms(1)] write_inv.keeps_delegate [OF assms(1)]
    write_inv.keeps_Vote [OF assms(1)] write_inv.keeps_WithdrawBalance [OF assms(1)] write_inv.keeps_Vm_Execute [OF assms(1)]
  show ?thesis using assms(2)
    by (cases t) (auto simp: nativeActuator_def vmActuator_def intro!: keeps_bindM k)
qed

lemma Apply_keeps:
  assumes "write_inv (h_codec h) P"
  shows "keeps P (Apply h tx blk)"
proof -
  have "keeps P (applyContracts h tx blk cs out)" for cs out
  proof (induction cs arbitrary: out)
    case (Cons c cs)
    show ?case unfolding applyContracts.simps applyContract_def
      by (intro keeps_case_option keeps_bindM keeps_wrapM keeps_readM registry_keeps [OF assms] Cons.IH)
  qed auto
  then show ?thesis by (simp add: Apply_def)
qed

end
