(* ===== verification/Maintenance.thy ===== *)
theory Maintenance
  imports Actuators
begin

text \<open>
  The maintenance window of \<open>internal/node/manager.go\<close> (\<open>RunMaintenance\<close>) in its three phases: folding
  the rewards of the closed cycle into the per-vote indices, tallying the votes, and opening the next
  cycle. The deltas of the tally are a Go map, visited in the order \<open>ord\<close>. The theory shows what
  the tally does to the vote counts.
\<close>

section \<open>The three phases\<close>

definition accumulatePhase :: "codec \<Rightarrow> int64 \<Rightarrow> (Database, unit) op" where
  "accumulatePhase cd curCycle =
     bindM (readM UseNewRewardAlgorithm) (\<lambda>useNew.
       if useNew then WitnessStore_Each cd (\<lambda>w. AccumulateWitnessVi curCycle (w_Address w) (w_VoteCount w)) else returnM ())"

definition deltaAt :: "(bytes, int64) fmap \<Rightarrow> bytes \<Rightarrow> int64" where
  "deltaAt m a = (case fmlookup m a of None \<Rightarrow> 0 | Some n \<Rightarrow> n)"

definition subVote :: "Vote \<Rightarrow> (bytes, int64) fmap \<Rightarrow> (bytes, int64) fmap" where
  "subVote v m = fmupd (v_VoteAddress v) (deltaAt m (v_VoteAddress v) - v_VoteCount v) m"

definition addVote :: "Vote \<Rightarrow> (bytes, int64) fmap \<Rightarrow> (bytes, int64) fmap" where
  "addVote v m = fmupd (v_VoteAddress v) (deltaAt m (v_VoteAddress v) + v_VoteCount v) m"

definition collectVotes :: "Votes \<Rightarrow> (bytes, int64) fmap \<times> bytes list \<Rightarrow> ((bytes, int64) fmap \<times> bytes list) result" where
  "collectVotes v = (\<lambda>(deltas, voters). Inr (fold addVote (vs_NewVotes v) (fold subVote (vs_OldVotes v) deltas), voters @ [vs_Address v]))"

definition applyDelta :: "codec \<Rightarrow> (bytes, int64) fmap \<Rightarrow> bytes \<Rightarrow> (Database, unit) op" where
  "applyDelta cd deltas addr =
     (if deltaAt deltas addr = 0 then returnM ()
      else bindM (tryR (\<lambda>d. WitnessStore_Get cd d addr)) (\<lambda>r.
        case r of Inl _ \<Rightarrow> returnM () | Inr w \<Rightarrow> WitnessStore_Put cd (w\<lparr>w_VoteCount := w_VoteCount w + deltaAt deltas addr\<rparr>)))"

definition tallyPhase :: "codec \<Rightarrow> (bytes fset \<Rightarrow> bytes list) \<Rightarrow> (Database, unit) op" where
  "tallyPhase cd ord =
     bindM (readM (VotesStore_Each cd collectVotes (fmempty, []))) (\<lambda>(deltas, voters).
     bindM (forM voters VotesStore_Delete) (\<lambda>_.
       forM (ord (fmdom deltas)) (applyDelta cd deltas)))"

definition advancePhase :: "codec \<Rightarrow> int64 \<Rightarrow> (Database, unit) op" where
  "advancePhase cd curCycle =
     bindM (readM AllowChangeDelegation) (\<lambda>change.
       if change then
         (let nextCycle = curCycle + 1 in
          bindM (SaveCurrentCycleNumber nextCycle) (\<lambda>_.
            WitnessStore_Each cd (\<lambda>w.
              bindM (readM (\<lambda>d. GetBrokerage d (w_Address w))) (\<lambda>b.
              bindM (SetBrokerageAt nextCycle (w_Address w) b) (\<lambda>_.
                SetWitnessVote nextCycle (w_Address w) (w_VoteCount w))))))
       else returnM ())"

definition RunMaintenance :: "codec \<Rightarrow> (bytes fset \<Rightarrow> bytes list) \<Rightarrow> (Database, unit) op" where
  "RunMaintenance cd ord =
     bindM (readM CurrentCycleNumber) (\<lambda>curCycle.
     bindM (accumulatePhase cd curCycle) (\<lambda>_.
     bindM (tallyPhase cd ord) (\<lambda>_. advancePhase cd curCycle)))"

context write_inv
begin

lemma keeps_applyDelta [keeps_intros]: "keeps P (applyDelta cd deltas addr)"
  unfolding applyDelta_def by (intro keeps_intros)

lemma keeps_RunMaintenance [keeps_intros]: "keeps P (RunMaintenance cd ord)"
  unfolding RunMaintenance_def accumulatePhase_def tallyPhase_def advancePhase_def Let_def
  by (intro keeps_intros)

end

section \<open>The tally\<close>

text \<open>The votes an address gains over all ballots of the epoch.\<close>

definition votesFor :: "bytes \<Rightarrow> Vote list \<Rightarrow> int64" where
  "votesFor addr vs = sum_list (map v_VoteCount (filter (\<lambda>v. v_VoteAddress v = addr) vs))"

definition voteDelta :: "Votes list \<Rightarrow> bytes \<Rightarrow> int64" where
  "voteDelta vs addr = sum_list (map (\<lambda>v. votesFor addr (vs_NewVotes v) - votesFor addr (vs_OldVotes v)) vs)"

lemma deltaAt_fold:
  "deltaAt (fold subVote vs m) addr = deltaAt m addr - votesFor addr vs"
  "deltaAt (fold addVote vs m) addr = deltaAt m addr + votesFor addr vs"
  by (induction vs arbitrary: m) (auto simp: votesFor_def subVote_def addVote_def deltaAt_def algebra_simps)

text \<open>The ballots of the store, in key order.\<close>

definition ballots :: "codec \<Rightarrow> Database \<Rightarrow> Votes list \<Rightarrow> bool" where
  "ballots cd d vs \<longleftrightarrow> (\<exists>ps. Database_Scan d votesPrefix = Inr ps \<and> map (\<lambda>p. unmarshal_Votes cd (snd p)) ps = map Some vs)"

lemma collect_all:
  assumes "map (\<lambda>p. u (snd p)) ps = map Some vs"
  shows "\<exists>deltas'. foldMsg u collectVotes ps (deltas, voters) = Inr (deltas', voters @ map vs_Address vs) \<and>
    (\<forall>addr. deltaAt deltas' addr = deltaAt deltas addr + voteDelta vs addr)"
  using assms
proof (induction ps arbitrary: vs deltas voters)
  case Nil
  then show ?case by (simp add: voteDelta_def)
next
  case (Cons p ps)
  obtain k b v vs' where p: "p = (k, b)" "vs = v # vs'" "u b = Some v" "map (\<lambda>p. u (snd p)) ps = map Some vs'"
    using Cons.prems by (cases p; cases vs) auto
  from Cons.IH [OF p(4), of "fold addVote (vs_NewVotes v) (fold subVote (vs_OldVotes v) deltas)" "voters @ [vs_Address v]"]
  show ?case by (auto simp: p(1-3) collectVotes_def deltaAt_fold voteDelta_def algebra_simps)
qed

definition witnesses_keyed :: "codec \<Rightarrow> Database \<Rightarrow> bool" where
  "witnesses_keyed cd d \<longleftrightarrow> (\<forall>addr w. WitnessStore_Get cd d addr = Inr w \<longrightarrow> w_Address w = addr)"

definition votes_keyed :: "codec \<Rightarrow> Database \<Rightarrow> bool" where
  "votes_keyed cd d \<longleftrightarrow> (\<forall>addr b v. view d (nsKey votesPrefix addr) = Some b \<longrightarrow> unmarshal_Votes cd b = Some v \<longrightarrow> vs_Address v = addr)"

text \<open>A witness read with its count raised.\<close>

definition raised :: "int64 \<Rightarrow> Witness result \<Rightarrow> Witness result" where
  "raised n r = (case r of Inl e \<Rightarrow> Inl e | Inr w \<Rightarrow> Inr (w\<lparr>w_VoteCount := w_VoteCount w + n\<rparr>))"

lemma raised_0 [simp]: "raised 0 r = r"
  by (simp add: raised_def split: sum.splits)

lemma WitnessStore_Get_view:
  "WitnessStore_Get cd d addr =
     (case view d (nsKey witnessPrefix addr) of None \<Rightarrow> Inl ErrNotFound | Some b \<Rightarrow> unmarshalE (unmarshal_Witness cd b))"
  by (simp add: WitnessStore_Get_def loadMsg_view)

lemma applyDelta_spec:
  assumes "codec_ok cd" "witnesses_keyed cd d"
  shows "\<exists>d'. applyDelta cd m a d = (Inr (), d') \<and> witnesses_keyed cd d' \<and>
    (\<forall>b. WitnessStore_Get cd d' b = (if b = a then raised (deltaAt m a) (WitnessStore_Get cd d a) else WitnessStore_Get cd d b)) \<and>
    (\<forall>k. \<not> has_prefix witnessPrefix k \<longrightarrow> view d' k = view d k)"
proof (cases "WitnessStore_Get cd d a")
  case (Inl e)
  then show ?thesis using assms(2) by (auto simp: applyDelta_def raised_def)
next
  case (Inr w)
  have "w_Address w = a" using assms(2) Inr by (simp add: witnesses_keyed_def)
  then show ?thesis using assms Inr
    by (auto simp: applyDelta_def raised_def WitnessStore_Put_def saveMsg_Some WitnessStore_Get_view [of cd "Database_Put d k b" for k b]
        WitnessStore_Get_view [symmetric] witnesses_keyed_def split: if_splits)
qed

lemma applyDeltas:
  assumes "codec_ok cd" "witnesses_keyed cd d" "distinct ks"
  shows "\<exists>d'. forM ks (applyDelta cd m) d = (Inr (), d') \<and>
    (\<forall>b. WitnessStore_Get cd d' b = (if b \<in> set ks then raised (deltaAt m b) (WitnessStore_Get cd d b) else WitnessStore_Get cd d b)) \<and>
    (\<forall>k. \<not> has_prefix witnessPrefix k \<longrightarrow> view d' k = view d k)"
  using assms(2,3)
proof (induction ks arbitrary: d)
  case (Cons a ks)
  obtain d1 where d1: "applyDelta cd m a d = (Inr (), d1)" "witnesses_keyed cd d1"
    "\<And>b. WitnessStore_Get cd d1 b = (if b = a then raised (deltaAt m a) (WitnessStore_Get cd d a) else WitnessStore_Get cd d b)"
    "\<And>k. \<not> has_prefix witnessPrefix k \<Longrightarrow> view d1 k = view d k"
    using applyDelta_spec [OF assms(1) Cons.prems(1)] by blast
  obtain d2 where d2: "forM ks (applyDelta cd m) d1 = (Inr (), d2)"
    "\<And>b. WitnessStore_Get cd d2 b = (if b \<in> set ks then raised (deltaAt m b) (WitnessStore_Get cd d1 b) else WitnessStore_Get cd d1 b)"
    "\<And>k. \<not> has_prefix witnessPrefix k \<Longrightarrow> view d2 k = view d1 k"
    using Cons.IH [OF d1(2)] Cons.prems(2) by auto
  show ?case
    using Cons.prems(2) by (intro exI [of _ d2]) (auto simp: bindM_def d1(1,3,4) d2)
qed simp

lemma deleteVotes:
  "\<exists>d'. forM as VotesStore_Delete d = (Inr (), d') \<and>
     (\<forall>k. view d' k = (if \<exists>a \<in> set as. k = nsKey votesPrefix a then None else view d k))"
proof (induction as arbitrary: d)
  case (Cons a as)
  obtain d' where "forM as VotesStore_Delete (Database_Delete d (nsKey votesPrefix a)) = (Inr (), d')"
    "\<And>k. view d' k = (if \<exists>a \<in> set as. k = nsKey votesPrefix a then None else view (Database_Delete d (nsKey votesPrefix a)) k)"
    using Cons.IH by blast
  moreover have "VotesStore_Delete a d = (Inr (), Database_Delete d (nsKey votesPrefix a))" by (simp add: VotesStore_Delete_def)
  ultimately show ?case by (intro exI [of _ d']) (auto simp: bindM_def)
qed simp

text \<open>
  C18: The vote tally of a maintenance window: every witness gains exactly the votes newly cast for
  it less those withdrawn, summed over all ballots of the epoch, whichever order the Go map of
  deltas is visited in; the ballots are cleared and nothing else changes.
\<close>

theorem tally_counts_votes:
  assumes "codec_ok cd" "range_order ord" "witnesses_keyed cd d" "votes_keyed cd d" "ballots cd d vs"
  shows "\<exists>d'. tallyPhase cd ord d = (Inr (), d') \<and>
    (\<forall>addr. WitnessStore_Get cd d' addr = raised (voteDelta vs addr) (WitnessStore_Get cd d addr)) \<and>
    (\<forall>addr. view d' (nsKey votesPrefix addr) = None) \<and>
    (\<forall>k. \<not> has_prefix votesPrefix k \<longrightarrow> \<not> has_prefix witnessPrefix k \<longrightarrow> view d' k = view d k)"
proof -
  obtain ps where ps: "Database_Scan d votesPrefix = Inr ps" "map (\<lambda>p. unmarshal_Votes cd (snd p)) ps = map Some vs"
    using assms(5) by (auto simp: ballots_def)
  have entries: "set ps = {(k, v). view d k = Some v \<and> has_prefix votesPrefix k}"
    using rdb.Scan_abs [of d votesPrefix] ps(1) by auto
  obtain m where m: "foldMsg (unmarshal_Votes cd) collectVotes ps (fmempty, []) = Inr (m, map vs_Address vs)"
    "\<And>addr. deltaAt m addr = voteDelta vs addr"
    using collect_all [OF ps(2), of fmempty "[]"] by (auto simp: deltaAt_def)
  obtain d1 where d1: "forM (map vs_Address vs) VotesStore_Delete d = (Inr (), d1)"
    "\<And>k. view d1 k = (if \<exists>a \<in> set (map vs_Address vs). k = nsKey votesPrefix a then None else view d k)"
    using deleteVotes by blast
  have gone: "view d1 (nsKey votesPrefix addr) = None" for addr
  proof (cases "view d (nsKey votesPrefix addr)")
    case (Some b)
    then have "(nsKey votesPrefix addr, b) \<in> set ps" by (simp add: entries nsKey_def)
    then have "unmarshal_Votes cd b \<in> set (map (\<lambda>p. unmarshal_Votes cd (snd p)) ps)" by force
    then obtain v where "v \<in> set vs" "unmarshal_Votes cd b = Some v" unfolding ps(2) by auto
    then have "vs_Address v = addr" "v \<in> set vs" using assms(4) Some by (auto simp: votes_keyed_def)
    then show ?thesis by (auto simp: d1(2))
  qed (simp add: d1(2))
  have keep: "WitnessStore_Get cd d1 addr = WitnessStore_Get cd d addr" for addr
    by (auto simp: WitnessStore_Get_view d1(2) key_simps)
  then have "witnesses_keyed cd d1" using assms(3) by (simp add: witnesses_keyed_def)
  with applyDeltas [OF assms(1), of d1 "ord (fmdom m)" m] assms(2)
  obtain d2 where d2: "forM (ord (fmdom m)) (applyDelta cd m) d1 = (Inr (), d2)"
    "\<And>b. WitnessStore_Get cd d2 b = (if b |\<in>| fmdom m then raised (deltaAt m b) (WitnessStore_Get cd d1 b) else WitnessStore_Get cd d1 b)"
    "\<And>k. \<not> has_prefix witnessPrefix k \<Longrightarrow> view d2 k = view d1 k" by (auto simp: range_order_def)
  have "b |\<notin>| fmdom m \<Longrightarrow> voteDelta vs b = 0" for b using m(2) [of b] by (simp add: deltaAt_def fmdom_notD)
  then have "WitnessStore_Get cd d2 addr = raised (voteDelta vs addr) (WitnessStore_Get cd d addr)" for addr
    by (auto simp: d2(2) m(2) keep)
  moreover have "tallyPhase cd ord d = (Inr (), d2)"
    by (simp add: tallyPhase_def VotesStore_Each_def ps(1) m(1) bindM_def d1(1) d2(1))
  moreover have "\<not> has_prefix witnessPrefix (nsKey votesPrefix addr)" for addr
    by (simp add: has_prefix_def key_simps witnessPrefix_def ascii_simps)
  ultimately show ?thesis using gone by (auto simp: d2(3) d1(2))
qed

text \<open>One witness with 5 votes and a ballot that moves 3 votes away from it and 10 to it.\<close>

definition tallyWitness :: Witness where
  "tallyWitness = zero_Witness\<lparr>w_Address := [9], w_VoteCount := 5\<rparr>"

definition tallyBallot :: Votes where
  "tallyBallot = \<lparr>vs_Address = [7], vs_OldVotes = [\<lparr>v_VoteAddress = [9], v_VoteCount = 3\<rparr>],
     vs_NewVotes = [\<lparr>v_VoteAddress = [9], v_VoteCount = 10\<rparr>]\<rparr>"

definition tallyDb :: Database where
  "tallyDb = snd (VotesStore_Put ref_codec tallyBallot (snd (WitnessStore_Put ref_codec tallyWitness (NewDatabase NewMemKV))))"

lemma ballot_keys [simp]: "nsKey witnessPrefix a \<noteq> nsKey votesPrefix b" "nsKey votesPrefix b \<noteq> nsKey witnessPrefix a"
  by (simp_all add: key_simps)

lemma singleton_list: assumes "distinct xs" "set xs = {x}" shows "xs = [x]"
proof (cases xs)
  case (Cons a ys)
  then have "a = x" "x \<notin> set ys" "\<forall>y \<in> set ys. y = x" using assms by auto
  then show ?thesis using Cons by (cases ys) auto
qed (use assms in simp)

lemma view_tallyDb: "view tallyDb = [nsKey witnessPrefix [9] \<mapsto> fst fmt_Witness tallyWitness, nsKey votesPrefix [7] \<mapsto> fst fmt_Votes tallyBallot]"
  by (simp add: tallyDb_def VotesStore_Put_def WitnessStore_Put_def saveMsg_Some tallyWitness_def [symmetric] fun_eq_iff)
    (simp add: tallyBallot_def tallyWitness_def view_def NewDatabase_def NewMemKV_def)

lemma tally_ballots: "ballots ref_codec tallyDb [tallyBallot]"
proof -
  have "\<not> has_prefix votesPrefix (nsKey witnessPrefix [9])"
    by (simp add: has_prefix_def key_simps votesPrefix_def ascii_simps)
  then have "{(k, v). view tallyDb k = Some v \<and> has_prefix votesPrefix k} = {(nsKey votesPrefix [7], fst fmt_Votes tallyBallot)}"
    by (auto simp: view_tallyDb split: if_splits)
  then obtain ps where "Database_Scan tallyDb votesPrefix = Inr ps" "distinct (map fst ps)" "set ps = {(nsKey votesPrefix [7], fst fmt_Votes tallyBallot)}"
    using rdb.Scan_abs [of tallyDb votesPrefix] by auto
  moreover from this(2,3) have "ps = [(nsKey votesPrefix [7], fst fmt_Votes tallyBallot)]"
    by (intro singleton_list) (auto simp: distinct_map)
  ultimately show ?thesis by (simp add: ballots_def)
qed

theorem tally_counts_votes_witness:
  "\<exists>d' w. tallyPhase ref_codec sorted_list_of_fset tallyDb = (Inr (), d') \<and> WitnessStore_Get ref_codec d' [9] = Inr w \<and> w_VoteCount w = 12"
proof -
  have "witnesses_keyed ref_codec tallyDb"
    by (auto simp: witnesses_keyed_def WitnessStore_Get_view view_tallyDb tallyWitness_def split: if_splits option.splits)
  moreover have "votes_keyed ref_codec tallyDb"
    by (auto simp: votes_keyed_def view_tallyDb tallyBallot_def split: if_splits)
  moreover have "WitnessStore_Get ref_codec tallyDb [9] = Inr tallyWitness"
    by (simp add: WitnessStore_Get_view view_tallyDb)
  moreover have "voteDelta [tallyBallot] [9] = 7" by (simp add: voteDelta_def votesFor_def tallyBallot_def)
  ultimately show ?thesis
    using tally_counts_votes [OF ref_codec_ok range_order_sorted _ _ tally_ballots] by (force simp: raised_def tallyWitness_def)
qed

end
