(* ===== verification/Genesis.thy ===== *)
theory Genesis
  imports Actuators
begin

text \<open>
  \<open>internal/genesis/genesis.go\<close>: the genesis transactions, block and initial state.
\<close>

section \<open>Hexadecimal text (encoding/hex)\<close>

definition hexDigit :: "char \<Rightarrow> nat option" where
  "hexDigit c =
     (let n = of_char c in
      if 48 \<le> n \<and> n \<le> 57 then Some (n - 48)
      else if 97 \<le> n \<and> n \<le> 102 then Some (n - 87)
      else if 65 \<le> n \<and> n \<le> 70 then Some (n - 55)
      else None)"

fun hexDecode :: "string \<Rightarrow> bytes option" where
  "hexDecode [] = Some []"
| "hexDecode [c] = None"
| "hexDecode (a # b # cs) =
     (case (hexDigit a, hexDigit b, hexDecode cs) of
        (Some x, Some y, Some r) \<Rightarrow> Some (word_of_nat (16 * x + y) # r)
      | _ \<Rightarrow> None)"

definition hexE :: "string \<Rightarrow> bytes result" where
  "hexE s = (case hexDecode s of None \<Rightarrow> Inl (Err ''encoding/hex: invalid input'') | Some b \<Rightarrow> Inr b)"

definition hexChar :: "nat \<Rightarrow> char" where
  "hexChar n = (if n < 10 then char_of (48 + n) else char_of (87 + n))"

definition hexEncode :: "bytes \<Rightarrow> string" where
  "hexEncode bs = concat (map (\<lambda>b. [hexChar (unat b div 16), hexChar (unat b mod 16)]) bs)"

definition trimPrefix :: "string \<Rightarrow> string \<Rightarrow> string" where
  "trimPrefix s p = (if take (length p) s = p then drop (length p) s else s)"

section \<open>Configuration\<close>

record GenesisAsset =
  ga_Name :: string
  ga_Address :: string
  ga_Balance :: int64

record GenesisWitness =
  gw_Address :: string
  gw_URL :: string
  gw_VoteCount :: int64

record GenesisConfig =
  gc_Timestamp :: int64
  gc_ParentHash :: string
  gc_Number :: int64
  gc_Assets :: "GenesisAsset list"
  gc_Witnesses :: "GenesisWitness list"

definition genesisOwnerAddress :: bytes where
  "genesisOwnerAddress = ascii ''0x000000000000000000000''"

definition WitnessNote :: string where
  "WitnessNote = ''A new system must allow existing systems to be linked together '' @
     ''without requiring any central control or coordination''"

section \<open>The genesis block\<close>

definition NewGenesisTransaction :: "codec \<Rightarrow> bytes \<Rightarrow> int64 \<Rightarrow> Transaction result" where
  "NewGenesisTransaction cd to amount =
     bindE (wrapE ''genesis: pack TransferContract'' (case new_Any_Transfer cd \<lparr>tf_OwnerAddress = genesisOwnerAddress,
         tf_ToAddress = to, tf_Amount = amount\<rparr> of None \<Rightarrow> Inl ErrMarshal | Some a \<Rightarrow> Inr a)) (\<lambda>param.
       Inr \<lparr>tx_RawData = Some \<lparr>tr_Contract = [\<lparr>tc_Type = TransferContract, tc_Parameter = Some param, tc_rest = []\<rparr>],
         tr_FeeLimit = 0, tr_rest = []\<rparr>, tx_Signature = [], tx_rest = []\<rparr>)"

definition Genesis_Transactions :: "codec \<Rightarrow> GenesisConfig \<Rightarrow> Transaction list result" where
  "Genesis_Transactions cd c = mapE (\<lambda>a. bindE (wrapE ''genesis asset'' (FromBase58 (ga_Address a))) (\<lambda>addr.
     NewGenesisTransaction cd addr (ga_Balance a))) (gc_Assets c)"

definition Genesis_TxTrieRoot :: "codec \<Rightarrow> GenesisConfig \<Rightarrow> bytes result" where
  "Genesis_TxTrieRoot cd c = bindE (Genesis_Transactions cd c) (CalcTxTrieRoot cd)"

definition Genesis_HeaderRaw :: "codec \<Rightarrow> GenesisConfig \<Rightarrow> BlockHeaderRaw result" where
  "Genesis_HeaderRaw cd c =
     bindE (Genesis_TxTrieRoot cd c) (\<lambda>rt.
     bindE (wrapE ''genesis: parentHash'' (hexE (trimPrefix (gc_ParentHash c) ''0x''))) (\<lambda>parent.
       Inr (zero_BlockHeaderRaw\<lparr>bh_Timestamp := gc_Timestamp c, bh_ParentHash := parent, bh_Number := gc_Number c,
         bh_TxTrieRoot := rt, bh_WitnessAddress := ascii WitnessNote\<rparr>)))"

definition Genesis_Block :: "codec \<Rightarrow> GenesisConfig \<Rightarrow> Block result" where
  "Genesis_Block cd c =
     bindE (Genesis_HeaderRaw cd c) (\<lambda>raw.
     bindE (Genesis_Transactions cd c) (\<lambda>txs.
       Inr \<lparr>b_Transactions = txs, b_BlockHeader = Some \<lparr>hd_RawData = Some raw, hd_WitnessSignature = []\<rparr>\<rparr>))"

definition Genesis_BlockID :: "codec \<Rightarrow> GenesisConfig \<Rightarrow> bytes result" where
  "Genesis_BlockID cd c = bindE (Genesis_HeaderRaw cd c) (IDFromHeaderRaw cd)"

section \<open>The initial state\<close>

definition Genesis_Load :: "codec \<Rightarrow> GenesisConfig \<Rightarrow> (Database, unit) op" where
  "Genesis_Load cd c =
     bindM (forM (gc_Assets c) (\<lambda>a.
       bindM (liftM (wrapE ''genesis asset'' (FromBase58 (ga_Address a)))) (\<lambda>addr.
         AccountStore_Put cd (zero_Account\<lparr>ac_Address := addr, ac_Balance := ga_Balance a\<rparr>)))) (\<lambda>_.
     bindM (forM (gc_Witnesses c) (\<lambda>w.
       bindM (liftM (wrapE ''genesis witness'' (FromBase58 (gw_Address w)))) (\<lambda>addr.
         WitnessStore_Put cd (zero_Witness\<lparr>w_Address := addr, w_Url := ascii (gw_URL w), w_VoteCount := gw_VoteCount w\<rparr>)))) (\<lambda>_.
     bindM (wrapM ''genesis: seed resource properties'' SeedGenesisDefaults) (\<lambda>_.
       wrapM ''genesis: seed header timestamp'' (SaveLatestBlockHeaderTimestamp (gc_Timestamp c)))))"

context write_inv
begin

lemma keeps_Genesis_Load [keeps_intros]: "keeps P (Genesis_Load cd c)"
  unfolding Genesis_Load_def by (intro keeps_intros)

end

section \<open>The genesis block is well formed\<close>

text \<open>Encoding to hexadecimal text and decoding it again.\<close>

lemma hexDigit_hexChar: "n < 16 \<Longrightarrow> hexDigit (hexChar n) = Some n"
  by (simp add: hexDigit_def hexChar_def Let_def)

lemma hexDecode_hexEncode [simp]: "hexDecode (hexEncode bs) = Some bs"
proof (induction bs)
  case (Cons b bs)
  have "unat b < 256" by (rule unat_byte_lt)
  then have "hexDigit (hexChar (unat b div 16)) = Some (unat b div 16)" "hexDigit (hexChar (unat b mod 16)) = Some (unat b mod 16)"
    by (simp_all add: hexDigit_hexChar)
  moreover have "word_of_nat (16 * (unat b div 16) + unat b mod 16) = b" by simp
  ultimately show ?case using Cons.IH by (simp add: hexEncode_def)
qed (simp add: hexEncode_def)

end
