(* ===== verification/Manager.thy ===== *)
theory Manager
  imports Maintenance Genesis Khaos
begin

text \<open>
  The block pipeline of \<open>internal/node/manager.go\<close>: one state with the revoking database, the fork
  tree and the list of applied blocks, and the operations that push blocks, apply them in sessions
  and switch forks. A panic inside a block (and, in the model, too little fuel) ends the call where
  it happens; every other error is handled as in the source. The receipt sink is whether a callback is
  registered, with the list of calls made to it.
\<close>

section \<open>State\<close>

record appliedRef =
  ap_id :: bytes
  ap_num :: int64

record Manager =
  mg_db :: Database
  mg_khaos :: KhaosDB
  mg_applied :: "appliedRef list"
  mg_lenient :: bool
  mg_sink :: bool
  mg_sunk :: "(int64 \<times> VmReceipt list) list"
  mg_provider :: "StateProvider option"

definition NewManager :: "Database \<Rightarrow> int64 \<Rightarrow> Manager" where
  "NewManager d maxFork = \<lparr>mg_db = d, mg_khaos = Khaos_New maxFork, mg_applied = [], mg_lenient = False, mg_sink = False,
     mg_sunk = [], mg_provider = None\<rparr>"

definition SetReceiptSink :: "bool \<Rightarrow> Manager \<Rightarrow> Manager" where "SetReceiptSink registered m = m\<lparr>mg_sink := registered\<rparr>"
definition SetStateProvider :: "StateProvider option \<Rightarrow> Manager \<Rightarrow> Manager" where "SetStateProvider p m = m\<lparr>mg_provider := p\<rparr>"
definition EnableReplayProvisioning :: "Manager \<Rightarrow> Manager" where "EnableReplayProvisioning m = m\<lparr>mg_lenient := True\<rparr>"
definition Manager_Head :: "Manager \<Rightarrow> KBlock option" where "Manager_Head m = kh_head (mg_khaos m)"

text \<open>An operation on the database, as one on the manager.\<close>

definition onDb :: "(Database, 'a) op \<Rightarrow> (Manager, 'a) op" where
  "onDb f m = (case f (mg_db m) of (r, d) \<Rightarrow> (r, m\<lparr>mg_db := d\<rparr>))"

definition onKhaos :: "(KhaosDB, 'a) op \<Rightarrow> (Manager, 'a) op" where
  "onKhaos f m = (case f (mg_khaos m) of (r, k) \<Rightarrow> (r, m\<lparr>mg_khaos := k\<rparr>))"

definition Manager_Start :: "host \<Rightarrow> Block \<Rightarrow> (Manager, unit) op" where
  "Manager_Start h rt =
     bindM (wrapM ''manager: seed khaos'' (onKhaos (Khaos_Start (h_codec h) rt))) (\<lambda>_.
       let ts = bh_Timestamp (GetBlockRawData rt) in
     bindM (wrapM ''manager: seed header timestamp'' (onDb (SaveLatestBlockHeaderTimestamp ts))) (\<lambda>_.
       wrapM ''manager: seed maintenance time'' (onDb (SaveNextMaintenanceTime ts))))"

definition InitGenesis :: "host \<Rightarrow> GenesisConfig \<Rightarrow> (Manager, unit) op" where
  "InitGenesis h cfg m =
     (if Depth (mg_db m) \<noteq> 0 then (Inl (Err ''manager: InitGenesis must run on a fresh database''), m)
      else bindM (wrapM ''manager: load genesis state'' (onDb (Genesis_Load (h_codec h) cfg))) (\<lambda>_.
           bindM (wrapM ''manager: build genesis block'' (liftM (Genesis_Block (h_codec h) cfg))) (\<lambda>gb.
             Manager_Start h gb)) m)"

definition validateBlock :: "codec \<Rightarrow> Block \<Rightarrow> unit result" where
  "validateBlock cd b =
     bindE (CalcTxTrieRoot cd (b_Transactions b)) (\<lambda>got.
       check (got \<noteq> bh_TxTrieRoot (GetBlockRawData b)) (Wrap ''got want'' ErrTxTrieRootMismatch))"

section \<open>Provisioning for replays\<close>

fun provisionWitnesses :: "codec \<Rightarrow> Vote list \<Rightarrow> int64 \<Rightarrow> (Database, int64) op" where
  "provisionWitnesses cd [] tot = returnM tot"
| "provisionWitnesses cd (v # vs) tot =
     bindM (tryR (\<lambda>d. WitnessStore_Has d (v_VoteAddress v))) (\<lambda>has.
     bindM (if has = Inr True then returnM () else WitnessStore_Put cd (zero_Witness\<lparr>w_Address := v_VoteAddress v\<rparr>)) (\<lambda>_.
       provisionWitnesses cd vs (tot + v_VoteCount v)))"

definition provisionVote :: "codec \<Rightarrow> Transaction_Contract \<Rightarrow> (Database, unit) op" where
  "provisionVote cd c =
     bindM (liftM (unmarshalE (to_VoteWitness cd (tc_Parameter c)))) (\<lambda>vc.
     bindM (provisionWitnesses cd (vw_Votes vc) 0) (\<lambda>tot.
     bindM (tryR (\<lambda>d. AccountStore_Get cd d (vw_OwnerAddress vc))) (\<lambda>r.
       let acc = (case r of Inl _ \<Rightarrow> zero_Account\<lparr>ac_Address := vw_OwnerAddress vc\<rparr> | Inr a \<Rightarrow> a) in
       AccountStore_Put cd (acc\<lparr>ac_Frozen := [\<lparr>fz_FrozenBalance = tot * 1000000, fz_ExpireTime = 0\<rparr>]\<rparr>))))"

definition topUp :: "codec \<Rightarrow> bytes \<Rightarrow> int64 \<Rightarrow> (Database, unit) op" where
  "topUp cd owner amount =
     bindM (tryR (\<lambda>d. AccountStore_Get cd d owner)) (\<lambda>r.
       let acc = (case r of Inl _ \<Rightarrow> zero_Account\<lparr>ac_Address := owner\<rparr> | Inr a \<Rightarrow> a) in
       if slt (ac_Balance acc) amount then AccountStore_Put cd (acc\<lparr>ac_Balance := amount\<rparr>) else returnM ())"

definition provisionContract :: "codec \<Rightarrow> Transaction_Contract \<Rightarrow> (Database, unit) op" where
  "provisionContract cd c =
     (case tc_Type c of
        TransferContract \<Rightarrow> bindM (liftM (unmarshalE (to_Transfer cd (tc_Parameter c)))) (\<lambda>tc. topUp cd (tf_OwnerAddress tc) (tf_Amount tc))
      | FreezeBalanceContract \<Rightarrow>
          bindM (liftM (unmarshalE (to_FreezeBalance cd (tc_Parameter c)))) (\<lambda>fc. topUp cd (fb_OwnerAddress fc) (fb_FrozenBalance fc))
      | VoteWitnessContract \<Rightarrow> provisionVote cd c
      | _ \<Rightarrow> returnM ())"

definition provisionReplay :: "codec \<Rightarrow> Transaction \<Rightarrow> (Database, unit) op" where
  "provisionReplay cd tx = forM (tr_Contract (GetTxRawData tx)) (provisionContract cd)"

section \<open>Applying a block\<close>

fun processTxs :: "host \<Rightarrow> bool \<Rightarrow> BlockContext \<Rightarrow> Transaction list \<Rightarrow> VmReceipt list \<Rightarrow> (Database, VmReceipt list) op" where
  "processTxs h lenient blk [] receipts = returnM receipts"
| "processTxs h lenient blk (tx # txs) receipts =
     bindM (if lenient then wrapM ''manager: block tx provision'' (provisionReplay (h_codec h) tx) else returnM ()) (\<lambda>_.
     bindM (wrapM ''manager: block tx'' (Apply h tx blk)) (\<lambda>res.
     bindM (liftM (check (aq_Unhandled res > 0 \<and> \<not> lenient) (Err ''manager: unsupported contract''))) (\<lambda>_.
       processTxs h lenient blk txs (receipts @ aq_Receipts res))))"

definition maintain :: "host \<Rightarrow> int64 \<Rightarrow> (Database, unit) op" where
  "maintain h ts =
     bindM (wrapM ''manager: next-maintenance'' (readM NextMaintenanceTime)) (\<lambda>nxt.
       if sle nxt ts then
         bindM (wrapM ''manager: maintenance'' (RunMaintenance (h_codec h) (h_order h))) (\<lambda>_.
           wrapM ''manager: update-maintenance'' (UpdateNextMaintenanceTime ts))
       else returnM ())"

definition processState :: "host \<Rightarrow> bool \<Rightarrow> StateProvider option \<Rightarrow> Block \<Rightarrow> (Database, VmReceipt list) op" where
  "processState h lenient prov b =
     (let hdr = GetBlockRawData b;
          blk = \<lparr>bc_Number = bh_Number hdr, bc_Timestamp = bh_Timestamp hdr, bc_Witness = bh_WitnessAddress hdr,
                 bc_Version = bh_Version hdr, bc_Provider = prov\<rparr> in
      bindM (processTxs h lenient blk (b_Transactions b) []) (\<lambda>receipts.
      bindM (wrapM ''manager: witness-pay'' (readM WitnessPayPerBlock)) (\<lambda>pay.
      bindM (wrapM ''manager: block-reward'' (PayBlockReward (h_codec h) (bh_WitnessAddress hdr) pay)) (\<lambda>_.
      bindM (maintain h (bh_Timestamp hdr)) (\<lambda>_.
      bindM (wrapM ''manager: header timestamp'' (SaveLatestBlockHeaderTimestamp (bh_Timestamp hdr))) (\<lambda>_.
        returnM receipts))))))"

definition emitReceipts :: "int64 \<Rightarrow> VmReceipt list \<Rightarrow> Manager \<Rightarrow> Manager" where
  "emitReceipts n rs m = (if mg_sink m \<and> length rs > 0 then m\<lparr>mg_sunk := mg_sunk m @ [(n, rs)]\<rparr> else m)"

definition processBlock :: "host \<Rightarrow> Block \<Rightarrow> (Manager, unit) op" where
  "processBlock h b m =
     (case onDb (processState h (mg_lenient m) (mg_provider m) b) m of
        (Inl e, m1) \<Rightarrow> (Inl e, m1)
      | (Inr receipts, m1) \<Rightarrow> (Inr (), emitReceipts (bh_Number (GetBlockRawData b)) receipts m1))"

section \<open>Pushing blocks\<close>

text \<open>A panic, and in the model too little fuel, is not an error value the callers test.\<close>

fun aborts :: "error \<Rightarrow> bool" where
  "aborts (Panic _) = True"
| "aborts OutOfFuel = True"
| "aborts (Wrap _ e) = aborts e"
| "aborts _ = False"

definition revokeDb :: "Manager \<Rightarrow> Manager" where
  "revokeDb m = m\<lparr>mg_db := snd (Revoke (mg_db m))\<rparr>"

definition rejectTip :: "bytes \<Rightarrow> KBlock \<Rightarrow> Manager \<Rightarrow> Manager" where
  "rejectTip i old m = m\<lparr>mg_khaos := snd (RejectTip i (Some old) (mg_khaos m))\<rparr>"

definition refOf :: "KBlock \<Rightarrow> appliedRef" where
  "refOf n = \<lparr>ap_id = kb_ID n, ap_num = kb_Num n\<rparr>"

text \<open>Opening a session and applying a block in it, the common step of the three callers.\<close>

definition applyNode :: "host \<Rightarrow> KBlock \<Rightarrow> (Manager, unit) op" where
  "applyNode h n m =
     (case processBlock h (kb_Block n) (m\<lparr>mg_db := BuildSession (mg_db m)\<rparr>) of
        (Inl e, m1) \<Rightarrow> (Inl e, if aborts e then m1 else revokeDb m1)
      | (Inr _, m1) \<Rightarrow> (Inr (), m1\<lparr>mg_applied := mg_applied m1 @ [refOf n]\<rparr>))"

definition applyOnTop :: "host \<Rightarrow> KBlock \<Rightarrow> KBlock \<Rightarrow> (Manager, unit) op" where
  "applyOnTop h n old m =
     (case applyNode h n m of
        (Inl e, m1) \<Rightarrow> (Inl e, if aborts e then m1 else rejectTip (kb_ID n) old m1)
      | (Inr _, m1) \<Rightarrow> (Inr (), m1))"

text \<open>Revoking one applied block per block of the old branch; popping an empty list panics.\<close>

fun revokeBranch :: "KBlock list \<Rightarrow> (Manager, unit) op" where
  "revokeBranch [] = returnM ()"
| "revokeBranch (n # ns) =
     (\<lambda>m. if mg_applied m = [] then (Inl (Panic ''slice bounds out of range''), revokeDb m)
          else revokeBranch ns ((revokeDb m)\<lparr>mg_applied := butlast (mg_applied m)\<rparr>))"

text \<open>\<open>restoreBranch\<close> stops silently at the first failure.\<close>

fun restoreNodes :: "host \<Rightarrow> KBlock list \<Rightarrow> (Manager, unit) op" where
  "restoreNodes h [] = returnM ()"
| "restoreNodes h (n # ns) =
     (\<lambda>m. case applyNode h n m of
        (Inl e, m1) \<Rightarrow> (if aborts e then Inl e else Inr (), m1)
      | (Inr _, m1) \<Rightarrow> restoreNodes h ns m1)"

definition restoreBranch :: "host \<Rightarrow> KBlock list \<Rightarrow> (Manager, unit) op" where
  "restoreBranch h branch = restoreNodes h (rev branch)"

fun applyBranch :: "host \<Rightarrow> KBlock \<Rightarrow> KBlock \<Rightarrow> KBlock list \<Rightarrow> KBlock list \<Rightarrow> (Manager, unit) op" where
  "applyBranch h new old oldBr [] = returnM ()"
| "applyBranch h new old oldBr (n # ns) =
     (\<lambda>m. case applyNode h n m of
        (Inr _, m1) \<Rightarrow> applyBranch h new old oldBr ns m1
      | (Inl e, m1) \<Rightarrow>
          if aborts e then (Inl e, m1)
          else (case restoreBranch h oldBr m1 of
              (Inl e', m2) \<Rightarrow> (Inl e', m2)
            | (Inr _, m2) \<Rightarrow> (Inl (Wrap ''manager: switchFork apply'' e), rejectTip (kb_ID new) old m2)))"

definition switchFork :: "host \<Rightarrow> KBlock \<Rightarrow> KBlock \<Rightarrow> (Manager, unit) op" where
  "switchFork h new old m =
     (case GetBranch (mg_khaos m) (kb_ID new) (kb_ID old) of
        Inl e \<Rightarrow> (Inl (Wrap ''manager: switchFork branch'' e), m)
      | Inr (newBr, oldBr) \<Rightarrow> bindM (revokeBranch oldBr) (\<lambda>_. applyBranch h new old oldBr (rev newBr)) m)"

definition PushBlock :: "host \<Rightarrow> Block \<Rightarrow> (Manager, unit) op" where
  "PushBlock h b m =
     (case ID (h_codec h) b of
        Inl e \<Rightarrow> (Inl e, m)
      | Inr i \<Rightarrow>
          if Khaos_Contains (mg_khaos m) i then (Inr (), m)
          else case validateBlock (h_codec h) b of
            Inl e \<Rightarrow> (Inl e, m)
          | Inr _ \<Rightarrow>
              (case kh_head (mg_khaos m) of
                 None \<Rightarrow> (Inl (Err ''manager: PushBlock before InitGenesis''), m)
               | Some old \<Rightarrow>
                   (case onKhaos (Khaos_Push (h_codec h) b) m of
                      (Inl e, m1) \<Rightarrow> (Inl e, m1)
                    | (Inr n, m1) \<Rightarrow>
                        if map_option kb_ID (kh_head (mg_khaos m1)) \<noteq> Some (kb_ID n) then (Inr (), m1)
                        else if kb_ParentID n = kb_ID old then applyOnTop h n old m1
                        else switchFork h n old m1)))"

end
