(* ===== verification/Manager_Props.thy ===== *)
theory Manager_Props
  imports Manager
begin

text \<open>
  Properties of the block pipeline: a rejected block leaves no trace, the applied list and the open
  sessions of the database stay aligned, accounts stay under their own addresses (the locale
  \<open>block_inv\<close> carries an invariant over a push), and what a fork switch leaves behind when a later block of
  the new branch fails.
\<close>

section \<open>Blocks are session-local\<close>

context write_inv
begin

lemma keeps_provisionWitnesses [keeps_intros]: "keeps P (provisionWitnesses cd vs tot)"
  by (induction vs arbitrary: tot) (auto intro!: keeps_intros)

lemma keeps_provisionVote [keeps_intros]: "keeps P (provisionVote cd c)"
  unfolding provisionVote_def Let_def by (intro keeps_intros)

lemma keeps_topUp [keeps_intros]: "keeps P (topUp cd owner amount)"
  unfolding topUp_def Let_def by (intro keeps_intros)

lemma keeps_provisionReplay [keeps_intros]: "keeps P (provisionReplay cd tx)"
proof -
  have "keeps P (provisionContract cd c)" for c
    unfolding provisionContract_def by (cases "tc_Type c") (simp_all, (intro keeps_intros)+)
  then show ?thesis unfolding provisionReplay_def by (intro keeps_intros)
qed

end

lemma processTxs_keeps:
  assumes "write_inv (h_codec h) P"
  shows "keeps P (processTxs h lenient blk txs receipts)"
proof (induction txs arbitrary: receipts)
  case (Cons tx txs)
  show ?case unfolding processTxs.simps
    by (intro keeps_bindM keeps_wrapM keeps_if keeps_returnM keeps_liftM write_inv.keeps_provisionReplay [OF assms] Apply_keeps [OF assms] Cons.IH)
qed auto

lemma processState_keeps:
  assumes "write_inv (h_codec h) P"
  shows "keeps P (processState h lenient prov b)"
  unfolding processState_def maintain_def Let_def
  by (intro keeps_bindM keeps_wrapM keeps_if keeps_returnM keeps_readM processTxs_keeps [OF assms] write_inv.keeps_reward [OF assms]
      write_inv.keeps_RunMaintenance [OF assms] write_inv.keeps_properties [OF assms])

text \<open>A block works inside the session opened for it.\<close>

lemma processState_opened: "opened d (snd (processState h lenient prov b (BuildSession d)))"
  by (rule keepsD [OF processState_keeps [OF opn.write_inv_axioms]]) (rule rdb.under_build)

lemma applyNode_Inr:
  assumes "applyNode h n m = (Inr u, m')"
  shows "opened (mg_db m) (mg_db m')" "mg_khaos m' = mg_khaos m" "mg_applied m' = mg_applied m @ [refOf n]"
    "mg_lenient m' = mg_lenient m" "mg_provider m' = mg_provider m" "mg_sink m' = mg_sink m"
  using assms processState_opened [of "mg_db m" h "mg_lenient m" "mg_provider m" "kb_Block n"]
  by (auto simp: applyNode_def processBlock_def onDb_def emitReceipts_def split: prod.splits sum.splits if_splits)

lemma applyNode_Inl:
  assumes "applyNode h n m = (Inl e, m')" "\<not> aborts e"
  shows "m' = m"
proof -
  let ?p = "processState h (mg_lenient m) (mg_provider m) (kb_Block n) (BuildSession (mg_db m))"
  have "snd (Revoke (snd ?p)) = mg_db m"
    using rdb.revoke_under [OF processState_opened [of "mg_db m" h "mg_lenient m" "mg_provider m" "kb_Block n"]] by simp
  then show ?thesis using assms
    by (auto simp: applyNode_def processBlock_def onDb_def revokeDb_def split: prod.splits sum.splits if_splits)
qed

section \<open>A rejected block\<close>

text \<open>
  C3: A block that extends the head and is rejected (bad transaction root, a transaction that fails
  validation or execution, an unsupported contract, any error but a panic) leaves no trace: the
  database with all its sessions, the applied blocks, the emitted receipts, the head and the stored
  blocks of the fork tree are those from before, on a manager that does not prune (as the node builds
  it).
\<close>

theorem rejected_block_leaves_no_trace:
  assumes "PushBlock h b m = (Inl e, m')" "\<not> aborts e" "kh_head (mg_khaos m) = Some old" "khaos_inv (mg_khaos m)"
    and "ParentHash b = kb_ID old" "sle (kh_maxSize (mg_khaos m)) 0"
  shows "mg_db m' = mg_db m \<and> mg_applied m' = mg_applied m \<and> mg_sunk m' = mg_sunk m \<and>
    kh_head (mg_khaos m') = Some old \<and> kh_blocks (mg_khaos m') = kh_blocks (mg_khaos m)"
proof (cases "m' = m")
  case False
  let ?k = "mg_khaos m"
  have mem: "Khaos_Get ?k (kb_ID old) = Some old" using assms(3,4) by (auto simp: khaos_inv_def)
  obtain i where i: "ID (h_codec h) b = Inr i" using assms(1) False by (auto simp: PushBlock_def split: sum.splits)
  have new: "Khaos_Get ?k i = None"
    using assms(1) i by (auto simp: PushBlock_def Khaos_Contains_def Khaos_Get_def split: option.splits)
  define n where "n = inserted ?k b i old"
  let ?m1 = "m\<lparr>mg_khaos := (insert_node ?k n)\<lparr>kh_head := Some n\<rparr>\<rparr>"
  note push = Push_new [OF i new, unfolded assms(5), OF mem, folded n_def]
  have ids: "kb_ID n = i" "kb_ParentID n = kb_ID old" "kb_ID old \<noteq> i" using mem new assms(5) by (auto simp: n_def)
  have unpruned: "prune ((insert_node ?k n)\<lparr>kh_head := Some n\<rparr>) = (insert_node ?k n)\<lparr>kh_head := Some n\<rparr>"
    using assms(6) by (simp add: prune_def)
  have top: "applyOnTop h n old ?m1 = (Inl e, m')"
    using assms(1) False i new assms(3) ids unpruned
    by (auto simp: PushBlock_def Khaos_Contains_def Khaos_Get_def onKhaos_def push split: option.splits sum.splits if_splits)
  then have "m' = rejectTip i old ?m1"
    using assms(2) applyNode_Inl [of h n ?m1 e] ids by (auto simp: applyOnTop_def split: prod.splits sum.splits if_splits)
  moreover have "fmdrop i (fmupd i n (kh_blocks ?k)) = kh_blocks ?k"
    using new by (intro fmap_ext) (auto simp: Khaos_Get_def)
  then have "RejectTip i (Some old) (mg_khaos ?m1) = (True, ?k\<lparr>kh_next := kh_next ?k + 1, kh_head := Some old\<rparr>)"
    using mem ids by (simp add: RejectTip_def) (simp add: insert_node_def)
  ultimately show ?thesis by (simp add: rejectTip_def)
qed (use assms(3) in simp)

section \<open>Applied blocks and sessions\<close>

text \<open>The states a manager can reach: created on a database, started, then pushed blocks without a panic.\<close>

inductive reachable :: "host \<Rightarrow> Database \<Rightarrow> Manager \<Rightarrow> bool" for h d where
  new: "reachable h d (NewManager d maxFork)"
| start: "reachable h d m \<Longrightarrow> reachable h d (snd (Manager_Start h rt m))"
| init: "reachable h d m \<Longrightarrow> reachable h d (snd (InitGenesis h cfg m))"
| provider: "reachable h d m \<Longrightarrow> reachable h d (SetStateProvider p m)"
| sink: "reachable h d m \<Longrightarrow> reachable h d (SetReceiptSink registered m)"
| lenient: "reachable h d m \<Longrightarrow> reachable h d (EnableReplayProvisioning m)"
| push: "reachable h d m \<Longrightarrow> PushBlock h b m = (r, m') \<Longrightarrow> (\<forall>e. r = Inl e \<longrightarrow> \<not> aborts e) \<Longrightarrow> reachable h d m'"

definition aligned :: "Manager \<Rightarrow> bool" where
  "aligned m \<longleftrightarrow> length (mg_applied m) = Depth (mg_db m)"

text \<open>Writes through the stores do not open or close sessions.\<close>

interpretation dep: write_inv cd "\<lambda>d. Depth d = n" for cd n
  by unfold_locales (auto simp: Depth_def Database_Put_def Database_Delete_def split: list.splits)

lemma aligned_onDb:
  assumes "aligned m" "\<And>n. keeps (\<lambda>d. Depth d = n) f"
  shows "aligned (snd (onDb f m))"
  using assms(1) keepsD [OF assms(2) refl, of "mg_db m"] by (simp add: aligned_def onDb_def split_beta)

lemma keeps_aligned_onDb: "(\<And>n. keeps (\<lambda>d. Depth d = n) f) \<Longrightarrow> keeps aligned (onDb f)"
  using aligned_onDb unfolding keeps_def [of aligned] by blast

lemma keeps_mg_onDb: "keeps P f \<Longrightarrow> keeps (\<lambda>m. P (mg_db m)) (onDb f)"
  by (auto simp: keeps_def onDb_def split_beta)

lemma keeps_mg_onKhaos: "keeps (\<lambda>m. P (mg_db m)) (onKhaos f)"
  by (simp add: keeps_def onKhaos_def split_beta)

lemma keeps_aligned_onKhaos: "keeps aligned (onKhaos f)"
  by (simp add: keeps_def onKhaos_def aligned_def split_beta)

lemma aligned_start: "keeps aligned (Manager_Start h rt)"
  unfolding Manager_Start_def Let_def
  by (intro keeps_bindM keeps_wrapM keeps_aligned_onKhaos keeps_aligned_onDb dep.keeps_properties)

lemma aligned_init: "keeps aligned (InitGenesis h cfg)"
proof -
  have "keeps aligned (bindM (wrapM ''manager: load genesis state'' (onDb (Genesis_Load (h_codec h) cfg))) (\<lambda>_.
    bindM (wrapM ''manager: build genesis block'' (liftM (Genesis_Block (h_codec h) cfg))) (\<lambda>gb. Manager_Start h gb)))"
    by (intro keeps_bindM keeps_wrapM keeps_liftM keeps_aligned_onDb dep.keeps_Genesis_Load aligned_start)
  then show ?thesis by (simp add: keeps_def InitGenesis_def)
qed

lemma aligned_applyNode:
  assumes "aligned m" "applyNode h n m = (r, m')" "\<forall>e. r = Inl e \<longrightarrow> \<not> aborts e"
  shows "aligned m'"
proof (cases r)
  case (Inl e)
  then show ?thesis using applyNode_Inl [of h n m e m'] assms by auto
next
  case (Inr u)
  then show ?thesis using applyNode_Inr(1,3) [of h n m u m'] assms(1,2) by (auto simp: aligned_def opened_def Depth_def)
qed

lemma aligned_revoke: "aligned m \<Longrightarrow> aligned (snd (revokeBranch ns m))"
proof (induction ns arbitrary: m)
  case (Cons n ns)
  then show ?case
    using Cons.IH [of "(revokeDb m)\<lparr>mg_applied := butlast (mg_applied m)\<rparr>"]
    by (auto simp: aligned_def revokeDb_def Revoke_def Depth_def split: list.splits)
qed simp

lemma aligned_restore:
  assumes "aligned m" "restoreNodes h ns m = (Inr u, m')"
  shows "aligned m'"
  using assms
proof (induction ns arbitrary: m)
  case (Cons n ns)
  show ?case
  proof (cases "applyNode h n m")
    case (Pair r m1)
    then have "\<forall>e. r = Inl e \<longrightarrow> \<not> aborts e" using Cons.prems(2) by (auto split: if_splits)
    then have "aligned m1" by (rule aligned_applyNode [OF Cons.prems(1) Pair])
    then show ?thesis using Cons.IH [of m1] Cons.prems(2) Pair by (cases r) (auto split: if_splits)
  qed
qed simp

lemma restore_aborts: "restoreNodes h ns m = (Inl e, m') \<Longrightarrow> aborts e"
proof (induction ns arbitrary: m)
  case (Cons n ns)
  then show ?case using Cons.IH by (auto split: prod.splits sum.splits if_splits)
qed simp

lemma aligned_rejectTip [simp]: "aligned (rejectTip i old m) = aligned m"
  by (simp add: aligned_def rejectTip_def)

lemma aligned_applyBranch:
  assumes "aligned m" "applyBranch h new old oldBr ns m = (r, m')" "\<forall>e. r = Inl e \<longrightarrow> \<not> aborts e"
  shows "aligned m'"
  using assms(1,2)
proof (induction ns arbitrary: m)
  case (Cons n ns)
  obtain q m1 where q: "applyNode h n m = (q, m1)" by force
  show ?case
  proof (cases q)
    case (Inr u)
    then show ?thesis using Cons.IH [of m1] aligned_applyNode [OF Cons.prems(1) q] Cons.prems(2) q by auto
  next
    case (Inl e)
    have ab: "\<not> aborts e" using assms(3) Cons.prems(2) q Inl by (auto split: if_splits)
    then have m1: "aligned m1" using aligned_applyNode [OF Cons.prems(1) q] Inl by simp
    obtain p m2 where p: "restoreBranch h oldBr m1 = (p, m2)" by force
    show ?thesis
    proof (cases p)
      case (Inl e')
      then have "aborts e'" "r = Inl e'"
        using restore_aborts Cons.prems(2) q \<open>q = Inl e\<close> ab p by (auto simp: restoreBranch_def)
      then show ?thesis using assms(3) by blast
    next
      case (Inr v)
      then show ?thesis using Cons.prems(2) q \<open>q = Inl e\<close> ab p aligned_restore [OF m1] by (auto simp: restoreBranch_def)
    qed
  qed
qed simp

lemma aligned_PushBlock:
  assumes "aligned m" "PushBlock h b m = (r, m')" "\<forall>e. r = Inl e \<longrightarrow> \<not> aborts e"
  shows "aligned m'"
proof -
  have top: "aligned m2" if "applyOnTop h n old m1 = (r, m2)" "aligned m1" for n old m1 m2
  proof -
    obtain q m3 where q: "applyNode h n m1 = (q, m3)" by force
    have "\<forall>e. q = Inl e \<longrightarrow> \<not> aborts e" using that(1) q assms(3) by (auto simp: applyOnTop_def split: if_splits)
    from aligned_applyNode [OF that(2) q this] show ?thesis
      using that(1) q by (auto simp: applyOnTop_def split: sum.splits if_splits)
  qed
  have fork: "aligned m2" if "switchFork h n old m1 = (r, m2)" "aligned m1" for n old m1 m2
  proof (cases "GetBranch (mg_khaos m1) (kb_ID n) (kb_ID old)")
    case (Inr br)
    obtain newBr oldBr q m3 where br: "br = (newBr, oldBr)" "revokeBranch oldBr m1 = (q, m3)" by force
    have "aligned m3" using aligned_revoke [OF that(2), of oldBr] br(2) by simp
    then show ?thesis using that(1) Inr br aligned_applyBranch [OF _ _ assms(3)]
      by (cases q) (auto simp: switchFork_def bindM_def)
  qed (use that in \<open>auto simp: switchFork_def\<close>)
  have push: "aligned (snd (onKhaos f m))" for f :: "(KhaosDB, KBlock) op"
    using assms(1) by (simp add: onKhaos_def aligned_def split_beta)
  show ?thesis
    using assms(1,2) push [of "Khaos_Push (h_codec h) b"] top fork
    by (auto simp: PushBlock_def split: sum.splits option.splits prod.splits if_splits)
qed

text \<open>
  C4: In every state a manager reaches from a database without open sessions the list of applied blocks and the open sessions of the
  database have the same length, whatever blocks were pushed and whichever of them were rejected or
  caused a fork switch, failed or not.
\<close>

theorem applied_matches_sessions:
  assumes "Depth d = 0" "reachable h d m"
  shows "length (mg_applied m) = Depth (mg_db m)"
proof -
  have "aligned m" using assms(2)
  proof (induction rule: reachable.induct)
    case (new maxFork)
    then show ?case using assms(1) by (simp add: aligned_def NewManager_def)
  next
    case (start m rt)
    then show ?case by (intro keepsD [OF aligned_start])
  next
    case (init m cfg)
    then show ?case by (intro keepsD [OF aligned_init])
  next
    case (push m b r m')
    show ?case by (rule aligned_PushBlock [OF push(4,2,3)])
  qed (simp_all add: aligned_def SetStateProvider_def SetReceiptSink_def EnableReplayProvisioning_def)
  then show ?thesis by (simp add: aligned_def)
qed

section \<open>What every push keeps of the database\<close>

text \<open>A property of the database that a block keeps in the session opened for it, and that revoking keeps.\<close>

locale block_inv =
  fixes h :: host and Q :: "Database \<Rightarrow> bool"
  assumes run: "Q d \<Longrightarrow> Q (snd (processState h lenient prov b (BuildSession d)))"
    and revoke: "Q d \<Longrightarrow> Q (snd (Revoke d))"
begin

lemma applyNode_keeps: "Q (mg_db m) \<Longrightarrow> Q (mg_db (snd (applyNode h n m)))"
  using run [of "mg_db m" "mg_lenient m" "mg_provider m" "kb_Block n"] revoke
  by (auto simp: applyNode_def processBlock_def onDb_def emitReceipts_def revokeDb_def split: prod.splits sum.splits)

lemma revokeBranch_keeps: "Q (mg_db m) \<Longrightarrow> Q (mg_db (snd (revokeBranch ns m)))"
  by (induction ns arbitrary: m) (auto simp: revokeDb_def revoke)

lemma restoreNodes_keeps: "Q (mg_db m) \<Longrightarrow> Q (mg_db (snd (restoreNodes h ns m)))"
proof (induction ns arbitrary: m)
  case (Cons n ns)
  then show ?case using applyNode_keeps [of m n] by (auto split: prod.splits sum.splits)
qed simp

lemma applyBranch_keeps: "Q (mg_db m) \<Longrightarrow> Q (mg_db (snd (applyBranch h new old oldBr ns m)))"
proof (induction ns arbitrary: m)
  case (Cons n ns)
  obtain r m1 where r: "applyNode h n m = (r, m1)" by force
  moreover have "Q (mg_db m1)" using applyNode_keeps [OF Cons.prems, of n] r by simp
  moreover from this have "Q (mg_db (snd (restoreBranch h oldBr m1)))" by (simp add: restoreBranch_def restoreNodes_keeps)
  ultimately show ?case using Cons.IH [of m1] by (auto simp: rejectTip_def split: prod.splits sum.splits)
qed simp

lemma PushBlock_keeps:
  assumes "Q (mg_db m)"
  shows "Q (mg_db (snd (PushBlock h b m)))"
proof -
  have top: "Q (mg_db (snd (applyOnTop h n old m1)))" if "Q (mg_db m1)" for n old m1
    using applyNode_keeps [OF that, of n] by (auto simp: applyOnTop_def rejectTip_def split: prod.splits sum.splits)
  have fork: "Q (mg_db (snd (switchFork h n old m1)))" if "Q (mg_db m1)" for n old m1
  proof (cases "GetBranch (mg_khaos m1) (kb_ID n) (kb_ID old)")
    case (Inr br)
    obtain newBr oldBr q m2 where "br = (newBr, oldBr)" "revokeBranch oldBr m1 = (q, m2)" by force
    with Inr revokeBranch_keeps [OF that, of oldBr] show ?thesis
      by (cases q) (simp_all add: switchFork_def bindM_def applyBranch_keeps)
  qed (simp add: switchFork_def that)
  have push: "mg_db (snd (onKhaos f m)) = mg_db m" for f :: "(KhaosDB, KBlock) op"
    by (simp add: onKhaos_def split_beta)
  show ?thesis using push [of "Khaos_Push (h_codec h) b"] top fork assms
    by (auto simp: PushBlock_def split: sum.splits option.splits prod.splits)
qed

end

text \<open>Blocks do not reach the committed store.\<close>

interpretation base: block_inv h "\<lambda>d. db_base d = B" for h B
  using processState_opened by unfold_locales (auto simp: opened_def Revoke_def split: list.splits)

section \<open>Accounts under their own address\<close>

text \<open>A property of the database as it is and after revoking any number of sessions.\<close>

definition stacked :: "(Database \<Rightarrow> bool) \<Rightarrow> Database \<Rightarrow> bool" where
  "stacked P d \<longleftrightarrow> (\<forall>n. P (d\<lparr>db_sessions := drop n (db_sessions d)\<rparr>))"

lemma sessions_same [simp]: "db_sessions d = ws \<Longrightarrow> d\<lparr>db_sessions := ws\<rparr> = d"
  by (cases d) simp

lemma stackedD: "stacked P d \<Longrightarrow> P d"
  by (auto simp: stacked_def dest: spec [of _ 0])

lemma stacked_write:
  assumes "stacked P d" "P (f d)" "db_sessions d = [] \<Longrightarrow> db_sessions (f d) = []"
    and "\<And>w ws. db_sessions d = w # ws \<Longrightarrow> db_base (f d) = db_base d \<and> (\<exists>w'. db_sessions (f d) = w' # ws)"
  shows "stacked P (f d)"
  unfolding stacked_def
proof
  fix n
  show "P ((f d)\<lparr>db_sessions := drop n (db_sessions (f d))\<rparr>)"
  proof (cases "n = 0 \<or> db_sessions d = []")
    case True
    then show ?thesis using assms(2,3) by auto
  next
    case False
    then obtain k w ws where n: "n = Suc k" "db_sessions d = w # ws" by (cases n; cases "db_sessions d") auto
    then have "(f d)\<lparr>db_sessions := drop n (db_sessions (f d))\<rparr> = d\<lparr>db_sessions := drop n (db_sessions d)\<rparr>"
      using assms(4) by auto
    then show ?thesis using assms(1) by (simp add: stacked_def)
  qed
qed

lemma stacked_write_inv:
  assumes "write_inv cd P"
  shows "write_inv cd (stacked P)"
proof
  fix d k v a b
  have put: "stacked P (Database_Put d k' v')" if "stacked P d" "P (Database_Put d k' v')" for k' v'
    by (rule stacked_write [where f = "\<lambda>d. Database_Put d k' v'", OF that]) (simp_all add: Database_Put_def)
  have del: "stacked P (Database_Delete d k')" if "stacked P d" "P (Database_Delete d k')" for k'
    by (rule stacked_write [where f = "\<lambda>d. Database_Delete d k'", OF that]) (simp_all add: Database_Delete_def)
  show "stacked P d \<Longrightarrow> \<not> has_prefix accountPrefix k \<Longrightarrow> stacked P (Database_Put d k v)"
    "stacked P d \<Longrightarrow> \<not> has_prefix accountPrefix k \<Longrightarrow> stacked P (Database_Delete d k)"
    "stacked P d \<Longrightarrow> marshal_Account cd a = Some b \<Longrightarrow> stacked P (Database_Put d (nsKey accountPrefix (ac_Address a)) b)"
    using put del stackedD write_inv.put_other [OF assms] write_inv.delete_other [OF assms] write_inv.put_account [OF assms] by blast+
qed

lemma keyed_blocks:
  assumes "codec_ok (h_codec h)"
  shows "block_inv h (stacked (accounts_keyed (h_codec h)))"
proof
  let ?P = "accounts_keyed (h_codec h)"
  fix d lenient prov b assume d: "stacked ?P d"
  have "stacked ?P (BuildSession d)"
    unfolding stacked_def
  proof
    fix n
    show "?P ((BuildSession d)\<lparr>db_sessions := drop n (db_sessions (BuildSession d))\<rparr>)"
    proof (cases n)
      case 0
      have "?P (BuildSession d)" using stackedD [OF d] by (simp add: accounts_keyed_def AccountStore_Get_view)
      with 0 show ?thesis by simp
    next
      case (Suc k)
      then show ?thesis using d by (simp add: stacked_def BuildSession_def)
    qed
  qed
  then show "stacked ?P (snd (processState h lenient prov b (BuildSession d)))"
    by (rule keepsD [OF processState_keeps [OF stacked_write_inv [OF codec_keyed [OF assms]]]])
  show "stacked ?P (snd (Revoke d))"
    unfolding stacked_def
  proof
    fix n
    show "?P ((snd (Revoke d))\<lparr>db_sessions := drop n (db_sessions (snd (Revoke d)))\<rparr>)"
      using d [unfolded stacked_def, rule_format, of n] d [unfolded stacked_def, rule_format, of "Suc n"]
      by (cases "db_sessions d") (simp_all add: Revoke_def)
  qed
qed

text \<open>
  C5: Every account is stored under its own address, in every state a manager reaches from a
  database where this holds: after genesis, blocks, rejected blocks and fork switches, in the present
  state and in each earlier one that revoking sessions returns to.
\<close>

theorem accounts_stay_keyed:
  assumes "codec_ok (h_codec h)" "Depth d = 0" "accounts_keyed (h_codec h) d" "reachable h d m"
  shows "accounts_keyed (h_codec h) ((mg_db m)\<lparr>db_sessions := drop n (db_sessions (mg_db m))\<rparr>)"
proof -
  let ?Q = "stacked (accounts_keyed (h_codec h))"
  have w: "write_inv (h_codec h) ?Q" by (rule stacked_write_inv [OF codec_keyed [OF assms(1)]])
  have st: "keeps (\<lambda>m. ?Q (mg_db m)) (Manager_Start h rt)" for rt
    unfolding Manager_Start_def Let_def
    by (intro keeps_bindM keeps_wrapM keeps_mg_onKhaos keeps_mg_onDb write_inv.keeps_properties [OF w])
  have "?Q (mg_db m)" using assms(4)
  proof (induction rule: reachable.induct)
    case (new maxFork)
    then show ?case using assms(2,3) by (simp add: NewManager_def stacked_def Depth_def)
  next
    case (start m rt)
    then show ?case using keepsD [OF st] by blast
  next
    case (init m cfg)
    have "keeps (\<lambda>m. ?Q (mg_db m)) (bindM (wrapM ''manager: load genesis state'' (onDb (Genesis_Load (h_codec h) cfg))) (\<lambda>_.
      bindM (wrapM ''manager: build genesis block'' (liftM (Genesis_Block (h_codec h) cfg))) (\<lambda>gb. Manager_Start h gb)))"
      by (intro keeps_bindM keeps_wrapM keeps_liftM keeps_mg_onDb write_inv.keeps_Genesis_Load [OF w] st)
    then show ?case using init.IH keepsD by (fastforce simp: InitGenesis_def)
  next
    case (push m b r m')
    then show ?case using block_inv.PushBlock_keeps [OF keyed_blocks [OF assms(1)], of m b] by simp
  qed (simp_all add: SetStateProvider_def SetReceiptSink_def EnableReplayProvisioning_def)
  then show ?thesis by (simp add: stacked_def)
qed

section \<open>A failed fork switch\<close>

lemma forM_applyNode:
  assumes "forM ns (applyNode h) m = (Inr (), m')"
  shows "mg_applied m' = mg_applied m @ map refOf ns \<and> restoreNodes h ns m = (Inr (), m') \<and>
    applyBranch h new old oldBr (ns @ rest) m = applyBranch h new old oldBr rest m'"
  using assms
proof (induction ns arbitrary: m)
  case (Cons n ns)
  obtain m1 where m1: "applyNode h n m = (Inr (), m1)" "forM ns (applyNode h) m1 = (Inr (), m')"
    using Cons.prems by (auto elim!: bindM_success)
  then show ?case using Cons.IH [OF m1(2)] applyNode_Inr(3) [OF m1(1)] by simp
qed simp

text \<open>
  C17: When a block of the new branch fails after earlier blocks of it were applied, the fork switch
  revokes only the failing block's session: the earlier new blocks stay applied and the old branch is
  applied again on top of them, although the old head is restored in the fork tree.
\<close>

theorem failed_switch_keeps_new_blocks:
  assumes "GetBranch (mg_khaos m) (kb_ID new) (kb_ID old) = Inr (newBr, oldBr)" "rev newBr = done @ bad # rest"
    and "revokeBranch oldBr m = (Inr (), m1)" "forM done (applyNode h) m1 = (Inr (), m2)"
    and "applyNode h bad m2 = (Inl e, m3)" "\<not> aborts e" "forM (rev oldBr) (applyNode h) m2 = (Inr (), m4)"
  shows "\<exists>m'. switchFork h new old m = (Inl (Wrap ''manager: switchFork apply'' e), m') \<and> mg_db m' = mg_db m4 \<and>
    mg_applied m' = mg_applied m1 @ map refOf done @ map refOf (rev oldBr)"
proof -
  have "m3 = m2" using applyNode_Inl [OF assms(5,6)] .
  moreover have "restoreBranch h oldBr m2 = (Inr (), m4)" using forM_applyNode [OF assms(7)] by (simp add: restoreBranch_def)
  ultimately have "switchFork h new old m = (Inl (Wrap ''manager: switchFork apply'' e), rejectTip (kb_ID new) old m4)"
    using assms(1-3,5,6) forM_applyNode [OF assms(4), of new old oldBr "bad # rest"] by (simp add: switchFork_def bindM_def)
  then show ?thesis using forM_applyNode [OF assms(4)] forM_applyNode [OF assms(7)] by (simp add: rejectTip_def)
qed

section \<open>Witnesses\<close>

definition sampleHost :: host where
  "sampleHost = \<lparr>h_codec = ref_codec, h_lib = sampleLib, h_order = sorted_list_of_fset, h_fuel = 0\<rparr>"

text \<open>A block with a number, a parent, transactions and their Merkle root, stamped before any maintenance time.\<close>

definition sampleBlock :: "int64 \<Rightarrow> bytes \<Rightarrow> Transaction list \<Rightarrow> Block" where
  "sampleBlock n parent txs = \<lparr>b_Transactions = txs, b_BlockHeader = Some \<lparr>hd_RawData =
     Some (zero_BlockHeaderRaw\<lparr>bh_Number := n, bh_ParentHash := parent, bh_Timestamp := - 1,
       bh_TxTrieRoot := (case CalcTxTrieRoot ref_codec txs of Inr rt \<Rightarrow> rt | Inl _ \<Rightarrow> [])\<rparr>), hd_WitnessSignature = []\<rparr>\<rparr>"

lemma sampleBlock_simps [simp]:
  "Number (sampleBlock n p txs) = n" "ParentHash (sampleBlock n p txs) = p" "b_Transactions (sampleBlock n p txs) = txs"
  "bh_Timestamp (GetBlockRawData (sampleBlock n p txs)) = - 1"
  by (simp_all add: sampleBlock_def Number_def ParentHash_def GetBlockRawData_def)

lemma validate_sample: "validateBlock ref_codec (sampleBlock n p txs) = Inr ()"
proof -
  have "\<exists>ls. mapE (TxMerkleHash ref_codec) txs = Inr ls"
    by (induction txs) (auto simp: TxMerkleHash_def ref_codec_def)
  then show ?thesis by (auto simp: validateBlock_def sampleBlock_def GetBlockRawData_def CalcTxTrieRoot_def)
qed

text \<open>A transaction with a contract type that no actuator handles.\<close>

definition oddTx :: Transaction where
  "oddTx = \<lparr>tx_RawData = Some (zero_TransactionRaw\<lparr>tr_Contract := [\<lparr>tc_Type = ContractType_Other 99, tc_Parameter = None, tc_rest = []\<rparr>]\<rparr>),
     tx_Signature = [], tx_rest = []\<rparr>"

lemma odd_block: "processState h False prov (sampleBlock n p (oddTx # txs)) d = (Inl (Err ''manager: unsupported contract''), d)"
  by (simp add: processState_def Let_def bindM_def Apply_def oddTx_def GetTxRawData_def wrapM_def)

text \<open>A database on which an empty block is accepted.\<close>

definition quietDb :: "Database \<Rightarrow> bool" where
  "quietDb d \<longleftrightarrow> AllowChangeDelegation d = Inr False \<and> (\<exists>p. WitnessPayPerBlock d = Inr p) \<and> NextMaintenanceTime d = Inr 0"

lemma empty_block:
  assumes "quietDb d"
  shows "\<exists>d'. processState h lenient prov (sampleBlock n p []) d = (Inr [], d') \<and> quietDb d'"
proof -
  have "\<not> sle 0 (- 1 :: int64)" by (simp add: scmp_defs)
  with assms show ?thesis
    by (auto simp: quietDb_def processState_def Let_def bindM_def wrapM_def maintain_def PayBlockReward_def
        SaveLatestBlockHeaderTimestamp_def PutInt64_def AllowChangeDelegation_def WitnessPayPerBlock_def NextMaintenanceTime_def
        flagOn_def prop_key_defs)
qed

lemma quiet_session: "quietDb (BuildSession d) = quietDb d"
  by (simp add: quietDb_def AllowChangeDelegation_def WitnessPayPerBlock_def NextMaintenanceTime_def flagOn_def getOr_view)

lemma empty_node:
  assumes "kb_Block n = sampleBlock num p []" "quietDb (mg_db m)"
  shows "\<exists>m'. applyNode h n m = (Inr (), m') \<and> quietDb (mg_db m') \<and> mg_lenient m' = mg_lenient m \<and>
    mg_applied m' = mg_applied m @ [refOf n]"
  using empty_block [of "BuildSession (mg_db m)" h "mg_lenient m" "mg_provider m" num p] assms
  by (auto simp: applyNode_def processBlock_def onDb_def quiet_session emitReceipts_def)

lemma odd_node:
  assumes "kb_Block n = sampleBlock num p (oddTx # txs)" "\<not> mg_lenient m"
  shows "\<exists>m'. applyNode h n m = (Inl (Err ''manager: unsupported contract''), m')"
  using assms by (simp add: applyNode_def processBlock_def onDb_def odd_block)

lemma quiet_sample: "quietDb (sampleDb [])"
  by (simp add: quietDb_def AllowChangeDelegation_def WitnessPayPerBlock_def NextMaintenanceTime_def)

definition sampleManager :: Manager where
  "sampleManager = (NewManager (sampleDb []) 0)\<lparr>mg_khaos := treeR\<rparr>"

theorem rejected_block_leaves_no_trace_witness:
  "\<exists>m'. PushBlock sampleHost (sampleBlock 1 (refID blkR) [oddTx]) sampleManager = (Inl (Err ''manager: unsupported contract''), m') \<and>
     mg_db m' = sampleDb [] \<and> kh_head (mg_khaos m') = Some nodeR \<and> kh_blocks (mg_khaos m') = kh_blocks treeR"
proof -
  let ?b = "sampleBlock 1 (refID blkR) [oddTx]"
  have ne: "refID ?b \<noteq> refID blkR" using refID_neq [of ?b blkR] by simp
  then have new: "Khaos_Get treeR (refID ?b) = None" by (simp add: treeR_def Khaos_Get_def)
  define n where "n = inserted treeR ?b (refID ?b) nodeR"
  have adv: "advances treeR ?b" by (simp add: advances_def scmp_defs)
  have idR: "kb_ID nodeR = refID blkR" by (simp add: nodeR_def)
  have inv: "khaos_inv treeR" using started_inv(1) [of ref_codec blkR "refID blkR" 0] by (simp add: started_ref)
  have "\<exists>m'. PushBlock sampleHost ?b sampleManager = (Inl (Err ''manager: unsupported contract''), m')"
  proof -
    have push: "Khaos_Push ref_codec ?b treeR = (Inr n, prune (insert_node treeR n\<lparr>kh_head := Some n\<rparr>))"
      using Push_new [of ref_codec ?b "refID ?b" treeR nodeR] new adv by (simp add: n_def)
    have head: "kh_head (prune (insert_node treeR n\<lparr>kh_head := Some n\<rparr>)) = Some n"
      by (simp add: prune_def scmp_defs)
    have "kb_Block n = sampleBlock 1 (refID blkR) [oddTx]" "kb_ID n = refID ?b" "kb_ParentID n = kb_ID nodeR"
      by (simp_all add: n_def nodeR_def)
    with odd_node [OF this(1), of "sampleManager\<lparr>mg_khaos := prune (insert_node treeR n\<lparr>kh_head := Some n\<rparr>)\<rparr>" sampleHost]
    show ?thesis using new
      by (auto simp: PushBlock_def sampleHost_def sampleManager_def NewManager_def Khaos_Contains_def Khaos_Get_def validate_sample
          onKhaos_def push head applyOnTop_def)
  qed
  then obtain m' where m': "PushBlock sampleHost ?b sampleManager = (Inl (Err ''manager: unsupported contract''), m')" by blast
  show ?thesis
    using rejected_block_leaves_no_trace [OF m', of nodeR] m' inv idR by (simp add: sampleManager_def NewManager_def scmp_defs)
qed

text \<open>A manager started on a root block accepts an empty block on top of it: one applied block, one session.\<close>

lemma push_empty:
  assumes "mg_khaos m = treeR" "quietDb (mg_db m)"
  shows "\<exists>m' n. PushBlock sampleHost (sampleBlock 1 (refID blkR) []) m = (Inr (), m') \<and> mg_applied m' = mg_applied m @ [refOf n]"
proof -
  let ?b = "sampleBlock 1 (refID blkR) []"
  have "refID ?b \<noteq> refID blkR" using refID_neq [of ?b blkR] by simp
  then have new: "Khaos_Get treeR (refID ?b) = None" by (simp add: treeR_def Khaos_Get_def)
  define n where "n = inserted treeR ?b (refID ?b) nodeR"
  have adv: "advances treeR ?b" by (simp add: advances_def scmp_defs)
  have push: "Khaos_Push ref_codec ?b treeR = (Inr n, prune (insert_node treeR n\<lparr>kh_head := Some n\<rparr>))"
    using Push_new [of ref_codec ?b "refID ?b" treeR nodeR] new adv by (simp add: n_def)
  have head: "kh_head (prune (insert_node treeR n\<lparr>kh_head := Some n\<rparr>)) = Some n"
    by (simp add: prune_def scmp_defs)
  have "kb_Block n = ?b" "kb_ID n = refID ?b" "kb_ParentID n = kb_ID nodeR" by (simp_all add: n_def nodeR_def)
  with empty_node [OF this(1), of "m\<lparr>mg_khaos := prune (insert_node treeR n\<lparr>kh_head := Some n\<rparr>)\<rparr>" sampleHost]
  show ?thesis using new assms
    by (auto simp: PushBlock_def sampleHost_def Khaos_Contains_def Khaos_Get_def validate_sample onKhaos_def push head applyOnTop_def)
qed

theorem applied_matches_sessions_witness:
  "\<exists>m'. PushBlock sampleHost (sampleBlock 1 (refID blkR) []) (snd (Manager_Start sampleHost blkR (NewManager (sampleDb []) 0))) = (Inr (), m') \<and>
    length (mg_applied m') = 1 \<and> Depth (mg_db m') = 1"
proof -
  let ?m = "snd (Manager_Start sampleHost blkR (NewManager (sampleDb []) 0))"
  have m: "mg_khaos ?m = treeR" "quietDb (mg_db ?m)" "mg_applied ?m = []"
  proof -
    have run: "onKhaos (Khaos_Start ref_codec blkR) (NewManager (sampleDb []) 0) = (Inr (), sampleManager)"
      by (simp add: onKhaos_def NewManager_def Khaos_New_def Khaos_Start_def Let_def sampleManager_def treeR_def nodeR_def)
    have ts: "bh_Timestamp (GetBlockRawData blkR) = 0"
      by (simp add: blkR_def headerBlock_def GetBlockRawData_def zero_BlockHeaderRaw_def)
    have m: "?m = sampleManager\<lparr>mg_db := snd (PutInt64 propNextMaintenanceTime 0 (snd (PutInt64 propLatestBlockHeaderTimestamp 0
        (mg_db sampleManager))))\<rparr>"
      by (simp add: Manager_Start_def sampleHost_def bindM_def wrapM_def run ts onDb_def
          SaveLatestBlockHeaderTimestamp_def SaveNextMaintenanceTime_def PutInt64_def)
    show "mg_khaos ?m = treeR" "quietDb (mg_db ?m)" "mg_applied ?m = []"
      unfolding m by (simp_all add: sampleManager_def NewManager_def PutInt64_def quietDb_def AllowChangeDelegation_def
          WitnessPayPerBlock_def NextMaintenanceTime_def flagOn_def prop_key_defs)
  qed
  have start: "reachable sampleHost (sampleDb []) ?m" by (intro reachable.start reachable.new)
  obtain m' n where m': "PushBlock sampleHost (sampleBlock 1 (refID blkR) []) ?m = (Inr (), m')" "mg_applied m' = [refOf n]"
    using push_empty [OF m(1,2)] m(3) by auto
  have "reachable sampleHost (sampleDb []) m'" using reachable.push [OF start m'(1)] by simp
  moreover have "Depth (sampleDb []) = 0" by (simp add: Depth_def sampleDb_def NewDatabase_def)
  ultimately have "length (mg_applied m') = Depth (mg_db m')" by (intro applied_matches_sessions)
  with m' show ?thesis by simp
qed

text \<open>A root with two branches: the old head, and two blocks of which the second cannot be applied.\<close>

definition forkR :: KBlock where "forkR = KBlock 0 (sampleBlock 0 [] []) [0] [] 0 None"
definition forkOld :: KBlock where "forkOld = KBlock 1 (sampleBlock 1 [0] []) [1] [0] 1 (Some forkR)"
definition forkB :: KBlock where "forkB = KBlock 2 (sampleBlock 1 [0] []) [2] [0] 1 (Some forkR)"
definition forkC :: KBlock where "forkC = KBlock 3 (sampleBlock 2 [2] [oddTx]) [3] [2] 2 (Some forkB)"

definition forkManager :: Manager where
  "forkManager = (NewManager (BuildSession (sampleDb [])) 0)\<lparr>mg_applied := [refOf forkOld], mg_khaos :=
     \<lparr>kh_blocks = fmap_of_list [([0], forkR), ([1], forkOld), ([2], forkB), ([3], forkC)], kh_head = Some forkC,
      kh_maxSize = 0, kh_next = 4\<rparr>\<rparr>"

theorem failed_switch_keeps_new_blocks_witness:
  "\<exists>e m'. switchFork sampleHost forkC forkOld forkManager = (Inl e, m') \<and> mg_applied m' = [refOf forkB, refOf forkOld]"
proof -
  have br: "GetBranch (mg_khaos forkManager) (kb_ID forkC) (kb_ID forkOld) = Inr ([forkC, forkB], [forkOld])"
    by (simp add: forkManager_def GetBranch_def Khaos_Get_def forkC_def forkB_def forkOld_def forkR_def scmp_defs)
  define m1 where "m1 = forkManager\<lparr>mg_db := sampleDb [], mg_applied := []\<rparr>"
  have rv: "revokeBranch [forkOld] forkManager = (Inr (), m1)"
    using rdb.revoke_under [OF rdb.under_build, of "sampleDb []"] by (simp add: m1_def forkManager_def NewManager_def revokeDb_def)
  have m1: "quietDb (mg_db m1)" "\<not> mg_lenient m1" "mg_applied m1 = []"
    by (simp_all add: m1_def forkManager_def NewManager_def quiet_sample)
  have blk: "kb_Block forkB = sampleBlock 1 [0] []" "kb_Block forkOld = sampleBlock 1 [0] []" "kb_Block forkC = sampleBlock 2 [2] [oddTx]"
    by (simp_all add: forkB_def forkOld_def forkC_def)
  obtain m2 where m2: "applyNode sampleHost forkB m1 = (Inr (), m2)" "quietDb (mg_db m2)" "\<not> mg_lenient m2"
    using empty_node [OF blk(1) m1(1), of sampleHost] m1(2) by auto
  obtain m3 where m3: "applyNode sampleHost forkC m2 = (Inl (Err ''manager: unsupported contract''), m3)"
    using odd_node [OF blk(3) m2(3)] by blast
  obtain m4 where m4: "applyNode sampleHost forkOld m2 = (Inr (), m4)"
    using empty_node [OF blk(2) m2(2), of sampleHost] by blast
  show ?thesis
    using failed_switch_keeps_new_blocks [OF br, of "[forkB]" forkC "[]" m1 sampleHost m2 _ m3 m4] rv m1(3) m2(1) m3 m4
    by (auto simp: bindM_def)
qed

theorem accounts_stay_keyed_witness:
  "reachable sampleHost (sampleDb [sampleAccount 1 5]) (snd (Manager_Start sampleHost blkR (NewManager (sampleDb [sampleAccount 1 5]) 0))) \<and>
   accounts_keyed ref_codec (mg_db (snd (Manager_Start sampleHost blkR (NewManager (sampleDb [sampleAccount 1 5]) 0))))"
proof -
  let ?d = "sampleDb [sampleAccount 1 5]"
  have "reachable sampleHost ?d (snd (Manager_Start sampleHost blkR (NewManager ?d 0)))"
    by (intro reachable.start reachable.new)
  moreover have "Depth ?d = 0" by (simp add: Depth_def sampleDb_def NewDatabase_def AccountStore_Put_def sampleAccount_def Database_Put_def saveMsg_def)
  ultimately show ?thesis
    using accounts_stay_keyed [of sampleHost ?d _ 0] sampleDb_keyed ref_codec_ok by (force simp: sampleHost_def)
qed

end
