(* ===== verification/Node.thy ===== *)
theory Node
  imports Manager_Props
begin

text \<open>
  Starting and stopping a node: \<open>internal/node/node.go\<close>, \<open>internal/node/bootstrap.go\<close> and the choice of the
  storage engine in \<open>internal/db/pebble.go\<close>. The committed store of a running node is the base of its
  manager's database, which is what bootstrapping reads and writes directly. The Pebble engine is
  third-party code: what a directory holds is \<open>nd_disk\<close>, and \<open>pebbleErr\<close> is its error for a
  directory, if any. The p2p and API services are stubs that start and stop without effect.
\<close>

section \<open>The persisted chain root\<close>

definition chainRootKey :: bytes where "chainRootKey = ascii ''meta/chain/root''"

definition persistChainRoot :: "codec \<Rightarrow> Block \<Rightarrow> (MemKV, unit) op" where
  "persistChainRoot cd rt =
     bindM (liftM (wrapE ''node: marshal chain root'' (marshalE (marshal_Block cd rt)))) (\<lambda>encoded store.
       (Inr (), MemKV_Put store chainRootKey encoded))"

definition loadChainRoot :: "codec \<Rightarrow> MemKV \<Rightarrow> Block option result" where
  "loadChainRoot cd store =
     (case MemKV_Get store chainRootKey of
        Inl e \<Rightarrow> if e = ErrNotFound then Inr None else Inl (Wrap ''node: read chain root'' e)
      | Inr encoded \<Rightarrow>
          bindE (wrapE ''node: decode chain root'' (unmarshalE (unmarshal_Block cd encoded))) (\<lambda>rt.
          bindE (check (case b_BlockHeader rt of None \<Rightarrow> True | Some x \<Rightarrow> hd_RawData x = None)
            (Err ''node: persisted chain root has no header'')) (\<lambda>_.
          bindE (wrapE ''node: persisted chain root'' (validateBlock cd rt)) (\<lambda>_.
          bindE (wrapE ''node: persisted chain root id'' (ID cd rt)) (\<lambda>_. Inr (Some rt))))))"

section \<open>Bootstrapping\<close>

definition onStore :: "(MemKV, 'a) op \<Rightarrow> (Manager, 'a) op" where
  "onStore f m = (case f (db_base (mg_db m)) of (r, kv) \<Rightarrow> (r, m\<lparr>mg_db := (mg_db m)\<lparr>db_base := kv\<rparr>\<rparr>))"

definition verifyRoot :: "codec \<Rightarrow> GenesisConfig \<Rightarrow> Block \<Rightarrow> unit result" where
  "verifyRoot cd cfg rt =
     bindE (wrapE ''node: build configured genesis for verification'' (Genesis_Block cd cfg)) (\<lambda>expected.
     bindE (ID cd rt) (\<lambda>gotID.
     bindE (ID cd expected) (\<lambda>wantID.
       check (gotID \<noteq> wantID) (Err ''node: configured genesis does not match persisted chain root''))))"

definition headBlock :: "Manager \<Rightarrow> Block result" where
  "headBlock m = (case Manager_Head m of None \<Rightarrow> Inl (Panic ''nil pointer dereference'') | Some n \<Rightarrow> Inr (kb_Block n))"

definition bootstrapChain :: "host \<Rightarrow> GenesisConfig option \<Rightarrow> (Manager, unit) op" where
  "bootstrapChain h gen =
     bindM (readM (\<lambda>m. loadChainRoot (h_codec h) (db_base (mg_db m)))) (\<lambda>r.
       case r of
         Some rt \<Rightarrow>
           bindM (liftM (case gen of None \<Rightarrow> Inr () | Some cfg \<Rightarrow> verifyRoot (h_codec h) cfg rt)) (\<lambda>_.
             wrapM ''node: restore chain root'' (Manager_Start h rt))
       | None \<Rightarrow>
           (case gen of
              None \<Rightarrow> returnM ()
            | Some cfg \<Rightarrow>
                bindM (wrapM ''node: initialize genesis'' (InitGenesis h cfg)) (\<lambda>_.
                bindM (readM headBlock) (\<lambda>rt.
                  wrapM ''node: persist chain root'' (onStore (persistChainRoot (h_codec h) rt))))))"

section \<open>Nodes\<close>

text \<open>The committed store, the database and the manager of a node are set and cleared together.\<close>

record Node =
  nd_Genesis :: "GenesisConfig option"
  nd_Dir :: string
  nd_Engine :: string
  nd_disk :: "string \<Rightarrow> MemKV"
  nd_manager :: "Manager option"

definition usesPebble :: "string \<Rightarrow> bool" where
  "usesPebble engine \<longleftrightarrow> engine = '''' \<or> engine = ''pebble''"

definition OpenPebble :: "(string \<Rightarrow> error option) \<Rightarrow> (string \<Rightarrow> MemKV) \<Rightarrow> string \<Rightarrow> MemKV result" where
  "OpenPebble pebbleErr disk dir =
     (if dir = '''' then Inl (Err ''db: pebble directory is empty'')
      else case pebbleErr dir of Some e \<Rightarrow> Inl (Wrap ''db: open pebble'' e) | None \<Rightarrow> Inr (disk dir))"

definition Db_Open :: "(string \<Rightarrow> error option) \<Rightarrow> (string \<Rightarrow> MemKV) \<Rightarrow> string \<Rightarrow> string \<Rightarrow> MemKV result" where
  "Db_Open pebbleErr disk dir engine =
     (if usesPebble engine then OpenPebble pebbleErr disk dir
      else if engine = ''memory'' \<or> engine = ''mem'' then Inr NewMemKV
      else Inl (Err ''db: unsupported storage engine''))"

text \<open>Closing the store leaves its contents in the directory, when the engine is a durable one.\<close>

definition closeStore :: "Manager \<Rightarrow> Node \<Rightarrow> Node" where
  "closeStore m n = n\<lparr>nd_manager := None,
     nd_disk := (if usesPebble (nd_Engine n) then (nd_disk n)(nd_Dir n := db_base (mg_db m)) else nd_disk n)\<rparr>"

definition Node_Start :: "host \<Rightarrow> (string \<Rightarrow> error option) \<Rightarrow> (Node, unit) op" where
  "Node_Start h pebbleErr n =
     (if nd_manager n \<noteq> None then (Inl (Err ''node: already started''), n)
      else case Db_Open pebbleErr (nd_disk n) (nd_Dir n) (nd_Engine n) of
        Inl e \<Rightarrow> (Inl (Wrap ''node: open storage'' e), n)
      | Inr committed \<Rightarrow>
          (case bootstrapChain h (nd_Genesis n) (NewManager (NewDatabase committed) 0) of
             (Inl e, m) \<Rightarrow> (Inl e, if aborts e then n\<lparr>nd_manager := Some m\<rparr> else closeStore m n)
           | (Inr _, m) \<Rightarrow> (Inr (), n\<lparr>nd_manager := Some m\<rparr>)))"

definition Node_Stop :: "Node \<Rightarrow> Node" where
  "Node_Stop n = (case nd_manager n of None \<Rightarrow> n | Some m \<Rightarrow> closeStore m n)"

section \<open>Pushing blocks to a running node\<close>

text \<open>A running node that is pushed blocks, whatever becomes of them.\<close>

fun Node_Push :: "host \<Rightarrow> Block list \<Rightarrow> Node \<Rightarrow> Node" where
  "Node_Push h [] n = n"
| "Node_Push h (b # bs) n =
     Node_Push h bs (case nd_manager n of None \<Rightarrow> n | Some m \<Rightarrow> n\<lparr>nd_manager := Some (snd (PushBlock h b m))\<rparr>)"

lemma Node_Push_base:
  assumes "nd_manager n = Some m"
  shows "\<exists>m'. Node_Push h bs n = n\<lparr>nd_manager := Some m'\<rparr> \<and> db_base (mg_db m') = db_base (mg_db m)"
  using assms
proof (induction bs arbitrary: n m)
  case (Cons b bs)
  then show ?case using Cons.IH [of "n\<lparr>nd_manager := Some (snd (PushBlock h b m))\<rparr>"] base.PushBlock_keeps [OF refl, of h b m] by auto
next
  case (Nil n m)
  then have "n = n\<lparr>nd_manager := Some m\<rparr>" by simp
  then show ?case by auto
qed

section \<open>Restarting\<close>

text \<open>What seeding a root writes: both clocks at the root's time.\<close>

definition stamped :: "int64 \<Rightarrow> Database \<Rightarrow> Database" where
  "stamped ts d = Database_Put (Database_Put d (nsKey propertyPrefix propLatestBlockHeaderTimestamp) (PutUint64 ts))
     (nsKey propertyPrefix propNextMaintenanceTime) (PutUint64 ts)"

lemma Manager_Start_eq:
  "Manager_Start h rt m =
     (case ID (h_codec h) rt of
        Inl e \<Rightarrow> (Inl (Wrap ''manager: seed khaos'' e), m)
      | Inr i \<Rightarrow> (Inr (), m\<lparr>mg_khaos := snd (Khaos_Start (h_codec h) rt (mg_khaos m)),
          mg_db := stamped (bh_Timestamp (GetBlockRawData rt)) (mg_db m)\<rparr>))"
  by (simp add: Manager_Start_def bindM_def wrapM_def onKhaos_def onDb_def Khaos_Start_def Let_def stamped_def
      SaveLatestBlockHeaderTimestamp_def SaveNextMaintenanceTime_def PutInt64_def split: sum.splits)

lemma NewDatabase_simps [simp]: "db_base (NewDatabase kv) = kv" "db_sessions (NewDatabase kv) = []"
  by (simp_all add: NewDatabase_def)

lemma stamped_base:
  assumes "db_sessions d = []"
  shows "stamped ts d = NewDatabase (fmupd (nsKey propertyPrefix propNextMaintenanceTime) (PutUint64 ts)
     (fmupd (nsKey propertyPrefix propLatestBlockHeaderTimestamp) (PutUint64 ts) (db_base d)))"
  using assms by (simp add: stamped_def Database_Put_def NewDatabase_def MemKV_Put_def)

text \<open>The root's key is none of the clocks', so a store that was seeded and marked is a fixed point of seeding.\<close>

lemma stamped_marked:
  assumes "db_sessions d = []"
  shows "stamped ts (NewDatabase (fmupd chainRootKey v (db_base (stamped ts d)))) = NewDatabase (fmupd chainRootKey v (db_base (stamped ts d)))"
proof -
  have "nsKey propertyPrefix k \<noteq> chainRootKey" for k by (simp add: key_simps chainRootKey_def ascii_simps)
  moreover have "propLatestBlockHeaderTimestamp \<noteq> propNextMaintenanceTime" by (simp add: prop_key_defs ascii_eq_iff)
  ultimately show ?thesis
    using assms by (auto simp: stamped_base nsKey_inject intro!: arg_cong [of _ _ NewDatabase] fmap_ext)
qed

lemma Genesis_Block_checks:
  assumes "Genesis_Block cd cfg = Inr gb"
  shows "validateBlock cd gb = Inr ()" "\<exists>x r. b_BlockHeader gb = Some x \<and> hd_RawData x = Some r"
  using assms
  by (auto simp: Genesis_Block_def Genesis_HeaderRaw_def Genesis_TxTrieRoot_def bindE_eq_Inr validateBlock_def GetBlockRawData_def)

lemma bootstrap_again:
  assumes "codec_ok (h_codec h)" "loadChainRoot (h_codec h) kv = Inr None"
    and "bootstrapChain h (Some cfg) (NewManager (NewDatabase kv) 0) = (Inr (), m)"
  shows "bootstrapChain h (Some cfg) (NewManager (NewDatabase (db_base (mg_db m))) 0) = (Inr (), m)"
proof -
  let ?cd = "h_codec h"
  let ?m0 = "NewManager (NewDatabase kv) 0"
  obtain m1 rt where m1: "InitGenesis h cfg ?m0 = (Inr (), m1)" "headBlock m1 = Inr rt"
      "onStore (persistChainRoot ?cd rt) m1 = (Inr (), m)"
    using assms(2,3) by (auto simp: bootstrapChain_def NewManager_def NewDatabase_def wrapM_def bindM_def split: prod.splits sum.splits)
  obtain d1 gb i where d1: "Genesis_Load ?cd cfg (NewDatabase kv) = (Inr (), d1)" "Genesis_Block ?cd cfg = Inr gb" "ID ?cd gb = Inr i"
      "m1 = ?m0\<lparr>mg_khaos := started ?cd 0 gb, mg_db := stamped (bh_Timestamp (GetBlockRawData gb)) d1\<rparr>"
    using m1(1) by (auto simp: InitGenesis_def NewManager_def bindM_def wrapM_def onDb_def Manager_Start_eq started_def split: prod.splits sum.splits if_splits)
  have "Depth d1 = 0" using keepsD [OF dep.keeps_Genesis_Load [of 0 ?cd cfg], of "NewDatabase kv"] d1(1) by (simp add: Depth_def NewDatabase_def)
  then have sess: "db_sessions d1 = []" by (simp add: Depth_def)
  have rt: "rt = gb" using m1(2) d1(3,4) by (simp add: headBlock_def Manager_Head_def started_def Khaos_Start_def Khaos_New_def Let_def)
  obtain enc where enc: "marshal_Block ?cd gb = Some enc" "unmarshal_Block ?cd enc = Some gb"
    using assms(1) by (metis codec_ok_def roundtrip_def)
  let ?kv = "fmupd chainRootKey enc (db_base (stamped (bh_Timestamp (GetBlockRawData gb)) d1))"
  have m: "m = ?m0\<lparr>mg_khaos := started ?cd 0 gb, mg_db := NewDatabase ?kv\<rparr>"
    using m1(3) rt d1(4) enc(1)
    by (auto simp: onStore_def persistChainRoot_def bindM_def MemKV_Put_def stamped_base [OF sess] NewDatabase_def)
  have load: "loadChainRoot ?cd ?kv = Inr (Some gb)"
    using Genesis_Block_checks [OF d1(2)] enc(2) d1(3) by (auto simp: loadChainRoot_def MemKV_Get_def)
  have "verifyRoot ?cd cfg gb = Inr ()" using d1(2,3) by (simp add: verifyRoot_def)
  with load d1(3) show ?thesis unfolding m
    by (simp add: bootstrapChain_def NewManager_def bindM_def wrapM_def Manager_Start_eq started_def stamped_marked [OF sess])
qed

lemma restart_restores:
  assumes "codec_ok (h_codec h)" "nd_Genesis n = Some cfg" "usesPebble (nd_Engine n)"
    and "loadChainRoot (h_codec h) (nd_disk n (nd_Dir n)) = Inr None" "Node_Start h pebbleErr n = (Inr (), n1)"
  shows "\<exists>n2. Node_Start h pebbleErr (Node_Stop (Node_Push h bs n1)) = (Inr (), n2) \<and> nd_manager n2 = nd_manager n1 \<and>
    Node_Stop n2 = Node_Stop n1"
proof -
  obtain m where open1: "nd_manager n = None" "pebbleErr (nd_Dir n) = None" "nd_Dir n \<noteq> ''''"
      and m: "bootstrapChain h (Some cfg) (NewManager (NewDatabase (nd_disk n (nd_Dir n))) 0) = (Inr (), m)"
      and n1: "n1 = n\<lparr>nd_manager := Some m\<rparr>"
    using assms(2,3,5) by (auto simp: Node_Start_def Db_Open_def OpenPebble_def split: if_splits option.splits sum.splits prod.splits)
  obtain m' where m': "Node_Push h bs n1 = n1\<lparr>nd_manager := Some m'\<rparr>" "db_base (mg_db m') = db_base (mg_db m)"
    using Node_Push_base [of n1 m h bs] n1 by auto
  show ?thesis
    using bootstrap_again [OF assms(1,4) m] open1 assms(2,3) m' n1
    by (simp add: Node_Stop_def closeStore_def Node_Start_def Db_Open_def OpenPebble_def)
qed

text \<open>
  C8: A node started on a fresh directory with a configured genesis, pushed any blocks with any
  outcome and stopped, comes back when started again: it restores the persisted root, and its manager
  (database, fork tree, applied blocks) is the one it had after the first start.
\<close>

theorem restart_restores_root:
  assumes "codec_ok (h_codec h)" "nd_Genesis n = Some cfg" "usesPebble (nd_Engine n)"
    and "loadChainRoot (h_codec h) (nd_disk n (nd_Dir n)) = Inr None" "Node_Start h pebbleErr n = (Inr (), n1)"
  shows "\<exists>n2. Node_Start h pebbleErr (Node_Stop (Node_Push h bs n1)) = (Inr (), n2) \<and> nd_manager n2 = nd_manager n1"
  using restart_restores [OF assms, of bs] by blast

definition sampleGenesis :: GenesisConfig where
  "sampleGenesis = \<lparr>gc_Timestamp = 0, gc_ParentHash = '''', gc_Number = 0, gc_Assets = [], gc_Witnesses = []\<rparr>"

definition sampleNode :: Node where
  "sampleNode = \<lparr>nd_Genesis = Some sampleGenesis, nd_Dir = ''data'', nd_Engine = ''pebble'', nd_disk = (\<lambda>_. fmempty), nd_manager = None\<rparr>"

lemma sample_starts: "\<exists>n1. Node_Start sampleHost (\<lambda>_. None) sampleNode = (Inr (), n1)"
proof -
  obtain gb where gb: "Genesis_Block ref_codec sampleGenesis = Inr gb"
    by (simp add: Genesis_Block_def Genesis_HeaderRaw_def Genesis_TxTrieRoot_def Genesis_Transactions_def CalcTxTrieRoot_def
        sampleGenesis_def hexE_def trimPrefix_def)
  obtain d where d: "Genesis_Load ref_codec sampleGenesis (NewDatabase fmempty) = (Inr (), d)"
    using SeedGenesisDefaults_reads(1) [of "NewDatabase fmempty"]
    by (cases "SeedGenesisDefaults (NewDatabase fmempty)")
      (auto simp: Genesis_Load_def sampleGenesis_def bindM_def wrapM_def SaveLatestBlockHeaderTimestamp_def)
  show ?thesis using gb d
    by (simp add: Node_Start_def sampleNode_def Db_Open_def OpenPebble_def usesPebble_def bootstrapChain_def loadChainRoot_def MemKV_Get_def
        NewManager_def InitGenesis_def sampleHost_def bindM_def wrapM_def Depth_def onDb_def Manager_Start_eq headBlock_def Manager_Head_def
        Khaos_Start_def Let_def onStore_def persistChainRoot_def ref_codec_stores)
qed

theorem restart_restores_root_witness:
  "\<exists>n1 n2. Node_Start sampleHost (\<lambda>_. None) sampleNode = (Inr (), n1) \<and>
     Node_Start sampleHost (\<lambda>_. None) (Node_Stop (Node_Push sampleHost [sampleBlock 1 [] []] n1)) = (Inr (), n2) \<and>
     nd_manager n2 = nd_manager n1"
proof -
  obtain n1 where n1: "Node_Start sampleHost (\<lambda>_. None) sampleNode = (Inr (), n1)" using sample_starts by blast
  have "loadChainRoot ref_codec fmempty = Inr None" by (simp add: loadChainRoot_def MemKV_Get_def)
  then show ?thesis
    using restart_restores_root [of sampleHost sampleNode sampleGenesis "\<lambda>_. None" n1 "[sampleBlock 1 [] []]"] n1 ref_codec_ok
    by (simp add: sampleHost_def sampleNode_def usesPebble_def)
qed

end
