(* ===== verification/Replay.thy ===== *)
theory Replay
  imports Node "HOL-Library.Char_ord"
begin

text \<open>
  Replaying captured blocks: \<open>internal/replay\<close> (fixtures, the historical-state provider, the resource
  snapshot) and \<open>internal/node/replay.go\<close>. Reading a file and parsing its JSON is outside the model: a
  fixture is a parameter that is the parsed value or an error. \<open>unraw\<close> is the protobuf decoder of a
  transaction's raw data, \<open>sord\<close> the iteration order of a Go map with string keys. Shown: a replay that
  completes has checked the id and the transaction root of every block of its file, and the provider
  serves what its fixture says.
\<close>

definition entriesOf :: "(string fset \<Rightarrow> string list) \<Rightarrow> (string, 'v) fmap \<Rightarrow> (string \<times> 'v) list" where
  "entriesOf sord m = List.map_filter (\<lambda>k. map_option (Pair k) (fmlookup m k)) (sord (fmdom m))"

section \<open>Historical state (prestate.go)\<close>

record PreAccount =
  pa_Balance :: int64
  pa_Code :: string
  pa_Storage :: "(string, string) fmap"

record PreState =
  ps_Accounts :: "(string, PreAccount) fmap"

record MapProvider =
  mp_balance :: "(bytes, int64) fmap"
  mp_code :: "(bytes, bytes) fmap"
  mp_storage :: "(bytes, (bytes, bytes) fmap) fmap"

definition word32 :: "string \<Rightarrow> bytes result" where
  "word32 s = bindE (hexE s) (\<lambda>b.
     let b' = (if length b > 32 then drop (length b - 32) b else b) in Inr (replicate (32 - length b') 0 @ b'))"

fun loadSlots :: "(string \<times> string) list \<Rightarrow> (bytes, bytes) fmap \<Rightarrow> (bytes, bytes) fmap result" where
  "loadSlots [] slots = Inr slots"
| "loadSlots ((slotHex, valHex) # ps) slots =
     bindE (wrapE ''replay: prestate slot'' (word32 slotHex)) (\<lambda>slot.
     bindE (wrapE ''replay: prestate value'' (word32 valHex)) (\<lambda>val.
       loadSlots ps (fmupd slot val slots)))"

definition loadCode :: "bytes \<Rightarrow> PreAccount \<Rightarrow> MapProvider \<Rightarrow> MapProvider result" where
  "loadCode k acc p =
     (if pa_Code acc \<noteq> '''' then
        bindE (wrapE ''replay: prestate code'' (hexE (pa_Code acc))) (\<lambda>c. Inr (p\<lparr>mp_code := fmupd k c (mp_code p)\<rparr>))
      else Inr p)"

definition loadStorage :: "(string fset \<Rightarrow> string list) \<Rightarrow> bytes \<Rightarrow> PreAccount \<Rightarrow> MapProvider \<Rightarrow> MapProvider result" where
  "loadStorage sord k acc p =
     (if pa_Storage acc \<noteq> fmempty then
        bindE (loadSlots (entriesOf sord (pa_Storage acc)) fmempty) (\<lambda>slots. Inr (p\<lparr>mp_storage := fmupd k slots (mp_storage p)\<rparr>))
      else Inr p)"

definition loadAccount :: "(string fset \<Rightarrow> string list) \<Rightarrow> string \<Rightarrow> PreAccount \<Rightarrow> MapProvider \<Rightarrow> MapProvider result" where
  "loadAccount sord addrHex acc p =
     bindE (wrapE ''replay: prestate addr'' (hexE addrHex)) (\<lambda>k.
     bindE (loadCode k acc (p\<lparr>mp_balance := fmupd k (pa_Balance acc) (mp_balance p)\<rparr>)) (loadStorage sord k acc))"

fun loadAccounts :: "(string fset \<Rightarrow> string list) \<Rightarrow> (string \<times> PreAccount) list \<Rightarrow> MapProvider \<Rightarrow> MapProvider result" where
  "loadAccounts sord [] p = Inr p"
| "loadAccounts sord ((addrHex, acc) # as) p = bindE (loadAccount sord addrHex acc p) (\<lambda>p'. loadAccounts sord as p')"

definition NewMapProvider :: "(string fset \<Rightarrow> string list) \<Rightarrow> PreState \<Rightarrow> MapProvider result" where
  "NewMapProvider sord ps =
     loadAccounts sord (entriesOf sord (ps_Accounts ps)) \<lparr>mp_balance = fmempty, mp_code = fmempty, mp_storage = fmempty\<rparr>"

definition MapProvider_Balance :: "MapProvider \<Rightarrow> bytes \<Rightarrow> int64 option" where
  "MapProvider_Balance p addr = fmlookup (mp_balance p) addr"

definition MapProvider_Code :: "MapProvider \<Rightarrow> bytes \<Rightarrow> bytes option" where
  "MapProvider_Code p addr = fmlookup (mp_code p) addr"

definition MapProvider_Storage :: "MapProvider \<Rightarrow> bytes \<Rightarrow> bytes \<Rightarrow> bytes option" where
  "MapProvider_Storage p addr slot =
     (case fmlookup (mp_storage p) addr of None \<Rightarrow> None | Some slots \<Rightarrow> fmlookup slots slot)"

definition asProvider :: "MapProvider \<Rightarrow> StateProvider" where
  "asProvider p = \<lparr>sp_Balance = MapProvider_Balance p, sp_Code = MapProvider_Code p, sp_Storage = MapProvider_Storage p\<rparr>"

section \<open>Resource snapshot (chainstate.go, SeedChainState)\<close>

record SeedProps =
  sq_TotalEnergyWeight :: int64
  sq_TotalEnergyCurrentLimit :: int64
  sq_TotalNetWeight :: int64
  sq_EnergyFee :: int64
  sq_UnfreezeDelayDays :: int64
  sq_AllowNewReward :: int64

record SeedAccount =
  sa_Balance :: int64
  sa_FrozenBalanceForEnergy :: int64
  sa_FrozenV2Energy :: int64
  sa_AcquiredDelegatedEnergy :: int64
  sa_AcquiredDelegatedV2Energy :: int64
  sa_EnergyUsage :: int64
  sa_LatestConsumeTimeForEnergy :: int64
  sa_EnergyWindowSize :: int64
  sa_EnergyWindowOptimized :: bool

record ChainState =
  cq_Number :: int64
  cq_DynamicProps :: SeedProps
  cq_Accounts :: "(string, SeedAccount) fmap"

fun setEnergyEntry :: "int64 \<Rightarrow> FreezeV2 list \<Rightarrow> FreezeV2 list" where
  "setEnergyEntry amount [] = [\<lparr>f2_Type = ENERGY, f2_Amount = amount\<rparr>]"
| "setEnergyEntry amount (f # fs) = (if f2_Type f = ENERGY then f\<lparr>f2_Amount := amount\<rparr> # fs else f # setEnergyEntry amount fs)"

definition setFrozenV2Energy :: "int64 \<Rightarrow> Account \<Rightarrow> Account" where
  "setFrozenV2Energy amount a = a\<lparr>ac_FrozenV2 := setEnergyEntry amount (ac_FrozenV2 a)\<rparr>"

definition seedResource :: "SeedAccount \<Rightarrow> AccountResource \<Rightarrow> AccountResource" where
  "seedResource s res =
     (let r1 = (if sa_FrozenBalanceForEnergy s \<noteq> 0
                then res\<lparr>ar_FrozenBalanceForEnergy := Some \<lparr>fz_FrozenBalance = sa_FrozenBalanceForEnergy s, fz_ExpireTime = 0\<rparr>\<rparr> else res);
          r2 = (if sa_AcquiredDelegatedEnergy s \<noteq> 0
                then r1\<lparr>ar_AcquiredDelegatedFrozenBalanceForEnergy := sa_AcquiredDelegatedEnergy s\<rparr> else r1);
          r3 = (if sa_AcquiredDelegatedV2Energy s \<noteq> 0
                then r2\<lparr>ar_AcquiredDelegatedFrozenV2BalanceForEnergy := sa_AcquiredDelegatedV2Energy s\<rparr> else r2);
          r4 = r3\<lparr>ar_EnergyUsage := sa_EnergyUsage s, ar_LatestConsumeTimeForEnergy := sa_LatestConsumeTimeForEnergy s\<rparr>;
          r5 = (if sa_EnergyWindowSize s \<noteq> 0 then r4\<lparr>ar_EnergyWindowSize := sa_EnergyWindowSize s\<rparr> else r4)
      in r5\<lparr>ar_EnergyWindowOptimized := sa_EnergyWindowOptimized s\<rparr>)"

definition seedAccount :: "SeedAccount \<Rightarrow> Account \<Rightarrow> Account" where
  "seedAccount s acct =
     (let a1 = (if sa_Balance s \<noteq> 0 then acct\<lparr>ac_Balance := sa_Balance s\<rparr> else acct);
          a2 = (if sa_FrozenV2Energy s \<noteq> 0 then setFrozenV2Energy (sa_FrozenV2Energy s) a1 else a1)
      in a2\<lparr>ac_AccountResource := Some (seedResource s (GetAccountResource acct))\<rparr>)"

definition seedProps :: "SeedProps \<Rightarrow> (bytes \<times> int64) list" where
  "seedProps p = [(propTotalEnergyWeight, sq_TotalEnergyWeight p), (propTotalEnergyCurrentLimit, sq_TotalEnergyCurrentLimit p),
     (propTotalNetWeight, sq_TotalNetWeight p), (propEnergyFee, sq_EnergyFee p), (propUnfreezeDelayDays, sq_UnfreezeDelayDays p),
     (propAllowNewReward, sq_AllowNewReward p)]"

definition SeedChainState :: "codec \<Rightarrow> (string fset \<Rightarrow> string list) \<Rightarrow> ChainState \<Rightarrow> (Manager, unit) op" where
  "SeedChainState cd sord cs = onDb (
     bindM (forM (seedProps (cq_DynamicProps cs)) (\<lambda>(key, v). if v = 0 then returnM () else PutInt64 key v)) (\<lambda>_.
       forM (entriesOf sord (cq_Accounts cs)) (\<lambda>(addrHex, s).
         bindM (liftM (wrapE ''replay: chainstate addr'' (hexE addrHex))) (\<lambda>addr.
         bindM (tryR (\<lambda>d. AccountStore_Get cd d addr)) (\<lambda>r.
           AccountStore_Put cd (seedAccount s
             (case r of Inl _ \<Rightarrow> zero_Account\<lparr>ac_Address := addr, ac_Type := Normal\<rparr> | Inr a \<Rightarrow> a)))))))"

section \<open>Block fixtures (replay.go)\<close>

record TxFixture =
  xf_TxID :: string
  xf_RawDataHex :: string
  xf_Signatures :: "string list"

record BlockFixture =
  bf_Number :: int64
  bf_BlockID :: string
  bf_Timestamp :: int64
  bf_ParentHash :: string
  bf_TxTrieRoot :: string
  bf_WitnessAddress :: string
  bf_WitnessID :: int64
  bf_Version :: int32
  bf_AccountStateRoot :: string
  bf_Transactions :: "TxFixture list"

record ReplayFixture =
  rf_Blocks :: "BlockFixture list"

definition replay_Load :: "(string \<Rightarrow> ReplayFixture result) \<Rightarrow> string \<Rightarrow> ReplayFixture result" where
  "replay_Load parse path =
     bindE (parse path) (\<lambda>f. bindE (check (length (rf_Blocks f) = 0) (Err ''replay: file has no blocks'')) (\<lambda>_. Inr f))"

definition decodeHex :: "string \<Rightarrow> bytes result" where
  "decodeHex s = (if s = '''' then Inr [] else hexE s)"

definition BuildTx :: "(bytes \<Rightarrow> TransactionRaw option) \<Rightarrow> TxFixture \<Rightarrow> Transaction result" where
  "BuildTx unraw f =
     bindE (wrapE ''replay: tx rawDataHex'' (decodeHex (xf_RawDataHex f))) (\<lambda>rawBytes.
     bindE (wrapE ''replay: tx unmarshal raw'' (unmarshalE (unraw rawBytes))) (\<lambda>tr.
     bindE (mapE (\<lambda>s. wrapE ''replay: tx signature'' (decodeHex s)) (xf_Signatures f)) (\<lambda>sigs.
       Inr \<lparr>tx_RawData = Some tr, tx_Signature = sigs, tx_rest = []\<rparr>)))"

definition Replay_Build :: "codec \<Rightarrow> (bytes \<Rightarrow> TransactionRaw option) \<Rightarrow> BlockFixture \<Rightarrow> Block result" where
  "Replay_Build cd unraw bf =
     bindE (mapE (BuildTx unraw) (bf_Transactions bf)) (\<lambda>txs.
     bindE (CalcTxTrieRoot cd txs) (\<lambda>rt.
     bindE (wrapE ''replay: block parentHash'' (decodeHex (bf_ParentHash bf))) (\<lambda>parent.
     bindE (wrapE ''replay: block witnessAddress'' (decodeHex (bf_WitnessAddress bf))) (\<lambda>witness.
     bindE (wrapE ''replay: block accountStateRoot'' (decodeHex (bf_AccountStateRoot bf))) (\<lambda>asr.
       Inr \<lparr>b_Transactions = txs, b_BlockHeader = Some \<lparr>hd_RawData = Some (zero_BlockHeaderRaw\<lparr>bh_Timestamp := bf_Timestamp bf,
         bh_Number := bf_Number bf, bh_ParentHash := parent, bh_TxTrieRoot := rt, bh_WitnessAddress := witness,
         bh_WitnessId := bf_WitnessID bf, bh_Version := bf_Version bf, bh_AccountStateRoot := asr\<rparr>), hd_WitnessSignature = []\<rparr>\<rparr>)))))"

definition Replay_Check :: "codec \<Rightarrow> BlockFixture \<Rightarrow> Block \<Rightarrow> unit result" where
  "Replay_Check cd bf b =
     bindE (check (hexEncode (bh_TxTrieRoot (GetBlockRawData b)) \<noteq> bf_TxTrieRoot bf) (Err ''replay: block txTrieRoot mismatch'')) (\<lambda>_.
     bindE (ID cd b) (\<lambda>i.
       check (hexEncode i \<noteq> bf_BlockID bf) (Err ''replay: block id mismatch'')))"

section \<open>Replaying a file (node/replay.go)\<close>

definition checkedBlock :: "host \<Rightarrow> (bytes \<Rightarrow> TransactionRaw option) \<Rightarrow> BlockFixture \<Rightarrow> Block result" where
  "checkedBlock h unraw bf =
     bindE (Replay_Build (h_codec h) unraw bf) (\<lambda>b. bindE (Replay_Check (h_codec h) bf b) (\<lambda>_. Inr b))"

fun replayBlocks :: "host \<Rightarrow> (bytes \<Rightarrow> TransactionRaw option) \<Rightarrow> BlockFixture list \<Rightarrow> (Manager, unit) op" where
  "replayBlocks h unraw [] = returnM ()"
| "replayBlocks h unraw (bf # bfs) =
     bindM (liftM (checkedBlock h unraw bf)) (\<lambda>b.
     bindM (wrapM ''replay: push block'' (PushBlock h b)) (\<lambda>_. replayBlocks h unraw bfs))"

definition replayRun :: "host \<Rightarrow> (bytes \<Rightarrow> TransactionRaw option) \<Rightarrow> ReplayFixture \<Rightarrow> (Manager, nat) op" where
  "replayRun h unraw f =
     (case rf_Blocks f of
        [] \<Rightarrow> throwM (Panic ''index out of range'')
      | rt # rest \<Rightarrow>
          bindM (liftM (checkedBlock h unraw rt)) (\<lambda>b.
          bindM (Manager_Start h b) (\<lambda>_.
          bindM (liftM (ID (h_codec h) b)) (\<lambda>_.
          bindM (replayBlocks h unraw rest) (\<lambda>_. returnM (length (rf_Blocks f)))))))"

definition ReplayFile :: "host \<Rightarrow> (bytes \<Rightarrow> TransactionRaw option) \<Rightarrow> (string \<Rightarrow> ReplayFixture result) \<Rightarrow> string \<Rightarrow> nat result" where
  "ReplayFile h unraw parse path =
     bindE (replay_Load parse path) (\<lambda>f.
       fst (replayRun h unraw f (EnableReplayProvisioning (NewManager (NewDatabase NewMemKV) 0))))"

section \<open>A completed replay\<close>

text \<open>What a passed check says of a block.\<close>

lemma checkedBlock_ok:
  assumes "checkedBlock h unraw bf = Inr b"
  shows "Replay_Build (h_codec h) unraw bf = Inr b \<and> validateBlock (h_codec h) b = Inr () \<and> Number b = bf_Number bf \<and>
    hexDecode (bf_TxTrieRoot bf) = Some (bh_TxTrieRoot (GetBlockRawData b)) \<and>
    (\<exists>i. ID (h_codec h) b = Inr i \<and> hexDecode (bf_BlockID bf) = Some i)"
proof -
  have b: "Replay_Build (h_codec h) unraw bf = Inr b" and c: "Replay_Check (h_codec h) bf b = Inr ()"
    using assms by (auto simp: checkedBlock_def bindE_eq_Inr)
  have "validateBlock (h_codec h) b = Inr () \<and> Number b = bf_Number bf"
    using b by (auto simp: Replay_Build_def bindE_eq_Inr validateBlock_def GetBlockRawData_def Number_def)
  moreover obtain i where "ID (h_codec h) b = Inr i" "hexEncode i = bf_BlockID bf"
      "hexEncode (bh_TxTrieRoot (GetBlockRawData b)) = bf_TxTrieRoot bf"
    using c by (auto simp: Replay_Check_def bindE_eq_Inr split: if_splits)
  then have "ID (h_codec h) b = Inr i \<and> hexDecode (bf_BlockID bf) = Some i"
      "hexDecode (bf_TxTrieRoot bf) = Some (bh_TxTrieRoot (GetBlockRawData b))"
    using hexDecode_hexEncode by metis+
  ultimately show ?thesis using b by blast
qed

lemma replayBlocks_checked:
  assumes "replayBlocks h unraw bfs m = (Inr (), m')" "bf \<in> set bfs"
  shows "\<exists>b. checkedBlock h unraw bf = Inr b"
  using assms by (induction bfs arbitrary: m) (auto elim!: bindM_success simp: liftM_def)

text \<open>
  C29: A replay that returns has verified its whole file: it reports the number of blocks of the
  fixture, and every one of them rebuilds to a block that passes validation, has the number the
  fixture gives, and whose recomputed transaction root and id are the recorded ones.
\<close>

theorem ReplayFile_verifies:
  assumes "ReplayFile h unraw parse path = Inr n"
  shows "\<exists>f. parse path = Inr f \<and> n = length (rf_Blocks f) \<and> (\<forall>bf \<in> set (rf_Blocks f). \<exists>b i.
    Replay_Build (h_codec h) unraw bf = Inr b \<and> validateBlock (h_codec h) b = Inr () \<and> Number b = bf_Number bf \<and>
    hexDecode (bf_TxTrieRoot bf) = Some (bh_TxTrieRoot (GetBlockRawData b)) \<and>
    ID (h_codec h) b = Inr i \<and> hexDecode (bf_BlockID bf) = Some i)"
proof -
  obtain f where f1: "replay_Load parse path = Inr f" "fst (replayRun h unraw f (EnableReplayProvisioning (NewManager (NewDatabase NewMemKV) 0))) = Inr n"
    using assms by (auto simp: ReplayFile_def bindE_eq_Inr)
  have "parse path = Inr f" "rf_Blocks f \<noteq> []" using f1(1) by (auto simp: replay_Load_def bindE_eq_Inr split: if_splits)
  moreover obtain m0 m where "replayRun h unraw f m0 = (Inr n, m)" using f1(2) by (metis prod.collapse)
  ultimately obtain rt rest where f: "parse path = Inr f" "rf_Blocks f = rt # rest" "replayRun h unraw f m0 = (Inr n, m)"
    by (cases "rf_Blocks f") auto
  obtain b m1 m2 where "checkedBlock h unraw rt = Inr b" "replayBlocks h unraw rest m1 = (Inr (), m2)" "n = length (rf_Blocks f)"
    using f(2,3) by (auto simp: replayRun_def liftM_def elim!: bindM_success)
  then have "\<exists>b. checkedBlock h unraw bf = Inr b" if "bf \<in> set (rf_Blocks f)" for bf
    using that f(2) replayBlocks_checked by auto
  with f(1) \<open>n = _\<close> show ?thesis using checkedBlock_ok by blast
qed

section \<open>The provider serves its fixture\<close>

lemma entriesOf_set:
  assumes "range_order sord"
  shows "set (entriesOf sord (m :: (string, 'a) fmap)) = {(k, v). fmlookup m k = Some v}" "distinct (map fst (entriesOf sord m))"
proof -
  have ord: "set (sord (fmdom m)) = fset (fmdom m)" "distinct (sord (fmdom m))" using assms by (auto simp: range_order_def)
  have "set (List.map_filter g ks) = {y. \<exists>k \<in> set ks. g k = Some y}" for g :: "string \<Rightarrow> (string \<times> 'a) option" and ks
    by (induction ks) (auto simp: List.map_filter_simps split: option.splits)
  then show "set (entriesOf sord m) = {(k, v). fmlookup m k = Some v}"
    using ord(1) by (auto simp: entriesOf_def fmlookup_dom_iff)
  have "map fst (List.map_filter (\<lambda>k. map_option (Pair k) (fmlookup m k)) ks) = filter (\<lambda>k. k |\<in>| fmdom m) ks" for ks
    by (induction ks) (auto simp: List.map_filter_simps fmlookup_dom_iff split: option.splits)
  then show "distinct (map fst (entriesOf sord m))" using ord(2) by (simp add: entriesOf_def)
qed

lemma loadSlots_ok:
  assumes "loadSlots ps slots = Inr slots'" "distinct (map fst ps)" "inj_on word32 (fst ` set ps)"
  shows "(\<forall>s v. (s, v) \<in> set ps \<longrightarrow> (\<exists>k w. word32 s = Inr k \<and> word32 v = Inr w \<and> fmlookup slots' k = Some w)) \<and>
    (\<forall>k. Inr k \<notin> word32 ` fst ` set ps \<longrightarrow> fmlookup slots' k = fmlookup slots k)"
  using assms
proof (induction ps arbitrary: slots)
  case (Cons x ps)
  obtain s v where x: "x = (s, v)" by (cases x)
  obtain k w where k: "word32 s = Inr k" "word32 v = Inr w" "loadSlots ps (fmupd k w slots) = Inr slots'"
    using Cons.prems(1) by (auto simp: x bindE_eq_Inr)
  have fresh: "Inr k \<notin> word32 ` fst ` set ps"
    using Cons.prems(2,3) k(1) by (auto simp: x inj_on_def image_iff)
  have IH: "(\<forall>s v. (s, v) \<in> set ps \<longrightarrow> (\<exists>k w. word32 s = Inr k \<and> word32 v = Inr w \<and> fmlookup slots' k = Some w)) \<and>
      (\<forall>k'. Inr k' \<notin> word32 ` fst ` set ps \<longrightarrow> fmlookup slots' k' = fmlookup (fmupd k w slots) k')"
    using Cons.IH [OF k(3)] Cons.prems(2,3) by (auto simp: x)
  then show ?case using k(1,2) fresh by (auto simp: x)
qed simp

text \<open>What a provider says of one address.\<close>

definition served :: "MapProvider \<Rightarrow> bytes \<Rightarrow> PreAccount \<Rightarrow> bool" where
  "served p addr acc \<longleftrightarrow> MapProvider_Balance p addr = Some (pa_Balance acc) \<and>
     MapProvider_Code p addr = (if pa_Code acc = '''' then None else hexDecode (pa_Code acc)) \<and>
     (inj_on word32 (fset (fmdom (pa_Storage acc))) \<longrightarrow> (\<forall>s v. fmlookup (pa_Storage acc) s = Some v \<longrightarrow>
        (\<exists>slot w. word32 s = Inr slot \<and> word32 v = Inr w \<and> MapProvider_Storage p addr slot = Some w)))"

definition agree_at :: "bytes \<Rightarrow> MapProvider \<Rightarrow> MapProvider \<Rightarrow> bool" where
  "agree_at a p q \<longleftrightarrow> fmlookup (mp_balance p) a = fmlookup (mp_balance q) a \<and> fmlookup (mp_code p) a = fmlookup (mp_code q) a \<and>
     fmlookup (mp_storage p) a = fmlookup (mp_storage q) a"

lemma served_cong: "agree_at a p q \<Longrightarrow> served p a acc = served q a acc"
  by (simp add: agree_at_def served_def MapProvider_Balance_def MapProvider_Code_def MapProvider_Storage_def)

lemma loadAccount_ok:
  assumes "range_order sord" "loadAccount sord name acc p = Inr p'"
  shows "\<exists>k. hexDecode name = Some k \<and> (\<forall>a. a \<noteq> k \<longrightarrow> agree_at a p' p) \<and>
    (fmlookup (mp_code p) k = None \<longrightarrow> served p' k acc)"
proof -
  obtain k p2 where k: "hexDecode name = Some k"
      and code: "loadCode k acc (p\<lparr>mp_balance := fmupd k (pa_Balance acc) (mp_balance p)\<rparr>) = Inr p2" and p': "loadStorage sord k acc p2 = Inr p'"
    using assms(2) by (auto simp: loadAccount_def hexE_def bindE_eq_Inr split: option.splits)
  have p2: "fmlookup (mp_balance p2) k = Some (pa_Balance acc)" "\<And>a. a \<noteq> k \<Longrightarrow> agree_at a p2 p"
      "fmlookup (mp_code p) k = None \<Longrightarrow> fmlookup (mp_code p2) k = (if pa_Code acc = '''' then None else hexDecode (pa_Code acc))"
    using code by (auto simp: loadCode_def agree_at_def bindE_eq_Inr hexE_def split: if_splits option.splits)
  show ?thesis
  proof (cases "pa_Storage acc = fmempty")
    case True
    then show ?thesis using k p2 p' by (auto simp: loadStorage_def served_def MapProvider_Balance_def MapProvider_Code_def)
  next
    case False
    obtain slots where sl: "loadSlots (entriesOf sord (pa_Storage acc)) fmempty = Inr slots" "p' = p2\<lparr>mp_storage := fmupd k slots (mp_storage p2)\<rparr>"
      using p' False by (auto simp: loadStorage_def bindE_eq_Inr)
    have "fst ` set (entriesOf sord (pa_Storage acc)) = fset (fmdom (pa_Storage acc))"
      by (force simp: entriesOf_set [OF assms(1)] fmlookup_dom_iff)
    then have "inj_on word32 (fset (fmdom (pa_Storage acc))) \<Longrightarrow> \<forall>s v. fmlookup (pa_Storage acc) s = Some v \<longrightarrow>
        (\<exists>slot w. word32 s = Inr slot \<and> word32 v = Inr w \<and> fmlookup slots slot = Some w)"
      using loadSlots_ok [OF sl(1)] by (simp add: entriesOf_set [OF assms(1)])
    then show ?thesis using k p2 sl(2)
      by (auto simp: served_def agree_at_def MapProvider_Balance_def MapProvider_Code_def MapProvider_Storage_def)
  qed
qed

lemma loadAccounts_ok:
  assumes ord: "range_order sord" and "loadAccounts sord as p = Inr p'" "distinct (map fst as)" "inj_on hexDecode (fst ` set as)"
    and "\<And>name a. name \<in> fst ` set as \<Longrightarrow> hexDecode name = Some a \<Longrightarrow> fmlookup (mp_code p) a = None"
  shows "(\<forall>name acc. (name, acc) \<in> set as \<longrightarrow> (\<exists>k. hexDecode name = Some k \<and> served p' k acc)) \<and>
    (\<forall>a. Some a \<notin> hexDecode ` fst ` set as \<longrightarrow> agree_at a p' p)"
  using assms(2-5)
proof (induction as arbitrary: p)
  case (Cons x as)
  obtain name acc where x: "x = (name, acc)" by (cases x)
  obtain q where q: "loadAccount sord name acc p = Inr q" "loadAccounts sord as q = Inr p'"
    using Cons.prems(1) by (auto simp: x bindE_eq_Inr)
  obtain k where k: "hexDecode name = Some k" "\<And>a. a \<noteq> k \<Longrightarrow> agree_at a q p" "served q k acc"
    using loadAccount_ok [OF ord q(1)] Cons.prems(4) [of name] by (auto simp: x)
  have fresh: "Some k \<notin> hexDecode ` fst ` set as"
    using Cons.prems(2,3) k(1) by (auto simp: x inj_on_def image_iff)
  have "fmlookup (mp_code q) a = None" if "nm \<in> fst ` set as" "hexDecode nm = Some a" for nm a
    using k(2) [of a] Cons.prems(4) [of nm a] that fresh by (auto simp: x agree_at_def image_iff)
  then have IH: "(\<forall>name acc. (name, acc) \<in> set as \<longrightarrow> (\<exists>k. hexDecode name = Some k \<and> served p' k acc)) \<and>
      (\<forall>a. Some a \<notin> hexDecode ` fst ` set as \<longrightarrow> agree_at a p' q)"
    using Cons.IH [OF q(2)] Cons.prems(2,3) by (auto simp: x)
  then have "served p' k acc" using served_cong [of k p' q] fresh k(3) by blast
  then show ?case using IH k(1,2) by (auto simp: x agree_at_def)
qed (simp add: agree_at_def)

text \<open>
  The provider built from a fixture with unambiguous names serves it, whichever order the Go
  maps are visited in: the balance, the code when there is any, and every storage slot of every
  account.
\<close>

theorem provider_serves_fixture:
  assumes "range_order sord" "NewMapProvider sord ps = Inr p" "inj_on hexDecode (fset (fmdom (ps_Accounts ps)))"
    and "fmlookup (ps_Accounts ps) name = Some acc"
  shows "\<exists>addr. hexDecode name = Some addr \<and> sp_Balance (asProvider p) addr = Some (pa_Balance acc) \<and>
    sp_Code (asProvider p) addr = (if pa_Code acc = '''' then None else hexDecode (pa_Code acc)) \<and>
    (inj_on word32 (fset (fmdom (pa_Storage acc))) \<longrightarrow> (\<forall>s v. fmlookup (pa_Storage acc) s = Some v \<longrightarrow>
       (\<exists>slot w. word32 s = Inr slot \<and> word32 v = Inr w \<and> sp_Storage (asProvider p) addr slot = Some w)))"
proof -
  have "fst ` set (entriesOf sord (ps_Accounts ps)) = fset (fmdom (ps_Accounts ps))"
    by (force simp: entriesOf_set [OF assms(1)] fmlookup_dom_iff)
  then have "\<exists>k. hexDecode name = Some k \<and> served p k acc"
    using loadAccounts_ok [OF assms(1) assms(2) [unfolded NewMapProvider_def]] assms(3,4) by (simp add: entriesOf_set [OF assms(1)])
  then show ?thesis by (simp add: served_def asProvider_def)
qed

section \<open>Witnesses\<close>

text \<open>A file with one empty block.\<close>

definition capturedBlock :: Block where
  "capturedBlock = \<lparr>b_Transactions = [], b_BlockHeader = Some \<lparr>hd_RawData = Some (zero_BlockHeaderRaw\<lparr>bh_Number := 3, bh_TxTrieRoot := ZeroHash\<rparr>),
     hd_WitnessSignature = []\<rparr>\<rparr>"

definition sampleFixture :: BlockFixture where
  "sampleFixture = \<lparr>bf_Number = 3, bf_BlockID = hexEncode (refID capturedBlock), bf_Timestamp = 0, bf_ParentHash = '''',
     bf_TxTrieRoot = hexEncode ZeroHash, bf_WitnessAddress = '''', bf_WitnessID = 0, bf_Version = 0, bf_AccountStateRoot = '''', bf_Transactions = []\<rparr>"

theorem ReplayFile_verifies_witness:
  "ReplayFile sampleHost (decode fmt_TransactionRaw) (\<lambda>_. Inr \<lparr>rf_Blocks = [sampleFixture]\<rparr>) ''f'' = Inr 1 \<and>
   (\<exists>b i. Replay_Build ref_codec (decode fmt_TransactionRaw) sampleFixture = Inr b \<and> ID ref_codec b = Inr i \<and>
      hexDecode (bf_BlockID sampleFixture) = Some i)"
proof -
  have "ReplayFile sampleHost (decode fmt_TransactionRaw) (\<lambda>_. Inr \<lparr>rf_Blocks = [sampleFixture]\<rparr>) ''f'' = Inr 1"
    by (simp add: ReplayFile_def replay_Load_def replayRun_def checkedBlock_def Replay_Build_def Replay_Check_def sampleFixture_def capturedBlock_def
        decodeHex_def CalcTxTrieRoot_def sampleHost_def Manager_Start_eq GetBlockRawData_def zero_BlockHeaderRaw_def bindM_def)
  from ReplayFile_verifies [OF this] this show ?thesis by (auto simp: sampleHost_def)
qed

definition samplePreState :: PreState where
  "samplePreState = \<lparr>ps_Accounts = fmap_of_list [(''41aa'', \<lparr>pa_Balance = 7, pa_Code = ''60'', pa_Storage = fmap_of_list [(''01'', ''ff'')]\<rparr>)]\<rparr>"

theorem provider_serves_fixture_witness:
  "\<exists>p. NewMapProvider sorted_list_of_fset samplePreState = Inr p \<and> sp_Balance (asProvider p) [65, 170] = Some 7 \<and>
     sp_Code (asProvider p) [65, 170] = Some [96]"
proof -
  have single: "entriesOf sorted_list_of_fset (fmupd k v fmempty) = [(k, v)]" for k and v :: 'v
    by (simp add: entriesOf_def sorted_list_of_fset.rep_eq List.map_filter_simps)
  have dec: "hexDecode ''41aa'' = Some [65, 170]" "hexDecode ''60'' = Some [96]" "hexDecode ''01'' = Some [1]" "hexDecode ''ff'' = Some [255]"
    by (simp_all add: hexDigit_def)
  obtain p where p: "NewMapProvider sorted_list_of_fset samplePreState = Inr p"
    by (simp add: NewMapProvider_def samplePreState_def single loadAccount_def loadCode_def loadStorage_def word32_def hexE_def hexDigit_def)
  show ?thesis
    using provider_serves_fixture [OF range_order_sorted p, of "''41aa''"] dec(1,2) p by (auto simp: samplePreState_def hexDigit_def)
qed

end
