(* ===== verification/Vm_Oracle.thy ===== *)
theory Vm_Oracle
  imports Replay
begin

text \<open>
  The local half of the differential VM oracle (\<open>internal/vmoracle\<close>): the request and result types
  (\<open>types.go\<close>), the state database that records storage writes (\<open>statedb.go\<close>), the executor that runs
  one fully specified transaction through the machine (\<open>execute.go\<close>) and the comparison of two results
  (\<open>diff.go\<close>). \<open>sord\<close> and \<open>ord\<close> are the iteration orders of Go maps keyed by strings and by bytes. The
  case generator and the client of the other half are in \<open>Oracle_Gen\<close> and \<open>Oracle_Client\<close>.
\<close>

section \<open>Types (types.go)\<close>

record OracleProps =
  op_TotalEnergyWeight :: int64
  op_TotalEnergyCurrentLimit :: int64
  op_SupportUnfreezeDelay :: bool
  op_AllowNewReward :: bool
  op_EnergyFee :: int64

record OracleBlock =
  ob_Number :: int64
  ob_Timestamp :: int64
  ob_Witness :: string

record OracleAccount =
  oa_Balance :: int64
  oa_Code :: string
  oa_Storage :: "(string, string) fmap"
  oa_EnergyStake :: int64

record World =
  wo_Version :: int32
  wo_DynamicProps :: OracleProps
  wo_Block :: OracleBlock
  wo_Accounts :: "(string, OracleAccount) fmap"

record OracleTx =
  ot_Type :: string
  ot_Owner :: string
  ot_Contract :: string
  ot_Data :: string
  ot_Bytecode :: string
  ot_CallValue :: int64
  ot_FeeLimit :: int64
  ot_TxID :: string

record LogEntry =
  le_Address :: string
  le_Topics :: "string list"
  le_Data :: string

type_synonym storageMap = "(string, (string, string) fmap) fmap"

record Execution =
  ex_Result :: string
  ex_VMError :: "vmError option"
  ex_Return :: string
  ex_EnergyUsed :: int64
  ex_EnergyFee :: int64
  ex_OriginEnergyUsage :: int64
  ex_FaultPC :: int
  ex_FaultOp :: string
  ex_StorageWrites :: storageMap
  ex_Logs :: "LogEntry list"
  ex_CreatedAddress :: string

record Divergence =
  dv_Field :: string
  dv_A :: string
  dv_B :: string
  dv_Kind :: string

section \<open>Hexadecimal arguments (statedb.go)\<close>

definition oracleHex :: "string \<Rightarrow> bytes result" where
  "oracleHex s = (if s = '''' then Inr [] else hexE (trimPrefix s ''0x''))"

text \<open>What \<open>hex.DecodeString\<close> returns beside an error: the bytes before the first bad pair.\<close>

fun hexSoFar :: "string \<Rightarrow> bytes" where
  "hexSoFar (a # b # cs) =
     (case (hexDigit a, hexDigit b) of (Some x, Some y) \<Rightarrow> word_of_nat (16 * x + y) # hexSoFar cs | _ \<Rightarrow> [])"
| "hexSoFar _ = []"

definition oracleHexAny :: "string \<Rightarrow> bytes" where
  "oracleHexAny s = (if s = '''' then [] else hexSoFar (trimPrefix s ''0x''))"

definition decodeAddr :: "string \<Rightarrow> bytes result" where
  "decodeAddr s = bindE (oracleHex s) (\<lambda>b. bindE (check (length b = 0) (Err ''empty address'')) (\<lambda>_. Inr b))"

definition oracleWord32 :: "string \<Rightarrow> bytes result" where
  "oracleWord32 s = bindE (oracleHex s) (\<lambda>b.
     bindE (check (length b > 32) (Err ''word > 32 bytes'')) (\<lambda>_. Inr (replicate (32 - length b) 0 @ b)))"

section \<open>The tracking state database (statedb.go)\<close>

record trackingStateDB =
  tr_db :: MemStateDB
  tr_writes :: "(bytes, bytes fset) fmap"

definition trackRead :: "(MemStateDB \<Rightarrow> 'a \<times> MemStateDB) \<Rightarrow> trackingStateDB \<Rightarrow> 'a \<times> trackingStateDB" where
  "trackRead f t = (case f (tr_db t) of (x, s) \<Rightarrow> (x, t\<lparr>tr_db := s\<rparr>))"

definition trackWrite :: "(MemStateDB \<Rightarrow> MemStateDB) \<Rightarrow> trackingStateDB \<Rightarrow> trackingStateDB" where
  "trackWrite f t = t\<lparr>tr_db := f (tr_db t)\<rparr>"

definition writesAt :: "trackingStateDB \<Rightarrow> bytes \<Rightarrow> bytes fset" where
  "writesAt t a = (case fmlookup (tr_writes t) a of None \<Rightarrow> {||} | Some m \<Rightarrow> m)"

definition track_SetStorage :: "bytes \<Rightarrow> bytes \<Rightarrow> bytes \<Rightarrow> trackingStateDB \<Rightarrow> trackingStateDB" where
  "track_SetStorage a k v t =
     trackWrite (ms_SetStorage a k v) (t\<lparr>tr_writes := fmupd a (finsert k (writesAt t a)) (tr_writes t)\<rparr>)"

definition trackDB :: "(bytes \<Rightarrow> bytes) \<Rightarrow> trackingStateDB StateDB" where
  "trackDB keccak = \<lparr>sd_Exist = (\<lambda>a. trackRead (ms_Exist a)), sd_CreateAccount = (\<lambda>a. trackWrite (ms_CreateAccount a)),
     sd_GetBalance = (\<lambda>a. trackRead (ms_GetBalance a)), sd_AddBalance = (\<lambda>a v. trackWrite (ms_AddBalance a v)),
     sd_SubBalance = (\<lambda>a v. trackWrite (ms_SubBalance a v)), sd_GetNonce = (\<lambda>a. trackRead (ms_GetNonce a)),
     sd_SetNonce = (\<lambda>a n. trackWrite (ms_SetNonce a n)), sd_GetCode = (\<lambda>a. trackRead (ms_GetCode a)),
     sd_SetCode = (\<lambda>a c. trackWrite (ms_SetCode a c)), sd_GetCodeHash = (\<lambda>a. trackRead (ms_GetCodeHash keccak a)),
     sd_GetCodeSize = (\<lambda>a. trackRead (ms_GetCodeSize a)), sd_GetStorage = (\<lambda>a k. trackRead (ms_GetStorage a k)),
     sd_SetStorage = track_SetStorage, sd_Snapshot = trackRead ms_Snapshot, sd_RevertToSnapshot = (\<lambda>i. trackWrite (ms_RevertToSnapshot i))\<rparr>"

type_synonym inputStorage = "(bytes, (bytes, bytes) fmap) fmap"

definition zeroWord :: bytes where "zeroWord = replicate 32 0"

definition inputSlot :: "inputStorage \<Rightarrow> bytes \<Rightarrow> bytes \<Rightarrow> bytes" where
  "inputSlot input a slot =
     (case fmlookup input a of None \<Rightarrow> zeroWord
      | Some im \<Rightarrow> (case fmlookup im slot of None \<Rightarrow> zeroWord | Some v \<Rightarrow> v))"

definition finalSlot :: "MemStateDB \<Rightarrow> bytes \<Rightarrow> bytes \<Rightarrow> bytes" where
  "finalSlot s a slot = fst (fst (ms_GetStorage a slot s))"

definition orEmpty :: "('a, 'b) fmap option \<Rightarrow> ('a, 'b) fmap" where
  "orEmpty m = (case m of None \<Rightarrow> fmempty | Some x \<Rightarrow> x)"

definition netSlot :: "inputStorage \<Rightarrow> MemStateDB \<Rightarrow> bytes \<Rightarrow> bytes \<Rightarrow> storageMap \<Rightarrow> storageMap" where
  "netSlot input s a slot out =
     (let final = finalSlot s a slot in
      if final = inputSlot input a slot then out
      else fmupd (hexEncode a) (fmupd (hexEncode slot) (hexEncode final) (orEmpty (fmlookup out (hexEncode a)))) out)"

definition netWrites :: "(bytes fset \<Rightarrow> bytes list) \<Rightarrow> inputStorage \<Rightarrow> trackingStateDB \<Rightarrow> storageMap" where
  "netWrites ord input t =
     fold (\<lambda>a. fold (netSlot input (tr_db t) a) (ord (writesAt t a))) (ord (fmdom (tr_writes t))) fmempty"

fun loadWorldSlots :: "bytes \<Rightarrow> (string \<times> string) list \<Rightarrow> MemStateDB \<times> (bytes, bytes) fmap \<Rightarrow> (MemStateDB \<times> (bytes, bytes) fmap) result" where
  "loadWorldSlots addr [] st = Inr st"
| "loadWorldSlots addr ((slotHex, valHex) # ps) (mem, sm) =
     bindE (wrapE ''account slot'' (oracleWord32 slotHex)) (\<lambda>slot.
     bindE (wrapE ''account value'' (oracleWord32 valHex)) (\<lambda>val.
       loadWorldSlots addr ps (ms_SetStorage addr slot val mem, fmupd slot val sm)))"

definition loadWorldAccount :: "(string fset \<Rightarrow> string list) \<Rightarrow> string \<Rightarrow> OracleAccount \<Rightarrow> MemStateDB \<times> inputStorage \<Rightarrow> (MemStateDB \<times> inputStorage) result" where
  "loadWorldAccount sord addrHex acct = (\<lambda>(mem, input).
     bindE (wrapE ''account'' (decodeAddr addrHex)) (\<lambda>addr.
       let mem1 = (if slt 0 (oa_Balance acct) then ms_AddBalance addr (ucast (oa_Balance acct)) mem else mem) in
     bindE (if oa_Code acct \<noteq> '''' then bindE (wrapE ''account code'' (oracleHex (oa_Code acct))) (\<lambda>code. Inr (ms_SetCode addr code mem1))
            else Inr mem1) (\<lambda>mem2.
       if oa_Storage acct \<noteq> fmempty then
         bindE (loadWorldSlots addr (entriesOf sord (oa_Storage acct)) (mem2, fmempty)) (\<lambda>(mem3, sm). Inr (mem3, fmupd addr sm input))
       else Inr (mem2, input))))"

fun loadWorldAccounts :: "(string fset \<Rightarrow> string list) \<Rightarrow> (string \<times> OracleAccount) list \<Rightarrow> MemStateDB \<times> inputStorage \<Rightarrow> (MemStateDB \<times> inputStorage) result" where
  "loadWorldAccounts sord [] st = Inr st"
| "loadWorldAccounts sord ((addrHex, acct) # as) st = bindE (loadWorldAccount sord addrHex acct st) (loadWorldAccounts sord as)"

definition loadWorld :: "(string fset \<Rightarrow> string list) \<Rightarrow> World \<Rightarrow> (MemStateDB \<times> inputStorage) result" where
  "loadWorld sord w = loadWorldAccounts sord (entriesOf sord (wo_Accounts w)) (NewMemStateDB, fmempty)"

section \<open>Execution (execute.go)\<close>

definition isCreate :: "OracleTx \<Rightarrow> bool" where "isCreate tx \<longleftrightarrow> ot_Type tx = ''CreateSmartContract''"

definition oracleCall :: "vmlib \<Rightarrow> OracleTx \<Rightarrow> bytes \<Rightarrow> MemStateDB \<Rightarrow> vmCall result" where
  "oracleCall lib tx owner mem =
     (if isCreate tx then
        bindE (wrapE ''bytecode'' (oracleHex (ot_Bytecode tx))) (\<lambda>code.
        bindE (wrapE ''txID'' (oracleHex (ot_TxID tx))) (\<lambda>txID.
          Inr \<lparr>vc_owner = owner, vc_contractAddr = CreateContractAddress (L_keccak lib) owner txID, vc_code = code, vc_input = [],
            vc_callValue = ot_CallValue tx, vc_consumeUserPercent = 0, vc_originEnergyLimit = 0\<rparr>))
      else
        bindE (wrapE ''contract'' (decodeAddr (ot_Contract tx))) (\<lambda>addr.
        bindE (wrapE ''data'' (oracleHex (ot_Data tx))) (\<lambda>input.
          Inr \<lparr>vc_owner = owner, vc_contractAddr = addr, vc_code = fst (ms_GetCode addr mem), vc_input = input,
            vc_callValue = ot_CallValue tx, vc_consumeUserPercent = 100, vc_originEnergyLimit = 0\<rparr>)))"

definition ownerStakedEnergy :: "World \<Rightarrow> string \<Rightarrow> int64" where
  "ownerStakedEnergy w ownerHex =
     (case fmlookup (wo_Accounts w) ownerHex of
        None \<Rightarrow> 0
      | Some acct \<Rightarrow> let p = wo_DynamicProps w in
          AvailableStakedEnergy \<lparr>se_FrozenBalanceForEnergy = oa_EnergyStake acct, se_EnergyUsage = 0, se_LatestConsumeSlot = 0,
            se_WindowSize = 0, se_NowSlot = 0, se_TotalEnergyCurrentLimit = op_TotalEnergyCurrentLimit p,
            se_TotalEnergyWeight = op_TotalEnergyWeight p, se_SupportUnfreezeDelay = op_SupportUnfreezeDelay p,
            se_AllowNewReward = op_AllowNewReward p\<rparr>)"

definition oracleBudget :: "World \<Rightarrow> OracleTx \<Rightarrow> vmCall \<Rightarrow> MemStateDB \<Rightarrow> uint64" where
  "oracleBudget w tx c mem =
     (let energyLimit = AccountEnergyLimit (ownerStakedEnergy w (ot_Owner tx)) (ucast (fst (ms_GetBalance (vc_owner c) mem)))
            (ot_CallValue tx) (ot_FeeLimit tx) (EnergyPrice (op_EnergyFee (wo_DynamicProps w)))
      in if slt 0 energyLimit then energyLimit else 0)"

definition oracleEnv :: "vmlib \<Rightarrow> World \<Rightarrow> OracleTx \<Rightarrow> trackingStateDB env" where
  "oracleEnv lib w tx =
     \<lparr>ev_db = trackDB (L_keccak lib), ev_lib = lib,
      ev_block = \<lparr>vb_Number = ob_Number (wo_Block w), vb_Timestamp = ob_Timestamp (wo_Block w),
        vb_Coinbase = oracleHexAny (ob_Witness (wo_Block w)), vb_ChainID = Some mainnetChainID, vb_Version = wo_Version w\<rparr>,
      ev_cfg = VMConfigForVersion (wo_Version w), ev_rootTxID = oracleHexAny (ot_TxID tx), ev_perm = None\<rparr>"

definition oracleFund :: "bool \<Rightarrow> vmCall \<Rightarrow> trackingStateDB \<Rightarrow> trackingStateDB" where
  "oracleFund create c t =
     (let t1 = (if create then trackWrite (ms_CreateAccount (vc_contractAddr c)) t else t) in
      if slt 0 (vc_callValue c)
      then trackWrite (ms_AddBalance (vc_contractAddr c) (ucast (vc_callValue c)))
        (trackWrite (ms_SubBalance (vc_owner c) (ucast (vc_callValue c))) t1)
      else t1)"

definition oracleRun :: "nat \<Rightarrow> vmlib \<Rightarrow> World \<Rightarrow> OracleTx \<Rightarrow> vmCall \<Rightarrow> MemStateDB \<Rightarrow>
    (Result \<times> bool \<times> Log list \<times> trackingStateDB) result" where
  "oracleRun fuel lib w tx c mem =
     (let (snap, t1) = trackRead ms_Snapshot \<lparr>tr_db = mem, tr_writes = fmempty\<rparr>; t2 = oracleFund (isCreate tx) c t1 in
      case evm_Execute fuel (oracleEnv lib w tx) (vm_frame c) (vc_input c) (oracleBudget w tx c mem) t2 of
        Next (res, logs, t3) \<Rightarrow>
          let reverted = (r_Err res \<noteq> None \<or> r_Reverted res);
              t4 = (if reverted then trackWrite (ms_RevertToSnapshot snap) t3
                    else if isCreate tx then trackWrite (ms_SetCode (vc_contractAddr c) (r_Return res)) t3 else t3)
          in Inr (res, reverted, logs, t4)
      | Fault e x \<Rightarrow> Inl (Panic ''unreachable'')
      | Crash m \<Rightarrow> Inl (Panic m)
      | NoFuel \<Rightarrow> Inl OutOfFuel)"

fun errKind :: "vmError \<Rightarrow> string" where
  "errKind ErrOutOfEnergy = ''OUT_OF_ENERGY''"
| "errKind ErrInvalidOpcode = ''ILLEGAL_OPERATION''"
| "errKind ErrBadJumpDest = ''BAD_JUMP_DESTINATION''"
| "errKind ErrStackUnderflow = ''STACK_TOO_SMALL''"
| "errKind ErrStackOverflow = ''STACK_TOO_LARGE''"
| "errKind ErrStaticStateChange = ''STATE_CHANGE_IN_STATIC''"
| "errKind _ = ''FAULT''"

definition resultKind :: "Result \<Rightarrow> string" where
  "resultKind res = (if r_Reverted res then ''REVERT'' else case r_Err res of None \<Rightarrow> ''SUCCESS'' | Some e \<Rightarrow> errKind e)"

definition faultOp :: "byte \<Rightarrow> vmError option \<Rightarrow> string" where
  "faultOp op err = (case err of None \<Rightarrow> '''' | Some _ \<Rightarrow> hexEncode [op])"

definition collectLogs :: "Log list \<Rightarrow> LogEntry list" where
  "collectLogs logs = map (\<lambda>l. \<lparr>le_Address = hexEncode (l_Address l), le_Topics = map hexEncode (l_Topics l), le_Data = hexEncode (l_Data l)\<rparr>) logs"

definition oracleReport :: "(bytes fset \<Rightarrow> bytes list) \<Rightarrow> World \<Rightarrow> OracleTx \<Rightarrow> vmCall \<Rightarrow> inputStorage \<Rightarrow>
    Result \<times> bool \<times> Log list \<times> trackingStateDB \<Rightarrow> Execution" where
  "oracleReport ord w tx c input = (\<lambda>(res, reverted, logs, t).
     let bill = vm_bill (isCreate tx) c (ownerStakedEnergy w (ot_Owner tx)) (EnergyPrice (op_EnergyFee (wo_DynamicProps w))) res in
     \<lparr>ex_Result = resultKind res, ex_VMError = r_Err res, ex_Return = hexEncode (r_Return res),
      ex_EnergyUsed = rc_EnergyUsageTotal bill, ex_EnergyFee = rc_EnergyFee bill, ex_OriginEnergyUsage = rc_OriginEnergyUsage bill,
      ex_FaultPC = r_FaultPC res, ex_FaultOp = faultOp (r_FaultOp res) (r_Err res), ex_StorageWrites = netWrites ord input t,
      ex_Logs = (if reverted then [] else collectLogs logs),
      ex_CreatedAddress = (if \<not> reverted \<and> isCreate tx then hexEncode (vc_contractAddr c) else '''')\<rparr>)"

definition oracleSetup :: "vmlib \<Rightarrow> (string fset \<Rightarrow> string list) \<Rightarrow> World \<Rightarrow> OracleTx \<Rightarrow> (vmCall \<times> MemStateDB \<times> inputStorage) result" where
  "oracleSetup lib sord w tx =
     bindE (wrapE ''owner'' (decodeAddr (ot_Owner tx))) (\<lambda>owner.
     bindE (check (\<not> isCreate tx \<and> ot_Type tx \<noteq> ''TriggerSmartContract'') (Err ''unknown tx type'')) (\<lambda>_.
     bindE (loadWorld sord w) (\<lambda>(mem, input).
     bindE (oracleCall lib tx owner mem) (\<lambda>c. Inr (c, mem, input)))))"

definition Oracle_Execute :: "nat \<Rightarrow> vmlib \<Rightarrow> (string fset \<Rightarrow> string list) \<Rightarrow> (bytes fset \<Rightarrow> bytes list) \<Rightarrow> World \<Rightarrow> OracleTx \<Rightarrow> Execution result" where
  "Oracle_Execute fuel lib sord ord w tx =
     bindE (oracleSetup lib sord w tx) (\<lambda>(c, mem, input).
     bindE (oracleRun fuel lib w tx c mem) (\<lambda>out.
       Inr (oracleReport ord w tx c input out)))"

section \<open>Comparison (diff.go)\<close>

fun natStr :: "nat \<Rightarrow> string" where
  "natStr n = (if n < 10 then [char_of (48 + n)] else natStr (n div 10) @ [char_of (48 + n mod 10)])"

definition itoa :: "int \<Rightarrow> string" where
  "itoa n = (if n < 0 then CHR ''-'' # natStr (nat (- n)) else natStr (nat n))"

definition diffField :: "string \<Rightarrow> string \<Rightarrow> string \<Rightarrow> Divergence list" where
  "diffField field av bv = (if av \<noteq> bv then [\<lparr>dv_Field = field, dv_A = av, dv_B = bv, dv_Kind = ''mismatch''\<rparr>] else [])"

definition sortedUnion :: "string fset \<Rightarrow> string fset \<Rightarrow> string list" where
  "sortedUnion a b = sorted_list_of_fset (a |\<union>| b)"

definition orBlank :: "string option \<Rightarrow> string" where
  "orBlank x = (case x of None \<Rightarrow> '''' | Some v \<Rightarrow> v)"

definition diffStorage :: "storageMap \<Rightarrow> storageMap \<Rightarrow> Divergence list" where
  "diffStorage a b =
     concat (map (\<lambda>addr.
       let am = orEmpty (fmlookup a addr); bm = orEmpty (fmlookup b addr) in
       concat (map (\<lambda>slot. diffField (''storage['' @ addr @ '']['' @ slot @ '']'') (orBlank (fmlookup am slot)) (orBlank (fmlookup bm slot)))
         (sortedUnion (fmdom am) (fmdom bm))))
       (sortedUnion (fmdom a) (fmdom b)))"

definition logField :: "nat \<Rightarrow> string \<Rightarrow> string" where
  "logField i what = ''logs['' @ natStr i @ ''].'' @ what"

definition diffTopics :: "nat \<Rightarrow> string list \<Rightarrow> string list \<Rightarrow> Divergence list" where
  "diffTopics i ts us =
     (if length ts \<noteq> length us then diffField (logField i ''topics.length'') (natStr (length ts)) (natStr (length us))
      else concat (map (\<lambda>j. diffField (logField i (''topics['' @ natStr j @ '']'')) (ts ! j) (us ! j)) [0..<length ts]))"

definition diffLogs :: "LogEntry list \<Rightarrow> LogEntry list \<Rightarrow> Divergence list" where
  "diffLogs a b =
     (if length a \<noteq> length b then diffField ''logs.length'' (natStr (length a)) (natStr (length b)) else []) @
     concat (map (\<lambda>i. diffField (logField i ''address'') (le_Address (a ! i)) (le_Address (b ! i)) @
         diffField (logField i ''data'') (le_Data (a ! i)) (le_Data (b ! i)) @ diffTopics i (le_Topics (a ! i)) (le_Topics (b ! i)))
       [0..<min (length a) (length b)])"

definition Diff :: "Execution \<Rightarrow> Execution \<Rightarrow> Divergence list" where
  "Diff a b =
     diffField ''result'' (ex_Result a) (ex_Result b) @
     diffField ''return'' (ex_Return a) (ex_Return b) @
     diffField ''energyUsed'' (itoa (sint (ex_EnergyUsed a))) (itoa (sint (ex_EnergyUsed b))) @
     diffField ''energyFee'' (itoa (sint (ex_EnergyFee a))) (itoa (sint (ex_EnergyFee b))) @
     diffField ''originEnergyUsage'' (itoa (sint (ex_OriginEnergyUsage a))) (itoa (sint (ex_OriginEnergyUsage b))) @
     diffField ''createdAddress'' (ex_CreatedAddress a) (ex_CreatedAddress b) @
     diffField ''faultPc'' (itoa (ex_FaultPC a)) (itoa (ex_FaultPC b)) @
     diffField ''faultOp'' (ex_FaultOp a) (ex_FaultOp b) @
     diffStorage (ex_StorageWrites a) (ex_StorageWrites b) @
     diffLogs (ex_Logs a) (ex_Logs b)"

end
