(* ===== verification/Oracle_Props.thy ===== *)
theory Oracle_Props
  imports Vm_Oracle
begin

text \<open>
  Correctness of the oracle's two halves. \<open>Diff\<close> is empty exactly when the compared fields agree. The
  storage writes an execution reports are exactly the slots whose final value differs from the world
  it started from: the recorded write set covers every changed slot, through nested calls, reverts and
  snapshots, because it is never rolled back.
\<close>

section \<open>Comparing executions\<close>

declare natStr.simps [simp del]

lemma natStr_digits: "c \<in> set (natStr n) \<Longrightarrow> 48 \<le> (of_char c :: nat)"
proof (induction n rule: natStr.induct)
  case (1 n)
  then show ?case by (cases "n < 10") (auto simp: natStr.simps [of n])
qed

lemma natStr_value: "foldl (\<lambda>m c. 10 * m + ((of_char c :: nat) - 48)) 0 (natStr n) = n"
proof (induction n rule: natStr.induct)
  case (1 n)
  then show ?case by (cases "n < 10") (auto simp: natStr.simps [of n])
qed

lemma natStr_inject [simp]: "natStr m = natStr n \<longleftrightarrow> m = n"
  using natStr_value by metis

lemma itoa_inject [simp]: "itoa m = itoa n \<longleftrightarrow> m = n"
proof -
  have "CHR ''-'' \<notin> set (natStr k)" for k using natStr_digits [of "CHR ''-''" k] by auto
  then have "CHR ''-'' # x \<noteq> natStr k" "natStr k \<noteq> CHR ''-'' # x" for x k by (metis list.set_intros(1))+
  then show ?thesis by (auto simp: itoa_def)
qed

lemma diffField_Nil [simp]: "diffField f x y = [] \<longleftrightarrow> x = y"
  by (simp add: diffField_def)

lemma set_sortedUnion [simp]: "set (sortedUnion a b) = fset a \<union> fset b"
  by (simp add: sortedUnion_def sorted_list_of_fset.rep_eq)

text \<open>The value a result reports for a slot, blank when it reports none.\<close>

definition storageAt :: "storageMap \<Rightarrow> string \<Rightarrow> string \<Rightarrow> string" where
  "storageAt m addr slot = orBlank (fmlookup (orEmpty (fmlookup m addr)) slot)"

lemma diffStorage_Nil: "diffStorage a b = [] \<longleftrightarrow> (\<forall>addr slot. storageAt a addr slot = storageAt b addr slot)"
proof -
  have "storageAt a addr slot = storageAt b addr slot" if "\<not> (addr |\<in>| fmdom a |\<union>| fmdom b)" for addr slot
    using that by (simp add: storageAt_def orEmpty_def orBlank_def fmdom_notD)
  moreover have "storageAt a addr slot = storageAt b addr slot"
    if "\<not> (slot |\<in>| fmdom (orEmpty (fmlookup a addr)) |\<union>| fmdom (orEmpty (fmlookup b addr)))" for addr slot
    using that by (simp add: storageAt_def orBlank_def fmdom_notD)
  ultimately show ?thesis
    by (auto simp: diffStorage_def Let_def storageAt_def) blast
qed

lemma diffTopics_Nil [simp]: "diffTopics i ts us = [] \<longleftrightarrow> ts = us"
proof (cases "length ts = length us")
  case True
  then have "diffTopics i ts us = [] \<longleftrightarrow> (\<forall>j < length ts. ts ! j = us ! j)" by (auto simp: diffTopics_def)
  with True show ?thesis by (simp add: list_eq_iff_nth_eq [of ts us])
qed (auto simp: diffTopics_def)

lemma diffLogs_Nil: "diffLogs a b = [] \<longleftrightarrow> a = b"
proof
  assume *: "diffLogs a b = []"
  then have "length a = length b" by (auto simp: diffLogs_def split: if_splits)
  moreover from * this have "a ! i = b ! i" if "i < length a" for i
    using that by (intro LogEntry.equality) (auto simp: diffLogs_def)
  ultimately show "a = b" by (simp add: list_eq_iff_nth_eq)
qed (auto simp: diffLogs_def)

text \<open>
  C28: \<open>Diff\<close> reports no divergence exactly when the two executions agree in result kind, return
  data, energy figures, created address, fault position, logs in order, and in the value of every
  storage slot, where a slot that is not reported counts as blank. The raw VM error is not compared.
\<close>

theorem Diff_empty_iff:
  "Diff a b = [] \<longleftrightarrow> ex_Result a = ex_Result b \<and> ex_Return a = ex_Return b \<and> ex_EnergyUsed a = ex_EnergyUsed b \<and>
     ex_EnergyFee a = ex_EnergyFee b \<and> ex_OriginEnergyUsage a = ex_OriginEnergyUsage b \<and> ex_CreatedAddress a = ex_CreatedAddress b \<and>
     ex_FaultPC a = ex_FaultPC b \<and> ex_FaultOp a = ex_FaultOp b \<and> ex_Logs a = ex_Logs b \<and>
     (\<forall>addr slot. storageAt (ex_StorageWrites a) addr slot = storageAt (ex_StorageWrites b) addr slot)"
  by (simp add: Diff_def diffStorage_Nil diffLogs_Nil word_eq_iff_signed [where ?'a = int, symmetric]) blast

section \<open>The tracking database\<close>

text \<open>It satisfies the contract of the interface, as the database it wraps does.\<close>

lemma track_laws:
  "sd_Exist (trackDB kk) a t = trackRead (sd_Exist (memDB kk) a) t"
  "sd_GetBalance (trackDB kk) a t = trackRead (sd_GetBalance (memDB kk) a) t"
  "sd_GetNonce (trackDB kk) a t = trackRead (sd_GetNonce (memDB kk) a) t"
  "sd_GetCode (trackDB kk) a t = trackRead (sd_GetCode (memDB kk) a) t"
  "sd_GetCodeSize (trackDB kk) a t = trackRead (sd_GetCodeSize (memDB kk) a) t"
  "sd_GetCodeHash (trackDB kk) a t = trackRead (sd_GetCodeHash (memDB kk) a) t"
  "sd_GetStorage (trackDB kk) a k t = trackRead (sd_GetStorage (memDB kk) a k) t"
  "sd_Snapshot (trackDB kk) t = trackRead (sd_Snapshot (memDB kk)) t"
  "tr_db (sd_CreateAccount (trackDB kk) a t) = sd_CreateAccount (memDB kk) a (tr_db t)"
  "tr_db (sd_AddBalance (trackDB kk) a v t) = sd_AddBalance (memDB kk) a v (tr_db t)"
  "tr_db (sd_SubBalance (trackDB kk) a v t) = sd_SubBalance (memDB kk) a v (tr_db t)"
  "tr_db (sd_SetNonce (trackDB kk) a n t) = sd_SetNonce (memDB kk) a n (tr_db t)"
  "tr_db (sd_SetCode (trackDB kk) a c t) = sd_SetCode (memDB kk) a c (tr_db t)"
  "tr_db (sd_SetStorage (trackDB kk) a k x t) = sd_SetStorage (memDB kk) a k x (tr_db t)"
  "tr_db (sd_RevertToSnapshot (trackDB kk) i t) = sd_RevertToSnapshot (memDB kk) i (tr_db t)"
  by (simp_all add: trackDB_def memDB_def trackWrite_def track_SetStorage_def)

lemma trackRead_eq: "trackRead f t = (x, t') \<longleftrightarrow> (\<exists>s. f (tr_db t) = (x, s) \<and> t' = t\<lparr>tr_db := s\<rparr>)"
  by (auto simp: trackRead_def split: prod.splits)

interpretation trkdb: state_db "trackDB kk" kk "\<lambda>t. mem_accts (ms_accounts (tr_db t))" "\<lambda>t. map mem_accts (ms_snaps (tr_db t))" for kk
  by unfold_locales (auto simp: track_laws trackRead_eq memst.CreateAccount memst.AddBalance memst.SubBalance memst.SetNonce memst.SetCode
      memst.SetStorage memst.write_snaps memst.Revert [simplified] dest: memst.Exist memst.GetBalance memst.GetNonce memst.GetCode memst.GetCodeSize memst.GetCodeHash
      memst.GetStorage memst.Snapshot)

definition memSlot :: "(bytes, account) fmap \<Rightarrow> bytes \<Rightarrow> bytes \<Rightarrow> bytes" where
  "memSlot m a slot = (case fmlookup m a of None \<Rightarrow> zeroWord
     | Some x \<Rightarrow> (case fmlookup (ma_storage x) slot of None \<Rightarrow> zeroWord | Some v \<Rightarrow> v))"

lemma finalSlot_memSlot: "finalSlot s a slot = memSlot (ms_accounts s) a slot"
  by (simp add: finalSlot_def ms_GetStorage_def ms_get_def memSlot_def zeroWord_def split: option.splits)

lemma memSlot_modify:
  assumes "\<And>x. ma_storage (f x) = ma_storage x"
  shows "memSlot (ms_accounts (ms_modify a f s)) b slot = memSlot (ms_accounts s) b slot"
  using assms by (simp add: memSlot_def ms_modify_def ms_getOrCreate_def ms_get_def newAccount_def split: option.splits)

lemma memSlot_SetStorage:
  "memSlot (ms_accounts (ms_SetStorage a k v s)) b slot = (if b = a \<and> slot = k then v else memSlot (ms_accounts s) b slot)"
  by (simp add: ms_SetStorage_def memSlot_def ms_modify_def ms_getOrCreate_def ms_get_def newAccount_def split: option.splits)

lemma memSlot_writes [simp]:
  "memSlot (ms_accounts (ms_CreateAccount a s)) b slot = memSlot (ms_accounts s) b slot"
  "memSlot (ms_accounts (ms_AddBalance a v s)) b slot = memSlot (ms_accounts s) b slot"
  "memSlot (ms_accounts (ms_SubBalance a v s)) b slot = memSlot (ms_accounts s) b slot"
  "memSlot (ms_accounts (ms_SetNonce a n s)) b slot = memSlot (ms_accounts s) b slot"
  "memSlot (ms_accounts (ms_SetCode a c s)) b slot = memSlot (ms_accounts s) b slot"
  by (simp_all add: ms_CreateAccount_def ms_AddBalance_def ms_SubBalance_def ms_SetNonce_def ms_SetCode_def memSlot_modify)

lemma ms_snaps_writes [simp]:
  "ms_snaps (ms_CreateAccount a s) = ms_snaps s" "ms_snaps (ms_AddBalance a v s) = ms_snaps s" "ms_snaps (ms_SubBalance a v s) = ms_snaps s"
  "ms_snaps (ms_SetNonce a n s) = ms_snaps s" "ms_snaps (ms_SetCode a c s) = ms_snaps s" "ms_snaps (ms_SetStorage a k x s) = ms_snaps s"
  by (simp_all add: ms_CreateAccount_def ms_AddBalance_def ms_SubBalance_def ms_SetNonce_def ms_SetCode_def ms_SetStorage_def)

text \<open>
  The invariant of a run from \<open>acc0\<close>: the outermost snapshot is \<open>acc0\<close>, and the accounts of the
  present and of every snapshot hold the initial value in each slot that was not written.
\<close>

definition untouched :: "(bytes, account) fmap \<Rightarrow> trackingStateDB \<Rightarrow> (bytes, account) fmap \<Rightarrow> bool" where
  "untouched acc0 t m \<longleftrightarrow> (\<forall>a slot. slot |\<notin>| writesAt t a \<longrightarrow> memSlot m a slot = memSlot acc0 a slot)"

definition tracked :: "(bytes, account) fmap \<Rightarrow> trackingStateDB \<Rightarrow> bool" where
  "tracked acc0 t \<longleftrightarrow> (\<exists>xs. ms_snaps (tr_db t) = acc0 # xs) \<and>
     (\<forall>m \<in> insert (ms_accounts (tr_db t)) (set (ms_snaps (tr_db t))). untouched acc0 t m)"

lemma untouched_db [simp]: "untouched acc0 (t\<lparr>tr_db := s\<rparr>) m = untouched acc0 t m"
  by (simp add: untouched_def writesAt_def)

lemma tracked_write:
  assumes "tracked acc0 t" "\<And>s. ms_snaps (f s) = ms_snaps s" "\<And>s a slot. memSlot (ms_accounts (f s)) a slot = memSlot (ms_accounts s) a slot"
  shows "tracked acc0 (trackWrite f t)"
proof -
  have "untouched acc0 t (ms_accounts (f (tr_db t)))" using assms(1,3) by (simp add: tracked_def untouched_def)
  with assms(1,2) show ?thesis by (simp add: tracked_def trackWrite_def)
qed

lemma tracked_SetStorage:
  assumes "tracked acc0 t"
  shows "tracked acc0 (track_SetStorage a k v t)"
proof -
  let ?t = "t\<lparr>tr_writes := fmupd a (finsert k (writesAt t a)) (tr_writes t)\<rparr>"
  have mono: "untouched acc0 t m \<Longrightarrow> untouched acc0 ?t m" for m
    by (auto simp: untouched_def writesAt_def split: if_splits)
  have "untouched acc0 t (ms_accounts (tr_db t))" using assms by (simp add: tracked_def)
  then have "untouched acc0 ?t (ms_accounts (ms_SetStorage a k v (tr_db t)))"
    by (auto simp: untouched_def memSlot_SetStorage writesAt_def split: if_splits)
  with assms mono show ?thesis by (auto simp: tracked_def track_SetStorage_def trackWrite_def)
qed

lemma tracked_read: "tracked acc0 t \<Longrightarrow> (\<And>s. snd (f s) = s) \<Longrightarrow> tracked acc0 (snd (trackRead f t))"
  by (simp add: trackRead_def split_beta)

lemma tracked_snapshot: "tracked acc0 t \<Longrightarrow> tracked acc0 (snd (trackRead ms_Snapshot t))"
  by (auto simp: trackRead_def ms_Snapshot_def tracked_def)

lemma tracked_mark: "tracked acc0 t \<Longrightarrow> Suc 0 \<le> fst (trackRead ms_Snapshot t)"
  by (auto simp: trackRead_def ms_Snapshot_def tracked_def)

lemma tracked_revert:
  assumes "tracked acc0 t" "1 \<le> i"
  shows "tracked acc0 (trackWrite (ms_RevertToSnapshot i) t)"
proof (cases "i < length (ms_snaps (tr_db t))")
  case True
  have "set (take i (ms_snaps (tr_db t))) \<subseteq> set (ms_snaps (tr_db t))" by (rule set_take_subset)
  moreover have "ms_snaps (tr_db t) ! i \<in> set (ms_snaps (tr_db t))" using True by simp
  moreover obtain xs where "ms_snaps (tr_db t) = acc0 # xs" using assms(1) by (auto simp: tracked_def)
  then have "\<exists>ys. take i (ms_snaps (tr_db t)) = acc0 # ys" using assms(2) by (cases i) auto
  ultimately show ?thesis using True assms(1)
    by (simp add: trackWrite_def ms_RevertToSnapshot_def tracked_def) blast
qed (use assms(1) in \<open>simp add: trackWrite_def ms_RevertToSnapshot_def\<close>)

interpretation trk: state_inv "trackDB keccak" "tracked acc0" 1 for keccak acc0
  by unfold_locales (auto simp: trackDB_def ms_Exist_def ms_GetBalance_def ms_GetNonce_def ms_GetCode_def ms_GetCodeSize_def ms_GetCodeHash_def
      ms_GetStorage_def tracked_snapshot tracked_mark tracked_SetStorage intro!: tracked_read tracked_write tracked_revert)

section \<open>The reported writes\<close>

lemma hexEncode_inject [simp]: "hexEncode a = hexEncode b \<longleftrightarrow> a = b"
  by (metis hexDecode_hexEncode option.inject)

text \<open>What a result reports for an address and a slot.\<close>

definition reported :: "storageMap \<Rightarrow> bytes \<Rightarrow> bytes \<Rightarrow> string option" where
  "reported out a slot = fmlookup (orEmpty (fmlookup out (hexEncode a))) (hexEncode slot)"

lemma reported_netSlot:
  "reported (netSlot input s a slot out) b u =
     (if b = a \<and> u = slot \<and> finalSlot s a slot \<noteq> inputSlot input a slot then Some (hexEncode (finalSlot s a slot)) else reported out b u)"
  by (auto simp: reported_def netSlot_def Let_def orEmpty_def)

lemma reported_slots:
  "reported (fold (netSlot input s a) slots out) b u =
     (if b = a \<and> u \<in> set slots \<and> finalSlot s a u \<noteq> inputSlot input a u then Some (hexEncode (finalSlot s a u)) else reported out b u)"
  by (induction slots arbitrary: out) (auto simp: reported_netSlot)

lemma reported_netWrites:
  assumes "range_order ord"
  shows "reported (netWrites ord input t) b u =
    (if u |\<in>| writesAt t b \<and> finalSlot (tr_db t) b u \<noteq> inputSlot input b u then Some (hexEncode (finalSlot (tr_db t) b u)) else None)"
proof -
  have ord: "set (ord A) = fset A" for A using assms by (simp add: range_order_def)
  have "reported (fold (\<lambda>a. fold (netSlot input (tr_db t) a) (ord (writesAt t a))) as out) b u =
      (if b \<in> set as \<and> u |\<in>| writesAt t b \<and> finalSlot (tr_db t) b u \<noteq> inputSlot input b u
       then Some (hexEncode (finalSlot (tr_db t) b u)) else reported out b u)" for as out
    by (induction as arbitrary: out) (auto simp: reported_slots ord)
  moreover have "u |\<in>| writesAt t b \<Longrightarrow> b |\<in>| fmdom (tr_writes t)"
    by (auto simp: writesAt_def fmlookup_dom_iff split: option.splits)
  ultimately show ?thesis by (auto simp: netWrites_def ord reported_def orEmpty_def)
qed

lemma netWrites_unchanged:
  assumes "\<And>a slot. finalSlot (tr_db t) a slot = inputSlot input a slot"
  shows "netWrites ord input t = fmempty"
proof -
  have inner: "fold (netSlot input (tr_db t) a) slots out = out" for a slots out
    by (induction slots) (simp_all add: netSlot_def assms)
  have "fold (\<lambda>a. fold (netSlot input (tr_db t) a) (ord (writesAt t a))) as out = out" for as out
    by (induction as) (simp_all add: inner)
  then show ?thesis by (simp add: netWrites_def)
qed

section \<open>Loading the world\<close>

definition slotOr0 :: "(bytes, bytes) fmap \<Rightarrow> bytes \<Rightarrow> bytes" where
  "slotOr0 sm slot = (case fmlookup sm slot of None \<Rightarrow> zeroWord | Some v \<Rightarrow> v)"

lemma loadWorldSlots_ok:
  assumes "loadWorldSlots addr ps (mem, sm) = Inr (mem', sm')"
  shows "((\<forall>slot. memSlot (ms_accounts mem) addr slot = slotOr0 sm slot) \<longrightarrow> (\<forall>slot. memSlot (ms_accounts mem') addr slot = slotOr0 sm' slot)) \<and>
    (\<forall>a slot. a \<noteq> addr \<longrightarrow> memSlot (ms_accounts mem') a slot = memSlot (ms_accounts mem) a slot)"
  using assms
proof (induction ps arbitrary: mem sm)
  case (Cons p ps)
  obtain s v slot val where "p = (s, v)" "loadWorldSlots addr ps (ms_SetStorage addr slot val mem, fmupd slot val sm) = Inr (mem', sm')"
    using Cons.prems by (cases p) (auto simp: bindE_eq_Inr)
  then show ?case using Cons.IH [of "ms_SetStorage addr slot val mem" "fmupd slot val sm"]
    by (auto simp: memSlot_SetStorage slotOr0_def)
qed simp

lemma loadWorldAccount_ok:
  assumes "loadWorldAccount sord name acct (mem, input) = Inr (mem', input')"
  shows "\<exists>addr. decodeAddr name = Inr addr \<and>
    (fmlookup input addr = None \<longrightarrow> (\<forall>slot. memSlot (ms_accounts mem) addr slot = zeroWord) \<longrightarrow>
       (\<forall>slot. memSlot (ms_accounts mem') addr slot = inputSlot input' addr slot)) \<and>
    (\<forall>a slot. a \<noteq> addr \<longrightarrow> memSlot (ms_accounts mem') a slot = memSlot (ms_accounts mem) a slot \<and> fmlookup input' a = fmlookup input a)"
proof -
  define mem1 where "mem1 addr = (if slt 0 (oa_Balance acct) then ms_AddBalance addr (ucast (oa_Balance acct)) mem else mem)" for addr
  obtain addr mem2 where addr: "decodeAddr name = Inr addr"
      and m2: "mem2 = mem1 addr \<or> (\<exists>code. mem2 = ms_SetCode addr code (mem1 addr))"
      and st: "(if oa_Storage acct \<noteq> fmempty then bindE (loadWorldSlots addr (entriesOf sord (oa_Storage acct)) (mem2, fmempty))
          (\<lambda>(mem3, sm). Inr (mem3, fmupd addr sm input)) else Inr (mem2, input)) = Inr (mem', input')"
    using assms unfolding loadWorldAccount_def
    by (auto simp: bindE_eq_Inr Let_def mem1_def [symmetric] split: if_splits)
  have same: "memSlot (ms_accounts mem2) a slot = memSlot (ms_accounts mem) a slot" for a slot
    using m2 by (auto simp: mem1_def)
  show ?thesis
  proof (cases "oa_Storage acct = fmempty")
    case True
    then show ?thesis using st same addr by (auto simp: inputSlot_def)
  next
    case False
    obtain sm where sm: "loadWorldSlots addr (entriesOf sord (oa_Storage acct)) (mem2, fmempty) = Inr (mem', sm)" "input' = fmupd addr sm input"
      using st False by (auto simp: bindE_eq_Inr)
    have others: "memSlot (ms_accounts mem') a slot = memSlot (ms_accounts mem) a slot" if "a \<noteq> addr" for a slot
      using loadWorldSlots_ok [OF sm(1)] that same by simp
    show ?thesis
      using addr loadWorldSlots_ok [OF sm(1)] same others sm(2) by (auto simp: inputSlot_def slotOr0_def)
  qed
qed

lemma loadWorldAccounts_ok:
  assumes "loadWorldAccounts sord as (mem, input) = Inr (mem', input')" "distinct (map fst as)" "inj_on decodeAddr (fst ` set as)"
    and "\<And>name a slot. name \<in> fst ` set as \<Longrightarrow> decodeAddr name = Inr a \<Longrightarrow> fmlookup input a = None \<and> memSlot (ms_accounts mem) a slot = zeroWord"
    and "\<And>a slot. inputSlot input a slot = memSlot (ms_accounts mem) a slot"
  shows "inputSlot input' a slot = memSlot (ms_accounts mem') a slot"
  using assms
proof (induction as arbitrary: mem input)
  case (Cons x as)
  obtain name acct where x: "x = (name, acct)" by (cases x)
  obtain mem1 input1 where st: "loadWorldAccount sord name acct (mem, input) = Inr (mem1, input1)"
      "loadWorldAccounts sord as (mem1, input1) = Inr (mem', input')"
    using Cons.prems(1) by (auto simp: x bindE_eq_Inr)
  obtain k where k: "decodeAddr name = Inr k" "\<And>slot. memSlot (ms_accounts mem1) k slot = inputSlot input1 k slot"
      "\<And>a slot. a \<noteq> k \<Longrightarrow> memSlot (ms_accounts mem1) a slot = memSlot (ms_accounts mem) a slot \<and> fmlookup input1 a = fmlookup input a"
    using loadWorldAccount_ok [OF st(1)] Cons.prems(4) [of name] by (auto simp: x)
  have fresh: "decodeAddr nm \<noteq> Inr k" if "nm \<in> fst ` set as" for nm
    using Cons.prems(2,3) k(1) that by (auto simp: x inj_on_def)
  show ?case
  proof (rule Cons.IH [OF st(2)])
    show "fmlookup input1 a = None \<and> memSlot (ms_accounts mem1) a slot = zeroWord"
      if "nm \<in> fst ` set as" "decodeAddr nm = Inr a" for nm a slot
      using that k(3) [of a slot] fresh [OF that(1)] Cons.prems(4) [of nm a slot] by (auto simp: x)
    show "inputSlot input1 a slot = memSlot (ms_accounts mem1) a slot" for a slot
      using k(3) [of a slot] k(2) Cons.prems(5) [of a slot] by (cases "a = k") (simp_all add: inputSlot_def)
  qed (use Cons.prems(2,3) in \<open>auto simp: x\<close>)
qed simp

lemma loadWorld_snaps:
  assumes "loadWorldAccounts sord as (mem, input) = Inr (mem', input')"
  shows "ms_snaps mem' = ms_snaps mem"
proof -
  have slots: "loadWorldSlots addr ps (m, sm) = Inr (m', sm') \<Longrightarrow> ms_snaps m' = ms_snaps m" for addr ps m sm m' sm'
    by (induction ps arbitrary: m sm) (auto simp: bindE_eq_Inr)
  have "loadWorldAccount sord name acct (m, inp) = Inr (m', inp') \<Longrightarrow> ms_snaps m' = ms_snaps m" for name acct m inp m' inp'
    by (auto simp: loadWorldAccount_def bindE_eq_Inr Let_def dest!: slots split: if_splits)
  note acc = this
  show ?thesis using assms
  proof (induction as arbitrary: mem input)
    case (Cons x as)
    obtain m1 i1 where "loadWorldAccount sord (fst x) (snd x) (mem, input) = Inr (m1, i1)" "loadWorldAccounts sord as (m1, i1) = Inr (mem', input')"
      using Cons.prems by (cases x) (auto simp: bindE_eq_Inr)
    then show ?case using acc Cons.IH by metis
  qed simp
qed

lemma loadWorld_ok:
  assumes "range_order sord" "inj_on decodeAddr (fset (fmdom (wo_Accounts w)))" "loadWorld sord w = Inr (mem, input)"
  shows "inputSlot input a slot = finalSlot mem a slot" "ms_snaps mem = []"
proof -
  have "fst ` set (entriesOf sord (wo_Accounts w)) = fset (fmdom (wo_Accounts w))"
    by (force simp: entriesOf_set [OF assms(1)] fmlookup_dom_iff)
  then show "inputSlot input a slot = finalSlot mem a slot" unfolding finalSlot_memSlot
    by (intro loadWorldAccounts_ok [OF assms(3) [unfolded loadWorld_def]])
      (auto simp: entriesOf_set(2) [OF assms(1)] assms(2) NewMemStateDB_def memSlot_def inputSlot_def)
  show "ms_snaps mem = []" using loadWorld_snaps [OF assms(3) [unfolded loadWorld_def]] by (simp add: NewMemStateDB_def)
qed

section \<open>The net effect of an execution\<close>

lemma oracleRun_tracked:
  assumes "oracleRun fuel lib w tx c mem = Inr (res, reverted, logs, t)" "ms_snaps mem = []"
  shows "reverted \<longrightarrow> ms_accounts (tr_db t) = ms_accounts mem"
    and "\<not> reverted \<longrightarrow> untouched (ms_accounts mem) t (ms_accounts (tr_db t))"
proof -
  let ?t1 = "\<lparr>tr_db = mem\<lparr>ms_snaps := [ms_accounts mem]\<rparr>, tr_writes = fmempty\<rparr>"
  obtain t3 where t3: "evm_Execute fuel (oracleEnv lib w tx) (vm_frame c) (vc_input c) (oracleBudget w tx c mem) (oracleFund (isCreate tx) c ?t1) =
        Next (res, logs, t3)" "reverted = (r_Err res \<noteq> None \<or> r_Reverted res)"
      "t = (if reverted then trackWrite (ms_RevertToSnapshot 0) t3
            else if isCreate tx then trackWrite (ms_SetCode (vc_contractAddr c) (r_Return res)) t3 else t3)"
    using assms by (auto simp: oracleRun_def trackRead_def ms_Snapshot_def Let_def split: outcome.splits prod.splits)
  have "tracked (ms_accounts mem) ?t1" by (simp add: tracked_def untouched_def)
  then have "tracked (ms_accounts mem) (oracleFund (isCreate tx) c ?t1)"
    unfolding oracleFund_def Let_def by (auto intro!: tracked_write)
  then have "tracked (ms_accounts mem) t3"
    by (rule trk.Execute_inv [rotated 2]) (use t3(1) in \<open>simp_all add: oracleEnv_def\<close>)
  then show "reverted \<longrightarrow> ms_accounts (tr_db t) = ms_accounts mem"
    and "\<not> reverted \<longrightarrow> untouched (ms_accounts mem) t (ms_accounts (tr_db t))"
    using t3(3) tracked_write [of "ms_accounts mem" t3 "ms_SetCode (vc_contractAddr c) (r_Return res)"]
    by (auto simp: tracked_def trackWrite_def ms_RevertToSnapshot_def)
qed

text \<open>
  C26: The storage writes an oracle execution reports are its net effect on the world: a slot is
  reported, with its final value, exactly when that value differs from the one the world was loaded
  with; a reverted execution leaves the accounts as loaded and reports no write and no log.
\<close>

theorem Oracle_reports_net_writes:
  assumes "range_order sord" "range_order ord" "inj_on decodeAddr (fset (fmdom (wo_Accounts w)))"
    and "Oracle_Execute fuel lib sord ord w tx = Inr ex"
  shows "\<exists>c mem input res reverted logs t. oracleSetup lib sord w tx = Inr (c, mem, input) \<and>
    oracleRun fuel lib w tx c mem = Inr (res, reverted, logs, t) \<and>
    (\<forall>a slot. reported (ex_StorageWrites ex) a slot =
       (if finalSlot (tr_db t) a slot = finalSlot mem a slot then None else Some (hexEncode (finalSlot (tr_db t) a slot)))) \<and>
    (reverted \<longrightarrow> ms_accounts (tr_db t) = ms_accounts mem \<and> ex_StorageWrites ex = fmempty \<and> ex_Logs ex = [])"
proof -
  obtain c mem input res reverted logs t where run: "oracleSetup lib sord w tx = Inr (c, mem, input)"
      "oracleRun fuel lib w tx c mem = Inr (res, reverted, logs, t)" "ex = oracleReport ord w tx c input (res, reverted, logs, t)"
    using assms(4) by (auto simp: Oracle_Execute_def bindE_eq_Inr)
  have "loadWorld sord w = Inr (mem, input)" using run(1) by (auto simp: oracleSetup_def bindE_eq_Inr split: if_splits)
  note world = loadWorld_ok [OF assms(1,3) this]
  have net: "reported (ex_StorageWrites ex) a slot =
      (if finalSlot (tr_db t) a slot = finalSlot mem a slot then None else Some (hexEncode (finalSlot (tr_db t) a slot)))" for a slot
    using oracleRun_tracked [OF run(2) world(2)] run(3)
    by (cases reverted) (auto simp: oracleReport_def Let_def reported_netWrites [OF assms(2)] world(1) untouched_def finalSlot_memSlot)
  have "reverted \<Longrightarrow> ms_accounts (tr_db t) = ms_accounts mem \<and> ex_StorageWrites ex = fmempty \<and> ex_Logs ex = []"
    using oracleRun_tracked(1) [OF run(2) world(2)] run(3) netWrites_unchanged [of t input ord] world(1)
    by (simp add: oracleReport_def Let_def finalSlot_memSlot)
  with run(1,2) net show ?thesis by blast
qed

definition emptyWorld :: World where
  "emptyWorld = \<lparr>wo_Version = 35, wo_DynamicProps = \<lparr>op_TotalEnergyWeight = 0, op_TotalEnergyCurrentLimit = 0, op_SupportUnfreezeDelay = False,
       op_AllowNewReward = False, op_EnergyFee = 100\<rparr>, wo_Block = \<lparr>ob_Number = 1, ob_Timestamp = 0, ob_Witness = ''''\<rparr>, wo_Accounts = fmempty\<rparr>"

definition faultyTx :: OracleTx where
  "faultyTx = \<lparr>ot_Type = ''CreateSmartContract'', ot_Owner = ''41'', ot_Contract = '''', ot_Data = '''', ot_Bytecode = ''01'',
     ot_CallValue = 0, ot_FeeLimit = 0, ot_TxID = ''''\<rparr>"

theorem Oracle_reports_net_writes_witness:
  "\<exists>ex. Oracle_Execute 1 sampleLib sorted_list_of_fset sorted_list_of_fset emptyWorld faultyTx = Inr ex \<and>
     ex_Result ex = ''STACK_TOO_SMALL'' \<and> ex_StorageWrites ex = fmempty"
proof -
  obtain c where prep: "oracleSetup sampleLib sorted_list_of_fset emptyWorld faultyTx = Inr (c, NewMemStateDB, fmempty)" "vc_code c = [0x01]"
    by (simp add: oracleSetup_def loadWorld_def entriesOf_def List.map_filter_simps sorted_list_of_fset.rep_eq emptyWorld_def faultyTx_def decodeAddr_def oracleHex_def
        trimPrefix_def hexE_def hexDigit_def isCreate_def oracleCall_def)
  obtain res where res: "evm_Execute 1 (oracleEnv sampleLib emptyWorld faultyTx) (vm_frame c) (vc_input c) (oracleBudget emptyWorld faultyTx c NewMemStateDB)
      (oracleFund True c (snd (trackRead ms_Snapshot \<lparr>tr_db = NewMemStateDB, tr_writes = fmempty\<rparr>))) =
      Next (res, [], oracleFund True c (snd (trackRead ms_Snapshot \<lparr>tr_db = NewMemStateDB, tr_writes = fmempty\<rparr>)))"
      "r_Err res = Some ErrStackUnderflow" "\<not> r_Reverted res"
    using prep(2) unfolding One_nat_def
    by (simp add: evm_Execute_def evm_run_def runFrame_Suc stepFrame_def newFrame_def opTable_samples oper_def failResult_def vm_frame_def)
  obtain t where run: "oracleRun 1 sampleLib emptyWorld faultyTx c NewMemStateDB = Inr (res, True, [], t)"
    using res by (simp add: oracleRun_def split_beta Let_def isCreate_def faultyTx_def)
  then obtain ex where ex: "Oracle_Execute 1 sampleLib sorted_list_of_fset sorted_list_of_fset emptyWorld faultyTx = Inr ex"
      "ex_Result ex = ''STACK_TOO_SMALL''"
    using prep(1) res(2,3) by (simp add: Oracle_Execute_def oracleReport_def Let_def resultKind_def)
  have "inj_on decodeAddr (fset (fmdom (wo_Accounts emptyWorld)))" by (simp add: emptyWorld_def)
  from Oracle_reports_net_writes [OF range_order_sorted range_order_sorted this ex(1)] run prep(1) ex show ?thesis by auto
qed

end
