(* ===== verification/Oracle_Gen.thy ===== *)
theory Oracle_Gen
  imports Oracle_Props Tvm_Safe
begin

text \<open>
  The fuzz-case generator of the differential oracle (\<open>internal/vmoracle/gen.go\<close>): a seed becomes a world
  with two generated contracts and a transaction that calls one of them. The generator of \<open>math/rand\<close> is a
  parameter, the record \<open>rand\<close>; all that is used of it is the documented range of \<open>Intn\<close> (\<open>intn_ok\<close>). The hash
  of the seed is FNV-1a of \<open>hash/fnv\<close>, written out. A generator function is an operation on the state of
  the random source, so that the draws happen in the order of the code.
\<close>

section \<open>Random draws\<close>

record 'r rand =
  ra_NewSource :: "int64 \<Rightarrow> 'r"
  ra_Intn :: "nat \<Rightarrow> 'r \<Rightarrow> nat \<times> 'r"

definition intn_ok :: "'r rand \<Rightarrow> bool" where
  "intn_ok R \<longleftrightarrow> (\<forall>n r. 0 < n \<longrightarrow> fst (ra_Intn R n r) < n)"

definition Intn :: "'r rand \<Rightarrow> nat \<Rightarrow> ('r, nat) op" where
  "Intn R n r = (case ra_Intn R n r of (i, r') \<Rightarrow> (Inr i, r'))"

definition index :: "'a list \<Rightarrow> nat \<Rightarrow> ('r, 'a) op" where
  "index xs i = (if i < length xs then returnM (xs ! i) else throwM (Panic ''index out of range''))"

fun fnv64a :: "bytes \<Rightarrow> uint64 \<Rightarrow> uint64" where
  "fnv64a [] h = h"
| "fnv64a (b # bs) h = fnv64a bs (xor h (ucast b) * 1099511628211)"

section \<open>Programs\<close>

definition genAddrBytes :: "byte \<Rightarrow> bytes" where
  "genAddrBytes b = 0x41 # 0xC0 # replicate 18 0 @ [b]"

definition genAddr :: "byte \<Rightarrow> string" where
  "genAddr b = hexEncode (genAddrBytes b)"

definition genOps :: bytes where
  "genOps = [0x01, 0x02, 0x03, 0x04, 0x06, 0x0a, 0x10, 0x14, 0x15, 0x16, 0x17, 0x19, 0x20, 0x50, 0x51, 0x52, 0x53, 0x54, 0x55,
     0x58, 0x5a, 0x5b, 0x80, 0x81, 0x90, 0x91, 0xa0, 0xa1, 0xa2, 0xf1, 0xfa]"

fun genBytes :: "'r rand \<Rightarrow> nat \<Rightarrow> ('r, bytes) op" where
  "genBytes R 0 = returnM []"
| "genBytes R (Suc j) = bindM (Intn R 256) (\<lambda>b. bindM (genBytes R j) (\<lambda>bs. returnM (word_of_nat b # bs)))"

definition genInstr :: "'r rand \<Rightarrow> ('r, bytes) op" where
  "genInstr R =
     bindM (Intn R 3) (\<lambda>a.
       if a = 0 then bindM (Intn R 256) (\<lambda>b. returnM [0x60, word_of_nat b])
       else bindM (Intn R 16) (\<lambda>c.
         if c = 0 then bindM (genBytes R 32) (\<lambda>bs. returnM (0x7f # bs))
         else bindM (Intn R (length genOps)) (\<lambda>i. bindM (index genOps i) (\<lambda>b. returnM [b]))))"

fun genRun :: "'r rand \<Rightarrow> nat \<Rightarrow> ('r, bytes) op" where
  "genRun R 0 = returnM []"
| "genRun R (Suc i) = bindM (genInstr R) (\<lambda>c. bindM (genRun R i) (\<lambda>cs. returnM (c @ cs)))"

definition genBody :: "'r rand \<Rightarrow> ('r, bytes) op" where
  "genBody R = bindM (Intn R 48) (\<lambda>n. genRun R (8 + n))"

definition terminal :: "'r rand \<Rightarrow> ('r, bytes) op" where
  "terminal R = bindM (Intn R 3) (\<lambda>i.
     returnM (if i = 0 then [0x00] else if i = 1 then [0x60, 0x20, 0x60, 0x00, 0xf3] else [0x60, 0x00, 0x60, 0x00, 0xfd]))"

definition genProgram :: "'r rand \<Rightarrow> ('r, bytes) op" where
  "genProgram R = bindM (genBody R) (\<lambda>b. bindM (terminal R) (\<lambda>t. returnM (b @ t)))"

definition callSeq :: "bytes \<Rightarrow> bytes" where
  "callSeq to21 = [0x60, 0x00, 0x60, 0x00, 0x60, 0x00, 0x60, 0x00, 0x60, 0x00] @ [0x73] @ take 20 (drop 1 to21) @
     [0x62, 0xff, 0xff, 0xff] @ [0xf1, 0x50]"

section \<open>Cases\<close>

definition genStake :: "'r rand \<Rightarrow> ('r, int64 \<times> int64) op" where
  "genStake R = bindM (Intn R 2) (\<lambda>x.
     if x = 0 then bindM (Intn R 10) (\<lambda>s. bindM (Intn R 100) (\<lambda>w. returnM (word_of_nat s * 1000000, 1 + word_of_nat w)))
     else returnM (0, 0))"

definition genStorage :: "'r rand \<Rightarrow> ('r, (string, string) fmap) op" where
  "genStorage R = bindM (Intn R 2) (\<lambda>x.
     if x = 0 then bindM (Intn R 4) (\<lambda>k. bindM (Intn R 255) (\<lambda>v.
       returnM (fmupd (hexEncode [word_of_nat k]) (hexEncode [word_of_nat (1 + v)]) fmempty)))
     else returnM fmempty)"

definition genWorld :: "int64 \<times> int64 \<Rightarrow> int32 \<Rightarrow> int64 \<Rightarrow> bytes \<Rightarrow> bytes \<Rightarrow> (string, string) fmap \<Rightarrow> World" where
  "genWorld = (\<lambda>(stake, weight) version fee codeA codeB storage.
     \<lparr>wo_Version = version,
      wo_DynamicProps = \<lparr>op_TotalEnergyWeight = weight, op_TotalEnergyCurrentLimit = 1000000000, op_SupportUnfreezeDelay = False,
        op_AllowNewReward = False, op_EnergyFee = fee\<rparr>,
      wo_Block = \<lparr>ob_Number = 5000000, ob_Timestamp = 1600000000000, ob_Witness = genAddr 0x09\<rparr>,
      wo_Accounts = fmap_of_list
        [(genAddr 0x01, \<lparr>oa_Balance = 1000000000, oa_Code = '''', oa_Storage = fmempty, oa_EnergyStake = stake\<rparr>),
         (genAddr 0x02, \<lparr>oa_Balance = 0, oa_Code = hexEncode codeA, oa_Storage = fmempty, oa_EnergyStake = 0\<rparr>),
         (genAddr 0x03, \<lparr>oa_Balance = 0, oa_Code = hexEncode codeB, oa_Storage = storage, oa_EnergyStake = 0\<rparr>)]\<rparr>)"

definition genTx :: OracleTx where
  "genTx = \<lparr>ot_Type = ''TriggerSmartContract'', ot_Owner = genAddr 0x01, ot_Contract = genAddr 0x02, ot_Data = '''', ot_Bytecode = '''',
     ot_CallValue = 0, ot_FeeLimit = 1000000000, ot_TxID = ''''\<rparr>"

definition genFrom :: "'r rand \<Rightarrow> ('r, World) op" where
  "genFrom R =
     bindM (genProgram R) (\<lambda>progA.
     bindM (genProgram R) (\<lambda>codeB.
     bindM (genStake R) (\<lambda>stake.
     bindM (Intn R 3) (\<lambda>i. bindM (index [8, 19, 23] i) (\<lambda>version.
     bindM (Intn R 4) (\<lambda>j. bindM (index [100, 140, 280, 420] j) (\<lambda>fee.
     bindM (genStorage R) (\<lambda>storage.
       returnM (genWorld stake version fee (callSeq (genAddrBytes 0x03) @ progA) codeB storage)))))))))"

definition GenCase :: "'r rand \<Rightarrow> bytes \<Rightarrow> (World \<times> OracleTx) result" where
  "GenCase R seed = bindE (fst (genFrom R (ra_NewSource R (fnv64a seed 14695981039346656037)))) (\<lambda>w. Inr (w, genTx))"

section \<open>Every draw succeeds\<close>

text \<open>An operation that succeeds from every state, with a result that satisfies \<open>P\<close>.\<close>

definition yields :: "('r, 'a) op \<Rightarrow> ('a \<Rightarrow> bool) \<Rightarrow> bool" where
  "yields m P \<longleftrightarrow> (\<forall>r. \<exists>x r'. m r = (Inr x, r') \<and> P x)"

named_theorems yields_intros \<open>introduction rules for the judgment yields\<close>

lemma yields_returnM [yields_intros]: "P x \<Longrightarrow> yields (returnM x) P"
  by (simp add: yields_def)

lemma yields_bindM:
  assumes "yields m Q" "\<And>x. Q x \<Longrightarrow> yields (f x) P"
  shows "yields (bindM m f) P"
  unfolding yields_def
proof
  fix r
  obtain x r' where "m r = (Inr x, r')" "Q x" using assms(1) unfolding yields_def by blast
  then show "\<exists>y r'. bindM m f r = (Inr y, r') \<and> P y" using assms(2) [of x] by (simp add: yields_def bindM_def)
qed

lemma yields_mono: "yields m Q \<Longrightarrow> (\<And>x. Q x \<Longrightarrow> P x) \<Longrightarrow> yields m P"
  unfolding yields_def by blast

lemma yields_if [yields_intros]: "(b \<Longrightarrow> yields m P) \<Longrightarrow> (\<not> b \<Longrightarrow> yields n P) \<Longrightarrow> yields (if b then m else n) P"
  by simp

lemma yields_Intn: "intn_ok R \<Longrightarrow> 0 < n \<Longrightarrow> yields (Intn R n) (\<lambda>i. i < n)"
  unfolding yields_def Intn_def intn_ok_def by (metis (mono_tags, lifting) case_prod_conv prod.collapse)

lemma yields_index: "i < length xs \<Longrightarrow> yields (index xs i) (\<lambda>x. x \<in> set xs)"
  by (simp add: yields_def index_def)

lemma yields_genBytes: "intn_ok R \<Longrightarrow> yields (genBytes R n) (\<lambda>bs. length bs = n)"
proof (induction n)
  case (Suc n)
  show ?case unfolding genBytes.simps
    by (rule yields_bindM [OF yields_Intn [OF Suc.prems]], simp, rule yields_bindM [OF Suc.IH [OF Suc.prems]], rule yields_returnM) simp
qed (simp add: yields_returnM)

section \<open>Generated programs\<close>

text \<open>A program as its instructions, each with the immediate bytes the machine skips.\<close>

fun instrs :: "bytes \<Rightarrow> (byte \<times> bytes) list" where
  "instrs [] = []"
| "instrs (b # bs) = (case pushBytes b of Some n \<Rightarrow> (b, take n bs) # instrs (drop n bs) | None \<Rightarrow> (b, []) # instrs bs)"

definition wellCut :: "bytes \<Rightarrow> bool" where
  "wellCut code \<longleftrightarrow> (\<forall>(b, imm) \<in> set (instrs code). length imm = (case pushBytes b of Some n \<Rightarrow> n | None \<Rightarrow> 0))"

definition genAlphabet :: "byte set" where
  "genAlphabet = set genOps \<union> {0x60, 0x62, 0x73, 0x7f} \<union> {0x00, 0xf3, 0xfd}"

text \<open>Complete instructions over the alphabet of the generator.\<close>

definition snippet :: "bytes \<Rightarrow> bool" where
  "snippet code \<longleftrightarrow> wellCut code \<and> fst ` set (instrs code) \<subseteq> genAlphabet"

lemma instrs_append: "wellCut c \<Longrightarrow> instrs (c @ d) = instrs c @ instrs d"
proof (induction c rule: instrs.induct)
  case (2 b bs)
  then show ?case by (cases "pushBytes b") (auto simp: wellCut_def)
qed simp

lemma snippet_append: "snippet c \<Longrightarrow> snippet d \<Longrightarrow> snippet (c @ d)"
  using instrs_append [of c d] by (auto simp: snippet_def wellCut_def)

lemma genOps_push: "b \<in> set genOps \<Longrightarrow> pushBytes b = None"
  by (auto simp: genOps_def pushBytes_def word_le_nat_alt)

lemma snippet_op: "b \<in> set genOps \<Longrightarrow> snippet [b]"
  using genOps_push [of b] by (auto simp: snippet_def wellCut_def genAlphabet_def)

lemma snippet_PUSH:
  "snippet [0x60, b]" "length bs = 32 \<Longrightarrow> snippet (0x7f # bs)" "length bs = 20 \<Longrightarrow> snippet (0x73 # bs)"
  "snippet [0x62, b, c, d]"
  by (auto simp: snippet_def wellCut_def genAlphabet_def pushBytes_def)

lemma snippet_Nil: "snippet []"
  by (simp add: snippet_def wellCut_def)

lemma yields_genInstr:
  assumes "intn_ok R"
  shows "yields (genInstr R) (\<lambda>c. snippet c \<and> length c \<le> 33)"
proof -
  note draw = yields_bindM [OF yields_Intn [OF assms]]
  have op: "yields (bindM (Intn R (length genOps)) (\<lambda>i. bindM (index genOps i) (\<lambda>b. returnM [b]))) (\<lambda>c. snippet c \<and> length c \<le> 33)"
    by (rule draw) (auto simp: genOps_def intro!: yields_bindM [OF yields_index] yields_returnM snippet_op [unfolded genOps_def])
  show ?thesis unfolding genInstr_def
    by (intro draw yields_if op yields_returnM yields_bindM [OF yields_genBytes [OF assms]]) (simp_all add: snippet_PUSH)
qed

lemma yields_genRun:
  assumes "intn_ok R"
  shows "yields (genRun R n) (\<lambda>c. snippet c \<and> length c \<le> n * 33)"
proof (induction n)
  case (Suc n)
  show ?case unfolding genRun.simps
    by (rule yields_bindM [OF yields_genInstr [OF assms]], rule yields_bindM [OF Suc], rule yields_returnM) (auto intro: snippet_append)
next
  case 0
  show ?case unfolding genRun.simps by (rule yields_returnM) (simp add: snippet_Nil)
qed

text \<open>A program: complete instructions of the alphabet, the last of which halts.\<close>

definition program :: "bytes \<Rightarrow> bool" where
  "program c \<longleftrightarrow> snippet c \<and> instrs c \<noteq> [] \<and> fst (last (instrs c)) \<in> {0x00, 0xf3, 0xfd}"

lemma program_append: "snippet c \<Longrightarrow> program d \<Longrightarrow> program (c @ d)"
  using instrs_append [of c d] snippet_append [of c d] by (auto simp: program_def snippet_def)

lemma program_terminal: "program [0x00]" "program [0x60, 0x20, 0x60, 0x00, 0xf3]" "program [0x60, 0x00, 0x60, 0x00, 0xfd]"
  by (auto simp: program_def snippet_def wellCut_def genAlphabet_def pushBytes_def)

lemma yields_genProgram:
  assumes "intn_ok R"
  shows "yields (genProgram R) (\<lambda>c. program c \<and> length c \<le> 1820)"
proof -
  have body: "yields (genBody R) (\<lambda>c. snippet c \<and> length c \<le> 1815)"
    unfolding genBody_def
  proof (rule yields_bindM [OF yields_Intn [OF assms]])
    fix n :: nat assume "n < 48"
    then show "yields (genRun R (8 + n)) (\<lambda>c. snippet c \<and> length c \<le> 1815)"
      by (intro yields_mono [OF yields_genRun [OF assms]]) auto
  qed simp
  have halt: "yields (terminal R) (\<lambda>c. program c \<and> length c \<le> 5)"
    unfolding terminal_def
    by (rule yields_bindM [OF yields_Intn [OF assms]], simp, rule yields_returnM) (simp add: program_terminal)
  have fin: "yields (bindM (terminal R) (\<lambda>t. returnM (b @ t))) (\<lambda>c. program c \<and> length c \<le> 1820)"
    if "snippet b \<and> length b \<le> 1815" for b
    by (rule yields_bindM [OF halt], rule yields_returnM) (use that in \<open>auto intro: program_append\<close>)
  show ?thesis unfolding genProgram_def by (rule yields_bindM [OF body fin])
qed

lemma snippet_callSeq: "length to21 = 21 \<Longrightarrow> snippet (callSeq to21) \<and> length (callSeq to21) = 37"
proof -
  assume "length to21 = 21"
  then have "snippet (0x73 # take 20 (drop 1 to21))" by (intro snippet_PUSH(3)) simp
  moreover have "callSeq to21 = [0x60, 0] @ [0x60, 0] @ [0x60, 0] @ [0x60, 0] @ [0x60, 0] @ (0x73 # take 20 (drop 1 to21)) @
      [0x62, 0xff, 0xff, 0xff] @ [0xf1] @ [0x50]"
    by (simp add: callSeq_def)
  moreover have "snippet [0xf1]" "snippet [0x50]" by (simp_all add: snippet_op genOps_def)
  ultimately show ?thesis using \<open>length to21 = 21\<close> by (simp only: snippet_append snippet_PUSH) (simp add: callSeq_def)
qed

section \<open>Generated worlds\<close>

lemma trimPrefix_hexEncode [simp]: "trimPrefix (hexEncode bs) ''0x'' = hexEncode bs"
proof -
  have "hexChar n \<noteq> CHR ''x''" if "n < 16" for n
    using hexDigit_hexChar [OF that] by (auto simp: hexDigit_def)
  then show ?thesis by (cases bs) (auto simp: trimPrefix_def hexEncode_def)
qed

lemma hexEncode_empty [simp]: "hexEncode bs = [] \<longleftrightarrow> bs = []"
  by (cases bs) (simp_all add: hexEncode_def)

lemma oracleHex_hexEncode [simp]: "oracleHex (hexEncode bs) = Inr bs"
  by (cases "hexEncode bs = []") (simp_all add: oracleHex_def hexE_def)

lemma decodeAddr_hexEncode [simp]: "bs \<noteq> [] \<Longrightarrow> decodeAddr (hexEncode bs) = Inr bs"
  by (simp add: decodeAddr_def)

lemma oracleWord32_hexEncode: "length bs \<le> 32 \<Longrightarrow> \<exists>w. oracleWord32 (hexEncode bs) = Inr w"
  by (simp add: oracleWord32_def)

text \<open>A world every part of which decodes.\<close>

definition decodable :: "World \<Rightarrow> bool" where
  "decodable w \<longleftrightarrow> (\<forall>addr acct. fmlookup (wo_Accounts w) addr = Some acct \<longrightarrow>
     (\<exists>a. decodeAddr addr = Inr a) \<and> (\<exists>c. oracleHex (oa_Code acct) = Inr c) \<and>
     (\<forall>k v. fmlookup (oa_Storage acct) k = Some v \<longrightarrow> (\<exists>x y. oracleWord32 k = Inr x \<and> oracleWord32 v = Inr y)))"

lemma loadWorldSlots_runs:
  assumes "\<forall>(k, v) \<in> set ps. \<exists>x y. oracleWord32 k = Inr x \<and> oracleWord32 v = Inr y"
  shows "\<exists>st'. loadWorldSlots addr ps st = Inr st'"
  using assms by (induction ps arbitrary: st) (case_tac st; force)+

lemma loadWorld_runs:
  assumes "range_order sord" "decodable w"
  shows "\<exists>st. loadWorld sord w = Inr st"
proof -
  have acct: "\<exists>st'. loadWorldAccount sord addr acct st = Inr st'" if at: "fmlookup (wo_Accounts w) addr = Some acct" for addr acct st
  proof -
    have "\<exists>st'. loadWorldSlots a (entriesOf sord (oa_Storage acct)) st1 = Inr st'" for a st1
      using assms(2) that by (intro loadWorldSlots_runs) (auto simp: entriesOf_set(1) [OF assms(1)] decodable_def)
    moreover obtain mem input where "st = (mem, input)" by force
    moreover obtain a c where "decodeAddr addr = Inr a" "oracleHex (oa_Code acct) = Inr c"
      using assms(2) at unfolding decodable_def by blast
    ultimately show ?thesis
      by (fastforce simp: loadWorldAccount_def Let_def bindE_eq_Inr)
  qed
  have "\<exists>st'. loadWorldAccounts sord as st = Inr st'" if "\<forall>(k, v) \<in> set as. fmlookup (wo_Accounts w) k = Some v" for as st
    using that
  proof (induction as arbitrary: st)
    case (Cons x as)
    then show ?case using acct [of "fst x" "snd x" st] by (cases x) fastforce
  qed simp
  then show ?thesis unfolding loadWorld_def by (auto simp: entriesOf_set(1) [OF assms(1)])
qed

lemma yields_genStorage:
  assumes "intn_ok R"
  shows "yields (genStorage R) (\<lambda>m. \<forall>k v. fmlookup m k = Some v \<longrightarrow> (\<exists>x y. oracleWord32 k = Inr x \<and> oracleWord32 v = Inr y))"
  unfolding genStorage_def
  by (intro yields_bindM [OF yields_Intn [OF assms]] yields_if yields_returnM) (auto simp: oracleWord32_hexEncode)

lemma decodable_genWorld:
  assumes "\<forall>k v. fmlookup storage k = Some v \<longrightarrow> (\<exists>x y. oracleWord32 k = Inr x \<and> oracleWord32 v = Inr y)"
  shows "decodable (genWorld stake version fee codeA codeB storage)"
  using assms
  by (auto simp: decodable_def genWorld_def genAddr_def genAddrBytes_def fmlookup_of_list split: prod.splits if_splits)
    (simp_all add: oracleHex_def)

text \<open>What the generator makes of any seed.\<close>

definition genCaseOk :: "World \<Rightarrow> bool" where
  "genCaseOk w \<longleftrightarrow> decodable w \<and> (\<exists>stake version fee codeA codeB storage. w = genWorld stake version fee codeA codeB storage \<and>
     program codeA \<and> program codeB \<and> length codeA \<le> 1857 \<and> length codeB \<le> 1820)"

lemma yields_genFrom:
  assumes "intn_ok R"
  shows "yields (genFrom R) genCaseOk"
proof -
  note draw = yields_bindM [OF yields_Intn [OF assms]] and prog = yields_bindM [OF yields_genProgram [OF assms]]
  have stake: "yields (genStake R) (\<lambda>_. True)"
    unfolding genStake_def by (intro draw yields_if yields_returnM) simp_all
  have fin: "yields (bindM (genStorage R) (\<lambda>storage. returnM (genWorld st version fee (callSeq (genAddrBytes 0x03) @ progA) codeB storage))) genCaseOk"
    if "program progA \<and> length progA \<le> 1820" "program codeB \<and> length codeB \<le> 1820" for st version fee progA codeB
  proof (rule yields_bindM [OF yields_genStorage [OF assms]], rule yields_returnM)
    fix storage assume st: "\<forall>k v. fmlookup storage k = Some v \<longrightarrow> (\<exists>x y. oracleWord32 k = Inr x \<and> oracleWord32 v = Inr y)"
    have seq: "snippet (callSeq (genAddrBytes 0x03))" "length (callSeq (genAddrBytes 0x03)) = 37"
      using snippet_callSeq [of "genAddrBytes 0x03"] by (simp_all add: genAddrBytes_def)
    have "program (callSeq (genAddrBytes 0x03) @ progA)" "length (callSeq (genAddrBytes 0x03) @ progA) \<le> 1857"
      using that(1) seq program_append by simp_all
    then show "genCaseOk (genWorld st version fee (callSeq (genAddrBytes 0x03) @ progA) codeB storage)"
      unfolding genCaseOk_def using decodable_genWorld [OF st] that(2) by blast
  qed
  show ?thesis unfolding genFrom_def
    by (intro prog yields_bindM [OF stake] draw yields_bindM [OF yields_index] fin) simp_all
qed

section \<open>Properties\<close>

text \<open>
  Whatever the seed, the generator produces a case without an index out of range, and the code of
  each of its contracts is a program: every instruction is of the alphabet, no immediate is cut off,
  no jump, creation or destruction occurs, the last instruction halts, and the length is bounded.
\<close>

theorem GenCase_programs:
  assumes "intn_ok R"
  shows "\<exists>w. GenCase R seed = Inr (w, genTx) \<and>
    (\<forall>addr acct. fmlookup (wo_Accounts w) addr = Some acct \<longrightarrow> oa_Code acct = [] \<or>
      (\<exists>code. oa_Code acct = hexEncode code \<and> length code \<le> 1857 \<and> wellCut code \<and> fst ` set (instrs code) \<subseteq> genAlphabet \<and>
        instrs code \<noteq> [] \<and> fst (last (instrs code)) \<in> {0x00, 0xf3, 0xfd}))"
proof -
  obtain w r' where w: "genFrom R (ra_NewSource R (fnv64a seed 14695981039346656037)) = (Inr w, r')" "genCaseOk w"
    using yields_genFrom [OF assms] unfolding yields_def by blast
  then obtain stake version fee codeA codeB storage where gw: "w = genWorld stake version fee codeA codeB storage"
    "program codeA" "program codeB" "length codeA \<le> 1857" "length codeB \<le> 1820"
    unfolding genCaseOk_def by blast
  then have "oa_Code acct = [] \<or> (\<exists>code. oa_Code acct = hexEncode code \<and> program code \<and> length code \<le> 1857)"
    if "fmlookup (wo_Accounts w) addr = Some acct" for addr acct
    using that by (fastforce simp: genWorld_def fmlookup_of_list split: prod.splits if_splits)
  then show ?thesis using w(1) by (force simp: GenCase_def program_def snippet_def)
qed

lemma oracleRun_ends:
  "\<exists>n r. (\<forall>k. oracleRun (n + k) lib w tx c mem = r) \<and>
     (case r of Inr _ \<Rightarrow> True | Inl e \<Rightarrow> e = Panic ''makeslice: len out of range'')"
proof -
  let ?env = "oracleEnv lib w tx"
  let ?s = "oracleFund (isCreate tx) c (snd (trackRead ms_Snapshot \<lparr>tr_db = mem, tr_writes = fmempty\<rparr>))"
  have "unat (oracleBudget w tx c mem) < 2 ^ 63" using positive_63 by (simp add: oracleBudget_def Let_def)
  from Execute_ends [OF this] obtain n r where r: "r \<noteq> NoFuel"
    "\<And>k. evm_Execute (n + k) ?env (vm_frame c) (vc_input c) (oracleBudget w tx c mem) ?s = r" by metis
  have crash: "m = ''makeslice: len out of range''" if "r = Crash m" for m
    using evm_Execute_safe r(2) [of 0] that by fastforce
  show ?thesis
  proof (rule exI [of _ n], rule exI [of _ "oracleRun n lib w tx c mem"], intro conjI allI)
    show "oracleRun (n + k) lib w tx c mem = oracleRun n lib w tx c mem" for k
      using r(2) [of k] r(2) [of 0] by (simp add: oracleRun_def split_beta Let_def)
    show "case oracleRun n lib w tx c mem of Inr _ \<Rightarrow> True | Inl e \<Rightarrow> e = Panic ''makeslice: len out of range''"
      using r(1) r(2) [of 0] Execute_no_Fault [of n ?env "vm_frame c" "vc_input c" "oracleBudget w tx c mem" ?s] crash
      by (cases r) (auto simp: oracleRun_def split_beta Let_def)
  qed
qed

text \<open>
  C27: Every generated case runs to an end in the local executor: the world loads, the transaction is
  accepted, some number of interpreter steps gives a report and more steps the same one. The one
  panic a case can meet is the allocation inside the modular exponentiation contract.
\<close>

theorem GenCase_executes:
  assumes "intn_ok R" "range_order sord"
  shows "\<exists>w. GenCase R seed = Inr (w, genTx) \<and> (\<exists>n r. (\<forall>k. Oracle_Execute (n + k) lib sord ord w genTx = r) \<and>
    (case r of Inr _ \<Rightarrow> True | Inl e \<Rightarrow> e = Panic ''makeslice: len out of range''))"
proof -
  obtain w r' where w: "genFrom R (ra_NewSource R (fnv64a seed 14695981039346656037)) = (Inr w, r')" "genCaseOk w"
    using yields_genFrom [OF assms(1)] unfolding yields_def by blast
  then obtain mem input where "loadWorld sord w = Inr (mem, input)"
    using loadWorld_runs [OF assms(2), of w] by (auto simp: genCaseOk_def)
  then obtain c where c: "oracleSetup lib sord w genTx = Inr (c, mem, input)"
    by (simp add: oracleSetup_def genTx_def isCreate_def oracleCall_def genAddr_def genAddrBytes_def oracleHex_def)
  obtain n r where n: "\<And>k. oracleRun (n + k) lib w genTx c mem = r"
    "case r of Inr _ \<Rightarrow> True | Inl e \<Rightarrow> e = Panic ''makeslice: len out of range''"
    using oracleRun_ends [of lib w genTx c mem] by blast
  have "\<forall>k. Oracle_Execute (n + k) lib sord ord w genTx = bindE r (\<lambda>out. Inr (oracleReport ord w genTx c input out))"
    by (simp add: Oracle_Execute_def c n(1))
  moreover have "case bindE r (\<lambda>out. Inr (oracleReport ord w genTx c input out)) of Inr _ \<Rightarrow> True | Inl e \<Rightarrow> e = Panic ''makeslice: len out of range''"
    using n(2) by (cases r) simp_all
  ultimately show ?thesis using w(1) by (auto simp: GenCase_def)
qed

text \<open>A linear congruential generator in place of \<open>math/rand\<close>.\<close>

definition lcg :: "uint64 rand" where
  "lcg = \<lparr>ra_NewSource = (\<lambda>x. x), ra_Intn = (\<lambda>n r. (unat (drop_bit 33 r) mod n, r * 6364136223846793005 + 1442695040888963407))\<rparr>"

lemma lcg_ok: "intn_ok lcg"
  by (simp add: intn_ok_def lcg_def)

theorem GenCase_programs_witness:
  "\<exists>w. GenCase lcg [1, 2, 3] = Inr (w, genTx) \<and>
    (\<forall>addr acct. fmlookup (wo_Accounts w) addr = Some acct \<longrightarrow> oa_Code acct = [] \<or>
      (\<exists>code. oa_Code acct = hexEncode code \<and> length code \<le> 1857 \<and> wellCut code \<and> fst ` set (instrs code) \<subseteq> genAlphabet \<and>
        instrs code \<noteq> [] \<and> fst (last (instrs code)) \<in> {0x00, 0xf3, 0xfd}))"
  by (rule GenCase_programs [OF lcg_ok])

theorem GenCase_executes_witness:
  "\<exists>w. GenCase lcg [1, 2, 3] = Inr (w, genTx) \<and>
    (\<exists>n r. (\<forall>k. Oracle_Execute (n + k) sampleLib sorted_list_of_fset sorted_list_of_fset w genTx = r) \<and>
      (case r of Inr _ \<Rightarrow> True | Inl e \<Rightarrow> e = Panic ''makeslice: len out of range''))"
  by (rule GenCase_executes [OF lcg_ok range_order_sorted])

end
