(* ===== verification/Oracle_Client.thy ===== *)
theory Oracle_Client
  imports Oracle_Gen
begin

text \<open>
  The client of the external half of the oracle (\<open>internal/vmoracle/client.go\<close>): one request per line to a
  child process, one line back. The process, its pipes and the JSON encoding are parameters (\<open>proc\<close>,
  \<open>oracleJson\<close>). The client serialises its requests with a mutex, so a round trip is one step; \<open>Close\<close>
  does not take that mutex, and a \<open>Close\<close> during a round trip is not modelled. A working directory is the
  list of the components of its absolute path; a command is a string of ASCII characters.
\<close>

section \<open>The process and the wire\<close>

record Request =
  rq_Method :: string
  rq_World :: "World option"
  rq_Tx :: "OracleTx option"

datatype scanned = Line bytes | ScanErr error | Eof

record 'p proc =
  pr_write :: "bytes \<Rightarrow> ('p, unit) op"
  pr_scan :: "'p \<Rightarrow> scanned \<times> 'p"
  pr_closeStdin :: "('p, unit) op"
  pr_wait :: "('p, unit) op"

record oracleJson =
  oj_request :: "Request \<Rightarrow> bytes result"
  oj_failure :: "bytes \<Rightarrow> string result"
  oj_ping :: "bytes \<Rightarrow> (string, string) fmap result"
  oj_execution :: "bytes \<Rightarrow> Execution result"

section \<open>Starting the process\<close>

definition isSpace :: "char \<Rightarrow> bool" where
  "isSpace c \<longleftrightarrow> of_char c \<in> {9, 10, 11, 12, 13, 32 :: nat}"

record 'p launcher =
  la_stdin :: "error option"
  la_stdout :: "error option"
  la_start :: "'p result"

record 'p OracleClient =
  cl_proc :: 'p
  cl_closed :: bool

definition NewOracleClient :: "(string \<Rightarrow> 'p launcher) \<Rightarrow> string \<Rightarrow> 'p OracleClient result" where
  "NewOracleClient launch command =
     (if dropWhile isSpace command = [] then Inl (Err ''oracle command is empty'')
      else case la_stdin (launch command) of Some e \<Rightarrow> Inl (Wrap ''oracle stdin'' e)
      | None \<Rightarrow> (case la_stdout (launch command) of Some e \<Rightarrow> Inl (Wrap ''oracle stdout'' e)
      | None \<Rightarrow> bindE (wrapE ''start oracle'' (la_start (launch command))) (\<lambda>p. Inr \<lparr>cl_proc = p, cl_closed = False\<rparr>)))"

definition runSh :: string where "runSh = ''tools/jtron-oracle/run.sh''"

definition pathOf :: "string list \<Rightarrow> string" where
  "pathOf comps = concat (map (\<lambda>c. CHR ''/'' # c) comps) @ CHR ''/'' # runSh"

text \<open>The search goes up from the working directory and stops at the root without looking there.\<close>

function searchUp :: "(string \<Rightarrow> bool) \<Rightarrow> string list \<Rightarrow> string option" where
  "searchUp stat directory =
     (if directory = [] then None
      else if stat (pathOf directory) then Some (pathOf directory)
      else searchUp stat (butlast directory))"
  by auto
termination by (relation "measure (\<lambda>(_, d). length d)") auto

declare searchUp.simps [simp del]

definition defaultOracleCommand :: "(string \<Rightarrow> bool) \<Rightarrow> string list result \<Rightarrow> string" where
  "defaultOracleCommand stat getwd =
     (if stat runSh then runSh
      else case getwd of Inl _ \<Rightarrow> runSh | Inr wd \<Rightarrow> (case searchUp stat wd of Some c \<Rightarrow> c | None \<Rightarrow> runSh))"

definition NewOracleClientFromEnv :: "(string \<Rightarrow> 'p launcher) \<Rightarrow> string \<Rightarrow> (string \<Rightarrow> bool) \<Rightarrow> string list result \<Rightarrow> 'p OracleClient result" where
  "NewOracleClientFromEnv launch env stat getwd = NewOracleClient launch (if env = [] then defaultOracleCommand stat getwd else env)"

section \<open>Requests\<close>

definition onProc :: "('p, 'a) op \<Rightarrow> ('p OracleClient, 'a) op" where
  "onProc f c = (case f (cl_proc c) of (r, p) \<Rightarrow> (r, c\<lparr>cl_proc := p\<rparr>))"

definition scanLine :: "'p proc \<Rightarrow> ('p, bytes) op" where
  "scanLine P p = (case pr_scan P p of
      (Line l, p') \<Rightarrow> (Inr l, p')
    | (ScanErr e, p') \<Rightarrow> (Inl (Wrap ''read oracle response'' e), p')
    | (Eof, p') \<Rightarrow> (Inl (Err ''oracle exited before response''), p'))"

definition roundTrip :: "'p proc \<Rightarrow> oracleJson \<Rightarrow> Request \<Rightarrow> (bytes \<Rightarrow> 'a result) \<Rightarrow> ('p OracleClient, 'a) op" where
  "roundTrip P J request response c =
     (if cl_closed c then (Inl (Err ''oracle client is closed''), c)
      else bindM (liftM (wrapE ''marshal oracle request'' (oj_request J request))) (\<lambda>payload.
           bindM (onProc (wrapM ''write oracle request'' (pr_write P (payload @ [10])))) (\<lambda>_.
           bindM (onProc (scanLine P)) (\<lambda>line.
           bindM (liftM (wrapE ''decode oracle response'' (oj_failure J line))) (\<lambda>failure.
           bindM (liftM (check (failure \<noteq> []) (Err failure))) (\<lambda>_.
             liftM (wrapE ''decode oracle result'' (response line))))))) c)"

definition Ping :: "'p proc \<Rightarrow> oracleJson \<Rightarrow> ('p OracleClient, (string, string) fmap) op" where
  "Ping P J = roundTrip P J \<lparr>rq_Method = ''ping'', rq_World = None, rq_Tx = None\<rparr> (oj_ping J)"

definition Client_Execute :: "'p proc \<Rightarrow> oracleJson \<Rightarrow> World \<Rightarrow> OracleTx \<Rightarrow> ('p OracleClient, Execution) op" where
  "Client_Execute P J world tx = roundTrip P J \<lparr>rq_Method = [], rq_World = Some world, rq_Tx = Some tx\<rparr> (oj_execution J)"

definition Client_Close :: "'p proc \<Rightarrow> ('p OracleClient, unit) op" where
  "Client_Close P c =
     (if cl_closed c then (Inr (), c)
      else case pr_closeStdin P (cl_proc c) of
        (r1, p1) \<Rightarrow> (case pr_wait P p1 of (r2, p2) \<Rightarrow> ((case r1 of Inl e \<Rightarrow> Inl e | Inr _ \<Rightarrow> r2), \<lparr>cl_proc = p2, cl_closed = True\<rparr>)))"

section \<open>Properties\<close>

text \<open>The search ends, and what it finds exists.\<close>

lemma searchUp_found: "searchUp stat d = Some c \<Longrightarrow> stat c \<and> (\<exists>k. 0 < k \<and> k \<le> length d \<and> c = pathOf (take k d))"
proof (induction stat d rule: searchUp.induct)
  case (1 stat d)
  show ?case
  proof (cases "d = [] \<or> stat (pathOf d)")
    case True
    with 1(2) show ?thesis by (subst (asm) searchUp.simps) (auto split: if_splits intro!: exI [of _ "length d"])
  next
    case False
    with 1(2) have "searchUp stat (butlast d) = Some c" by (subst (asm) searchUp.simps) simp
    with 1(1) False obtain k where "stat c" "0 < k" "k \<le> length (butlast d)" "c = pathOf (take k (butlast d))" by blast
    then show ?thesis by (auto simp: take_butlast intro!: exI [of _ k])
  qed
qed

text \<open>A closed client sends nothing and reads nothing; closing it again is no error.\<close>

lemma closed_client:
  assumes "cl_closed c"
  shows "roundTrip P J request response c = (Inl (Err ''oracle client is closed''), c)" "Client_Close P c = (Inr (), c)"
  using assms by (simp_all add: roundTrip_def Client_Close_def)

lemma Close_closes_client: "cl_closed (snd (Client_Close P c))"
  by (simp add: Client_Close_def split: prod.split)

text \<open>
  A process that serves an executor \<open>f\<close>: while it is alive it takes a line, and the next line it prints is
  the encoded answer to it. \<open>idle\<close> says that all its answers have been read.
\<close>

definition serves :: "'p proc \<Rightarrow> oracleJson \<Rightarrow> (World \<Rightarrow> OracleTx \<Rightarrow> Execution) \<Rightarrow> ('p \<Rightarrow> bool) \<Rightarrow> bool" where
  "serves P J f idle \<longleftrightarrow> (\<forall>w tx p. idle p \<longrightarrow>
     (\<exists>payload p1 line p2. oj_request J \<lparr>rq_Method = [], rq_World = Some w, rq_Tx = Some tx\<rparr> = Inr payload \<and>
        pr_write P (payload @ [10]) p = (Inr (), p1) \<and> pr_scan P p1 = (Line line, p2) \<and> idle p2 \<and>
        oj_failure J line = Inr [] \<and> oj_execution J line = Inr (f w tx)))"

fun executeAll :: "'p proc \<Rightarrow> oracleJson \<Rightarrow> (World \<times> OracleTx) list \<Rightarrow> ('p OracleClient, Execution list) op" where
  "executeAll P J [] = returnM []"
| "executeAll P J (x # xs) = bindM (Client_Execute P J (fst x) (snd x)) (\<lambda>e. bindM (executeAll P J xs) (\<lambda>es. returnM (e # es)))"

lemma Client_Execute_answers:
  assumes "serves P J f idle" "idle (cl_proc c)" "\<not> cl_closed c"
  shows "\<exists>c'. Client_Execute P J w tx c = (Inr (f w tx), c') \<and> idle (cl_proc c') \<and> \<not> cl_closed c'"
proof -
  obtain payload p1 line p2 where "oj_request J \<lparr>rq_Method = [], rq_World = Some w, rq_Tx = Some tx\<rparr> = Inr payload"
    "pr_write P (payload @ [10]) (cl_proc c) = (Inr (), p1)" "pr_scan P p1 = (Line line, p2)" "idle p2"
    "oj_failure J line = Inr []" "oj_execution J line = Inr (f w tx)"
    using assms(1,2) unfolding serves_def by blast
  then show ?thesis using assms(3) by (simp add: Client_Execute_def roundTrip_def onProc_def wrapM_def bindM_def scanLine_def)
qed

lemma executeAll_answers:
  assumes "serves P J f idle" "idle (cl_proc c)" "\<not> cl_closed c"
  shows "\<exists>c'. executeAll P J xs c = (Inr (map (\<lambda>x. f (fst x) (snd x)) xs), c') \<and> idle (cl_proc c') \<and> \<not> cl_closed c'"
  using assms(2,3)
proof (induction xs arbitrary: c)
  case (Cons x xs)
  obtain c1 where c1: "Client_Execute P J (fst x) (snd x) c = (Inr (f (fst x) (snd x)), c1)" "idle (cl_proc c1)" "\<not> cl_closed c1"
    using Client_Execute_answers [OF assms(1) Cons.prems] by blast
  with Cons.IH [OF c1(2,3)] show ?case by (auto simp: bindM_def)
qed simp

end
