(* ===== verification/Command.thy ===== *)
theory Command
  imports Replay
begin

text \<open>
  The executable: the configuration (\<open>internal/config/config.go\<close>), the construction of a node from it
  (\<open>internal/node/node.go\<close>), the receipt fixtures (\<open>internal/replay/receipt.go\<close>) and the command
  (\<open>cmd/gotron/main.go\<close>). Reading a file and overlaying its JSON on the defaults are parameters, like the
  open error of the storage engine. The command is a function from its flags and what the directories
  hold to its exit code and what they hold then; between start and stop it waits for a signal. Go ends a
  process that panics with exit code 2.
\<close>

section \<open>Configuration\<close>

record Net =
  nt_P2PPort :: int
  nt_P2PVersion :: int
  nt_MaxConnections :: int

record Endpoint =
  ep_Enable :: bool
  ep_Port :: int

record Storage =
  sg_Dir :: string
  sg_Engine :: string

record Config =
  cf_Net :: Net
  cf_HTTP :: Endpoint
  cf_GRPC :: Endpoint
  cf_JSONRPC :: Endpoint
  cf_Storage :: Storage
  cf_Genesis :: "GenesisConfig option"

definition Default :: Config where
  "Default = \<lparr>cf_Net = \<lparr>nt_P2PPort = 18888, nt_P2PVersion = 11111, nt_MaxConnections = 30\<rparr>,
     cf_HTTP = \<lparr>ep_Enable = True, ep_Port = 8090\<rparr>, cf_GRPC = \<lparr>ep_Enable = True, ep_Port = 50051\<rparr>,
     cf_JSONRPC = \<lparr>ep_Enable = False, ep_Port = 8545\<rparr>,
     cf_Storage = \<lparr>sg_Dir = ''output-directory'', sg_Engine = ''pebble''\<rparr>, cf_Genesis = None\<rparr>"

record files =
  fs_ReadFile :: "string \<Rightarrow> bytes result"
  fs_config :: "bytes \<Rightarrow> Config \<Rightarrow> Config result"
  fs_fixture :: "string \<Rightarrow> ReplayFixture result"

definition Config_Load :: "files \<Rightarrow> string \<Rightarrow> Config result" where
  "Config_Load F path =
     (if path = [] then Inr Default
      else bindE (wrapE ''read config'' (fs_ReadFile F path)) (\<lambda>b. wrapE ''parse config'' (fs_config F b Default)))"

section \<open>ReplayReceipt fixtures\<close>

record ReplayReceipt =
  re_Fee :: int64
  re_NetUsage :: int64
  re_NetFee :: int64
  re_EnergyUsage :: int64
  re_EnergyFee :: int64
  re_OriginEnergyUsage :: int64
  re_EnergyUsageTotal :: int64

definition LoadReceipts :: "(string \<Rightarrow> bytes result) \<Rightarrow> (bytes \<Rightarrow> (string, ReplayReceipt) fmap result) \<Rightarrow> string \<Rightarrow> (string, ReplayReceipt) fmap result" where
  "LoadReceipts readFile unmarshal path = bindE (readFile path) (\<lambda>raw. wrapE ''replay: parse'' (unmarshal raw))"

section \<open>The command\<close>

datatype Mode = ModeFullNode | ModeWitness | ModeSolidity

record Options =
  no_Mode :: Mode
  no_P2PDisabled :: bool

text \<open>The subsystems p2p and API are stubs, so a node keeps of its options only whether it would start them.\<close>

definition Node_New :: "Config \<Rightarrow> (string \<Rightarrow> MemKV) \<Rightarrow> Node" where
  "Node_New cfg disk = \<lparr>nd_Genesis = cf_Genesis cfg, nd_Dir = sg_Dir (cf_Storage cfg), nd_Engine = sg_Engine (cf_Storage cfg),
     nd_disk = disk, nd_manager = None\<rparr>"

definition p2pStarts :: "Options \<Rightarrow> bool" where
  "p2pStarts opts \<longleftrightarrow> \<not> no_P2PDisabled opts \<and> no_Mode opts \<noteq> ModeSolidity"

record Flags =
  fl_version :: bool
  fl_config :: string
  fl_witness :: bool
  fl_solidity :: bool
  fl_p2pDisable :: bool
  fl_replay :: string

definition runMode :: "Flags \<Rightarrow> Mode option" where
  "runMode fl =
     (if fl_witness fl \<and> fl_solidity fl then None
      else Some (if fl_witness fl then ModeWitness else if fl_solidity fl then ModeSolidity else ModeFullNode))"

definition exitCode :: "error \<Rightarrow> nat" where
  "exitCode e = (if aborts e then 2 else 1)"

definition runNode :: "host \<Rightarrow> (string \<Rightarrow> error option) \<Rightarrow> Node \<Rightarrow> nat \<times> (string \<Rightarrow> MemKV)" where
  "runNode h pebbleErr n =
     (case Node_Start h pebbleErr n of
        (Inl e, n') \<Rightarrow> (exitCode e, nd_disk n')
      | (Inr _, n') \<Rightarrow> (0, nd_disk (Node_Stop n')))"

definition gotron_main :: "host \<Rightarrow> (bytes \<Rightarrow> TransactionRaw option) \<Rightarrow> files \<Rightarrow> (string \<Rightarrow> error option) \<Rightarrow>
    Flags \<Rightarrow> (string \<Rightarrow> MemKV) \<Rightarrow> nat \<times> (string \<Rightarrow> MemKV)" where
  "gotron_main h unraw F pebbleErr fl disk =
     (if fl_version fl then (0, disk)
      else if fl_replay fl \<noteq> [] then
        (case ReplayFile h unraw (fs_fixture F) (fl_replay fl) of Inl e \<Rightarrow> (exitCode e, disk) | Inr _ \<Rightarrow> (0, disk))
      else case Config_Load F (fl_config fl) of
        Inl e \<Rightarrow> (1, disk)
      | Inr cfg \<Rightarrow>
          (case runMode fl of
             None \<Rightarrow> (2, disk)
           | Some mode \<Rightarrow> runNode h pebbleErr (Node_New cfg disk)))"

section \<open>Properties\<close>

lemma Node_Start_manager: "Node_Start h pebbleErr n = (Inr (), n1) \<Longrightarrow> \<exists>m. n1 = n\<lparr>nd_manager := Some m\<rparr>"
  by (auto simp: Node_Start_def split: if_splits sum.splits prod.splits)

text \<open>The defaults have no genesis: the command opens the store and leaves it as it is.\<close>

lemma main_defaults:
  assumes "\<not> fl_version fl" "fl_replay fl = []" "fl_config fl = []" "\<not> (fl_witness fl \<and> fl_solidity fl)"
    and "pebbleErr ''output-directory'' = None" "loadChainRoot (h_codec h) (disk ''output-directory'') = Inr None"
  shows "gotron_main h unraw F pebbleErr fl disk = (0, disk)"
  using assms by (simp add: gotron_main_def Config_Load_def runMode_def Node_New_def Default_def runNode_def Node_Start_def Db_Open_def
      usesPebble_def OpenPebble_def bootstrapChain_def NewManager_def NewDatabase_def Node_Stop_def closeStore_def)

text \<open>
  Running the command again is harmless. Once a run with a configured genesis on a directory
  without a chain has exited with 0, another run with the same flags restores the root it persisted,
  exits with 0 and leaves every directory as the first run left it.
\<close>

theorem main_again:
  assumes "codec_ok (h_codec h)" "\<not> fl_version fl" "fl_replay fl = []"
    and "Config_Load F (fl_config fl) = Inr cfg" "cf_Genesis cfg = Some gen" "usesPebble (sg_Engine (cf_Storage cfg))"
    and "loadChainRoot (h_codec h) (disk (sg_Dir (cf_Storage cfg))) = Inr None"
    and "gotron_main h unraw F pebbleErr fl disk = (0, disk1)"
  shows "gotron_main h unraw F pebbleErr fl disk1 = (0, disk1)"
proof -
  have mode: "runMode fl \<noteq> None" using assms(2-4,8) by (auto simp: gotron_main_def split: option.splits)
  let ?n = "Node_New cfg disk"
  obtain n1 where n1: "Node_Start h pebbleErr ?n = (Inr (), n1)" "disk1 = nd_disk (Node_Stop n1)"
    using assms(2-4,8) mode by (auto simp: gotron_main_def runNode_def exitCode_def split: option.splits sum.splits prod.splits if_splits)
  obtain n2 where n2: "Node_Start h pebbleErr (Node_Stop n1) = (Inr (), n2)" "Node_Stop n2 = Node_Stop n1"
    using restart_restores [OF assms(1) _ _ _ n1(1), of gen "[]"] assms(5-7) by (auto simp: Node_New_def)
  have "Node_Stop n1 = Node_New cfg disk1"
    using Node_Start_manager [OF n1(1)] n1(2) by (auto simp: Node_New_def Node_Stop_def closeStore_def)
  then show ?thesis using n2 mode n1(2) assms(2-4) by (auto simp: gotron_main_def runNode_def)
qed

definition sampleFiles :: files where
  "sampleFiles = \<lparr>fs_ReadFile = (\<lambda>_. Inr []),
     fs_config = (\<lambda>_ c. Inr (c\<lparr>cf_Storage := \<lparr>sg_Dir = ''data'', sg_Engine = ''pebble''\<rparr>, cf_Genesis := Some sampleGenesis\<rparr>)),
     fs_fixture = (\<lambda>_. Inl (Err ''no such file''))\<rparr>"

definition sampleFlags :: Flags where
  "sampleFlags = \<lparr>fl_version = False, fl_config = ''config.json'', fl_witness = False, fl_solidity = False, fl_p2pDisable = True, fl_replay = []\<rparr>"

theorem main_again_witness:
  "\<exists>disk1. gotron_main sampleHost (\<lambda>_. None) sampleFiles (\<lambda>_. None) sampleFlags (\<lambda>_. fmempty) = (0, disk1) \<and>
     gotron_main sampleHost (\<lambda>_. None) sampleFiles (\<lambda>_. None) sampleFlags disk1 = (0, disk1)"
proof -
  let ?cfg = "Default\<lparr>cf_Storage := \<lparr>sg_Dir = ''data'', sg_Engine = ''pebble''\<rparr>, cf_Genesis := Some sampleGenesis\<rparr>"
  have cfg: "Config_Load sampleFiles (fl_config sampleFlags) = Inr ?cfg" by (simp add: Config_Load_def sampleFiles_def sampleFlags_def)
  have "Node_New ?cfg (\<lambda>_. fmempty) = sampleNode" by (simp add: Node_New_def sampleNode_def)
  then obtain disk1 where run: "gotron_main sampleHost (\<lambda>_. None) sampleFiles (\<lambda>_. None) sampleFlags (\<lambda>_. fmempty) = (0, disk1)"
    using sample_starts cfg by (auto simp: gotron_main_def runNode_def runMode_def sampleFlags_def)
  moreover have "loadChainRoot ref_codec fmempty = Inr None" by (simp add: loadChainRoot_def MemKV_Get_def)
  ultimately show ?thesis
    using main_again [OF _ _ _ cfg _ _ _ run] ref_codec_ok by (auto simp: sampleHost_def sampleFlags_def usesPebble_def)
qed

end
