(* ===== verification/Spec2Isabelle.thy ===== *)
theory Spec2Isabelle
  imports Merkle_Block Address_Base58 Khaos Delegation_Store Resource Reward Freeze Stake2_Delegate Vote Tvm_Safe Pebble Opcodes Tx_Extension Oracle_Client Command
begin

text \<open>
  go-tron is a TRON node in Go: it keeps the chain state in a key-value store with revocable
  sessions, holds the recent blocks in a fork tree, applies the transactions of a block through
  actuators (native contracts and the TRON virtual machine), runs the maintenance windows of the
  delegated proof of stake, and replays captured blocks against recorded values. This development
  models its own code, the Go packages under \<^verbatim>\<open>src/internal\<close>, and proves what makes it correct.

  \<^bold>\<open>How Go is modelled.\<close> \<open>Go_Prelude\<close> has the types: byte slices are lists of \<open>8 word\<close>, \<open>int64\<close> and
  \<open>uint64\<close> are \<open>64 word\<close> (signed comparison \<open>slt\<close>, \<open>sle\<close>, truncating division \<open>quot64\<close>, wrapping sums),
  uint256 is \<open>256 word\<close>, float64 arithmetic is exact rational arithmetic rounded to 53 bits. An error is
  a value of type \<open>error\<close> (sentinels by name, \<open>Err\<close> for a fresh text, \<open>Wrap\<close> for a wrapped one, \<open>Panic\<close>
  for a run-time panic); a read is a function to \<open>error + 'a\<close>, an operation that writes a function
  from the state to a result and the state it leaves, which it also leaves when it fails. A Go map
  is a finite map; where the code ranges over one, the order is an argument (\<open>ord\<close>, \<open>sord\<close>, with
  \<open>range_order\<close>) or the theory shows that it does not matter. The judgments \<open>keeps\<close> (an invariant
  survives an operation, also a failing one) and \<open>runs\<close> (an operation succeeds) carry most proofs.

  \<^bold>\<open>What is a parameter.\<close> Code outside the repository: the protobuf runtime (\<open>codec\<close>, with the
  round-trip hypothesis \<open>codec_ok\<close> and the concrete \<open>ref_codec\<close> of \<open>Proto_Ref\<close> in the witnesses),
  Keccak-256, RIPEMD-160, signature recovery and the BN254 group (\<open>vmlib\<close>), the Pebble engine (\<open>engine\<close>
  with the hypothesis \<open>pebble_ok\<close>; for a node, what a directory holds and its open error), the generator of
  \<open>math/rand\<close> (\<open>rand\<close>, \<open>intn_ok\<close>), the process of the external oracle, reading and parsing JSON files. \<open>Proto_Messages\<close> has the messages
  with the fields the code touches. SHA-256 is of the standard library and written out.

  \<^bold>\<open>Storage.\<close> \<open>Revoking_Db\<close> (db/kv.go, db/snapshot.go): the committed store and the database of nested
  sessions, shown to refine one map (\<open>view\<close>); locales \<open>kv_store\<close> and \<open>revoking\<close>. \<open>Pebble\<close> (db/pebble.go): the
  durable store over a fallible engine, shown to read, write and scan like the in-memory one, which is why
  a node's store is a \<open>MemKV\<close> in the theories above it, and what a failing flush leaves. \<open>Chain_Stores\<close>,
  \<open>Dyn_Properties\<close>, \<open>Delegation_Store\<close> (internal/state): the typed stores with their key layout, the
  dynamic properties and the maintenance clock, and the reward store. The locale \<open>write_inv\<close> states
  an invariant of all store writes once; every actuator and the block pipeline is shown to keep it,
  which gives that a block works inside its session (\<open>opn\<close>) and that sessions stay balanced (\<open>dep\<close>).

  \<^bold>\<open>Blocks and chain.\<close> \<open>Merkle_Block\<close> (crypto, merkle, block): SHA-256, the Merkle root (equal to the
  recursive tree, and binding up to collisions), block ids. \<open>Address_Base58\<close> (address): Base58Check and
  its round trips. \<open>Khaos\<close> (khaos): the fork tree with nodes as pointers; its invariant, the head rule,
  branches and rejection of a tip. \<open>Genesis\<close> (genesis): the genesis block and state. \<open>Manager\<close> and
  \<open>Manager_Props\<close> (node/manager.go): pushing blocks, sessions, fork switches, block processing; a rejected
  block leaves no trace, applied blocks and sessions stay aligned over every reachable state
  (the inductive \<open>reachable\<close>), accounts stay under their own addresses in every one of them and in
  the states below their sessions (the locale \<open>block_inv\<close>), and what a failed fork switch leaves. \<open>Maintenance\<close>: the window of the same
  file and the vote tally. \<open>Node\<close> (node/node.go, node/bootstrap.go, the engine choice of db/pebble.go):
  start, stop and restart. \<open>Command\<close> (config, cmd/gotron, replay/receipt.go): configuration and the command,
  which may be run again. \<open>Tx_Extension\<close> (proto/api/api_extension.go): the hand-written methods on transactions. \<open>Replay\<close> (replay, node/replay.go): fixtures, the historical-state provider,
  seeding and the replay driver.

  \<^bold>\<open>Actuators.\<close> \<open>Actuator_Base\<close> (context and transfers), \<open>Reward\<close>, \<open>Freeze\<close>, \<open>Stake2\<close>,
  \<open>Stake2_Delegate\<close>, \<open>Vote\<close> (actuator/*.go of the same names), \<open>Resource\<close> (resource, bandwidth): validation
  and execution of every contract type, with what each does to balances, stakes and votes, and the
  reward settlement against its query. A settlement writes the account's allowance and the delegation
  store only (\<open>reward_only\<close>), so that the actuators that settle first (unfreezing, voting) are shown
  correct with rewards active or not. What a settlement reads must be readable: \<open>props_wf\<close> (properties of
  eight bytes) and \<open>delegation_wf\<close> (the reward store). \<open>Actuators\<close>: the registry and \<open>Apply\<close>.

  \<^bold>\<open>Virtual machine.\<close> \<open>Tvm_Base\<close>, \<open>Tvm_State\<close>, \<open>Tvm_Precompiles\<close>, \<open>Tvm_Interp\<close> (internal/tvm): stack,
  memory, energy meter, forks, the state interface as a record of operations with the locale
  \<open>state_db\<close>, all precompiled contracts, every opcode with its energy function, calls and creations.
  \<open>Tvm_Props\<close>: the energy bound and termination; \<open>Tvm_Rollback\<close>: failed calls roll back and read-only
  frames change nothing, over any state that satisfies \<open>state_db\<close>; \<open>Tvm_Safe\<close>: no index or slice
  panics; \<open>Tvm_Inv\<close>: the locale \<open>state_inv\<close>, an invariant of the state operations is one of executions.
  \<open>Vm_State\<close>, \<open>Vm_Flush\<close>, \<open>Vm_Actuator\<close>, \<open>Vm_Props\<close> (actuator/vm_statedb.go, energy.go, multisig.go, vm.go):
  the working copy over the stores, its flush, and contract transactions with their bill. \<open>Vm_Oracle\<close> and
  \<open>Oracle_Props\<close> (vmoracle): the local executor of the differential oracle with its write tracking, and the
  comparison of results; \<open>Oracle_Gen\<close> the case generator, whose programs are well formed and whose cases all run
  to an end; \<open>Oracle_Client\<close> the client of the external half. \<open>Opcodes\<close>: the names of opcodes.go against the jump
  table. The in-memory state, the working copy and the tracking database are the
  three interpretations of \<open>state_db\<close>.

  \<^bold>\<open>Fuel.\<close> The interpreter loop takes a number of steps (\<open>OutOfFuel\<close> and \<open>NoFuel\<close> exist in the model
  only). \<open>Execute_terminates\<close> and \<open>Vm_Execute_ends\<close> show that for every input some number of steps gives
  a result and that every larger number gives the same one: each opcode but the halting ones costs
  energy or advances the program counter, and nested frames get less energy than their caller.

  \<^bold>\<open>Not modelled.\<close> Logging, mutexes (operations are whole steps, so a close of the oracle client during a
  request does not occur), flag parsing, encoding/json, the p2p and API stubs, which start and stop
  without effect, the algorithm of \<open>math/rand\<close>, the inside of the Pebble engine, and the generated protobuf code.

  \<^bold>\<open>Idealisations.\<close> \<open>codec_ok\<close> is a round trip for every value of a message record; a protobuf runtime
  gives it for the values a decoder can produce, not for a resource code \<open>ResourceCode_Other 0\<close> or a
  string that is not UTF-8. The two panics of \<open>rightPad\<close>, of the slice (which no input reaches) and of
  \<open>make\<close>, are one value. The \<open>Value\<close> of a call is never nil, as both callers set it, and a jump
  destination is looked up only below the length of the code, which is that of the table.

  The theorems with claim numbers are the properties of the development; each one with hypotheses is
  followed by a witness that applies it to a concrete input.
\<close>

end
